(* ===== verification/Go_Strings.thy ===== *)
theory Go_Strings
  imports Main "HOL-Library.List_Lexorder" "HOL-Library.Char_ord" "HOL-Library.Sublist" "HOL-Library.Code_Target_Nat"
begin

text \<open>
  The prelude: the part of Go's standard library on strings that the modelled packages
  use (\<open>strings\<close>, \<open>strconv\<close>, \<open>net/url\<close> escaping, \<open>sort\<close>), as executable functions on
  HOL's \<open>string\<close>, with the lemmas the component theories share.

  A Go string is a sequence of bytes, and so is a HOL string: a \<open>char\<close> is one of the
  256 bytes.  \<open>TrimSpace\<close> is modelled on bytes with the UTF-8 encodings of all
  characters with the Unicode property White\_Space; \<open>ToLower\<close> maps the ASCII letters
  and \<open>EqualFold\<close> folds what can be equal to ASCII text.  Comparison of Go strings with \<open><\<close> is the
  lexicographic order of \<open>List_Lexorder\<close> over bytes.  Go's \<open>int\<close> and \<open>int64\<close> are
  64 bits wide; parsing fails outside that range.
\<close>

named_theorems go_str \<open>definitions of the string library, unfolded together\<close>


section \<open>Plain error values\<close>

text \<open>
  The errors of \<open>errors.New\<close> and \<open>fmt.Errorf\<close>: the format string as written, the values of
  the plain verbs, and the errors the \<open>%w\<close> verbs wrap.  The standard library's own error
  values (\<open>strconv.NumError\<close>, \<open>url.EscapeError\<close>) are written with the formats they print.
\<close>

datatype goarg = AStr string | AInt int | AErr plain_error
  and plain_error = ErrNew string | ErrFmt string "goarg list" "plain_error list"


section \<open>Prefixes, suffixes and trimming\<close>

definition HasPrefix :: "string \<Rightarrow> string \<Rightarrow> bool" where
  "HasPrefix s p = (take (length p) s = p)"

definition HasSuffix :: "string \<Rightarrow> string \<Rightarrow> bool" where
  "HasSuffix s p = HasPrefix (rev s) (rev p)"

definition TrimPrefix :: "string \<Rightarrow> string \<Rightarrow> string" where
  "TrimPrefix s p = (if HasPrefix s p then drop (length p) s else s)"

definition TrimSuffix :: "string \<Rightarrow> string \<Rightarrow> string" where
  "TrimSuffix s p = rev (TrimPrefix (rev s) (rev p))"

definition TrimLeft :: "string \<Rightarrow> string \<Rightarrow> string" where
  "TrimLeft s cutset = dropWhile (\<lambda>c. c \<in> set cutset) s"

definition TrimRight :: "string \<Rightarrow> string \<Rightarrow> string" where
  "TrimRight s cutset = rev (TrimLeft (rev s) cutset)"

definition Trim :: "string \<Rightarrow> string \<Rightarrow> string" where
  "Trim s cutset = TrimRight (TrimLeft s cutset) cutset"

text \<open>The UTF-8 encodings of the characters \<open>unicode.IsSpace\<close> accepts.\<close>

definition space_seqs :: "string list" where
  "space_seqs =
     map (\<lambda>n. [char_of (n::nat)]) [9, 10, 11, 12, 13, 32]
     @ map (\<lambda>n. [char_of (0xC2::nat), char_of (n::nat)]) [0x85, 0xA0]
     @ [[char_of (0xE1::nat), char_of (0x9A::nat), char_of (0x80::nat)]]
     @ map (\<lambda>n. [char_of (0xE2::nat), char_of (0x80::nat), char_of (n::nat)])
         [0x80, 0x81, 0x82, 0x83, 0x84, 0x85, 0x86, 0x87, 0x88, 0x89, 0x8A, 0xA8, 0xA9, 0xAF]
     @ [[char_of (0xE2::nat), char_of (0x81::nat), char_of (0x9F::nat)],
        [char_of (0xE3::nat), char_of (0x80::nat), char_of (0x80::nat)]]"

text \<open>
  \<open>strip ps s\<close> removes members of \<open>ps\<close> from the front of \<open>s\<close> as long as there is one.
  The empty sequence never counts, which makes the recursion terminate.
\<close>

function strip :: "string list \<Rightarrow> string \<Rightarrow> string" where
  "strip ps s =
     (case find (\<lambda>p. p \<noteq> [] \<and> HasPrefix s p) ps of
        None \<Rightarrow> s
      | Some p \<Rightarrow> strip ps (drop (length p) s))"
  by pat_completeness auto
termination
proof (relation "measure (\<lambda>(ps, s). length s)", goal_cases)
  case 1
  show ?case by simp
next
  case (2 ps s p)
  then have "p \<noteq> []" and "take (length p) s = p"
    by (auto simp: find_Some_iff HasPrefix_def)
  then have "s \<noteq> []" and "0 < length p" by auto
  then show ?case by (simp add: diff_less)
qed

declare strip.simps [simp del]

definition TrimSpace :: "string \<Rightarrow> string" where
  "TrimSpace s = rev (strip (map rev space_seqs) (rev (strip space_seqs s)))"


section \<open>Splitting and joining\<close>

fun Split :: "char \<Rightarrow> string \<Rightarrow> string list" where
  "Split c [] = [[]]"
| "Split c (x # xs) =
     (if x = c then [] # Split c xs
      else (case Split c xs of [] \<Rightarrow> [[x]] | y # ys \<Rightarrow> (x # y) # ys))"

fun Join :: "string \<Rightarrow> string list \<Rightarrow> string" where
  "Join sep [] = []"
| "Join sep [x] = x"
| "Join sep (x # y # ys) = x @ sep @ Join sep (y # ys)"

text \<open>\<open>strings.FieldsFunc\<close> for the predicate \<open>r == c\<close>: the non-empty segments.\<close>

definition Fields :: "char \<Rightarrow> string \<Rightarrow> string list" where
  "Fields c s = filter (\<lambda>p. p \<noteq> []) (Split c s)"

fun Contains :: "string \<Rightarrow> string \<Rightarrow> bool" where
  "Contains [] p = (p = [])"
| "Contains (x # xs) p = (HasPrefix (x # xs) p \<or> Contains xs p)"

definition ReplaceAllChar :: "string \<Rightarrow> char \<Rightarrow> char \<Rightarrow> string" where
  "ReplaceAllChar s a b = map (\<lambda>c. if c = a then b else c) s"

text \<open>\<open>strings.ReplaceAll\<close> for a non-empty pattern.\<close>

function ReplaceAll :: "string \<Rightarrow> string \<Rightarrow> string \<Rightarrow> string" where
  "ReplaceAll s p q =
     (if s = [] then []
      else if p \<noteq> [] \<and> HasPrefix s p then q @ ReplaceAll (drop (length p) s) p q
      else hd s # ReplaceAll (tl s) p q)"
  by pat_completeness auto
termination
  by (relation "measure (\<lambda>(s, p, q). length s)") auto

declare ReplaceAll.simps [simp del]

definition lower_char :: "char \<Rightarrow> char" where
  "lower_char c = (if 65 \<le> (of_char c :: nat) \<and> (of_char c :: nat) \<le> 90
                   then char_of ((of_char c :: nat) + 32) else c)"

definition ToLower :: "string \<Rightarrow> string" where
  "ToLower s = map lower_char s"

text \<open>
  The fold of a text: ASCII letters in lower case, and the two characters outside ASCII that fold
  to an ASCII letter (U+017F to s, U+212A to k) replaced by it.  \<open>EqualFold\<close> is therefore exact
  when one of its arguments is ASCII.
\<close>

fun foldText :: "string \<Rightarrow> string" where
  "foldText [] = []"
| "foldText (c # cs) =
     (if HasPrefix (c # cs) [char_of (0xC5 :: nat), char_of (0xBF :: nat)] then CHR ''s'' # foldText (drop 1 cs)
      else if HasPrefix (c # cs) [char_of (0xE2 :: nat), char_of (0x84 :: nat), char_of (0xAA :: nat)]
      then CHR ''k'' # foldText (drop 2 cs)
      else lower_char c # foldText cs)"

definition EqualFold :: "string \<Rightarrow> string \<Rightarrow> bool" where
  "EqualFold a b = (foldText a = foldText b)"


section \<open>Numbers and booleans as text\<close>

definition is_digit :: "char \<Rightarrow> bool" where
  "is_digit c = (48 \<le> (of_char c :: nat) \<and> (of_char c :: nat) \<le> 57)"

definition digit_val :: "char \<Rightarrow> nat" where
  "digit_val c = of_char c - 48"

definition digit_char :: "nat \<Rightarrow> char" where
  "digit_char n = char_of (48 + n)"

fun nat_to_dec :: "nat \<Rightarrow> string" where
  "nat_to_dec n =
     (if n < 10 then [digit_char n] else nat_to_dec (n div 10) @ [digit_char (n mod 10)])"

declare nat_to_dec.simps [simp del]

text \<open>\<open>strconv.Itoa\<close>, and \<open>strconv.FormatInt\<close> in base 10.\<close>

definition FormatInt :: "int \<Rightarrow> string" where
  "FormatInt i = (if i < 0 then CHR ''-'' # nat_to_dec (nat (- i)) else nat_to_dec (nat i))"

definition FormatBool :: "bool \<Rightarrow> string" where
  "FormatBool b = (if b then ''true'' else ''false'')"

definition parse_digits :: "string \<Rightarrow> nat option" where
  "parse_digits s =
     (if s \<noteq> [] \<and> list_all is_digit s
      then Some (foldl (\<lambda>n c. 10 * n + digit_val c) 0 s) else None)"

text \<open>\<open>strconv.ParseInt\<close> in base 10 with 64 bits; \<open>strconv.Atoi\<close> is the same function.\<close>

definition ParseInt :: "string \<Rightarrow> int option" where
  "ParseInt s =
     (let neg = HasPrefix s ''-'';
          ds = (if neg \<or> HasPrefix s ''+'' then drop 1 s else s)
      in case parse_digits ds of
           None \<Rightarrow> None
         | Some n \<Rightarrow>
             (let v = (if neg then - int n else int n)
              in if - (2 ^ 63) \<le> v \<and> v < 2 ^ 63 then Some v else None))"


definition AtoiError :: "string \<Rightarrow> plain_error" where
  "AtoiError s =
     ErrFmt ''strconv.%s: parsing %q: %w'' [AStr ''Atoi'', AStr s]
       [ErrNew (case parse_digits (if HasPrefix s ''-'' \<or> HasPrefix s ''+'' then drop 1 s else s) of
                  None \<Rightarrow> ''invalid syntax'' | Some _ \<Rightarrow> ''value out of range'')]"


section \<open>Escaping of path segments\<close>

definition is_alnum :: "char \<Rightarrow> bool" where
  "is_alnum c =
     (let n = (of_char c :: nat)
      in (48 \<le> n \<and> n \<le> 57) \<or> (65 \<le> n \<and> n \<le> 90) \<or> (97 \<le> n \<and> n \<le> 122))"

text \<open>The bytes \<open>url.PathEscape\<close> keeps (\<open>shouldEscape\<close> in mode \<open>encodePathSegment\<close>).\<close>

definition path_keep :: "char \<Rightarrow> bool" where
  "path_keep c = (is_alnum c \<or> c \<in> set ''-_.~$&+:=@'')"

definition hex_digit :: "nat \<Rightarrow> char" where
  "hex_digit n = (if n < 10 then char_of (48 + n) else char_of (55 + n))"

definition PathEscape :: "string \<Rightarrow> string" where
  "PathEscape s =
     concat (map (\<lambda>c. if path_keep c then [c]
                      else [CHR ''%'', hex_digit (of_char c div 16), hex_digit (of_char c mod 16)]) s)"

definition hex_val :: "char \<Rightarrow> nat option" where
  "hex_val c =
     (let n = (of_char c :: nat)
      in if 48 \<le> n \<and> n \<le> 57 then Some (n - 48)
         else if 97 \<le> n \<and> n \<le> 102 then Some (n - 87)
         else if 65 \<le> n \<and> n \<le> 70 then Some (n - 55)
         else None)"

fun PathUnescape :: "string \<Rightarrow> string option" where
  "PathUnescape [] = Some []"
| "PathUnescape (c # cs) =
     (if c = CHR ''%'' then
        (case cs of
           a # b # rest \<Rightarrow>
             (case (hex_val a, hex_val b) of
                (Some x, Some y) \<Rightarrow> map_option (Cons (char_of (16 * x + y))) (PathUnescape rest)
              | _ \<Rightarrow> None)
         | _ \<Rightarrow> None)
      else map_option (Cons c) (PathUnescape cs))"


text \<open>The first malformed escape of a text, cut to three bytes, as \<open>url.EscapeError\<close> reports it.\<close>

fun badEscape :: "string \<Rightarrow> string" where
  "badEscape [] = []"
| "badEscape (c # cs) =
     (if c = CHR ''%'' then
        (case cs of
           a # b # rest \<Rightarrow>
             (if hex_val a \<noteq> None \<and> hex_val b \<noteq> None then badEscape rest else [c, a, b])
         | _ \<Rightarrow> c # cs)
      else badEscape cs)"

definition EscapeError :: "string \<Rightarrow> plain_error" where
  "EscapeError s = ErrFmt ''invalid URL escape %q'' [AStr (badEscape s)] []"


section \<open>Lemmas: trimming\<close>

lemma HasPrefix_iff_prefix: "HasPrefix s p \<longleftrightarrow> prefix p s"
  by (metis HasPrefix_def append_eq_conv_conj prefix_def take_is_prefix)

lemma HasPrefix_append [simp]: "HasPrefix (p @ s) p"
  by (simp add: HasPrefix_def)

lemma HasPrefix_trans: "HasPrefix t p \<Longrightarrow> prefix t s \<Longrightarrow> HasPrefix s p"
  by (auto simp: HasPrefix_iff_prefix)

lemma TrimPrefix_append [simp]: "TrimPrefix (p @ s) p = s"
  by (simp add: TrimPrefix_def)

text \<open>\<open>stripped ps s\<close>: no member of \<open>ps\<close> starts \<open>s\<close>.\<close>

definition stripped :: "string list \<Rightarrow> string \<Rightarrow> bool" where
  "stripped ps s = (\<forall>p \<in> set ps. p \<noteq> [] \<longrightarrow> \<not> HasPrefix s p)"

lemma strip_id: "stripped ps s \<Longrightarrow> strip ps s = s"
proof -
  assume "stripped ps s"
  then have "find (\<lambda>p. p \<noteq> [] \<and> HasPrefix s p) ps = None"
    by (auto simp: stripped_def find_None_iff)
  then show ?thesis by (subst strip.simps) simp
qed

lemma stripped_strip: "stripped ps (strip ps s)"
proof (induction ps s rule: strip.induct)
  case (1 ps s)
  show ?case
  proof (cases "find (\<lambda>p. p \<noteq> [] \<and> HasPrefix s p) ps")
    case None
    then have "strip ps s = s" by (subst strip.simps) simp
    with None show ?thesis by (auto simp: stripped_def find_None_iff)
  next
    case (Some p)
    with "1.IH" show ?thesis by (subst strip.simps) simp
  qed
qed

lemma strip_suffix: "suffix (strip ps s) s"
proof (induction ps s rule: strip.induct)
  case (1 ps s)
  show ?case
  proof (cases "find (\<lambda>p. p \<noteq> [] \<and> HasPrefix s p) ps")
    case None
    then show ?thesis by (subst strip.simps) simp
  next
    case (Some p)
    with "1.IH" have "suffix (strip ps (drop (length p) s)) (drop (length p) s)" by simp
    moreover have "suffix (drop (length p) s) s" by (rule suffix_drop)
    ultimately have "suffix (strip ps (drop (length p) s)) s"
      using suffix_order.trans by blast
    with Some show ?thesis by (subst strip.simps) simp
  qed
qed

lemma stripped_prefix: "stripped ps s \<Longrightarrow> prefix t s \<Longrightarrow> stripped ps t"
  by (auto simp: stripped_def dest: HasPrefix_trans)

text \<open>A string is \<^emph>\<open>trimmed\<close> if it neither starts nor ends with white space.\<close>

definition trimmed :: "string \<Rightarrow> bool" where
  "trimmed s = (stripped space_seqs s \<and> stripped (map rev space_seqs) (rev s))"

lemma TrimSpace_id: "trimmed s \<Longrightarrow> TrimSpace s = s"
  by (simp add: TrimSpace_def trimmed_def strip_id)

lemma trimmed_TrimSpace [simp]: "trimmed (TrimSpace s)"
proof -
  let ?l = "strip space_seqs s"
  have "suffix (strip (map rev space_seqs) (rev ?l)) (rev ?l)" by (rule strip_suffix)
  then have "prefix (TrimSpace s) ?l"
    by (simp add: TrimSpace_def suffix_to_prefix)
  then have "stripped space_seqs (TrimSpace s)"
    by (rule stripped_prefix [OF stripped_strip])
  then show ?thesis
    by (simp add: trimmed_def TrimSpace_def stripped_strip)
qed

lemma TrimSpace_idem [simp]: "TrimSpace (TrimSpace s) = TrimSpace s"
  by (simp add: TrimSpace_id)

lemma TrimSpace_eq_iff: "TrimSpace s = s \<longleftrightarrow> trimmed s"
  by (metis TrimSpace_id trimmed_TrimSpace)

lemma trimmed_Nil [simp]: "trimmed []"
  by (simp add: trimmed_def stripped_def HasPrefix_def)

lemma TrimSpace_Nil [simp]: "TrimSpace [] = []"
  by (simp add: TrimSpace_id)

text \<open>No white-space sequence has a byte in common with printable ASCII.\<close>

definition visible :: "char \<Rightarrow> bool" where
  "visible c = (33 \<le> (of_char c :: nat) \<and> (of_char c :: nat) < 127)"

lemma space_seqs_not_visible: "p \<in> set space_seqs \<Longrightarrow> c \<in> set p \<Longrightarrow> \<not> visible c"
  by (auto simp: space_seqs_def visible_def)

lemma stripped_visible_Cons: "visible c \<Longrightarrow> stripped space_seqs (c # s)"
  by (auto simp: stripped_def HasPrefix_iff_prefix neq_Nil_conv dest: space_seqs_not_visible)

lemma stripped_rev_visible_Cons: "visible c \<Longrightarrow> stripped (map rev space_seqs) (c # s)"
proof -
  assume v: "visible c"
  have "\<not> HasPrefix (c # s) (rev p)" if "p \<in> set space_seqs" "p \<noteq> []" for p
  proof
    assume "HasPrefix (c # s) (rev p)"
    then have "c \<in> set p"
      using that(2) by (metis HasPrefix_iff_prefix Nil_is_rev_conv hd_Cons_tl list.set_intros(1) prefix_Cons set_rev list.sel(1))
    with v that(1) show False using space_seqs_not_visible by blast
  qed
  then show ?thesis by (auto simp: stripped_def)
qed

lemma trimmed_visible_ends:
  assumes "s \<noteq> []" and "visible (hd s)" and "visible (last s)"
  shows "trimmed s"
proof -
  from assms(1,2) have "stripped space_seqs s"
    by (metis hd_Cons_tl stripped_visible_Cons)
  moreover have "stripped (map rev space_seqs) (rev s)"
    using assms(1,3) by (metis append_butlast_last_id rev_eq_Cons_iff rev_rev_ident stripped_rev_visible_Cons)
  ultimately show ?thesis by (simp add: trimmed_def)
qed

text \<open>A visible byte in front of a trimmed string keeps it trimmed.\<close>

lemma trimmed_visible_append:
  assumes "visible c" and "trimmed t" and "t \<noteq> []"
  shows "stripped (map rev space_seqs) (rev (s @ c # t))"
proof -
  have "\<not> HasPrefix (rev t @ c # rev s) (rev p)" if p: "p \<in> set space_seqs" "p \<noteq> []" for p
  proof
    assume "HasPrefix (rev t @ c # rev s) (rev p)"
    then have pre: "prefix (rev p) (rev t @ c # rev s)" by (simp add: HasPrefix_iff_prefix)
    then consider "prefix (rev p) (rev t)" | us where "rev p = rev t @ us" "prefix us (c # rev s)"
      by (auto simp: prefix_append)
    then show False
    proof cases
      case 1
      with assms(2) p show False
        by (auto simp: trimmed_def stripped_def HasPrefix_iff_prefix)
    next
      case 2
      show False
      proof (cases us)
        case Nil
        with 2 have "prefix (rev p) (rev t)" by simp
        with assms(2) p show False
          by (auto simp: trimmed_def stripped_def HasPrefix_iff_prefix)
      next
        case (Cons u us')
        with 2(2) have "u = c" by simp
        with 2(1) Cons have "c \<in> set p" by (metis in_set_conv_decomp set_rev)
        with assms(1) p(1) show False using space_seqs_not_visible by blast
      qed
    qed
  qed
  then show ?thesis by (auto simp: stripped_def)
qed


section \<open>Lemmas: splitting and joining\<close>

lemma Split_nonempty [simp]: "Split c s \<noteq> []"
  by (induction s) (auto split: list.splits)

lemma Split_no_sep: "c \<notin> set s \<Longrightarrow> Split c s = [s]"
  by (induction s) auto

lemma Split_append_sep: "c \<notin> set x \<Longrightarrow> Split c (x @ c # s) = x # Split c s"
  by (induction x) auto

lemma Split_Join: "xs \<noteq> [] \<Longrightarrow> \<forall>x \<in> set xs. c \<notin> set x \<Longrightarrow> Split c (Join [c] xs) = xs"
  by (induction "[c]" xs rule: Join.induct) (auto simp: Split_no_sep Split_append_sep)

lemma Join_Split [simp]: "Join [c] (Split c s) = s"
proof (induction s)
  case (Cons x xs)
  obtain y ys where sp: "Split c xs = y # ys" by (cases "Split c xs") auto
  with Cons have j: "Join [c] (y # ys) = xs" by simp
  show ?case
  proof (cases "x = c")
    case True
    with sp j show ?thesis by simp
  next
    case False
    with sp j show ?thesis by (cases ys) auto
  qed
qed simp

lemma Split_elem_no_sep: "p \<in> set (Split c s) \<Longrightarrow> c \<notin> set p"
proof (induction s arbitrary: p)
  case (Cons x xs)
  obtain y ys where sp: "Split c xs = y # ys" by (cases "Split c xs") auto
  with Cons.IH have "\<And>q. q \<in> set (y # ys) \<Longrightarrow> c \<notin> set q" by simp
  with sp Cons.prems show ?case by (auto split: if_splits)
qed simp

lemma Fields_elem: "p \<in> set (Fields c s) \<Longrightarrow> p \<noteq> [] \<and> c \<notin> set p"
  by (auto simp: Fields_def dest: Split_elem_no_sep)

lemma Fields_sep_Join:
  assumes "xs \<noteq> []" and "\<forall>x \<in> set xs. x \<noteq> [] \<and> c \<notin> set x"
  shows "Fields c (c # Join [c] xs) = xs"
proof -
  have "Split c (Join [c] xs) = xs" using assms by (intro Split_Join) auto
  moreover have "filter (\<lambda>p. p \<noteq> []) xs = xs" using assms(2) by (simp add: filter_id_conv)
  ultimately show ?thesis by (simp add: Fields_def)
qed

lemma last_Join: "xs \<noteq> [] \<Longrightarrow> last xs \<noteq> [] \<Longrightarrow> \<exists>p. Join sep xs = p @ last xs"
  by (induction sep xs rule: Join.induct) auto

lemma Join_snoc: "xs \<noteq> [] \<Longrightarrow> Join sep (xs @ [x]) = Join sep xs @ sep @ x"
  by (induction sep xs rule: Join.induct) auto


section \<open>Lemmas: numbers\<close>

lemma of_char_digit_char: "n < 10 \<Longrightarrow> of_char (digit_char n) = (48 + n :: nat)"
  by (simp add: digit_char_def of_char_of)

lemma is_digit_digit_char [simp]: "n < 10 \<Longrightarrow> is_digit (digit_char n)"
  by (simp add: is_digit_def of_char_digit_char)

lemma digit_val_digit_char [simp]: "n < 10 \<Longrightarrow> digit_val (digit_char n) = n"
  by (simp add: digit_val_def of_char_digit_char)

lemma nat_to_dec_nonempty [simp]: "nat_to_dec n \<noteq> []"
  by (subst nat_to_dec.simps) simp

lemma nat_to_dec_digits: "list_all is_digit (nat_to_dec n)"
proof (induction n rule: nat_to_dec.induct)
  case (1 n)
  then show ?case by (subst nat_to_dec.simps) auto
qed

lemma nat_to_dec_value: "foldl (\<lambda>n c. 10 * n + digit_val c) 0 (nat_to_dec n) = n"
proof (induction n rule: nat_to_dec.induct)
  case (1 n)
  then show ?case by (subst nat_to_dec.simps) auto
qed

lemma parse_digits_nat_to_dec [simp]: "parse_digits (nat_to_dec n) = Some n"
  by (simp add: parse_digits_def nat_to_dec_digits nat_to_dec_value)

lemma not_digit_signs [simp]: "\<not> is_digit (CHR ''-'')" "\<not> is_digit (CHR ''+'')"
  "\<not> is_digit (CHR ''/'')" "\<not> is_digit (CHR '','')" "\<not> is_digit (CHR ''.'')"
  by (simp_all add: is_digit_def)

lemma nat_to_dec_no_prefix: "\<not> is_digit c \<Longrightarrow> \<not> HasPrefix (nat_to_dec n) [c]"
  using nat_to_dec_digits [of n]
  by (cases "nat_to_dec n") (auto simp: HasPrefix_def)

theorem ParseInt_FormatInt:
  assumes "- (2 ^ 63) \<le> i" and "i < 2 ^ 63"
  shows "ParseInt (FormatInt i) = Some i"
proof (cases "i < 0")
  case True
  with assms show ?thesis by (simp add: ParseInt_def FormatInt_def HasPrefix_def)
next
  case False
  with assms show ?thesis by (simp add: ParseInt_def FormatInt_def nat_to_dec_no_prefix)
qed

lemma FormatInt_chars: "c \<in> set (FormatInt i) \<Longrightarrow> is_digit c \<or> c = CHR ''-''"
  using nat_to_dec_digits by (auto simp: FormatInt_def list_all_iff split: if_splits)

lemma FormatInt_nonempty [simp]: "FormatInt i \<noteq> []"
  by (simp add: FormatInt_def)

lemma FormatInt_not_dash [simp]: "FormatInt i \<noteq> ''-''"
proof (cases "i < 0")
  case False
  then show ?thesis using nat_to_dec_no_prefix [of "CHR ''-''" "nat i"]
    by (auto simp: FormatInt_def HasPrefix_def)
qed (simp add: FormatInt_def)

lemma nat_to_dec_inj: "nat_to_dec m = nat_to_dec n \<Longrightarrow> m = n"
  by (metis nat_to_dec_value)

lemma FormatInt_inj: "FormatInt i = FormatInt j \<Longrightarrow> i = j"
proof -
  assume eq: "FormatInt i = FormatInt j"
  have no: "nat_to_dec n \<noteq> CHR ''-'' # s" for n s
    using nat_to_dec_no_prefix [of "CHR ''-''" n] by (auto simp: HasPrefix_def)
  have no': "CHR ''-'' # s \<noteq> nat_to_dec n" for n s
    using no [of n s] by metis
  show "i = j"
    using eq by (auto simp: FormatInt_def no no' split: if_splits dest: nat_to_dec_inj)
qed

lemma FormatBool_inj [simp]: "FormatBool a = FormatBool b \<longleftrightarrow> a = b"
  by (simp add: FormatBool_def)


section \<open>Lemmas: escaping\<close>

lemma hex_val_hex_digit [simp]: "n < 16 \<Longrightarrow> hex_val (hex_digit n) = Some n"
  by (simp add: hex_val_def hex_digit_def of_char_of Let_def)

lemma path_keep_not_percent: "path_keep c \<Longrightarrow> c \<noteq> CHR ''%''"
  by (auto simp: path_keep_def is_alnum_def)

lemma of_char_div_16: "(of_char c :: nat) div 16 < 16"
proof -
  have "(of_char c :: nat) < 256" by (rule nat_of_char_less_256)
  then show ?thesis by linarith
qed

lemma char_of_split: "char_of (16 * (of_char c div 16) + of_char c mod 16 :: nat) = c"
  by simp

theorem PathUnescape_PathEscape [simp]: "PathUnescape (PathEscape s) = Some s"
proof (induction s)
  case (Cons c s)
  show ?case
  proof (cases "path_keep c")
    case True
    with Cons path_keep_not_percent [OF True] show ?thesis by (simp add: PathEscape_def)
  next
    case False
    with Cons of_char_div_16 [of c] show ?thesis by (simp add: PathEscape_def)
  qed
qed (simp add: PathEscape_def)

lemma hex_digit_not_slash: "n < 16 \<Longrightarrow> hex_digit n \<noteq> CHR ''/''"
proof
  assume "n < 16" and "hex_digit n = CHR ''/''"
  then have "hex_val (CHR ''/'') = Some n" by (metis hex_val_hex_digit)
  then show False by (simp add: hex_val_def)
qed

lemma PathEscape_no_slash [simp]: "CHR ''/'' \<notin> set (PathEscape s)"
proof (induction s)
  case (Cons c s)
  have "\<not> path_keep (CHR ''/'')" by (simp add: path_keep_def is_alnum_def)
  then have "CHR ''/'' \<notin> set (PathEscape [c])"
    using hex_digit_not_slash [OF of_char_div_16, of c] hex_digit_not_slash [of "of_char c mod 16"]
    by (auto simp: PathEscape_def)
  with Cons show ?case by (simp add: PathEscape_def)
qed (simp add: PathEscape_def)

lemma PathEscape_inj: "PathEscape a = PathEscape b \<Longrightarrow> a = b"
  by (metis PathUnescape_PathEscape option.inject)


lemma HasPrefix_code [code]:
  "HasPrefix s [] = True"
  "HasPrefix [] (c # p) = False"
  "HasPrefix (d # s) (c # p) = (d = c \<and> HasPrefix s p)"
  by (auto simp: HasPrefix_def)

lemma TrimSpace_code [code]:
  "TrimSpace s = (if s = [] then [] else if visible (hd s) \<and> visible (last s) then s
     else rev (strip (map rev space_seqs) (rev (strip space_seqs s))))"
  using TrimSpace_id [OF trimmed_visible_ends, of s] by (auto simp: TrimSpace_def strip_id stripped_def HasPrefix_def)


lemma FormatInt_eq_iff [simp]: "FormatInt a = FormatInt b \<longleftrightarrow> a = b"
  using FormatInt_inj by blast

lemma FormatBool_eq_iff [simp]: "FormatBool a = FormatBool b \<longleftrightarrow> a = b"
  by (simp add: FormatBool_def)

end
