(* ===== verification/Go_Json.thy ===== *)
theory Go_Json
  imports Go_Strings
begin

text \<open>
  The part of \<open>encoding/json\<close> the modelled packages use: JSON values as the decoder builds them
  with \<open>UseNumber\<close> (a number is its text), the decoder for one value, string encoding and
  \<open>json.Marshal\<close> for such values, and \<open>fmt.Sprint\<close> of a decoded value.

  An object keeps its members in source order, duplicates included; \<open>jlookup\<close> reads it as the
  Go map the decoder fills (the last duplicate wins) and \<open>jnorm\<close> is that map in canonical form.
\<close>

datatype jval = JNull | JBool bool | JNum string | JStr string
  | JArr "jval list" | JObj "(string \<times> jval) list"

type_synonym jobject = "(string \<times> jval) list"

definition jlookup :: "jobject \<Rightarrow> string \<Rightarrow> jval option" where
  "jlookup ps k = map_of (rev ps) k"


section \<open>UTF-8\<close>

definition byte :: "char \<Rightarrow> nat" where
  "byte c = of_char c"

definition in_byte :: "nat \<Rightarrow> nat \<Rightarrow> char \<Rightarrow> bool" where
  "in_byte lo hi c = (lo \<le> byte c \<and> byte c \<le> hi)"

text \<open>The length of the valid encoding at the front of a string, 0 when there is none.\<close>

definition utf8_len :: "string \<Rightarrow> nat" where
  "utf8_len s =
     (case s of
        [] \<Rightarrow> 0
      | a # t \<Rightarrow>
         if byte a < 0x80 then 1
         else (case t of
            [] \<Rightarrow> 0
          | b # u \<Rightarrow>
             if in_byte 0xC2 0xDF a \<and> in_byte 0x80 0xBF b then 2
             else (case u of
                [] \<Rightarrow> 0
              | c # v \<Rightarrow>
                 if in_byte 0x80 0xBF c
                    \<and> (byte a = 0xE0 \<and> in_byte 0xA0 0xBF b
                       \<or> (in_byte 0xE1 0xEC a \<or> in_byte 0xEE 0xEF a) \<and> in_byte 0x80 0xBF b
                       \<or> byte a = 0xED \<and> in_byte 0x80 0x9F b) then 3
                 else (case v of
                    [] \<Rightarrow> 0
                  | d # _ \<Rightarrow>
                     if in_byte 0x80 0xBF c \<and> in_byte 0x80 0xBF d
                        \<and> (byte a = 0xF0 \<and> in_byte 0x90 0xBF b
                           \<or> in_byte 0xF1 0xF3 a \<and> in_byte 0x80 0xBF b
                           \<or> byte a = 0xF4 \<and> in_byte 0x80 0x8F b) then 4
                     else 0))))"

definition utf8_encode :: "nat \<Rightarrow> string" where
  "utf8_encode r =
     (if r < 0x80 then [char_of r]
      else if r < 0x800 then [char_of (0xC0 + r div 64), char_of (0x80 + r mod 64)]
      else if r < 0x10000 then
        [char_of (0xE0 + r div 4096), char_of (0x80 + r div 64 mod 64), char_of (0x80 + r mod 64)]
      else [char_of (0xF0 + r div 262144), char_of (0x80 + r div 4096 mod 64),
            char_of (0x80 + r div 64 mod 64), char_of (0x80 + r mod 64)])"

definition replacement :: string where
  "replacement = utf8_encode 0xFFFD"


section \<open>Encoding\<close>

definition hex_lower :: "nat \<Rightarrow> char" where
  "hex_lower n = (if n < 10 then char_of (48 + n) else char_of (87 + n))"

definition bs :: char where
  "bs = char_of (92 :: nat)"

text \<open>One ASCII byte inside a JSON string, with HTML escaping on, as \<open>json.Marshal\<close> writes it.\<close>

definition encodeASCII :: "char \<Rightarrow> string" where
  "encodeASCII c =
     (if c = bs \<or> c = CHR 0x22 then [bs, c]
      else if byte c = 8 then [bs, CHR ''b'']
      else if byte c = 12 then [bs, CHR ''f'']
      else if byte c = 10 then [bs, CHR ''n'']
      else if byte c = 13 then [bs, CHR ''r'']
      else if byte c = 9 then [bs, CHR ''t'']
      else if byte c < 32 \<or> c = CHR ''<'' \<or> c = CHR ''>'' \<or> c = CHR ''&'' then
        bs # ''u00'' @ [hex_lower (byte c div 16), hex_lower (byte c mod 16)]
      else [c])"

function encodeString :: "string \<Rightarrow> string" where
  "encodeString s =
     (case s of
        [] \<Rightarrow> []
      | c # cs \<Rightarrow>
         if byte c < 0x80 then encodeASCII c @ encodeString cs
         else if utf8_len s = 0 then (bs # ''ufffd'') @ encodeString cs
         else if take 3 s = utf8_encode 0x2028 then (bs # ''u2028'') @ encodeString (drop 3 s)
         else if take 3 s = utf8_encode 0x2029 then (bs # ''u2029'') @ encodeString (drop 3 s)
         else take (utf8_len s) s @ encodeString (drop (utf8_len s) s))"
  by pat_completeness auto
termination
  by (relation "measure length") auto

declare encodeString.simps [simp del]

definition quoteString :: "string \<Rightarrow> string" where
  "quoteString s = CHR 0x22 # encodeString s @ [CHR 0x22]"

text \<open>The canonical form of a decoded value: objects as maps, sorted by key, without duplicates.\<close>

definition jmap :: "jobject \<Rightarrow> jobject" where
  "jmap ps = map (\<lambda>k. (k, the (jlookup ps k))) (sort (remdups (map fst ps)))"

fun jnorm :: "jval \<Rightarrow> jval" where
  "jnorm (JArr vs) = JArr (map jnorm vs)"
| "jnorm (JObj ps) = JObj (jmap (map (\<lambda>(k, v). (k, jnorm v)) ps))"
| "jnorm v = v"

text \<open>\<open>json.Marshal\<close> of a canonical value; map keys come out sorted.\<close>

fun Marshal :: "jval \<Rightarrow> string" where
  "Marshal JNull = ''null''"
| "Marshal (JBool b) = FormatBool b"
| "Marshal (JNum n) = n"
| "Marshal (JStr s) = quoteString s"
| "Marshal (JArr vs) = ''['' @ Join '','' (map Marshal vs) @ '']''"
| "Marshal (JObj ps) = ''{'' @ Join '','' (map (\<lambda>(k, v). quoteString k @ '':'' @ Marshal v) ps) @ ''}''"

text \<open>\<open>fmt.Sprint\<close> of a canonical value of type \<open>any\<close>.\<close>

fun Sprint :: "jval \<Rightarrow> string" where
  "Sprint JNull = ''<nil>''"
| "Sprint (JBool b) = FormatBool b"
| "Sprint (JNum n) = n"
| "Sprint (JStr s) = s"
| "Sprint (JArr vs) = ''['' @ Join '' '' (map Sprint vs) @ '']''"
| "Sprint (JObj ps) = ''map['' @ Join '' '' (map (\<lambda>(k, v). k @ '':'' @ Sprint v) ps) @ '']''"


section \<open>Decoding\<close>

definition json_space :: "char \<Rightarrow> bool" where
  "json_space c = (c = CHR '' '' \<or> byte c = 9 \<or> byte c = 10 \<or> byte c = 13)"

definition skip_space :: "string \<Rightarrow> string" where
  "skip_space s = dropWhile json_space s"

text \<open>The number grammar: sign, integer part without leading zeros, fraction, exponent.\<close>

definition scan_digits1 :: "string \<Rightarrow> (string \<times> string) option" where
  "scan_digits1 s =
     (let d = takeWhile is_digit s in if d = [] then None else Some (d, dropWhile is_digit s))"

definition scan_int :: "string \<Rightarrow> (string \<times> string) option" where
  "scan_int s =
     (case s of
        c # cs \<Rightarrow> if c = CHR ''0'' then Some ([c], cs) else scan_digits1 s
      | [] \<Rightarrow> None)"

definition scan_frac :: "string \<Rightarrow> (string \<times> string) option" where
  "scan_frac s =
     (case s of
        c # cs \<Rightarrow>
          if c = CHR ''.'' then map_option (\<lambda>(d, r). (c # d, r)) (scan_digits1 cs) else Some ([], s)
      | [] \<Rightarrow> Some ([], []))"

definition scan_exp :: "string \<Rightarrow> (string \<times> string) option" where
  "scan_exp s =
     (case s of
        c # cs \<Rightarrow>
          if c = CHR ''e'' \<or> c = CHR ''E'' then
            (case cs of
               d # ds \<Rightarrow>
                 if d = CHR ''+'' \<or> d = CHR ''-'' then map_option (\<lambda>(e, r). (c # d # e, r)) (scan_digits1 ds)
                 else map_option (\<lambda>(e, r). (c # e, r)) (scan_digits1 cs)
             | [] \<Rightarrow> None)
          else Some ([], s)
      | [] \<Rightarrow> Some ([], []))"

definition scan_number :: "string \<Rightarrow> (string \<times> string) option" where
  "scan_number s =
     (let (sg, r) = (if HasPrefix s ''-'' then (''-'', drop 1 s) else ([], s))
      in case scan_int r of
           None \<Rightarrow> None
         | Some (i, r1) \<Rightarrow>
             (case scan_frac r1 of
                None \<Rightarrow> None
              | Some (f, r2) \<Rightarrow> map_option (\<lambda>(e, r3). (sg @ i @ f @ e, r3)) (scan_exp r2)))"

text \<open>The body of a string literal after the opening quote, unescaped; an unpaired surrogate and
  every invalid byte become the replacement character.\<close>

definition hex4 :: "string \<Rightarrow> nat option" where
  "hex4 s =
     (case s of
        a # b # c # d # _ \<Rightarrow>
          (case (hex_val a, hex_val b, hex_val c, hex_val d) of
             (Some w, Some x, Some y, Some z) \<Rightarrow> Some (4096 * w + 256 * x + 16 * y + z)
           | _ \<Rightarrow> None)
      | _ \<Rightarrow> None)"

definition simple_escape :: "char \<Rightarrow> char option" where
  "simple_escape c =
     (if c = CHR 0x22 \<or> c = bs \<or> c = CHR ''/'' then Some c
      else if c = CHR ''b'' then Some (char_of (8 :: nat))
      else if c = CHR ''f'' then Some (char_of (12 :: nat))
      else if c = CHR ''n'' then Some (char_of (10 :: nat))
      else if c = CHR ''r'' then Some (char_of (13 :: nat))
      else if c = CHR ''t'' then Some (char_of (9 :: nat)) else None)"

definition low_surrogate :: "string \<Rightarrow> nat option" where
  "low_surrogate s =
     (if HasPrefix s [bs, CHR ''u''] then
        (case hex4 (drop 2 s) of
           Some r \<Rightarrow> if 0xDC00 \<le> r \<and> r < 0xE000 then Some r else None
         | None \<Rightarrow> None)
      else None)"

function scan_string :: "string \<Rightarrow> (string \<times> string) option" where
  "scan_string s =
     (case s of
        [] \<Rightarrow> None
      | c # cs \<Rightarrow>
         if c = CHR 0x22 then Some ([], cs)
         else if byte c < 32 then None
         else if c = bs then
           (case cs of
              [] \<Rightarrow> None
            | e # r \<Rightarrow>
               if e = CHR ''u'' then
                 (case hex4 r of
                    None \<Rightarrow> None
                  | Some w \<Rightarrow>
                     if 0xD800 \<le> w \<and> w < 0xDC00 then
                       (case low_surrogate (drop 4 r) of
                          Some l \<Rightarrow>
                            map_option (\<lambda>(t, q). (utf8_encode (0x10000 + (w - 0xD800) * 1024 + (l - 0xDC00)) @ t, q))
                              (scan_string (drop 10 r))
                        | None \<Rightarrow> map_option (\<lambda>(t, q). (replacement @ t, q)) (scan_string (drop 4 r)))
                     else if 0xDC00 \<le> w \<and> w < 0xE000 then
                       map_option (\<lambda>(t, q). (replacement @ t, q)) (scan_string (drop 4 r))
                     else map_option (\<lambda>(t, q). (utf8_encode w @ t, q)) (scan_string (drop 4 r)))
               else (case simple_escape e of
                       None \<Rightarrow> None
                     | Some d \<Rightarrow> map_option (\<lambda>(t, q). (d # t, q)) (scan_string r)))
         else if byte c < 0x80 then map_option (\<lambda>(t, q). (c # t, q)) (scan_string cs)
         else if utf8_len s = 0 then map_option (\<lambda>(t, q). (replacement @ t, q)) (scan_string cs)
         else map_option (\<lambda>(t, q). (take (utf8_len s) s @ t, q)) (scan_string (drop (utf8_len s) s)))"
  by pat_completeness auto
termination
  by (relation "measure length") auto

declare scan_string.simps [simp del]

text \<open>
  One value.  Each call gives the value and the text after it; a recursive call on a rest that
  is not shorter never happens, and the test for it makes the recursion terminate by itself.
  Nesting deeper than 10000 is an error, as in the Go scanner.
\<close>

definition shorter :: "string \<Rightarrow> string \<Rightarrow> bool" where
  "shorter r s = (length r < length s)"

function parse_value :: "nat \<Rightarrow> string \<Rightarrow> (jval \<times> string) option"
  and parse_elems :: "nat \<Rightarrow> string \<Rightarrow> (jval list \<times> string) option"
  and parse_members :: "nat \<Rightarrow> string \<Rightarrow> (jobject \<times> string) option" where
  "parse_value depth s =
     (case skip_space s of
        [] \<Rightarrow> None
      | c # cs \<Rightarrow>
         if c = CHR ''{'' then
           (if depth \<ge> 10000 \<or> \<not> shorter (skip_space cs) s then None
            else if HasPrefix (skip_space cs) ''}'' then Some (JObj [], drop 1 (skip_space cs))
            else map_option (\<lambda>(ps, r). (JObj ps, r)) (parse_members (Suc depth) (skip_space cs)))
         else if c = CHR ''['' then
           (if depth \<ge> 10000 \<or> \<not> shorter (skip_space cs) s then None
            else if HasPrefix (skip_space cs) '']'' then Some (JArr [], drop 1 (skip_space cs))
            else map_option (\<lambda>(vs, r). (JArr vs, r)) (parse_elems (Suc depth) (skip_space cs)))
         else if c = CHR 0x22 then map_option (\<lambda>(t, r). (JStr t, r)) (scan_string cs)
         else if HasPrefix (c # cs) ''null'' then Some (JNull, drop 3 cs)
         else if HasPrefix (c # cs) ''true'' then Some (JBool True, drop 3 cs)
         else if HasPrefix (c # cs) ''false'' then Some (JBool False, drop 4 cs)
         else map_option (\<lambda>(t, r). (JNum t, r)) (scan_number (c # cs)))"
| "parse_elems depth s =
     (case s of
        [] \<Rightarrow> None
      | _ # _ \<Rightarrow>
         (case parse_value depth s of
            None \<Rightarrow> None
          | Some (v, r) \<Rightarrow>
             (case skip_space r of
                [] \<Rightarrow> None
              | c # cs \<Rightarrow>
                 if c = CHR '']'' then Some ([v], cs)
                 else if c = CHR '','' \<and> shorter cs s then
                   map_option (\<lambda>(vs, q). (v # vs, q)) (parse_elems depth cs)
                 else None)))"
| "parse_members depth s =
     (case skip_space s of
        [] \<Rightarrow> None
      | q # cs \<Rightarrow>
         if q \<noteq> CHR 0x22 then None
         else (case scan_string cs of
            None \<Rightarrow> None
          | Some (k, r) \<Rightarrow>
             (case skip_space r of
                [] \<Rightarrow> None
              | d # ds \<Rightarrow>
                 if d \<noteq> CHR '':'' \<or> \<not> shorter ds s then None
                 else (case parse_value depth ds of
                    None \<Rightarrow> None
                  | Some (v, r2) \<Rightarrow>
                     (case skip_space r2 of
                        [] \<Rightarrow> None
                      | e # es \<Rightarrow>
                         if e = CHR ''}'' then Some ([(k, v)], es)
                         else if e = CHR '','' \<and> shorter es s then
                           map_option (\<lambda>(ps, z). ((k, v) # ps, z)) (parse_members depth es)
                         else None)))))"
  by pat_completeness auto
termination
  by (relation "measure (\<lambda>x. case x of Inl (_, s) \<Rightarrow> 2 * length s
        | Inr (Inl (_, s)) \<Rightarrow> 2 * length s + 1 | Inr (Inr (_, s)) \<Rightarrow> 2 * length s + 1)")
     (auto simp: shorter_def)

declare parse_value.simps [simp del] parse_elems.simps [simp del] parse_members.simps [simp del]

text \<open>The whole text as one value.\<close>

definition parseJSON :: "string \<Rightarrow> jval option" where
  "parseJSON s =
     (case parse_value 0 s of
        Some (v, r) \<Rightarrow> if skip_space r = [] then Some v else None
      | None \<Rightarrow> None)"

text \<open>
  \<open>json.Unmarshal\<close> into a Go string field of a struct: the members whose name is the field's, or
  differs from it only in case, are assigned in order; \<open>null\<close> assigns nothing and any other
  non-string is a type error (the first component).
\<close>

fun field_string :: "string \<Rightarrow> jobject \<Rightarrow> bool \<times> string \<Rightarrow> bool \<times> string" where
  "field_string name [] acc = acc"
| "field_string name ((k, v) # ps) (bad, cur) =
     field_string name ps
       (if EqualFold k name then
          (case v of JStr s \<Rightarrow> (bad, s) | JNull \<Rightarrow> (bad, cur) | _ \<Rightarrow> (True, cur))
        else (bad, cur))"

lemma jlookup_Nil [simp]: "jlookup [] k = None"
  by (simp add: jlookup_def)

lemma jlookup_append: "jlookup (ps @ qs) k = (case jlookup qs k of None \<Rightarrow> jlookup ps k | Some v \<Rightarrow> Some v)"
  by (simp add: jlookup_def map_add_def split: option.split)

lemma jlookup_None_iff: "jlookup ps k = None \<longleftrightarrow> k \<notin> fst ` set ps"
  by (simp add: jlookup_def map_of_eq_None_iff)

lemma jlookup_jmap: "jlookup (jmap ps) k = jlookup ps k"
proof -
  have "rev (jmap ps) = map (\<lambda>k. (k, the (jlookup ps k))) (rev (sort (remdups (map fst ps))))"
    by (simp add: jmap_def rev_map)
  then have "jlookup (jmap ps) k = (if k \<in> fst ` set ps then Some (the (jlookup ps k)) else None)"
    by (auto simp: jlookup_def map_of_map_restrict restrict_map_def comp_def)
  then show ?thesis
    using jlookup_None_iff [of ps k] by auto
qed

end
