(* ===== verification/Go_Time.thy ===== *)
theory Go_Time
  imports Go_Strings
begin

text \<open>
  The part of package \<open>time\<close> the modelled packages use.  A \<open>time.Time\<close> is an instant, in
  nanoseconds since 1 January of year 1 UTC (Go's zero time), with the offset of its location in
  seconds east of UTC.  The two layouts the source formats with, and \<open>time.Parse\<close> for
  \<open>RFC3339Nano\<close>, are written out on the proleptic Gregorian calendar.
\<close>

record gotime =
  instant :: int
  zoneOffset :: int

definition IsZero :: "gotime \<Rightarrow> bool" where
  "IsZero t = (instant t = 0)"

definition UTC :: "gotime \<Rightarrow> gotime" where
  "UTC t = t\<lparr>zoneOffset := 0\<rparr>"

definition second_ns :: int where
  "second_ns = 1000000000"

definition day_seconds :: int where
  "day_seconds = 86400"


section \<open>The calendar\<close>

text \<open>The date of a day number, counted from 1 January of year 1; years start in March inside.\<close>

definition civil :: "int \<Rightarrow> int \<times> int \<times> int" where
  "civil days =
     (let z = days + 306;
          era = z div 146097;
          doe = z mod 146097;
          yoe = (doe - doe div 1460 + doe div 36524 - doe div 146096) div 365;
          doy = doe - (365 * yoe + yoe div 4 - yoe div 100);
          mp = (5 * doy + 2) div 153;
          d = doy - (153 * mp + 2) div 5 + 1;
          m = (if mp < 10 then mp + 3 else mp - 9);
          y = yoe + 400 * era + (if m \<le> 2 then 1 else 0)
      in (y, m, d))"

definition days_of_civil :: "int \<Rightarrow> int \<Rightarrow> int \<Rightarrow> int" where
  "days_of_civil y0 m d =
     (let y = (if m \<le> 2 then y0 - 1 else y0);
          era = y div 400;
          yoe = y mod 400;
          mp = (if m > 2 then m - 3 else m + 9);
          doy = (153 * mp + 2) div 5 + d - 1;
          doe = 365 * yoe + yoe div 4 - yoe div 100 + doy
      in 146097 * era + doe - 306)"

definition isLeap :: "int \<Rightarrow> bool" where
  "isLeap y = (y mod 4 = 0 \<and> (y mod 100 \<noteq> 0 \<or> y mod 400 = 0))"

definition daysIn :: "int \<Rightarrow> int \<Rightarrow> int" where
  "daysIn m y =
     (if m = 2 then (if isLeap y then 29 else 28)
      else if m \<in> {4, 6, 9, 11} then 30 else 31)"


section \<open>Formatting\<close>

definition pad :: "nat \<Rightarrow> int \<Rightarrow> string" where
  "pad w n = (let t = FormatInt (abs n)
              in (if n < 0 then ''-'' else []) @ replicate (w - length t) (CHR ''0'') @ t)"

text \<open>The fraction of a second with the trailing zeros dropped, and nothing when it is zero.\<close>

definition fraction :: "int \<Rightarrow> string" where
  "fraction ns =
     (if ns = 0 then []
      else CHR ''.'' # rev (dropWhile (\<lambda>c. c = CHR ''0'') (rev (pad 9 ns))))"

text \<open>The offset \<open>-07:00\<close>; Go divides the seconds by 60 towards zero.\<close>

definition offsetText :: "int \<Rightarrow> string" where
  "offsetText off =
     (let zone = abs off div 60
      in (if off \<le> -60 then ''-'' else ''+'') @ pad 2 (zone div 60) @ '':'' @ pad 2 (zone mod 60))"

definition dateTimeText :: "gotime \<Rightarrow> string" where
  "dateTimeText t =
     (let local = instant t + zoneOffset t * second_ns;
          secs = local div second_ns;
          (y, m, d) = civil (secs div day_seconds);
          s = secs mod day_seconds
      in pad 4 y @ ''-'' @ pad 2 m @ ''-'' @ pad 2 d @ ''T'' @ pad 2 (s div 3600) @ '':''
         @ pad 2 (s div 60 mod 60) @ '':'' @ pad 2 (s mod 60) @ fraction (local mod second_ns))"

text \<open>Layout \<open>2006-01-02T15:04:05.999999999-07:00\<close>: \<open>formatPatroniTimestamp\<close> of package \<open>control\<close>.\<close>

definition formatPatroniTimestamp :: "gotime \<Rightarrow> string" where
  "formatPatroniTimestamp t = dateTimeText t @ offsetText (zoneOffset t)"

text \<open>Layout \<open>time.RFC3339Nano\<close>: a zero offset prints as \<open>Z\<close>.\<close>

definition formatRFC3339Nano :: "gotime \<Rightarrow> string" where
  "formatRFC3339Nano t =
     dateTimeText t @ (if zoneOffset t = 0 then ''Z'' else offsetText (zoneOffset t))"


text \<open>Layout \<open>time.RFC3339\<close>: without the fraction.\<close>

definition formatRFC3339 :: "gotime \<Rightarrow> string" where
  "formatRFC3339 t = formatRFC3339Nano (t\<lparr>instant := instant t div second_ns * second_ns\<rparr>)"

text \<open>Layout \<open>20060102T150405.000000000\<close> of a UTC time.\<close>

definition compactTimestamp :: "gotime \<Rightarrow> string" where
  "compactTimestamp t =
     (let secs = instant t div second_ns;
          (y, m, d) = civil (secs div day_seconds);
          s = secs mod day_seconds
      in pad 4 y @ pad 2 m @ pad 2 d @ ''T'' @ pad 2 (s div 3600) @ pad 2 (s div 60 mod 60)
         @ pad 2 (s mod 60) @ ''.'' @ pad 9 (instant t mod second_ns))"


section \<open>Parsing\<close>

definition digits_int :: "string \<Rightarrow> int option" where
  "digits_int s = map_option int (parse_digits s)"

text \<open>\<open>take_num n s\<close> reads exactly \<open>n\<close> digits.\<close>

definition take_num :: "nat \<Rightarrow> string \<Rightarrow> (int \<times> string) option" where
  "take_num n s =
     (if length s < n then None else map_option (\<lambda>v. (v, drop n s)) (digits_int (take n s)))"

text \<open>\<open>getnum(value, false)\<close>: two digits, or one when the second byte is not a digit.\<close>

definition getnum :: "string \<Rightarrow> (int \<times> string) option" where
  "getnum s =
     (case s of
        a # b # _ \<Rightarrow> if is_digit b then take_num 2 s else take_num 1 s
      | _ \<Rightarrow> take_num 1 s)"

definition expect :: "char \<Rightarrow> string \<Rightarrow> string option" where
  "expect c s = (case s of d # r \<Rightarrow> if d = c then Some r else None | [] \<Rightarrow> None)"

text \<open>The optional fraction: at most nine digits count.\<close>

definition parseFraction :: "string \<Rightarrow> int \<times> string" where
  "parseFraction s =
     (case s of
        p # d # _ \<Rightarrow>
          if (p = CHR ''.'' \<or> p = CHR '','') \<and> is_digit d then
            (let ds = takeWhile is_digit (tl s);
                 nine = take 9 (ds @ replicate 9 (CHR ''0''))
             in (the (digits_int nine), dropWhile is_digit (tl s)))
          else (0, s)
      | _ \<Rightarrow> (0, s))"

text \<open>The zone \<open>Z07:00\<close>: an hour up to 24 and a minute up to 60 are accepted.\<close>

definition parseZone :: "string \<Rightarrow> (int \<times> string) option" where
  "parseZone s =
     (case s of
        [] \<Rightarrow> None
      | c # r \<Rightarrow>
         if c = CHR ''Z'' then Some (0, r)
         else if c \<noteq> CHR ''+'' \<and> c \<noteq> CHR ''-'' then None
         else (case take_num 2 r of
            None \<Rightarrow> None
          | Some (hh, r1) \<Rightarrow>
             (case expect (CHR '':'') r1 of
                None \<Rightarrow> None
              | Some r2 \<Rightarrow>
                 (case take_num 2 r2 of
                    None \<Rightarrow> None
                  | Some (mm, r3) \<Rightarrow>
                     if hh > 24 \<or> mm > 60 then None
                     else Some ((if c = CHR ''-'' then -1 else 1) * (hh * 60 + mm) * 60, r3)))))"

definition bindo :: "'a option \<Rightarrow> ('a \<Rightarrow> 'b option) \<Rightarrow> 'b option" where
  "bindo x f = (case x of None \<Rightarrow> None | Some v \<Rightarrow> f v)"

text \<open>\<open>time.Parse(time.RFC3339Nano, s)\<close>.\<close>

definition parseRFC3339Nano :: "string \<Rightarrow> gotime option" where
  "parseRFC3339Nano s =
     bindo (take_num 4 s) (\<lambda>(y, s).
     bindo (expect (CHR ''-'') s) (\<lambda>s. bindo (take_num 2 s) (\<lambda>(mo, s).
     bindo (expect (CHR ''-'') s) (\<lambda>s. bindo (take_num 2 s) (\<lambda>(d, s).
     bindo (expect (CHR ''T'') s) (\<lambda>s. bindo (getnum s) (\<lambda>(h, s).
     bindo (expect (CHR '':'') s) (\<lambda>s. bindo (take_num 2 s) (\<lambda>(mi, s).
     bindo (expect (CHR '':'') s) (\<lambda>s. bindo (take_num 2 s) (\<lambda>(sec, s).
       (let (ns, s) = parseFraction s in
        bindo (parseZone s) (\<lambda>(off, s).
          if s \<noteq> [] \<or> mo < 1 \<or> mo > 12 \<or> h > 23 \<or> mi > 59 \<or> sec > 59 \<or> d < 1 \<or> d > daysIn mo y then None
          else Some \<lparr>instant =
                 ((days_of_civil y mo d * day_seconds + h * 3600 + mi * 60 + sec) - off) * second_ns + ns,
               zoneOffset = off\<rparr>)))))))))))))"

end
