(* ===== verification/Target.thy ===== *)
theory Target
  imports Go_Strings
begin

text \<open>
  The resource identities of \<^verbatim>\<open>src/model/target.go\<close>: the record \<open>target\<close>, its
  normalization and validation, and the reversible textual identities \<open>ClusterID\<close>,
  \<open>MemberID\<close> and \<open>ParseTargetID\<close>.  An error of \<open>Validate\<close> is \<open>Some message\<close>, its
  nil result \<open>None\<close>.  The lemmas show that normalization is a projection, that an
  identity determines the normalized target and that parsing reverses printing.
\<close>

record target =
  tContext :: string
  tNamespace :: string
  tScope :: string
  tGroup :: "int option"
  tMember :: string

definition DefaultContext :: string where
  "DefaultContext = ''default''"

definition DefaultNamespace :: string where
  "DefaultNamespace = ''/service''"

definition clusterIDPrefix :: string where "clusterIDPrefix = ''patroni:cluster/''"
definition memberIDPrefix :: string where "memberIDPrefix = ''patroni:member/''"
definition legacyClusterIDPrefix :: string where "legacyClusterIDPrefix = ''boar:cluster/''"
definition legacyMemberIDPrefix :: string where "legacyMemberIDPrefix = ''boar:member/''"

definition NormalizeNamespace :: "string \<Rightarrow> string" where
  "NormalizeNamespace namespace =
     (let rawParts = Fields (CHR ''/'') (TrimSpace namespace);
          parts = filter (\<lambda>p. p \<noteq> []) (map TrimSpace rawParts)
      in if parts = [] then DefaultNamespace else ''/'' @ Join ''/'' parts)"

definition Normalize :: "target \<Rightarrow> target" where
  "Normalize t =
     (let ctx = TrimSpace (tContext t)
      in t\<lparr>tContext := (if ctx = [] then DefaultContext else ctx),
           tNamespace := NormalizeNamespace (tNamespace t),
           tScope := TrimSpace (tScope t),
           tMember := TrimSpace (tMember t)\<rparr>)"

definition invalidIdentityPart :: "string \<Rightarrow> bool" where
  "invalidIdentityPart value =
     list_ex (\<lambda>c. c = CHR 0x00 \<or> c = CHR 0x0A \<or> c = CHR 0x0D) value"

definition Validate :: "target \<Rightarrow> bool \<Rightarrow> string option" where
  "Validate t0 requireScope =
     (let t = Normalize t0
      in if invalidIdentityPart (tContext t) then
           Some ''target context contains a forbidden control character''
         else if invalidIdentityPart (tNamespace t) then
           Some ''target namespace contains a forbidden control character''
         else if requireScope \<and> tScope t = [] then Some ''target scope is required''
         else if invalidIdentityPart (tScope t) then
           Some ''target scope contains a forbidden control character''
         else if tMember t \<noteq> [] \<and> tScope t = [] then Some ''target member requires a scope''
         else if invalidIdentityPart (tMember t) then
           Some ''target member contains a forbidden control character''
         else (case tGroup t of
                 Some g \<Rightarrow> if g < 0 then Some ''target Citus group must be non-negative'' else None
               | None \<Rightarrow> None))"

definition groupText :: "target \<Rightarrow> string" where
  "groupText t = (case tGroup t of None \<Rightarrow> ''-'' | Some g \<Rightarrow> FormatInt g)"

definition ClusterID :: "target \<Rightarrow> string" where
  "ClusterID t0 =
     (let t = Normalize t0
      in clusterIDPrefix @ Join ''/'' [PathEscape (tContext t), PathEscape (tNamespace t),
                                       PathEscape (tScope t), groupText t])"

definition MemberID :: "target \<Rightarrow> string" where
  "MemberID t0 =
     (let t = Normalize t0
      in if tMember t = [] then []
         else memberIDPrefix @ Join ''/'' [PathEscape (tContext t), PathEscape (tNamespace t),
                                           PathEscape (tScope t), groupText t, PathEscape (tMember t)])"

text \<open>The prefix switch at the start of \<open>ParseTargetID\<close>: is it a member identity, and the rest.\<close>

definition splitTargetID :: "string \<Rightarrow> (bool \<times> string) option" where
  "splitTargetID value =
     (if HasPrefix value clusterIDPrefix then Some (False, TrimPrefix value clusterIDPrefix)
      else if HasPrefix value memberIDPrefix then Some (True, TrimPrefix value memberIDPrefix)
      else if HasPrefix value legacyClusterIDPrefix then Some (False, TrimPrefix value legacyClusterIDPrefix)
      else if HasPrefix value legacyMemberIDPrefix then Some (True, TrimPrefix value legacyMemberIDPrefix)
      else None)"

text \<open>The loop that unescapes the segments stops at the first one that is malformed.\<close>

fun unescapeAll :: "string list \<Rightarrow> string list option" where
  "unescapeAll [] = Some []"
| "unescapeAll (p # ps) =
     (case PathUnescape p of
        None \<Rightarrow> None
      | Some d \<Rightarrow> map_option (Cons d) (unescapeAll ps))"

text \<open>The group segment: \<open>-\<close> for none, a decimal number otherwise.\<close>

definition parseGroup :: "string \<Rightarrow> int option option" where
  "parseGroup segment =
     (if segment = ''-'' then Some None else map_option Some (ParseInt segment))"

text \<open>The index of the first segment that does not unescape.\<close>

fun badSegment :: "string list \<Rightarrow> nat" where
  "badSegment [] = 0"
| "badSegment (p # ps) = (if PathUnescape p = None then 0 else Suc (badSegment ps))"

definition ParseTargetID :: "string \<Rightarrow> plain_error + target" where
  "ParseTargetID value =
     (case splitTargetID value of
        None \<Rightarrow> Inl (ErrNew ''target ID has an unknown prefix'')
      | Some (member, encoded) \<Rightarrow>
         (let parts = Split (CHR ''/'') encoded;
              expected = (if member then 5 else 4)
          in if length parts \<noteq> expected then
               Inl (ErrFmt ''target ID has %d segments, expected %d''
                      [AInt (int (length parts)), AInt (int expected)] [])
             else (case unescapeAll parts of
                None \<Rightarrow>
                  Inl (ErrFmt ''decode target ID segment %d: %w'' [AInt (int (badSegment parts))]
                         [EscapeError (parts ! badSegment parts)])
              | Some decoded \<Rightarrow>
                  (case parseGroup (decoded ! 3) of
                     None \<Rightarrow> Inl (ErrFmt ''decode target group: %w'' [] [AtoiError (decoded ! 3)])
                   | Some g \<Rightarrow>
                       (let t = Normalize \<lparr>tContext = decoded ! 0, tNamespace = decoded ! 1,
                                  tScope = decoded ! 2, tGroup = g,
                                  tMember = (if member then decoded ! 4 else [])\<rparr>
                        in if tContext t = [] \<or> tNamespace t = [] \<or> tScope t = []
                              \<or> member \<and> tMember t = [] then
                             Inl (ErrNew ''target ID contains an empty required segment'')
                           else (case Validate t True of
                                   Some e \<Rightarrow> Inl (ErrFmt ''invalid target ID: %w'' [] [ErrNew e])
                                 | None \<Rightarrow> Inr t))))))"


section \<open>Normalization is a projection\<close>

lemma visible_slash [simp]: "visible (CHR ''/'')"
  by (simp add: visible_def)

lemma DefaultNamespace_normal: "NormalizeNamespace DefaultNamespace = DefaultNamespace"
proof -
  have "trimmed DefaultNamespace" and "trimmed ''service''"
    by (rule trimmed_visible_ends; simp add: DefaultNamespace_def visible_def)+
  moreover have "Fields (CHR ''/'') DefaultNamespace = [''service'']"
    by (simp add: Fields_def DefaultNamespace_def)
  ultimately show ?thesis
    by (simp add: NormalizeNamespace_def TrimSpace_id) (simp add: DefaultNamespace_def)
qed

text \<open>The segments of a normalized namespace are non-empty, trimmed and free of slashes.\<close>

definition ns_parts :: "string list \<Rightarrow> bool" where
  "ns_parts ps = (ps \<noteq> [] \<and> (\<forall>p \<in> set ps. p \<noteq> [] \<and> trimmed p \<and> CHR ''/'' \<notin> set p))"

lemma strip_subset: "set (strip ps s) \<subseteq> set s"
  by (rule set_mono_suffix [OF strip_suffix])

lemma set_TrimSpace: "set (TrimSpace s) \<subseteq> set s"
proof -
  have "set (TrimSpace s) \<subseteq> set (rev (strip space_seqs s))"
    using strip_subset [of "map rev space_seqs" "rev (strip space_seqs s)"] by (simp add: TrimSpace_def)
  also have "\<dots> \<subseteq> set s" using strip_subset by auto
  finally show ?thesis .
qed

lemma NormalizeNamespace_cases:
  obtains "NormalizeNamespace s = DefaultNamespace"
  | ps where "ns_parts ps" and "NormalizeNamespace s = ''/'' @ Join ''/'' ps"
proof -
  let ?ps = "filter (\<lambda>p. p \<noteq> []) (map TrimSpace (Fields (CHR ''/'') (TrimSpace s)))"
  show ?thesis
  proof (cases "?ps = []")
    case True
    then have "NormalizeNamespace s = DefaultNamespace" by (simp add: NormalizeNamespace_def)
    then show ?thesis by (rule that(1))
  next
    case False
    have "ns_parts ?ps"
      using False set_TrimSpace by (fastforce simp: ns_parts_def dest: Fields_elem)
    moreover have "NormalizeNamespace s = ''/'' @ Join ''/'' ?ps"
      using False by (simp add: NormalizeNamespace_def)
    ultimately show ?thesis by (rule that(2))
  qed
qed

lemma Join_trimmed:
  assumes "ns_parts ps"
  shows "trimmed (''/'' @ Join ''/'' ps)"
proof -
  have l: "last ps \<noteq> []" "trimmed (last ps)"
    using assms by (auto simp: ns_parts_def)
  have "\<exists>u. ''/'' @ Join ''/'' ps = u @ CHR ''/'' # last ps"
  proof (cases ps rule: rev_cases)
    case Nil
    with assms show ?thesis by (simp add: ns_parts_def)
  next
    case (snoc qs q)
    show ?thesis
    proof (cases qs)
      case Nil
      with snoc show ?thesis by (intro exI [of _ "[]"]) simp
    next
      case (Cons a as)
      then have "Join ''/'' (qs @ [q]) = Join ''/'' qs @ ''/'' @ q" by (intro Join_snoc) simp
      with snoc show ?thesis by (intro exI [of _ "''/'' @ Join ''/'' qs"]) simp
    qed
  qed
  then obtain u where u: "''/'' @ Join ''/'' ps = u @ CHR ''/'' # last ps" by blast
  have "stripped (map rev space_seqs) (rev (''/'' @ Join ''/'' ps))"
    unfolding u by (rule trimmed_visible_append) (use l in auto)
  moreover have "stripped space_seqs (''/'' @ Join ''/'' ps)"
    by (simp add: stripped_visible_Cons)
  ultimately show ?thesis by (simp add: trimmed_def)
qed

lemma NormalizeNamespace_Join:
  assumes "ns_parts ps"
  shows "NormalizeNamespace (''/'' @ Join ''/'' ps) = ''/'' @ Join ''/'' ps"
proof -
  have "Fields (CHR ''/'') (CHR ''/'' # Join [CHR ''/''] ps) = ps"
    using assms by (intro Fields_sep_Join) (auto simp: ns_parts_def)
  moreover have "filter (\<lambda>p. p \<noteq> []) (map TrimSpace ps) = ps"
    using assms by (induction ps) (auto simp: ns_parts_def TrimSpace_id)
  ultimately show ?thesis
    using Join_trimmed [OF assms] assms by (simp add: NormalizeNamespace_def TrimSpace_id ns_parts_def)
qed

lemma NormalizeNamespace_idem [simp]:
  "NormalizeNamespace (NormalizeNamespace s) = NormalizeNamespace s"
  by (cases s rule: NormalizeNamespace_cases)
     (auto simp: DefaultNamespace_normal NormalizeNamespace_Join [simplified])

lemma NormalizeNamespace_nonempty [simp]: "NormalizeNamespace s \<noteq> []"
  by (cases s rule: NormalizeNamespace_cases) (auto simp: DefaultNamespace_def)

lemma TrimSpace_DefaultContext [simp]: "TrimSpace DefaultContext = DefaultContext"
  by (rule TrimSpace_id, rule trimmed_visible_ends) (simp_all add: DefaultContext_def visible_def)

lemma Normalize_sel [simp]:
  "tGroup (Normalize t) = tGroup t"
  "tScope (Normalize t) = TrimSpace (tScope t)"
  "tMember (Normalize t) = TrimSpace (tMember t)"
  "tNamespace (Normalize t) = NormalizeNamespace (tNamespace t)"
  by (simp_all add: Normalize_def Let_def)

lemma Normalize_context_nonempty [simp]: "tContext (Normalize t) \<noteq> []"
  by (simp add: Normalize_def Let_def DefaultContext_def)

lemma Normalize_idem [simp]: "Normalize (Normalize t) = Normalize t"
  by (cases t) (simp add: Normalize_def Let_def)

lemma Validate_Normalize [simp]: "Validate (Normalize t) b = Validate t b"
  by (simp add: Validate_def)

lemma ClusterID_Normalize [simp]: "ClusterID (Normalize t) = ClusterID t"
  by (simp add: ClusterID_def)

lemma MemberID_Normalize [simp]: "MemberID (Normalize t) = MemberID t"
  by (simp add: MemberID_def)


section \<open>Identities determine the target, and parsing reverses them\<close>

text \<open>Go's \<open>int\<close> is 64 bits wide: every group a program can hold is in this range.\<close>

definition int64_group :: "target \<Rightarrow> bool" where
  "int64_group t = (case tGroup t of None \<Rightarrow> True | Some g \<Rightarrow> - (2 ^ 63) \<le> g \<and> g < 2 ^ 63)"

lemma groupText_no_slash [simp]: "CHR ''/'' \<notin> set (groupText t)"
  by (auto simp: groupText_def split: option.splits dest: FormatInt_chars)

lemma groupText_no_percent: "CHR ''%'' \<notin> set (groupText t)"
  by (auto simp: groupText_def is_digit_def split: option.splits dest: FormatInt_chars)

lemma PathUnescape_id: "CHR ''%'' \<notin> set s \<Longrightarrow> PathUnescape s = Some s"
  by (induction s) auto

lemma PathUnescape_groupText [simp]: "PathUnescape (groupText t) = Some (groupText t)"
  by (simp add: PathUnescape_id groupText_no_percent)

lemma groupText_inj: "groupText t = groupText u \<Longrightarrow> tGroup t = tGroup u"
  by (auto simp: groupText_def split: option.splits dest: FormatInt_inj
           intro: FormatInt_not_dash [THEN notE] FormatInt_not_dash [THEN not_sym, THEN notE])

lemma ClusterID_segments:
  "Split (CHR ''/'') (TrimPrefix (ClusterID t) clusterIDPrefix) =
     [PathEscape (tContext (Normalize t)), PathEscape (tNamespace (Normalize t)),
      PathEscape (tScope (Normalize t)), groupText (Normalize t)]"
  by (simp only: ClusterID_def Let_def TrimPrefix_append, rule Split_Join) auto

lemma MemberID_segments:
  "tMember (Normalize t) \<noteq> [] \<Longrightarrow>
   Split (CHR ''/'') (TrimPrefix (MemberID t) memberIDPrefix) =
     [PathEscape (tContext (Normalize t)), PathEscape (tNamespace (Normalize t)),
      PathEscape (tScope (Normalize t)), groupText (Normalize t), PathEscape (tMember (Normalize t))]"
  by (simp only: MemberID_def Let_def if_False TrimPrefix_append, rule Split_Join) auto

theorem ClusterID_eq_iff:
  "ClusterID t = ClusterID u \<longleftrightarrow> (Normalize t)\<lparr>tMember := []\<rparr> = (Normalize u)\<lparr>tMember := []\<rparr>"
proof
  assume eq: "ClusterID t = ClusterID u"
  then have "Split (CHR ''/'') (TrimPrefix (ClusterID t) clusterIDPrefix) =
             Split (CHR ''/'') (TrimPrefix (ClusterID u) clusterIDPrefix)" by simp
  then have "tContext (Normalize t) = tContext (Normalize u)"
    and "tNamespace (Normalize t) = tNamespace (Normalize u)"
    and "tScope (Normalize t) = tScope (Normalize u)"
    and "tGroup (Normalize t) = tGroup (Normalize u)"
    unfolding ClusterID_segments by (auto dest!: PathEscape_inj groupText_inj)
  then show "(Normalize t)\<lparr>tMember := []\<rparr> = (Normalize u)\<lparr>tMember := []\<rparr>"
    by (intro target.equality) simp_all
next
  assume eq: "(Normalize t)\<lparr>tMember := []\<rparr> = (Normalize u)\<lparr>tMember := []\<rparr>"
  have "tContext (Normalize t) = tContext (Normalize u)"
    and "tNamespace (Normalize t) = tNamespace (Normalize u)"
    and "tScope (Normalize t) = tScope (Normalize u)"
    and "tGroup (Normalize t) = tGroup (Normalize u)"
    using arg_cong [OF eq, of tContext] arg_cong [OF eq, of tNamespace]
      arg_cong [OF eq, of tScope] arg_cong [OF eq, of tGroup] by simp_all
  then show "ClusterID t = ClusterID u"
    by (simp add: ClusterID_def groupText_def)
qed

theorem MemberID_inj:
  assumes "tMember (Normalize t) \<noteq> []" and "MemberID t = MemberID u"
  shows "Normalize t = Normalize u"
proof -
  have "MemberID t \<noteq> []"
    using assms(1) by (simp add: MemberID_def memberIDPrefix_def Let_def)
  with assms(2) have nu: "tMember (Normalize u) \<noteq> []"
    by (auto simp: MemberID_def Let_def)
  have "Split (CHR ''/'') (TrimPrefix (MemberID t) memberIDPrefix) =
        Split (CHR ''/'') (TrimPrefix (MemberID u) memberIDPrefix)" using assms(2) by simp
  then show ?thesis
    unfolding MemberID_segments [OF assms(1)] MemberID_segments [OF nu]
    by (intro target.equality) (auto dest!: PathEscape_inj groupText_inj)
qed

lemma unescapeAll_escaped:
  "unescapeAll [PathEscape a, PathEscape b, PathEscape c, groupText t] = Some [a, b, c, groupText t]"
  "unescapeAll [PathEscape a, PathEscape b, PathEscape c, groupText t, PathEscape d] =
     Some [a, b, c, groupText t, d]"
  by simp_all

lemma parseGroup_groupText: "int64_group t \<Longrightarrow> parseGroup (groupText t) = Some (tGroup t)"
  by (auto simp: parseGroup_def groupText_def int64_group_def ParseInt_FormatInt split: option.splits)

lemma splitTargetID_ids:
  "splitTargetID (ClusterID t) = Some (False, TrimPrefix (ClusterID t) clusterIDPrefix)"
  "tMember (Normalize t) \<noteq> [] \<Longrightarrow>
   splitTargetID (MemberID t) = Some (True, TrimPrefix (MemberID t) memberIDPrefix)"
  by (simp_all add: splitTargetID_def ClusterID_def MemberID_def Let_def clusterIDPrefix_def
        memberIDPrefix_def HasPrefix_def)

lemma Validate_scope: "Validate t True = None \<Longrightarrow> TrimSpace (tScope t) \<noteq> []"
  by (auto simp: Validate_def Let_def split: if_splits)

lemma Validate_no_member: "Validate t b = None \<Longrightarrow> Validate (t\<lparr>tMember := []\<rparr>) b = None"
  by (auto simp: Validate_def Let_def Normalize_def invalidIdentityPart_def split: if_splits option.splits)

lemma ParseTargetID_ClusterID_aux:
  assumes "Validate t True = None" and "int64_group t"
  shows "ParseTargetID (ClusterID t) = Inr ((Normalize t)\<lparr>tMember := []\<rparr>)"
proof -
  let ?n = "(Normalize t)\<lparr>tMember := []\<rparr>"
  have n: "Normalize \<lparr>tContext = tContext (Normalize t), tNamespace = tNamespace (Normalize t),
       tScope = tScope (Normalize t), tGroup = tGroup t, tMember = []\<rparr> = ?n"
    by (intro target.equality) (simp_all add: Normalize_def Let_def)
  have g: "int64_group (Normalize t)" using assms(2) by (simp add: int64_group_def)
  have v: "Validate ?n True = None"
    by (rule Validate_no_member) (use assms(1) in simp)
  show ?thesis
    unfolding ParseTargetID_def splitTargetID_ids
    using parseGroup_groupText [OF g] Validate_scope [OF assms(1)] v
    by (simp add: Let_def ClusterID_segments unescapeAll_escaped n [simplified] del: unescapeAll.simps)
qed

lemma ParseTargetID_MemberID_aux:
  assumes "Validate t True = None" and "int64_group t" and "tMember (Normalize t) \<noteq> []"
  shows "ParseTargetID (MemberID t) = Inr (Normalize t)"
proof -
  have n: "Normalize \<lparr>tContext = tContext (Normalize t), tNamespace = tNamespace (Normalize t),
       tScope = tScope (Normalize t), tGroup = tGroup t, tMember = tMember (Normalize t)\<rparr> = Normalize t"
    by (intro target.equality) (simp_all add: Normalize_def Let_def)
  have g: "int64_group (Normalize t)" using assms(2) by (simp add: int64_group_def)
  show ?thesis
    unfolding ParseTargetID_def splitTargetID_ids(2) [OF assms(3)]
    using parseGroup_groupText [OF g] Validate_scope [OF assms(1)] assms(1,3)
    by (simp add: Let_def MemberID_segments unescapeAll_escaped n [simplified] del: unescapeAll.simps)
qed


section \<open>Properties\<close>

definition example_target :: target where
  "example_target = \<lparr>tContext = [], tNamespace = ''//service/ db //'', tScope = '' main '',
     tGroup = Some 3, tMember = ''pg/1''\<rparr>"

text \<open>Target IDs round trip. For every target that validates with a scope (and whose Citus group
  fits Go's 64-bit int, as every Go value does), \<open>ParseTargetID\<close> applied to its cluster ID gives
  back the normalised target without its member, and applied to its member ID, when a member is
  selected, gives back exactly the normalised target.\<close>

lemma ParseTargetID_roundtrip:
  assumes "Validate t True = None" and "int64_group t"
  shows "ParseTargetID (ClusterID t) = Inr ((Normalize t)\<lparr>tMember := []\<rparr>)
    \<and> (tMember (Normalize t) \<noteq> [] \<longrightarrow> ParseTargetID (MemberID t) = Inr (Normalize t))"
  using assms by (simp add: ParseTargetID_ClusterID_aux ParseTargetID_MemberID_aux)

text \<open>Canonical identities are complete and injective. Two targets have the same cluster ID
  exactly when their normal forms agree in everything but the member, and two targets with a
  member selected have the same member ID exactly when their normal forms are equal: no two
  different clusters or members are ever confused, whatever slashes, blanks or percent signs
  their names hold.\<close>

lemma identity_injective:
  "(ClusterID t = ClusterID u \<longleftrightarrow> (Normalize t)\<lparr>tMember := []\<rparr> = (Normalize u)\<lparr>tMember := []\<rparr>)
   \<and> (tMember (Normalize t) \<noteq> [] \<longrightarrow> (MemberID t = MemberID u \<longleftrightarrow> Normalize t = Normalize u))"
  using ClusterID_eq_iff MemberID_inj MemberID_Normalize by metis

text \<open>C32: Canonical identities are complete, injective and readable. Two targets have the same cluster ID exactly when their
  normal forms agree in everything but the member, and two targets with a member selected have the same member ID exactly when
  their normal forms are equal: no two clusters or members are ever confused, whatever slashes, blanks or percent signs their names
  hold. For a target that validates with a scope (and whose Citus group fits Go's 64-bit int, as every Go value does),
  \<open>ParseTargetID\<close> gives back the normalised target, from the cluster ID without its member.\<close>

theorem identities_faithful:
  assumes "Validate t True = None" and "int64_group t"
  shows "(ClusterID t = ClusterID u \<longleftrightarrow> (Normalize t)\<lparr>tMember := []\<rparr> = (Normalize u)\<lparr>tMember := []\<rparr>)
    \<and> (tMember (Normalize t) \<noteq> [] \<longrightarrow> (MemberID t = MemberID u \<longleftrightarrow> Normalize t = Normalize u))
    \<and> ParseTargetID (ClusterID t) = Inr ((Normalize t)\<lparr>tMember := []\<rparr>)
    \<and> (tMember (Normalize t) \<noteq> [] \<longrightarrow> ParseTargetID (MemberID t) = Inr (Normalize t))"
  using identity_injective [of t u] ParseTargetID_roundtrip [OF assms] by blast

theorem identities_faithful_witness:
  "MemberID example_target \<noteq> MemberID (example_target\<lparr>tMember := ''pg-1''\<rparr>)
   \<and> ClusterID example_target = ClusterID (example_target\<lparr>tMember := ''pg-1''\<rparr>)
   \<and> ParseTargetID (MemberID example_target) = Inr (Normalize example_target)"
proof -
  have v: "Validate example_target True = None" "int64_group example_target" by code_simp+
  have m: "tMember (Normalize example_target) \<noteq> []" by code_simp
  have n: "Normalize example_target \<noteq> Normalize (example_target\<lparr>tMember := ''pg-1''\<rparr>)" by code_simp
  have c: "(Normalize example_target)\<lparr>tMember := []\<rparr> = (Normalize (example_target\<lparr>tMember := ''pg-1''\<rparr>))\<lparr>tMember := []\<rparr>"
    by code_simp
  show ?thesis using identities_faithful [OF v, of "example_target\<lparr>tMember := ''pg-1''\<rparr>"] m n c by simp
qed

end
