(* ===== verification/Dcs_Types.thy ===== *)
theory Dcs_Types
  imports Go_Json Go_Time Target
begin

text \<open>
  Package \<open>dcs\<close>: the revisioned cluster state other components read (\<open>types.go\<close>), and the error
  kinds of the DCS and REST transports (\<open>dcs/errors.go\<close>, \<open>errors.go\<close>).

  A decoded JSON object (\<open>map[string]any\<close>) is a \<open>jobject\<close> in canonical form; a nil map is the empty
  one, which no modelled operation tells apart.  Pointers that may be nil are options.  Revisions
  and counters are Go's \<open>int64\<close>, which the modelled code only compares and prints.
\<close>

datatype key_kind = KeyUnknown | KeyInitialize | KeyConfig | KeyMember | KeyLeader | KeyFailover
  | KeyHistory | KeyStatus | KeyLeaderOptime | KeySync | KeyFailsafe

record dcs_entry =
  eKey :: string
  eRelativePath :: string
  eKind :: key_kind
  eCreateRevision :: int
  eModRevision :: int
  eVersion :: int
  eLease :: int
  eValue :: string

record member_data =
  mdAPIURL :: string
  mdConnURL :: string
  mdState :: string
  mdRole :: string
  mdReplicationState :: string
  mdTimeline :: "int option"
  mdPendingRestart :: "bool option"
  mdPendingRestartReason :: jobject
  mdScheduledRestart :: string
  mdTags :: jobject
  mdPatroniVersion :: string
  mdPause :: "bool option"
  mdXLogLocation :: "int option"
  mdReceiveLSN :: "int option"
  mdReplayLSN :: "int option"
  mdSlots :: "(string \<times> string) list"

record dcs_member =
  mName :: string
  mModRevision :: int
  mLease :: int
  mData :: member_data

record dcs_leader =
  lName :: string
  lModRevision :: int
  lLease :: int

record dcs_failover =
  fModRevision :: int
  fLeader :: string
  fCandidate :: string
  fScheduledAt :: string

record sync_state =
  sModRevision :: int
  sLeader :: string
  sStandbys :: "string list"
  sQuorum :: int

record dcs_status =
  stSource :: key_kind
  stLastLSN :: int
  stSlots :: "(string \<times> int) list"
  stRetainSlots :: "string list"

record cluster_state =
  cInitialize :: string
  cConfig :: jobject
  cLeader :: "dcs_leader option"
  cMembers :: "dcs_member list"
  cFailover :: "dcs_failover option"
  cHistory :: "string list"
  cStatus :: dcs_status
  cSync :: sync_state
  cFailsafe :: "(string \<times> string) list"

record decode_issue =
  diRelativePath :: string
  diField :: string
  diReason :: string

record snapshot =
  snTarget :: target
  snPrefix :: string
  snRevision :: int
  snEntries :: "dcs_entry list"
  snCluster :: cluster_state
  snIssues :: "decode_issue list"

record discovered_cluster =
  dcTarget :: target
  dcRevision :: int
  dcEvidenceKeys :: "string list"
  dcSnapshot :: "snapshot option"

record write_result =
  wrApplied :: bool
  wrRevision :: int
  wrPrevious :: "dcs_entry option"
  wrCurrent :: "dcs_entry option"

record remove_result =
  rmDeleted :: int
  rmRevision :: int


section \<open>Entries and keys\<close>

definition snapshot_Entry :: "snapshot \<Rightarrow> string \<Rightarrow> dcs_entry option" where
  "snapshot_Entry sn relativePath = find (\<lambda>e. eRelativePath e = relativePath) (snEntries sn)"

definition ClassifyRelativePath :: "string \<Rightarrow> key_kind" where
  "ClassifyRelativePath raw =
     (let relative = Trim raw ''/''
      in if relative = ''initialize'' then KeyInitialize
         else if relative = ''config'' then KeyConfig
         else if relative = ''leader'' then KeyLeader
         else if relative = ''failover'' then KeyFailover
         else if relative = ''history'' then KeyHistory
         else if relative = ''status'' then KeyStatus
         else if relative = ''optime/leader'' then KeyLeaderOptime
         else if relative = ''sync'' then KeySync
         else if relative = ''failsafe'' then KeyFailsafe
         else if HasPrefix relative ''members/'' \<and> count_list relative (CHR ''/'') = 1
                 \<and> TrimPrefix relative ''members/'' \<noteq> [] then KeyMember
         else KeyUnknown)"

text \<open>\<open>sort.Slice\<close> by key; the entries of one read have distinct keys, so the order is determined.\<close>

definition SortEntries :: "dcs_entry list \<Rightarrow> dcs_entry list" where
  "SortEntries es = sort_key eKey es"


section \<open>Error kinds\<close>

datatype dcs_kind = DcsConfiguration | DcsAuthentication | DcsTransport | DcsConflict | DcsCompacted
  | DcsLimit | DcsDecode | DcsCanceled | DcsDeadline

datatype patroni_kind = PatRequest | PatAuthentication | PatTransport | PatResponseBody | PatDecode

text \<open>Delivery evidence of a write; \<open>DeliveryUnknown\<close> is the empty string.\<close>

datatype delivery = DeliveryUnknown | DeliveryNotSent | DeliveryMaybeSent | DeliveryResponseReceived

end
