(* ===== verification/Control_Types.thy ===== *)
theory Control_Types
  imports Dcs_Types
begin

text \<open>
  Package \<open>control\<close>: the orchestration contracts (\<open>errors.go\<close>, \<open>result.go\<close>, \<open>plan.go\<close>).  Go's string
  enumerations are datatypes with one constructor per declared constant and an \<open>Other\<close>
  constructor for every other string, because the validation functions test for those.

  Go errors are values of \<open>goerror\<close>.  \<open>errors.As\<close> and \<open>errors.Is\<close> walk the chain of wrapped errors
  in preorder; the chain is \<open>error_chain\<close>.
\<close>

datatype category = CategoryUsage | CategoryConfig | CategoryUnsupported | CategoryAuth | CategoryTLS
  | CategoryNotFound | CategoryConflict | CategoryUnreachable | CategoryFailed | CategoryUnknown
  | CategoryInternal | CategoryOther string

datatype outcome = Succeeded | Failed | Unknown | OutcomeOther string

datatype send_state = SendEmpty | SendNotSent | SendMaybeSent | SendAccepted | SendOther string

datatype verification = Unverified | VerifiedSucceeded | VerifiedFailed | VerificationOther string

datatype evidence_source = EvidenceLocal | EvidenceDCS | EvidencePatroni | EvidencePostgres
  | EvidenceControl | EvidenceOther string

datatype path = PathLocal | PathDCS | PathREST | PathPostgres | PathRESTToDCS | PathOther string

datatype risk = RiskRead | RiskAdminWrite | RiskConfiguration | RiskAvailability | RiskDestructive
  | RiskSQL | RiskOther string

datatype retry_safety = ReadOnly | SafeBeforeSend | UnsafeAfterSend | RetryOther string

fun path_string :: "path \<Rightarrow> string" where
  "path_string PathLocal = ''local''"
| "path_string PathDCS = ''dcs''"
| "path_string PathREST = ''rest''"
| "path_string PathPostgres = ''postgres''"
| "path_string PathRESTToDCS = ''rest->dcs''"
| "path_string (PathOther s) = s"

record evidence =
  evSource :: evidence_source
  evObservedAt :: gotime
  evSummary :: string
  evRevision :: string
  evPath :: string
  evSendState :: send_state


section \<open>Errors\<close>

datatype goerror =
    Plain plain_error
  | Errorf string "goarg list" "goerror list"
  | ContextCanceled
  | ContextDeadlineExceeded
  | DCSError dcs_kind string string delivery "goerror option"
  | ConflictError string int int
  | PatroniError patroni_kind string string delivery int "goerror option"
  | ControlError control_error
and control_error =
    MkError (errCategory: category) (errOperation: string) (errTarget: target)
      (errRetryable: bool) (errMessage: string) (errEvidence: "evidence list")
      (errCause: "goerror option")

abbreviation errorsNew :: "string \<Rightarrow> goerror" where
  "errorsNew m \<equiv> Plain (ErrNew m)"

fun error_chain :: "goerror \<Rightarrow> goerror list" where
  "error_chain (Errorf f args ws) = Errorf f args ws # concat (map error_chain ws)"
| "error_chain (DCSError k op key d c) =
     DCSError k op key d c # (case c of None \<Rightarrow> [] | Some e \<Rightarrow> error_chain e)"
| "error_chain (PatroniError k m ep d st c) =
     PatroniError k m ep d st c # (case c of None \<Rightarrow> [] | Some e \<Rightarrow> error_chain e)"
| "error_chain (ControlError (MkError cat op t r m ev c)) =
     ControlError (MkError cat op t r m ev c) # (case c of None \<Rightarrow> [] | Some e \<Rightarrow> error_chain e)"
| "error_chain e = [e]"

definition errors_chain :: "goerror option \<Rightarrow> goerror list" where
  "errors_chain err = (case err of None \<Rightarrow> [] | Some e \<Rightarrow> error_chain e)"

fun dcs_of :: "goerror \<Rightarrow> (dcs_kind \<times> delivery) option" where
  "dcs_of (DCSError k _ _ d _) = Some (k, d)"
| "dcs_of _ = None"

fun patroni_of :: "goerror \<Rightarrow> (patroni_kind \<times> delivery) option" where
  "patroni_of (PatroniError k _ _ d _ _) = Some (k, d)"
| "patroni_of _ = None"

fun conflict_of :: "goerror \<Rightarrow> (string \<times> int \<times> int) option" where
  "conflict_of (ConflictError k e obs) = Some (k, e, obs)"
| "conflict_of _ = None"

fun first_some :: "('a \<Rightarrow> 'b option) \<Rightarrow> 'a list \<Rightarrow> 'b option" where
  "first_some f [] = None"
| "first_some f (x # xs) = (case f x of Some y \<Rightarrow> Some y | None \<Rightarrow> first_some f xs)"

text \<open>\<open>errors.As\<close> for the three error types the code asks for, and \<open>errors.Is\<close> for the context's.\<close>

definition asDCSError :: "goerror option \<Rightarrow> (dcs_kind \<times> delivery) option" where
  "asDCSError err = first_some dcs_of (errors_chain err)"

definition asPatroniError :: "goerror option \<Rightarrow> (patroni_kind \<times> delivery) option" where
  "asPatroniError err = first_some patroni_of (errors_chain err)"

definition asConflictError :: "goerror option \<Rightarrow> (string \<times> int \<times> int) option" where
  "asConflictError err = first_some conflict_of (errors_chain err)"

definition isError :: "goerror option \<Rightarrow> goerror \<Rightarrow> bool" where
  "isError err x = (x \<in> set (errors_chain err))"

definition NewError ::
  "category \<Rightarrow> string \<Rightarrow> target \<Rightarrow> bool \<Rightarrow> string \<Rightarrow> goerror option \<Rightarrow> evidence list \<Rightarrow> control_error" where
  "NewError cat operation t retryable message cause evs =
     MkError cat operation (Normalize t) retryable message evs cause"

definition ExitCode :: "category \<Rightarrow> int" where
  "ExitCode cat =
     (case cat of
        CategoryFailed \<Rightarrow> 1 | CategoryUsage \<Rightarrow> 2 | CategoryConfig \<Rightarrow> 2 | CategoryUnsupported \<Rightarrow> 3
      | CategoryAuth \<Rightarrow> 4 | CategoryTLS \<Rightarrow> 4 | CategoryNotFound \<Rightarrow> 5 | CategoryConflict \<Rightarrow> 6
      | CategoryUnreachable \<Rightarrow> 7 | CategoryUnknown \<Rightarrow> 8 | CategoryInternal \<Rightarrow> 9 | CategoryOther _ \<Rightarrow> 9)"


section \<open>Validation of evidence, errors and results\<close>

text \<open>A validation returns the first error of a list of checks in order.\<close>

fun validCategory :: "category \<Rightarrow> bool" where
  "validCategory (CategoryOther _) = False"
| "validCategory _ = True"

fun validSource :: "evidence_source \<Rightarrow> bool" where
  "validSource (EvidenceOther _) = False"
| "validSource _ = True"

fun validOrEmpty :: "send_state \<Rightarrow> bool" where
  "validOrEmpty (SendOther s) = False"
| "validOrEmpty _ = True"

fun validPath :: "path \<Rightarrow> bool" where
  "validPath (PathOther _) = False"
| "validPath _ = True"

fun other_text :: "evidence_source \<Rightarrow> string" where
  "other_text (EvidenceOther s) = s"
| "other_text _ = []"

definition evidence_Validate :: "evidence \<Rightarrow> goerror option" where
  "evidence_Validate e =
     (if \<not> validSource (evSource e) then
        Some (Errorf ''evidence source %q is invalid'' [AStr (other_text (evSource e))] [])
      else if IsZero (evObservedAt e) then Some (errorsNew ''evidence observed time is required'')
      else if evSummary e = [] then Some (errorsNew ''evidence summary is required'')
      else if \<not> validOrEmpty (evSendState e) then
        Some (Errorf ''evidence send state %q is invalid''
                [AStr (case evSendState e of SendOther s \<Rightarrow> s | _ \<Rightarrow> [])] [])
      else None)"

definition wrapFirst :: "string \<Rightarrow> goerror option list \<Rightarrow> goerror option" where
  "wrapFirst format errs =
     (case first_some id errs of None \<Rightarrow> None | Some e \<Rightarrow> Some (Errorf format [] [e]))"

definition error_Validate :: "control_error option \<Rightarrow> goerror option" where
  "error_Validate err =
     (case err of
        None \<Rightarrow> Some (errorsNew ''control error is nil'')
      | Some e \<Rightarrow>
         if \<not> validCategory (errCategory e) then
           Some (Errorf ''invalid control error category %q''
                   [AStr (case errCategory e of CategoryOther s \<Rightarrow> s | _ \<Rightarrow> [])] [])
         else if errOperation e = [] then Some (errorsNew ''control error operation is required'')
         else if errMessage e = [] then Some (errorsNew ''control error safe message is required'')
         else wrapFirst ''control error evidence: %w'' (map evidence_Validate (errEvidence e)))"

record 'd result =
  rOperationID :: string
  rOutcome :: outcome
  rTarget :: target
  rPath :: path
  rData :: 'd
  rEvidence :: "evidence list"
  rError :: "control_error option"

definition outcome_error :: "outcome \<Rightarrow> control_error option \<Rightarrow> goerror option" where
  "outcome_error oc err =
     (case oc of
        Succeeded \<Rightarrow>
          if err \<noteq> None then Some (errorsNew ''succeeded result must not contain an error'') else None
      | Failed \<Rightarrow>
          (case err of
             None \<Rightarrow> Some (errorsNew ''failed result requires an error'')
           | Some e \<Rightarrow>
               if errCategory e = CategoryUnknown
               then Some (errorsNew ''failed result cannot contain UNKNOWN error category'') else None)
      | Unknown \<Rightarrow>
          (case err of
             None \<Rightarrow> Some (errorsNew ''unknown result requires UNKNOWN error category'')
           | Some e \<Rightarrow>
               if errCategory e \<noteq> CategoryUnknown
               then Some (errorsNew ''unknown result requires UNKNOWN error category'') else None)
      | OutcomeOther s \<Rightarrow> Some (Errorf ''result outcome %q is invalid'' [AStr s] []))"

definition result_Validate :: "'d result \<Rightarrow> goerror option" where
  "result_Validate r =
     (if rOperationID r = [] then Some (errorsNew ''result operation ID is required'')
      else (case Validate (rTarget r) (tScope (rTarget r) \<noteq> []) of
         Some e \<Rightarrow> Some (Errorf ''result target: %w'' [] [errorsNew e])
       | None \<Rightarrow>
          if \<not> validPath (rPath r) then
            Some (Errorf ''result path %q is invalid'' [AStr (path_string (rPath r))] [])
          else if rEvidence r = [] then Some (errorsNew ''result requires authoritative evidence'')
          else (case wrapFirst ''result evidence: %w'' (map evidence_Validate (rEvidence r)) of
             Some e \<Rightarrow> Some e
           | None \<Rightarrow>
              (case outcome_error (rOutcome r) (rError r) of
                 Some e \<Rightarrow> Some e
               | None \<Rightarrow>
                  (case rError r of
                     None \<Rightarrow> None
                   | Some e \<Rightarrow> wrapFirst ''result error: %w'' [error_Validate (Some e)])))))"

text \<open>The no-false-failure rule.\<close>

definition ClassifyWrite :: "send_state \<Rightarrow> verification \<Rightarrow> control_error option \<Rightarrow> outcome" where
  "ClassifyWrite send v operationError =
     (if v = VerifiedSucceeded then Succeeded
      else if v = VerifiedFailed then Failed
      else if send = SendMaybeSent \<or> send = SendAccepted then Unknown
      else if send = SendNotSent \<and> operationError \<noteq> None then Failed
      else Unknown)"


section \<open>Plans\<close>

record precondition =
  pcField :: string
  pcExpected :: string
  pcSource :: evidence_source

abbreviation pre :: "string \<Rightarrow> string \<Rightarrow> evidence_source \<Rightarrow> precondition" where
  "pre f x s \<equiv> \<lparr>pcField = f, pcExpected = x, pcSource = s\<rparr>"

record plan =
  pOperationID :: string
  pOperation :: string
  pTarget :: target
  pTargets :: "target list"
  pPath :: path
  pRisk :: risk
  pRetrySafety :: retry_safety
  pSummary :: string
  pPreconditions :: "precondition list"

fun validRisk :: "risk \<Rightarrow> bool" where
  "validRisk (RiskOther _) = False"
| "validRisk _ = True"

fun validRetry :: "retry_safety \<Rightarrow> bool" where
  "validRetry (RetryOther _) = False"
| "validRetry _ = True"

text \<open>The loop over the plan's member targets, with the member IDs seen so far.\<close>

definition crossGroupBatch :: "plan \<Rightarrow> target \<Rightarrow> bool" where
  "crossGroupBatch p t =
     (let planTarget = Normalize (pTarget p)
      in pOperation p \<in> set [''reload'', ''restart'', ''reinit'', ''flush'', ''demote-cluster'', ''promote-cluster'']
         \<and> tGroup planTarget = None \<and> tGroup t \<noteq> None
         \<and> tContext t = tContext planTarget \<and> tNamespace t = tNamespace planTarget
         \<and> tScope t = tScope planTarget)"

fun validatePlanTargets :: "plan \<Rightarrow> string list \<Rightarrow> target list \<Rightarrow> goerror option" where
  "validatePlanTargets p seen [] = None"
| "validatePlanTargets p seen (raw # rest) =
     (let t = Normalize raw
      in case Validate t True of
           Some e \<Rightarrow> Some (Errorf ''plan member target: %w'' [] [errorsNew e])
         | None \<Rightarrow>
            if tMember t = [] then Some (errorsNew ''plan member target requires a member'')
            else if ClusterID t \<noteq> ClusterID (Normalize (pTarget p)) \<and> \<not> crossGroupBatch p t then
              Some (errorsNew ''plan member target belongs to another cluster'')
            else if MemberID t \<in> set seen then Some (errorsNew ''plan member targets contain a duplicate'')
            else validatePlanTargets p (MemberID t # seen) rest)"

definition plan_Validate :: "plan \<Rightarrow> goerror option" where
  "plan_Validate p =
     (if pOperationID p = [] \<or> pOperation p = [] \<or> pSummary p = [] then
        Some (errorsNew ''plan operation ID, operation, and summary are required'')
      else if \<not> validPath (pPath p) then
        Some (Errorf ''plan path %q is invalid'' [AStr (path_string (pPath p))] [])
      else if \<not> validRisk (pRisk p) then
        Some (Errorf ''plan risk %q is invalid'' [AStr (case pRisk p of RiskOther s \<Rightarrow> s | _ \<Rightarrow> [])] [])
      else if \<not> validRetry (pRetrySafety p) then
        Some (Errorf ''plan retry safety %q is invalid''
                [AStr (case pRetrySafety p of RetryOther s \<Rightarrow> s | _ \<Rightarrow> [])] [])
      else (case Validate (pTarget p) True of
         Some e \<Rightarrow> Some (Errorf ''plan target: %w'' [] [errorsNew e])
       | None \<Rightarrow>
          if (pOperation p = ''restart'' \<or> pOperation p = ''reload'') \<and> tMember (pTarget p) = [] \<and> pTargets p = []
          then Some (Errorf ''plan operation %s requires a member target'' [AStr (pOperation p)] [])
          else (case validatePlanTargets p [] (pTargets p) of
             Some e \<Rightarrow> Some e
           | None \<Rightarrow>
              if list_ex (\<lambda>c. pcField c = [] \<or> pcSource c = EvidenceOther []) (pPreconditions p)
              then Some (errorsNew ''plan precondition field and source are required'')
              else None)))"

text \<open>\<open>expectedPrecondition\<close> of \<open>reload.go\<close>: the first precondition of that field.\<close>

definition expectedPrecondition :: "plan \<Rightarrow> string \<Rightarrow> string option" where
  "expectedPrecondition p field =
     (case find (\<lambda>c. pcField c = field) (pPreconditions p) of
        None \<Rightarrow> None | Some c \<Rightarrow> Some (pcExpected c))"

definition memberNamesFromTargets :: "target list \<Rightarrow> string list" where
  "memberNamesFromTargets ts = map tMember ts"

end
