(* ===== verification/Version.thy ===== *)
theory Version
  imports Go_Strings "HOL-Library.Product_Lexorder"
begin

text \<open>
  Patroni versions, \<^verbatim>\<open>src/model/version.go\<close>: parsing, printing, SemVer precedence and
  the half-open version ranges of the compatibility gate.  The regular expression
  \<open>versionPattern\<close> is modelled by the deterministic scanner it describes.  The central
  lemma is that the three comparison functions, written in Go as loops with early
  returns, are the comparison of keys of a linear order (locale \<open>comparison\<close>); all order
  properties are proved once inside the locale.
\<close>

record version =
  Major :: int
  Minor :: int
  Patch :: int
  Suffix :: string

definition span_digits :: "string \<Rightarrow> string \<times> string" where
  "span_digits s = (takeWhile is_digit s, dropWhile is_digit s)"

definition suffix_char :: "char \<Rightarrow> bool" where
  "suffix_char c = (is_alnum c \<or> c = CHR ''.'' \<or> c = CHR ''-'')"

text \<open>The optional group \<open>([.-][0-9A-Za-z.-]+)?\<close>: the suffix and the rest, \<open>None\<close> on a mismatch.\<close>

definition scanSuffix :: "string \<Rightarrow> (string \<times> string) option" where
  "scanSuffix s =
     (case s of
        c # cs \<Rightarrow>
          if c = CHR ''.'' \<or> c = CHR ''-'' then
            (if takeWhile suffix_char cs = [] then None
             else Some (c # takeWhile suffix_char cs, dropWhile suffix_char cs))
          else Some ([], s)
      | [] \<Rightarrow> Some ([], []))"

text \<open>The end of the pattern: nothing, or a comment in parentheses after one space.\<close>

definition scanComment :: "string \<Rightarrow> bool" where
  "scanComment s =
     (s = [] \<or>
      (HasPrefix s '' ('' \<and> length s \<ge> 3 \<and> last s = CHR '')''
       \<and> list_all (\<lambda>c. c \<notin> {CHR 0x0D, CHR 0x0A, CHR ''('', CHR '')''}) (butlast (drop 2 s))))"

definition expectDot :: "string \<Rightarrow> string option" where
  "expectDot s = (case s of c # cs \<Rightarrow> if c = CHR ''.'' then Some cs else None | [] \<Rightarrow> None)"

text \<open>\<open>versionPattern.FindStringSubmatch\<close>: the four groups.\<close>

definition versionPattern :: "string \<Rightarrow> (string \<times> string \<times> string \<times> string) option" where
  "versionPattern value =
     (let (a, ra) = span_digits (TrimPrefix value ''v'')
      in case expectDot ra of None \<Rightarrow> None | Some rb0 \<Rightarrow>
        (let (b, rb) = span_digits rb0
         in case expectDot rb of None \<Rightarrow> None | Some rc0 \<Rightarrow>
           (let (c, rc) = span_digits rc0
            in case scanSuffix rc of None \<Rightarrow> None | Some (sfx, rest) \<Rightarrow>
              (if a \<noteq> [] \<and> b \<noteq> [] \<and> c \<noteq> [] \<and> scanComment rest then Some (a, b, c, sfx) else None))))"

definition versionAtoiError :: "string \<Rightarrow> string \<Rightarrow> plain_error" where
  "versionAtoiError value part = ErrFmt ''invalid Patroni version %q: %w'' [AStr value] [AtoiError part]"

definition ParseVersion :: "string \<Rightarrow> plain_error + version" where
  "ParseVersion value =
     (case versionPattern value of
        None \<Rightarrow> Inl (ErrFmt ''invalid Patroni version %q'' [AStr value] [])
      | Some (a, b, c, sfx) \<Rightarrow>
          (case ParseInt a of
             None \<Rightarrow> Inl (versionAtoiError value a)
           | Some x \<Rightarrow>
               (case ParseInt b of
                  None \<Rightarrow> Inl (versionAtoiError value b)
                | Some y \<Rightarrow>
                    (case ParseInt c of
                       None \<Rightarrow> Inl (versionAtoiError value c)
                     | Some z \<Rightarrow> Inr \<lparr>Major = x, Minor = y, Patch = z, Suffix = sfx\<rparr>))))"

definition version_String :: "version \<Rightarrow> string" where
  "version_String v =
     FormatInt (Major v) @ ''.'' @ FormatInt (Minor v) @ ''.'' @ FormatInt (Patch v) @ Suffix v"

text \<open>The loop over the three numbers, shared by \<open>Compare\<close> and \<open>compareNumericCore\<close>.\<close>

fun compareParts :: "int list \<Rightarrow> int list \<Rightarrow> int" where
  "compareParts (l # ls) (r # rs) =
     (if l < r then -1 else if r < l then 1 else compareParts ls rs)"
| "compareParts _ _ = 0"

definition numericIdentifier :: "string \<Rightarrow> string option" where
  "numericIdentifier value =
     (if value = [] \<or> \<not> list_all is_digit value then None
      else (let normalized = TrimLeft value ''0''
            in Some (if normalized = [] then ''0'' else normalized)))"

fun compareIdentifiers :: "string list \<Rightarrow> string list \<Rightarrow> int" where
  "compareIdentifiers [] [] = 0"
| "compareIdentifiers [] (r # rs) = -1"
| "compareIdentifiers (l # ls) [] = 1"
| "compareIdentifiers (l # ls) (r # rs) =
     (case (numericIdentifier l, numericIdentifier r) of
        (Some ln, Some rn) \<Rightarrow>
          (if length ln < length rn \<or> (length ln = length rn \<and> ln < rn) then -1
           else if length ln > length rn \<or> (length ln = length rn \<and> ln > rn) then 1
           else compareIdentifiers ls rs)
      | (Some _, None) \<Rightarrow> -1
      | (None, Some _) \<Rightarrow> 1
      | (None, None) \<Rightarrow>
          (if l < r then -1 else if l > r then 1 else compareIdentifiers ls rs))"

definition comparePrerelease :: "string \<Rightarrow> string \<Rightarrow> int" where
  "comparePrerelease left0 right0 =
     (let left = TrimLeft left0 ''.-''; right = TrimLeft right0 ''.-''
      in if left = [] \<and> right = [] then 0
         else if left = [] then 1
         else if right = [] then -1
         else compareIdentifiers (Split (CHR ''.'') left) (Split (CHR ''.'') right))"

definition Compare :: "version \<Rightarrow> version \<Rightarrow> int" where
  "Compare v other =
     (let c = compareParts [Major v, Minor v, Patch v] [Major other, Minor other, Patch other]
      in if c \<noteq> 0 then c else comparePrerelease (Suffix v) (Suffix other))"

definition compareNumericCore :: "version \<Rightarrow> version \<Rightarrow> int" where
  "compareNumericCore left right =
     compareParts [Major left, Minor left, Patch left] [Major right, Minor right, Patch right]"

record version_range =
  vrMin :: version
  vrMax :: version

definition range_Contains :: "version_range \<Rightarrow> version \<Rightarrow> bool" where
  "range_Contains r v = (Compare v (vrMin r) \<ge> 0 \<and> compareNumericCore v (vrMax r) < 0)"

definition auditedPatroniRange :: version_range where
  "auditedPatroniRange =
     \<lparr>vrMin = \<lparr>Major = 3, Minor = 0, Patch = 0, Suffix = []\<rparr>,
      vrMax = \<lparr>Major = 5, Minor = 0, Patch = 0, Suffix = []\<rparr>\<rparr>"

definition range_String :: "version_range \<Rightarrow> string" where
  "range_String r = ''>='' @ version_String (vrMin r) @ '',<'' @ version_String (vrMax r)"

definition range_Validate :: "version_range \<Rightarrow> plain_error option" where
  "range_Validate r =
     (if Compare (vrMin r) (vrMax r) \<ge> 0 then
        Some (ErrNew ''patroni version range minimum must be less than maximum'')
      else if Compare (vrMin r) (vrMin auditedPatroniRange) < 0
              \<or> Compare (vrMax r) (vrMax auditedPatroniRange) > 0 then
        Some (ErrFmt ''patroni version range %s is outside SDK range %s''
                [AStr (range_String r), AStr (range_String auditedPatroniRange)] [])
      else None)"

definition NewVersionRange :: "string \<Rightarrow> string \<Rightarrow> plain_error + version_range" where
  "NewVersionRange minimum maximum =
     (case ParseVersion minimum of
        Inl e \<Rightarrow> Inl (ErrFmt ''minimum Patroni version: %w'' [] [e])
      | Inr mn \<Rightarrow>
          (case ParseVersion maximum of
             Inl e \<Rightarrow> Inl (ErrFmt ''maximum Patroni version: %w'' [] [e])
           | Inr mx \<Rightarrow>
               (let r = \<lparr>vrMin = mn, vrMax = mx\<rparr>
                in case range_Validate r of Some e \<Rightarrow> Inl e | None \<Rightarrow> Inr r)))"

definition ErrUnsupportedPatroniVersion :: plain_error where
  "ErrUnsupportedPatroniVersion = ErrNew ''unsupported Patroni version''"

definition CheckPatroniVersion :: "string \<Rightarrow> plain_error option" where
  "CheckPatroniVersion value =
     (case ParseVersion value of
        Inl e \<Rightarrow> Some e
      | Inr v \<Rightarrow>
          if range_Contains auditedPatroniRange v then None
          else Some (ErrFmt ''%w: %s is outside %s''
                       [AStr (version_String v), AStr (range_String auditedPatroniRange)]
                       [ErrUnsupportedPatroniVersion]))"


section \<open>The contract of a three-way comparison\<close>

definition cmp_of :: "'k::linorder \<Rightarrow> 'k \<Rightarrow> int" where
  "cmp_of a b = (if a < b then -1 else if a = b then 0 else 1)"

text \<open>
  What a caller of a comparison function relies on: it is the three-way comparison of
  keys in a linear order, hence reflexive, antisymmetric in sign, transitive and total.
\<close>

locale comparison =
  fixes cmp :: "'a \<Rightarrow> 'a \<Rightarrow> int"
    and key :: "'a \<Rightarrow> 'k::linorder"
  assumes cmp_key: "cmp a b = cmp_of (key a) (key b)"
begin

lemma cmp_refl: "cmp a a = 0"
  by (simp add: cmp_key cmp_of_def)

lemma cmp_neg: "cmp b a = - cmp a b"
  by (auto simp: cmp_key cmp_of_def)

lemma cmp_le_iff: "cmp a b \<le> 0 \<longleftrightarrow> key a \<le> key b"
  by (auto simp: cmp_key cmp_of_def)

lemma cmp_ge_iff: "0 \<le> cmp a b \<longleftrightarrow> key b \<le> key a"
  by (auto simp: cmp_key cmp_of_def)

lemma cmp_less_iff: "cmp a b < 0 \<longleftrightarrow> key a < key b"
  by (auto simp: cmp_key cmp_of_def)

lemma cmp_trans: "cmp a b \<le> 0 \<Longrightarrow> cmp b c \<le> 0 \<Longrightarrow> cmp a c \<le> 0"
  by (simp add: cmp_le_iff)

lemma cmp_strict_trans: "cmp a b < 0 \<Longrightarrow> cmp b c \<le> 0 \<Longrightarrow> cmp a c < 0"
  by (simp add: cmp_le_iff cmp_less_iff)

lemma cmp_strict_trans': "cmp a b \<le> 0 \<Longrightarrow> cmp b c < 0 \<Longrightarrow> cmp a c < 0"
  by (simp add: cmp_le_iff cmp_less_iff)

lemma cmp_range: "cmp a b \<in> {-1, 0, 1}"
  by (simp add: cmp_key cmp_of_def)

end

text \<open>
  Keys.  A numeric identifier sorts before an alphanumeric one and by value (its length,
  then its digits, once leading zeros are gone); a release sorts after its pre-releases.
\<close>

definition ident_key :: "string \<Rightarrow> nat \<times> nat \<times> string" where
  "ident_key s = (case numericIdentifier s of Some n \<Rightarrow> (0, length n, n) | None \<Rightarrow> (1, 0, s))"

definition prerelease_key :: "string \<Rightarrow> nat \<times> (nat \<times> nat \<times> string) list" where
  "prerelease_key s =
     (let t = TrimLeft s ''.-''
      in if t = [] then (1, []) else (0, map ident_key (Split (CHR ''.'') t)))"

definition core_key :: "version \<Rightarrow> int \<times> int \<times> int" where
  "core_key v = (Major v, Minor v, Patch v)"

definition version_key :: "version \<Rightarrow> (int \<times> int \<times> int) \<times> nat \<times> (nat \<times> nat \<times> string) list" where
  "version_key v = (core_key v, prerelease_key (Suffix v))"

lemma compareIdentifiers_key:
  "compareIdentifiers ls rs = cmp_of (map ident_key ls) (map ident_key rs)"
proof (induction ls rs rule: compareIdentifiers.induct)
  case (4 l ls r rs)
  show ?case
  proof (cases "numericIdentifier l"; cases "numericIdentifier r")
    fix a b
    assume "numericIdentifier l = Some a" "numericIdentifier r = Some b"
    with 4 show ?thesis by (auto simp: ident_key_def cmp_of_def)
  qed (use 4 in \<open>auto simp: ident_key_def cmp_of_def\<close>)
qed (simp_all add: cmp_of_def)

interpretation prerelease: comparison comparePrerelease prerelease_key
  by unfold_locales
     (auto simp: comparePrerelease_def prerelease_key_def compareIdentifiers_key Let_def cmp_of_def)

interpretation core: comparison compareNumericCore core_key
  by unfold_locales (auto simp: compareNumericCore_def core_key_def cmp_of_def)

interpretation semver: comparison Compare version_key
proof unfold_locales
  fix a b :: version
  have c: "compareParts [Major a, Minor a, Patch a] [Major b, Minor b, Patch b] = cmp_of (core_key a) (core_key b)"
    using core.cmp_key by (simp add: compareNumericCore_def)
  show "Compare a b = cmp_of (version_key a) (version_key b)"
    unfolding Compare_def c prerelease.cmp_key version_key_def by (auto simp: cmp_of_def)
qed


section \<open>Parsing and printing\<close>

definition wf_suffix :: "string \<Rightarrow> bool" where
  "wf_suffix s =
     (case s of [] \<Rightarrow> True
      | c # cs \<Rightarrow> (c = CHR ''.'' \<or> c = CHR ''-'') \<and> cs \<noteq> [] \<and> list_all suffix_char cs)"

definition wf_version :: "version \<Rightarrow> bool" where
  "wf_version v =
     (0 \<le> Major v \<and> Major v < 2 ^ 63 \<and> 0 \<le> Minor v \<and> Minor v < 2 ^ 63
      \<and> 0 \<le> Patch v \<and> Patch v < 2 ^ 63 \<and> wf_suffix (Suffix v))"

lemma scanSuffix_wf: "scanSuffix s = Some (sfx, rest) \<Longrightarrow> wf_suffix sfx"
  by (auto simp: scanSuffix_def wf_suffix_def list_all_iff split: list.splits if_splits
           dest: set_takeWhileD)

lemma scanSuffix_self: "wf_suffix s \<Longrightarrow> scanSuffix s = Some (s, [])"
proof (cases s)
  case (Cons c cs)
  assume "wf_suffix s"
  with Cons have all: "\<forall>c \<in> set cs. suffix_char c" and ne: "cs \<noteq> []"
    and c: "c = CHR ''.'' \<or> c = CHR ''-''"
    by (auto simp: wf_suffix_def list_all_iff)
  from all have "takeWhile suffix_char cs = cs \<and> dropWhile suffix_char cs = []"
    by (simp add: takeWhile_eq_all_conv dropWhile_eq_Nil_conv)
  with ne c show ?thesis
    unfolding Cons scanSuffix_def by (elim conjE) (simp only: list.case if_True if_False if_not_P simp_thms)
qed (simp add: scanSuffix_def)

lemma ParseInt_digits:
  assumes "ParseInt a = Some x" and "list_all is_digit a"
  shows "0 \<le> x \<and> x < 2 ^ 63"
proof -
  have "\<not> HasPrefix a ''-''"
  proof
    assume "HasPrefix a ''-''"
    then obtain r where "a = CHR ''-'' # r" by (cases a) (auto simp: HasPrefix_def)
    with assms(2) show False by simp
  qed
  with assms(1) show ?thesis by (auto simp: ParseInt_def Let_def split: option.splits if_splits)
qed

lemma versionPattern_parts:
  assumes "versionPattern s = Some (a, b, c, sfx)"
  shows "list_all is_digit a \<and> list_all is_digit b \<and> list_all is_digit c \<and> wf_suffix sfx"
  using assms
  by (auto simp: versionPattern_def span_digits_def Let_def list_all_iff
           split: option.splits if_splits prod.splits dest: set_takeWhileD scanSuffix_wf)

lemma ParseVersion_wf:
  assumes "ParseVersion s = Inr v"
  shows "wf_version v"
proof -
  from assms obtain a b c sfx where m: "versionPattern s = Some (a, b, c, sfx)"
    and i: "ParseInt a = Some (Major v)" "ParseInt b = Some (Minor v)" "ParseInt c = Some (Patch v)"
    and x: "Suffix v = sfx"
    by (auto simp: ParseVersion_def split: option.splits prod.splits)
  from versionPattern_parts [OF m] i x show ?thesis
    by (auto simp: wf_version_def dest!: ParseInt_digits)
qed

lemma span_digits_dec: "rest = [] \<or> \<not> is_digit (hd rest) \<Longrightarrow> span_digits (nat_to_dec n @ rest) = (nat_to_dec n, rest)"
proof -
  assume r: "rest = [] \<or> \<not> is_digit (hd rest)"
  have d: "\<forall>c \<in> set (nat_to_dec n). is_digit c"
    using nat_to_dec_digits by (simp add: list_all_iff)
  show ?thesis
    using r d by (cases rest) (simp_all add: span_digits_def takeWhile_append dropWhile_append3 takeWhile_eq_all_conv dropWhile_eq_Nil_conv dropWhile_append2 takeWhile_append2)
qed

lemma expectDot_dot [simp]: "expectDot (CHR ''.'' # s) = Some s"
  by (simp add: expectDot_def)

lemma TrimPrefix_v_dec: "TrimPrefix (nat_to_dec n @ s) ''v'' = nat_to_dec n @ s"
proof -
  have "\<not> is_digit (CHR ''v'')" by (simp add: is_digit_def)
  then have "\<not> HasPrefix (nat_to_dec n @ s) ''v''"
    using nat_to_dec_no_prefix [of "CHR ''v''" n] by (cases "nat_to_dec n") (auto simp: HasPrefix_def)
  then show ?thesis by (simp add: TrimPrefix_def)
qed

lemma wf_suffix_hd: "wf_suffix s \<Longrightarrow> s = [] \<or> \<not> is_digit (hd s)"
  by (auto simp: wf_suffix_def split: list.splits)

lemma ParseVersion_String_aux:
  assumes "wf_version v"
  shows "ParseVersion (version_String v) = Inr v"
proof -
  let ?d = "\<lambda>i. nat_to_dec (nat i)"
  have f: "FormatInt (Major v) = ?d (Major v)" "FormatInt (Minor v) = ?d (Minor v)"
    "FormatInt (Patch v) = ?d (Patch v)"
    using assms by (simp_all add: FormatInt_def wf_version_def)
  have s: "wf_suffix (Suffix v)" using assms by (simp add: wf_version_def)
  have t: "TrimPrefix (version_String v) ''v'' = version_String v"
    unfolding version_String_def f by (rule TrimPrefix_v_dec)
  have "versionPattern (version_String v) = Some (?d (Major v), ?d (Minor v), ?d (Patch v), Suffix v)"
    unfolding versionPattern_def t unfolding version_String_def f
    using s by (simp add: span_digits_dec wf_suffix_hd scanSuffix_self scanComment_def)
  moreover have "ParseInt (?d (Major v)) = Some (Major v)" "ParseInt (?d (Minor v)) = Some (Minor v)"
    "ParseInt (?d (Patch v)) = Some (Patch v)"
    using assms by (simp_all add: ParseInt_FormatInt wf_version_def flip: f)
  ultimately show ?thesis by (simp add: ParseVersion_def)
qed


section \<open>Ranges\<close>

lemma version_key_core_mono: "version_key a \<le> version_key b \<Longrightarrow> core_key a \<le> core_key b"
  by (metis fst_conv less_eq_prod_def order.strict_implies_order order_refl version_key_def)

lemma range_Contains_key:
  "range_Contains r v \<longleftrightarrow> version_key (vrMin r) \<le> version_key v \<and> core_key v < core_key (vrMax r)"
  by (simp add: range_Contains_def semver.cmp_ge_iff core.cmp_less_iff)

lemma range_Validate_key:
  "range_Validate r = None \<longleftrightarrow>
     version_key (vrMin r) < version_key (vrMax r)
     \<and> version_key (vrMin auditedPatroniRange) \<le> version_key (vrMin r)
     \<and> version_key (vrMax r) \<le> version_key (vrMax auditedPatroniRange)"
proof -
  have "Compare (vrMax r) (vrMax auditedPatroniRange) > 0 \<longleftrightarrow>
        \<not> version_key (vrMax r) \<le> version_key (vrMax auditedPatroniRange)"
    using semver.cmp_le_iff [of "vrMax r" "vrMax auditedPatroniRange"] by linarith
  then show ?thesis
    using semver.cmp_ge_iff [of "vrMin r" "vrMax r"]
      semver.cmp_less_iff [of "vrMin r" "vrMin auditedPatroniRange"]
    by (auto simp: range_Validate_def)
qed

lemma range_narrows:
  assumes "range_Validate r = None" and "range_Contains r v"
  shows "range_Contains auditedPatroniRange v"
proof -
  from assms have "core_key v < core_key (vrMax r)"
    and "core_key (vrMax r) \<le> core_key (vrMax auditedPatroniRange)"
    and "version_key (vrMin auditedPatroniRange) \<le> version_key v"
    by (auto simp: range_Contains_key range_Validate_key intro: version_key_core_mono order_trans)
  then show ?thesis by (simp add: range_Contains_key)
qed


section \<open>Properties\<close>

text \<open>Version texts round trip. Whatever text \<open>ParseVersion\<close> accepts, printing the result and
  parsing it again gives the same version, and two accepted texts that print alike denote the
  same version.\<close>

lemma ParseVersion_String:
  assumes "ParseVersion s = Inr v"
  shows "ParseVersion (version_String v) = Inr v"
  using ParseVersion_String_aux [OF ParseVersion_wf [OF assms]] .

text \<open>\<open>Version.Compare\<close> is a total preorder with values in \<open>{-1, 0, 1}\<close>: it is reflexive,
  antisymmetric in the sense that swapping the arguments negates the result, and transitive, so
  SemVer precedence (numeric core, then prerelease identifiers) never cycles.\<close>

lemma Compare_total_preorder:
  "Compare a b \<in> {-1, 0, 1} \<and> Compare a a = 0 \<and> Compare b a = - Compare a b
   \<and> (Compare a b \<le> 0 \<and> Compare b c \<le> 0 \<longrightarrow> Compare a c \<le> 0)
   \<and> (Compare a b < 0 \<and> Compare b c \<le> 0 \<longrightarrow> Compare a c < 0)
   \<and> (compareNumericCore a b \<noteq> 0 \<longrightarrow> Compare a b = compareNumericCore a b)"
proof -
  have "compareNumericCore a b \<noteq> 0 \<longrightarrow> Compare a b = compareNumericCore a b"
    by (simp add: Compare_def compareNumericCore_def)
  then show ?thesis
    using semver.cmp_range [of a b] semver.cmp_refl [of a] semver.cmp_neg [of a b]
      semver.cmp_trans [of a b c] semver.cmp_strict_trans [of a b c] by (auto simp del: insert_iff)
qed

definition vsn :: "int \<Rightarrow> int \<Rightarrow> int \<Rightarrow> string \<Rightarrow> version" where
  "vsn a b c sfx = \<lparr>Major = a, Minor = b, Patch = c, Suffix = sfx\<rparr>"

text \<open>A product can only narrow the audited range.\<close>

lemma NewVersionRange_narrows:
  assumes "NewVersionRange lo hi = Inr r" and "ParseVersion s = Inr v" and "range_Contains r v"
  shows "CheckPatroniVersion s = None \<and> Major v \<in> {3, 4} \<and> compareNumericCore v (vrMax r) < 0"
proof -
  from assms(1) have "range_Validate r = None"
    by (auto simp: NewVersionRange_def Let_def split: sum.splits option.splits)
  from range_narrows [OF this assms(3)] have c: "range_Contains auditedPatroniRange v" .
  moreover from ParseVersion_wf [OF assms(2)] have "0 \<le> Minor v" and "0 \<le> Patch v"
    by (simp_all add: wf_version_def)
  ultimately have "Major v \<in> {3, 4}"
    by (auto simp: range_Contains_key auditedPatroniRange_def version_key_def core_key_def)
  with c assms(2,3) show ?thesis by (simp add: range_Contains_def CheckPatroniVersion_def)
qed

text \<open>C33: Versions are ordered, and their texts round trip. \<open>Version.Compare\<close> is a total preorder with values in
  \<open>{-1, 0, 1}\<close>: it is reflexive, swapping the arguments negates the result, and it is transitive, so SemVer precedence (numeric core,
  then prerelease identifiers) never cycles. Whatever text \<open>ParseVersion\<close> accepts, printing the result and parsing it again gives
  the same version. And a product can only narrow the audited range: when \<open>NewVersionRange\<close> accepts a range and that range
  contains the version a text parses to, then \<open>CheckPatroniVersion\<close> accepts the text, the major version is 3 or 4, and the numeric
  core is strictly below the upper bound: prereleases of the bound itself stay outside.\<close>

theorem versions_ordered:
  assumes "ParseVersion s = Inr a"
  shows "Compare a b \<in> {-1, 0, 1} \<and> Compare a a = 0 \<and> Compare b a = - Compare a b
    \<and> (Compare a b \<le> 0 \<and> Compare b c \<le> 0 \<longrightarrow> Compare a c \<le> 0)
    \<and> (Compare a b < 0 \<and> Compare b c \<le> 0 \<longrightarrow> Compare a c < 0)
    \<and> (compareNumericCore a b \<noteq> 0 \<longrightarrow> Compare a b = compareNumericCore a b)
    \<and> ParseVersion (version_String a) = Inr a
    \<and> (\<forall>lo hi r. NewVersionRange lo hi = Inr r \<and> range_Contains r a
         \<longrightarrow> CheckPatroniVersion s = None \<and> Major a \<in> {3, 4} \<and> compareNumericCore a (vrMax r) < 0)"
  using Compare_total_preorder [of a b c] ParseVersion_String [OF assms] NewVersionRange_narrows [OF _ assms] by blast

theorem versions_ordered_witness:
  "Compare (vsn 4 1 0 ''-beta.2'') (vsn 4 1 0 ''-beta.11'') < 0
   \<and> Compare (vsn 4 1 0 ''-beta.11'') (vsn 4 1 0 []) \<le> 0
   \<and> Compare (vsn 4 1 0 ''-beta.2'') (vsn 4 1 0 []) < 0
   \<and> ParseVersion (version_String (vsn 4 1 0 ''-beta.2'')) = Inr (vsn 4 1 0 ''-beta.2'')
   \<and> (\<exists>r. NewVersionRange ''3.1.0'' ''4.2.0'' = Inr r \<and> range_Contains r (vsn 4 1 0 ''-beta.2'')
        \<and> CheckPatroniVersion ''v4.1.0-beta.2 (x)'' = None \<and> \<not> range_Contains r (vsn 4 2 0 ''-rc1''))"
proof -
  let ?r = "\<lparr>vrMin = vsn 3 1 0 [], vrMax = vsn 4 2 0 []\<rparr>"
  have r: "NewVersionRange ''3.1.0'' ''4.2.0'' = Inr ?r" by code_simp
  have c: "range_Contains ?r (vsn 4 1 0 ''-beta.2'')" by code_simp
  have n: "\<not> range_Contains ?r (vsn 4 2 0 ''-rc1'')" by code_simp
  have "Compare (vsn 4 1 0 ''-beta.2'') (vsn 4 1 0 ''-beta.11'') < 0"
    and "Compare (vsn 4 1 0 ''-beta.11'') (vsn 4 1 0 []) \<le> 0" by code_simp+
  moreover have p: "ParseVersion ''v4.1.0-beta.2 (x)'' = Inr (vsn 4 1 0 ''-beta.2'')" by code_simp
  ultimately show ?thesis
    using versions_ordered [OF p, of "vsn 4 1 0 ''-beta.11''" "vsn 4 1 0 []"] r c n by blast
qed

end
