(* ===== verification/Effects.thy ===== *)
theory Effects
  imports Control_Types Version "HOL-Library.State_Monad"
begin

text \<open>
  The capabilities a \<open>control.Service\<close> holds and the effects of calling them.

  The world outside the program is a type \<open>'w\<close> about which nothing is assumed.  A capability is
  a function on it, so its answers may depend on everything that happened before, and two calls
  may answer differently.  The service record keeps Go's nil checks as options.

  A program is a state transformer on \<open>'w world\<close>, which adds to the outside world the list of
  events so far: every call through a capability with its arguments and its answer, every wait,
  and every look at the context (\<open>ctx.Err()\<close>).  Reading the clock, drawing an operation ID and
  drawing a random index change the outside world but are not recorded.  \<open>valid es m Q\<close> says that
  from every world, after the events \<open>es\<close>, running \<open>m\<close> ends with a result and an event list that
  satisfy \<open>Q\<close>, whatever the capabilities answer: the theorems about operations are of this form.
\<close>

section \<open>Calls, answers and events\<close>

record rest_transition =
  rtLeader :: string
  rtCandidate :: string
  rtMember :: string
  rtScheduledAt :: string

record rest_restart =
  rrSchedule :: string
  rrRole :: string
  rrPostgresVersion :: string
  rrTimeout :: string
  rrRestartPending :: "bool option"

datatype rest_call =
    PostFailover string rest_transition
  | PostSwitchover string rest_transition
  | PostReload string
  | PostRestart string rest_restart
  | DeleteRestart string
  | DeleteSwitchover string
  | PostReinitialize string bool bool
  | PatchConfig string jobject
  | GetPatroni string

text \<open>The fields of \<open>patroni.Response\<close> the operations read; \<open>respState\<close>, \<open>respVersion\<close> and \<open>respServerVersion\<close>
  are \<open>Data.State\<close>, \<open>Data.Patroni.Version\<close> and \<open>Data.ServerVersion\<close> of a status.\<close>

record rest_response =
  respStatus :: int
  respText :: string
  respState :: string
  respVersion :: string
  respServerVersion :: "int option"

datatype failover_call =
    WriteFailover target string "int option"
  | DeleteFailover target "int option"

datatype event =
    EvSnapshot target "goerror + snapshot"
  | EvDiscover string string "goerror + discovered_cluster list"
  | EvRest rest_call rest_response "goerror option"
  | EvFailover failover_call write_result "goerror option"
  | EvConfigCAS target string "int option" write_result "goerror option"
  | EvDeleteCluster target remove_result "goerror option"
  | EvWait int "goerror option"
  | EvCtx "goerror option"

record 'w world =
  ext :: 'w
  events :: "event list"

type_synonym ('w, 'a) prog = "('w world, 'a) state"

text \<open>A nil context is \<open>None\<close>; otherwise \<open>ctx.Err()\<close> may answer differently at every look.\<close>

type_synonym 'w goctx = "('w \<Rightarrow> goerror option \<times> 'w) option"

text \<open>What the Go runtime offers: random bytes, a random number below a bound, the system clock, and a
  wait that the context can cut short.  Two pure functions of the standard library that compute
  with floating-point numbers are here too: \<open>rtParseFloat s\<close> says whether \<open>strconv.ParseFloat\<close>
  accepts \<open>s\<close> and then whether the value is positive, \<open>rtParseDuration\<close> is \<open>time.ParseDuration\<close>
  in nanoseconds; and \<open>rtHMAC key message\<close>, the HMAC-SHA256 in hexadecimal.\<close>

record 'w goruntime =
  rtRandomBytes :: "'w \<Rightarrow> string option \<times> 'w"
  rtRandomInt :: "nat \<Rightarrow> 'w \<Rightarrow> (goerror + int) \<times> 'w"
  rtSystemTime :: "'w \<Rightarrow> gotime \<times> 'w"
  rtWait :: "int \<Rightarrow> 'w \<Rightarrow> goerror option \<times> 'w"
  rtBuildVersion :: string
  rtParseFloat :: "string \<Rightarrow> bool option"
  rtParseDuration :: "string \<Rightarrow> int option"
  rtHMAC :: "string \<Rightarrow> string \<Rightarrow> string"

record 'w service =
  svcSnapshots :: "target \<Rightarrow> 'w \<Rightarrow> (goerror + snapshot) \<times> 'w"
  svcDiscovery :: "(string \<Rightarrow> string \<Rightarrow> 'w \<Rightarrow> (goerror + discovered_cluster list) \<times> 'w) option"
  svcPatroni :: "(rest_call \<Rightarrow> 'w \<Rightarrow> (rest_response \<times> goerror option) \<times> 'w) option"
  svcConfigDCS :: "(target \<Rightarrow> string \<Rightarrow> int option \<Rightarrow> 'w \<Rightarrow> (write_result \<times> goerror option) \<times> 'w) option"
  svcFailoverDCS :: "(failover_call \<Rightarrow> 'w \<Rightarrow> (write_result \<times> goerror option) \<times> 'w) option"
  svcRemoverDCS :: "(target \<Rightarrow> 'w \<Rightarrow> (remove_result \<times> goerror option) \<times> 'w) option"
  svcPlanKey :: string
  svcClock :: "('w \<Rightarrow> gotime \<times> 'w) option"
  svcNewOperationID :: "('w \<Rightarrow> string \<times> 'w) option"
  svcProductVersion :: string
  svcRandomIndex :: "nat \<Rightarrow> 'w \<Rightarrow> (goerror + int) \<times> 'w"
  svcWait :: "int \<Rightarrow> 'w \<Rightarrow> goerror option \<times> 'w"
  svcVerificationAttempts :: int
  svcSupportedRange :: version_range
  svcStandbyAttempts :: int
  svcStandbyInterval :: int
  svcRuntime :: "'w goruntime"


section \<open>Primitive programs\<close>

definition quiet :: "('w \<Rightarrow> 'a \<times> 'w) \<Rightarrow> ('w, 'a) prog" where
  "quiet f = State (\<lambda>s. case f (ext s) of (a, w) \<Rightarrow> (a, s\<lparr>ext := w\<rparr>))"

definition perform :: "('a \<Rightarrow> event) \<Rightarrow> ('w \<Rightarrow> 'a \<times> 'w) \<Rightarrow> ('w, 'a) prog" where
  "perform ev f = State (\<lambda>s. case f (ext s) of (a, w) \<Rightarrow> (a, s\<lparr>ext := w, events := events s @ [ev a]\<rparr>))"

definition Snapshot :: "'w service \<Rightarrow> target \<Rightarrow> ('w, goerror + snapshot) prog" where
  "Snapshot svc t = perform (EvSnapshot t) (svcSnapshots svc t)"

definition callREST ::
  "(rest_call \<Rightarrow> 'w \<Rightarrow> (rest_response \<times> goerror option) \<times> 'w) \<Rightarrow> rest_call
   \<Rightarrow> ('w, rest_response \<times> goerror option) prog" where
  "callREST client c = perform (\<lambda>(r, e). EvRest c r e) (client c)"

definition callFailoverDCS ::
  "(failover_call \<Rightarrow> 'w \<Rightarrow> (write_result \<times> goerror option) \<times> 'w) \<Rightarrow> failover_call
   \<Rightarrow> ('w, write_result \<times> goerror option) prog" where
  "callFailoverDCS cap c = perform (\<lambda>(r, e). EvFailover c r e) (cap c)"

definition callConfigDCS ::
  "(target \<Rightarrow> string \<Rightarrow> int option \<Rightarrow> 'w \<Rightarrow> (write_result \<times> goerror option) \<times> 'w) \<Rightarrow> target \<Rightarrow> string \<Rightarrow> int option
   \<Rightarrow> ('w, write_result \<times> goerror option) prog" where
  "callConfigDCS cap t payload rv = perform (\<lambda>(r, e). EvConfigCAS t payload rv r e) (cap t payload rv)"

definition callRemoverDCS ::
  "(target \<Rightarrow> 'w \<Rightarrow> (remove_result \<times> goerror option) \<times> 'w) \<Rightarrow> target \<Rightarrow> ('w, remove_result \<times> goerror option) prog" where
  "callRemoverDCS cap t = perform (\<lambda>(r, e). EvDeleteCluster t r e) (cap t)"

definition Wait :: "'w service \<Rightarrow> int \<Rightarrow> ('w, goerror option) prog" where
  "Wait svc d = perform (EvWait d) (svcWait svc d)"

definition ctxErr :: "'w goctx \<Rightarrow> ('w, goerror option) prog" where
  "ctxErr ctx = (case ctx of None \<Rightarrow> State_Monad.return None | Some f \<Rightarrow> perform EvCtx f)"

definition validContext :: "'w goctx \<Rightarrow> bool" where
  "validContext ctx = (ctx \<noteq> None)"


section \<open>Running programs and reasoning about them\<close>

definition valid :: "event list \<Rightarrow> ('w, 'a) prog \<Rightarrow> ('a \<Rightarrow> event list \<Rightarrow> bool) \<Rightarrow> bool" where
  "valid es m Q =
     (\<forall>s. \<exists>ds. events (snd (run_state m s)) = events s @ ds \<and> Q (fst (run_state m s)) (es @ ds))"

named_theorems wp \<open>rules that reduce \<open>valid\<close> of a program to its parts\<close>

lemma valid_return [simp]: "valid es (State_Monad.return x) Q \<longleftrightarrow> Q x es"
  by (simp add: valid_def State_Monad.return_def)

lemma valid_returnI [wp]: "Q x es \<Longrightarrow> valid es (State_Monad.return x) Q"
  by simp

lemma valid_bind [wp]: "valid es m (\<lambda>x es'. valid es' (f x) Q) \<Longrightarrow> valid es (m \<bind> f) Q"
proof -
  assume v: "valid es m (\<lambda>x es'. valid es' (f x) Q)"
  show ?thesis
    unfolding valid_def
  proof
    fix s
    obtain x s' where m: "run_state m s = (x, s')" by (cases "run_state m s")
    with v obtain ds where d: "events s' = events s @ ds" "valid (es @ ds) (f x) Q"
      unfolding valid_def [of es m] by (metis fst_conv snd_conv)
    then obtain cs where c: "events (snd (run_state (f x) s')) = events s' @ cs"
      "Q (fst (run_state (f x) s')) ((es @ ds) @ cs)"
      unfolding valid_def by blast
    have "run_state (m \<bind> f) s = run_state (f x) s'"
      by (simp add: State_Monad.bind_def m)
    with d c show "\<exists>ds. events (snd (run_state (m \<bind> f) s)) = events s @ ds
        \<and> Q (fst (run_state (m \<bind> f) s)) (es @ ds)"
      by (metis append.assoc)
  qed
qed

lemma valid_mono:
  "valid es m Q \<Longrightarrow> (\<And>x es'. Q x es' \<Longrightarrow> R x es') \<Longrightarrow> valid es m R"
  unfolding valid_def by blast

lemma valid_conj: "valid es m Q \<Longrightarrow> valid es m R \<Longrightarrow> valid es m (\<lambda>x es'. Q x es' \<and> R x es')"
  unfolding valid_def by (metis same_append_eq)

text \<open>The frame rule: a fact about the events added holds behind every prefix.\<close>

lemma valid_shift:
  assumes "valid [] m Q"
  shows "valid es m (\<lambda>x es'. \<exists>ds. es' = es @ ds \<and> Q x ds)"
  using assms unfolding valid_def by fastforce

lemma valid_use:
  "valid [] m P \<Longrightarrow> (\<And>x ds. P x ds \<Longrightarrow> Q x (es @ ds)) \<Longrightarrow> valid es m Q"
  by (erule valid_mono [OF valid_shift]) blast

lemma valid_if [wp]:
  "(b \<Longrightarrow> valid es m Q) \<Longrightarrow> (\<not> b \<Longrightarrow> valid es n Q) \<Longrightarrow> valid es (if b then m else n) Q"
  by simp

lemma valid_option [wp]:
  "(x = None \<Longrightarrow> valid es m Q) \<Longrightarrow> (\<And>y. x = Some y \<Longrightarrow> valid es (f y) Q)
   \<Longrightarrow> valid es (case x of None \<Rightarrow> m | Some y \<Rightarrow> f y) Q"
  by (cases x) simp_all

lemma valid_sum [wp]:
  "(\<And>y. x = Inl y \<Longrightarrow> valid es (f y) Q) \<Longrightarrow> (\<And>y. x = Inr y \<Longrightarrow> valid es (g y) Q)
   \<Longrightarrow> valid es (case x of Inl y \<Rightarrow> f y | Inr y \<Rightarrow> g y) Q"
  by (cases x) simp_all

lemma valid_prod [wp]:
  "(\<And>a b. x = (a, b) \<Longrightarrow> valid es (f a b) Q) \<Longrightarrow> valid es (case x of (a, b) \<Rightarrow> f a b) Q"
  by (cases x) simp

lemma valid_let [wp]: "(\<And>y. y = x \<Longrightarrow> valid es (f y) Q) \<Longrightarrow> valid es (let y = x in f y) Q"
  by simp

lemma valid_perform: "(\<And>a. Q a (es @ [ev a])) \<Longrightarrow> valid es (perform ev f) Q"
  unfolding valid_def perform_def by (auto split: prod.splits)

lemma valid_quiet: "(\<And>w. Q (fst (f w)) es) \<Longrightarrow> valid es (quiet f) Q"
  unfolding valid_def quiet_def by (auto split: prod.splits) (metis fst_conv)

lemma valid_Snapshot [wp]: "(\<And>a. Q a (es @ [EvSnapshot t a])) \<Longrightarrow> valid es (Snapshot svc t) Q"
  by (simp add: Snapshot_def valid_perform)

lemma valid_callREST [wp]:
  "(\<And>r e. Q (r, e) (es @ [EvRest c r e])) \<Longrightarrow> valid es (callREST client c) Q"
  by (auto simp: callREST_def intro!: valid_perform)

lemma valid_callFailoverDCS [wp]:
  "(\<And>r e. Q (r, e) (es @ [EvFailover c r e])) \<Longrightarrow> valid es (callFailoverDCS cap c) Q"
  by (auto simp: callFailoverDCS_def intro!: valid_perform)

lemma valid_callConfigDCS [wp]:
  "(\<And>r e. Q (r, e) (es @ [EvConfigCAS t payload rv r e])) \<Longrightarrow> valid es (callConfigDCS cap t payload rv) Q"
  by (auto simp: callConfigDCS_def intro!: valid_perform)

lemma valid_callRemoverDCS [wp]:
  "(\<And>r e. Q (r, e) (es @ [EvDeleteCluster t r e])) \<Longrightarrow> valid es (callRemoverDCS cap t) Q"
  by (auto simp: callRemoverDCS_def intro!: valid_perform)

lemma valid_Wait [wp]: "(\<And>e. Q e (es @ [EvWait d e])) \<Longrightarrow> valid es (Wait svc d) Q"
  by (simp add: Wait_def valid_perform)

lemma valid_ctxErr [wp]:
  "(ctx = None \<Longrightarrow> Q None es) \<Longrightarrow> (\<And>e. ctx \<noteq> None \<Longrightarrow> Q e (es @ [EvCtx e])) \<Longrightarrow> valid es (ctxErr ctx) Q"
  by (cases ctx) (auto simp: ctxErr_def intro!: valid_perform)

text \<open>What a run does follows from \<open>valid\<close>.\<close>

lemma valid_run:
  assumes "valid [] m Q" and "run_state m \<lparr>ext = w, events = []\<rparr> = (x, s)"
  shows "Q x (events s)"
  using assms unfolding valid_def by (metis append_Nil fst_conv snd_conv world.select_convs(2))

end
