(* ===== verification/Go_Url.thy ===== *)
theory Go_Url
  imports Go_Strings
begin

text \<open>
  The part of \<open>net/url\<close> the source uses: \<open>url.Parse\<close>, \<open>URL.String\<close>, \<open>URL.Query\<close> and \<open>Values.Encode\<close> of Go 1.25.0.
  User information is kept as the text it was given as.
\<close>

record gourl =
  uScheme :: string
  uOpaque :: string
  uUser :: "string option"
  uHost :: string
  uOmitHost :: bool
  uPath :: string
  uRawPath :: string
  uForceQuery :: bool
  uRawQuery :: string
  uFragment :: string
  uRawFragment :: string

definition Cut :: "char \<Rightarrow> string \<Rightarrow> string \<times> string" where
  "Cut c s = (takeWhile (\<lambda>d. d \<noteq> c) s, drop 1 (dropWhile (\<lambda>d. d \<noteq> c) s))"

text \<open>The text before and after the last occurrence of a byte, if it occurs.\<close>

definition CutLast :: "char \<Rightarrow> string \<Rightarrow> (string \<times> string) option" where
  "CutLast c s =
     (if c \<in> set s
      then Some (rev (drop 1 (dropWhile (\<lambda>d. d \<noteq> c) (rev s))), rev (takeWhile (\<lambda>d. d \<noteq> c) (rev s)))
      else None)"

definition isCTL :: "char \<Rightarrow> bool" where
  "isCTL c = ((of_char c :: nat) < 32 \<or> (of_char c :: nat) = 127)"

definition isLetter :: "char \<Rightarrow> bool" where
  "isLetter c = (is_alnum c \<and> \<not> is_digit c)"

text \<open>\<open>getScheme\<close>: \<open>None\<close> is the error of a leading colon.\<close>

definition getScheme :: "string \<Rightarrow> (string \<times> string) option" where
  "getScheme s =
     (let p = takeWhile (\<lambda>c. is_alnum c \<or> c \<in> set ''+-.'') s; r = dropWhile (\<lambda>c. is_alnum c \<or> c \<in> set ''+-.'') s
      in if HasPrefix s '':'' then None
         else if p \<noteq> [] \<and> isLetter (hd p) \<and> HasPrefix r '':'' then Some (p, drop 1 r)
         else Some ([], s))"

text \<open>The bytes \<open>shouldEscape\<close> leaves alone in a host and in a path.\<close>

definition host_keep :: "char \<Rightarrow> bool" where
  "host_keep c = (is_alnum c \<or> c \<in> set ''-_.~!$&()*+,;=:[]<>'' \<or> c = CHR 0x27 \<or> c = CHR 0x22)"

definition urlpath_keep :: "char \<Rightarrow> bool" where
  "urlpath_keep c = (is_alnum c \<or> c \<in> set ''-_.~$&+,/:;=@'')"

definition urlfragment_keep :: "char \<Rightarrow> bool" where
  "urlfragment_keep c = (is_alnum c \<or> c \<in> set ''-_.~$&+,/:;=?@!()*'')"

definition user_keep :: "char \<Rightarrow> bool" where
  "user_keep c = (is_alnum c \<or> c \<in> set ''-_.~$&+,;='')"

definition escape_with :: "(char \<Rightarrow> bool) \<Rightarrow> string \<Rightarrow> string" where
  "escape_with keep s =
     concat (map (\<lambda>c. if keep c then [c]
                      else [CHR ''%'', hex_digit (of_char c div 16), hex_digit (of_char c mod 16)]) s)"

text \<open>\<open>unescape\<close> in mode \<open>encodeHost\<close>, and in mode \<open>encodeZone\<close> when \<open>zone\<close> holds.\<close>

fun unescapeHost :: "bool \<Rightarrow> string \<Rightarrow> string option" where
  "unescapeHost zone [] = Some []"
| "unescapeHost zone (c # cs) =
     (if c = CHR ''%'' then
        (case cs of
           a # b # rest \<Rightarrow>
             (case (hex_val a, hex_val b) of
                (Some x, Some y) \<Rightarrow>
                  (let v = char_of (16 * x + y)
                   in if a = CHR ''2'' \<and> b = CHR ''5''
                         \<or> (if zone then v = CHR '' '' \<or> host_keep v else x \<ge> 8)
                      then map_option (Cons v) (unescapeHost zone rest) else None)
              | _ \<Rightarrow> None)
         | _ \<Rightarrow> None)
      else if (of_char c :: nat) < 0x80 \<and> \<not> host_keep c then None
      else map_option (Cons c) (unescapeHost zone cs))"

definition validOptionalPort :: "string \<Rightarrow> bool" where
  "validOptionalPort port =
     (case port of [] \<Rightarrow> True | c # ds \<Rightarrow> c = CHR '':'' \<and> list_all is_digit ds)"

fun splitZone :: "string \<Rightarrow> (string \<times> string) option" where
  "splitZone [] = None"
| "splitZone (c # cs) =
     (if HasPrefix (c # cs) ''%25'' then Some ([], c # cs)
      else map_option (\<lambda>(a, b). (c # a, b)) (splitZone cs))"

definition parseHost :: "string \<Rightarrow> string option" where
  "parseHost host =
     (if HasPrefix host ''['' then
        (case CutLast (CHR '']'') host of
           None \<Rightarrow> None
         | Some (hostPart, colonPort) \<Rightarrow>
            if \<not> validOptionalPort colonPort then None
            else (case splitZone hostPart of
               None \<Rightarrow> unescapeHost False host
             | Some (addr, z) \<Rightarrow>
                (case (unescapeHost False addr, unescapeHost True z, unescapeHost False ('']'' @ colonPort)) of
                   (Some h1, Some h2, Some h3) \<Rightarrow> Some (h1 @ h2 @ h3)
                 | _ \<Rightarrow> None)))
      else (case CutLast (CHR '':'') host of
              Some (_, port) \<Rightarrow>
                if validOptionalPort ('':'' @ port) then unescapeHost False host else None
            | None \<Rightarrow> unescapeHost False host))"

definition userinfo_ok :: "char \<Rightarrow> bool" where
  "userinfo_ok c = (is_alnum c \<or> c \<in> set ''-._:~!$&()*+,;=%@'' \<or> c = CHR 0x27)"

text \<open>\<open>parseAuthority\<close>: the user information, if there is some, and the host.\<close>

definition parseAuthority :: "string \<Rightarrow> (string option \<times> string) option" where
  "parseAuthority authority =
     (case CutLast (CHR ''@'') authority of
        None \<Rightarrow> map_option (Pair None) (parseHost authority)
      | Some (userinfo, host) \<Rightarrow>
          (case parseHost host of
             None \<Rightarrow> None
           | Some h \<Rightarrow>
               if list_all userinfo_ok userinfo
                  \<and> (let (u, p) = Cut (CHR '':'') userinfo in PathUnescape u \<noteq> None \<and> PathUnescape p \<noteq> None)
               then Some (Some userinfo, h) else None))"

definition emptyURL :: gourl where
  "emptyURL = \<lparr>uScheme = [], uOpaque = [], uUser = None, uHost = [], uOmitHost = False, uPath = [], uRawPath = [],
     uForceQuery = False, uRawQuery = [], uFragment = [], uRawFragment = []\<rparr>"

text \<open>\<open>setPath\<close>: the text is kept when escaping the path does not give it back.\<close>

definition setPath :: "string \<Rightarrow> gourl \<Rightarrow> gourl option" where
  "setPath text u = map_option (\<lambda>p. u\<lparr>uPath := p, uRawPath := (if escape_with urlpath_keep p = text then [] else text)\<rparr>)
     (PathUnescape text)"

definition parseURL :: "string \<Rightarrow> gourl option" where
  "parseURL raw =
     (if list_ex isCTL raw then None
      else if raw = ''*'' then Some (emptyURL\<lparr>uPath := ''*''\<rparr>)
      else (case getScheme raw of
         None \<Rightarrow> None
       | Some (sch, rest0) \<Rightarrow>
          (let scheme = ToLower sch;
               force = (HasSuffix rest0 ''?'' \<and> count_list rest0 (CHR ''?'') = 1);
               (rest, query) = (if force then (butlast rest0, []) else Cut (CHR ''?'') rest0);
               u = emptyURL\<lparr>uScheme := scheme, uForceQuery := force, uRawQuery := query\<rparr>
           in if \<not> HasPrefix rest ''/'' \<and> scheme \<noteq> [] then Some (u\<lparr>uOpaque := rest\<rparr>)
              else if \<not> HasPrefix rest ''/'' \<and> CHR '':'' \<in> set (fst (Cut (CHR ''/'') rest)) then None
              else if (scheme \<noteq> [] \<or> \<not> HasPrefix rest ''///'') \<and> HasPrefix rest ''//'' then
                (let a = drop 2 rest;
                     authority = takeWhile (\<lambda>c. c \<noteq> CHR ''/'') a;
                     path = dropWhile (\<lambda>c. c \<noteq> CHR ''/'') a
                 in case parseAuthority authority of
                      Some (user, host) \<Rightarrow> setPath path (u\<lparr>uUser := user, uHost := host\<rparr>)
                    | None \<Rightarrow> None)
              else setPath rest (u\<lparr>uOmitHost := (scheme \<noteq> [] \<and> HasPrefix rest ''/'')\<rparr>))))"

text \<open>\<open>url.Parse\<close>: the fragment is cut off first and unescaped last.\<close>

definition urlParse :: "string \<Rightarrow> gourl option" where
  "urlParse raw =
     (let (u, frag) = Cut (CHR ''#'') raw
      in case parseURL u of
           None \<Rightarrow> None
         | Some url \<Rightarrow>
             if frag = [] then Some url
             else map_option (\<lambda>f. url\<lparr>uFragment := f,
                    uRawFragment := (if escape_with urlfragment_keep f = frag then [] else frag)\<rparr>) (PathUnescape frag))"

text \<open>\<open>EscapedPath\<close> and \<open>EscapedFragment\<close>: the text that was given, if it is a valid encoding, else the escaped value.\<close>

definition validEncoded :: "(char \<Rightarrow> bool) \<Rightarrow> string \<Rightarrow> bool" where
  "validEncoded keep s = list_all (\<lambda>c. c \<in> set ''!$&()*+,;=:@[]%'' \<or> c = CHR 0x27 \<or> keep c) s"

definition escapedAs :: "(char \<Rightarrow> bool) \<Rightarrow> string \<Rightarrow> string \<Rightarrow> string" where
  "escapedAs keep raw value =
     (if raw \<noteq> [] \<and> validEncoded keep raw \<and> PathUnescape raw = Some value then raw else escape_with keep value)"

definition EscapedPath :: "gourl \<Rightarrow> string" where
  "EscapedPath u =
     (if uRawPath u \<noteq> [] \<and> validEncoded urlpath_keep (uRawPath u) \<and> PathUnescape (uRawPath u) = Some (uPath u) then uRawPath u
      else if uPath u = ''*'' then ''*'' else escape_with urlpath_keep (uPath u))"

text \<open>\<open>Userinfo.String\<close> of user information given as a text.\<close>

definition userinfoString :: "string \<Rightarrow> string" where
  "userinfoString info =
     (let (u, p) = Cut (CHR '':'') info;
          esc = (\<lambda>s. case PathUnescape s of None \<Rightarrow> [] | Some t \<Rightarrow> escape_with user_keep t) in
      esc u @ (if CHR '':'' \<in> set info then '':'' @ esc p else []))"

text \<open>\<open>URL.String\<close>.\<close>

definition URLString :: "gourl \<Rightarrow> string" where
  "URLString u =
     (let path = EscapedPath u;
          scheme = (if uScheme u = [] then [] else uScheme u @ '':'');
          authority =
            (if uScheme u = [] \<and> uHost u = [] \<and> uUser u = None then []
             else if uOmitHost u \<and> uHost u = [] \<and> uUser u = None then []
             else (if uHost u \<noteq> [] \<or> uPath u \<noteq> [] \<or> uUser u \<noteq> None then ''//'' else [])
               @ (case uUser u of None \<Rightarrow> [] | Some info \<Rightarrow> userinfoString info @ ''@'')
               @ escape_with host_keep (uHost u));
          slash = (if path \<noteq> [] \<and> \<not> HasPrefix path ''/'' \<and> uHost u \<noteq> [] then ''/'' else []);
          dot = (if scheme @ authority @ slash = [] \<and> CHR '':'' \<in> set (fst (Cut (CHR ''/'') path)) then ''./'' else [])
      in (if uOpaque u \<noteq> [] then scheme @ uOpaque u else scheme @ authority @ slash @ dot @ path)
         @ (if uForceQuery u \<or> uRawQuery u \<noteq> [] then ''?'' @ uRawQuery u else [])
         @ (if uFragment u \<noteq> [] then ''#'' @ escapedAs urlfragment_keep (uRawFragment u) (uFragment u) else []))"

text \<open>\<open>QueryUnescape\<close>, and the first value of a key in a query; malformed pairs are skipped.\<close>

definition QueryUnescape :: "string \<Rightarrow> string option" where
  "QueryUnescape s = PathUnescape (map (\<lambda>c. if c = CHR ''+'' then CHR '' '' else c) s)"

definition queryPair :: "string \<Rightarrow> (string \<times> string) option" where
  "queryPair part =
     (if part = [] \<or> CHR '';'' \<in> set part then None
      else let (k, v) = Cut (CHR ''='') part in
        (case (QueryUnescape k, QueryUnescape v) of (Some key, Some val) \<Rightarrow> Some (key, val) | _ \<Rightarrow> None))"

definition queryGet :: "string \<Rightarrow> string \<Rightarrow> string" where
  "queryGet query key =
     (case find (\<lambda>p. fst p = key) (List.map_filter queryPair (Split (CHR ''&'') query)) of
        None \<Rightarrow> [] | Some (_, val) \<Rightarrow> val)"

text \<open>\<open>Values.Encode\<close> for values with one text per key.\<close>

definition query_keep :: "char \<Rightarrow> bool" where
  "query_keep c = (is_alnum c \<or> c \<in> set ''-_.~'')"

definition QueryEscape :: "string \<Rightarrow> string" where
  "QueryEscape s = concat (map (\<lambda>c. if c = CHR '' '' then ''+'' else escape_with query_keep [c]) s)"

definition Encode :: "(string \<times> string) list \<Rightarrow> string" where
  "Encode values = Join ''&'' (map (\<lambda>(k, v). QueryEscape k @ ''='' @ QueryEscape v) (sort_key fst values))"

text \<open>\<open>URL.String\<close> for a URL with a scheme and a host, without user, opaque part and fragment.\<close>

definition hostURLString :: "gourl \<Rightarrow> string" where
  "hostURLString u =
     uScheme u @ ''://'' @ escape_with host_keep (uHost u)
     @ (let path = (if uPath u = ''*'' then ''*'' else escape_with urlpath_keep (uPath u))
        in (if path \<noteq> [] \<and> \<not> HasPrefix path ''/'' then ''/'' else []) @ path)
     @ (if uForceQuery u \<or> uRawQuery u \<noteq> [] then ''?'' @ uRawQuery u else [])"

text \<open>\<open>patroniBaseURL\<close> of \<open>control/read.go\<close>.\<close>

definition patroniBaseURL :: "string \<Rightarrow> plain_error + string" where
  "patroniBaseURL apiURL =
     (case urlParse (TrimSpace apiURL) of
        None \<Rightarrow> Inl (ErrNew ''invalid Patroni API URL'')
      | Some parsed \<Rightarrow>
          if uHost parsed = [] \<or> uUser parsed \<noteq> None \<or> (uScheme parsed \<noteq> ''http'' \<and> uScheme parsed \<noteq> ''https'')
          then Inl (ErrNew ''invalid Patroni API URL'')
          else if uRawQuery parsed \<noteq> [] \<or> uFragment parsed \<noteq> []
          then Inl (ErrNew ''patroni API URL contains query or fragment'')
          else Inr (TrimRight
                      (hostURLString (parsed\<lparr>uPath := TrimSuffix (TrimRight (uPath parsed) ''/'') ''/patroni''\<rparr>))
                      ''/''))"

end
