(* ===== verification/Control_Base.thy ===== *)
theory Control_Base
  imports Effects Go_Url
begin

text \<open>
  The parts of package \<open>control\<close> every operation uses: construction of the service, its clock and
  operation IDs (\<open>service.go\<close>), the compatibility gate (\<open>version_gate.go\<close>), evidence, failed
  results, the classification of errors and HTTP statuses, and the reading of configuration
  values (\<open>read.go\<close>).
\<close>

section \<open>Service construction\<close>

record 'w service_options =
  optSnapshots :: "(target \<Rightarrow> 'w \<Rightarrow> (goerror + snapshot) \<times> 'w) option"
  optDiscovery :: "(string \<Rightarrow> string \<Rightarrow> 'w \<Rightarrow> (goerror + discovered_cluster list) \<times> 'w) option"
  optPatroni :: "(rest_call \<Rightarrow> 'w \<Rightarrow> (rest_response \<times> goerror option) \<times> 'w) option"
  optConfig :: "(target \<Rightarrow> string \<Rightarrow> int option \<Rightarrow> 'w \<Rightarrow> (write_result \<times> goerror option) \<times> 'w) option"
  optFailover :: "(failover_call \<Rightarrow> 'w \<Rightarrow> (write_result \<times> goerror option) \<times> 'w) option"
  optRemover :: "(target \<Rightarrow> 'w \<Rightarrow> (remove_result \<times> goerror option) \<times> 'w) option"
  optClock :: "('w \<Rightarrow> gotime \<times> 'w) option"
  optNewOperationID :: "('w \<Rightarrow> string \<times> 'w) option"
  optProductVersion :: string
  optRandomIndex :: "(nat \<Rightarrow> 'w \<Rightarrow> (goerror + int) \<times> 'w) option"
  optWait :: "(int \<Rightarrow> 'w \<Rightarrow> goerror option \<times> 'w) option"
  optVerificationAttempts :: int
  optSupportedRange :: "version_range option"
  optStandbyAttempts :: int
  optStandbyInterval :: int

definition cryptoRandomIndex :: "'w goruntime \<Rightarrow> nat \<Rightarrow> 'w \<Rightarrow> (goerror + int) \<times> 'w" where
  "cryptoRandomIndex rt len w =
     (if len = 0 then (Inl (errorsNew ''random selection requires a positive length''), w)
      else rtRandomInt rt len w)"

definition hexEncode :: "string \<Rightarrow> string" where
  "hexEncode b = concat (map (\<lambda>c. [hex_lower (byte c div 16), hex_lower (byte c mod 16)]) b)"

definition randomOperationID :: "'w goruntime \<Rightarrow> ('w, string) prog" where
  "randomOperationID rt = do {
     b \<leftarrow> quiet (rtRandomBytes rt);
     case b of
       None \<Rightarrow> do {
         t \<leftarrow> quiet (rtSystemTime rt);
         State_Monad.return (''patroni-operation-'' @ compactTimestamp (UTC t))
       }
     | Some bytes \<Rightarrow> State_Monad.return (''patroni-operation-'' @ hexEncode bytes)
   }"

definition buildService ::
  "'w goruntime \<Rightarrow> 'w service_options \<Rightarrow> (target \<Rightarrow> 'w \<Rightarrow> (goerror + snapshot) \<times> 'w) \<Rightarrow> string
   \<Rightarrow> version_range \<Rightarrow> 'w service" where
  "buildService rt opts snapshots key rng =
     (let attempts = (if optVerificationAttempts opts \<le> 0 then 3 else optVerificationAttempts opts)
      in \<lparr>svcSnapshots = snapshots, svcDiscovery = optDiscovery opts, svcPatroni = optPatroni opts,
          svcConfigDCS = optConfig opts, svcFailoverDCS = optFailover opts,
          svcRemoverDCS = optRemover opts, svcPlanKey = key,
          svcClock = Some (case optClock opts of
                             None \<Rightarrow> (\<lambda>w. case rtSystemTime rt w of (t, w') \<Rightarrow> (UTC t, w'))
                           | Some c \<Rightarrow> c),
          svcNewOperationID = Some (case optNewOperationID opts of
                None \<Rightarrow> (\<lambda>w. case run_state (randomOperationID rt) \<lparr>ext = w, events = []\<rparr> of
                               (x, s) \<Rightarrow> (x, ext s))
              | Some f \<Rightarrow> f),
          svcProductVersion = (let v = TrimSpace (optProductVersion opts)
                               in if v = [] then rtBuildVersion rt else v),
          svcRandomIndex = (case optRandomIndex opts of None \<Rightarrow> cryptoRandomIndex rt | Some f \<Rightarrow> f),
          svcWait = (case optWait opts of None \<Rightarrow> rtWait rt | Some f \<Rightarrow> f),
          svcVerificationAttempts = attempts,
          svcSupportedRange = rng,
          svcStandbyAttempts =
            (if optStandbyAttempts opts \<le> 0
             then (if optVerificationAttempts opts > 0 then attempts else 31)
             else optStandbyAttempts opts),
          svcStandbyInterval =
            (if optStandbyInterval opts \<le> 0 then second_ns else optStandbyInterval opts),
          svcRuntime = rt\<rparr>)"

definition NewService :: "'w goruntime \<Rightarrow> 'w service_options \<Rightarrow> ('w, goerror + 'w service) prog" where
  "NewService rt opts =
     (case optSnapshots opts of
        None \<Rightarrow> State_Monad.return (Inl (errorsNew ''control service requires a DCS snapshot reader''))
      | Some snapshots \<Rightarrow> do {
          key \<leftarrow> quiet (rtRandomBytes rt);
          State_Monad.return
            (case key of
               None \<Rightarrow> Inl (errorsNew ''control service could not initialize plan binding'')
             | Some k \<Rightarrow>
                (case optSupportedRange opts of
                   None \<Rightarrow> Inr (buildService rt opts snapshots k auditedPatroniRange)
                 | Some r \<Rightarrow>
                    (case range_Validate r of
                       Some e \<Rightarrow> Inl (Errorf ''control service Patroni version range: %w'' [] [Plain e])
                     | None \<Rightarrow> Inr (buildService rt opts snapshots k r))))
        })"

definition operationID :: "'w service \<Rightarrow> ('w, string) prog" where
  "operationID svc =
     (case svcNewOperationID svc of
        None \<Rightarrow> randomOperationID (svcRuntime svc)
      | Some f \<Rightarrow> do {
          v \<leftarrow> quiet f;
          if TrimSpace v \<noteq> [] then State_Monad.return (TrimSpace v) else randomOperationID (svcRuntime svc)
        })"

definition now :: "'w service \<Rightarrow> ('w, gotime) prog" where
  "now svc = do {
     t \<leftarrow> quiet (case svcClock svc of None \<Rightarrow> rtSystemTime (svcRuntime svc) | Some c \<Rightarrow> c);
     State_Monad.return (UTC t)
   }"


section \<open>Evidence and failed results\<close>

text \<open>An \<open>Evidence\<close> literal with \<open>ObservedAt: service.now()\<close>.\<close>

definition observe ::
  "'w service \<Rightarrow> evidence_source \<Rightarrow> string \<Rightarrow> string \<Rightarrow> string \<Rightarrow> send_state \<Rightarrow> ('w, evidence) prog" where
  "observe svc source summary revision path send = do {
     t \<leftarrow> now svc;
     State_Monad.return \<lparr>evSource = source, evObservedAt = t, evSummary = summary,
       evRevision = revision, evPath = path, evSendState = send\<rparr>
   }"

definition snapshotEvidence :: "'w service \<Rightarrow> snapshot \<Rightarrow> string \<Rightarrow> ('w, evidence) prog" where
  "snapshotEvidence svc sn summary =
     observe svc EvidenceDCS summary (FormatInt (snRevision sn)) (snPrefix sn) SendEmpty"

definition evidenceSourceForPath :: "path \<Rightarrow> evidence_source" where
  "evidenceSourceForPath p =
     (case p of PathREST \<Rightarrow> EvidencePatroni | PathPostgres \<Rightarrow> EvidencePostgres
      | PathLocal \<Rightarrow> EvidenceLocal | _ \<Rightarrow> EvidenceDCS)"

text \<open>\<open>zero\<close> is the zero value of the result's data type.\<close>

definition failedReadWithEvidence ::
  "'w service \<Rightarrow> 'd \<Rightarrow> string \<Rightarrow> string \<Rightarrow> target \<Rightarrow> path \<Rightarrow> category \<Rightarrow> bool \<Rightarrow> string
   \<Rightarrow> goerror option \<Rightarrow> evidence list \<Rightarrow> ('w, 'd result) prog" where
  "failedReadWithEvidence svc zero opID operation t path cat retryable message cause evidence = do {
     evs \<leftarrow> (if evidence = [] then do {
               e \<leftarrow> observe svc (evidenceSourceForPath path) message [] (path_string path) SendEmpty;
               State_Monad.return [e]
             } else State_Monad.return evidence);
     State_Monad.return \<lparr>rOperationID = opID, rOutcome = Failed, rTarget = Normalize t, rPath = path,
       rData = zero, rEvidence = evs,
       rError = Some (NewError cat operation t retryable message cause evs)\<rparr>
   }"

abbreviation failedRead where
  "failedRead svc zero opID operation t path cat retryable message cause \<equiv>
     failedReadWithEvidence svc zero opID operation t path cat retryable message cause []"


text \<open>The pause between two readings of a verification, 250 ms in nanoseconds.\<close>

definition restartVerificationInterval :: int where
  "restartVerificationInterval = 250000000"


section \<open>Classification of errors\<close>

definition classifyReadError :: "goerror option \<Rightarrow> category \<times> bool" where
  "classifyReadError err =
     (if isError err ContextCanceled then (CategoryFailed, False)
      else if isError err ContextDeadlineExceeded then (CategoryUnreachable, True)
      else case asDCSError err of
        Some (k, _) \<Rightarrow>
          (case k of
             DcsConfiguration \<Rightarrow> (CategoryConfig, False)
           | DcsAuthentication \<Rightarrow> (CategoryAuth, False)
           | DcsConflict \<Rightarrow> (CategoryConflict, False)
           | DcsCanceled \<Rightarrow> (CategoryFailed, False)
           | DcsDeadline \<Rightarrow> (CategoryUnreachable, True)
           | DcsTransport \<Rightarrow> (CategoryUnreachable, True)
           | _ \<Rightarrow> (CategoryFailed, False))
      | None \<Rightarrow>
          (case asPatroniError err of
             Some (k, _) \<Rightarrow>
               (case k of
                  PatAuthentication \<Rightarrow> (CategoryAuth, False)
                | PatRequest \<Rightarrow> (CategoryConfig, False)
                | PatTransport \<Rightarrow> (CategoryUnreachable, True)
                | _ \<Rightarrow> (CategoryFailed, False))
           | None \<Rightarrow> (CategoryUnreachable, True)))"

definition classifyHTTPStatus :: "int \<Rightarrow> category \<times> bool" where
  "classifyHTTPStatus status =
     (if status = 401 \<or> status = 403 then (CategoryAuth, False)
      else if status = 404 then (CategoryNotFound, False)
      else if status = 409 \<or> status = 412 then (CategoryConflict, False)
      else if status \<ge> 500 then (CategoryUnreachable, True)
      else (CategoryFailed, False))"

text \<open>\<open>patroniSendState\<close> of \<open>reload.go\<close> and \<open>dcsSendState\<close> of \<open>failover.go\<close>.\<close>

definition patroniSendState :: "goerror option \<Rightarrow> int \<Rightarrow> send_state" where
  "patroniSendState err status =
     (if status \<noteq> 0 then SendAccepted
      else (case asPatroniError err of
              Some (_, DeliveryNotSent) \<Rightarrow> SendNotSent
            | Some (_, DeliveryMaybeSent) \<Rightarrow> SendMaybeSent
            | Some (_, DeliveryResponseReceived) \<Rightarrow> SendAccepted
            | _ \<Rightarrow> SendMaybeSent))"

definition dcsSendState :: "goerror option \<Rightarrow> bool \<Rightarrow> send_state" where
  "dcsSendState err applied =
     (if err = None \<and> applied then SendAccepted
      else (case asDCSError err of
              Some (_, DeliveryNotSent) \<Rightarrow> SendNotSent
            | Some (_, DeliveryMaybeSent) \<Rightarrow> SendMaybeSent
            | Some (_, DeliveryResponseReceived) \<Rightarrow> SendAccepted
            | _ \<Rightarrow> if asConflictError err \<noteq> None then SendNotSent else SendMaybeSent))"


section \<open>Configuration values\<close>

definition boolConfig :: "jval option \<Rightarrow> bool" where
  "boolConfig value =
     (case value of
        Some (JBool b) \<Rightarrow> b
      | Some (JStr s) \<Rightarrow> ToLower (TrimSpace s) \<in> set [''1'', ''true'', ''yes'', ''on'']
      | Some (JNum n) \<Rightarrow> n = ''1''
      | _ \<Rightarrow> False)"

definition sprintConfig :: "jval option \<Rightarrow> string" where
  "sprintConfig value = (case value of None \<Rightarrow> ''<nil>'' | Some v \<Rightarrow> Sprint v)"

definition synchronousMode :: "jobject \<Rightarrow> bool" where
  "synchronousMode config =
     (let value = jlookup config ''synchronous_mode''
      in boolConfig value \<or> EqualFold (sprintConfig value) ''quorum'')"

text \<open>\<open>decodeScheduledRestart\<close>: the schedule and the PostgreSQL version of a pending restart.\<close>

definition decodeScheduledRestart :: "string \<Rightarrow> (string \<times> string) option" where
  "decodeScheduledRestart raw =
     (if TrimSpace raw = [] \<or> TrimSpace raw = ''null'' then None
      else (case parseJSON raw of
         Some (JObj ps) \<Rightarrow>
           (let (bad1, schedule) = field_string ''schedule'' ps (False, []);
                (bad2, version) = field_string ''postgres_version'' ps (False, [])
            in if bad1 \<or> bad2 \<or> schedule = [] then None else Some (schedule, version))
       | _ \<Rightarrow> None))"


section \<open>The compatibility gate\<close>

definition patroniVersionRange :: "'w service \<Rightarrow> version_range" where
  "patroniVersionRange svc =
     (if Major (vrMax (svcSupportedRange svc)) = 0 then auditedPatroniRange else svcSupportedRange svc)"

definition supportedPatroniRangeText :: "'w service \<Rightarrow> string" where
  "supportedPatroniRangeText svc = range_String (patroniVersionRange svc)"

definition checkPatroniVersion :: "'w service \<Rightarrow> string \<Rightarrow> goerror option" where
  "checkPatroniVersion svc version =
     (case ParseVersion (TrimSpace version) of
        Inl e \<Rightarrow> Some (Errorf ''%w: %v'' [AErr e] [Plain ErrUnsupportedPatroniVersion])
      | Inr parsed \<Rightarrow>
          if range_Contains (patroniVersionRange svc) parsed then None
          else Some (Errorf ''%w: %s is outside %s''
                       [AStr (version_String parsed), AStr (supportedPatroniRangeText svc)]
                       [Plain ErrUnsupportedPatroniVersion]))"

definition checkMemberVersion :: "'w service \<Rightarrow> dcs_member \<Rightarrow> goerror option" where
  "checkMemberVersion svc m =
     (let version = TrimSpace (mdPatroniVersion (mData m))
      in if version = [] then
           Some (Errorf ''member %s has no version: %w'' [AStr (mName m)] [Plain ErrUnsupportedPatroniVersion])
         else (case checkPatroniVersion svc version of
                 None \<Rightarrow> None
               | Some e \<Rightarrow> Some (Errorf ''member %s reports %q: %w'' [AStr (mName m), AStr version] [e])))"

definition checkSnapshotPatroniVersion :: "'w service \<Rightarrow> snapshot \<Rightarrow> bool \<Rightarrow> goerror option" where
  "checkSnapshotPatroniVersion svc sn allowUnsupportedRead =
     (if allowUnsupportedRead then None
      else first_some (checkMemberVersion svc) (cMembers (snCluster sn)))"

definition checkSnapshotKnownPatroniVersion :: "'w service \<Rightarrow> snapshot \<Rightarrow> bool \<Rightarrow> goerror option" where
  "checkSnapshotKnownPatroniVersion svc sn allowUnsupportedRead =
     (if allowUnsupportedRead then None
      else first_some
             (\<lambda>m. if TrimSpace (mdPatroniVersion (mData m)) = [] then None else checkMemberVersion svc m)
             (cMembers (snCluster sn)))"

definition unsupportedVersionResult ::
  "'w service \<Rightarrow> 'd \<Rightarrow> string \<Rightarrow> string \<Rightarrow> target \<Rightarrow> path \<Rightarrow> snapshot \<Rightarrow> goerror option
   \<Rightarrow> ('w, 'd result) prog" where
  "unsupportedVersionResult svc zero opID operation t path sn cause = do {
     e \<leftarrow> snapshotEvidence svc sn ''Patroni compatibility range checked before operation'';
     failedReadWithEvidence svc zero opID operation t path CategoryUnsupported False
       (operation @ '' requires Patroni '' @ supportedPatroniRangeText svc) cause [e]
   }"


section \<open>Reasoning: clock, operation IDs and evidence\<close>

text \<open>Go's zero time stands for an unset one: a working clock never shows it.\<close>

definition clock_ok :: "'w service \<Rightarrow> bool" where
  "clock_ok svc =
     (\<forall>w. \<not> IsZero (fst ((case svcClock svc of None \<Rightarrow> rtSystemTime (svcRuntime svc) | Some c \<Rightarrow> c) w)))"

text \<open>Evidence as \<open>observe\<close> makes it.\<close>

definition observed :: "'w service \<Rightarrow> evidence_source \<Rightarrow> string \<Rightarrow> send_state \<Rightarrow> evidence \<Rightarrow> bool" where
  "observed svc source summary send e =
     (evSource e = source \<and> evSummary e = summary \<and> evSendState e = send
      \<and> (clock_ok svc \<longrightarrow> \<not> IsZero (evObservedAt e)))"

lemma valid_now [wp]:
  "(\<And>t. (clock_ok svc \<Longrightarrow> \<not> IsZero t) \<Longrightarrow> Q t es) \<Longrightarrow> valid es (now svc) Q"
  unfolding now_def
  by (intro valid_bind valid_quiet) (auto simp: clock_ok_def IsZero_def UTC_def)

lemma valid_observe [wp]:
  "(\<And>e. observed svc source summary send e \<Longrightarrow> Q e es)
   \<Longrightarrow> valid es (observe svc source summary revision path send) Q"
  unfolding observe_def by (intro valid_bind valid_now) (auto simp: observed_def)

lemma valid_snapshotEvidence [wp]:
  "(\<And>e. observed svc EvidenceDCS summary SendEmpty e \<Longrightarrow> Q e es)
   \<Longrightarrow> valid es (snapshotEvidence svc sn summary) Q"
  by (simp add: snapshotEvidence_def valid_observe)

lemma observed_Validate [simp]:
  "observed svc source summary send e \<Longrightarrow> clock_ok svc \<Longrightarrow> validSource source \<Longrightarrow> summary \<noteq> []
   \<Longrightarrow> validOrEmpty send \<Longrightarrow> evidence_Validate e = None"
  by (auto simp: observed_def evidence_Validate_def)

lemma valid_randomOperationID:
  "(\<And>x. x \<noteq> [] \<Longrightarrow> Q x es) \<Longrightarrow> valid es (randomOperationID rt) Q"
  unfolding randomOperationID_def
  by (intro valid_bind valid_quiet valid_option) auto

lemma valid_operationID [wp]: "(\<And>x. x \<noteq> [] \<Longrightarrow> Q x es) \<Longrightarrow> valid es (operationID svc) Q"
  unfolding operationID_def
  by (intro valid_option valid_bind valid_quiet valid_if valid_randomOperationID) auto


section \<open>Reasoning: results\<close>

lemma first_some_None: "first_some f xs = None \<longleftrightarrow> (\<forall>x \<in> set xs. f x = None)"
  by (induction xs) (auto split: option.splits)

lemma wrapFirst_None [simp]: "wrapFirst format errs = None \<longleftrightarrow> (\<forall>e \<in> set errs. e = None)"
  using first_some_None [of id errs] by (auto simp: wrapFirst_def split: option.splits)

lemma wrapFirst_Some: "wrapFirst format errs = Some e \<Longrightarrow> \<exists>x \<in> set errs. x \<noteq> None"
  by (metis option.distinct(1) wrapFirst_None)

text \<open>\<open>Result.Validate\<close> accepts exactly the results with all of these properties.\<close>

definition evidence_all_ok :: "evidence list \<Rightarrow> bool" where
  "evidence_all_ok evs = (\<forall>e \<in> set evs. evidence_Validate e = None)"

lemma evidence_all_ok_simps [simp]:
  "evidence_all_ok []"
  "evidence_all_ok (e # evs) \<longleftrightarrow> evidence_Validate e = None \<and> evidence_all_ok evs"
  "evidence_all_ok (evs @ evs') \<longleftrightarrow> evidence_all_ok evs \<and> evidence_all_ok evs'"
  by (auto simp: evidence_all_ok_def)

lemma error_Validate_NewError:
  "error_Validate (Some (NewError cat op t r m c evs)) = None \<longleftrightarrow>
     validCategory cat \<and> op \<noteq> [] \<and> m \<noteq> [] \<and> evidence_all_ok evs"
  by (auto simp: error_Validate_def NewError_def evidence_all_ok_def)

definition target_ok :: "target \<Rightarrow> bool" where
  "target_ok t = (Validate t (tScope t \<noteq> []) = None)"

lemma result_Validate_None:
  "result_Validate r = None \<longleftrightarrow>
     rOperationID r \<noteq> [] \<and> target_ok (rTarget r) \<and> validPath (rPath r) \<and> rEvidence r \<noteq> []
     \<and> evidence_all_ok (rEvidence r) \<and> outcome_error (rOutcome r) (rError r) = None
     \<and> (rError r \<noteq> None \<longrightarrow> error_Validate (rError r) = None)"
proof (cases "wrapFirst ''result evidence: %w'' (map evidence_Validate (rEvidence r))")
  case None
  then have "evidence_all_ok (rEvidence r)" by (simp add: evidence_all_ok_def)
  then show ?thesis
    unfolding result_Validate_def target_ok_def None by (auto split: option.splits)
next
  case (Some e)
  then have "\<not> evidence_all_ok (rEvidence r)"
    using wrapFirst_Some [OF Some] by (auto simp: evidence_all_ok_def)
  then show ?thesis
    unfolding result_Validate_def Some by (auto split: option.splits)
qed

lemma outcome_error_NewError [simp]:
  "outcome_error Succeeded None = None"
  "outcome_error Failed (Some (NewError cat op t r m c evs)) = None \<longleftrightarrow> cat \<noteq> CategoryUnknown"
  "outcome_error Unknown (Some (NewError cat op t r m c evs)) = None \<longleftrightarrow> cat = CategoryUnknown"
  by (simp_all add: outcome_error_def NewError_def)

lemma classifyReadError_category:
  "classifyReadError err = (cat, retry) \<Longrightarrow> validCategory cat \<and> cat \<noteq> CategoryUnknown"
  by (auto simp: classifyReadError_def split: if_splits option.splits prod.splits dcs_kind.splits patroni_kind.splits)

lemma classifyHTTPStatus_category:
  "classifyHTTPStatus st = (cat, retry) \<Longrightarrow> validCategory cat \<and> cat \<noteq> CategoryUnknown"
  by (auto simp: classifyHTTPStatus_def split: if_splits)

lemma validSource_ForPath [simp]: "validSource (evidenceSourceForPath p)"
  by (cases p) (simp_all add: evidenceSourceForPath_def)

lemma result_Validate_success [simp]:
  "result_Validate \<lparr>rOperationID = opID, rOutcome = Succeeded, rTarget = t, rPath = path, rData = d,
     rEvidence = evs, rError = None\<rparr> = None \<longleftrightarrow>
   opID \<noteq> [] \<and> target_ok t \<and> validPath path \<and> evs \<noteq> [] \<and> evidence_all_ok evs"
  by (auto simp: result_Validate_None)

text \<open>The failed results of \<open>failedRead\<close>: they carry the zero data and at least one piece of evidence.\<close>

definition failed_with ::
  "'w service \<Rightarrow> 'd \<Rightarrow> string \<Rightarrow> string \<Rightarrow> target \<Rightarrow> path \<Rightarrow> category \<Rightarrow> string \<Rightarrow> evidence list \<Rightarrow> 'd result \<Rightarrow> bool" where
  "failed_with svc zero opID operation t path cat message evs r =
     (rOutcome r = Failed \<and> rData r = zero \<and> rOperationID r = opID \<and> rTarget r = Normalize t \<and> rPath r = path
      \<and> (\<exists>retry cause. rError r = Some (NewError cat operation t retry message cause (rEvidence r)))
      \<and> (if evs = [] then (\<exists>e. rEvidence r = [e] \<and> observed svc (evidenceSourceForPath path) message SendEmpty e)
         else rEvidence r = evs))"

lemma failed_with_literal:
  "failed_with svc zero opID operation t path cat message evs
     \<lparr>rOperationID = opID, rOutcome = Failed, rTarget = Normalize t, rPath = path, rData = zero,
      rEvidence = xs, rError = Some (NewError cat operation t retryable message cause xs)\<rparr> \<longleftrightarrow>
   (if evs = [] then (\<exists>e. xs = [e] \<and> observed svc (evidenceSourceForPath path) message SendEmpty e) else xs = evs)"
  by (auto simp: failed_with_def)

lemma valid_failedReadWithEvidence [wp]:
  "(\<And>r. failed_with svc zero opID operation t path cat message evs r \<Longrightarrow> Q r es)
   \<Longrightarrow> valid es (failedReadWithEvidence svc zero opID operation t path cat retryable message cause evs) Q"
  unfolding failedReadWithEvidence_def
  by (intro valid_bind valid_if valid_observe) (simp_all add: failed_with_literal)

lemma valid_unsupportedVersionResult [wp]:
  "(\<And>r e. observed svc EvidenceDCS ''Patroni compatibility range checked before operation'' SendEmpty e
      \<Longrightarrow> failed_with svc zero opID operation t path CategoryUnsupported
            (operation @ '' requires Patroni '' @ supportedPatroniRangeText svc) [e] r \<Longrightarrow> Q r es)
   \<Longrightarrow> valid es (unsupportedVersionResult svc zero opID operation t path sn cause) Q"
  unfolding unsupportedVersionResult_def
  by (intro valid_bind valid_snapshotEvidence valid_failedReadWithEvidence) blast

lemma failed_with_ok:
  assumes "failed_with svc zero opID operation t path cat message evs r" and "clock_ok svc"
    and "opID \<noteq> []" and "operation \<noteq> []" and "message \<noteq> []" and "target_ok (Normalize t)"
    and "validPath path" and "validCategory cat" and "cat \<noteq> CategoryUnknown" and "evidence_all_ok evs"
  shows "result_Validate r = None"
  using assms
  by (auto simp: failed_with_def result_Validate_None error_Validate_NewError split: if_splits)



section \<open>The vocabulary of event traces\<close>

fun rest_write :: "rest_call \<Rightarrow> bool" where
  "rest_write (GetPatroni _) = False"
| "rest_write _ = True"

text \<open>Events that may change the cluster.\<close>

fun is_write :: "event \<Rightarrow> bool" where
  "is_write (EvRest c _ _) = rest_write c"
| "is_write (EvFailover _ _ _) = True"
| "is_write (EvConfigCAS _ _ _ _ _) = True"
| "is_write (EvDeleteCluster _ _ _) = True"
| "is_write _ = False"

text \<open>
  A write whose fate is known: an HTTP status arrived, or the transport vouches that nothing was
  sent; for the DCS, the compare-and-swap lost or nothing was sent.
\<close>

fun definite :: "event \<Rightarrow> bool" where
  "definite (EvRest c r e) = (rest_write c \<longrightarrow> respStatus r \<noteq> 0 \<or> patroniSendState e 0 = SendNotSent)"
| "definite (EvFailover _ r e) = (asConflictError e \<noteq> None \<or> dcsSendState e (wrApplied r) = SendNotSent)"
| "definite (EvConfigCAS _ _ _ r e) = (asConflictError e \<noteq> None \<or> dcsSendState e (wrApplied r) = SendNotSent)"
| "definite (EvDeleteCluster _ r e) = (map_option snd (asDCSError e) = Some DeliveryNotSent)"
| "definite _ = True"

lemma definite_delete [simp]: "definite (EvDeleteCluster t r e) \<longleftrightarrow> (\<exists>k. asDCSError e = Some (k, DeliveryNotSent))"
  by auto

declare definite.simps(4) [simp del]

text \<open>After the context was seen canceled, nothing more is written.\<close>

fun cancel_safe :: "event list \<Rightarrow> bool" where
  "cancel_safe [] = True"
| "cancel_safe (e # es) = (((\<exists>x. e = EvCtx (Some x)) \<longrightarrow> \<not> list_ex is_write es) \<and> cancel_safe es)"

lemma cancel_safe_append:
  "cancel_safe (xs @ ys) \<longleftrightarrow>
     cancel_safe xs \<and> cancel_safe ys \<and> ((\<exists>x. EvCtx (Some x) \<in> set xs) \<longrightarrow> \<not> list_ex is_write ys)"
  by (induction xs) auto

lemma cancel_safe_no_write: "\<not> list_ex is_write es \<Longrightarrow> cancel_safe es"
  by (induction es) auto


section \<open>The contract of reading back\<close>

text \<open>
  What a verification loop may do: read snapshots of one target, at most \<open>bound\<close> of them, with
  waits between, and answer yes exactly when the last snapshot read shows the wanted state; a no
  means that no snapshot it read did.
\<close>

fun is_readback :: "target \<Rightarrow> event \<Rightarrow> bool" where
  "is_readback t (EvSnapshot u _) = (u = t)"
| "is_readback t (EvWait _ _) = True"
| "is_readback t _ = False"

fun exhibits :: "(snapshot \<Rightarrow> bool) \<Rightarrow> event \<Rightarrow> bool" where
  "exhibits good (EvSnapshot _ (Inr sn)) = good sn"
| "exhibits good _ = False"

definition readback_trace :: "target \<Rightarrow> nat \<Rightarrow> (snapshot \<Rightarrow> bool) \<Rightarrow> bool \<Rightarrow> event list \<Rightarrow> bool" where
  "readback_trace t bound good ok ds =
     (list_all (is_readback t) ds
      \<and> length ds \<le> 2 * bound
      \<and> (if ok then ds \<noteq> [] \<and> exhibits good (last ds) \<and> \<not> list_ex (exhibits good) (butlast ds)
         else \<not> list_ex (exhibits good) ds))"

locale readback =
  fixes verify :: "('w, bool \<times> 'x) prog"
    and t :: target
    and bound :: nat
    and good :: "snapshot \<Rightarrow> bool"
    and evid :: "'x \<Rightarrow> evidence list"
    and clocked :: bool
  assumes trace: "valid [] verify (\<lambda>(ok, x) ds.
    readback_trace t bound good ok ds \<and> (clocked \<longrightarrow> evidence_all_ok (evid x)))"
begin

lemma no_write: "valid [] verify (\<lambda>_ ds. \<not> list_ex is_write ds)"
  by (rule valid_mono [OF trace])
     (auto simp: readback_trace_def list_all_iff list_ex_iff elim!: is_readback.elims)

lemma shown: "valid [] verify (\<lambda>(ok, _) ds. ok \<longrightarrow> (\<exists>sn. last ds = EvSnapshot t (Inr sn) \<and> good sn))"
proof (rule valid_mono [OF trace], clarify)
  fix ok x ds
  assume "readback_trace t bound good ok ds" and "ok"
  then have "ds \<noteq> []" and s: "exhibits good (last ds)" and "is_readback t (last ds)"
    by (auto simp: readback_trace_def list_all_iff)
  then show "\<exists>sn. last ds = EvSnapshot t (Inr sn) \<and> good sn"
    by (cases "last ds") (auto elim: exhibits.elims split: sum.splits)
qed

lemma use:
  assumes "\<And>ok x ds. readback_trace t bound good ok ds \<Longrightarrow> (clocked \<Longrightarrow> evidence_all_ok (evid x))
    \<Longrightarrow> Q (ok, x) (es @ ds)"
  shows "valid es verify Q"
  by (rule valid_mono [OF valid_shift [OF trace]]) (use assms in auto)

end

lemma readback_quiet:
  "readback_trace t b g ok ds \<Longrightarrow> list_all definite ds \<and> \<not> list_ex is_write ds"
  by (auto simp: readback_trace_def list_all_iff list_ex_iff elim!: is_readback.elims)

lemma patroniSendState_range: "patroniSendState e st \<in> {SendNotSent, SendMaybeSent, SendAccepted}"
  by (auto simp: patroniSendState_def split: option.splits delivery.splits)

lemma validOrEmpty_dcsSendState [simp]: "validOrEmpty (dcsSendState e a)"
  by (auto simp: dcsSendState_def split: option.splits delivery.splits)

lemma readback_filter: "list_all (is_readback t) ds \<Longrightarrow> filter is_write ds = []"
  by (induction ds) (auto elim!: is_readback.elims)

lemma validOrEmpty_patroniSendState [simp]: "validOrEmpty (patroniSendState e st)"
  using patroniSendState_range [of e st] by auto


section \<open>Preconditions\<close>

text \<open>A field of a list of preconditions with distinct fields.\<close>

lemma expectedPrecondition_find:
  "expectedPrecondition p f = map_of (map (\<lambda>c. (pcField c, pcExpected c)) (pPreconditions p)) f"
proof -
  have "(case find (\<lambda>c. pcField c = f) xs of None \<Rightarrow> None | Some c \<Rightarrow> Some (pcExpected c))
        = map_of (map (\<lambda>c. (pcField c, pcExpected c)) xs) f" for xs :: "precondition list"
    by (induction xs) auto
  then show ?thesis by (simp add: expectedPrecondition_def)
qed

text \<open>The first expected field a plan does not carry with the expected value.\<close>

definition firstMismatch :: "plan \<Rightarrow> (string \<times> string) list \<Rightarrow> string option" where
  "firstMismatch p expected =
     map_option fst (find (\<lambda>(f, v). expectedPrecondition p f \<noteq> Some v) expected)"

lemma firstMismatch_None:
  "firstMismatch p expected = None \<longleftrightarrow> (\<forall>(f, v) \<in> set expected. expectedPrecondition p f = Some v)"
  by (auto simp: firstMismatch_def find_None_iff)

end
