(* ===== verification/Write_Types.thy ===== *)
theory Write_Types
  imports Control_Base
begin

text \<open>
  The requests and normalised outcome projections of the write operations (\<open>write_types.go\<close> and the
  roles of \<open>read_types.go\<close>), with their validation.  The redacting \<open>String\<close> methods of the
  requests are not modelled.
\<close>

datatype role = RoleEmpty | RoleLeader | RolePrimary | RoleStandbyLeader | RoleReplica | RoleStandby
  | RoleAny | RoleOther string

fun role_string :: "role \<Rightarrow> string" where
  "role_string RoleEmpty = []"
| "role_string RoleLeader = ''leader''"
| "role_string RolePrimary = ''primary''"
| "role_string RoleStandbyLeader = ''standby-leader''"
| "role_string RoleReplica = ''replica''"
| "role_string RoleStandby = ''standby''"
| "role_string RoleAny = ''any''"
| "role_string (RoleOther s) = s"

fun role_validOrEmpty :: "role \<Rightarrow> bool" where
  "role_validOrEmpty (RoleOther _) = False"
| "role_validOrEmpty _ = True"

record reload_request =
  rlTarget :: target
  rlMembers :: "string list"
  rlRole :: role
  rlCitus :: bool

record restart_request =
  rsTarget :: target
  rsMembers :: "string list"
  rsRole :: role
  rsAny :: bool
  rsScheduledAt :: "gotime option"
  rsPostgresVersion :: string
  rsPending :: bool
  rsTimeout :: string
  rsForce :: bool
  rsCitus :: bool

record reinitialize_request =
  riTarget :: target
  riMembers :: "string list"
  riForce :: bool
  riFromLeader :: bool
  riWait :: bool
  riCitus :: bool

record failover_request =
  foTarget :: target
  foCandidate :: string
  foForce :: bool
  foCitus :: bool

record switchover_request =
  swTarget :: target
  swLeader :: string
  swCandidate :: string
  swScheduledAt :: "gotime option"
  swForce :: bool
  swCitus :: bool

datatype flush_event = FlushRestart | FlushSwitchover | FlushOther string

fun flush_event_valid :: "flush_event \<Rightarrow> bool" where
  "flush_event_valid (FlushOther _) = False"
| "flush_event_valid _ = True"

record flush_request =
  fqTarget :: target
  fqEvent :: flush_event
  fqMembers :: "string list"
  fqRole :: role
  fqForce :: bool
  fqCitus :: bool

record pause_request =
  pqTarget :: target
  pqWait :: bool
  pqCitus :: bool


section \<open>Member results\<close>

record member_write_result =
  mwTarget :: target
  mwOutcome :: outcome
  mwSendState :: send_state
  mwVerification :: verification
  mwHTTPStatus :: int
  mwSummary :: string
  mwEvidence :: "evidence list"
  mwError :: "control_error option"

fun verification_valid :: "verification \<Rightarrow> bool" where
  "verification_valid (VerificationOther _) = False"
| "verification_valid _ = True"

definition verification_text :: "verification \<Rightarrow> string" where
  "verification_text v = (case v of VerificationOther s \<Rightarrow> s | _ \<Rightarrow> [])"

definition send_text :: "send_state \<Rightarrow> string" where
  "send_text s = (case s of SendOther t \<Rightarrow> t | _ \<Rightarrow> [])"

definition errorsOrMemberTarget :: "string option \<Rightarrow> goerror" where
  "errorsOrMemberTarget err =
     (case err of
        Some e \<Rightarrow> Errorf ''member write target: %w'' [] [errorsNew e]
      | None \<Rightarrow> errorsNew ''member write target requires a member'')"

definition member_write_Validate :: "member_write_result \<Rightarrow> goerror option" where
  "member_write_Validate r =
     (if Validate (mwTarget r) True \<noteq> None \<or> tMember (mwTarget r) = [] then
        Some (errorsOrMemberTarget (Validate (mwTarget r) True))
      else if \<not> validOrEmpty (mwSendState r) \<or> mwSendState r = SendEmpty then
        Some (Errorf ''member write send state %q is invalid'' [AStr (send_text (mwSendState r))] [])
      else if \<not> verification_valid (mwVerification r) then
        Some (Errorf ''member write verification %q is invalid'' [AStr (verification_text (mwVerification r))] [])
      else if mwSummary r = [] \<or> mwEvidence r = [] then
        Some (errorsNew ''member write summary and evidence are required'')
      else (case first_some evidence_Validate (mwEvidence r) of
         Some e \<Rightarrow> Some e
       | None \<Rightarrow>
          (case mwOutcome r of
             Succeeded \<Rightarrow>
               if mwError r \<noteq> None \<or> mwVerification r \<noteq> VerifiedSucceeded
               then Some (errorsNew ''successful member write requires verified success without error'') else None
           | Failed \<Rightarrow>
               (case mwError r of
                  None \<Rightarrow> Some (errorsNew ''failed member write requires a definite error'')
                | Some e \<Rightarrow>
                    if errCategory e = CategoryUnknown \<or> mwVerification r \<noteq> VerifiedFailed
                    then Some (errorsNew ''failed member write requires a definite error'') else None)
           | Unknown \<Rightarrow>
               (case mwError r of
                  None \<Rightarrow> Some (errorsNew ''unknown member write requires an UNKNOWN error'')
                | Some e \<Rightarrow>
                    if errCategory e \<noteq> CategoryUnknown
                    then Some (errorsNew ''unknown member write requires an UNKNOWN error'') else None)
           | OutcomeOther s \<Rightarrow> Some (Errorf ''member write outcome %q is invalid'' [AStr s] []))))"


section \<open>Outcome projections\<close>

record batch_write_data =
  bwMembers :: "member_write_result list"

record flush_data =
  fdEvent :: flush_event
  fdResults :: "member_write_result list"
  fdRESTSendState :: send_state
  fdDCSSendState :: send_state
  fdVerification :: verification
  fdDCSRevision :: int
  fdNoop :: bool

definition flush_data_Validate :: "flush_data \<Rightarrow> goerror option" where
  "flush_data_Validate d =
     (if \<not> flush_event_valid (fdEvent d) then
        Some (Errorf ''flush event %q is invalid'' [AStr (case fdEvent d of FlushOther s \<Rightarrow> s | _ \<Rightarrow> [])] [])
      else if \<not> validOrEmpty (fdRESTSendState d) \<or> fdRESTSendState d = SendEmpty then
        Some (Errorf ''flush REST send state %q is invalid'' [AStr (send_text (fdRESTSendState d))] [])
      else if \<not> validOrEmpty (fdDCSSendState d) then
        Some (Errorf ''flush DCS send state %q is invalid'' [AStr (send_text (fdDCSSendState d))] [])
      else if \<not> verification_valid (fdVerification d) then
        Some (Errorf ''flush verification %q is invalid'' [AStr (verification_text (fdVerification d))] [])
      else if fdDCSRevision d < 0 then Some (errorsNew ''flush DCS revision must be non-negative'')
      else if fdNoop d \<and> fdVerification d \<noteq> VerifiedSucceeded then
        Some (errorsNew ''flush no-op requires verified success'')
      else wrapFirst ''flush REST result: %w'' (map member_write_Validate (fdResults d)))"

record pause_data =
  pdPaused :: bool
  pdWait :: bool
  pdResults :: "member_write_result list"
  pdRESTSendState :: send_state
  pdVerification :: verification
  pdDCSRevision :: int
  pdPendingMembers :: "string list"
  pdNoop :: bool

definition pause_data_Validate :: "pause_data \<Rightarrow> goerror option" where
  "pause_data_Validate d =
     (if \<not> validOrEmpty (pdRESTSendState d) \<or> pdRESTSendState d = SendEmpty then
        Some (Errorf ''pause REST send state %q is invalid'' [AStr (send_text (pdRESTSendState d))] [])
      else if \<not> verification_valid (pdVerification d) then
        Some (Errorf ''pause verification %q is invalid'' [AStr (verification_text (pdVerification d))] [])
      else if pdDCSRevision d < 0 then Some (errorsNew ''pause DCS revision must be non-negative'')
      else if pdNoop d \<and> pdVerification d \<noteq> VerifiedSucceeded then
        Some (errorsNew ''pause no-op requires verified success'')
      else (case wrapFirst ''pause REST result: %w'' (map member_write_Validate (pdResults d)) of
              Some e \<Rightarrow> Some e
            | None \<Rightarrow>
                if \<not> sorted (pdPendingMembers d)
                then Some (errorsNew ''pause pending members must be deterministic'') else None))"

record cluster_write_data =
  cwLeader :: string
  cwCandidate :: string
  cwScheduledAt :: string
  cwRESTSendState :: send_state
  cwDCSSendState :: send_state
  cwVerification :: verification
  cwHTTPStatus :: int
  cwDCSRevision :: int
  cwLegacyEndpoint :: bool

definition cluster_write_Validate :: "cluster_write_data \<Rightarrow> goerror option" where
  "cluster_write_Validate d =
     (if \<not> validOrEmpty (cwRESTSendState d) \<or> cwRESTSendState d = SendEmpty then
        Some (Errorf ''cluster write REST send state %q is invalid'' [AStr (send_text (cwRESTSendState d))] [])
      else if \<not> validOrEmpty (cwDCSSendState d) then
        Some (Errorf ''cluster write DCS send state %q is invalid'' [AStr (send_text (cwDCSSendState d))] [])
      else if \<not> verification_valid (cwVerification d) then
        Some (Errorf ''cluster write verification %q is invalid'' [AStr (verification_text (cwVerification d))] [])
      else if cwHTTPStatus d < 0 \<or> cwDCSRevision d < 0 then
        Some (errorsNew ''cluster write status and revision must be non-negative'')
      else None)"

text \<open>The zero values of the data types and of a plan.\<close>

definition zeroTarget :: target where
  "zeroTarget = \<lparr>tContext = [], tNamespace = [], tScope = [], tGroup = None, tMember = []\<rparr>"

definition zeroPlan :: plan where
  "zeroPlan = \<lparr>pOperationID = [], pOperation = [], pTarget = zeroTarget, pTargets = [],
     pPath = PathOther [], pRisk = RiskOther [], pRetrySafety = RetryOther [], pSummary = [], pPreconditions = []\<rparr>"

definition zeroClusterWriteData :: cluster_write_data where
  "zeroClusterWriteData = \<lparr>cwLeader = [], cwCandidate = [], cwScheduledAt = [],
     cwRESTSendState = SendEmpty, cwDCSSendState = SendEmpty, cwVerification = VerificationOther [],
     cwHTTPStatus = 0, cwDCSRevision = 0, cwLegacyEndpoint = False\<rparr>"

definition zeroPauseData :: pause_data where
  "zeroPauseData = \<lparr>pdPaused = False, pdWait = False, pdResults = [], pdRESTSendState = SendEmpty,
     pdVerification = VerificationOther [], pdDCSRevision = 0, pdPendingMembers = [], pdNoop = False\<rparr>"

definition zeroFlushData :: flush_data where
  "zeroFlushData = \<lparr>fdEvent = FlushOther [], fdResults = [], fdRESTSendState = SendEmpty,
     fdDCSSendState = SendEmpty, fdVerification = VerificationOther [], fdDCSRevision = 0, fdNoop = False\<rparr>"

definition zeroBatchWriteData :: batch_write_data where
  "zeroBatchWriteData = \<lparr>bwMembers = []\<rparr>"

text \<open>A Go set of the trimmed, non-empty names, listed in order.\<close>

definition normalizeMemberNames :: "string list \<Rightarrow> string list" where
  "normalizeMemberNames input = sort (remdups (filter (\<lambda>n. n \<noteq> []) (map TrimSpace input)))"

lemma normalizeMemberNames_props:
  "sorted (normalizeMemberNames ns) \<and> distinct (normalizeMemberNames ns)
   \<and> set (normalizeMemberNames ns) = TrimSpace ` set ns - {[]}"
  by (auto simp: normalizeMemberNames_def)

end
