(* ===== verification/Transition.thy ===== *)
theory Transition
  imports Write_Types
begin

text \<open>
  Failover and switchover (\<open>control/failover.go\<close>): a plan is prepared from a fresh snapshot, and its
  execution revalidates it against another one, tries Patroni's REST API and falls back to a
  compare-and-swap of the failover key when REST gave no HTTP answer.

  The loops over Go maps of expected preconditions (\<open>validateTransitionPlan\<close>,
  \<open>revalidateTransitionPlan\<close>) run in Go's random order, which can only choose between error
  messages; here they run in the order the source lists the fields.
\<close>

section \<open>Intents and selections\<close>

record transition_intent =
  tiOperation :: string
  tiTarget :: target
  tiLeader :: string
  tiCandidate :: string
  tiScheduledAt :: "gotime option"
  tiForce :: bool
  tiCitus :: bool

record transition_selection =
  tsLeader :: string
  tsCandidate :: string
  tsCandidateNames :: "string list"
  tsCandidateMember :: "dcs_member option"
  tsRestMember :: "dcs_member option"
  tsSyncEligible :: bool
  tsPaused :: bool
  tsFailoverVersion :: int

definition legacySwitchoverResponse :: string where
  "legacySwitchoverResponse = ''Server does not support this operation''"

definition validateTransitionTarget :: "target \<Rightarrow> string list \<Rightarrow> goerror option" where
  "validateTransitionTarget t names =
     (if tMember t \<noteq> [] then Some (errorsNew ''cluster transition target must not contain a member'')
      else (case Validate t True of
         Some e \<Rightarrow> Some (errorsNew e)
       | None \<Rightarrow>
          first_some (\<lambda>name. if name = [] then None
                             else map_option errorsNew (Validate (t\<lparr>tMember := name\<rparr>) True)) names))"

definition normalizeFailoverRequest :: "failover_request \<Rightarrow> transition_intent \<times> goerror option" where
  "normalizeFailoverRequest rq =
     (let intent = \<lparr>tiOperation = ''failover'', tiTarget = Normalize (foTarget rq), tiLeader = [],
            tiCandidate = TrimSpace (foCandidate rq), tiScheduledAt = None,
            tiForce = foForce rq, tiCitus = foCitus rq\<rparr>
      in (intent,
          case validateTransitionTarget (tiTarget intent) [tiCandidate intent] of
            Some e \<Rightarrow> Some e
          | None \<Rightarrow>
              if tiCitus intent \<and> tGroup (tiTarget intent) = None
              then Some (errorsNew ''citus failover requires an explicit group'') else None))"

definition normalizeSwitchoverRequest :: "switchover_request \<Rightarrow> transition_intent \<times> goerror option" where
  "normalizeSwitchoverRequest rq =
     (let intent = \<lparr>tiOperation = ''switchover'', tiTarget = Normalize (swTarget rq),
            tiLeader = TrimSpace (swLeader rq), tiCandidate = TrimSpace (swCandidate rq),
            tiScheduledAt = swScheduledAt rq, tiForce = swForce rq, tiCitus = swCitus rq\<rparr>
      in (intent,
          case validateTransitionTarget (tiTarget intent) [tiLeader intent, tiCandidate intent] of
            Some e \<Rightarrow> Some e
          | None \<Rightarrow>
              if (case tiScheduledAt intent of None \<Rightarrow> False | Some t \<Rightarrow> IsZero t)
              then Some (errorsNew ''scheduled switchover time is zero'')
              else if tiCitus intent \<and> tGroup (tiTarget intent) = None
              then Some (errorsNew ''citus switchover requires an explicit group'') else None))"

definition syncCandidateEligible :: "cluster_state \<Rightarrow> string \<Rightarrow> bool" where
  "syncCandidateEligible cl candidate =
     (if candidate = [] \<or> \<not> synchronousMode (cConfig cl) \<or> sLeader (cSync cl) = [] then True
      else EqualFold (sLeader (cSync cl)) candidate
           \<or> list_ex (\<lambda>st. EqualFold st candidate) (sStandbys (cSync cl)))"

definition leaderName :: "cluster_state \<Rightarrow> string" where
  "leaderName cl = (case cLeader cl of None \<Rightarrow> [] | Some l \<Rightarrow> lName l)"

definition isCandidate :: "string \<Rightarrow> dcs_member \<Rightarrow> bool" where
  "isCandidate leader m = (mName m \<noteq> leader \<and> \<not> boolConfig (jlookup (mdTags (mData m)) ''nofailover''))"

text \<open>The error paths of \<open>resolveTransition\<close> carry the category; the callers use nothing else of them.\<close>

definition switchoverLeaderError :: "transition_intent \<Rightarrow> string \<Rightarrow> (category \<times> goerror) option" where
  "switchoverLeaderError intent leader =
     (if tiOperation intent \<noteq> ''switchover'' then None
      else if leader = [] then Some (CategoryNotFound, errorsNew ''switchover requires a current leader'')
      else if tiLeader intent = [] then
        (if \<not> tiForce intent
         then Some (CategoryUsage, errorsNew ''switchover requires an explicitly selected leader before confirmation'')
         else None)
      else if tiLeader intent \<noteq> leader then
        Some (CategoryConflict, Errorf ''member %s is not the current leader'' [AStr (tiLeader intent)] [])
      else None)"

definition candidateError ::
  "transition_intent \<Rightarrow> string \<Rightarrow> dcs_member list \<Rightarrow> (category \<times> goerror) option" where
  "candidateError intent leader candidates =
     (if candidates = [] then
        Some (CategoryNotFound, Errorf ''no candidates found to %s to'' [AStr (tiOperation intent)] [])
      else if tiCandidate intent = [] then
        (if tiOperation intent = ''failover''
         then Some (CategoryUsage, errorsNew ''failover requires a specific candidate'')
         else if \<not> tiForce intent
         then Some (CategoryUsage, errorsNew ''switchover requires an explicitly selected candidate before confirmation'')
         else None)
      else if tiCandidate intent = leader then
        Some (CategoryConflict, Errorf ''member %s is already the leader'' [AStr (tiCandidate intent)] [])
      else if find (\<lambda>m. mName m = tiCandidate intent) candidates = None then
        Some (CategoryNotFound,
              Errorf ''member %s does not exist or is tagged nofailover'' [AStr (tiCandidate intent)] [])
      else None)"

definition resolveTransition ::
  "snapshot \<Rightarrow> transition_intent \<Rightarrow> (category \<times> goerror) + transition_selection" where
  "resolveTransition sn intent =
     (let cl = snCluster sn;
          leader = leaderName cl;
          paused = boolConfig (jlookup (cConfig cl) ''pause'');
          candidates = sort_key mName (filter (isCandidate leader) (cMembers cl));
          memberName = (if leader = [] then tiCandidate intent else leader)
      in case switchoverLeaderError intent leader of
           Some e \<Rightarrow> Inl e
         | None \<Rightarrow>
            (case candidateError intent leader candidates of
               Some e \<Rightarrow> Inl e
             | None \<Rightarrow>
                if tiOperation intent = ''switchover'' \<and> tiScheduledAt intent \<noteq> None \<and> paused then
                  Inl (CategoryConflict, errorsNew ''cannot schedule switchover while the cluster is paused'')
                else Inr \<lparr>tsLeader = leader, tsCandidate = tiCandidate intent,
                       tsCandidateNames = map mName candidates,
                       tsCandidateMember = (if tiCandidate intent = [] then None
                                            else find (\<lambda>m. mName m = tiCandidate intent) candidates),
                       tsRestMember = find (\<lambda>m. mName m = memberName) (cMembers cl),
                       tsSyncEligible = syncCandidateEligible cl (tiCandidate intent),
                       tsPaused = paused,
                       tsFailoverVersion =
                         (case cFailover cl of None \<Rightarrow> 0 | Some f \<Rightarrow> fModRevision f)\<rparr>))"


section \<open>Plans\<close>

definition transitionSchedule :: "transition_intent \<Rightarrow> string" where
  "transitionSchedule intent =
     (case tiScheduledAt intent of None \<Rightarrow> [] | Some t \<Rightarrow> formatPatroniTimestamp t)"

definition transitionSummary :: "transition_intent \<Rightarrow> transition_selection \<Rightarrow> string" where
  "transitionSummary intent sel =
     (let leader = (if tiOperation intent = ''failover'' then [] else tsLeader sel)
      in tiOperation intent @ '' cluster''
         @ (if leader \<noteq> [] then '' from '' @ leader else [])
         @ (if tiCandidate intent \<noteq> [] then '' to '' @ tiCandidate intent
            else '' to a Patroni-selected eligible candidate'')
         @ (case tiScheduledAt intent of None \<Rightarrow> [] | Some t \<Rightarrow> '' at '' @ formatRFC3339Nano t))"

definition transitionPreconditions ::
  "int \<Rightarrow> transition_intent \<Rightarrow> transition_selection \<Rightarrow> precondition list" where
  "transitionPreconditions revision intent sel =
     [pre ''dcs.revision'' (FormatInt revision) EvidenceDCS,
      pre ''leader.name'' (tsLeader sel) EvidenceDCS,
      pre ''candidate.name'' (tiCandidate intent) EvidenceControl,
      pre ''candidate.options'' (Join '','' (tsCandidateNames sel)) EvidenceDCS,
      pre ''candidate.syncEligible'' (FormatBool (tsSyncEligible sel)) EvidenceDCS,
      pre ''cluster.paused'' (FormatBool (tsPaused sel)) EvidenceDCS,
      pre ''failover.modRevision'' (FormatInt (tsFailoverVersion sel)) EvidenceDCS,
      pre ''request.leader'' (tiLeader intent) EvidenceControl,
      pre ''request.schedule'' (transitionSchedule intent) EvidenceControl,
      pre ''request.force'' (FormatBool (tiForce intent)) EvidenceControl,
      pre ''request.citus'' (FormatBool (tiCitus intent)) EvidenceControl,
      pre ''fallback.path'' (path_string PathRESTToDCS) EvidenceControl]"

definition validateTransitionPlan :: "plan \<Rightarrow> transition_intent \<Rightarrow> goerror option" where
  "validateTransitionPlan p intent =
     (case plan_Validate p of
        Some e \<Rightarrow> Some e
      | None \<Rightarrow>
         if pOperation p \<noteq> tiOperation intent \<or> pPath p \<noteq> PathREST \<or> pRisk p \<noteq> RiskAvailability
            \<or> pRetrySafety p \<noteq> UnsafeAfterSend then
           Some (errorsNew ''plan operation contract differs from cluster transition'')
         else if ClusterID (Normalize (pTarget p)) \<noteq> ClusterID (tiTarget intent) then
           Some (errorsNew ''plan cluster differs from request'')
         else map_option (\<lambda>f. Errorf ''plan %s differs from request'' [AStr f] [])
                (firstMismatch p
                   [(''candidate.name'', tiCandidate intent),
                    (''request.leader'', tiLeader intent),
                    (''request.schedule'', transitionSchedule intent),
                    (''request.force'', FormatBool (tiForce intent)),
                    (''request.citus'', FormatBool (tiCitus intent)),
                    (''fallback.path'', path_string PathRESTToDCS)]))"

definition revalidateTransitionPlan :: "plan \<Rightarrow> transition_selection \<Rightarrow> goerror option" where
  "revalidateTransitionPlan p sel =
     map_option (\<lambda>f. Errorf ''confirmed %s changed'' [AStr f] [])
       (firstMismatch p
          [(''leader.name'', tsLeader sel),
           (''candidate.options'', Join '','' (tsCandidateNames sel)),
           (''candidate.syncEligible'', FormatBool (tsSyncEligible sel)),
           (''cluster.paused'', FormatBool (tsPaused sel)),
           (''failover.modRevision'', FormatInt (tsFailoverVersion sel))])"

definition prepareTransition ::
  "'w service \<Rightarrow> 'w goctx \<Rightarrow> transition_intent \<Rightarrow> goerror option \<Rightarrow> ('w, plan result) prog" where
  "prepareTransition svc ctx intent requestError = do {
     opID \<leftarrow> operationID svc;
     (let op = tiOperation intent; t = tiTarget intent in
      if \<not> validContext ctx then
        failedRead svc zeroPlan opID op t PathREST CategoryUsage False (op @ '' requires a context'') None
      else if requestError \<noteq> None then
        failedRead svc zeroPlan opID op t PathREST CategoryUsage False (op @ '' request is invalid'') requestError
      else do {
        sn \<leftarrow> Snapshot svc t;
        (case sn of
           Inl err \<Rightarrow>
             (case classifyReadError (Some err) of (cat, retryable) \<Rightarrow>
               failedRead svc zeroPlan opID op t PathREST cat retryable
                 (op @ '' cluster discovery failed'') (Some err))
         | Inr sn \<Rightarrow>
             (case checkSnapshotPatroniVersion svc sn False of
                Some versionError \<Rightarrow>
                  unsupportedVersionResult svc zeroPlan opID op t PathREST sn (Some versionError)
              | None \<Rightarrow>
                  (case resolveTransition sn intent of
                     Inl (cat, selectionError) \<Rightarrow> do {
                       e \<leftarrow> snapshotEvidence svc sn (op @ '' target selection completed'');
                       failedReadWithEvidence svc zeroPlan opID op t PathREST cat False
                         (op @ '' target selection failed'') (Some selectionError) [e]
                     }
                   | Inr sel \<Rightarrow>
                       (let p = \<lparr>pOperationID = opID, pOperation = op, pTarget = t, pTargets = [],
                              pPath = PathREST, pRisk = RiskAvailability, pRetrySafety = UnsafeAfterSend,
                              pSummary = transitionSummary intent sel,
                              pPreconditions = transitionPreconditions (snRevision sn) intent sel\<rparr>
                        in case plan_Validate p of
                             Some err \<Rightarrow> do {
                               e \<leftarrow> snapshotEvidence svc sn (op @ '' target selection completed'');
                               failedReadWithEvidence svc zeroPlan opID op t PathREST CategoryInternal False
                                 (op @ '' plan construction failed'') (Some err) [e]
                             }
                           | None \<Rightarrow> do {
                               e \<leftarrow> snapshotEvidence svc sn (op @ '' plan built from fresh cluster snapshot'');
                               State_Monad.return \<lparr>rOperationID = opID, rOutcome = Succeeded, rTarget = t,
                                 rPath = PathREST, rData = p, rEvidence = [e], rError = None\<rparr>
                             }))))
      })
   }"


section \<open>Results\<close>

definition transitionSuccess ::
  "string \<Rightarrow> transition_intent \<Rightarrow> path \<Rightarrow> cluster_write_data \<Rightarrow> evidence list \<Rightarrow> cluster_write_data result" where
  "transitionSuccess opID intent path data evs =
     \<lparr>rOperationID = opID, rOutcome = Succeeded, rTarget = tiTarget intent, rPath = path, rData = data,
      rEvidence = evs, rError = None\<rparr>"

definition transitionFailureWithRetry ::
  "string \<Rightarrow> transition_intent \<Rightarrow> path \<Rightarrow> cluster_write_data \<Rightarrow> category \<Rightarrow> bool \<Rightarrow> string
   \<Rightarrow> goerror option \<Rightarrow> evidence list \<Rightarrow> cluster_write_data result" where
  "transitionFailureWithRetry opID intent path data cat retryable message cause evs =
     \<lparr>rOperationID = opID, rOutcome = Failed, rTarget = tiTarget intent, rPath = path, rData = data,
      rEvidence = evs,
      rError = Some (NewError cat (tiOperation intent) (tiTarget intent) retryable message cause evs)\<rparr>"

definition transitionFailure ::
  "string \<Rightarrow> transition_intent \<Rightarrow> path \<Rightarrow> cluster_write_data \<Rightarrow> category \<Rightarrow> string
   \<Rightarrow> goerror option \<Rightarrow> evidence list \<Rightarrow> cluster_write_data result" where
  "transitionFailure opID intent path data cat message cause evs =
     transitionFailureWithRetry opID intent path data cat False message cause evs"

definition transitionUnknown ::
  "string \<Rightarrow> transition_intent \<Rightarrow> path \<Rightarrow> cluster_write_data \<Rightarrow> string \<Rightarrow> goerror option
   \<Rightarrow> evidence list \<Rightarrow> cluster_write_data result" where
  "transitionUnknown opID intent path data message cause evs =
     \<lparr>rOperationID = opID, rOutcome = Unknown, rTarget = tiTarget intent, rPath = path,
      rData = data\<lparr>cwVerification := Unverified\<rparr>, rEvidence = evs,
      rError = Some (NewError CategoryUnknown (tiOperation intent) (tiTarget intent) False message cause evs)\<rparr>"

definition transitionData :: "transition_intent \<Rightarrow> transition_selection \<Rightarrow> cluster_write_data" where
  "transitionData intent sel =
     \<lparr>cwLeader = (if tiOperation intent = ''switchover'' then tsLeader sel else []),
      cwCandidate = tiCandidate intent, cwScheduledAt = transitionSchedule intent,
      cwRESTSendState = SendNotSent, cwDCSSendState = SendEmpty, cwVerification = Unverified,
      cwHTTPStatus = 0, cwDCSRevision = 0, cwLegacyEndpoint = False\<rparr>"


section \<open>The REST call\<close>

definition transitionRESTPayload :: "transition_intent \<Rightarrow> transition_selection \<Rightarrow> rest_transition" where
  "transitionRESTPayload intent sel =
     \<lparr>rtLeader = (if tiOperation intent = ''switchover'' then tsLeader sel else []),
      rtCandidate = tiCandidate intent, rtMember = [], rtScheduledAt = transitionSchedule intent\<rparr>"

definition zeroResponse :: rest_response where
  "zeroResponse = \<lparr>respStatus = 0, respText = [], respState = [], respVersion = [], respServerVersion = None\<rparr>"

definition transitionRESTEvidence ::
  "'w service \<Rightarrow> string \<Rightarrow> string \<Rightarrow> rest_response \<Rightarrow> goerror option \<Rightarrow> ('w, evidence) prog" where
  "transitionRESTEvidence svc operation path response err =
     observe svc EvidencePatroni
       (if respStatus response = 200 \<or> respStatus response = 202 then ''Patroni accepted '' @ operation
        else if respStatus response \<noteq> 0 then ''Patroni rejected '' @ operation
        else ''Patroni '' @ operation @ '' transport ended without an HTTP response'')
       [] path (patroniSendState err (respStatus response))"

type_synonym rest_outcome = "rest_response \<times> send_state \<times> bool \<times> evidence list \<times> goerror option"

definition restUnavailable ::
  "'w service \<Rightarrow> string \<Rightarrow> string \<Rightarrow> goerror \<Rightarrow> ('w, rest_outcome) prog" where
  "restUnavailable svc operation summary err = do {
     e \<leftarrow> observe svc EvidencePatroni (operation @ summary) [] (''/'' @ operation) SendNotSent;
     State_Monad.return (zeroResponse, SendNotSent, False, [e], Some err)
   }"

definition callTransitionREST ::
  "'w service \<Rightarrow> 'w goctx \<Rightarrow> transition_intent \<Rightarrow> transition_selection \<Rightarrow> rest_transition
   \<Rightarrow> ('w, rest_outcome) prog" where
  "callTransitionREST svc ctx intent sel payload =
     (let op = tiOperation intent; path = ''/'' @ op in
      case svcPatroni svc of
        None \<Rightarrow> restUnavailable svc op '' REST client is unavailable; command fallback is required''
                  (errorsNew ''patroni REST client is unavailable'')
      | Some client \<Rightarrow>
         (case tsRestMember sel of
            None \<Rightarrow> restUnavailable svc op '' REST target is unavailable; command fallback is required''
                      (errorsNew ''rest target member is absent from DCS'')
          | Some member \<Rightarrow>
             (case patroniBaseURL (mdAPIURL (mData member)) of
                Inl err \<Rightarrow> restUnavailable svc op
                             '' REST target has no usable address; command fallback is required'' (Plain err)
              | Inr baseURL \<Rightarrow> do {
                  (response, err) \<leftarrow> callREST client
                    (if op = ''failover'' then PostFailover baseURL payload else PostSwitchover baseURL payload);
                  e \<leftarrow> transitionRESTEvidence svc op path response err;
                  (let send = patroniSendState err (respStatus response) in
                   if op = ''switchover'' \<and> respStatus response = 501
                      \<and> Contains (respText response) legacySwitchoverResponse
                   then do {
                     ce \<leftarrow> ctxErr ctx;
                     (if ce \<noteq> None then State_Monad.return (response, send, False, [e], ce)
                      else do {
                        (legacyResponse, legacyError) \<leftarrow> callREST client (PostFailover baseURL payload);
                        e2 \<leftarrow> observe svc EvidenceControl
                          ''Patroni 501 selected the source-compatible legacy /failover endpoint''
                          [] ''/switchover->/failover'' SendNotSent;
                        e3 \<leftarrow> transitionRESTEvidence svc op ''/failover'' legacyResponse legacyError;
                        State_Monad.return (legacyResponse,
                          patroniSendState legacyError (respStatus legacyResponse), True, [e, e2, e3], legacyError)
                      })
                   }
                   else State_Monad.return (response, send, False, [e], err))
                })))"


section \<open>Verification by reading back\<close>

definition transitionLeaderCompleted :: "cluster_state \<Rightarrow> transition_intent \<Rightarrow> string \<Rightarrow> bool" where
  "transitionLeaderCompleted cl intent plannedLeader =
     (let leader = leaderName cl
      in tiScheduledAt intent = None
         \<and> (tiCandidate intent \<noteq> [] \<and> leader = tiCandidate intent
            \<or> tiOperation intent = ''switchover'' \<and> tiCandidate intent = [] \<and> leader \<noteq> []
              \<and> leader \<noteq> plannedLeader))"

definition transitionCompleted :: "cluster_state \<Rightarrow> transition_intent \<Rightarrow> string \<Rightarrow> bool" where
  "transitionCompleted cl intent plannedLeader =
     (if transitionLeaderCompleted cl intent plannedLeader then True
      else (case cFailover cl of
         None \<Rightarrow> False
       | Some f \<Rightarrow>
          (let expectedLeader = (if tiOperation intent = ''switchover'' then plannedLeader else []);
               expectedSchedule = transitionSchedule intent
           in if fLeader f \<noteq> expectedLeader \<or> fCandidate f \<noteq> tiCandidate intent then False
              else if expectedSchedule = [] then fScheduledAt f = []
              else if fScheduledAt f = expectedSchedule then True
              else (case (parseRFC3339Nano expectedSchedule, parseRFC3339Nano (fScheduledAt f)) of
                      (Some e, Some obs) \<Rightarrow> instant e = instant obs
                    | _ \<Rightarrow> False))))"

text \<open>The loop of \<open>verifyTransitionFallback\<close>: \<open>attempt\<close> counts up to the bound, \<open>left\<close> attempts remain.\<close>

fun verifyTransitionLoop ::
  "'w service \<Rightarrow> transition_intent \<Rightarrow> string \<Rightarrow> nat \<Rightarrow> bool \<Rightarrow> int \<Rightarrow> evidence list
   \<Rightarrow> ('w, bool \<times> int \<times> evidence list) prog" where
  "verifyTransitionLoop svc intent plannedLeader 0 later lastRevision evs =
     State_Monad.return (False, lastRevision, evs)"
| "verifyTransitionLoop svc intent plannedLeader (Suc left) later lastRevision evs = do {
     w \<leftarrow> (if later then Wait svc restartVerificationInterval else State_Monad.return None);
     (if w \<noteq> None then do {
        e \<leftarrow> observe svc EvidenceControl (tiOperation intent @ '' fallback verification canceled'')
               [] (path_string PathDCS) SendEmpty;
        State_Monad.return (False, lastRevision, evs @ [e])
      } else do {
        r \<leftarrow> Snapshot svc (tiTarget intent);
        (case r of
           Inl err \<Rightarrow> do {
             e \<leftarrow> observe svc EvidenceDCS (tiOperation intent @ '' fallback readback failed'')
                    [] (path_string PathDCS) SendEmpty;
             verifyTransitionLoop svc intent plannedLeader left True lastRevision (evs @ [e])
           }
         | Inr sn \<Rightarrow>
             (let matched = transitionCompleted (snCluster sn) intent plannedLeader in do {
                e \<leftarrow> observe svc EvidenceDCS
                  (if matched then tiOperation intent @ '' fallback state matches the request''
                   else tiOperation intent @ '' fallback state does not yet match the request'')
                  (FormatInt (snRevision sn)) (snPrefix sn) SendEmpty;
                (if matched then State_Monad.return (True, snRevision sn, evs @ [e])
                 else verifyTransitionLoop svc intent plannedLeader left True (snRevision sn) (evs @ [e]))
              }))
      })
   }"

definition verifyTransitionFallback ::
  "'w service \<Rightarrow> transition_intent \<Rightarrow> string \<Rightarrow> ('w, bool \<times> int \<times> evidence list) prog" where
  "verifyTransitionFallback svc intent plannedLeader =
     verifyTransitionLoop svc intent plannedLeader (nat (svcVerificationAttempts svc)) False 0 []"


section \<open>The DCS fallback\<close>

definition validateFallbackTransition ::
  "cluster_state \<Rightarrow> transition_intent \<Rightarrow> transition_selection \<Rightarrow> goerror option" where
  "validateFallbackTransition cl intent planned =
     (let leader = leaderName cl in
      if leader \<noteq> tsLeader planned then
        Some (Errorf ''leader changed from %s to %s'' [AStr (tsLeader planned), AStr leader] [])
      else if tiScheduledAt intent \<noteq> None \<and> boolConfig (jlookup (cConfig cl) ''pause'') then
        Some (errorsNew ''cluster became paused before scheduled switchover fallback'')
      else if tiCandidate intent \<noteq> [] then
        (if list_ex (\<lambda>m. mName m = tiCandidate intent \<and> isCandidate leader m) (cMembers cl) then None
         else Some (Errorf ''candidate %s disappeared or became ineligible'' [AStr (tiCandidate intent)] []))
      else if Join '','' (sort (map mName (filter (isCandidate leader) (cMembers cl))))
              \<noteq> Join '','' (tsCandidateNames planned) then
        Some (errorsNew ''eligible candidate set changed'')
      else None)"

text \<open>\<open>json.Marshal\<close> of a map of strings cannot fail; the keys come out in order.\<close>

definition transitionDCSPayload :: "transition_intent \<Rightarrow> transition_selection \<Rightarrow> string" where
  "transitionDCSPayload intent planned =
     Marshal (JObj
       ((if tiOperation intent = ''switchover'' \<and> tsLeader planned \<noteq> []
         then [(''leader'', JStr (tsLeader planned))] else [])
        @ (if tiCandidate intent \<noteq> [] then [(''member'', JStr (tiCandidate intent))] else [])
        @ (if transitionSchedule intent \<noteq> []
           then [(''scheduled_at'', JStr (transitionSchedule intent))] else [])))"

definition transitionDCSWriteSummary :: "write_result \<Rightarrow> goerror option \<Rightarrow> string" where
  "transitionDCSWriteSummary res err =
     (if err = None \<and> wrApplied res then ''DCS failover fallback CAS was applied''
      else if asConflictError err \<noteq> None then ''DCS failover fallback CAS conflicted''
      else ''DCS failover fallback ended without a verified apply'')"

definition restMaybeSent :: "cluster_write_data \<Rightarrow> bool" where
  "restMaybeSent data = (cwRESTSendState data = SendMaybeSent \<or> cwRESTSendState data = SendAccepted)"

definition writeTransitionFallback ::
  "'w service \<Rightarrow> (failover_call \<Rightarrow> 'w \<Rightarrow> (write_result \<times> goerror option) \<times> 'w) \<Rightarrow> string
   \<Rightarrow> transition_intent \<Rightarrow> transition_selection \<Rightarrow> cluster_state \<Rightarrow> cluster_write_data \<Rightarrow> goerror option
   \<Rightarrow> evidence list \<Rightarrow> ('w, cluster_write_data result) prog" where
  "writeTransitionFallback svc cap opID intent planned fresh data restError evidence = do {
     (let op = tiOperation intent;
          expectedRevision = (case cFailover fresh of None \<Rightarrow> 0 | Some f \<Rightarrow> fModRevision f) in do {
        (writeResult, writeError) \<leftarrow> callFailoverDCS cap
          (WriteFailover (tiTarget intent) (transitionDCSPayload intent planned) (Some expectedRevision));
        (let data = data\<lparr>cwDCSSendState := dcsSendState writeError (wrApplied writeResult),
                         cwDCSRevision := wrRevision writeResult\<rparr> in do {
           e \<leftarrow> observe svc EvidenceDCS (transitionDCSWriteSummary writeResult writeError)
                  (FormatInt (wrRevision writeResult)) (path_string PathDCS) (cwDCSSendState data);
           (verified, verificationRevision, verificationEvidence) \<leftarrow>
             verifyTransitionFallback svc intent (tsLeader planned);
           (let evs = evidence @ [e] @ verificationEvidence;
                data = (if verificationRevision > cwDCSRevision data
                        then data\<lparr>cwDCSRevision := verificationRevision\<rparr> else data) in
            if verified then
              State_Monad.return (transitionSuccess opID intent PathRESTToDCS
                (data\<lparr>cwVerification := VerifiedSucceeded\<rparr>) evs)
            else (let data = data\<lparr>cwVerification := Unverified\<rparr> in
              if asConflictError writeError \<noteq> None then
                (if restMaybeSent data then
                   State_Monad.return (transitionUnknown opID intent PathRESTToDCS data
                     (op @ '' REST may have been sent and DCS fallback conflicted'') writeError evs)
                 else State_Monad.return (transitionFailure opID intent PathRESTToDCS
                        (data\<lparr>cwVerification := VerifiedFailed\<rparr>) CategoryConflict
                        (op @ '' DCS fallback lost a compare-and-swap race'') writeError evs))
              else if writeError \<noteq> None \<and> cwDCSSendState data = SendNotSent \<and> cwRESTSendState data = SendNotSent then
                (case classifyReadError writeError of (cat, retryable) \<Rightarrow>
                   State_Monad.return (transitionFailureWithRetry opID intent PathRESTToDCS
                     (data\<lparr>cwVerification := VerifiedFailed\<rparr>) cat retryable
                     (op @ '' was not sent through REST or DCS'') writeError evs))
              else State_Monad.return (transitionUnknown opID intent PathRESTToDCS data
                     (op @ '' fallback was not verified; inspect DCS before retrying'')
                     (if writeError = None then restError else writeError) evs)))
         })
      })
   }"

definition executeTransitionFallback ::
  "'w service \<Rightarrow> 'w goctx \<Rightarrow> string \<Rightarrow> transition_intent \<Rightarrow> transition_selection \<Rightarrow> cluster_write_data
   \<Rightarrow> goerror option \<Rightarrow> evidence list \<Rightarrow> ('w, cluster_write_data result) prog" where
  "executeTransitionFallback svc ctx opID intent planned data restError evidence =
     (let op = tiOperation intent;
          unknown = (\<lambda>message cause evs.
            State_Monad.return (transitionUnknown opID intent PathRESTToDCS data message cause evs));
          failure = (\<lambda>cat retryable message cause evs.
            State_Monad.return (transitionFailureWithRetry opID intent PathRESTToDCS
              (data\<lparr>cwVerification := VerifiedFailed\<rparr>) cat retryable message cause evs)) in do {
        r \<leftarrow> Snapshot svc (tiTarget intent);
        (case r of
           Inl err \<Rightarrow> do {
             e \<leftarrow> observe svc EvidenceDCS (op @ '' fallback could not obtain a fresh DCS snapshot'')
                    [] (path_string PathDCS) SendNotSent;
             (if restMaybeSent data then
                unknown (op @ '' REST outcome is ambiguous and DCS fallback could not be verified'')
                  (Some err) (evidence @ [e])
              else (case classifyReadError (Some err) of (cat, retryable) \<Rightarrow>
                failure cat retryable (op @ '' fallback could not read DCS'') (Some err) (evidence @ [e])))
           }
         | Inr fresh \<Rightarrow> do {
             e \<leftarrow> snapshotEvidence svc fresh (op @ '' fallback obtained a fresh DCS snapshot'');
             (let evs = evidence @ [e] in
              if transitionLeaderCompleted (snCluster fresh) intent (tsLeader planned) then
                State_Monad.return (transitionSuccess opID intent PathRESTToDCS
                  (data\<lparr>cwVerification := VerifiedSucceeded, cwDCSRevision := snRevision fresh\<rparr>) evs)
              else (case validateFallbackTransition (snCluster fresh) intent planned of
                 Some err \<Rightarrow>
                   if restMaybeSent data then
                     unknown (op @ '' may have been sent but fallback preconditions changed'') (Some err) evs
                   else failure CategoryConflict False
                          (op @ '' fallback aborted because cluster topology changed'') (Some err) evs
               | None \<Rightarrow>
                  (case svcFailoverDCS svc of
                     None \<Rightarrow>
                       (let err = errorsNew ''dcs failover capability is unavailable'' in
                        if restMaybeSent data then
                          unknown (op @ '' may have been sent and DCS fallback is unavailable'') (Some err) evs
                        else failure CategoryConfig False
                               (op @ '' fallback requires a DCS failover capability'') (Some err) evs)
                   | Some cap \<Rightarrow> do {
                       ce \<leftarrow> ctxErr ctx;
                       (if ce \<noteq> None then
                          (if restMaybeSent data then
                             unknown (op @ '' may have been sent; cancellation prevented fallback'') ce evs
                           else failure CategoryFailed False
                                  (op @ '' fallback was canceled before DCS write'') ce evs)
                        else writeTransitionFallback svc cap opID intent planned (snCluster fresh)
                               data restError evs)
                     })))
           })
      })"


section \<open>Execution\<close>

definition finishTransition ::
  "'w service \<Rightarrow> 'w goctx \<Rightarrow> string \<Rightarrow> transition_intent \<Rightarrow> transition_selection \<Rightarrow> evidence list
   \<Rightarrow> ('w, cluster_write_data result) prog" where
  "finishTransition svc ctx opID intent sel base0 =
     (let op = tiOperation intent in do {
        (response, restSend, legacyEndpoint, restEvidence, callError) \<leftarrow>
          callTransitionREST svc ctx intent sel (transitionRESTPayload intent sel);
        (let base = base0 @ restEvidence;
             status = respStatus response;
             data = (transitionData intent sel)\<lparr>cwRESTSendState := restSend, cwHTTPStatus := status,
                      cwLegacyEndpoint := legacyEndpoint\<rparr> in
         if status = 200 \<or> status = 202 then
           (if status = 202 \<and> tiScheduledAt intent \<noteq> None then do {
              (verified, revision, verificationEvidence) \<leftarrow>
                verifyTransitionFallback svc intent (tsLeader sel);
              (let base = base @ verificationEvidence; data = data\<lparr>cwDCSRevision := revision\<rparr> in
               if verified then
                 State_Monad.return (transitionSuccess opID intent PathREST
                   (data\<lparr>cwVerification := VerifiedSucceeded\<rparr>) base)
               else State_Monad.return (transitionUnknown opID intent PathREST data
                      ''Patroni accepted the scheduled switchover but DCS readback did not verify it''
                      callError base))
            }
            else State_Monad.return (transitionSuccess opID intent PathREST
                   (data\<lparr>cwVerification := VerifiedSucceeded\<rparr>) base))
         else if status \<noteq> 0 then
           (case classifyHTTPStatus status of (cat, retryable) \<Rightarrow>
              State_Monad.return (transitionFailureWithRetry opID intent PathREST
                (data\<lparr>cwVerification := VerifiedFailed\<rparr>) cat retryable
                (''Patroni rejected '' @ op) callError base))
         else do {
           ce \<leftarrow> ctxErr ctx;
           (if ce \<noteq> None then
              (if restMaybeSent data then
                 State_Monad.return (transitionUnknown opID intent PathREST data
                   (op @ '' may have been sent before cancellation; verify before retrying'') ce base)
               else State_Monad.return (transitionFailure opID intent PathREST
                      (data\<lparr>cwVerification := VerifiedFailed\<rparr>) CategoryFailed
                      (op @ '' was canceled before fallback'') ce base))
            else executeTransitionFallback svc ctx opID intent sel data callError base)
         })
      })"

definition executeTransition ::
  "'w service \<Rightarrow> 'w goctx \<Rightarrow> transition_intent \<Rightarrow> goerror option \<Rightarrow> plan
   \<Rightarrow> ('w, cluster_write_data result) prog" where
  "executeTransition svc ctx intent requestError p = do {
     opID \<leftarrow> (if TrimSpace (pOperationID p) = [] then operationID svc
              else State_Monad.return (TrimSpace (pOperationID p)));
     (let op = tiOperation intent; t = tiTarget intent in
      if \<not> validContext ctx then
        failedRead svc zeroClusterWriteData opID op t PathREST CategoryUsage False
          (op @ '' requires a context'') None
      else if requestError \<noteq> None then
        failedRead svc zeroClusterWriteData opID op t PathREST CategoryUsage False
          (op @ '' request is invalid'') requestError
      else if validateTransitionPlan p intent \<noteq> None then
        failedRead svc zeroClusterWriteData opID op t PathREST CategoryUsage False
          (op @ '' plan does not match the request'') (validateTransitionPlan p intent)
      else do {
        r \<leftarrow> Snapshot svc t;
        (case r of
           Inl err \<Rightarrow>
             (case classifyReadError (Some err) of (cat, retryable) \<Rightarrow>
                failedRead svc zeroClusterWriteData opID op t PathREST cat retryable
                  (op @ '' execution snapshot failed'') (Some err))
         | Inr sn \<Rightarrow>
             (case checkSnapshotPatroniVersion svc sn False of
                Some versionError \<Rightarrow>
                  unsupportedVersionResult svc zeroClusterWriteData opID op t PathREST sn (Some versionError)
              | None \<Rightarrow> do {
                  e \<leftarrow> snapshotEvidence svc sn (op @ '' target revalidated before execution'');
                  (case resolveTransition sn intent of
                     Inl (_, selectionError) \<Rightarrow>
                       State_Monad.return (transitionFailure opID intent PathREST
                         (zeroClusterWriteData\<lparr>cwRESTSendState := SendNotSent, cwVerification := VerifiedFailed\<rparr>)
                         CategoryConflict (op @ '' was not sent because cluster topology changed'')
                         (Some selectionError) [e])
                   | Inr sel \<Rightarrow>
                       if revalidateTransitionPlan p sel \<noteq> None then
                         State_Monad.return (transitionFailure opID intent PathREST (transitionData intent sel)
                           CategoryConflict (op @ '' was not sent because confirmed preconditions changed'')
                           (revalidateTransitionPlan p sel) [e])
                       else do {
                         ce \<leftarrow> ctxErr ctx;
                         (if ce \<noteq> None then do {
                            e2 \<leftarrow> observe svc EvidenceControl (op @ '' canceled before REST write'') []
                                    (path_string PathREST) SendNotSent;
                            State_Monad.return (transitionFailure opID intent PathREST
                              ((transitionData intent sel)\<lparr>cwRESTSendState := SendNotSent,
                                 cwVerification := VerifiedFailed\<rparr>)
                              CategoryFailed (op @ '' was canceled before it was sent'') ce [e, e2])
                          }
                          else finishTransition svc ctx opID intent sel [e])
                       })
                }))
      })
   }"

definition PrepareFailover :: "'w service \<Rightarrow> 'w goctx \<Rightarrow> failover_request \<Rightarrow> ('w, plan result) prog" where
  "PrepareFailover svc ctx rq =
     (case normalizeFailoverRequest rq of (intent, err) \<Rightarrow> prepareTransition svc ctx intent err)"

definition ExecuteFailover ::
  "'w service \<Rightarrow> 'w goctx \<Rightarrow> failover_request \<Rightarrow> plan \<Rightarrow> ('w, cluster_write_data result) prog" where
  "ExecuteFailover svc ctx rq p =
     (case normalizeFailoverRequest rq of (intent, err) \<Rightarrow> executeTransition svc ctx intent err p)"

definition PrepareSwitchover :: "'w service \<Rightarrow> 'w goctx \<Rightarrow> switchover_request \<Rightarrow> ('w, plan result) prog" where
  "PrepareSwitchover svc ctx rq =
     (case normalizeSwitchoverRequest rq of (intent, err) \<Rightarrow> prepareTransition svc ctx intent err)"

definition ExecuteSwitchover ::
  "'w service \<Rightarrow> 'w goctx \<Rightarrow> switchover_request \<Rightarrow> plan \<Rightarrow> ('w, cluster_write_data result) prog" where
  "ExecuteSwitchover svc ctx rq p =
     (case normalizeSwitchoverRequest rq of (intent, err) \<Rightarrow> executeTransition svc ctx intent err p)"

end
