(* ===== verification/Example_Service.thy ===== *)
theory Example_Service
  imports Write_Types
begin

text \<open>
  A small cluster and a scripted service on which the witnesses of the properties run the
  operations: two members, a world that counts the snapshots read, and answers given by functions.
\<close>

definition demoData :: "string \<Rightarrow> member_data" where
  "demoData url = \<lparr>mdAPIURL = url, mdConnURL = [], mdState = ''running'', mdRole = ''replica'',
     mdReplicationState = [], mdTimeline = None, mdPendingRestart = None, mdPendingRestartReason = [],
     mdScheduledRestart = [], mdTags = [], mdPatroniVersion = ''4.0.4'', mdPause = None,
     mdXLogLocation = None, mdReceiveLSN = None, mdReplayLSN = None, mdSlots = []\<rparr>"

definition demoMember :: "string \<Rightarrow> dcs_member" where
  "demoMember name = \<lparr>mName = name, mModRevision = 5, mLease = 1, mData = demoData (''http://'' @ name @ '':8008/patroni'')\<rparr>"

definition demoTarget :: target where
  "demoTarget = \<lparr>tContext = [], tNamespace = [], tScope = ''main'', tGroup = None, tMember = []\<rparr>"

definition demoCluster :: "string \<Rightarrow> cluster_state" where
  "demoCluster leader = \<lparr>cInitialize = ''7'', cConfig = [], cLeader = Some \<lparr>lName = leader, lModRevision = 4, lLease = 1\<rparr>,
     cMembers = [demoMember ''pg-1'', demoMember ''pg-2''], cFailover = None, cHistory = [],
     cStatus = \<lparr>stSource = KeyStatus, stLastLSN = 0, stSlots = [], stRetainSlots = []\<rparr>,
     cSync = \<lparr>sModRevision = 0, sLeader = [], sStandbys = [], sQuorum = 0\<rparr>, cFailsafe = []\<rparr>"

definition demoSnapshot :: "int \<Rightarrow> cluster_state \<Rightarrow> snapshot" where
  "demoSnapshot rv cl = \<lparr>snTarget = demoTarget, snPrefix = ''/service/main/'', snRevision = rv, snEntries = [],
     snCluster = cl, snIssues = []\<rparr>"

definition demoRuntime :: "nat goruntime" where
  "demoRuntime = \<lparr>rtRandomBytes = (\<lambda>w. (Some ''x'', w)), rtRandomInt = (\<lambda>n w. (Inr 0, w)),
     rtSystemTime = (\<lambda>w. (\<lparr>instant = 1, zoneOffset = 0\<rparr>, w)), rtWait = (\<lambda>d w. (None, w)), rtBuildVersion = ''dev'',
     rtParseFloat = (\<lambda>s. None), rtParseDuration = (\<lambda>s. Some 1),
     rtHMAC = (\<lambda>k m. rev (take 64 (rev m @ replicate 64 (CHR ''0''))))\<rparr>"

definition demoService ::
  "(nat \<Rightarrow> goerror + snapshot) \<Rightarrow> (rest_call \<Rightarrow> rest_response \<times> goerror option)
   \<Rightarrow> (failover_call \<Rightarrow> write_result \<times> goerror option) \<Rightarrow> nat service" where
  "demoService snaps rest cas =
     \<lparr>svcSnapshots = (\<lambda>t n. (snaps n, Suc n)), svcDiscovery = None, svcPatroni = Some (\<lambda>c n. (rest c, n)),
      svcConfigDCS = None, svcFailoverDCS = Some (\<lambda>c n. (cas c, n)), svcRemoverDCS = None, svcPlanKey = ''k'',
      svcClock = Some (\<lambda>w. (\<lparr>instant = 1, zoneOffset = 0\<rparr>, w)), svcNewOperationID = Some (\<lambda>w. (''op-1'', w)),
      svcProductVersion = ''1'', svcRandomIndex = (\<lambda>n w. (Inr 0, w)), svcWait = (\<lambda>d w. (None, w)),
      svcVerificationAttempts = 2, svcSupportedRange = auditedPatroniRange, svcStandbyAttempts = 2,
      svcStandbyInterval = second_ns, svcRuntime = demoRuntime\<rparr>"

definition demoCtx :: "nat goctx" where
  "demoCtx = Some (\<lambda>w. (None, w))"

definition demoStart :: "nat world" where
  "demoStart = \<lparr>ext = 0, events = []\<rparr>"

definition restFailed :: "rest_call \<Rightarrow> rest_response \<times> goerror option" where
  "restFailed c = (\<lparr>respStatus = 0, respText = [], respState = [], respVersion = [], respServerVersion = None\<rparr>, Some (PatroniError PatTransport ''POST'' ''/failover'' DeliveryNotSent 0 None))"

definition restStatus :: "int \<Rightarrow> rest_call \<Rightarrow> rest_response \<times> goerror option" where
  "restStatus st c = (\<lparr>respStatus = st, respText = [], respState = [], respVersion = [], respServerVersion = None\<rparr>, None)"

definition casApplied :: "failover_call \<Rightarrow> write_result \<times> goerror option" where
  "casApplied c = (\<lparr>wrApplied = True, wrRevision = 12, wrPrevious = None, wrCurrent = None\<rparr>, None)"

text \<open>Running a program from the start of the example world.\<close>

definition demoRun :: "(nat, 'a) prog \<Rightarrow> 'a \<times> event list" where
  "demoRun m = (case run_state m demoStart of (x, s) \<Rightarrow> (x, events s))"

lemma valid_demoRun: "valid [] m Q \<Longrightarrow> Q (fst (demoRun m)) (snd (demoRun m))"
  by (cases "run_state m demoStart") (auto simp: demoRun_def demoStart_def dest: valid_run)

lemma demo_clock: "clock_ok (demoService snaps rest cas)"
  by (simp add: clock_ok_def demoService_def IsZero_def)

end
