(* ===== verification/Transition_Spec.thy ===== *)
theory Transition_Spec
  imports Transition Example_Service
begin

text \<open>
  What failover and switchover guarantee.  The lemmas on the parts describe the events each part
  may cause (\<open>rest_trace\<close>, \<open>readback_trace\<close>); the properties of the operations follow from them.
\<close>

section \<open>Verification of the fallback\<close>

lemma verifyTransitionLoop_trace:
  assumes "clock_ok svc \<Longrightarrow> evidence_all_ok evs"
    and good: "good = (\<lambda>sn. transitionCompleted (snCluster sn) intent leader)"
  shows "valid [] (verifyTransitionLoop svc intent leader n later rv evs)
    (\<lambda>(ok, rv, ev) ds. readback_trace (tiTarget intent) n good ok ds \<and> (clock_ok svc \<longrightarrow> evidence_all_ok ev))"
  using assms(1)
proof (induction n arbitrary: later rv evs)
  case 0
  then show ?case by (simp add: readback_trace_def)
next
  case (Suc n)
  have step: "valid ps (verifyTransitionLoop svc intent leader n True rv' evs')
      (\<lambda>(ok, rv, ev) ds. readback_trace (tiTarget intent) (Suc n) good ok ds \<and> (clock_ok svc \<longrightarrow> evidence_all_ok ev))"
    if "clock_ok svc \<Longrightarrow> evidence_all_ok evs'" and "list_all (is_readback (tiTarget intent)) ps"
      and "length ps \<le> 2" and "\<not> list_ex (exhibits good) ps" for rv' evs' ps
    by (rule valid_mono [OF valid_shift [OF Suc.IH [OF that(1)]]])
       (use that(2-4) in \<open>auto simp: readback_trace_def butlast_append\<close>)
  show ?case
    unfolding verifyTransitionLoop.simps Let_def
    by (intro wp step) (auto simp: readback_trace_def good Suc.prems)
qed

interpretation transition_readback:
  readback "verifyTransitionFallback svc intent leader" "tiTarget intent"
    "nat (svcVerificationAttempts svc)" "\<lambda>sn. transitionCompleted (snCluster sn) intent leader" snd "clock_ok svc"
  for svc :: "'w service" and intent leader
  by unfold_locales
     (auto simp: verifyTransitionFallback_def intro!: valid_mono [OF verifyTransitionLoop_trace [OF _ refl]])

section \<open>The REST call\<close>

definition restCall :: "transition_intent \<Rightarrow> string \<Rightarrow> rest_transition \<Rightarrow> rest_call" where
  "restCall intent url payload =
     (if tiOperation intent = ''failover'' then PostFailover url payload else PostSwitchover url payload)"

fun rest_trace :: "transition_intent \<Rightarrow> rest_transition \<Rightarrow> rest_outcome \<Rightarrow> event list \<Rightarrow> bool" where
  "rest_trace intent payload (resp, send, legacy, evs, err) ds =
     (ds = [] \<and> respStatus resp = 0 \<and> send = SendNotSent
      \<or> (\<exists>url. ds = [EvRest (restCall intent url payload) resp err]
               \<and> send = patroniSendState err (respStatus resp))
      \<or> (\<exists>url r1 e1. tiOperation intent = ''switchover'' \<and> respStatus r1 = 501
           \<and> Contains (respText r1) legacySwitchoverResponse
           \<and> ds = [EvRest (PostSwitchover url payload) r1 e1, EvCtx None, EvRest (PostFailover url payload) resp err]
           \<and> send = patroniSendState err (respStatus resp))
      \<or> (\<exists>url e1 c. tiOperation intent = ''switchover'' \<and> respStatus resp = 501 \<and> send = SendAccepted
           \<and> ds = [EvRest (PostSwitchover url payload) resp e1, EvCtx (Some c)]))"

lemma valid_transitionRESTEvidence [wp]:
  "(\<And>e. (clock_ok svc \<Longrightarrow> evidence_Validate e = None) \<Longrightarrow> Q e es)
   \<Longrightarrow> valid es (transitionRESTEvidence svc operation path response err) Q"
  unfolding transitionRESTEvidence_def
  by (intro valid_observe)
     (auto simp: patroniSendState_def intro!: observed_Validate split: option.splits delivery.splits)

lemma valid_restUnavailable [wp]:
  "(\<And>e. (clock_ok svc \<Longrightarrow> evidence_Validate e = None) \<Longrightarrow> Q (zeroResponse, SendNotSent, False, [e], Some err) es)
   \<Longrightarrow> summary \<noteq> [] \<Longrightarrow> valid es (restUnavailable svc operation summary err) Q"
  unfolding restUnavailable_def by (intro wp) auto

lemma callTransitionREST_trace:
  assumes "ctx \<noteq> None"
  shows "valid [] (callTransitionREST svc ctx intent sel payload)
    (\<lambda>(resp, send, legacy, evs, err) ds. rest_trace intent payload (resp, send, legacy, evs, err) ds
       \<and> (clock_ok svc \<longrightarrow> evidence_all_ok evs))"
  unfolding callTransitionREST_def Let_def
  by (intro wp) (auto simp: assms zeroResponse_def restCall_def patroniSendState_def)

lemma valid_callTransitionREST [wp]:
  "ctx \<noteq> None \<Longrightarrow>
   (\<And>resp send legacy evs err ds. rest_trace intent payload (resp, send, legacy, evs, err) ds
      \<Longrightarrow> (clock_ok svc \<Longrightarrow> evidence_all_ok evs) \<Longrightarrow> Q (resp, send, legacy, evs, err) (es @ ds))
   \<Longrightarrow> valid es (callTransitionREST svc ctx intent sel payload) Q"
  by (erule valid_use [OF callTransitionREST_trace]) (auto simp del: rest_trace.simps)


lemmas valid_verifyTransition [wp] = transition_readback.use

lemmas transition_results = transitionSuccess_def transitionFailure_def transitionFailureWithRetry_def transitionUnknown_def

definition rest_known :: "cluster_write_data \<Rightarrow> bool" where
  "rest_known data = (cwRESTSendState data \<in> {SendNotSent, SendMaybeSent, SendAccepted})"

lemma rest_trace_definite:
  "rest_trace intent payload (resp, send, legacy, evs, err) ds \<Longrightarrow> respStatus resp \<noteq> 0 \<or> send = SendNotSent
   \<Longrightarrow> list_all definite ds"
  by (auto simp: restCall_def)

lemma rest_trace_known:
  "rest_trace intent payload (resp, send, legacy, evs, err) ds \<Longrightarrow> send \<in> {SendNotSent, SendMaybeSent, SendAccepted}"
  using patroniSendState_range by (auto split: if_splits)

section \<open>No false failure\<close>

lemma writeFallback_definite:
  assumes "\<not> restMaybeSent data \<Longrightarrow> list_all definite es" and "rest_known data"
  shows "valid es (writeTransitionFallback svc cap opID intent planned fresh data restError evs)
    (\<lambda>r es'. rOutcome r = Failed \<longrightarrow> list_all definite es')"
  unfolding writeTransitionFallback_def Let_def
  by (intro wp) (use assms in \<open>auto simp: transition_results restMaybeSent_def rest_known_def dest!: readback_quiet split: if_splits prod.splits\<close>)

lemma fallback_definite:
  assumes "\<not> restMaybeSent data \<Longrightarrow> list_all definite es" and "rest_known data"
  shows "valid es (executeTransitionFallback svc ctx opID intent planned data restError evs)
    (\<lambda>r es'. rOutcome r = Failed \<longrightarrow> list_all definite es')"
  unfolding executeTransitionFallback_def Let_def
  by (intro wp writeFallback_definite) (use assms in \<open>auto simp: transition_results split: if_splits prod.splits\<close>)

lemma rest_trace_unsent:
  "rest_trace intent payload (resp, send, legacy, evs, err) ds \<Longrightarrow> send \<noteq> SendMaybeSent \<Longrightarrow> send \<noteq> SendAccepted
   \<Longrightarrow> list_all definite ds"
  using rest_trace_known rest_trace_definite by blast

lemmas rest_simps = restMaybeSent_def rest_known_def

lemma finish_definite:
  assumes "ctx \<noteq> None" and "list_all definite es"
  shows "valid es (finishTransition svc ctx opID intent sel evs)
    (\<lambda>r es'. rOutcome r = Failed \<longrightarrow> list_all definite es')"
  unfolding finishTransition_def Let_def
  by (intro wp fallback_definite)
     (use assms in \<open>auto simp: transition_results rest_simps simp del: rest_trace.simps
        dest: rest_trace_definite rest_trace_unsent rest_trace_known\<close>)

lemma execute_definite:
  "valid [] (executeTransition svc ctx intent requestError p)
    (\<lambda>r es. rOutcome r = Failed \<longrightarrow> list_all definite es)"
  unfolding executeTransition_def Let_def
  by (intro wp finish_definite) (auto simp: transition_results validContext_def)

section \<open>Success is backed by an answer or by a reading\<close>

definition succeeded_by :: "transition_intent \<Rightarrow> string \<Rightarrow> event list \<Rightarrow> bool" where
  "succeeded_by intent leader es =
     ((\<exists>c resp err. last es = EvRest c resp err \<and> respStatus resp \<in> {200, 202}
         \<and> (respStatus resp = 202 \<longrightarrow> tiScheduledAt intent = None))
      \<or> (\<exists>sn. last es = EvSnapshot (tiTarget intent) (Inr sn) \<and> transitionCompleted (snCluster sn) intent leader))"

lemma readback_succeeded:
  assumes "readback_trace (tiTarget intent) b (\<lambda>sn. transitionCompleted (snCluster sn) intent leader) ok ds" and "ok"
  shows "succeeded_by intent leader (es @ ds)"
proof -
  from assms have "ds \<noteq> []" and "exhibits (\<lambda>sn. transitionCompleted (snCluster sn) intent leader) (last ds)"
    and "is_readback (tiTarget intent) (last ds)"
    by (auto simp: readback_trace_def list_all_iff)
  then show ?thesis
    by (cases "last ds") (auto simp: succeeded_by_def elim: exhibits.elims split: sum.splits)
qed

lemma writeFallback_succeeded:
  "valid es (writeTransitionFallback svc cap opID intent planned fresh data restError evs)
    (\<lambda>r es'. rOutcome r = Succeeded \<longrightarrow> succeeded_by intent (tsLeader planned) es')"
  unfolding writeTransitionFallback_def Let_def
  by (intro wp)
     (auto simp: transition_results simp del: append_assoc intro: readback_succeeded split: prod.splits)

lemma fallback_succeeded:
  "valid es (executeTransitionFallback svc ctx opID intent planned data restError evs)
    (\<lambda>r es'. rOutcome r = Succeeded \<longrightarrow> succeeded_by intent (tsLeader planned) es')"
  unfolding executeTransitionFallback_def Let_def
  by (intro wp writeFallback_succeeded)
     (auto simp: transition_results succeeded_by_def transitionCompleted_def split: prod.splits)

lemma rest_succeeded:
  "rest_trace intent payload (resp, send, legacy, evs, err) ds \<Longrightarrow> respStatus resp \<in> {200, 202}
   \<Longrightarrow> (respStatus resp = 202 \<Longrightarrow> tiScheduledAt intent = None) \<Longrightarrow> succeeded_by intent leader (es @ ds)"
  by (auto simp: succeeded_by_def)

lemma finish_succeeded:
  assumes "ctx \<noteq> None"
  shows "valid es (finishTransition svc ctx opID intent sel evs)
    (\<lambda>r es'. rOutcome r = Succeeded \<longrightarrow> succeeded_by intent (tsLeader sel) es')"
  unfolding finishTransition_def Let_def
  by (intro wp fallback_succeeded)
     (use assms in \<open>auto simp: transition_results simp del: rest_trace.simps append_assoc intro: rest_succeeded readback_succeeded\<close>)


section \<open>Writes are guarded\<close>

text \<open>The events and choices before the first write of an execution.\<close>

definition transition_guard ::
  "'w service \<Rightarrow> transition_intent \<Rightarrow> plan \<Rightarrow> snapshot \<Rightarrow> transition_selection \<Rightarrow> bool" where
  "transition_guard svc intent p sn sel =
     (validateTransitionPlan p intent = None \<and> checkSnapshotPatroniVersion svc sn False = None
      \<and> resolveTransition sn intent = Inr sel \<and> revalidateTransitionPlan p sel = None)"

text \<open>A fact about the end of an execution holds once it holds of every run of \<open>finishTransition\<close>
  behind the guards and of every early return, which does not succeed and does not write.\<close>

lemma execute_cases:
  assumes early: "\<And>r es. rOutcome r = Failed \<Longrightarrow> \<not> list_ex is_write es \<Longrightarrow> length es \<le> 2 \<Longrightarrow> Q r es"
    and late: "\<And>opID sn sel e. transition_guard svc intent p sn sel \<Longrightarrow> ctx \<noteq> None \<Longrightarrow> requestError = None
      \<Longrightarrow> valid [EvSnapshot (tiTarget intent) (Inr sn), EvCtx None]
            (finishTransition svc ctx opID intent sel [e]) Q"
  shows "valid [] (executeTransition svc ctx intent requestError p) Q"
  unfolding executeTransition_def Let_def
  by (intro wp early)
     (use late in \<open>auto simp: transition_results validContext_def transition_guard_def failed_with_def\<close>)

lemma finish_extends:
  assumes "ctx \<noteq> None"
  shows "valid es (finishTransition svc ctx opID intent sel evs) (\<lambda>_ es'. \<exists>rest. es' = es @ rest)"
proof (rule valid_use)
  show "valid [] (finishTransition svc ctx opID intent sel evs) (\<lambda>_ _. True)"
    unfolding finishTransition_def Let_def executeTransitionFallback_def writeTransitionFallback_def
    by (intro wp) (simp_all add: assms)
qed blast

lemma execute_succeeded:
  "valid [] (executeTransition svc ctx intent requestError p)
    (\<lambda>r es. rOutcome r = Succeeded \<longrightarrow>
       (\<exists>sn sel rest. es = EvSnapshot (tiTarget intent) (Inr sn) # EvCtx None # rest
          \<and> transition_guard svc intent p sn sel \<and> succeeded_by intent (tsLeader sel) es))"
  by (rule execute_cases, simp, rule valid_mono [OF valid_conj [OF finish_succeeded finish_extends]]) auto

lemma execute_guarded:
  "valid [] (executeTransition svc ctx intent requestError p)
    (\<lambda>r es. list_ex is_write es \<longrightarrow>
       ctx \<noteq> None \<and> requestError = None
       \<and> (\<exists>sn sel rest. es = EvSnapshot (tiTarget intent) (Inr sn) # EvCtx None # rest
            \<and> transition_guard svc intent p sn sel))"
  by (rule execute_cases, simp, rule valid_mono [OF finish_extends]) auto

section \<open>The fallback write\<close>

text \<open>A write of the failover key comes straight after a fresh snapshot and an uncanceled look at the
  context, swaps against the revision that snapshot shows, and is followed by readings only.\<close>

definition fallback_ok ::
  "transition_intent \<Rightarrow> transition_selection \<Rightarrow> event list \<Rightarrow> bool" where
  "fallback_ok intent sel es =
     (\<exists>front fresh res err tail.
        es = front @ [EvSnapshot (tiTarget intent) (Inr fresh), EvCtx None,
               EvFailover (WriteFailover (tiTarget intent) (transitionDCSPayload intent sel)
                 (Some (case cFailover (snCluster fresh) of None \<Rightarrow> 0 | Some f \<Rightarrow> fModRevision f))) res err] @ tail
        \<and> (\<forall>c w e. EvFailover c w e \<notin> set front) \<and> list_all (is_readback (tiTarget intent)) tail
        \<and> \<not> transitionLeaderCompleted (snCluster fresh) intent (tsLeader sel)
        \<and> validateFallbackTransition (snCluster fresh) intent sel = None)"

definition no_failover :: "event list \<Rightarrow> bool" where
  "no_failover es = (\<forall>c w e. EvFailover c w e \<notin> set es)"

lemma no_failover_simps [simp]:
  "no_failover []" "no_failover (xs @ ys) \<longleftrightarrow> no_failover xs \<and> no_failover ys"
  "no_failover (EvRest c r e # xs) \<longleftrightarrow> no_failover xs" "no_failover (EvCtx x # xs) \<longleftrightarrow> no_failover xs"
  "no_failover (EvSnapshot t sn # xs) \<longleftrightarrow> no_failover xs"
  by (auto simp: no_failover_def)

lemma readback_no_failover: "readback_trace t b g ok ds \<Longrightarrow> no_failover ds"
  by (auto simp: readback_trace_def list_all_iff no_failover_def)

definition casCall :: "transition_intent \<Rightarrow> transition_selection \<Rightarrow> cluster_state \<Rightarrow> failover_call" where
  "casCall intent sel fresh = WriteFailover (tiTarget intent) (transitionDCSPayload intent sel)
     (Some (case cFailover fresh of None \<Rightarrow> 0 | Some f \<Rightarrow> fModRevision f))"

lemma writeFallback_trace:
  "valid [] (writeTransitionFallback svc cap opID intent sel fresh data restError evs)
    (\<lambda>r es. \<exists>res err tail. es = EvFailover (casCall intent sel fresh) res err # tail
       \<and> list_all (is_readback (tiTarget intent)) tail \<and> length tail \<le> 2 * nat (svcVerificationAttempts svc))"
  unfolding writeTransitionFallback_def Let_def
  by (intro wp) (auto simp: casCall_def readback_trace_def split: prod.splits)

lemma fallback_okI:
  "es = front @ [EvSnapshot (tiTarget intent) (Inr fresh), EvCtx None,
                 EvFailover (casCall intent sel (snCluster fresh)) res err] @ tail
   \<Longrightarrow> no_failover front \<Longrightarrow> list_all (is_readback (tiTarget intent)) tail
   \<Longrightarrow> \<not> transitionLeaderCompleted (snCluster fresh) intent (tsLeader sel)
   \<Longrightarrow> validateFallbackTransition (snCluster fresh) intent sel = None \<Longrightarrow> fallback_ok intent sel es"
  unfolding fallback_ok_def casCall_def no_failover_def by blast

lemma fallback_cas:
  assumes "ctx \<noteq> None" and "no_failover es"
  shows "valid es (executeTransitionFallback svc ctx opID intent sel data restError evs)
    (\<lambda>r es'. no_failover es' \<or> fallback_ok intent sel es')"
  unfolding executeTransitionFallback_def Let_def
  by (intro wp valid_use [OF writeFallback_trace])
     (use assms in \<open>auto intro!: fallback_okI [of _ es]\<close>)

lemma finish_cas:
  assumes "ctx \<noteq> None" and "no_failover es"
  shows "valid es (finishTransition svc ctx opID intent sel evs)
    (\<lambda>r es'. no_failover es' \<or> fallback_ok intent sel es')"
  unfolding finishTransition_def Let_def
  by (intro wp fallback_cas)
     (use assms in \<open>auto simp: transition_results dest: readback_no_failover\<close>)


lemma execute_cas:
  "valid [] (executeTransition svc ctx intent requestError p)
    (\<lambda>r es. no_failover es \<or> (\<exists>sn sel. hd es = EvSnapshot (tiTarget intent) (Inr sn)
       \<and> transition_guard svc intent p sn sel \<and> fallback_ok intent sel es))"
proof (rule execute_cases)
  fix r :: "cluster_write_data result" and es :: "event list"
  assume "\<not> list_ex is_write es"
  then show "no_failover es \<or> (\<exists>sn sel. hd es = EvSnapshot (tiTarget intent) (Inr sn)
      \<and> transition_guard svc intent p sn sel \<and> fallback_ok intent sel es)"
    by (auto simp: no_failover_def list_ex_iff)
next
  fix opID sn sel e
  assume g: "transition_guard svc intent p sn sel" and c: "ctx \<noteq> None"
  show "valid [EvSnapshot (tiTarget intent) (Inr sn), EvCtx None] (finishTransition svc ctx opID intent sel [e])
      (\<lambda>r es. no_failover es \<or> (\<exists>sn sel. hd es = EvSnapshot (tiTarget intent) (Inr sn)
         \<and> transition_guard svc intent p sn sel \<and> fallback_ok intent sel es))"
    by (rule valid_mono [OF valid_conj [OF finish_cas [OF c] finish_extends [OF c]]]) (use g in auto)
qed

section \<open>Bounds\<close>

lemma rest_trace_bound:
  "rest_trace intent payload (resp, send, legacy, evs, err) ds \<Longrightarrow> length ds \<le> 3 \<and> length (filter is_write ds) \<le> 2"
  by (auto simp: restCall_def)

lemma fallback_bound:
  "valid es (executeTransitionFallback svc ctx opID intent sel data restError evs)
    (\<lambda>r es'. length es' \<le> length es + 3 + 2 * nat (svcVerificationAttempts svc)
       \<and> length (filter is_write es') \<le> length (filter is_write es) + 1)"
  unfolding executeTransitionFallback_def Let_def
  by (intro wp valid_use [OF writeFallback_trace]) (auto simp: readback_filter split: prod.splits)

lemma finish_bound:
  assumes "ctx \<noteq> None"
  shows "valid es (finishTransition svc ctx opID intent sel evs)
    (\<lambda>r es'. length es' \<le> length es + 7 + 2 * nat (svcVerificationAttempts svc)
       \<and> length (filter is_write es') \<le> length (filter is_write es) + 3)"
  unfolding finishTransition_def Let_def
  by (intro wp valid_mono [OF fallback_bound])
     (use assms in \<open>auto simp: readback_trace_def readback_filter simp del: rest_trace.simps dest!: rest_trace_bound\<close>)

lemma execute_bound:
  "valid [] (executeTransition svc ctx intent requestError p)
    (\<lambda>r es. length es \<le> 9 + 2 * nat (svcVerificationAttempts svc) \<and> length (filter is_write es) \<le> 3)"
  by (rule execute_cases, simp add: filter_empty_conv list_ex_iff, rule valid_mono [OF finish_bound]) auto

section \<open>Results are well formed\<close>

lemma transition_result_ok [simp]:
  "result_Validate (transitionSuccess opID intent path data evs) = None \<longleftrightarrow>
     opID \<noteq> [] \<and> target_ok (tiTarget intent) \<and> validPath path \<and> evs \<noteq> [] \<and> evidence_all_ok evs"
  "result_Validate (transitionFailureWithRetry opID intent path data cat retry message cause evs) = None \<longleftrightarrow>
     opID \<noteq> [] \<and> target_ok (tiTarget intent) \<and> validPath path \<and> evs \<noteq> [] \<and> evidence_all_ok evs
     \<and> cat \<noteq> CategoryUnknown \<and> validCategory cat \<and> tiOperation intent \<noteq> [] \<and> message \<noteq> []"
  "result_Validate (transitionUnknown opID intent path data message cause evs) = None \<longleftrightarrow>
     opID \<noteq> [] \<and> target_ok (tiTarget intent) \<and> validPath path \<and> evs \<noteq> [] \<and> evidence_all_ok evs
     \<and> tiOperation intent \<noteq> [] \<and> message \<noteq> []"
  by (auto simp: transition_results result_Validate_None error_Validate_NewError)

lemma transitionDCSWriteSummary_nonempty [simp]: "transitionDCSWriteSummary res err \<noteq> []"
  by (simp add: transitionDCSWriteSummary_def)

text \<open>The clock works, and the intent names an operation and a normalised, valid target, as the
  normalisation of an accepted request leaves it.\<close>

definition transition_ready :: "'w service \<Rightarrow> transition_intent \<Rightarrow> bool" where
  "transition_ready svc intent =
     (clock_ok svc \<and> tiOperation intent \<noteq> [] \<and> Normalize (tiTarget intent) = tiTarget intent
      \<and> target_ok (tiTarget intent))"

lemma writeFallback_wellformed:
  assumes "transition_ready svc intent" and "opID \<noteq> []" and "evidence_all_ok evs"
  shows "valid es (writeTransitionFallback svc cap opID intent sel fresh data restError evs)
    (\<lambda>r es. result_Validate r = None)"
  unfolding writeTransitionFallback_def Let_def
  by (intro wp)
     (use assms in \<open>auto simp: transitionFailure_def transition_ready_def
        dest!: classifyReadError_category split: prod.splits\<close>)

lemma fallback_wellformed:
  assumes "transition_ready svc intent" and "opID \<noteq> []" and "evidence_all_ok evs"
  shows "valid es (executeTransitionFallback svc ctx opID intent sel data restError evs)
    (\<lambda>r es. result_Validate r = None)"
  unfolding executeTransitionFallback_def Let_def
  by (intro wp writeFallback_wellformed)
     (use assms in \<open>auto simp: transition_ready_def dest!: classifyReadError_category split: prod.splits\<close>)

lemma finish_wellformed:
  assumes "ctx \<noteq> None" and "transition_ready svc intent" and "opID \<noteq> []" and "evidence_all_ok evs" and "evs \<noteq> []"
  shows "valid es (finishTransition svc ctx opID intent sel evs) (\<lambda>r es. result_Validate r = None)"
  unfolding finishTransition_def Let_def
  by (intro wp fallback_wellformed)
     (use assms in \<open>auto simp: transition_ready_def transitionFailure_def simp del: rest_trace.simps
        dest!: classifyHTTPStatus_category\<close>)

lemma execute_wellformed:
  assumes "transition_ready svc intent"
  shows "valid [] (executeTransition svc ctx intent requestError p) (\<lambda>r es. result_Validate r = None)"
  unfolding executeTransition_def Let_def
  by (intro wp finish_wellformed)
     (use assms in \<open>auto simp: transition_ready_def transitionFailure_def validContext_def
        dest!: classifyReadError_category intro: failed_with_ok\<close>)

section \<open>Preparation\<close>

lemma resolveTransition_category:
  "resolveTransition sn intent = Inl (cat, err) \<Longrightarrow> validCategory cat \<and> cat \<noteq> CategoryUnknown"
  by (auto simp: resolveTransition_def switchoverLeaderError_def candidateError_def Let_def
           split: if_splits option.splits)

lemma prepare_wellformed:
  assumes "transition_ready svc intent"
  shows "valid [] (prepareTransition svc ctx intent requestError) (\<lambda>r es. result_Validate r = None)"
  unfolding prepareTransition_def Let_def
  by (intro wp)
     (use assms in \<open>auto simp: transition_ready_def validContext_def
        dest!: classifyReadError_category resolveTransition_category intro: failed_with_ok\<close>)

lemma prepare_trace:
  "valid [] (prepareTransition svc ctx intent requestError)
    (\<lambda>r es. rOutcome r = Succeeded \<longrightarrow>
       (\<exists>sn sel. es = [EvSnapshot (tiTarget intent) (Inr sn)] \<and> requestError = None \<and> ctx \<noteq> None
          \<and> checkSnapshotPatroniVersion svc sn False = None \<and> resolveTransition sn intent = Inr sel
          \<and> plan_Validate (rData r) = None
          \<and> rData r = \<lparr>pOperationID = rOperationID r, pOperation = tiOperation intent, pTarget = tiTarget intent, pTargets = [],
                              pPath = PathREST, pRisk = RiskAvailability, pRetrySafety = UnsafeAfterSend,
                              pSummary = transitionSummary intent sel,
                              pPreconditions = transitionPreconditions (snRevision sn) intent sel\<rparr>))"
  unfolding prepareTransition_def Let_def
  by (intro wp)
     (auto simp: validContext_def failed_with_def)

lemma prepared_plan_valid:
  assumes "plan_Validate p = None" and "Normalize (tiTarget intent) = tiTarget intent"
    and "p = \<lparr>pOperationID = opID, pOperation = tiOperation intent, pTarget = tiTarget intent, pTargets = [],
                              pPath = PathREST, pRisk = RiskAvailability, pRetrySafety = UnsafeAfterSend,
                              pSummary = transitionSummary intent sel,
                              pPreconditions = transitionPreconditions rv intent sel\<rparr>"
  shows "validateTransitionPlan p intent = None"
    and "revalidateTransitionPlan p sel' = None \<longleftrightarrow>
      tsLeader sel' = tsLeader sel \<and> Join '','' (tsCandidateNames sel') = Join '','' (tsCandidateNames sel)
      \<and> tsSyncEligible sel' = tsSyncEligible sel \<and> tsPaused sel' = tsPaused sel
      \<and> tsFailoverVersion sel' = tsFailoverVersion sel"
  using assms
  by (auto simp: validateTransitionPlan_def revalidateTransitionPlan_def firstMismatch_def expectedPrecondition_find transitionPreconditions_def)


section \<open>Cancellation\<close>

definition uncanceled :: "event list \<Rightarrow> bool" where
  "uncanceled es = (\<forall>x. EvCtx (Some x) \<notin> set es)"

lemma uncanceled_simps [simp]:
  "uncanceled []" "uncanceled (xs @ ys) \<longleftrightarrow> uncanceled xs \<and> uncanceled ys"
  "uncanceled (EvRest c r e # xs) \<longleftrightarrow> uncanceled xs" "uncanceled (EvSnapshot t sn # xs) \<longleftrightarrow> uncanceled xs"
  "uncanceled (EvFailover fc w e # xs) \<longleftrightarrow> uncanceled xs" "uncanceled (EvCtx None # xs) \<longleftrightarrow> uncanceled xs"
  by (auto simp: uncanceled_def)

lemma uncanceled_cancel_safe: "uncanceled es \<Longrightarrow> cancel_safe es"
  by (induction es) (auto simp: uncanceled_def)

lemma cancel_safe_then: "uncanceled es \<Longrightarrow> cancel_safe ds \<Longrightarrow> cancel_safe (es @ ds)"
  by (auto simp: cancel_safe_append uncanceled_cancel_safe uncanceled_def)

lemma readback_cancel_safe: "list_all (is_readback t) ds \<Longrightarrow> cancel_safe ds \<and> uncanceled ds"
  by (induction ds) (auto simp: uncanceled_def elim!: is_readback.elims)

lemma fallback_cancel:
  assumes "uncanceled es"
  shows "valid es (executeTransitionFallback svc ctx opID intent sel data restError evs)
    (\<lambda>r es'. cancel_safe es')"
  unfolding executeTransitionFallback_def Let_def
  by (intro wp valid_use [OF writeFallback_trace])
     (use assms in \<open>auto intro!: cancel_safe_then dest: readback_cancel_safe split: prod.splits\<close>)

lemma finish_cancel:
  assumes "ctx \<noteq> None" and "uncanceled es"
  shows "valid es (finishTransition svc ctx opID intent sel evs) (\<lambda>r es'. cancel_safe es')"
  unfolding finishTransition_def Let_def
  by (intro wp fallback_cancel)
     (use assms in \<open>auto intro!: cancel_safe_then dest: readback_cancel_safe simp: readback_trace_def\<close>)

lemma execute_cancel:
  "valid [] (executeTransition svc ctx intent requestError p) (\<lambda>r es. cancel_safe es)"
  by (rule execute_cases) (auto intro!: cancel_safe_no_write finish_cancel)


section \<open>Properties\<close>

definition demoFailover :: failover_request where
  "demoFailover = \<lparr>foTarget = demoTarget, foCandidate = ''pg-2'', foForce = False, foCitus = False\<rparr>"

definition demoSteady :: "nat \<Rightarrow> goerror + snapshot" where
  "demoSteady n = Inr (demoSnapshot 10 (demoCluster ''pg-1''))"

text \<open>The leader changes after the third snapshot.\<close>

definition demoMoving :: "nat \<Rightarrow> goerror + snapshot" where
  "demoMoving n = Inr (demoSnapshot (10 + int n) (demoCluster (if n < 2 then ''pg-1'' else ''pg-2'')))"

definition demoPlan :: plan where
  "demoPlan = rData (fst (demoRun (PrepareFailover (demoService demoSteady restFailed casApplied) demoCtx demoFailover)))"

definition demoIntent :: transition_intent where
  "demoIntent = fst (normalizeFailoverRequest demoFailover)"


text \<open>C1: No false failure. Whatever the capabilities answer, when a failover or switchover execution
  reports FAILED then every write it issued has a known fate: each REST write got an HTTP status
  or was never sent, and a DCS write either lost its compare-and-swap or was never sent. An
  execution with an ambiguous write is never reported as failed.\<close>

theorem transition_no_false_failure:
  "valid [] (executeTransition svc ctx intent requestError p)
     (\<lambda>r es. rOutcome r = Failed \<longrightarrow> list_all definite es)"
  by (rule execute_definite)

theorem transition_no_false_failure_witness:
  "\<exists>r es. demoRun (executeTransition (demoService demoSteady (restStatus 503) casApplied) demoCtx demoIntent None demoPlan) = (r, es)
     \<and> rOutcome r = Failed \<and> list_ex is_write es \<and> list_all definite es"
proof -
  let ?x = "demoRun (executeTransition (demoService demoSteady (restStatus 503) casApplied) demoCtx demoIntent None demoPlan)"
  have "rOutcome (fst ?x) = Failed \<and> list_ex is_write (snd ?x)" by code_simp
  with valid_demoRun [OF transition_no_false_failure] show ?thesis by (metis prod.collapse)
qed

text \<open>C2: Success is backed by evidence. A SUCCEEDED execution passed every guard on its first
  snapshot, and its last event is either Patroni's answer 200 or 202 (for a scheduled switchover
  202 alone does not count) or a snapshot that shows the transition completed.\<close>

theorem transition_success_backed:
  "valid [] (executeTransition svc ctx intent requestError p)
     (\<lambda>r es. rOutcome r = Succeeded \<longrightarrow>
        (\<exists>sn sel rest. es = EvSnapshot (tiTarget intent) (Inr sn) # EvCtx None # rest
           \<and> transition_guard svc intent p sn sel \<and> succeeded_by intent (tsLeader sel) es))"
  by (rule execute_succeeded)

theorem transition_success_backed_witness:
  "\<exists>r es sn sel rest. demoRun (executeTransition (demoService demoMoving restFailed casApplied) demoCtx demoIntent None demoPlan) = (r, es)
     \<and> rOutcome r = Succeeded \<and> rPath r = PathRESTToDCS
     \<and> es = EvSnapshot (tiTarget demoIntent) (Inr sn) # EvCtx None # rest
     \<and> transition_guard (demoService demoMoving restFailed casApplied) demoIntent demoPlan sn sel
     \<and> succeeded_by demoIntent (tsLeader sel) es"
proof -
  let ?x = "demoRun (executeTransition (demoService demoMoving restFailed casApplied) demoCtx demoIntent None demoPlan)"
  have o: "rOutcome (fst ?x) = Succeeded \<and> rPath (fst ?x) = PathRESTToDCS" by code_simp
  obtain r es where x: "?x = (r, es)" by (cases ?x)
  with o valid_demoRun [OF transition_success_backed, of "demoService demoMoving restFailed casApplied"
      demoCtx demoIntent None demoPlan]
  show ?thesis by auto
qed

text \<open>C3: Writes are guarded. If an execution issues any write, then the context and the request were
  valid, the plan matched the request, and the first events are a snapshot of the target that
  passes the version gate, resolves to a selection and agrees with every confirmed precondition of
  the plan, followed by a look at the context that found it not canceled.\<close>

theorem transition_writes_guarded:
  "valid [] (executeTransition svc ctx intent requestError p)
     (\<lambda>r es. list_ex is_write es \<longrightarrow>
        ctx \<noteq> None \<and> requestError = None
        \<and> (\<exists>sn sel rest. es = EvSnapshot (tiTarget intent) (Inr sn) # EvCtx None # rest
             \<and> transition_guard svc intent p sn sel))"
  by (rule execute_guarded)

theorem transition_writes_guarded_witness:
  "\<exists>sn sel. transition_guard (demoService demoSteady (restStatus 200) casApplied) demoIntent demoPlan sn sel"
proof -
  let ?svc = "demoService demoSteady (restStatus 200) casApplied"
  let ?x = "demoRun (executeTransition ?svc demoCtx demoIntent None demoPlan)"
  have "list_ex is_write (snd ?x)" by code_simp
  with valid_demoRun [OF transition_writes_guarded [of ?svc demoCtx demoIntent None demoPlan]]
  show ?thesis by blast
qed

text \<open>The DCS fallback is a disciplined compare-and-swap. An execution either never writes the
  failover key, or does so exactly once: right after a fresh snapshot that shows neither completion
  nor a changed leader or candidate and a look at the context that found it live, with the payload
  of the plan and the revision of the failover key in that snapshot, and with nothing but snapshot
  reads and waits afterwards.\<close>

lemma transition_fallback_cas:
  "valid [] (executeTransition svc ctx intent requestError p)
     (\<lambda>r es. no_failover es \<or> (\<exists>sn sel. hd es = EvSnapshot (tiTarget intent) (Inr sn)
        \<and> transition_guard svc intent p sn sel \<and> fallback_ok intent sel es))"
  by (rule execute_cas)

text \<open>C4: The DCS fallback is a disciplined compare-and-swap, and cancellation stops writing. An execution either never writes the
  failover key, or does so exactly once: right after a fresh snapshot that shows neither completion nor a changed leader or
  candidate and a look at the context that found it live, with the payload of the plan and the revision of the failover key in
  that snapshot, and with nothing but snapshot reads and waits afterwards. Once an execution has seen the context canceled, no
  write follows.\<close>

theorem transition_writes_disciplined:
  "valid [] (executeTransition svc ctx intent requestError p)
     (\<lambda>r es. no_failover es \<or> (\<exists>sn sel. hd es = EvSnapshot (tiTarget intent) (Inr sn)
        \<and> transition_guard svc intent p sn sel \<and> fallback_ok intent sel es))
   \<and> valid [] (executeTransition svc ctx intent requestError p) (\<lambda>r es. cancel_safe es)"
  by (intro conjI transition_fallback_cas execute_cancel)

text \<open>Executions are bounded: at most two REST writes and one DCS write, and at most
  \<open>9 + 2 * verificationAttempts\<close> external steps in all, whatever the answers are.\<close>

lemma transition_bounded:
  "valid [] (executeTransition svc ctx intent requestError p)
     (\<lambda>r es. length es \<le> 9 + 2 * nat (svcVerificationAttempts svc) \<and> length (filter is_write es) \<le> 3)"
  by (rule execute_bound)

lemma normalize_ready:
  "clock_ok svc \<Longrightarrow> target_ok (Normalize (foTarget rq)) \<Longrightarrow> normalizeFailoverRequest rq = (intent, err)
   \<Longrightarrow> transition_ready svc intent"
  "clock_ok svc \<Longrightarrow> target_ok (Normalize (swTarget sq)) \<Longrightarrow> normalizeSwitchoverRequest sq = (intent, err)
   \<Longrightarrow> transition_ready svc intent"
  by (auto simp: normalizeFailoverRequest_def normalizeSwitchoverRequest_def transition_ready_def Let_def)

text \<open>Every result is well formed. With a clock that shows no zero time and a request whose
  normalised target is valid, the result of preparing and of executing a failover or a switchover
  passes \<open>Result.Validate\<close>: it has an operation ID, authoritative evidence, and an error exactly
  when it did not succeed, in category UNKNOWN exactly when the outcome is unknown.\<close>

lemma transition_results_valid:
  assumes "clock_ok svc" and "target_ok (Normalize (foTarget rq))" and "target_ok (Normalize (swTarget sq))"
  shows "valid [] (PrepareFailover svc ctx rq) (\<lambda>r es. result_Validate r = None)
    \<and> valid [] (ExecuteFailover svc ctx rq p) (\<lambda>r es. result_Validate r = None)
    \<and> valid [] (PrepareSwitchover svc ctx sq) (\<lambda>r es. result_Validate r = None)
    \<and> valid [] (ExecuteSwitchover svc ctx sq p) (\<lambda>r es. result_Validate r = None)"
  unfolding PrepareFailover_def ExecuteFailover_def PrepareSwitchover_def ExecuteSwitchover_def
  using normalize_ready(1) [OF assms(1,2)] normalize_ready(2) [OF assms(1,3)]
  by (intro conjI valid_prod prepare_wellformed execute_wellformed) auto

definition demoSwitchover :: switchover_request where
  "demoSwitchover = \<lparr>swTarget = demoTarget, swLeader = ''pg-1'', swCandidate = ''pg-2'',
     swScheduledAt = None, swForce = False, swCitus = False\<rparr>"

text \<open>C5: Plans round trip. When preparing a failover or switchover succeeds, it read exactly one
  snapshot and wrote nothing; the plan it returns passes the execution's plan check for the same
  request, and passes revalidation against a later selection exactly when leader, candidate
  options, synchronous eligibility, pause state and the revision of the failover key are unchanged.\<close>

theorem transition_plan_roundtrip:
  assumes "Normalize (tiTarget intent) = tiTarget intent"
  shows "valid [] (prepareTransition svc ctx intent requestError)
    (\<lambda>r es. rOutcome r = Succeeded \<longrightarrow>
       validateTransitionPlan (rData r) intent = None
       \<and> (\<exists>sn sel. es = [EvSnapshot (tiTarget intent) (Inr sn)] \<and> resolveTransition sn intent = Inr sel
            \<and> (\<forall>sel'. revalidateTransitionPlan (rData r) sel' = None \<longleftrightarrow>
                 tsLeader sel' = tsLeader sel
                 \<and> Join '','' (tsCandidateNames sel') = Join '','' (tsCandidateNames sel)
                 \<and> tsSyncEligible sel' = tsSyncEligible sel \<and> tsPaused sel' = tsPaused sel
                 \<and> tsFailoverVersion sel' = tsFailoverVersion sel)))"
  by (rule valid_mono [OF prepare_trace]) (use prepared_plan_valid [OF _ assms] in blast)

theorem transition_plan_roundtrip_witness:
  "validateTransitionPlan demoPlan demoIntent = None \<and> pOperationID demoPlan = ''op-1''"
proof -
  let ?m = "prepareTransition (demoService demoSteady restFailed casApplied) demoCtx demoIntent None"
  have n: "Normalize (tiTarget demoIntent) = tiTarget demoIntent" by code_simp
  have o: "rOutcome (fst (demoRun ?m)) = Succeeded" by code_simp
  have "normalizeFailoverRequest demoFailover = (demoIntent, None)" by code_simp
  then have p: "demoPlan = rData (fst (demoRun ?m))" by (simp add: demoPlan_def PrepareFailover_def)
  have "pOperationID demoPlan = ''op-1''" by code_simp
  with valid_demoRun [OF transition_plan_roundtrip [OF n, of "demoService demoSteady restFailed casApplied" demoCtx None]] o p
  show ?thesis by simp
qed

end
