(* ===== verification/Batch.thy ===== *)
theory Batch
  imports Write_Types
begin

text \<open>
  What the member-wise operations share: reading the snapshots of one cluster or of all groups of a
  Citus scope (\<open>citus.go\<close>, \<open>dcs/path.go\<close>), selecting members (\<open>reload.go\<close>), resolving planned
  members again before writing, the member results of writes that were not sent (\<open>restart.go\<close>), and
  the outcome of a batch (\<open>reload.go\<close>).
\<close>

section \<open>DCS paths\<close>

definition NamespacePrefix :: "string \<Rightarrow> string" where
  "NamespacePrefix ns = ''/'' @ Trim (NormalizeNamespace ns) ''/'' @ ''/''"

definition ClusterPrefix :: "target \<Rightarrow> goerror + string" where
  "ClusterPrefix t0 =
     (let t = Normalize t0
      in case Validate t True of
           Some e \<Rightarrow> Inl (Errorf ''dcs cluster path: %w'' [] [errorsNew e])
         | None \<Rightarrow> Inr (Join ''/'' ([[], Trim (tNamespace t) ''/'', tScope t]
                     @ (case tGroup t of None \<Rightarrow> [] | Some g \<Rightarrow> [FormatInt g]))))"

definition KeyPath :: "target \<Rightarrow> string \<Rightarrow> goerror + string" where
  "KeyPath t relative0 =
     (case ClusterPrefix t of
        Inl e \<Rightarrow> Inl e
      | Inr pfx \<Rightarrow>
          (let relative = Trim relative0 ''/''
           in if relative = [] then Inr (pfx @ ''/'') else Inr (pfx @ ''/'' @ relative)))"


section \<open>Reading snapshots\<close>

record discovery_failure =
  dfCategory :: category
  dfRetryable :: bool
  dfMessage :: string
  dfCause :: "goerror option"

text \<open>The evidence, and a failure or the snapshots.\<close>

type_synonym read_outcome = "evidence list \<times> (discovery_failure + snapshot list)"

definition readFailure :: "string \<Rightarrow> goerror \<Rightarrow> discovery_failure" where
  "readFailure message err =
     (case classifyReadError (Some err) of (cat, retryable) \<Rightarrow>
        \<lparr>dfCategory = cat, dfRetryable = retryable, dfMessage = message, dfCause = Some err\<rparr>)"

definition plainFailure :: "category \<Rightarrow> string \<Rightarrow> goerror option \<Rightarrow> discovery_failure" where
  "plainFailure cat message cause =
     \<lparr>dfCategory = cat, dfRetryable = False, dfMessage = message, dfCause = cause\<rparr>"

definition Discover ::
  "(string \<Rightarrow> string \<Rightarrow> 'w \<Rightarrow> (goerror + discovered_cluster list) \<times> 'w) \<Rightarrow> string \<Rightarrow> string
   \<Rightarrow> ('w, goerror + discovered_cluster list) prog" where
  "Discover cap context namespace = perform (EvDiscover context namespace) (cap context namespace)"

lemma valid_Discover [wp]: "(\<And>a. Q a (es @ [EvDiscover c n a])) \<Longrightarrow> valid es (Discover cap c n) Q"
  by (simp add: Discover_def valid_perform)

definition discoveryTarget :: "string \<Rightarrow> string \<Rightarrow> target" where
  "discoveryTarget context namespace =
     Normalize \<lparr>tContext = context, tNamespace = namespace, tScope = [], tGroup = None, tMember = []\<rparr>"

definition discoveryEvidence :: "'w service \<Rightarrow> target \<Rightarrow> discovered_cluster list \<Rightarrow> ('w, evidence) prog" where
  "discoveryEvidence svc t clusters =
     (let revision = foldl (\<lambda>r c. if dcRevision c > r then dcRevision c else r) 0 clusters
      in observe svc EvidenceDCS
           (''bounded namespace discovery returned '' @ FormatInt (int (length clusters)) @ '' cluster(s)'')
           (if revision > 0 then FormatInt revision else []) (NamespacePrefix (tNamespace t)) SendEmpty)"

text \<open>The order of \<open>targetLess\<close>: scope, then group, where no group counts as -1.\<close>

definition targetKey :: "target \<Rightarrow> string \<times> int" where
  "targetKey t0 = (let t = Normalize t0 in (tScope t, case tGroup t of None \<Rightarrow> -1 | Some g \<Rightarrow> g))"

definition targetLess :: "target \<Rightarrow> target \<Rightarrow> bool" where
  "targetLess l r = (targetKey l < targetKey r)"

definition versionFailure :: "'w service \<Rightarrow> string \<Rightarrow> goerror \<Rightarrow> discovery_failure" where
  "versionFailure svc operation err =
     plainFailure CategoryUnsupported (operation @ '' requires Patroni '' @ supportedPatroniRangeText svc) (Some err)"

text \<open>The loop over the discovered items of the scope.\<close>

definition citusItemSnapshot ::
  "'w service \<Rightarrow> target \<Rightarrow> discovered_cluster \<Rightarrow> evidence list
   \<Rightarrow> ('w, evidence list \<times> (discovery_failure + snapshot)) prog" where
  "citusItemSnapshot svc itemTarget item evs =
     (case dcSnapshot item of
        Some sn \<Rightarrow>
          State_Monad.return (evs,
            if ClusterID (Normalize (snTarget sn)) \<noteq> ClusterID itemTarget
            then Inl (plainFailure CategoryFailed ''DCS discoverer returned a mismatched Citus group snapshot''
                   (Some (Errorf ''snapshot target %s does not match discovered target %s''
                      [AStr (ClusterID (Normalize (snTarget sn))), AStr (ClusterID itemTarget)] [])))
            else Inr sn)
      | None \<Rightarrow> do {
          r \<leftarrow> Snapshot svc itemTarget;
          (case r of
             Inl err \<Rightarrow> State_Monad.return (evs, Inl (readFailure ''Citus group snapshot failed'' err))
           | Inr sn \<Rightarrow> do {
               e \<leftarrow> snapshotEvidence svc sn ''legacy discoverer Citus group snapshot read'';
               State_Monad.return (evs @ [e], Inr sn)
             })
        })"

fun citusLoop ::
  "'w service \<Rightarrow> string \<Rightarrow> target \<Rightarrow> bool \<Rightarrow> (snapshot \<Rightarrow> bool \<Rightarrow> goerror option)
   \<Rightarrow> discovered_cluster list \<Rightarrow> evidence list \<Rightarrow> snapshot list \<Rightarrow> ('w, read_outcome) prog" where
  "citusLoop svc operation t allow check [] evs sns =
     State_Monad.return (evs,
       if sns = [] then Inl (plainFailure CategoryNotFound ''Citus scope has no discovered groups'' None)
       else Inr sns)"
| "citusLoop svc operation t allow check (item # items) evs sns =
     (let it = Normalize (dcTarget item) in
      if tContext it \<noteq> tContext t \<or> tNamespace it \<noteq> tNamespace t \<or> tScope it \<noteq> tScope t \<or> tGroup it = None
      then citusLoop svc operation t allow check items evs sns
      else if Validate it True \<noteq> None \<or> tMember it \<noteq> [] then
        State_Monad.return (evs, Inl (plainFailure CategoryFailed
          ''DCS discoverer returned an invalid Citus group target''
          (Some (case Validate it True of Some e \<Rightarrow> errorsNew e
                 | None \<Rightarrow> errorsNew ''discovered Citus target contains a member selector''))))
      else do {
        (evs, r) \<leftarrow> citusItemSnapshot svc it item evs;
        (case r of
           Inl failure \<Rightarrow> State_Monad.return (evs, Inl failure)
         | Inr sn \<Rightarrow>
             (case check sn allow of
                Some err \<Rightarrow> do {
                  e \<leftarrow> snapshotEvidence svc sn (''Patroni compatibility range checked during '' @ operation);
                  State_Monad.return (evs @ [e], Inl (versionFailure svc operation err))
                }
              | None \<Rightarrow> citusLoop svc operation t allow check items evs (sns @ [sn])))
      })"

definition readOneSnapshot ::
  "'w service \<Rightarrow> string \<Rightarrow> target \<Rightarrow> bool \<Rightarrow> (snapshot \<Rightarrow> bool \<Rightarrow> goerror option) \<Rightarrow> string \<Rightarrow> string
   \<Rightarrow> ('w, read_outcome) prog" where
  "readOneSnapshot svc operation t allow check failed done = do {
     r \<leftarrow> Snapshot svc t;
     (case r of
        Inl err \<Rightarrow> State_Monad.return ([], Inl (readFailure failed err))
      | Inr sn \<Rightarrow>
          (case check sn allow of
             Some err \<Rightarrow> do {
               e \<leftarrow> snapshotEvidence svc sn (''Patroni compatibility range checked during '' @ operation);
               State_Monad.return ([e], Inl (versionFailure svc operation err))
             }
           | None \<Rightarrow> do {
               e \<leftarrow> snapshotEvidence svc sn done;
               State_Monad.return ([e], Inr [sn])
             }))
   }"

definition citusGroupSnapshotsWithVersionCheck ::
  "'w service \<Rightarrow> string \<Rightarrow> target \<Rightarrow> bool \<Rightarrow> (snapshot \<Rightarrow> bool \<Rightarrow> goerror option) \<Rightarrow> ('w, read_outcome) prog" where
  "citusGroupSnapshotsWithVersionCheck svc operation t0 allow check =
     (let t = Normalize t0 in
      if tGroup t \<noteq> None then
        readOneSnapshot svc operation t allow check ''cluster snapshot failed'' ''cluster snapshot read''
      else (case svcDiscovery svc of
         None \<Rightarrow> State_Monad.return ([], Inl (plainFailure CategoryConfig
                   (operation @ '' across Citus groups requires a DCS discoverer'') None))
       | Some cap \<Rightarrow> do {
           r \<leftarrow> Discover cap (tContext t) (tNamespace t);
           (case r of
              Inl err \<Rightarrow> State_Monad.return ([], Inl (readFailure ''Citus group discovery failed'' err))
            | Inr items0 \<Rightarrow>
                (let items = sort_key (\<lambda>i. targetKey (dcTarget i)) items0 in do {
                   e \<leftarrow> discoveryEvidence svc (discoveryTarget (tContext t) (tNamespace t)) items;
                   citusLoop svc operation t allow check items [e] []
                 }))
         }))"

definition operationSnapshotsWithVersionCheck ::
  "'w service \<Rightarrow> string \<Rightarrow> target \<Rightarrow> bool \<Rightarrow> bool \<Rightarrow> (snapshot \<Rightarrow> bool \<Rightarrow> goerror option) \<Rightarrow> ('w, read_outcome) prog" where
  "operationSnapshotsWithVersionCheck svc operation t citus allow check =
     (if citus then citusGroupSnapshotsWithVersionCheck svc operation t allow check
      else readOneSnapshot svc operation t allow check (operation @ '' cluster snapshot failed'')
             (operation @ '' cluster snapshot read''))"

definition operationSnapshots ::
  "'w service \<Rightarrow> string \<Rightarrow> target \<Rightarrow> bool \<Rightarrow> bool \<Rightarrow> ('w, read_outcome) prog" where
  "operationSnapshots svc operation t citus allow =
     operationSnapshotsWithVersionCheck svc operation t citus allow (checkSnapshotPatroniVersion svc)"

definition versionSnapshots ::
  "'w service \<Rightarrow> string \<Rightarrow> target \<Rightarrow> bool \<Rightarrow> bool \<Rightarrow> ('w, read_outcome) prog" where
  "versionSnapshots svc operation t citus allow =
     operationSnapshotsWithVersionCheck svc operation t citus allow (checkSnapshotKnownPatroniVersion svc)"

definition citusCoordinatorSnapshot ::
  "'w service \<Rightarrow> string \<Rightarrow> target \<Rightarrow> bool \<Rightarrow> ('w, read_outcome) prog" where
  "citusCoordinatorSnapshot svc operation t0 allow =
     (let t = Normalize t0;
          coordinator = (\<lambda>sn. tGroup (snTarget sn) = Some 0) in
      if tGroup t \<noteq> None then operationSnapshots svc operation t True allow
      else do {
        (evs, r) \<leftarrow> citusGroupSnapshotsWithVersionCheck svc operation t allow
          (\<lambda>sn a. if coordinator sn then checkSnapshotPatroniVersion svc sn a else None);
        State_Monad.return (evs,
          case r of
            Inl failure \<Rightarrow> Inl failure
          | Inr sns \<Rightarrow>
              (case find coordinator sns of
                 Some sn \<Rightarrow> Inr [sn]
               | None \<Rightarrow> Inl (plainFailure CategoryNotFound ''Citus scope has no coordinator group 0'' None)))
      })"

definition snapshotGroupIDs :: "snapshot list \<Rightarrow> string" where
  "snapshotGroupIDs sns =
     Join '','' (concat (map (\<lambda>sn. case tGroup (snTarget sn) of None \<Rightarrow> [] | Some g \<Rightarrow> [FormatInt g]) sns))"

text \<open>The comparison of a plan with the preconditions of the request; only the presence of
  \<open>citus.groups\<close> counts.\<close>

definition preconditionMismatch :: "plan \<Rightarrow> precondition list \<Rightarrow> goerror option" where
  "preconditionMismatch p expected =
     map_option (\<lambda>c. Errorf ''plan %s differs from request'' [AStr (pcField c)] [])
       (find (\<lambda>c. expectedPrecondition p (pcField c) = None
                  \<or> pcField c \<noteq> ''citus.groups'' \<and> expectedPrecondition p (pcField c) \<noteq> Some (pcExpected c)) expected)"

definition plannedGroups :: "plan \<Rightarrow> string" where
  "plannedGroups p = (case expectedPrecondition p ''citus.groups'' of None \<Rightarrow> [] | Some g \<Rightarrow> g)"


section \<open>Selecting members\<close>

definition normalizedWriteRole :: "role \<Rightarrow> role" where
  "normalizedWriteRole r = (if r = RoleEmpty then RoleAny else r)"

definition clusterLeader :: "cluster_state \<Rightarrow> string" where
  "clusterLeader cl = (case cLeader cl of None \<Rightarrow> [] | Some l \<Rightarrow> lName l)"

definition memberMatchesRole :: "cluster_state \<Rightarrow> dcs_member \<Rightarrow> role \<Rightarrow> bool" where
  "memberMatchesRole cl m r =
     (let isLeader = (mName m = clusterLeader cl);
          wireRole = ReplaceAllChar (ToLower (mdRole (mData m))) (CHR ''-'') (CHR ''_'')
      in case r of
           RoleAny \<Rightarrow> True
         | RoleLeader \<Rightarrow> isLeader
         | RolePrimary \<Rightarrow> isLeader \<and> wireRole \<noteq> ''standby_leader''
         | RoleStandbyLeader \<Rightarrow> isLeader \<and> wireRole \<noteq> ''primary'' \<and> wireRole \<noteq> ''master''
         | RoleReplica \<Rightarrow> \<not> isLeader
         | RoleStandby \<Rightarrow> \<not> isLeader
         | _ \<Rightarrow> False)"

definition stringSet :: "string list \<Rightarrow> string set" where
  "stringSet values = set (filter (\<lambda>v. v \<noteq> []) (map TrimSpace values))"

definition selectMembers :: "cluster_state \<Rightarrow> role \<Rightarrow> string list \<Rightarrow> bool \<Rightarrow> dcs_member list" where
  "selectMembers cl r requested selectAllWhenEmpty =
     sort_key mName (filter (\<lambda>m. memberMatchesRole cl m r
        \<and> (if stringSet requested \<noteq> {} then mName m \<in> stringSet requested else selectAllWhenEmpty)) (cMembers cl))"

definition selectMember :: "cluster_state \<Rightarrow> role \<Rightarrow> string \<Rightarrow> dcs_member option" where
  "selectMember cl r0 memberName =
     (if memberName \<noteq> [] then find (\<lambda>m. mName m = memberName) (cMembers cl)
      else find (\<lambda>m. memberMatchesRole cl m (if r0 = RoleEmpty then RoleLeader else r0)) (cMembers cl))"

definition selectMemberAcrossSnapshots ::
  "snapshot list \<Rightarrow> role \<Rightarrow> string \<Rightarrow> (snapshot \<times> dcs_member) option" where
  "selectMemberAcrossSnapshots sns r memberName =
     first_some (\<lambda>sn. map_option (Pair sn) (selectMember (snCluster sn) r memberName)) sns"

text \<open>The common normalisation of a request with a target, member names and a check of its own.\<close>

definition normalizeMemberRequest :: "target \<Rightarrow> string list \<Rightarrow> target \<times> string list \<times> goerror option" where
  "normalizeMemberRequest t0 names =
     (let t = Normalize t0; members = normalizeMemberNames names in
      if tMember t \<noteq> [] then
        (if members \<noteq> [] \<and> (length members \<noteq> 1 \<or> hd members \<noteq> tMember t)
         then (t, members, Some (errorsNew ''target member and member list conflict''))
         else (t\<lparr>tMember := []\<rparr>, [tMember t],
               map_option errorsNew (Validate (t\<lparr>tMember := []\<rparr>) True)))
      else (t, members, map_option errorsNew (Validate t True)))"


section \<open>Member results\<close>

definition acceptedWrite :: "target \<Rightarrow> send_state \<Rightarrow> int \<Rightarrow> evidence \<Rightarrow> member_write_result" where
  "acceptedWrite t send status e =
     \<lparr>mwTarget = t, mwOutcome = Succeeded, mwSendState = send, mwVerification = VerifiedSucceeded,
      mwHTTPStatus = status, mwSummary = evSummary e, mwEvidence = [e], mwError = None\<rparr>"

definition failedWrite ::
  "string \<Rightarrow> target \<Rightarrow> send_state \<Rightarrow> int \<Rightarrow> category \<Rightarrow> bool \<Rightarrow> string \<Rightarrow> goerror option \<Rightarrow> evidence
   \<Rightarrow> member_write_result" where
  "failedWrite operation t send status cat retryable message cause e =
     \<lparr>mwTarget = t, mwOutcome = Failed, mwSendState = send, mwVerification = VerifiedFailed,
      mwHTTPStatus = status, mwSummary = message, mwEvidence = [e],
      mwError = Some (NewError cat operation t retryable message cause [e])\<rparr>"

definition unknownWrite ::
  "string \<Rightarrow> target \<Rightarrow> send_state \<Rightarrow> string \<Rightarrow> goerror option \<Rightarrow> evidence \<Rightarrow> member_write_result" where
  "unknownWrite operation t send message cause e =
     \<lparr>mwTarget = t, mwOutcome = Unknown, mwSendState = send, mwVerification = Unverified,
      mwHTTPStatus = 0, mwSummary = message, mwEvidence = [e],
      mwError = Some (NewError CategoryUnknown operation t False message cause [e])\<rparr>"

definition skippedWriteAfterCancellation ::
  "'w service \<Rightarrow> string \<Rightarrow> target \<Rightarrow> goerror option \<Rightarrow> ('w, member_write_result) prog" where
  "skippedWriteAfterCancellation svc operation t cause = do {
     e \<leftarrow> observe svc EvidenceControl (operation @ '' skipped after cancellation'') [] (''/'' @ operation) SendNotSent;
     State_Monad.return (failedWrite operation t SendNotSent 0 CategoryFailed False
       (operation @ '' was not sent because the operation was canceled'') cause e)
   }"

definition invalidRESTAddressWrite ::
  "'w service \<Rightarrow> string \<Rightarrow> target \<Rightarrow> snapshot \<Rightarrow> goerror option \<Rightarrow> ('w, member_write_result) prog" where
  "invalidRESTAddressWrite svc operation t sn cause = do {
     e \<leftarrow> observe svc EvidenceDCS ''member has no usable Patroni REST address'' (FormatInt (snRevision sn))
            (snPrefix sn) SendNotSent;
     State_Monad.return (failedWrite operation t SendNotSent 0 CategoryConfig False
       (operation @ '' was not sent because the member REST address is invalid'') cause e)
   }"

text \<open>
  What flush and pause make of Patroni's answer: accepted, rejected with a status, perhaps sent, not sent.
  The words are those of the operation.
\<close>

record answer_words =
  awPath :: string
  awAccepted :: string
  awRejected :: string
  awSilent :: string
  awUnknown :: string
  awNotSent :: string

definition classifyAnswer ::
  "'w service \<Rightarrow> string \<Rightarrow> answer_words \<Rightarrow> (int \<Rightarrow> bool) \<Rightarrow> target \<Rightarrow> rest_response \<Rightarrow> goerror option
   \<Rightarrow> ('w, member_write_result) prog" where
  "classifyAnswer svc operation words accepts t response callError =
     (let status = respStatus response; send = patroniSendState callError status in
      if accepts status then do {
        e \<leftarrow> observe svc EvidencePatroni (awAccepted words) [] (awPath words) send;
        State_Monad.return (acceptedWrite t send status e)
      }
      else if status \<noteq> 0 then do {
        e \<leftarrow> observe svc EvidencePatroni (awRejected words) [] (awPath words) send;
        (case classifyHTTPStatus status of (cat, retryable) \<Rightarrow>
          State_Monad.return (failedWrite operation t send status cat retryable (awRejected words) callError e))
      }
      else do {
        e \<leftarrow> observe svc EvidencePatroni (awSilent words) [] (awPath words) send;
        (if send = SendMaybeSent \<or> send = SendAccepted then
           State_Monad.return (unknownWrite operation t send (awUnknown words) callError e)
         else (case classifyReadError callError of (cat, retryable) \<Rightarrow>
           State_Monad.return (failedWrite operation t SendNotSent 0 cat retryable (awNotSent words) callError e)))
      })"

definition memberNotSent ::
  "'w service \<Rightarrow> string \<Rightarrow> target \<Rightarrow> category \<Rightarrow> bool \<Rightarrow> string \<Rightarrow> goerror option \<Rightarrow> ('w, member_write_result) prog" where
  "memberNotSent svc operation t cat retryable message cause = do {
     e \<leftarrow> observe svc EvidenceControl message [] (path_string PathREST) SendNotSent;
     State_Monad.return (failedWrite operation t SendNotSent 0 cat retryable message cause e)
   }"

text \<open>A Go loop over a slice that appends one result per element.\<close>

fun forEach :: "('a \<Rightarrow> ('w, 'b) prog) \<Rightarrow> 'a list \<Rightarrow> ('w, 'b list) prog" where
  "forEach f [] = State_Monad.return []"
| "forEach f (x # xs) = do {
     y \<leftarrow> f x;
     ys \<leftarrow> forEach f xs;
     State_Monad.return (y # ys)
   }"

record resolved_member =
  rmTarget :: target
  rmMember :: dcs_member
  rmSnapshot :: snapshot

definition resolvePlannedMember ::
  "'w service \<Rightarrow> string \<Rightarrow> snapshot list \<Rightarrow> role \<Rightarrow> target \<Rightarrow> ('w, member_write_result + resolved_member) prog" where
  "resolvePlannedMember svc operation sns r raw =
     (let t = Normalize raw;
          cluster = find (\<lambda>sn. ClusterID (Normalize (snTarget sn)) = ClusterID t) (rev sns);
          found = (case cluster of
                     None \<Rightarrow> None
                   | Some sn \<Rightarrow>
                       (case find (\<lambda>m. mName m = tMember t) (cMembers (snCluster sn)) of
                          None \<Rightarrow> None
                        | Some m \<Rightarrow> if memberMatchesRole (snCluster sn) m r then Some (sn, m) else None))
      in case found of
           Some (sn, m) \<Rightarrow> State_Monad.return (Inr \<lparr>rmTarget = t, rmMember = m, rmSnapshot = sn\<rparr>)
         | None \<Rightarrow> do {
             e \<leftarrow> observe svc EvidenceDCS
               ''confirmed member or Citus group is absent or no longer matches its role''
               (case cluster of None \<Rightarrow> [] | Some sn \<Rightarrow> FormatInt (snRevision sn))
               (case cluster of None \<Rightarrow> path_string PathDCS | Some sn \<Rightarrow> snPrefix sn) SendNotSent;
             State_Monad.return (Inl (failedWrite operation t SendNotSent 0 CategoryConflict False
               (operation @ '' was not sent because cluster membership changed'') None e))
           })"

definition lefts :: "('a + 'b) list \<Rightarrow> 'a list" where
  "lefts xs = concat (map (\<lambda>x. case x of Inl a \<Rightarrow> [a] | Inr _ \<Rightarrow> []) xs)"

definition rights :: "('a + 'b) list \<Rightarrow> 'b list" where
  "rights xs = concat (map (\<lambda>x. case x of Inl _ \<Rightarrow> [] | Inr b \<Rightarrow> [b]) xs)"

definition resolvePlannedMembersAcrossSnapshots ::
  "'w service \<Rightarrow> string \<Rightarrow> snapshot list \<Rightarrow> target list \<Rightarrow> role
   \<Rightarrow> ('w, resolved_member list \<times> member_write_result list) prog" where
  "resolvePlannedMembersAcrossSnapshots svc operation sns targets r = do {
     xs \<leftarrow> forEach (resolvePlannedMember svc operation sns r) targets;
     State_Monad.return (rights xs, lefts xs)
   }"

definition abortBatchForTargetChange ::
  "'w service \<Rightarrow> string \<Rightarrow> target list \<Rightarrow> member_write_result list \<Rightarrow> ('w, batch_write_data) prog" where
  "abortBatchForTargetChange svc operation targets conflicts = do {
     members \<leftarrow> forEach (\<lambda>t.
       (case find (\<lambda>c. MemberID (Normalize (mwTarget c)) = MemberID (Normalize t)) (rev conflicts) of
          Some c \<Rightarrow> State_Monad.return c
        | None \<Rightarrow> do {
            e \<leftarrow> observe svc EvidenceControl (operation @ '' skipped because the confirmed target set changed'')
                   [] (path_string PathREST) SendNotSent;
            State_Monad.return (failedWrite operation t SendNotSent 0 CategoryConflict False
              (operation @ '' was not sent because the confirmed target set changed'') None e)
          })) targets;
     State_Monad.return \<lparr>bwMembers = members\<rparr>
   }"

fun batchOutcome :: "outcome \<Rightarrow> member_write_result list \<Rightarrow> outcome" where
  "batchOutcome oc [] = oc"
| "batchOutcome oc (m # ms) =
     batchOutcome (if mwOutcome m = Unknown then Unknown
                   else if mwOutcome m = Failed \<and> oc \<noteq> Unknown then Failed else oc) ms"

definition finalizeBatchWrite ::
  "string \<Rightarrow> string \<Rightarrow> target \<Rightarrow> path \<Rightarrow> batch_write_data \<Rightarrow> evidence list \<Rightarrow> batch_write_data result" where
  "finalizeBatchWrite opID operation t path data base =
     (let evs = base @ concat (map mwEvidence (bwMembers data));
          oc = batchOutcome Succeeded (bwMembers data)
      in \<lparr>rOperationID = opID, rOutcome = oc, rTarget = t, rPath = path, rData = data, rEvidence = evs,
          rError =
            (if oc = Failed then
               Some (NewError CategoryFailed operation t False (operation @ '' failed for one or more members'') None evs)
             else if oc = Unknown then
               Some (NewError CategoryUnknown operation t False
                 (operation @ '' outcome is unknown for one or more members; verify before retrying'') None evs)
             else None)\<rparr>)"

text \<open>The execution that reload, restart and reinitialize share after their checks: groups unchanged,
  every planned member resolved and kept, then one write per member.\<close>

definition finishBatch ::
  "'w service \<Rightarrow> string \<Rightarrow> string \<Rightarrow> target \<Rightarrow> plan \<Rightarrow> (resolved_member \<Rightarrow> ('w, member_write_result) prog)
   \<Rightarrow> evidence list \<Rightarrow> resolved_member list \<Rightarrow> member_write_result list \<Rightarrow> ('w, batch_write_data result) prog" where
  "finishBatch svc opID operation t p step base resolved conflicts =
     (if conflicts \<noteq> [] then do {
        data \<leftarrow> abortBatchForTargetChange svc operation (pTargets p) conflicts;
        State_Monad.return (finalizeBatchWrite opID operation t PathREST data base)
      }
      else do {
        results \<leftarrow> forEach step resolved;
        State_Monad.return (finalizeBatchWrite opID operation t PathREST \<lparr>bwMembers = results\<rparr> base)
      })"

definition executeBatch ::
  "'w service \<Rightarrow> string \<Rightarrow> string \<Rightarrow> target \<Rightarrow> plan \<Rightarrow> role
   \<Rightarrow> (resolved_member list \<times> member_write_result list \<Rightarrow> ('w, resolved_member list \<times> member_write_result list) prog)
   \<Rightarrow> (resolved_member \<Rightarrow> ('w, member_write_result) prog) \<Rightarrow> snapshot list \<Rightarrow> evidence list
   \<Rightarrow> ('w, batch_write_data result) prog" where
  "executeBatch svc opID operation t p r narrow step sns base = do {
     rc \<leftarrow> resolvePlannedMembersAcrossSnapshots svc operation sns (pTargets p) r;
     (resolved, conflicts) \<leftarrow> narrow rc;
     finishBatch svc opID operation t p step base resolved conflicts
   }"

end
