(* ===== verification/Batch_Spec.thy ===== *)
theory Batch_Spec
  imports Batch
begin

text \<open>
  Reasoning about operations that visit members one after another: the events of a loop are split
  into one segment per member; the contracts of a response classifier and of a member step are
  locales; resolving the planned members, aborting on a changed target set and aggregating the
  outcomes are characterised once for reload, restart and reinitialize.
\<close>


section \<open>Loops over members\<close>

fun segments :: "('a \<Rightarrow> 'b \<Rightarrow> event list \<Rightarrow> bool) \<Rightarrow> 'a list \<Rightarrow> 'b list \<Rightarrow> event list \<Rightarrow> bool" where
  "segments P [] [] ds = (ds = [])"
| "segments P (x # xs) (y # ys) ds = (\<exists>a b. ds = a @ b \<and> P x y a \<and> segments P xs ys b)"
| "segments P _ _ ds = False"

lemma forEach_segments:
  assumes "\<And>x. x \<in> set xs \<Longrightarrow> valid [] (f x) (P x)"
  shows "valid [] (forEach f xs) (segments P xs)"
  using assms
proof (induction xs)
  case (Cons x xs)
  have tail: "valid es (forEach f xs) (\<lambda>ys es'. \<exists>b. es' = es @ b \<and> segments P xs ys b)" for es
    by (rule valid_shift) (use Cons in simp)
  show ?case
    unfolding forEach.simps
    by (intro valid_bind valid_mono [OF Cons.prems] valid_mono [OF tail] valid_returnI) auto
qed simp

lemma valid_forEach:
  "(\<And>x. x \<in> set xs \<Longrightarrow> valid [] (f x) (P x)) \<Longrightarrow> (\<And>ys ds. segments P xs ys ds \<Longrightarrow> Q ys (es @ ds))
   \<Longrightarrow> valid es (forEach f xs) Q"
  by (erule valid_use [OF forEach_segments]) blast+

lemma segments_mono:
  "segments P xs ys ds \<Longrightarrow> (\<And>x y e. x \<in> set xs \<Longrightarrow> P x y e \<Longrightarrow> R x y e) \<Longrightarrow> segments R xs ys ds"
  by (induction P xs ys ds rule: segments.induct) (simp, simp, metis, simp_all)

lemma segments_length: "segments P xs ys ds \<Longrightarrow> length ys = length xs"
  by (induction P xs ys ds rule: segments.induct) auto

lemma segments_quiet:
  fixes ds :: "event list"
  shows "segments (\<lambda>x y d. d = [] \<and> P x y) xs ys ds \<longleftrightarrow> ds = [] \<and> list_all2 P xs ys"
  by (induction xs arbitrary: ys) (case_tac ys; auto)+

lemma segments_bound:
  "segments P xs ys ds \<Longrightarrow> (\<And>x y d. P x y d \<Longrightarrow> length (filter W d) \<le> n)
   \<Longrightarrow> length (filter W ds) \<le> n * length xs"
proof (induction P xs ys ds rule: segments.induct)
  case (2 P x xs y ys ds)
  then show ?case by (fastforce simp: add_mono)
qed auto

lemma segments_member:
  "segments P xs ys ds \<Longrightarrow> y \<in> set ys \<Longrightarrow> \<exists>x \<in> set xs. \<exists>d. P x y d"
  by (induction P xs ys ds rule: segments.induct) auto


section \<open>Well-formed member results\<close>

text \<open>What \<open>MemberWriteResult.Validate\<close> asks besides a valid member target.\<close>

definition member_sound :: "member_write_result \<Rightarrow> bool" where
  "member_sound m =
     (validOrEmpty (mwSendState m) \<and> mwSendState m \<noteq> SendEmpty \<and> verification_valid (mwVerification m)
      \<and> mwSummary m \<noteq> [] \<and> mwEvidence m \<noteq> [] \<and> evidence_all_ok (mwEvidence m)
      \<and> (case mwOutcome m of
           Succeeded \<Rightarrow> mwError m = None \<and> mwVerification m = VerifiedSucceeded
         | Failed \<Rightarrow> (\<exists>e. mwError m = Some e \<and> errCategory e \<noteq> CategoryUnknown) \<and> mwVerification m = VerifiedFailed
         | Unknown \<Rightarrow> (\<exists>e. mwError m = Some e \<and> errCategory e = CategoryUnknown)
         | OutcomeOther _ \<Rightarrow> False))"

lemma member_write_Validate_None:
  "member_write_Validate m = None \<longleftrightarrow>
     Validate (mwTarget m) True = None \<and> tMember (mwTarget m) \<noteq> [] \<and> member_sound m"
proof -
  have "evidence_all_ok (mwEvidence m) \<longleftrightarrow> first_some evidence_Validate (mwEvidence m) = None"
    by (simp add: first_some_None evidence_all_ok_def)
  then show ?thesis
    unfolding member_write_Validate_def member_sound_def by (auto split: outcome.splits option.splits)
qed

lemma errCategory_NewError [simp]: "errCategory (NewError cat op t r m c evs) = cat"
  by (simp add: NewError_def)

lemma member_sound_writes [simp]:
  "member_sound (acceptedWrite t send status e) \<longleftrightarrow>
     validOrEmpty send \<and> send \<noteq> SendEmpty \<and> evSummary e \<noteq> [] \<and> evidence_Validate e = None"
  "member_sound (failedWrite op t send status cat retry msg cause e) \<longleftrightarrow>
     validOrEmpty send \<and> send \<noteq> SendEmpty \<and> msg \<noteq> [] \<and> evidence_Validate e = None \<and> cat \<noteq> CategoryUnknown"
  "member_sound (unknownWrite op t send msg cause e) \<longleftrightarrow>
     validOrEmpty send \<and> send \<noteq> SendEmpty \<and> msg \<noteq> [] \<and> evidence_Validate e = None"
  by (auto simp: member_sound_def acceptedWrite_def failedWrite_def unknownWrite_def)

lemma write_sel [simp]:
  "mwTarget (acceptedWrite t send status e) = t" "mwOutcome (acceptedWrite t send status e) = Succeeded"
  "mwSendState (acceptedWrite t send status e) = send" "mwHTTPStatus (acceptedWrite t send status e) = status"
  "mwEvidence (acceptedWrite t send status e) = [e]"
  "mwTarget (failedWrite op t send status cat retry msg cause e) = t"
  "mwOutcome (failedWrite op t send status cat retry msg cause e) = Failed"
  "mwSendState (failedWrite op t send status cat retry msg cause e) = send"
  "mwHTTPStatus (failedWrite op t send status cat retry msg cause e) = status"
  "mwEvidence (failedWrite op t send status cat retry msg cause e) = [e]"
  "mwTarget (unknownWrite op t send msg cause e) = t" "mwOutcome (unknownWrite op t send msg cause e) = Unknown"
  "mwSendState (unknownWrite op t send msg cause e) = send" "mwHTTPStatus (unknownWrite op t send msg cause e) = 0"
  "mwEvidence (unknownWrite op t send msg cause e) = [e]"
  by (simp_all add: acceptedWrite_def failedWrite_def unknownWrite_def)

lemma patroniSendState_nonempty [simp]: "patroniSendState e st \<noteq> SendEmpty"
  using patroniSendState_range [of e st] by auto

lemma patroniSendState_status [simp]: "st \<noteq> 0 \<Longrightarrow> patroniSendState e st = SendAccepted"
  by (simp add: patroniSendState_def)

text \<open>An error of a member result is of a declared category.\<close>

definition categorized :: "member_write_result \<Rightarrow> bool" where
  "categorized m = (\<forall>e. mwError m = Some e \<longrightarrow> validCategory (errCategory e))"

lemma categorized_writes [simp]:
  "categorized (acceptedWrite t send status e)"
  "categorized (failedWrite op t send status cat retry msg cause e) \<longleftrightarrow> validCategory cat"
  "categorized (unknownWrite op t send msg cause e)"
  by (simp_all add: categorized_def acceptedWrite_def failedWrite_def unknownWrite_def)

section \<open>The contract of a response classifier\<close>

text \<open>
  Reload, restart and reinitialize each turn Patroni's answer into a member result.  The contract:
  no further call; the result is for the given target, carries the send state of the call and
  sound evidence; it is FAILED only for a write of known fate, UNKNOWN exactly when no status
  arrived for a write that may have been sent, and SUCCEEDED only for a status the operation
  accepts.
\<close>

definition classified ::
  "bool \<Rightarrow> (int \<Rightarrow> bool) \<Rightarrow> target \<Rightarrow> rest_response \<Rightarrow> goerror option \<Rightarrow> member_write_result \<Rightarrow> bool" where
  "classified clocked accepts t response err m =
     (mwTarget m = t \<and> mwSendState m = patroniSendState err (respStatus response)
      \<and> mwHTTPStatus m = respStatus response \<and> categorized m
      \<and> mwOutcome m =
          (if accepts (respStatus response) then Succeeded
           else if respStatus response = 0 \<and> patroniSendState err 0 \<noteq> SendNotSent then Unknown else Failed)
      \<and> (clocked \<longrightarrow> member_sound m))"

locale classifier =
  fixes classify :: "target \<Rightarrow> rest_response \<Rightarrow> goerror option \<Rightarrow> ('w, member_write_result) prog"
    and accepts :: "int \<Rightarrow> bool"
    and clocked :: bool
  assumes silent: "\<not> accepts 0"
    and classify: "valid [] (classify t response err) (\<lambda>m ds. ds = [] \<and> classified clocked accepts t response err m)"
begin

lemma use:
  assumes "\<And>m. classified clocked accepts t response err m \<Longrightarrow> Q m es"
  shows "valid es (classify t response err) Q"
  by (rule valid_use [OF classify]) (use assms in auto)

lemma failed_definite:
  assumes "classified clocked accepts t response err m" and "mwOutcome m = Failed"
  shows "definite (EvRest c response err)"
  using assms by (auto simp: classified_def split: if_splits)

lemma succeeded_status:
  assumes "classified clocked accepts t response err m" and "mwOutcome m = Succeeded"
  shows "accepts (respStatus response)"
  using assms by (auto simp: classified_def split: if_splits)

lemma unknown_unsure:
  assumes "classified clocked accepts t response err m"
  shows "mwOutcome m = Unknown \<longleftrightarrow> respStatus response = 0 \<and> mwSendState m \<noteq> SendNotSent"
  using assms silent by (auto simp: classified_def)

end


text \<open>The classification shared by flush and pause keeps the contract when its words are not empty.\<close>

definition answer_words_ok :: "answer_words \<Rightarrow> bool" where
  "answer_words_ok w = (\<forall>x \<in> {awAccepted w, awRejected w, awSilent w, awUnknown w, awNotSent w}. x \<noteq> [])"

lemma classifyAnswer_spec:
  assumes "answer_words_ok w" and "\<not> accepts 0"
  shows "valid [] (classifyAnswer svc operation w accepts t response err)
    (\<lambda>m ds. ds = [] \<and> classified (clock_ok svc) accepts t response err m)"
  unfolding classifyAnswer_def Let_def
  by (intro wp)
     (use assms patroniSendState_range [of err 0] in \<open>auto simp: classified_def answer_words_ok_def
        dest!: classifyHTTPStatus_category classifyReadError_category, auto simp: observed_def\<close>)

section \<open>The contract of a member step\<close>

fun rest_url :: "rest_call \<Rightarrow> string" where
  "rest_url (PostFailover u _) = u"
| "rest_url (PostSwitchover u _) = u"
| "rest_url (PostReload u) = u"
| "rest_url (PostRestart u _) = u"
| "rest_url (DeleteRestart u) = u"
| "rest_url (DeleteSwitchover u) = u"
| "rest_url (PostReinitialize u _ _) = u"
| "rest_url (PatchConfig u _) = u"
| "rest_url (GetPatroni u) = u"

text \<open>
  One member's share of a batch: the result is for that member; FAILED means that every write has a
  known fate, SUCCEEDED that the events show it (\<open>shown\<close>); the calls go to the member's own REST
  address; a write comes after a look at the context that found it live.
\<close>

definition member_trace ::
  "bool \<Rightarrow> nat \<Rightarrow> nat \<Rightarrow> (resolved_member \<Rightarrow> event list \<Rightarrow> bool)
   \<Rightarrow> resolved_member \<Rightarrow> member_write_result \<Rightarrow> event list \<Rightarrow> bool" where
  "member_trace clocked writes steps shown rm m ds =
     (mwTarget m = rmTarget rm
      \<and> (mwOutcome m = Failed \<longrightarrow> list_all definite ds)
      \<and> (mwOutcome m = Succeeded \<longrightarrow> shown rm ds)
      \<and> length ds \<le> steps \<and> length (filter is_write ds) \<le> writes
      \<and> (list_ex is_write ds \<longrightarrow> (\<exists>rest. ds = EvCtx None # rest))
      \<and> (\<forall>c r e. EvRest c r e \<in> set ds \<longrightarrow> patroniBaseURL (mdAPIURL (mData (rmMember rm))) = Inr (rest_url c))
      \<and> (clocked \<longrightarrow> member_sound m))"

lemma valid_skippedWriteAfterCancellation [wp]:
  "(\<And>m. mwTarget m = t \<Longrightarrow> mwOutcome m = Failed \<Longrightarrow> mwSendState m = SendNotSent \<Longrightarrow> mwHTTPStatus m = 0
      \<Longrightarrow> categorized m \<Longrightarrow> (clock_ok svc \<Longrightarrow> member_sound m) \<Longrightarrow> Q m es)
   \<Longrightarrow> valid es (skippedWriteAfterCancellation svc operation t cause) Q"
  unfolding skippedWriteAfterCancellation_def by (intro wp) auto

lemma valid_invalidRESTAddressWrite [wp]:
  "(\<And>m. mwTarget m = t \<Longrightarrow> mwOutcome m = Failed \<Longrightarrow> mwSendState m = SendNotSent \<Longrightarrow> mwHTTPStatus m = 0
      \<Longrightarrow> categorized m \<Longrightarrow> (clock_ok svc \<Longrightarrow> member_sound m) \<Longrightarrow> Q m es)
   \<Longrightarrow> valid es (invalidRESTAddressWrite svc operation t sn cause) Q"
  unfolding invalidRESTAddressWrite_def by (intro wp) auto

lemma valid_memberNotSent [wp]:
  "(\<And>m. mwTarget m = t \<Longrightarrow> mwOutcome m = Failed \<Longrightarrow> mwSendState m = SendNotSent \<Longrightarrow> mwHTTPStatus m = 0
      \<Longrightarrow> (validCategory cat \<Longrightarrow> categorized m) \<Longrightarrow> (clock_ok svc \<Longrightarrow> message \<noteq> [] \<Longrightarrow> cat \<noteq> CategoryUnknown \<Longrightarrow> member_sound m) \<Longrightarrow> Q m es)
   \<Longrightarrow> valid es (memberNotSent svc operation t cat retryable message cause) Q"
  unfolding memberNotSent_def by (intro wp) auto

section \<open>Resolving the planned members\<close>

text \<open>The member a planned target stands for in the new snapshots, if it is still there and still
  has the role.\<close>

definition resolution :: "snapshot list \<Rightarrow> role \<Rightarrow> target \<Rightarrow> resolved_member option" where
  "resolution sns r raw =
     (case find (\<lambda>sn. ClusterID (snTarget sn) = ClusterID raw) (rev sns) of
        None \<Rightarrow> None
      | Some sn \<Rightarrow>
          (case find (\<lambda>m. mName m = tMember (Normalize raw)) (cMembers (snCluster sn)) of
             None \<Rightarrow> None
           | Some m \<Rightarrow> if memberMatchesRole (snCluster sn) m r
                       then Some \<lparr>rmTarget = Normalize raw, rmMember = m, rmSnapshot = sn\<rparr> else None))"

text \<open>A member result that says nothing was sent.\<close>

definition refused :: "bool \<Rightarrow> member_write_result \<Rightarrow> bool" where
  "refused clocked m = (mwOutcome m = Failed \<and> mwSendState m = SendNotSent \<and> categorized m \<and> (clocked \<longrightarrow> member_sound m))"

lemma refused_failedWrite [simp]:
  "refused clocked (failedWrite op t send st cat retry msg cause e) \<longleftrightarrow> send = SendNotSent \<and> validCategory cat
     \<and> (clocked \<longrightarrow> msg \<noteq> [] \<and> evidence_Validate e = None \<and> cat \<noteq> CategoryUnknown)"
  by (auto simp: refused_def)

lemma resolvePlannedMember_spec:
  "valid [] (resolvePlannedMember svc operation sns r raw)
    (\<lambda>x ds. ds = [] \<and> (case x of
        Inr rm \<Rightarrow> resolution sns r raw = Some rm
      | Inl c \<Rightarrow> resolution sns r raw = None \<and> mwTarget c = Normalize raw \<and> refused (clock_ok svc) c))"
  unfolding resolvePlannedMember_def Let_def
  by (intro wp) (auto simp: resolution_def split: option.splits if_splits)

lemma rights_simps [simp]:
  "rights [] = []" "rights (Inl a # xs) = rights xs" "rights (Inr b # xs) = b # rights xs"
  "lefts [] = []" "lefts (Inl a # xs) = a # lefts xs" "lefts (Inr b # xs) = lefts xs"
  by (simp_all add: rights_def lefts_def)

lemma resolve_list:
  assumes "list_all2 (\<lambda>raw x. case x of Inr rm \<Rightarrow> f raw = Some rm
     | Inl c \<Rightarrow> f raw = None \<and> mwTarget c = Normalize raw \<and> refused b c) ts xs"
  shows "(lefts xs = [] \<longleftrightarrow> None \<notin> f ` set ts) \<and> (lefts xs = [] \<longrightarrow> map f ts = map Some (rights xs))
    \<and> (\<forall>rm \<in> set (rights xs). \<exists>raw \<in> set ts. f raw = Some rm)
    \<and> (\<forall>c \<in> set (lefts xs). refused b c \<and> (\<exists>raw \<in> set ts. mwTarget c = Normalize raw))"
  using assms by (induction rule: list_all2_induct) (auto split: sum.splits)

lemma resolvePlannedMembers_spec:
  "valid [] (resolvePlannedMembersAcrossSnapshots svc operation sns ts r)
    (\<lambda>(rms, conflicts) ds. ds = []
       \<and> (conflicts = [] \<longrightarrow> map (resolution sns r) ts = map Some rms)
       \<and> (conflicts \<noteq> [] \<longrightarrow> None \<in> resolution sns r ` set ts)
       \<and> (\<forall>rm \<in> set rms. \<exists>raw \<in> set ts. resolution sns r raw = Some rm)
       \<and> (\<forall>c \<in> set conflicts. refused (clock_ok svc) c \<and> (\<exists>raw \<in> set ts. mwTarget c = Normalize raw)))"
  unfolding resolvePlannedMembersAcrossSnapshots_def
  by (intro valid_bind valid_forEach [OF resolvePlannedMember_spec] valid_returnI)
     (auto simp: segments_quiet dest!: resolve_list)

lemma find_SomeD: "find P xs = Some x \<Longrightarrow> x \<in> set xs \<and> P x"
  by (induction xs) (auto split: if_splits)

lemma abortBatch_spec:
  assumes "\<forall>c \<in> set conflicts. refused (clock_ok svc) c \<and> (\<exists>raw \<in> set ts. mwTarget c = Normalize raw)"
  shows "valid [] (abortBatchForTargetChange svc operation ts conflicts)
    (\<lambda>d ds. ds = [] \<and> list_all2 (\<lambda>raw m. refused (clock_ok svc) m \<and> MemberID (mwTarget m) = MemberID raw
        \<and> (mwTarget m = raw \<or> (\<exists>raw \<in> set ts. mwTarget m = Normalize raw))) ts (bwMembers d))"
proof -
  let ?P = "\<lambda>raw m. refused (clock_ok svc) m \<and> MemberID (mwTarget m) = MemberID raw
        \<and> (mwTarget m = raw \<or> (\<exists>raw \<in> set ts. mwTarget m = Normalize raw))"
  show ?thesis
    unfolding abortBatchForTargetChange_def
    by (intro valid_bind valid_forEach [where P = "\<lambda>raw m ds. ds = [] \<and> ?P raw m"] wp)
       (use assms in \<open>auto simp: segments_quiet dest!: find_SomeD\<close>)
qed


section \<open>Reading the snapshots of an operation\<close>

fun is_read :: "event \<Rightarrow> bool" where
  "is_read (EvSnapshot _ _) = True"
| "is_read (EvDiscover _ _ _) = True"
| "is_read _ = False"

lemma is_read_no_write: "list_all is_read es \<Longrightarrow> \<not> list_ex is_write es \<and> filter is_write es = []"
  by (induction es) (auto elim!: is_read.elims)

text \<open>The snapshot was read, or came with a discovery.\<close>

definition read_in :: "event list \<Rightarrow> snapshot \<Rightarrow> bool" where
  "read_in ds sn =
     ((\<exists>t. EvSnapshot t (Inr sn) \<in> set ds)
      \<or> (\<exists>c n items item. EvDiscover c n (Inr items) \<in> set ds \<and> item \<in> set items \<and> dcSnapshot item = Some sn))"

lemma read_in_append: "read_in (xs @ ys) sn \<longleftrightarrow> read_in xs sn \<or> read_in ys sn"
  unfolding read_in_def set_append Un_iff by blast

definition read_trace ::
  "bool \<Rightarrow> (snapshot \<Rightarrow> goerror option) \<Rightarrow> read_outcome \<Rightarrow> event list \<Rightarrow> bool" where
  "read_trace clocked check out ds =
     (list_all is_read ds \<and> (clocked \<longrightarrow> evidence_all_ok (fst out))
      \<and> (case snd out of
           Inl f \<Rightarrow> validCategory (dfCategory f) \<and> dfCategory f \<noteq> CategoryUnknown \<and> dfMessage f \<noteq> []
         | Inr sns \<Rightarrow> fst out \<noteq> [] \<and> sns \<noteq> [] \<and> (\<forall>sn \<in> set sns. read_in ds sn \<and> check sn = None)))"

lemma readFailure_ok [simp]:
  "validCategory (dfCategory (readFailure msg e))" "dfCategory (readFailure msg e) \<noteq> CategoryUnknown"
  "dfMessage (readFailure msg e) = msg"
  using classifyReadError_category [of "Some e"]
  by (auto simp: readFailure_def split: prod.splits)

lemma plainFailure_ok [simp]:
  "dfCategory (plainFailure cat msg cause) = cat" "dfMessage (plainFailure cat msg cause) = msg"
  by (simp_all add: plainFailure_def)

lemma versionFailure_ok [simp]:
  "dfCategory (versionFailure svc op e) = CategoryUnsupported" "dfMessage (versionFailure svc op e) \<noteq> []"
  by (simp_all add: versionFailure_def)

lemma citusItem_spec:
  "valid [] (citusItemSnapshot svc it item evs)
    (\<lambda>(evs', r) ds. list_all is_read ds \<and> (clock_ok svc \<longrightarrow> evidence_all_ok evs \<longrightarrow> evidence_all_ok evs')
       \<and> (evs \<noteq> [] \<longrightarrow> evs' \<noteq> [])
       \<and> (case r of
            Inl f \<Rightarrow> validCategory (dfCategory f) \<and> dfCategory f \<noteq> CategoryUnknown \<and> dfMessage f \<noteq> []
          | Inr sn \<Rightarrow> dcSnapshot item = Some sn \<or> read_in ds sn))"
  unfolding citusItemSnapshot_def
  by (intro wp) (auto simp: read_in_def)

lemma citusLoop_spec:
  assumes "list_all is_read es" and "clock_ok svc \<Longrightarrow> evidence_all_ok evs" and "evs \<noteq> []"
    and "\<forall>sn \<in> set sns. read_in es sn \<and> check sn allow = None"
    and "\<forall>item \<in> set items. \<forall>sn. dcSnapshot item = Some sn \<longrightarrow> read_in es sn"
  shows "valid es (citusLoop svc operation t allow check items evs sns)
    (read_trace (clock_ok svc) (\<lambda>sn. check sn allow))"
  using assms
proof (induction items arbitrary: es evs sns)
  case Nil
  then show ?case by (auto simp: read_trace_def)
next
  case (Cons item items)
  then show ?case
    unfolding citusLoop.simps Let_def
    by (intro wp Cons.IH valid_use [OF citusItem_spec])
       (auto simp: read_trace_def read_in_append split: sum.splits)
qed

lemma readOne_spec:
  assumes "failed \<noteq> []" and "fine \<noteq> []"
  shows "valid [] (readOneSnapshot svc operation t allow check failed fine)
    (read_trace (clock_ok svc) (\<lambda>sn. check sn allow))"
  unfolding readOneSnapshot_def Let_def
  by (intro wp) (use assms in \<open>auto simp: read_trace_def read_in_def\<close>)

lemma discoveryEvidence_ok [wp]:
  "(\<And>e. (clock_ok svc \<Longrightarrow> evidence_Validate e = None) \<Longrightarrow> Q e es)
   \<Longrightarrow> valid es (discoveryEvidence svc t items) Q"
  unfolding discoveryEvidence_def Let_def by (intro wp) auto

lemma citusGroup_spec:
  "valid [] (citusGroupSnapshotsWithVersionCheck svc operation t allow check)
    (read_trace (clock_ok svc) (\<lambda>sn. check sn allow))"
  unfolding citusGroupSnapshotsWithVersionCheck_def Let_def
  by (intro wp readOne_spec citusLoop_spec) (auto simp: read_trace_def read_in_def)

lemma operationSnapshots_spec:
  "valid [] (operationSnapshots svc operation t citus allow)
    (read_trace (clock_ok svc) (\<lambda>sn. checkSnapshotPatroniVersion svc sn allow))"
  unfolding operationSnapshots_def operationSnapshotsWithVersionCheck_def
  by (intro wp readOne_spec citusGroup_spec) auto

section \<open>Aggregating the outcomes\<close>

definition aggregate :: "member_write_result list \<Rightarrow> outcome" where
  "aggregate ms =
     (if \<exists>m \<in> set ms. mwOutcome m = Unknown then Unknown
      else if \<exists>m \<in> set ms. mwOutcome m = Failed then Failed else Succeeded)"

lemma batchOutcome_start:
  "batchOutcome oc ms =
     (if \<exists>m \<in> set ms. mwOutcome m = Unknown then Unknown
      else if oc \<noteq> Unknown \<and> (\<exists>m \<in> set ms. mwOutcome m = Failed) then Failed else oc)"
  by (induction ms arbitrary: oc) auto

lemma batchOutcome_aggregate: "batchOutcome Succeeded ms = aggregate ms"
  by (simp add: batchOutcome_start aggregate_def)

lemma finalizeBatchWrite_ok:
  assumes "opID \<noteq> []" "target_ok t" "validPath path" "operation \<noteq> []"
    and "evidence_all_ok base" "base \<noteq> []" "\<forall>m \<in> set (bwMembers d). evidence_all_ok (mwEvidence m)"
  shows "result_Validate (finalizeBatchWrite opID operation t path d base) = None"
proof -
  have "evidence_all_ok (concat (map mwEvidence (bwMembers d)))"
    using assms(7) by (auto simp: evidence_all_ok_def)
  with assms(1-6) show ?thesis
    by (auto simp: finalizeBatchWrite_def Let_def result_Validate_None error_Validate_NewError
        batchOutcome_aggregate aggregate_def)
qed

section \<open>The shared execution\<close>

definition batch_run ::
  "(resolved_member \<Rightarrow> member_write_result \<Rightarrow> event list \<Rightarrow> bool) \<Rightarrow> (resolved_member \<Rightarrow> bool) \<Rightarrow> bool
   \<Rightarrow> snapshot list \<Rightarrow> role \<Rightarrow> target list \<Rightarrow> member_write_result list \<Rightarrow> event list \<Rightarrow> bool" where
  "batch_run P extra clocked sns r ts ms ds =
     (ds = [] \<and> list_all2 (\<lambda>raw m. refused clocked m \<and> MemberID (mwTarget m) = MemberID raw
        \<and> (mwTarget m = raw \<or> (\<exists>raw \<in> set ts. mwTarget m = Normalize raw))) ts ms
      \<or> (\<exists>rms. map (resolution sns r) ts = map Some rms \<and> list_all extra rms \<and> segments P rms ms ds))"

lemma resolution_target: "resolution sns r raw = Some rm \<Longrightarrow> rmTarget rm = Normalize raw"
  by (auto simp: resolution_def split: option.splits if_splits)

lemma segments_results:
  assumes "segments P rms ms ds" and "map (resolution sns r) ts = map Some rms"
    and "\<And>rm m d. P rm m d \<Longrightarrow> mwTarget m = rmTarget rm"
  shows "list_all2 (\<lambda>raw m. mwTarget m = Normalize raw) ts ms"
  using assms
proof (induction rms arbitrary: ts ms ds)
  case (Cons rm rms)
  then show ?case
    by (cases ts; cases ms) (fastforce dest: resolution_target)+
next
  case Nil
  then show ?case by (cases ms) auto
qed

locale member_step =
  fixes svc :: "'w service"
    and step :: "resolved_member \<Rightarrow> ('w, member_write_result) prog"
    and writes steps :: nat
    and shown :: "resolved_member \<Rightarrow> event list \<Rightarrow> bool"
  assumes step: "valid [] (step rm) (member_trace (clock_ok svc) writes steps shown rm)"
begin

abbreviation trace :: "resolved_member \<Rightarrow> member_write_result \<Rightarrow> event list \<Rightarrow> bool" where
  "trace \<equiv> member_trace (clock_ok svc) writes steps shown"

text \<open>Either nothing is sent and every planned member is refused, or every planned member was
  resolved and has its own segment of events.\<close>

lemma finish:
  assumes "conflicts = [] \<Longrightarrow> map (resolution sns r) (pTargets p) = map Some rms \<and> list_all extra rms"
    and "\<forall>c \<in> set conflicts. refused (clock_ok svc) c \<and> (\<exists>raw \<in> set (pTargets p). mwTarget c = Normalize raw)"
  shows "valid [] (finishBatch svc opID operation t p step base rms conflicts)
    (\<lambda>res ds. \<exists>d. res = finalizeBatchWrite opID operation t PathREST d base
       \<and> batch_run trace extra (clock_ok svc) sns r (pTargets p) (bwMembers d) ds)"
  unfolding finishBatch_def
  by (intro valid_if valid_bind valid_mono [OF abortBatch_spec [OF assms(2)]] valid_forEach [OF step] valid_returnI
        exI conjI refl)
     (use assms(1) in \<open>auto simp: batch_run_def\<close>)

lemma execute:
  assumes narrow: "\<And>rms cs. valid [] (narrow (rms, cs)) (\<lambda>(rms', cs') ds. ds = []
      \<and> (cs' = [] \<longrightarrow> cs = [] \<and> rms' = rms \<and> list_all extra rms)
      \<and> (\<forall>c \<in> set cs'. c \<in> set cs \<or> refused (clock_ok svc) c \<and> (\<exists>rm \<in> set rms. mwTarget c = rmTarget rm)))"
  shows "valid [] (executeBatch svc opID operation t p r narrow step sns base)
    (\<lambda>res ds. \<exists>d. res = finalizeBatchWrite opID operation t PathREST d base
       \<and> batch_run trace extra (clock_ok svc) sns r (pTargets p) (bwMembers d) ds)"
  unfolding executeBatch_def
proof (rule valid_bind, rule valid_mono [OF resolvePlannedMembers_spec], clarify)
  fix rms cs
  assume m: "cs = [] \<longrightarrow> map (resolution sns r) (pTargets p) = map Some rms"
    and "\<forall>rm \<in> set rms. \<exists>raw \<in> set (pTargets p). resolution sns r raw = Some rm"
    and "\<forall>c \<in> set cs. refused (clock_ok svc) c \<and> (\<exists>raw \<in> set (pTargets p). mwTarget c = Normalize raw)"
  then show "valid [] (narrow (rms, cs) \<bind> (\<lambda>(resolved, conflicts). finishBatch svc opID operation t p step base resolved conflicts))
    (\<lambda>res ds. \<exists>d. res = finalizeBatchWrite opID operation t PathREST d base
       \<and> batch_run trace extra (clock_ok svc) sns r (pTargets p) (bwMembers d) ds)"
    by (intro valid_bind valid_mono [OF narrow]) (auto intro!: finish dest: resolution_target split: prod.splits; metis resolution_target)
qed

text \<open>One result per planned target, in the order of the plan.\<close>

lemma results:
  assumes "batch_run trace extra (clock_ok svc) sns r ts ms ds"
  shows "list_all2 (\<lambda>raw m. MemberID (mwTarget m) = MemberID raw) ts ms"
  using assms unfolding batch_run_def
proof (elim disjE exE conjE)
  fix rms assume "segments trace rms ms ds" and "map (resolution sns r) ts = map Some rms"
  then show ?thesis
    by (rule list_all2_mono [OF segments_results]) (auto simp: member_trace_def)
qed (auto elim: list_all2_mono)

text \<open>All of them pass \<open>MemberWriteResult.Validate\<close> when the planned targets are valid.\<close>

lemma wellformed:
  assumes "batch_run trace extra (clock_ok svc) sns r ts ms ds" and c: "clock_ok svc"
    and ok: "\<forall>raw \<in> set ts. Validate raw True = None \<and> TrimSpace (tMember raw) \<noteq> []" and m: "m \<in> set ms"
  shows "member_write_Validate m = None"
  using assms(1) unfolding batch_run_def
proof (elim disjE exE conjE)
  fix rms assume s: "segments trace rms ms ds" and r: "map (resolution sns r) ts = map Some rms"
  then obtain rm d where "trace rm m d" using segments_member [OF s m] by blast
  with c have "member_sound m" by (simp add: member_trace_def)
  moreover obtain raw where "raw \<in> set ts" "mwTarget m = Normalize raw"
    using segments_results [OF s r] m by (fastforce simp: member_trace_def list_all2_conv_all_nth in_set_conv_nth)
  ultimately show ?thesis using ok by (auto simp: member_write_Validate_None)
next
  assume "list_all2 (\<lambda>raw m. refused (clock_ok svc) m \<and> MemberID (mwTarget m) = MemberID raw
      \<and> (mwTarget m = raw \<or> (\<exists>raw\<in>set ts. mwTarget m = Normalize raw))) ts ms"
  with m have "refused (clock_ok svc) m \<and> (\<exists>raw \<in> set ts. mwTarget m = raw \<or> mwTarget m = Normalize raw)"
    by (fastforce simp: list_all2_conv_all_nth in_set_conv_nth)
  with ok c show ?thesis by (auto simp: member_write_Validate_None refused_def)
qed

lemma bounded:
  assumes "batch_run trace extra (clock_ok svc) sns r ts ms ds"
  shows "length (filter is_write ds) \<le> writes * length ts \<and> length ds \<le> steps * length ts"
  using assms unfolding batch_run_def
proof (elim disjE exE conjE)
  fix rms assume s: "segments trace rms ms ds" and r: "map (resolution sns r) ts = map Some rms"
  from r have "length rms = length ts" by (metis length_map)
  with segments_bound [OF s, of is_write writes] segments_bound [OF s, of "\<lambda>_. True" steps]
  show ?thesis by (simp add: member_trace_def)
qed simp

end


section \<open>Requests, plans and reads\<close>

lemma valid_planOperationID [wp]:
  "(\<And>x. x \<noteq> [] \<Longrightarrow> Q x es)
   \<Longrightarrow> valid es (if TrimSpace (pOperationID p) = [] then operationID svc else State_Monad.return (TrimSpace (pOperationID p))) Q"
  by (intro wp) auto

lemma reads_only: "read_trace c check out ds \<Longrightarrow> list_all is_read ds"
  by (simp add: read_trace_def)

lemma read_failed: "read_trace c check (base, Inl f) ds \<Longrightarrow> validCategory (dfCategory f) \<and> dfCategory f \<noteq> CategoryUnknown
    \<and> dfMessage f \<noteq> [] \<and> (c \<longrightarrow> evidence_all_ok base)"
  by (simp add: read_trace_def)

lemma read_evidence: "read_trace c check (base, Inr sns) ds \<Longrightarrow> c \<Longrightarrow> evidence_all_ok base"
  by (simp add: read_trace_def)

lemma valid_targets:
  assumes "plan_Validate p = None" and "raw \<in> set (pTargets p)"
  shows "Validate raw True = None \<and> TrimSpace (tMember raw) \<noteq> []"
proof -
  have "validatePlanTargets p seen ts = None \<Longrightarrow> raw \<in> set ts \<Longrightarrow> Validate raw True = None \<and> TrimSpace (tMember raw) \<noteq> []"
    for seen ts
    by (induction ts arbitrary: seen) (auto simp: Let_def split: option.splits if_splits)
  with assms show ?thesis by (auto simp: plan_Validate_def split: if_splits option.splits)
qed

lemma target_okI: "Validate t True = None \<Longrightarrow> target_ok t"
  using Validate_scope [of t] by (cases "tScope t = []") (auto simp: target_ok_def)

lemma Normalize_no_member [simp]:
  "Normalize ((Normalize t)\<lparr>tMember := []\<rparr>) = (Normalize t)\<lparr>tMember := []\<rparr>"
  by (cases t) (simp add: Normalize_def Let_def)

lemma normalizeMemberRequest_target:
  assumes "normalizeMemberRequest t0 names = (t, members, err)" and "target_ok (Normalize t0)"
  shows "target_ok (Normalize t)" and "err = None \<Longrightarrow> target_ok t" and "Normalize t = t"
proof -
  from assms(1) have t: "t = Normalize t0 \<or> t = (Normalize t0)\<lparr>tMember := []\<rparr>"
    and v: "err = None \<Longrightarrow> Validate t True = None"
    by (auto simp: normalizeMemberRequest_def Let_def split: if_splits)
  from t show n: "Normalize t = t" by auto
  from t assms(2) show "target_ok (Normalize t)" unfolding n by (auto simp: target_ok_def Validate_no_member)
  from v show "err = None \<Longrightarrow> target_ok t" by (simp add: target_okI)
qed

lemma selectMembers_in:
  "m \<in> set (selectMembers cl r requested everyone) \<Longrightarrow>
   m \<in> set (cMembers cl) \<and> memberMatchesRole cl m r \<and> (stringSet requested = {} \<or> mName m \<in> stringSet requested)"
  by (auto simp: selectMembers_def split: if_splits)

lemma member_sound_evidence: "member_sound m \<Longrightarrow> evidence_all_ok (mwEvidence m)"
  by (simp add: member_sound_def)

text \<open>The planned targets are members of the snapshots, have the role and were asked for.\<close>

definition selected_from :: "snapshot list \<Rightarrow> role \<Rightarrow> string list \<Rightarrow> plan \<Rightarrow> bool" where
  "selected_from sns r members p =
     (\<forall>raw \<in> set (pTargets p). \<exists>sn \<in> set sns. \<exists>m \<in> set (cMembers (snCluster sn)).
        memberMatchesRole (snCluster sn) m r \<and> raw = (Normalize (snTarget sn))\<lparr>tMember := mName m\<rparr>
        \<and> (stringSet members = {} \<or> mName m \<in> stringSet members))"

end
