(* ===== verification/Member_Ops.thy ===== *)
theory Member_Ops
  imports Batch
begin

text \<open>
  The member-wise write operations: reload (\<open>reload.go\<close>), restart (\<open>restart.go\<close>) and reinitialize
  (\<open>reinitialize.go\<close>).  Each prepares a plan from fresh snapshots; its execution checks the plan
  against the request, resolves the planned members on new snapshots, sends nothing at all when one
  of them changed, and otherwise visits the members in order.
\<close>


section \<open>Reload\<close>

definition normalizeReloadRequest :: "reload_request \<Rightarrow> target \<times> string list \<times> goerror option" where
  "normalizeReloadRequest rq =
     (case normalizeMemberRequest (rlTarget rq) (rlMembers rq) of (t, members, err) \<Rightarrow>
        (t, members,
         case err of
           Some e \<Rightarrow> Some e
         | None \<Rightarrow> if \<not> role_validOrEmpty (rlRole rq) then Some (errorsNew ''invalid role'') else None))"

definition clusterLoopWait :: "jobject \<Rightarrow> int" where
  "clusterLoopWait config =
     (case jlookup config ''loop_wait'' of
        None \<Rightarrow> 10
      | Some v \<Rightarrow>
          (case ParseInt (Sprint v) of None \<Rightarrow> 10 | Some n \<Rightarrow> if n \<le> 0 then 10 else n))"

definition memberTargetsOf :: "snapshot \<Rightarrow> dcs_member list \<Rightarrow> target list" where
  "memberTargetsOf sn ms = map (\<lambda>m. (Normalize (snTarget sn))\<lparr>tMember := mName m\<rparr>) ms"

definition prepareBatchPlan ::
  "'w service \<Rightarrow> string \<Rightarrow> string \<Rightarrow> target \<Rightarrow> target list \<Rightarrow> risk \<Rightarrow> string \<Rightarrow> precondition list \<Rightarrow> string
   \<Rightarrow> evidence list \<Rightarrow> ('w, plan result) prog" where
  "prepareBatchPlan svc opID operation t targets rsk summary preconditions failed evs =
     (let p = \<lparr>pOperationID = opID, pOperation = operation, pTarget = t, pTargets = targets, pPath = PathREST,
            pRisk = rsk, pRetrySafety = UnsafeAfterSend, pSummary = summary, pPreconditions = preconditions\<rparr>
      in case plan_Validate p of
           Some err \<Rightarrow> failedReadWithEvidence svc zeroPlan opID operation t PathREST CategoryInternal False
                         failed (Some err) evs
         | None \<Rightarrow> State_Monad.return \<lparr>rOperationID = opID, rOutcome = Succeeded, rTarget = t, rPath = PathREST,
                      rData = p, rEvidence = evs, rError = None\<rparr>)"

definition PrepareReload :: "'w service \<Rightarrow> 'w goctx \<Rightarrow> reload_request \<Rightarrow> ('w, plan result) prog" where
  "PrepareReload svc ctx rq = do {
     opID \<leftarrow> operationID svc;
     (case normalizeReloadRequest rq of (t, members, err) \<Rightarrow>
      if \<not> validContext ctx then
        failedRead svc zeroPlan opID ''reload'' t PathREST CategoryUsage False ''reload requires a context'' None
      else if err \<noteq> None then
        failedRead svc zeroPlan opID ''reload'' t PathREST CategoryUsage False ''reload request is invalid'' err
      else do {
        (evs, r) \<leftarrow> operationSnapshots svc ''reload'' t (rlCitus rq) False;
        (case r of
           Inl f \<Rightarrow> failedReadWithEvidence svc zeroPlan opID ''reload'' t PathREST (dfCategory f) (dfRetryable f)
                      (dfMessage f) (dfCause f) evs
         | Inr sns \<Rightarrow>
             (let targets = concat (map (\<lambda>sn. memberTargetsOf sn
                    (selectMembers (snCluster sn) (normalizedWriteRole (rlRole rq)) members True)) sns) in
              if targets = [] then
                failedReadWithEvidence svc zeroPlan opID ''reload'' t PathREST CategoryNotFound False
                  ''reload found no matching members'' None evs
              else prepareBatchPlan svc opID ''reload'' t targets RiskAdminWrite
                (''reload '' @ FormatInt (int (length targets)) @ '' selected member(s): ''
                   @ Join '', '' (memberNamesFromTargets targets))
                [pre ''dcs.revision'' (FormatInt (snRevision (hd sns))) EvidenceDCS,
                 pre ''selector.role'' (role_string (normalizedWriteRole (rlRole rq))) EvidenceControl,
                 pre ''selector.members'' (Join '','' members) EvidenceControl,
                 pre ''selector.citus'' (FormatBool (rlCitus rq)) EvidenceControl,
                 pre ''citus.groups'' (snapshotGroupIDs sns) EvidenceDCS,
                 pre ''cluster.loopWait'' (FormatInt (clusterLoopWait (cConfig (snCluster (hd sns))))) EvidenceDCS]
                ''reload plan construction failed'' evs))
      })
   }"

definition validateReloadPlan :: "plan \<Rightarrow> target \<Rightarrow> role \<Rightarrow> string list \<Rightarrow> bool \<Rightarrow> goerror option" where
  "validateReloadPlan p t r members citus =
     (case plan_Validate p of
        Some e \<Rightarrow> Some e
      | None \<Rightarrow>
         if pOperation p \<noteq> ''reload'' \<or> pPath p \<noteq> PathREST \<or> pRisk p \<noteq> RiskAdminWrite
            \<or> pRetrySafety p \<noteq> UnsafeAfterSend then
           Some (errorsNew ''plan operation contract differs from reload'')
         else if ClusterID (Normalize (pTarget p)) \<noteq> ClusterID (Normalize t) then
           Some (errorsNew ''plan cluster differs from request'')
         else if expectedPrecondition p ''selector.role'' \<noteq> Some (role_string r)
                 \<or> expectedPrecondition p ''selector.members'' \<noteq> Some (Join '','' members)
                 \<or> expectedPrecondition p ''selector.citus'' \<noteq> Some (FormatBool citus)
                 \<or> expectedPrecondition p ''citus.groups'' = None then
           Some (errorsNew ''plan selectors differ from request'')
         else None)"

definition classifyReloadResponse ::
  "'w service \<Rightarrow> target \<Rightarrow> rest_response \<Rightarrow> goerror option \<Rightarrow> ('w, member_write_result) prog" where
  "classifyReloadResponse svc t response callError =
     (let status = respStatus response; send = patroniSendState callError status in
      if status = 200 \<or> status = 202 then do {
        e \<leftarrow> observe svc EvidencePatroni ''Patroni accepted reload request'' [] ''/reload'' send;
        State_Monad.return (acceptedWrite t send status e)
      }
      else if status \<noteq> 0 then do {
        e \<leftarrow> observe svc EvidencePatroni ''Patroni rejected reload request'' [] ''/reload'' send;
        (case classifyHTTPStatus status of (cat, retryable) \<Rightarrow>
          State_Monad.return (failedWrite ''reload'' t send status cat retryable
            ''Patroni rejected reload request'' callError e))
      }
      else do {
        e \<leftarrow> observe svc EvidencePatroni ''reload transport ended without an HTTP response'' [] ''/reload'' send;
        (if send = SendMaybeSent \<or> send = SendAccepted then
           State_Monad.return (unknownWrite ''reload'' t send
             ''reload may have been sent; verify the member before retrying'' callError e)
         else (case classifyReadError callError of (cat, retryable) \<Rightarrow>
           State_Monad.return (failedWrite ''reload'' t SendNotSent 0 cat retryable ''reload was not sent'' callError e)))
      })"

definition reloadMember ::
  "'w service \<Rightarrow> (rest_call \<Rightarrow> 'w \<Rightarrow> (rest_response \<times> goerror option) \<times> 'w) \<Rightarrow> 'w goctx \<Rightarrow> resolved_member
   \<Rightarrow> ('w, member_write_result) prog" where
  "reloadMember svc client ctx rm = do {
     ce \<leftarrow> ctxErr ctx;
     (if ce \<noteq> None then skippedWriteAfterCancellation svc ''reload'' (rmTarget rm) ce
      else (case patroniBaseURL (mdAPIURL (mData (rmMember rm))) of
         Inl err \<Rightarrow> invalidRESTAddressWrite svc ''reload'' (rmTarget rm) (rmSnapshot rm) (Some (Plain err))
       | Inr baseURL \<Rightarrow> do {
           (response, callError) \<leftarrow> callREST client (PostReload baseURL);
           classifyReloadResponse svc (rmTarget rm) response callError
         }))
   }"

definition ExecuteReload ::
  "'w service \<Rightarrow> 'w goctx \<Rightarrow> reload_request \<Rightarrow> plan \<Rightarrow> ('w, batch_write_data result) prog" where
  "ExecuteReload svc ctx rq p = do {
     opID \<leftarrow> (if TrimSpace (pOperationID p) = [] then operationID svc
              else State_Monad.return (TrimSpace (pOperationID p)));
     (case normalizeReloadRequest rq of (t, members, err) \<Rightarrow>
      if \<not> validContext ctx then
        failedRead svc zeroBatchWriteData opID ''reload'' t PathREST CategoryUsage False ''reload requires a context'' None
      else if err \<noteq> None then
        failedRead svc zeroBatchWriteData opID ''reload'' t PathREST CategoryUsage False ''reload request is invalid'' err
      else if validateReloadPlan p t (normalizedWriteRole (rlRole rq)) members (rlCitus rq) \<noteq> None then
        failedRead svc zeroBatchWriteData opID ''reload'' t PathREST CategoryUsage False
          ''reload plan does not match the request''
          (validateReloadPlan p t (normalizedWriteRole (rlRole rq)) members (rlCitus rq))
      else (case svcPatroni svc of
         None \<Rightarrow> failedRead svc zeroBatchWriteData opID ''reload'' t PathREST CategoryConfig False
                   ''reload requires a Patroni REST client'' None
       | Some client \<Rightarrow> do {
           (base, r) \<leftarrow> operationSnapshots svc ''reload'' t (rlCitus rq) False;
           (case r of
              Inl f \<Rightarrow> failedReadWithEvidence svc zeroBatchWriteData opID ''reload'' t PathREST (dfCategory f)
                         (dfRetryable f) (dfMessage f) (dfCause f) base
            | Inr sns \<Rightarrow>
                if snapshotGroupIDs sns \<noteq> plannedGroups p then
                  failedReadWithEvidence svc zeroBatchWriteData opID ''reload'' t PathREST CategoryConflict False
                    ''reload was not sent because the Citus group inventory changed'' None base
                else executeBatch svc opID ''reload'' t p (normalizedWriteRole (rlRole rq))
                       State_Monad.return (reloadMember svc client ctx) sns base)
         }))
   }"


section \<open>Restart\<close>

fun allNonNegative :: "string list \<Rightarrow> bool" where
  "allNonNegative [] = True"
| "allNonNegative (s # ss) = (case ParseInt s of None \<Rightarrow> False | Some n \<Rightarrow> n \<ge> 0 \<and> allNonNegative ss)"

definition validatePostgresVersion :: "string \<Rightarrow> goerror option" where
  "validatePostgresVersion value =
     (let parts = Split (CHR ''.'') value in
      if length parts < 2 \<or> length parts > 3 then
        Some (errorsNew ''postgresql version must use X.Y or X.Y.Z'')
      else if \<not> allNonNegative parts then
        Some (errorsNew ''postgresql version contains a non-numeric component'')
      else if length parts = 2 \<and> the (ParseInt (hd parts)) < 10 then
        Some (errorsNew ''pre-10 PostgreSQL versions require X.Y.Z'')
      else None)"

definition validateRestartTimeout :: "'w goruntime \<Rightarrow> string \<Rightarrow> goerror option" where
  "validateRestartTimeout rt value =
     (let trimmed = TrimSpace value in
      case rtParseFloat rt trimmed of
        Some positive \<Rightarrow> if positive then None else Some (errorsNew ''restart timeout must be positive'')
      | None \<Rightarrow>
         (let compact = ReplaceAll (ReplaceAll trimmed '' '' []) ''min'' ''m'' in
          if HasSuffix compact ''d'' \<and> rtParseFloat rt (TrimSuffix compact ''d'') = Some True then None
          else (case rtParseDuration rt compact of
             None \<Rightarrow> Some (errorsNew ''restart timeout must be a positive duration'')
           | Some d \<Rightarrow> if d \<le> 0 then Some (errorsNew ''restart timeout must be a positive duration'') else None)))"

definition normalizeRestartRequest ::
  "'w goruntime \<Rightarrow> restart_request \<Rightarrow> target \<times> string list \<times> goerror option" where
  "normalizeRestartRequest rt rq =
     (case normalizeMemberRequest (rsTarget rq) (rsMembers rq) of (t, members, err) \<Rightarrow>
        (t, members,
         case err of
           Some e \<Rightarrow> Some e
         | None \<Rightarrow>
            if \<not> role_validOrEmpty (rsRole rq) then Some (errorsNew ''invalid role'')
            else if (case rsScheduledAt rq of None \<Rightarrow> False | Some at \<Rightarrow> IsZero at) then
              Some (errorsNew ''scheduled restart time is zero'')
            else (case (if rsPostgresVersion rq = [] then None else validatePostgresVersion (rsPostgresVersion rq)) of
               Some e \<Rightarrow> Some e
             | None \<Rightarrow> if rsTimeout rq = [] then None else validateRestartTimeout rt (rsTimeout rq))))"

definition pendingRestart :: "dcs_member \<Rightarrow> bool" where
  "pendingRestart m = (mdPendingRestart (mData m) = Some True)"

definition pendingRestartMembers :: "dcs_member list \<Rightarrow> dcs_member list" where
  "pendingRestartMembers ms = filter pendingRestart ms"

definition restartPreconditions ::
  "int \<Rightarrow> restart_request \<Rightarrow> string list \<Rightarrow> string \<Rightarrow> precondition list" where
  "restartPreconditions revision rq members groups =
     [pre ''dcs.revision'' (FormatInt revision) EvidenceDCS,
      pre ''selector.role'' (role_string (normalizedWriteRole (rsRole rq))) EvidenceControl,
      pre ''selector.members'' (Join '','' members) EvidenceControl,
      pre ''selector.citus'' (FormatBool (rsCitus rq)) EvidenceControl,
      pre ''citus.groups'' groups EvidenceDCS,
      pre ''restart.any'' (FormatBool (rsAny rq)) EvidenceControl,
      pre ''restart.schedule'' (case rsScheduledAt rq of None \<Rightarrow> [] | Some at \<Rightarrow> formatRFC3339Nano at) EvidenceControl,
      pre ''restart.postgresVersion'' (rsPostgresVersion rq) EvidenceControl,
      pre ''restart.pending'' (FormatBool (rsPending rq)) EvidenceControl,
      pre ''restart.timeout'' (rsTimeout rq) EvidenceControl,
      pre ''restart.force'' (FormatBool (rsForce rq)) EvidenceControl]"

definition validateRestartPlan :: "plan \<Rightarrow> target \<Rightarrow> restart_request \<Rightarrow> string list \<Rightarrow> goerror option" where
  "validateRestartPlan p t rq members =
     (case plan_Validate p of
        Some e \<Rightarrow> Some e
      | None \<Rightarrow>
         if pOperation p \<noteq> ''restart'' \<or> pPath p \<noteq> PathREST \<or> pRisk p \<noteq> RiskAvailability
            \<or> pRetrySafety p \<noteq> UnsafeAfterSend then
           Some (errorsNew ''plan operation contract differs from restart'')
         else if ClusterID (Normalize (pTarget p)) \<noteq> ClusterID (Normalize t) then
           Some (errorsNew ''plan cluster differs from request'')
         else preconditionMismatch p (tl (restartPreconditions 0 rq members [])))"

text \<open>The members of one snapshot, or the paused state that forbids scheduling.\<close>

fun selectRestart ::
  "restart_request \<Rightarrow> string list \<Rightarrow> snapshot list \<Rightarrow> resolved_member list \<Rightarrow> snapshot + resolved_member list" where
  "selectRestart rq members [] acc = Inr acc"
| "selectRestart rq members (sn # sns) acc =
     (if rsScheduledAt rq \<noteq> None \<and> boolConfig (jlookup (cConfig (snCluster sn)) ''pause'') then Inl sn
      else (let ms = selectMembers (snCluster sn) (normalizedWriteRole (rsRole rq)) members True;
                ms = (if rsPending rq \<and> rsScheduledAt rq = None then pendingRestartMembers ms else ms)
            in selectRestart rq members sns
                 (acc @ map (\<lambda>m. \<lparr>rmTarget = (Normalize (snTarget sn))\<lparr>tMember := mName m\<rparr>, rmMember = m, rmSnapshot = sn\<rparr>) ms)))"

definition RandomIndex :: "'w service \<Rightarrow> nat \<Rightarrow> ('w, goerror + int) prog" where
  "RandomIndex svc n = quiet (svcRandomIndex svc n)"

definition PrepareRestart :: "'w service \<Rightarrow> 'w goctx \<Rightarrow> restart_request \<Rightarrow> ('w, plan result) prog" where
  "PrepareRestart svc ctx rq = do {
     opID \<leftarrow> operationID svc;
     (case normalizeRestartRequest (svcRuntime svc) rq of (t, members, err) \<Rightarrow>
      if \<not> validContext ctx then
        failedRead svc zeroPlan opID ''restart'' t PathREST CategoryUsage False ''restart requires a context'' None
      else if err \<noteq> None then
        failedRead svc zeroPlan opID ''restart'' t PathREST CategoryUsage False ''restart request is invalid'' err
      else do {
        (evs, r) \<leftarrow> operationSnapshots svc ''restart'' t (rsCitus rq) False;
        (case r of
           Inl f \<Rightarrow> failedReadWithEvidence svc zeroPlan opID ''restart'' t PathREST (dfCategory f) (dfRetryable f)
                      (dfMessage f) (dfCause f) evs
         | Inr sns \<Rightarrow>
             (case selectRestart rq members sns [] of
                Inl sn \<Rightarrow> do {
                  e \<leftarrow> snapshotEvidence svc sn ''paused cluster state observed'';
                  failedReadWithEvidence svc zeroPlan opID ''restart'' t PathREST CategoryConflict False
                    ''cannot schedule restart while the cluster is paused'' None (evs @ [e])
                }
              | Inr selected0 \<Rightarrow> do {
                  choice \<leftarrow> (if rsAny rq \<and> selected0 \<noteq> [] then do {
                      i \<leftarrow> RandomIndex svc (length selected0);
                      State_Monad.return (case i of
                        Inl e \<Rightarrow> Inl (Some e)
                      | Inr n \<Rightarrow> if n < 0 \<or> n \<ge> int (length selected0) then Inl None
                                 else Inr [selected0 ! nat n])
                    } else State_Monad.return (Inr selected0));
                  (case choice of
                     Inl cause \<Rightarrow> failedReadWithEvidence svc zeroPlan opID ''restart'' t PathREST CategoryInternal False
                                    ''restart random member selection failed'' cause evs
                   | Inr selected \<Rightarrow>
                       (let targets = map rmTarget selected in
                        if selected = [] then
                          failedReadWithEvidence svc zeroPlan opID ''restart'' t PathREST CategoryNotFound False
                            ''restart found no matching members'' None evs
                        else prepareBatchPlan svc opID ''restart'' t targets RiskAvailability
                          (''restart '' @ FormatInt (int (length targets)) @ '' selected member(s): ''
                             @ Join '', '' (memberNamesFromTargets targets))
                          (restartPreconditions (snRevision (hd sns)) rq members (snapshotGroupIDs sns))
                          ''restart plan construction failed'' evs))
                }))
      })
   }"

definition requirePendingMember ::
  "'w service \<Rightarrow> resolved_member \<Rightarrow> ('w, member_write_result + resolved_member) prog" where
  "requirePendingMember svc rm =
     (if pendingRestart (rmMember rm) then State_Monad.return (Inr rm)
      else do {
        e \<leftarrow> observe svc EvidenceDCS ''confirmed member no longer has pending restart''
               (FormatInt (snRevision (rmSnapshot rm))) (snPrefix (rmSnapshot rm)) SendNotSent;
        State_Monad.return (Inl (failedWrite ''restart'' (rmTarget rm) SendNotSent 0 CategoryConflict False
          ''restart was not sent because pending-restart state changed'' None e))
      })"

definition requirePendingRestart ::
  "'w service \<Rightarrow> resolved_member list \<times> member_write_result list
   \<Rightarrow> ('w, resolved_member list \<times> member_write_result list) prog" where
  "requirePendingRestart svc rc = do {
     xs \<leftarrow> forEach (requirePendingMember svc) (fst rc);
     State_Monad.return (rights xs, snd rc @ lefts xs)
   }"

definition classifyForcedRestartFlush ::
  "'w service \<Rightarrow> target \<Rightarrow> rest_response \<Rightarrow> goerror option \<Rightarrow> ('w, member_write_result \<times> bool) prog" where
  "classifyForcedRestartFlush svc t response callError =
     (let status = respStatus response; send = patroniSendState callError status in do {
        e \<leftarrow> observe svc EvidencePatroni ''scheduled restart replacement flush completed'' [] ''/restart'' send;
        State_Monad.return
          (if status \<noteq> 0 then
             ((if status \<ge> 400 then
                 (case classifyHTTPStatus status of (cat, retryable) \<Rightarrow>
                    \<lparr>mwTarget = t, mwOutcome = Failed, mwSendState = send, mwVerification = VerifiedFailed,
                     mwHTTPStatus = status, mwSummary = evSummary e, mwEvidence = [e],
                     mwError = Some (NewError cat ''restart'' t retryable
                       ''Patroni rejected scheduled restart flush'' callError [e])\<rparr>)
               else acceptedWrite t send status e), True)
           else if send = SendMaybeSent \<or> send = SendAccepted then
             (unknownWrite ''restart'' t send
                ''scheduled restart flush may have been sent; verify before retrying'' callError e, False)
           else (case classifyReadError callError of (cat, retryable) \<Rightarrow>
             (failedWrite ''restart'' t SendNotSent 0 cat retryable
                ''scheduled restart flush was not sent'' callError e, False)))
      })"

definition classifyRestartResponse ::
  "'w service \<Rightarrow> target \<Rightarrow> rest_response \<Rightarrow> goerror option \<Rightarrow> ('w, member_write_result) prog" where
  "classifyRestartResponse svc t response callError =
     (let status = respStatus response; send = patroniSendState callError status in
      if status = 200 \<or> status = 202 then do {
        e \<leftarrow> observe svc EvidencePatroni ''Patroni accepted restart request'' [] ''/restart'' send;
        State_Monad.return (acceptedWrite t send status e)
      }
      else if status \<noteq> 0 then do {
        e \<leftarrow> observe svc EvidencePatroni ''Patroni rejected restart request'' [] ''/restart'' send;
        (case classifyHTTPStatus status of (cat, retryable) \<Rightarrow>
          State_Monad.return (failedWrite ''restart'' t send status cat retryable
            ''Patroni rejected restart request'' callError e))
      }
      else do {
        e \<leftarrow> observe svc EvidencePatroni ''restart transport ended without an HTTP response'' [] ''/restart'' send;
        (if send = SendMaybeSent \<or> send = SendAccepted then
           State_Monad.return (unknownWrite ''restart'' t send
             ''restart may have been sent; verify before retrying'' callError e)
         else (case classifyReadError callError of (cat, retryable) \<Rightarrow>
           State_Monad.return (failedWrite ''restart'' t SendNotSent 0 cat retryable ''restart was not sent'' callError e)))
      })"

definition scheduledRestartMatches :: "string \<Rightarrow> gotime \<Rightarrow> bool" where
  "scheduledRestartMatches raw expected =
     (if TrimSpace raw = [] then False
      else (case parseJSON raw of
         Some (JObj ps) \<Rightarrow>
           (let (bad, schedule) = field_string ''schedule'' ps (False, []) in
            if bad \<or> schedule = [] then False
            else (case parseRFC3339Nano schedule of
               None \<Rightarrow> schedule = formatRFC3339Nano expected \<or> schedule = formatRFC3339 expected
             | Some obs \<Rightarrow> instant obs = instant expected))
       | _ \<Rightarrow> False))"

definition restartScheduled :: "string \<Rightarrow> gotime \<Rightarrow> snapshot \<Rightarrow> bool" where
  "restartScheduled memberName at sn =
     list_ex (\<lambda>m. mName m = memberName \<and> scheduledRestartMatches (mdScheduledRestart (mData m)) at) (cMembers (snCluster sn))"

fun verifyRestartLoop ::
  "'w service \<Rightarrow> target \<Rightarrow> string \<Rightarrow> gotime \<Rightarrow> nat \<Rightarrow> bool \<Rightarrow> evidence list \<Rightarrow> ('w, bool \<times> evidence list) prog" where
  "verifyRestartLoop svc t memberName at 0 later evs = State_Monad.return (False, evs)"
| "verifyRestartLoop svc t memberName at (Suc left) later evs = do {
     w \<leftarrow> (if later then Wait svc restartVerificationInterval else State_Monad.return None);
     (if w \<noteq> None then do {
        e \<leftarrow> observe svc EvidenceControl ''scheduled restart verification canceled'' [] (path_string PathDCS) SendEmpty;
        State_Monad.return (False, evs @ [e])
      } else do {
        r \<leftarrow> Snapshot svc t;
        (case r of
           Inl err \<Rightarrow> do {
             e \<leftarrow> observe svc EvidenceDCS ''scheduled restart verification snapshot failed'' [] (path_string PathDCS) SendEmpty;
             verifyRestartLoop svc t memberName at left True (evs @ [e])
           }
         | Inr sn \<Rightarrow>
             (let matched = restartScheduled memberName at sn in do {
                e \<leftarrow> observe svc EvidenceDCS
                  (if matched then ''scheduled restart observed in DCS'' else ''scheduled restart not yet observed in DCS'')
                  (FormatInt (snRevision sn)) (snPrefix sn) SendEmpty;
                (if matched then State_Monad.return (True, evs @ [e])
                 else verifyRestartLoop svc t memberName at left True (evs @ [e]))
              }))
      })
   }"

definition verifyScheduledRestart ::
  "'w service \<Rightarrow> target \<Rightarrow> string \<Rightarrow> gotime \<Rightarrow> ('w, bool \<times> evidence list) prog" where
  "verifyScheduledRestart svc t memberName at =
     verifyRestartLoop svc (t\<lparr>tMember := []\<rparr>) memberName at (nat (svcVerificationAttempts svc)) False []"

definition restartPayload :: "restart_request \<Rightarrow> rest_restart" where
  "restartPayload rq =
     \<lparr>rrSchedule = (case rsScheduledAt rq of None \<Rightarrow> [] | Some at \<Rightarrow> formatPatroniTimestamp at), rrRole = [],
      rrPostgresVersion = rsPostgresVersion rq, rrTimeout = rsTimeout rq,
      rrRestartPending = (if rsPending rq then Some True else None)\<rparr>"

text \<open>The verification of a scheduled restart, after Patroni's answer was classified.\<close>

definition settleScheduledRestart ::
  "'w service \<Rightarrow> resolved_member \<Rightarrow> gotime \<Rightarrow> goerror option \<Rightarrow> member_write_result \<Rightarrow> ('w, member_write_result) prog" where
  "settleScheduledRestart svc rm at callError m = do {
     (verified, vevs) \<leftarrow> verifyScheduledRestart svc (rmTarget rm) (mName (rmMember rm)) at;
     (let m = m\<lparr>mwEvidence := mwEvidence m @ vevs\<rparr> in
      State_Monad.return
        (if verified then
           m\<lparr>mwOutcome := Succeeded, mwVerification := VerifiedSucceeded, mwError := None,
             mwSummary := ''scheduled restart verified in DCS''\<rparr>
         else if mwOutcome m \<noteq> Failed then
           m\<lparr>mwOutcome := Unknown, mwVerification := Unverified,
             mwSummary := ''scheduled restart was not verified in DCS'',
             mwError := Some (NewError CategoryUnknown ''restart'' (rmTarget rm) False
               ''scheduled restart outcome is unknown; verify before retrying'' callError (mwEvidence m))\<rparr>
         else m))
   }"

definition postRestart ::
  "'w service \<Rightarrow> (rest_call \<Rightarrow> 'w \<Rightarrow> (rest_response \<times> goerror option) \<times> 'w) \<Rightarrow> restart_request
   \<Rightarrow> resolved_member \<Rightarrow> string \<Rightarrow> evidence list \<Rightarrow> ('w, member_write_result) prog" where
  "postRestart svc client rq rm baseURL prefixEvidence = do {
     (response, callError) \<leftarrow> callREST client (PostRestart baseURL (restartPayload rq));
     m0 \<leftarrow> classifyRestartResponse svc (rmTarget rm) response callError;
     (let m = m0\<lparr>mwEvidence := prefixEvidence @ mwEvidence m0\<rparr> in
      case rsScheduledAt rq of
        None \<Rightarrow> State_Monad.return m
      | Some at \<Rightarrow>
          if respStatus response = 202 \<or> mwSendState m = SendMaybeSent
             \<or> mwSendState m = SendAccepted \<and> respStatus response = 0
          then settleScheduledRestart svc rm at callError m
          else State_Monad.return m)
   }"

definition restartMember ::
  "'w service \<Rightarrow> (rest_call \<Rightarrow> 'w \<Rightarrow> (rest_response \<times> goerror option) \<times> 'w) \<Rightarrow> 'w goctx \<Rightarrow> restart_request
   \<Rightarrow> resolved_member \<Rightarrow> ('w, member_write_result) prog" where
  "restartMember svc client ctx rq rm = do {
     ce \<leftarrow> ctxErr ctx;
     (if ce \<noteq> None then skippedWriteAfterCancellation svc ''restart'' (rmTarget rm) ce
      else (case patroniBaseURL (mdAPIURL (mData (rmMember rm))) of
         Inl err \<Rightarrow> invalidRESTAddressWrite svc ''restart'' (rmTarget rm) (rmSnapshot rm) (Some (Plain err))
       | Inr baseURL \<Rightarrow>
           if rsScheduledAt rq \<noteq> None \<and> rsForce rq
              \<and> decodeScheduledRestart (mdScheduledRestart (mData (rmMember rm))) \<noteq> None
           then do {
             (response, callError) \<leftarrow> callREST client (DeleteRestart baseURL);
             (flushResult, continueRestart) \<leftarrow> classifyForcedRestartFlush svc (rmTarget rm) response callError;
             (if continueRestart then postRestart svc client rq rm baseURL (mwEvidence flushResult)
              else State_Monad.return flushResult)
           }
           else postRestart svc client rq rm baseURL []))
   }"

definition ExecuteRestart ::
  "'w service \<Rightarrow> 'w goctx \<Rightarrow> restart_request \<Rightarrow> plan \<Rightarrow> ('w, batch_write_data result) prog" where
  "ExecuteRestart svc ctx rq p = do {
     opID \<leftarrow> (if TrimSpace (pOperationID p) = [] then operationID svc
              else State_Monad.return (TrimSpace (pOperationID p)));
     (case normalizeRestartRequest (svcRuntime svc) rq of (t, members, err) \<Rightarrow>
      if \<not> validContext ctx then
        failedRead svc zeroBatchWriteData opID ''restart'' t PathREST CategoryUsage False ''restart requires a context'' None
      else if err \<noteq> None then
        failedRead svc zeroBatchWriteData opID ''restart'' t PathREST CategoryUsage False ''restart request is invalid'' err
      else if validateRestartPlan p t rq members \<noteq> None then
        failedRead svc zeroBatchWriteData opID ''restart'' t PathREST CategoryUsage False
          ''restart plan does not match the request'' (validateRestartPlan p t rq members)
      else (case svcPatroni svc of
         None \<Rightarrow> failedRead svc zeroBatchWriteData opID ''restart'' t PathREST CategoryConfig False
                   ''restart requires a Patroni REST client'' None
       | Some client \<Rightarrow> do {
           (base, r) \<leftarrow> operationSnapshots svc ''restart'' t (rsCitus rq) False;
           (case r of
              Inl f \<Rightarrow> failedReadWithEvidence svc zeroBatchWriteData opID ''restart'' t PathREST (dfCategory f)
                         (dfRetryable f) (dfMessage f) (dfCause f) base
            | Inr sns \<Rightarrow>
                if snapshotGroupIDs sns \<noteq> plannedGroups p then
                  failedReadWithEvidence svc zeroBatchWriteData opID ''restart'' t PathREST CategoryConflict False
                    ''restart was not sent because the Citus group inventory changed'' None base
                else executeBatch svc opID ''restart'' t p (normalizedWriteRole (rsRole rq))
                       (if rsPending rq \<and> rsScheduledAt rq = None then requirePendingRestart svc
                        else State_Monad.return)
                       (restartMember svc client ctx rq) sns base)
         }))
   }"

end
