(* ===== verification/Catalog.thy ===== *)
theory Catalog
  imports Version "HOL-Library.Sublist"
begin

text \<open>
  The audited Patroni capability matrix and the REST endpoint catalogue,
  \<^verbatim>\<open>src/catalog.go\<close>: versioned features, health aliases and the 75 method/path rows, and
  the functions that restrict them to one supported version.
\<close>

section \<open>Features\<close>

definition PatroniV3 :: string where "PatroniV3 = ''3.0.0''"
definition PatroniV3MPP :: string where "PatroniV3MPP = ''3.3.0''"
definition PatroniV4 :: string where "PatroniV4 = ''4.0.0''"
definition PatroniV4Point1 :: string where "PatroniV4Point1 = ''4.1.0''"

datatype feature =
    FeatureCoreRESTAPI
  | FeatureMPPEndpoint
  | FeatureQuorumStatus
  | FeatureFailsafeLSNHeader
  | FeatureReadinessLagMode
  | FeatureReinitializeFromLeader
  | FeatureStandbyClusterCLI
  | FeatureOther string

fun feature_text :: "feature \<Rightarrow> string" where
  "feature_text FeatureCoreRESTAPI = ''core-rest-api''"
| "feature_text FeatureMPPEndpoint = ''mpp-endpoint''"
| "feature_text FeatureQuorumStatus = ''quorum-status''"
| "feature_text FeatureFailsafeLSNHeader = ''failsafe-lsn-header''"
| "feature_text FeatureReadinessLagMode = ''readiness-lag-mode''"
| "feature_text FeatureReinitializeFromLeader = ''reinitialize-from-leader''"
| "feature_text FeatureStandbyClusterCLI = ''standby-cluster-cli''"
| "feature_text (FeatureOther s) = s"

text \<open>The feature and the version it appeared in; the descriptions are left out.\<close>

definition featureCatalog :: "(feature \<times> string) list" where
  "featureCatalog =
     [(FeatureCoreRESTAPI, PatroniV3), (FeatureMPPEndpoint, PatroniV3MPP), (FeatureQuorumStatus, PatroniV4),
      (FeatureFailsafeLSNHeader, PatroniV4), (FeatureReadinessLagMode, PatroniV4Point1),
      (FeatureReinitializeFromLeader, PatroniV4Point1), (FeatureStandbyClusterCLI, PatroniV4Point1)]"

definition checkedVersion :: "string \<Rightarrow> plain_error + version" where
  "checkedVersion versionText =
     (case ParseVersion versionText of
        Inl e \<Rightarrow> Inl e
      | Inr v \<Rightarrow> (case CheckPatroniVersion versionText of Some e \<Rightarrow> Inl e | None \<Rightarrow> Inr v))"

definition SupportsFeature :: "string \<Rightarrow> feature \<Rightarrow> plain_error + bool" where
  "SupportsFeature versionText feature =
     (case checkedVersion versionText of
        Inl e \<Rightarrow> Inl e
      | Inr v \<Rightarrow>
          (case find (\<lambda>c. fst c = feature) featureCatalog of
             None \<Rightarrow> Inl (ErrNew ''unknown Patroni feature'')
           | Some c \<Rightarrow>
               (case ParseVersion (snd c) of
                  Inl e \<Rightarrow> Inl e
                | Inr since \<Rightarrow> Inr (Compare v since \<ge> 0))))"


section \<open>Health aliases\<close>

definition HealthQuorum :: string where "HealthQuorum = ''/quorum''"
definition HealthReadOnlyQuorum :: string where "HealthReadOnlyQuorum = ''/read-only-quorum''"

definition HealthAliases :: "string list" where
  "HealthAliases =
     [''/'', ''/primary'', ''/master'', ''/read-write'', ''/leader'', ''/standby-leader'', ''/standby_leader'',
      ''/replica'', ''/read-only'', HealthQuorum, HealthReadOnlyQuorum, ''/sync'', ''/synchronous'',
      ''/read-only-sync'', ''/read-only-synchronous'', ''/async'', ''/asynchronous'', ''/health'']"

text \<open>The Go code discards the error of parsing the constant, so a failure would leave the zero version.\<close>

definition versionOrZero :: "string \<Rightarrow> version" where
  "versionOrZero s =
     (case ParseVersion s of Inl _ \<Rightarrow> \<lparr>Major = 0, Minor = 0, Patch = 0, Suffix = []\<rparr> | Inr v \<Rightarrow> v)"

definition healthAliasAvailableIn :: "string \<Rightarrow> version \<Rightarrow> bool" where
  "healthAliasAvailableIn alias v =
     (if alias \<noteq> HealthQuorum \<and> alias \<noteq> HealthReadOnlyQuorum then True
      else Compare v (versionOrZero PatroniV4) \<ge> 0)"

definition HealthAliasesFor :: "string \<Rightarrow> plain_error + string list" where
  "HealthAliasesFor versionText =
     (case checkedVersion versionText of
        Inl e \<Rightarrow> Inl e
      | Inr v \<Rightarrow> Inr (filter (\<lambda>alias. healthAliasAvailableIn alias v) HealthAliases))"

definition healthAliasSince :: "string \<Rightarrow> string" where
  "healthAliasSince alias =
     (if alias = HealthQuorum \<or> alias = HealthReadOnlyQuorum then PatroniV4 else PatroniV3)"

definition validHealthAlias :: "string \<Rightarrow> bool" where
  "validHealthAlias alias = (alias \<in> set HealthAliases)"


section \<open>Endpoints\<close>

datatype rest_risk =
    RestRead
  | RestAdminWrite
  | RestAvailabilityWrite
  | RestPeerInternalRead
  | RestPeerInternal
  | RestTestPlatformDangerous

record endpoint =
  epID :: string
  epMethod :: string
  epPath :: string
  epRisk :: rest_risk
  epRequest :: string
  epResponse :: string
  epSince :: string

definition AvailableIn :: "endpoint \<Rightarrow> version \<Rightarrow> bool" where
  "AvailableIn ep v =
     (case ParseVersion (epSince ep) of
        Inl _ \<Rightarrow> False
      | Inr since \<Rightarrow> Compare v since \<ge> 0 \<and> range_Contains auditedPatroniRange v)"

definition endpointID :: "string \<Rightarrow> string \<Rightarrow> string" where
  "endpointID verb endpointPath =
     (let name = (if Trim endpointPath ''/'' = [] then ''root'' else Trim endpointPath ''/'')
      in ToLower verb @ ''-'' @ ReplaceAllChar name (CHR ''/'') (CHR ''-''))"

definition healthEndpoint :: "string \<Rightarrow> string \<Rightarrow> endpoint" where
  "healthEndpoint alias verb =
     \<lparr>epID = endpointID verb alias, epMethod = verb, epPath = alias, epRisk = RestRead,
      epRequest = ''none'', epResponse = (if verb = ''GET'' then ''status-json'' else ''status-only''),
      epSince = healthAliasSince alias\<rparr>"

definition fixedEndpoint :: "string \<Rightarrow> string \<Rightarrow> string \<Rightarrow> rest_risk \<Rightarrow> string \<Rightarrow> string \<Rightarrow> endpoint" where
  "fixedEndpoint ident verb path rsk request response =
     \<lparr>epID = ident, epMethod = verb, epPath = path, epRisk = rsk,
      epRequest = request, epResponse = response, epSince = []\<rparr>"

definition fixedEndpoints :: "endpoint list" where
  "fixedEndpoints =
     [fixedEndpoint ''get-liveness'' ''GET'' ''/liveness'' RestRead ''none'' ''status-only'',
      fixedEndpoint ''get-readiness'' ''GET'' ''/readiness'' RestRead ''none'' ''status-only'',
      fixedEndpoint ''get-patroni'' ''GET'' ''/patroni'' RestRead ''none'' ''status-json'',
      fixedEndpoint ''get-cluster'' ''GET'' ''/cluster'' RestRead ''none'' ''cluster-json'',
      fixedEndpoint ''get-history'' ''GET'' ''/history'' RestRead ''none'' ''history-json'',
      fixedEndpoint ''get-config'' ''GET'' ''/config'' RestRead ''none'' ''config-json'',
      fixedEndpoint ''get-metrics'' ''GET'' ''/metrics'' RestRead ''none'' ''prometheus-text'',
      fixedEndpoint ''get-failsafe'' ''GET'' ''/failsafe'' RestPeerInternalRead ''none'' ''failsafe-json'',
      fixedEndpoint ''patch-config'' ''PATCH'' ''/config'' RestAdminWrite ''config-patch-json'' ''config-json'',
      fixedEndpoint ''put-config'' ''PUT'' ''/config'' RestAdminWrite ''config-json'' ''config-json'',
      fixedEndpoint ''post-reload'' ''POST'' ''/reload'' RestAdminWrite ''none'' ''text'',
      fixedEndpoint ''post-failsafe'' ''POST'' ''/failsafe'' RestPeerInternal ''failsafe-peer-json'' ''text'',
      fixedEndpoint ''post-sigterm'' ''POST'' ''/sigterm'' RestTestPlatformDangerous ''none'' ''text'',
      fixedEndpoint ''post-restart'' ''POST'' ''/restart'' RestAdminWrite ''restart-json'' ''text'',
      fixedEndpoint ''delete-restart'' ''DELETE'' ''/restart'' RestAdminWrite ''none'' ''text'',
      fixedEndpoint ''delete-switchover'' ''DELETE'' ''/switchover'' RestAdminWrite ''none'' ''text'',
      fixedEndpoint ''post-reinitialize'' ''POST'' ''/reinitialize'' RestAdminWrite ''reinitialize-json'' ''text'',
      fixedEndpoint ''post-failover'' ''POST'' ''/failover'' RestAvailabilityWrite ''failover-json'' ''text'',
      fixedEndpoint ''post-switchover'' ''POST'' ''/switchover'' RestAvailabilityWrite ''switchover-json'' ''text'',
      fixedEndpoint ''post-citus'' ''POST'' ''/citus'' RestPeerInternal ''mpp-event-json'' ''text'',
      fixedEndpoint ''post-mpp'' ''POST'' ''/mpp'' RestPeerInternal ''mpp-event-json'' ''text'']"

text \<open>The last loop of \<open>EndpointCatalog\<close>: the default version and the one exception.\<close>

definition fillSince :: "endpoint \<Rightarrow> endpoint" where
  "fillSince ep =
     (let ep = (if epSince ep = [] then ep\<lparr>epSince := PatroniV3\<rparr> else ep)
      in if epID ep = ''post-mpp'' then ep\<lparr>epSince := PatroniV3MPP\<rparr> else ep)"

definition EndpointCatalog :: "endpoint list" where
  "EndpointCatalog =
     map fillSince
       (concat (map (\<lambda>alias. map (healthEndpoint alias) [''GET'', ''HEAD'', ''OPTIONS'']) HealthAliases)
        @ fixedEndpoints)"

definition EndpointCatalogFor :: "string \<Rightarrow> plain_error + endpoint list" where
  "EndpointCatalogFor versionText =
     (case checkedVersion versionText of
        Inl e \<Rightarrow> Inl e
      | Inr v \<Rightarrow> Inr (filter (\<lambda>ep. AvailableIn ep v) EndpointCatalog))"


section \<open>Properties of the catalogue\<close>

lemma catalog_rows:
  "length EndpointCatalog = 75 \<and> distinct (map epID EndpointCatalog)
   \<and> distinct (map (\<lambda>ep. (epMethod ep, epPath ep)) EndpointCatalog)"
  by code_simp

lemma catalog_since: "list_all (\<lambda>ep. epSince ep \<in> set [PatroniV3, PatroniV3MPP, PatroniV4]) EndpointCatalog"
  by code_simp

lemma since_versions:
  "ParseVersion PatroniV3 = Inr (vsn 3 0 0 [])" "ParseVersion PatroniV4 = Inr (vsn 4 0 0 [])"
  "ParseVersion PatroniV3MPP = Inr (vsn 3 3 0 [])" "ParseVersion PatroniV4Point1 = Inr (vsn 4 1 0 [])"
  by code_simp+

lemma audited_min: "range_Contains auditedPatroniRange v \<Longrightarrow> Compare v (vsn 3 0 0 []) \<ge> 0"
  by (simp add: range_Contains_def auditedPatroniRange_def vsn_def)

lemma Compare_ge: "Compare a c \<ge> 0 \<longleftrightarrow> Compare c a \<le> 0"
  using semver.cmp_neg [of a c] by simp

lemma AvailableIn_mono:
  assumes "AvailableIn ep a" and "Compare a b \<le> 0" and "range_Contains auditedPatroniRange b"
  shows "AvailableIn ep b"
  using assms by (auto simp: AvailableIn_def Compare_ge intro: semver.cmp_trans split: sum.splits)

lemma checkedVersion_Inr:
  "checkedVersion s = Inr v \<longleftrightarrow> ParseVersion s = Inr v \<and> range_Contains auditedPatroniRange v"
  by (auto simp: checkedVersion_def CheckPatroniVersion_def split: sum.splits)

lemma subseq_filter: "(\<And>x. P x \<Longrightarrow> Q x) \<Longrightarrow> subseq (filter P xs) (filter Q xs)"
  by (induction xs) (auto intro: subseq_Cons')

text \<open>The GET row of a health alias is in the catalogue, under the version of the alias.\<close>

lemma health_rows:
  "list_all (\<lambda>ep. validHealthAlias (epPath ep) \<longrightarrow> epSince ep = healthAliasSince (epPath ep)) EndpointCatalog"
  "list_all (\<lambda>h. list_ex (\<lambda>ep. epPath ep = h \<and> epMethod ep = ''GET'') EndpointCatalog) HealthAliases"
  by code_simp+

lemma health_available:
  assumes "range_Contains auditedPatroniRange v" and "epSince ep = healthAliasSince h"
  shows "AvailableIn ep v \<longleftrightarrow> healthAliasAvailableIn h v"
  using assms audited_min [OF assms(1)]
  by (auto simp: AvailableIn_def healthAliasAvailableIn_def healthAliasSince_def versionOrZero_def since_versions)

text \<open>A feature, once present, stays present.\<close>

lemma SupportsFeature_later:
  assumes "ParseVersion s = Inr a" and "ParseVersion t = Inr b" and "Compare a b \<le> 0"
    and "SupportsFeature s f = Inr True" and "range_Contains auditedPatroniRange b"
  shows "SupportsFeature t f = Inr True"
  using assms
  by (auto simp: SupportsFeature_def checkedVersion_def CheckPatroniVersion_def Compare_ge split: sum.splits option.splits
      intro: semver.cmp_trans)

text \<open>C34: The catalogue is a table without duplicates: 75 rows, no two with the same identifier or
  the same method and path. Restricting it to a supported version keeps the order, and a newer
  version only adds rows. A health alias is offered for a version exactly when the catalogue of that version
  has its GET row. A feature that a version supports stays supported in every later supported version.\<close>

theorem EndpointCatalogFor_grows:
  assumes "ParseVersion s = Inr a" and "ParseVersion t = Inr b" and "Compare a b \<le> 0"
    and "EndpointCatalogFor s = Inr es" and "EndpointCatalogFor t = Inr fs" and "HealthAliasesFor s = Inr hs"
  shows "length EndpointCatalog = 75 \<and> distinct (map epID EndpointCatalog)
    \<and> distinct (map (\<lambda>ep. (epMethod ep, epPath ep)) EndpointCatalog)
    \<and> subseq es fs \<and> subseq es EndpointCatalog
    \<and> set hs = {h. validHealthAlias h \<and> (\<exists>ep \<in> set es. epPath ep = h \<and> epMethod ep = ''GET'')}
    \<and> (SupportsFeature s f = Inr True \<longrightarrow> SupportsFeature t f = Inr True)"
proof -
  from assms have va: "range_Contains auditedPatroniRange a" and vb: "range_Contains auditedPatroniRange b"
    and es: "es = filter (\<lambda>ep. AvailableIn ep a) EndpointCatalog"
    and fs: "fs = filter (\<lambda>ep. AvailableIn ep b) EndpointCatalog"
    and hs: "hs = filter (\<lambda>h. healthAliasAvailableIn h a) HealthAliases"
    by (auto simp: EndpointCatalogFor_def HealthAliasesFor_def checkedVersion_Inr split: sum.splits)
  have "subseq es fs" unfolding es fs by (rule subseq_filter) (rule AvailableIn_mono [OF _ assms(3) vb])
  moreover have "set hs = {h. validHealthAlias h \<and> (\<exists>ep \<in> set es. epPath ep = h \<and> epMethod ep = ''GET'')}"
    using health_rows health_available [OF va]
    unfolding hs es by (fastforce simp: validHealthAlias_def list_all_iff list_ex_iff)
  moreover have "SupportsFeature s f = Inr True \<longrightarrow> SupportsFeature t f = Inr True"
    using SupportsFeature_later [OF assms(1-3) _ vb] by blast
  ultimately show ?thesis using catalog_rows by (simp add: es)
qed

theorem EndpointCatalogFor_grows_witness:
  "\<exists>es fs. EndpointCatalogFor ''3.2.1'' = Inr es \<and> EndpointCatalogFor ''4.0.4'' = Inr fs
     \<and> subseq es fs \<and> (\<forall>ep. ep \<in> set es \<longrightarrow> epMethod ep = ''GET'' \<longrightarrow> epPath ep \<noteq> ''/quorum'')"
proof -
  let ?es = "filter (\<lambda>ep. AvailableIn ep (vsn 3 2 1 [])) EndpointCatalog"
    and ?fs = "filter (\<lambda>ep. AvailableIn ep (vsn 4 0 4 [])) EndpointCatalog"
    and ?hs = "filter (\<lambda>h. healthAliasAvailableIn h (vsn 3 2 1 [])) HealthAliases"
  have p: "ParseVersion ''3.2.1'' = Inr (vsn 3 2 1 [])" "ParseVersion ''4.0.4'' = Inr (vsn 4 0 4 [])"
    "Compare (vsn 3 2 1 []) (vsn 4 0 4 []) \<le> 0" by code_simp+
  have l: "''/quorum'' \<notin> set ?hs" "validHealthAlias ''/quorum''" by code_simp+
  have "checkedVersion ''3.2.1'' = Inr (vsn 3 2 1 [])" "checkedVersion ''4.0.4'' = Inr (vsn 4 0 4 [])" by code_simp+
  then have e: "EndpointCatalogFor ''3.2.1'' = Inr ?es" "EndpointCatalogFor ''4.0.4'' = Inr ?fs"
    "HealthAliasesFor ''3.2.1'' = Inr ?hs" by (simp_all add: EndpointCatalogFor_def HealthAliasesFor_def)
  from EndpointCatalogFor_grows [OF p e] l e show ?thesis by auto
qed

end
