(* ===== verification/Reinitialize.thy ===== *)
theory Reinitialize
  imports Member_Ops Catalog
begin

text \<open>
  Reinitializing replicas, \<^verbatim>\<open>src/control/reinitialize.go\<close>: preparation and execution over
  the shared batch execution, the feature gate for \<open>--from-leader\<close>, and the optional wait that
  polls the member's status until it has left the state \<open>creating replica\<close>.
\<close>

section \<open>The feature gate\<close>

definition checkMemberFeature :: "feature \<Rightarrow> dcs_member \<Rightarrow> goerror option" where
  "checkMemberFeature feature m =
     (let version = TrimSpace (mdPatroniVersion (mData m)) in
      if version = [] then
        Some (Errorf ''member %s has no version for feature %s: %w''
                [AStr (mName m), AStr (feature_text feature)] [Plain ErrUnsupportedPatroniVersion])
      else (case SupportsFeature version feature of
         Inl err \<Rightarrow> Some (Errorf ''member %s reports %q for feature %s: %w''
                [AStr (mName m), AStr version, AStr (feature_text feature)] [Plain err])
       | Inr supported \<Rightarrow>
           if supported then None
           else Some (Errorf ''member %s reports %q without feature %s: %w''
                  [AStr (mName m), AStr version, AStr (feature_text feature)] [Plain ErrUnsupportedPatroniVersion])))"

definition checkSnapshotsFeature :: "snapshot list \<Rightarrow> feature \<Rightarrow> goerror option" where
  "checkSnapshotsFeature sns feature =
     first_some (checkMemberFeature feature) (concat (map (\<lambda>sn. cMembers (snCluster sn)) sns))"


section \<open>Preparation\<close>

definition normalizeReinitializeRequest :: "reinitialize_request \<Rightarrow> target \<times> string list \<times> goerror option" where
  "normalizeReinitializeRequest rq = normalizeMemberRequest (riTarget rq) (riMembers rq)"

definition reinitializePreconditions ::
  "int \<Rightarrow> reinitialize_request \<Rightarrow> string list \<Rightarrow> string \<Rightarrow> precondition list" where
  "reinitializePreconditions revision rq members groups =
     [pre ''dcs.revision'' (FormatInt revision) EvidenceDCS,
      pre ''selector.members'' (Join '','' members) EvidenceControl,
      pre ''selector.citus'' (FormatBool (riCitus rq)) EvidenceControl,
      pre ''citus.groups'' groups EvidenceDCS,
      pre ''reinit.force'' (FormatBool (riForce rq)) EvidenceControl,
      pre ''reinit.fromLeader'' (FormatBool (riFromLeader rq)) EvidenceControl,
      pre ''reinit.wait'' (FormatBool (riWait rq)) EvidenceControl]"

definition featureRefused :: "reinitialize_request \<Rightarrow> snapshot list \<Rightarrow> goerror option" where
  "featureRefused rq sns =
     (if riFromLeader rq then checkSnapshotsFeature sns FeatureReinitializeFromLeader else None)"

definition PrepareReinitialize ::
  "'w service \<Rightarrow> 'w goctx \<Rightarrow> reinitialize_request \<Rightarrow> ('w, plan result) prog" where
  "PrepareReinitialize svc ctx rq = do {
     opID \<leftarrow> operationID svc;
     (case normalizeReinitializeRequest rq of (t, members, err) \<Rightarrow>
      if \<not> validContext ctx then
        failedRead svc zeroPlan opID ''reinit'' t PathREST CategoryUsage False ''reinitialize requires a context'' None
      else if err \<noteq> None then
        failedRead svc zeroPlan opID ''reinit'' t PathREST CategoryUsage False ''reinitialize request is invalid'' err
      else if members = [] \<and> \<not> riForce rq then
        failedRead svc zeroPlan opID ''reinit'' t PathREST CategoryUsage False
          ''reinitialize requires an explicitly selected member before confirmation'' None
      else do {
        (evs, r) \<leftarrow> operationSnapshots svc ''reinit'' t (riCitus rq) False;
        (case r of
           Inl f \<Rightarrow> failedReadWithEvidence svc zeroPlan opID ''reinit'' t PathREST (dfCategory f) (dfRetryable f)
                      (dfMessage f) (dfCause f) evs
         | Inr sns \<Rightarrow>
             if featureRefused rq sns \<noteq> None then
               failedReadWithEvidence svc zeroPlan opID ''reinit'' t PathREST CategoryUnsupported False
                 ''reinitialize from-leader requires Patroni 4.1 or newer'' (featureRefused rq sns) evs
             else
               (let replicaCount = sum_list (map (\<lambda>sn. length (selectMembers (snCluster sn) RoleReplica [] True)) sns);
                    targets = concat (map (\<lambda>sn. memberTargetsOf sn
                      (selectMembers (snCluster sn) RoleReplica members False)) sns) in
                if replicaCount = 0 then
                  failedReadWithEvidence svc zeroPlan opID ''reinit'' t PathREST CategoryNotFound False
                    ''reinitialize found no replica members in the cluster'' None evs
                else if members \<noteq> [] \<and> targets = [] then
                  failedReadWithEvidence svc zeroPlan opID ''reinit'' t PathREST CategoryNotFound False
                    ''reinitialize found no replica among the selected members'' None evs
                else prepareBatchPlan svc opID ''reinit'' t targets RiskDestructive
                  (if targets = [] then ''reinitialize no members (forced patronictl-compatible no-op)''
                   else ''reinitialize '' @ FormatInt (int (length targets)) @ '' selected replica member(s): ''
                          @ Join '', '' (memberNamesFromTargets targets))
                  (reinitializePreconditions (snRevision (hd sns)) rq members (snapshotGroupIDs sns))
                  ''reinitialize plan construction failed'' evs))
      })
   }"

definition validateReinitializePlan ::
  "plan \<Rightarrow> target \<Rightarrow> reinitialize_request \<Rightarrow> string list \<Rightarrow> goerror option" where
  "validateReinitializePlan p t rq members =
     (case plan_Validate p of
        Some e \<Rightarrow> Some e
      | None \<Rightarrow>
         if pOperation p \<noteq> ''reinit'' \<or> pPath p \<noteq> PathREST \<or> pRisk p \<noteq> RiskDestructive
            \<or> pRetrySafety p \<noteq> UnsafeAfterSend then
           Some (errorsNew ''plan operation contract differs from reinitialize'')
         else if ClusterID (Normalize (pTarget p)) \<noteq> ClusterID (Normalize t) then
           Some (errorsNew ''plan cluster differs from request'')
         else preconditionMismatch p (tl (reinitializePreconditions 0 rq members [])))"


section \<open>Execution\<close>

definition classifyReinitializeResponse ::
  "'w service \<Rightarrow> target \<Rightarrow> rest_response \<Rightarrow> goerror option \<Rightarrow> ('w, member_write_result) prog" where
  "classifyReinitializeResponse svc t response callError =
     (let status = respStatus response; send = patroniSendState callError status in
      if status > 0 \<and> status < 400 then do {
        e \<leftarrow> observe svc EvidencePatroni ''Patroni accepted reinitialize request'' [] ''/reinitialize'' send;
        State_Monad.return (acceptedWrite t send status e)
      }
      else if status \<noteq> 0 then do {
        e \<leftarrow> observe svc EvidencePatroni ''Patroni rejected reinitialize request'' [] ''/reinitialize'' send;
        (case classifyHTTPStatus status of (cat, retryable) \<Rightarrow>
          State_Monad.return (failedWrite ''reinit'' t send status cat retryable
            ''Patroni rejected reinitialize request'' callError e))
      }
      else do {
        e \<leftarrow> observe svc EvidencePatroni ''reinitialize transport ended without an HTTP response'' [] ''/reinitialize'' send;
        (if send = SendMaybeSent \<or> send = SendAccepted then
           State_Monad.return (unknownWrite ''reinit'' t send
             ''reinitialize may have been sent; verify before retrying'' callError e)
         else (case classifyReadError callError of (cat, retryable) \<Rightarrow>
           State_Monad.return (failedWrite ''reinit'' t SendNotSent 0 cat retryable
             ''reinitialize was not sent'' callError e)))
      })"

text \<open>The polling loop; \<open>seen\<close> remembers that the member was seen creating its replica.\<close>

fun verifyReinitializeLoop ::
  "'w service \<Rightarrow> (rest_call \<Rightarrow> 'w \<Rightarrow> (rest_response \<times> goerror option) \<times> 'w) \<Rightarrow> string \<Rightarrow> bool
   \<Rightarrow> nat \<Rightarrow> bool \<Rightarrow> bool \<Rightarrow> evidence list \<Rightarrow> ('w, bool \<times> evidence list) prog" where
  "verifyReinitializeLoop svc client baseURL accepted 0 later seen evs = State_Monad.return (False, evs)"
| "verifyReinitializeLoop svc client baseURL accepted (Suc left) later seen evs = do {
     w \<leftarrow> (if later then Wait svc restartVerificationInterval else State_Monad.return None);
     (if w \<noteq> None then do {
        e \<leftarrow> observe svc EvidenceControl ''reinitialize verification canceled'' [] ''/patroni'' SendEmpty;
        State_Monad.return (False, evs @ [e])
      } else do {
        (response, err) \<leftarrow> callREST client (GetPatroni baseURL);
        (if err \<noteq> None \<or> respStatus response < 200 \<or> respStatus response \<ge> 300 then do {
           e \<leftarrow> observe svc EvidencePatroni ''reinitialize status verification failed'' [] ''/patroni'' SendEmpty;
           verifyReinitializeLoop svc client baseURL accepted left True seen (evs @ [e])
         }
         else if respState response = ''creating replica'' then do {
           e \<leftarrow> observe svc EvidencePatroni ''reinitialize is still creating replica'' [] ''/patroni'' SendEmpty;
           verifyReinitializeLoop svc client baseURL accepted left True True (evs @ [e])
         }
         else do {
           e \<leftarrow> observe svc EvidencePatroni ''member left creating-replica state'' [] ''/patroni'' SendEmpty;
           (if accepted \<or> seen then State_Monad.return (True, evs @ [e])
            else verifyReinitializeLoop svc client baseURL accepted left True seen (evs @ [e]))
         })
      })
   }"

definition verifyReinitialize ::
  "'w service \<Rightarrow> (rest_call \<Rightarrow> 'w \<Rightarrow> (rest_response \<times> goerror option) \<times> 'w) \<Rightarrow> string \<Rightarrow> bool
   \<Rightarrow> ('w, bool \<times> evidence list) prog" where
  "verifyReinitialize svc client baseURL accepted =
     verifyReinitializeLoop svc client baseURL accepted (nat (svcVerificationAttempts svc)) False False []"

text \<open>The settlement of a member result by the outcome of a verification.\<close>

definition settleReinitialize ::
  "target \<Rightarrow> goerror option \<Rightarrow> member_write_result \<Rightarrow> bool \<Rightarrow> evidence list \<Rightarrow> member_write_result" where
  "settleReinitialize t callError m0 completed vevs =
     (let m = m0\<lparr>mwEvidence := mwEvidence m0 @ vevs\<rparr> in
      if completed then
        m\<lparr>mwOutcome := Succeeded, mwVerification := VerifiedSucceeded, mwError := None,
          mwSummary := ''reinitialize completion verified by Patroni''\<rparr>
      else if mwOutcome m \<noteq> Failed then
        m\<lparr>mwOutcome := Unknown, mwVerification := Unverified,
          mwSummary := ''reinitialize completion was not verified'',
          mwError := Some (NewError CategoryUnknown ''reinit'' t False
            ''reinitialize outcome is unknown; verify the member before retrying'' callError (mwEvidence m))\<rparr>
      else m)"

definition reinitializeMember ::
  "'w service \<Rightarrow> (rest_call \<Rightarrow> 'w \<Rightarrow> (rest_response \<times> goerror option) \<times> 'w) \<Rightarrow> 'w goctx \<Rightarrow> reinitialize_request
   \<Rightarrow> resolved_member \<Rightarrow> ('w, member_write_result) prog" where
  "reinitializeMember svc client ctx rq rm = do {
     ce \<leftarrow> ctxErr ctx;
     (if ce \<noteq> None then skippedWriteAfterCancellation svc ''reinit'' (rmTarget rm) ce
      else (case patroniBaseURL (mdAPIURL (mData (rmMember rm))) of
         Inl err \<Rightarrow> invalidRESTAddressWrite svc ''reinit'' (rmTarget rm) (rmSnapshot rm) (Some (Plain err))
       | Inr baseURL \<Rightarrow> do {
           (response, callError) \<leftarrow> callREST client (PostReinitialize baseURL (riForce rq) (riFromLeader rq));
           m \<leftarrow> classifyReinitializeResponse svc (rmTarget rm) response callError;
           (let accepted = (respStatus response > 0 \<and> respStatus response < 400) in
            if riWait rq \<and> (accepted \<or> mwSendState m = SendMaybeSent) then do {
              (completed, vevs) \<leftarrow> verifyReinitialize svc client baseURL accepted;
              State_Monad.return (settleReinitialize (rmTarget rm) callError m completed vevs)
            }
            else State_Monad.return m)
         }))
   }"

definition ExecuteReinitialize ::
  "'w service \<Rightarrow> 'w goctx \<Rightarrow> reinitialize_request \<Rightarrow> plan \<Rightarrow> ('w, batch_write_data result) prog" where
  "ExecuteReinitialize svc ctx rq p = do {
     opID \<leftarrow> (if TrimSpace (pOperationID p) = [] then operationID svc
              else State_Monad.return (TrimSpace (pOperationID p)));
     (case normalizeReinitializeRequest rq of (t, members, err) \<Rightarrow>
      if \<not> validContext ctx then
        failedRead svc zeroBatchWriteData opID ''reinit'' t PathREST CategoryUsage False
          ''reinitialize requires a context'' None
      else if err \<noteq> None then
        failedRead svc zeroBatchWriteData opID ''reinit'' t PathREST CategoryUsage False
          ''reinitialize request is invalid'' err
      else if validateReinitializePlan p t rq members \<noteq> None then
        failedRead svc zeroBatchWriteData opID ''reinit'' t PathREST CategoryUsage False
          ''reinitialize plan does not match the request'' (validateReinitializePlan p t rq members)
      else (case svcPatroni svc of
         None \<Rightarrow> failedRead svc zeroBatchWriteData opID ''reinit'' t PathREST CategoryConfig False
                   ''reinitialize requires a Patroni REST client'' None
       | Some client \<Rightarrow> do {
           (base, r) \<leftarrow> operationSnapshots svc ''reinit'' t (riCitus rq) False;
           (case r of
              Inl f \<Rightarrow> failedReadWithEvidence svc zeroBatchWriteData opID ''reinit'' t PathREST (dfCategory f)
                         (dfRetryable f) (dfMessage f) (dfCause f) base
            | Inr sns \<Rightarrow>
                if featureRefused rq sns \<noteq> None then
                  failedReadWithEvidence svc zeroBatchWriteData opID ''reinit'' t PathREST CategoryUnsupported False
                    ''reinitialize from-leader requires Patroni 4.1 or newer'' (featureRefused rq sns) base
                else if snapshotGroupIDs sns \<noteq> plannedGroups p then
                  failedReadWithEvidence svc zeroBatchWriteData opID ''reinit'' t PathREST CategoryConflict False
                    ''reinitialize was not sent because the Citus group inventory changed'' None base
                else if pTargets p = [] then
                  State_Monad.return (finalizeBatchWrite opID ''reinit'' t PathREST \<lparr>bwMembers = []\<rparr> base)
                else executeBatch svc opID ''reinit'' t p RoleReplica State_Monad.return
                       (reinitializeMember svc client ctx rq) sns base)
         }))
   }"

end
