(* ===== verification/Verify_Loop.thy ===== *)
theory Verify_Loop
  imports Control_Base
begin

text \<open>
  The verification loop that flush, pause and remove write out one by one: up to a number of readings
  of one target, a wait before each but the first, one piece of evidence per reading.  The loop is a
  combinator here, with the words of its evidence, the judgement of a snapshot and what it remembers of
  the last snapshot as arguments; every function of the source is an instance.
\<close>

record loop_words =
  lwCanceled :: string
  lwFailed :: string

fun verifyLoop ::
  "'w service \<Rightarrow> target \<Rightarrow> int \<Rightarrow> loop_words \<Rightarrow> (snapshot \<Rightarrow> bool \<times> string) \<Rightarrow> (snapshot \<Rightarrow> 'x)
   \<Rightarrow> nat \<Rightarrow> bool \<Rightarrow> 'x \<Rightarrow> evidence list \<Rightarrow> ('w, bool \<times> 'x \<times> evidence list) prog" where
  "verifyLoop svc t interval words judge note 0 later x evs = State_Monad.return (False, x, evs)"
| "verifyLoop svc t interval words judge note (Suc left) later x evs = do {
     w \<leftarrow> (if later then Wait svc interval else State_Monad.return None);
     (if w \<noteq> None then do {
        e \<leftarrow> observe svc EvidenceControl (lwCanceled words) [] (path_string PathDCS) SendEmpty;
        State_Monad.return (False, x, evs @ [e])
      } else do {
        r \<leftarrow> Snapshot svc t;
        (case r of
           Inl err \<Rightarrow> do {
             e \<leftarrow> observe svc EvidenceDCS (lwFailed words) [] (path_string PathDCS) SendEmpty;
             verifyLoop svc t interval words judge note left True x (evs @ [e])
           }
         | Inr sn \<Rightarrow> do {
             e \<leftarrow> observe svc EvidenceDCS (snd (judge sn)) (FormatInt (snRevision sn)) (snPrefix sn) SendEmpty;
             (if fst (judge sn) then State_Monad.return (True, note sn, evs @ [e])
              else verifyLoop svc t interval words judge note left True (note sn) (evs @ [e]))
           })
      })
   }"

text \<open>
  The loop reads back as the locale \<open>readback\<close> asks, remembers the last snapshot it read, and gives up
  only after all its readings or on a canceled wait.
\<close>

definition words_ok :: "loop_words \<Rightarrow> (snapshot \<Rightarrow> bool \<times> string) \<Rightarrow> bool" where
  "words_ok words judge = (lwCanceled words \<noteq> [] \<and> lwFailed words \<noteq> [] \<and> (\<forall>sn. snd (judge sn) \<noteq> []))"

fun is_reading :: "event \<Rightarrow> bool" where
  "is_reading (EvSnapshot _ _) = True"
| "is_reading _ = False"

definition persistent :: "nat \<Rightarrow> bool \<Rightarrow> event list \<Rightarrow> bool" where
  "persistent n ok ds =
     (ok \<or> length (filter is_reading ds) = n \<or> (\<exists>d c. ds \<noteq> [] \<and> last ds = EvWait d (Some c)))"

fun read_snapshots :: "event list \<Rightarrow> snapshot list" where
  "read_snapshots [] = []"
| "read_snapshots (EvSnapshot t (Inr sn) # es) = sn # read_snapshots es"
| "read_snapshots (_ # es) = read_snapshots es"

lemma read_snapshots_append [simp]: "read_snapshots (xs @ ys) = read_snapshots xs @ read_snapshots ys"
  by (induction xs rule: read_snapshots.induct) auto

definition remembers :: "(snapshot \<Rightarrow> 'x) \<Rightarrow> 'x \<Rightarrow> 'x \<Rightarrow> event list \<Rightarrow> bool" where
  "remembers note x0 x ds = (x = (if read_snapshots ds = [] then x0 else note (last (read_snapshots ds))))"

definition loop_trace ::
  "target \<Rightarrow> nat \<Rightarrow> (snapshot \<Rightarrow> bool) \<Rightarrow> (snapshot \<Rightarrow> 'x) \<Rightarrow> 'x \<Rightarrow> bool \<Rightarrow> bool \<times> 'x \<times> evidence list \<Rightarrow> event list \<Rightarrow> bool" where
  "loop_trace t n good note x0 clocked out ds =
     (readback_trace t n good (fst out) ds \<and> persistent n (fst out) ds \<and> remembers note x0 (fst (snd out)) ds
      \<and> (clocked \<longrightarrow> evidence_all_ok (snd (snd out))))"

lemma verifyLoop_trace:
  assumes "clock_ok svc \<Longrightarrow> evidence_all_ok evs" and "words_ok words judge"
  shows "valid [] (verifyLoop svc t d words judge note n later x evs)
    (loop_trace t n (\<lambda>sn. fst (judge sn)) note x (clock_ok svc))"
  using assms(1)
proof (induction n arbitrary: later x evs)
  case 0
  then show ?case by (simp add: loop_trace_def readback_trace_def persistent_def remembers_def)
next
  case (Suc n)
  have step: "valid ps (verifyLoop svc t d words judge note n True x' evs')
      (loop_trace t (Suc n) (\<lambda>sn. fst (judge sn)) note x (clock_ok svc))"
    if "clock_ok svc \<Longrightarrow> evidence_all_ok evs'" and "list_all (is_readback t) ps" and "length ps \<le> 2"
      and "\<not> list_ex (exhibits (\<lambda>sn. fst (judge sn))) ps" and "length (filter is_reading ps) = 1"
      and "remembers note x x' ps" for x' evs' ps
  proof (rule valid_mono [OF valid_shift [OF Suc.IH [OF that(1)]]])
    fix out es'
    assume "\<exists>ds. es' = ps @ ds \<and> loop_trace t n (\<lambda>sn. fst (judge sn)) note x' (clock_ok svc) out ds"
    then show "loop_trace t (Suc n) (\<lambda>sn. fst (judge sn)) note x (clock_ok svc) out es'"
      using that(2-6)
      by (auto simp: loop_trace_def readback_trace_def butlast_append persistent_def remembers_def)
  qed
  show ?case
    unfolding verifyLoop.simps
    by (intro wp step)
       (use assms(2) in \<open>auto simp: loop_trace_def readback_trace_def persistent_def remembers_def words_ok_def Suc.prems\<close>)
qed


section \<open>The contract of a verification\<close>

locale verification =
  fixes verify :: "('w, bool \<times> 'x \<times> evidence list) prog"
    and t :: target
    and bound :: nat
    and good :: "snapshot \<Rightarrow> bool"
    and recall :: "snapshot \<Rightarrow> 'x"
    and x0 :: 'x
    and clocked :: bool
  assumes loop: "valid [] verify (loop_trace t bound good recall x0 clocked)"
begin

lemma use:
  assumes "\<And>ok x evs ds. loop_trace t bound good recall x0 clocked (ok, x, evs) ds \<Longrightarrow> Q (ok, x, evs) (es @ ds)"
  shows "valid es verify Q"
  by (rule valid_use [OF loop]) (use assms in auto)

text \<open>A no is earned: no snapshot read was good, and either all readings were made or the wait
  before the next one was canceled.\<close>

lemma gives_up:
  "valid [] verify (\<lambda>(ok, _) ds. ok \<or> \<not> list_ex (exhibits good) ds
     \<and> (length (filter is_reading ds) = bound \<or> (\<exists>d c. ds \<noteq> [] \<and> last ds = EvWait d (Some c))))"
  by (rule valid_mono [OF loop]) (auto simp: loop_trace_def readback_trace_def persistent_def)

end

sublocale verification \<subseteq> reading: readback verify t bound good snd clocked
  by unfold_locales (rule valid_mono [OF loop], auto simp: loop_trace_def)

text \<open>What a reading of a trace shows.\<close>

lemma readback_facts:
  assumes "readback_trace t b good ok ds"
  shows "list_all (is_readback t) ds \<and> length ds \<le> 2 * b
    \<and> (ok \<longrightarrow> ds \<noteq> [] \<and> (\<exists>sn. last ds = EvSnapshot t (Inr sn) \<and> good sn))"
proof -
  from assms have r: "list_all (is_readback t) ds" and l: "length ds \<le> 2 * b"
    and o: "ok \<Longrightarrow> ds \<noteq> [] \<and> exhibits good (last ds)" by (auto simp: readback_trace_def)
  have "\<exists>sn. last ds = EvSnapshot t (Inr sn) \<and> good sn" if ok
  proof -
    from o [OF that] r have "is_readback t (last ds)" and "exhibits good (last ds)" by (auto simp: list_all_iff)
    then show ?thesis by (cases "last ds") (auto elim: exhibits.elims)
  qed
  with r l o show ?thesis by blast
qed

lemma is_readback_list:
  "list_all (is_readback t) ds \<Longrightarrow> list_all definite ds \<and> (\<forall>c r e. EvRest c r e \<notin> set ds)"
  by (auto simp: list_all_iff elim!: is_readback.elims)

end
