(* ===== verification/Member_Ops_Spec.thy ===== *)
theory Member_Ops_Spec
  imports Batch_Spec Reinitialize Verify_Loop Example_Service
begin

text \<open>
  What reload, restart and reinitialize guarantee.  Their classifiers and member steps are
  interpreted in the locales of \<^theory_text>\<open>Batch_Spec\<close>; the properties of the three executions
  follow from the shared description of a batch (\<open>batch_execution\<close>).
\<close>

section \<open>Classifiers\<close>

interpretation reload_answer: classifier "classifyReloadResponse svc" "\<lambda>s. s = 200 \<or> s = 202" "clock_ok svc"
  for svc :: "'w service"
proof unfold_locales
  fix t response err
  show "valid [] (classifyReloadResponse svc t response err)
      (\<lambda>m ds. ds = [] \<and> classified (clock_ok svc) (\<lambda>s. s = 200 \<or> s = 202) t response err m)"
    unfolding classifyReloadResponse_def Let_def
    by (intro wp) (use patroniSendState_range [of err 0] in \<open>auto simp: classified_def dest!: classifyHTTPStatus_category classifyReadError_category, auto simp: observed_def\<close>)
qed auto

interpretation restart_answer: classifier "classifyRestartResponse svc" "\<lambda>s. s = 200 \<or> s = 202" "clock_ok svc"
  for svc :: "'w service"
proof unfold_locales
  fix t response err
  show "valid [] (classifyRestartResponse svc t response err)
      (\<lambda>m ds. ds = [] \<and> classified (clock_ok svc) (\<lambda>s. s = 200 \<or> s = 202) t response err m)"
    unfolding classifyRestartResponse_def Let_def
    by (intro wp) (use patroniSendState_range [of err 0] in \<open>auto simp: classified_def dest!: classifyHTTPStatus_category classifyReadError_category, auto simp: observed_def\<close>)
qed auto

interpretation reinit_answer: classifier "classifyReinitializeResponse svc" "\<lambda>s. 0 < s \<and> s < 400" "clock_ok svc"
  for svc :: "'w service"
proof unfold_locales
  fix t response err
  show "valid [] (classifyReinitializeResponse svc t response err)
      (\<lambda>m ds. ds = [] \<and> classified (clock_ok svc) (\<lambda>s. 0 < s \<and> s < 400) t response err m)"
    unfolding classifyReinitializeResponse_def Let_def
    by (intro wp) (use patroniSendState_range [of err 0] in \<open>auto simp: classified_def dest!: classifyHTTPStatus_category classifyReadError_category, auto simp: observed_def\<close>)
qed auto

section \<open>Reload\<close>

lemmas member_wp = wp reload_answer.use restart_answer.use reinit_answer.use

lemma patroniSendState_zero: "patroniSendState e 0 = SendNotSent \<or> patroniSendState e 0 = SendMaybeSent \<or> patroniSendState e 0 = SendAccepted"
  using patroniSendState_range [of e 0] by auto

interpretation reload_step: member_step svc "reloadMember svc client (Some look)" 1 2
    "\<lambda>rm ds. \<exists>u r e. last ds = EvRest (PostReload u) r e \<and> respStatus r \<in> {200, 202}"
  for svc :: "'w service" and client look
proof unfold_locales
  fix rm
  show "valid [] (reloadMember svc client (Some look) rm) (member_trace (clock_ok svc) 1 2
      (\<lambda>rm ds. \<exists>u r e. last ds = EvRest (PostReload u) r e \<and> respStatus r \<in> {200, 202}) rm)"
    unfolding reloadMember_def
    by (intro member_wp) (auto simp: member_trace_def classified_def split: if_splits)
qed

section \<open>Restart\<close>

lemma verifyRestartLoop_trace:
  assumes "clock_ok svc \<Longrightarrow> evidence_all_ok evs"
  shows "valid [] (verifyRestartLoop svc t memberName at n later evs)
    (\<lambda>(ok, ev) ds. readback_trace t n (restartScheduled memberName at) ok ds \<and> (clock_ok svc \<longrightarrow> evidence_all_ok ev))"
  using assms
proof (induction n arbitrary: later evs)
  case 0
  then show ?case by (simp add: readback_trace_def)
next
  case (Suc n)
  have step: "valid ps (verifyRestartLoop svc t memberName at n True evs')
      (\<lambda>(ok, ev) ds. readback_trace t (Suc n) (restartScheduled memberName at) ok ds \<and> (clock_ok svc \<longrightarrow> evidence_all_ok ev))"
    if "clock_ok svc \<Longrightarrow> evidence_all_ok evs'" and "list_all (is_readback t) ps"
      and "length ps \<le> 2" and "\<not> list_ex (exhibits (restartScheduled memberName at)) ps" for evs' ps
    by (rule valid_mono [OF valid_shift [OF Suc.IH [OF that(1)]]])
       (use that(2-4) in \<open>auto simp: readback_trace_def butlast_append\<close>)
  show ?case
    unfolding verifyRestartLoop.simps Let_def
    by (intro wp step) (auto simp: readback_trace_def Suc.prems)
qed

interpretation restart_readback:
  readback "verifyScheduledRestart svc t memberName at" "t\<lparr>tMember := []\<rparr>"
    "nat (svcVerificationAttempts svc)" "restartScheduled memberName at" id "clock_ok svc"
  for svc :: "'w service" and t memberName at
  by unfold_locales
     (auto simp: verifyScheduledRestart_def intro!: valid_mono [OF verifyRestartLoop_trace])

definition restart_shown :: "restart_request \<Rightarrow> resolved_member \<Rightarrow> event list \<Rightarrow> bool" where
  "restart_shown rq rm ds =
     ((\<exists>u r e. last ds = EvRest (PostRestart u (restartPayload rq)) r e \<and> respStatus r \<in> {200, 202}
         \<and> (respStatus r = 202 \<longrightarrow> rsScheduledAt rq = None))
      \<or> (\<exists>at sn. rsScheduledAt rq = Some at \<and> last ds = EvSnapshot ((rmTarget rm)\<lparr>tMember := []\<rparr>) (Inr sn)
           \<and> restartScheduled (mName (rmMember rm)) at sn))"

text \<open>The settlement of a result that is not FAILED by the readings of a verification.\<close>

lemma settleScheduledRestart_spec:
  assumes "mwOutcome m0 \<noteq> Failed" and "clock_ok svc \<Longrightarrow> member_sound m0"
  shows "valid [] (settleScheduledRestart svc rm at err m0)
    (\<lambda>m ds. mwTarget m = mwTarget m0 \<and> mwOutcome m \<in> {Succeeded, Unknown}
       \<and> list_all (is_readback ((rmTarget rm)\<lparr>tMember := []\<rparr>)) ds \<and> length ds \<le> 2 * nat (svcVerificationAttempts svc)
       \<and> (mwOutcome m = Succeeded \<longrightarrow> ds \<noteq> [] \<and> (\<exists>sn. last ds = EvSnapshot ((rmTarget rm)\<lparr>tMember := []\<rparr>) (Inr sn)
            \<and> restartScheduled (mName (rmMember rm)) at sn))
       \<and> (clock_ok svc \<longrightarrow> member_sound m))"
  unfolding settleScheduledRestart_def Let_def
  by (intro wp restart_readback.use) (use assms in \<open>auto simp: member_sound_def dest!: readback_facts\<close>)

lemma member_sound_prefix:
  "member_sound m \<Longrightarrow> evidence_all_ok evs \<Longrightarrow> member_sound (m\<lparr>mwEvidence := evs @ mwEvidence m\<rparr>)"
  by (simp add: member_sound_def split: outcome.splits)

lemma classified_cases:
  assumes "classified clocked accepts t response err m"
  shows "mwTarget m = t" and "mwOutcome m \<in> {Succeeded, Failed, Unknown}" and "clocked \<Longrightarrow> member_sound m"
    and "mwSendState m = patroniSendState err (respStatus response)"
    and "mwOutcome m = Failed \<longleftrightarrow> \<not> accepts (respStatus response) \<and> (respStatus response = 0 \<longrightarrow> patroniSendState err 0 = SendNotSent)"
    and "mwOutcome m = Succeeded \<longleftrightarrow> accepts (respStatus response)"
  using assms by (auto simp: classified_def)

lemma classified_failed:
  assumes "classified clocked accepts t response err m" and "mwOutcome m = Failed"
  shows "mwSendState m \<noteq> SendMaybeSent" and "mwSendState m = SendAccepted \<Longrightarrow> respStatus response \<noteq> 0"
  using assms by (auto simp: classified_def patroniSendState_def split: if_splits)

text \<open>The POST and its settlement, behind the evidence of an earlier flush.\<close>

lemma postRestart_trace:
  assumes "clock_ok svc \<Longrightarrow> evidence_all_ok evs"
  shows "valid [] (postRestart svc client rq rm u evs)
    (\<lambda>m ds. mwTarget m = rmTarget rm \<and> (mwOutcome m = Failed \<longrightarrow> list_all definite ds)
       \<and> (mwOutcome m = Succeeded \<longrightarrow> restart_shown rq rm ds)
       \<and> (\<exists>r e rest. ds = EvRest (PostRestart u (restartPayload rq)) r e # rest
            \<and> list_all (is_readback ((rmTarget rm)\<lparr>tMember := []\<rparr>)) rest
            \<and> length rest \<le> 2 * nat (svcVerificationAttempts svc)) \<and> (clock_ok svc \<longrightarrow> member_sound m))"
  unfolding postRestart_def Let_def
  by (intro wp restart_answer.use valid_use [OF settleScheduledRestart_spec])
     (use assms in \<open>auto simp: restart_shown_def dest: classified_cases classified_failed is_readback_list intro!: member_sound_prefix\<close>)


lemma readback_bound: "list_all (is_readback t) ds \<Longrightarrow> filter is_write ds = []"
  by (rule readback_filter)

lemma forcedFlush_spec:
  "valid [] (classifyForcedRestartFlush svc t response err)
    (\<lambda>(m, cont) ds. ds = [] \<and> mwTarget m = t \<and> (clock_ok svc \<longrightarrow> member_sound m)
       \<and> (cont \<longleftrightarrow> respStatus response \<noteq> 0)
       \<and> (\<not> cont \<longrightarrow> mwOutcome m = (if patroniSendState err 0 = SendNotSent then Failed else Unknown)))"
  unfolding classifyForcedRestartFlush_def Let_def
  by (intro wp)
     (use patroniSendState_zero [of err] in \<open>auto simp: member_sound_def acceptedWrite_def failedWrite_def unknownWrite_def
        split: prod.splits dest!: classifyHTTPStatus_category classifyReadError_category, auto simp: observed_def\<close>)

lemma restart_shown_append: "ds \<noteq> [] \<Longrightarrow> restart_shown rq rm (es @ ds) = restart_shown rq rm ds"
  by (simp add: restart_shown_def)

lemma restart_segment:
  assumes "ds = EvRest (PostRestart u (restartPayload rq)) r e # rest" and "list_all (is_readback t) rest"
    and "length rest \<le> 2 * n" and "mwTarget m = rmTarget rm" and "mwOutcome m = Failed \<longrightarrow> list_all definite ds"
    and "mwOutcome m = Succeeded \<longrightarrow> restart_shown rq rm ds" and "clocked \<longrightarrow> member_sound m"
    and "patroniBaseURL (mdAPIURL (mData (rmMember rm))) = Inr u"
    and "front = [] \<or> (\<exists>r e. front = [EvRest (DeleteRestart u) r e] \<and> respStatus r \<noteq> 0)"
  shows "member_trace clocked 2 (3 + 2 * n) (restart_shown rq) rm m (EvCtx None # front @ ds)"
proof -
  from assms(1,2) have f: "filter is_write ds = [EvRest (PostRestart u (restartPayload rq)) r e]"
    and c: "\<And>c r e. EvRest c r e \<in> set ds \<Longrightarrow> rest_url c = u"
    by (auto simp: readback_filter dest: is_readback_list)
  have "restart_shown rq rm (EvCtx None # front @ ds) = restart_shown rq rm ds"
    using assms(1) restart_shown_append [of ds rq rm "EvCtx None # front"] by simp
  with assms f c show ?thesis unfolding member_trace_def by auto
qed

lemma postRestart_member:
  assumes "clock_ok svc \<Longrightarrow> evidence_all_ok evs" and "patroniBaseURL (mdAPIURL (mData (rmMember rm))) = Inr u"
    and "es = EvCtx None # front"
    and "front = [] \<or> (\<exists>r e. front = [EvRest (DeleteRestart u) r e] \<and> respStatus r \<noteq> 0)"
  shows "valid es (postRestart svc client rq rm u evs)
    (member_trace (clock_ok svc) 2 (3 + 2 * nat (svcVerificationAttempts svc)) (restart_shown rq) rm)"
proof (rule valid_use [OF postRestart_trace], fact)
  fix m ds
  assume "mwTarget m = rmTarget rm \<and> (mwOutcome m = Failed \<longrightarrow> list_all definite ds)
       \<and> (mwOutcome m = Succeeded \<longrightarrow> restart_shown rq rm ds)
       \<and> (\<exists>r e rest. ds = EvRest (PostRestart u (restartPayload rq)) r e # rest
            \<and> list_all (is_readback ((rmTarget rm)\<lparr>tMember := []\<rparr>)) rest
            \<and> length rest \<le> 2 * nat (svcVerificationAttempts svc)) \<and> (clock_ok svc \<longrightarrow> member_sound m)"
  then show "member_trace (clock_ok svc) 2 (3 + 2 * nat (svcVerificationAttempts svc)) (restart_shown rq) rm m (es @ ds)"
    using restart_segment [OF _ _ _ _ _ _ _ assms(2,4)] assms(3) by auto
qed

interpretation restart_step: member_step svc "restartMember svc client (Some look) rq" 2
    "3 + 2 * nat (svcVerificationAttempts svc)" "restart_shown rq"
  for svc :: "'w service" and client look rq
proof unfold_locales
  fix rm
  show "valid [] (restartMember svc client (Some look) rq rm)
      (member_trace (clock_ok svc) 2 (3 + 2 * nat (svcVerificationAttempts svc)) (restart_shown rq) rm)"
    unfolding restartMember_def
    by (intro wp valid_use [OF forcedFlush_spec] postRestart_member)
       (auto simp: member_sound_evidence member_trace_def split: if_splits)
qed

section \<open>Reinitialize\<close>

definition replica_left :: "string \<Rightarrow> event \<Rightarrow> bool" where
  "replica_left u e = (\<exists>r. e = EvRest (GetPatroni u) r None \<and> 200 \<le> respStatus r \<and> respStatus r < 300
     \<and> respState r \<noteq> ''creating replica'')"

fun is_poll :: "string \<Rightarrow> event \<Rightarrow> bool" where
  "is_poll u (EvRest (GetPatroni v) _ _) = (v = u)"
| "is_poll u (EvWait _ _) = True"
| "is_poll u _ = False"

lemma verifyReinitializeLoop_trace:
  assumes "clock_ok svc \<Longrightarrow> evidence_all_ok evs"
  shows "valid [] (verifyReinitializeLoop svc client u accepted n later seen evs)
    (\<lambda>(ok, ev) ds. list_all (is_poll u) ds \<and> length ds \<le> 2 * n
       \<and> (ok \<longrightarrow> ds \<noteq> [] \<and> replica_left u (last ds)
            \<and> (accepted \<or> seen \<or> (\<exists>r. EvRest (GetPatroni u) r None \<in> set ds \<and> respState r = ''creating replica'')))
       \<and> (clock_ok svc \<longrightarrow> evidence_all_ok ev))"
  using assms
proof (induction n arbitrary: later seen evs)
  case 0
  then show ?case by simp
next
  case (Suc n)
  show ?case
    unfolding verifyReinitializeLoop.simps
    by (intro wp valid_use [OF Suc.IH]) (auto simp: replica_left_def Suc.prems)
qed

definition reinit_shown :: "reinitialize_request \<Rightarrow> resolved_member \<Rightarrow> event list \<Rightarrow> bool" where
  "reinit_shown rq rm ds =
     ((\<not> riWait rq \<and> (\<exists>u r e. last ds = EvRest (PostReinitialize u (riForce rq) (riFromLeader rq)) r e
         \<and> 0 < respStatus r \<and> respStatus r < 400))
      \<or> riWait rq \<and> (\<exists>u. replica_left u (last ds)))"

lemma is_poll_list:
  "list_all (is_poll u) ds \<Longrightarrow> list_all definite ds \<and> filter is_write ds = [] \<and> (\<forall>c r e. EvRest c r e \<in> set ds \<longrightarrow> rest_url c = u)"
  by (induction ds) (auto elim!: is_poll.elims)

lemma settleReinitialize_sound:
  assumes "member_sound m0" and "evidence_all_ok vevs" and "mwOutcome m0 \<noteq> Failed"
  shows "member_sound (settleReinitialize t err m0 completed vevs)"
  using assms by (auto simp: member_sound_def settleReinitialize_def Let_def)

lemma settleReinitialize_sel [simp]:
  "mwTarget (settleReinitialize t err m0 completed vevs) = mwTarget m0"
  "mwOutcome m0 \<noteq> Failed \<Longrightarrow> mwOutcome (settleReinitialize t err m0 completed vevs) = (if completed then Succeeded else Unknown)"
  by (simp_all add: settleReinitialize_def Let_def)

lemma reinit_unsure:
  assumes "classified clocked (\<lambda>s. 0 < s \<and> s < 400) t response err m"
    and "0 < respStatus response \<and> respStatus response < 400 \<or> mwSendState m = SendMaybeSent"
  shows "mwOutcome m \<noteq> Failed"
  using assms by (auto simp: classified_def patroniSendState_def split: if_splits)

interpretation reinit_step: member_step svc "reinitializeMember svc client (Some look) rq" 1
    "2 + 2 * nat (svcVerificationAttempts svc)" "reinit_shown rq"
  for svc :: "'w service" and client look rq
proof unfold_locales
  fix rm
  show "valid [] (reinitializeMember svc client (Some look) rq rm)
      (member_trace (clock_ok svc) 1 (2 + 2 * nat (svcVerificationAttempts svc)) (reinit_shown rq) rm)"
    unfolding reinitializeMember_def verifyReinitialize_def Let_def
    by (intro wp reinit_answer.use valid_use [OF verifyReinitializeLoop_trace])
       (auto simp: member_trace_def reinit_shown_def
          dest: is_poll_list classified_cases reinit_unsure intro: settleReinitialize_sound split: if_splits)
qed

section \<open>Executions of a batch\<close>

definition batch_execution ::
  "'w service \<Rightarrow> string \<Rightarrow> target \<Rightarrow> plan \<Rightarrow> role \<Rightarrow> (resolved_member \<Rightarrow> member_write_result \<Rightarrow> event list \<Rightarrow> bool)
   \<Rightarrow> (resolved_member \<Rightarrow> bool) \<Rightarrow> (snapshot list \<Rightarrow> bool) \<Rightarrow> batch_write_data result \<Rightarrow> event list \<Rightarrow> bool" where
  "batch_execution svc operation t p r trace extra guard res es =
     ((rOutcome res = Failed \<and> rData res = zeroBatchWriteData \<and> list_all is_read es
       \<and> (clock_ok svc \<and> target_ok (Normalize t) \<longrightarrow> result_Validate res = None))
      \<or> (\<exists>base sns reads opID ds d. guard sns \<and> opID \<noteq> [] \<and> es = reads @ ds
           \<and> read_trace (clock_ok svc) (\<lambda>sn. checkSnapshotPatroniVersion svc sn False) (base, Inr sns) reads
           \<and> snapshotGroupIDs sns = plannedGroups p
           \<and> res = finalizeBatchWrite opID operation t PathREST d base
           \<and> batch_run trace extra (clock_ok svc) sns r (pTargets p) (bwMembers d) ds))"

lemma batch_early:
  assumes "failed_with svc zeroBatchWriteData opID operation t path cat message evs res" and "list_all is_read es"
    and "opID \<noteq> []" "operation \<noteq> []" "message \<noteq> []" "validPath path" "validCategory cat" "cat \<noteq> CategoryUnknown"
    and "clock_ok svc \<Longrightarrow> evidence_all_ok evs"
  shows "batch_execution svc operation t p r trace extra guard res es"
  using assms failed_with_ok [OF assms(1)] unfolding batch_execution_def by (auto simp: failed_with_def)

lemma batch_late:
  assumes "guard sns" and "opID \<noteq> []"
    and "read_trace (clock_ok svc) (\<lambda>sn. checkSnapshotPatroniVersion svc sn False) (base, Inr sns) reads"
    and "snapshotGroupIDs sns = plannedGroups p"
    and "valid [] m (\<lambda>res ds. \<exists>d. res = finalizeBatchWrite opID operation t PathREST d base
           \<and> batch_run trace extra (clock_ok svc) sns r (pTargets p) (bwMembers d) ds)"
  shows "valid reads m (batch_execution svc operation t p r trace extra guard)"
  unfolding batch_execution_def by (rule valid_use [OF assms(5)]) (use assms(1-4) in blast)

lemma return_narrow:
  "valid [] (State_Monad.return (rms, cs)) (\<lambda>(rms', cs') ds. ds = []
      \<and> (cs' = [] \<longrightarrow> cs = [] \<and> rms' = rms \<and> list_all (\<lambda>_. True) rms)
      \<and> (\<forall>c \<in> set cs'. c \<in> set cs \<or> refused b c \<and> (\<exists>rm \<in> set rms. mwTarget c = rmTarget rm)))"
  by (simp add: list_all_iff)

definition reload_guard :: "'w service \<Rightarrow> 'w goctx \<Rightarrow> reload_request \<Rightarrow> plan \<Rightarrow> bool" where
  "reload_guard svc ctx rq p =
     (ctx \<noteq> None \<and> svcPatroni svc \<noteq> None
      \<and> (case normalizeReloadRequest rq of (t, members, err) \<Rightarrow> err = None
           \<and> validateReloadPlan p t (normalizedWriteRole (rlRole rq)) members (rlCitus rq) = None))"

definition reload_trace :: "'w service \<Rightarrow> resolved_member \<Rightarrow> member_write_result \<Rightarrow> event list \<Rightarrow> bool" where
  "reload_trace svc = member_trace (clock_ok svc) 1 2
     (\<lambda>rm ds. \<exists>u r e. last ds = EvRest (PostReload u) r e \<and> respStatus r \<in> {200, 202})"

lemma valid_batch_early:
  assumes "list_all is_read es" and "opID \<noteq> []" "operation \<noteq> []" "message \<noteq> []" "validCategory cat" "cat \<noteq> CategoryUnknown"
    and "clock_ok svc \<Longrightarrow> evidence_all_ok evs"
  shows "valid es (failedReadWithEvidence svc zeroBatchWriteData opID operation t PathREST cat retry message cause evs)
    (batch_execution svc operation t p r trace extra guard)"
  by (rule valid_failedReadWithEvidence, erule batch_early) (use assms in simp_all)

lemmas batch_wp = valid_bind valid_planOperationID valid_prod valid_if valid_option
  valid_use [OF operationSnapshots_spec] valid_sum valid_batch_early

lemma reload_batch:
  "valid [] (executeBatch svc opID operation t p r State_Monad.return (reloadMember svc client (Some look)) sns base)
    (\<lambda>res ds. \<exists>d. res = finalizeBatchWrite opID operation t PathREST d base
       \<and> batch_run (reload_trace svc) (\<lambda>_. True) (clock_ok svc) sns r (pTargets p) (bwMembers d) ds)"
  unfolding reload_trace_def by (rule reload_step.execute [OF return_narrow])

lemma ExecuteReload_execution:
  "valid [] (ExecuteReload svc ctx rq p)
    (batch_execution svc ''reload'' (fst (normalizeReloadRequest rq)) p (normalizedWriteRole (rlRole rq))
       (reload_trace svc) (\<lambda>_. True) (\<lambda>_. reload_guard svc ctx rq p))"
proof (cases ctx)
  case None
  then show ?thesis
    by (auto simp: ExecuteReload_def validContext_def split_beta intro!: valid_bind valid_operationID valid_batch_early)
next
  case (Some look)
  obtain t members err where n: "normalizeReloadRequest rq = (t, members, err)" by (cases "normalizeReloadRequest rq")
  show ?thesis
    unfolding ExecuteReload_def Some n prod.case fst_conv
    by (intro batch_wp batch_late [OF _ _ _ _ reload_batch])
       (auto simp: reload_guard_def validContext_def n dest: reads_only read_failed read_evidence)
qed

definition restart_guard :: "'w service \<Rightarrow> 'w goctx \<Rightarrow> restart_request \<Rightarrow> plan \<Rightarrow> bool" where
  "restart_guard svc ctx rq p =
     (ctx \<noteq> None \<and> svcPatroni svc \<noteq> None
      \<and> (case normalizeRestartRequest (svcRuntime svc) rq of (t, members, err) \<Rightarrow> err = None
           \<and> validateRestartPlan p t rq members = None))"

definition restart_trace :: "'w service \<Rightarrow> restart_request \<Rightarrow> resolved_member \<Rightarrow> member_write_result \<Rightarrow> event list \<Rightarrow> bool" where
  "restart_trace svc rq =
     member_trace (clock_ok svc) 2 (3 + 2 * nat (svcVerificationAttempts svc)) (restart_shown rq)"

definition restart_extra :: "restart_request \<Rightarrow> resolved_member \<Rightarrow> bool" where
  "restart_extra rq rm = (rsPending rq \<and> rsScheduledAt rq = None \<longrightarrow> pendingRestart (rmMember rm))"

lemma requirePendingMember_spec:
  "valid [] (requirePendingMember svc rm) (\<lambda>x ds. ds = [] \<and> (case x of
       Inr rm' \<Rightarrow> rm' = rm \<and> pendingRestart (rmMember rm)
     | Inl c \<Rightarrow> mwTarget c = rmTarget rm \<and> refused (clock_ok svc) c))"
  unfolding requirePendingMember_def by (intro wp) auto

lemma require_list:
  assumes "list_all2 (\<lambda>rm x. case x of Inr rm' \<Rightarrow> rm' = rm \<and> P rm | Inl c \<Rightarrow> mwTarget c = rmTarget rm \<and> refused b c) rms xs"
  shows "(lefts xs = [] \<longrightarrow> rights xs = rms \<and> list_all P rms)
    \<and> (\<forall>c \<in> set (lefts xs). refused b c \<and> (\<exists>rm \<in> set rms. mwTarget c = rmTarget rm))"
  using assms by (induction rule: list_all2_induct) (auto split: sum.splits)

lemma restart_narrow:
  "valid [] ((if rsPending rq \<and> rsScheduledAt rq = None then requirePendingRestart svc else State_Monad.return) (rms, cs))
    (\<lambda>(rms', cs') ds. ds = []
      \<and> (cs' = [] \<longrightarrow> cs = [] \<and> rms' = rms \<and> list_all (restart_extra rq) rms)
      \<and> (\<forall>c \<in> set cs'. c \<in> set cs \<or> refused (clock_ok svc) c \<and> (\<exists>rm \<in> set rms. mwTarget c = rmTarget rm)))"
proof (cases "rsPending rq \<and> rsScheduledAt rq = None")
  case True
  have "valid [] (requirePendingRestart svc (rms, cs))
    (\<lambda>(rms', cs') ds. ds = []
      \<and> (cs' = [] \<longrightarrow> cs = [] \<and> rms' = rms \<and> list_all (restart_extra rq) rms)
      \<and> (\<forall>c \<in> set cs'. c \<in> set cs \<or> refused (clock_ok svc) c \<and> (\<exists>rm \<in> set rms. mwTarget c = rmTarget rm)))"
    unfolding requirePendingRestart_def fst_conv snd_conv
    by (intro valid_bind valid_forEach [OF requirePendingMember_spec] valid_returnI)
       (auto simp: segments_quiet restart_extra_def list_all_iff
          dest!: require_list [where P = "\<lambda>rm. pendingRestart (rmMember rm)"])
  with True show ?thesis by simp
next
  case False
  then show ?thesis by (auto simp: restart_extra_def list_all_iff)
qed

lemma restart_batch:
  "valid [] (executeBatch svc opID operation t p r
      (if rsPending rq \<and> rsScheduledAt rq = None then requirePendingRestart svc else State_Monad.return)
      (restartMember svc client (Some look) rq) sns base)
    (\<lambda>res ds. \<exists>d. res = finalizeBatchWrite opID operation t PathREST d base
       \<and> batch_run (restart_trace svc rq) (restart_extra rq) (clock_ok svc) sns r (pTargets p) (bwMembers d) ds)"
  unfolding restart_trace_def by (rule restart_step.execute [OF restart_narrow])

lemma ExecuteRestart_execution:
  "valid [] (ExecuteRestart svc ctx rq p)
    (batch_execution svc ''restart'' (fst (normalizeRestartRequest (svcRuntime svc) rq)) p (normalizedWriteRole (rsRole rq))
       (restart_trace svc rq) (restart_extra rq) (\<lambda>_. restart_guard svc ctx rq p))"
proof (cases ctx)
  case None
  then show ?thesis
    by (auto simp: ExecuteRestart_def validContext_def split_beta intro!: valid_bind valid_operationID valid_batch_early)
next
  case (Some look)
  obtain t members err where n: "normalizeRestartRequest (svcRuntime svc) rq = (t, members, err)" by (cases "normalizeRestartRequest (svcRuntime svc) rq")
  show ?thesis
    unfolding ExecuteRestart_def Some n prod.case fst_conv
    by (intro batch_wp batch_late [OF _ _ _ _ restart_batch])
       (auto simp: restart_guard_def validContext_def n dest: reads_only read_failed read_evidence)
qed

definition reinit_guard :: "'w service \<Rightarrow> 'w goctx \<Rightarrow> reinitialize_request \<Rightarrow> plan \<Rightarrow> snapshot list \<Rightarrow> bool" where
  "reinit_guard svc ctx rq p sns =
     (ctx \<noteq> None \<and> svcPatroni svc \<noteq> None
      \<and> (case normalizeReinitializeRequest rq of (t, members, err) \<Rightarrow> err = None
           \<and> validateReinitializePlan p t rq members = None)
      \<and> featureRefused rq sns = None)"

definition reinit_trace :: "'w service \<Rightarrow> reinitialize_request \<Rightarrow> resolved_member \<Rightarrow> member_write_result \<Rightarrow> event list \<Rightarrow> bool" where
  "reinit_trace svc rq =
     member_trace (clock_ok svc) 1 (2 + 2 * nat (svcVerificationAttempts svc)) (reinit_shown rq)"

lemma reinit_batch:
  "valid [] (executeBatch svc opID operation t p r State_Monad.return (reinitializeMember svc client (Some look) rq) sns base)
    (\<lambda>res ds. \<exists>d. res = finalizeBatchWrite opID operation t PathREST d base
       \<and> batch_run (reinit_trace svc rq) (\<lambda>_. True) (clock_ok svc) sns r (pTargets p) (bwMembers d) ds)"
  unfolding reinit_trace_def by (rule reinit_step.execute [OF return_narrow])

lemma reinit_empty:
  assumes "pTargets p = []"
  shows "valid [] (State_Monad.return (finalizeBatchWrite opID operation t PathREST \<lparr>bwMembers = []\<rparr> base))
    (\<lambda>res ds. \<exists>d. res = finalizeBatchWrite opID operation t PathREST d base
       \<and> batch_run trace extra b sns r (pTargets p) (bwMembers d) ds)"
  by (rule valid_returnI, rule exI [of _ "\<lparr>bwMembers = []\<rparr>"]) (simp add: assms batch_run_def)

lemma ExecuteReinitialize_execution:
  "valid [] (ExecuteReinitialize svc ctx rq p)
    (batch_execution svc ''reinit'' (fst (normalizeReinitializeRequest rq)) p RoleReplica
       (reinit_trace svc rq) (\<lambda>_. True) (reinit_guard svc ctx rq p))"
proof (cases ctx)
  case None
  then show ?thesis
    by (auto simp: ExecuteReinitialize_def validContext_def split_beta intro!: valid_bind valid_operationID valid_batch_early)
next
  case (Some look)
  obtain t members err where n: "normalizeReinitializeRequest rq = (t, members, err)" by (cases "normalizeReinitializeRequest rq")
  show ?thesis
    unfolding ExecuteReinitialize_def Some n prod.case fst_conv
    by (intro batch_wp batch_late [OF _ _ _ _ reinit_empty] batch_late [OF _ _ _ _ reinit_batch])
       (auto simp: reinit_guard_def validContext_def n dest: reads_only read_failed read_evidence)
qed

section \<open>Consequences\<close>

text \<open>What stands before the first write of a batch.\<close>

definition batch_guarded ::
  "'w service \<Rightarrow> plan \<Rightarrow> role \<Rightarrow> (resolved_member \<Rightarrow> bool) \<Rightarrow> (snapshot list \<Rightarrow> bool) \<Rightarrow> event list \<Rightarrow> bool" where
  "batch_guarded svc p r extra guard es =
     (\<exists>reads sns rms ds. es = reads @ ds \<and> list_all is_read reads \<and> sns \<noteq> [] \<and> guard sns
        \<and> (\<forall>sn \<in> set sns. read_in reads sn \<and> checkSnapshotPatroniVersion svc sn False = None)
        \<and> snapshotGroupIDs sns = plannedGroups p
        \<and> map (resolution sns r) (pTargets p) = map Some rms \<and> list_all extra rms)"

lemma finalize_data [simp]:
  "rData (finalizeBatchWrite opID operation t path d base) = d"
  "rOutcome (finalizeBatchWrite opID operation t path d base) = aggregate (bwMembers d)"
  by (simp_all add: finalizeBatchWrite_def Let_def batchOutcome_aggregate)

lemma execution_writes:
  assumes "batch_execution svc operation t p r trace extra guard res es" and w: "list_ex is_write es"
  obtains base sns reads ds rms where "es = reads @ ds" "guard sns" "snapshotGroupIDs sns = plannedGroups p"
    "read_trace (clock_ok svc) (\<lambda>sn. checkSnapshotPatroniVersion svc sn False) (base, Inr sns) reads"
    "map (resolution sns r) (pTargets p) = map Some rms" "list_all extra rms" "segments trace rms (bwMembers (rData res)) ds"
proof -
  from assms is_read_no_write obtain base sns reads opID ds d where x: "guard sns" "es = reads @ ds"
    "read_trace (clock_ok svc) (\<lambda>sn. checkSnapshotPatroniVersion svc sn False) (base, Inr sns) reads"
    "snapshotGroupIDs sns = plannedGroups p" "res = finalizeBatchWrite opID operation t PathREST d base"
    "batch_run trace extra (clock_ok svc) sns r (pTargets p) (bwMembers d) ds"
    unfolding batch_execution_def by blast
  from x(3) have "list_all is_read reads" by (simp add: read_trace_def)
  with is_read_no_write have "ds \<noteq> []" using w x(2) by fastforce
  then obtain rms where "map (resolution sns r) (pTargets p) = map Some rms" "list_all extra rms"
    "segments trace rms (bwMembers d) ds"
    using x(6) unfolding batch_run_def by blast
  with x that show ?thesis by simp
qed

lemma execution_guarded:
  assumes "batch_execution svc operation t p r trace extra guard res es" and "list_ex is_write es"
  shows "batch_guarded svc p r extra guard es"
  using assms by (rule execution_writes) (auto simp: batch_guarded_def read_trace_def)

text \<open>The calls of a batch, member by member: every planned target stands for the member of its name in the
  snapshots that were read, with the role, and this member has the segment and the result at its place.\<close>

definition batch_explained ::
  "plan \<Rightarrow> role \<Rightarrow> (resolved_member \<Rightarrow> member_write_result \<Rightarrow> event list \<Rightarrow> bool) \<Rightarrow> batch_write_data result \<Rightarrow> event list \<Rightarrow> bool" where
  "batch_explained p r trace res es =
     (\<exists>reads sns rms ds. es = reads @ ds \<and> list_all is_read reads \<and> (\<forall>sn \<in> set sns. read_in reads sn)
        \<and> map (resolution sns r) (pTargets p) = map Some rms
        \<and> segments trace rms (bwMembers (rData res)) ds)"

lemma execution_explained_by_members:
  assumes "batch_execution svc operation t p r trace extra guard res es" and "list_ex is_write es"
  shows "batch_explained p r trace res es"
  using assms
proof (rule execution_writes)
  fix base sns reads ds rms
  assume "es = reads @ ds" "map (resolution sns r) (pTargets p) = map Some rms" "segments trace rms (bwMembers (rData res)) ds"
    and "read_trace (clock_ok svc) (\<lambda>sn. checkSnapshotPatroniVersion svc sn False) (base, Inr sns) reads"
  then show ?thesis unfolding batch_explained_def
    by (intro exI [of _ reads] exI [of _ sns] exI [of _ rms] exI [of _ ds]) (simp add: read_trace_def)
qed

definition batch_complete :: "plan \<Rightarrow> nat \<Rightarrow> batch_write_data result \<Rightarrow> event list \<Rightarrow> bool" where
  "batch_complete p k res es =
     (rOutcome res = Failed \<and> bwMembers (rData res) = [] \<and> \<not> list_ex is_write es
      \<or> rOutcome res = aggregate (bwMembers (rData res))
        \<and> list_all2 (\<lambda>raw m. MemberID (mwTarget m) = MemberID raw) (pTargets p) (bwMembers (rData res))
        \<and> length (filter is_write es) \<le> k * length (pTargets p))"

lemma execution_complete:
  assumes "member_step svc step k n shown"
    and "batch_execution svc operation t p r (member_trace (clock_ok svc) k n shown) extra guard res es"
  shows "batch_complete p k res es"
  using assms(2) unfolding batch_execution_def
proof (elim disjE exE conjE)
  fix base sns reads opID ds d
  assume es: "es = reads @ ds" and res: "res = finalizeBatchWrite opID operation t PathREST d base"
    and "read_trace (clock_ok svc) (\<lambda>sn. checkSnapshotPatroniVersion svc sn False) (base, Inr sns) reads"
    and run: "batch_run (member_trace (clock_ok svc) k n shown) extra (clock_ok svc) sns r (pTargets p) (bwMembers d) ds"
  then have "filter is_write reads = []" using is_read_no_write by (simp add: read_trace_def)
  with member_step.results [OF assms(1) run] member_step.bounded [OF assms(1) run] es res
  show ?thesis by (simp add: batch_complete_def)
qed (simp add: batch_complete_def zeroBatchWriteData_def is_read_no_write)

text \<open>All results of a batch are well formed.\<close>

definition batch_valid :: "batch_write_data result \<Rightarrow> bool" where
  "batch_valid res = (result_Validate res = None \<and> (\<forall>m \<in> set (bwMembers (rData res)). member_write_Validate m = None))"

lemma execution_valid:
  assumes "member_step svc step k n shown" and clock: "clock_ok svc" and "target_ok (Normalize t)" and op: "operation \<noteq> []"
    and guard: "\<And>sns. guard sns \<Longrightarrow> plan_Validate p = None \<and> target_ok t"
    and "batch_execution svc operation t p r (member_trace (clock_ok svc) k n shown) extra guard res es"
  shows "batch_valid res"
  using assms(6) unfolding batch_execution_def
proof (elim disjE exE conjE)
  fix base sns reads opID ds d
  assume g: "guard sns" and res: "res = finalizeBatchWrite opID operation t PathREST d base" and o: "opID \<noteq> []"
    and read: "read_trace (clock_ok svc) (\<lambda>sn. checkSnapshotPatroniVersion svc sn False) (base, Inr sns) reads"
    and run: "batch_run (member_trace (clock_ok svc) k n shown) extra (clock_ok svc) sns r (pTargets p) (bwMembers d) ds"
  have "\<forall>raw \<in> set (pTargets p). Validate raw True = None \<and> TrimSpace (tMember raw) \<noteq> []"
    using valid_targets guard [OF g] by blast
  then have ms: "member_write_Validate m = None" if "m \<in> set (bwMembers d)" for m
    using member_step.wellformed [OF assms(1) run clock _ that] by blast
  then have "\<forall>m \<in> set (bwMembers d). evidence_all_ok (mwEvidence m)"
    by (simp add: member_write_Validate_None member_sound_evidence)
  then have "result_Validate res = None"
    unfolding res using read clock guard [OF g] o op by (intro finalizeBatchWrite_ok) (auto simp: read_trace_def)
  with ms res show ?thesis by (simp add: batch_valid_def)
qed (use clock assms(3) in \<open>auto simp: batch_valid_def zeroBatchWriteData_def\<close>)


section \<open>Preparation\<close>

text \<open>A preparation only reads; when it succeeds, the plan is valid, was made from the snapshots read
  and passes the plan check of the execution.\<close>

definition prepared ::
  "role \<Rightarrow> string list \<Rightarrow> (plan \<Rightarrow> bool) \<Rightarrow> plan result \<Rightarrow> event list \<Rightarrow> bool" where
  "prepared r members accepted res es =
     (list_all is_read es
      \<and> (rOutcome res = Failed
         \<or> rOutcome res = Succeeded \<and> plan_Validate (rData res) = None \<and> accepted (rData res)
           \<and> (\<exists>sns. (\<forall>sn \<in> set sns. read_in es sn) \<and> plannedGroups (rData res) = snapshotGroupIDs sns
                \<and> selected_from sns r members (rData res))))"

lemma valid_prepared_early:
  "list_all is_read es \<Longrightarrow>
   valid es (failedReadWithEvidence svc zeroPlan opID operation t PathREST cat retry message cause evs) (prepared r members A)"
  by (rule valid_failedReadWithEvidence) (simp add: prepared_def failed_with_def)

lemma valid_prepareBatchPlan:
  assumes "read_trace c check (base, Inr sns) es"
    and "\<And>p. p = \<lparr>pOperationID = opID, pOperation = operation, pTarget = t, pTargets = targets, pPath = PathREST,
            pRisk = rsk, pRetrySafety = UnsafeAfterSend, pSummary = summary, pPreconditions = preconditions\<rparr>
      \<Longrightarrow> plan_Validate p = None \<Longrightarrow> A p \<and> plannedGroups p = snapshotGroupIDs sns \<and> selected_from sns r members p"
  shows "valid es (prepareBatchPlan svc opID operation t targets rsk summary preconditions failed evs) (prepared r members A)"
proof -
  have e: "list_all is_read es" "\<forall>sn \<in> set sns. read_in es sn" using assms(1) by (auto simp: read_trace_def)
  then show ?thesis
    unfolding prepareBatchPlan_def Let_def
    by (intro valid_option valid_prepared_early valid_returnI) (use assms(2) in \<open>auto simp: prepared_def\<close>)
qed

lemma selected_from_targets:
  assumes "pTargets p = concat (map (\<lambda>sn. memberTargetsOf sn (selectMembers (snCluster sn) r members everyone)) sns)"
  shows "selected_from sns r members p"
  using assms by (fastforce simp: selected_from_def memberTargetsOf_def dest: selectMembers_in)

lemmas prepare_wp = valid_bind valid_operationID valid_prod valid_if valid_sum valid_use [OF operationSnapshots_spec]
  valid_prepared_early

definition reload_accepts :: "reload_request \<Rightarrow> plan \<Rightarrow> bool" where
  "reload_accepts rq p =
     (case normalizeReloadRequest rq of (t, members, err) \<Rightarrow>
        err = None \<and> validateReloadPlan p t (normalizedWriteRole (rlRole rq)) members (rlCitus rq) = None)"

lemma PrepareReload_prepared:
  "valid [] (PrepareReload svc ctx rq)
    (prepared (normalizedWriteRole (rlRole rq)) (fst (snd (normalizeReloadRequest rq))) (reload_accepts rq))"
proof -
  obtain t members err where n: "normalizeReloadRequest rq = (t, members, err)" by (cases "normalizeReloadRequest rq")
  show ?thesis
    unfolding PrepareReload_def n prod.case Let_def fst_conv snd_conv
    by (intro prepare_wp valid_prepareBatchPlan)
       (auto simp: reload_accepts_def n validateReloadPlan_def expectedPrecondition_find plannedGroups_def
          intro!: selected_from_targets dest: reads_only)
qed


definition restart_accepts :: "'w goruntime \<Rightarrow> restart_request \<Rightarrow> plan \<Rightarrow> bool" where
  "restart_accepts rt rq p =
     (case normalizeRestartRequest rt rq of (t, members, err) \<Rightarrow> err = None \<and> validateRestartPlan p t rq members = None)"

lemma selectRestart_in:
  assumes "selectRestart rq members sns acc = Inr sel" and "rm \<in> set sel"
  shows "rm \<in> set acc \<or> (\<exists>sn \<in> set sns. \<exists>m \<in> set (selectMembers (snCluster sn) (normalizedWriteRole (rsRole rq)) members True).
    rm = \<lparr>rmTarget = (Normalize (snTarget sn))\<lparr>tMember := mName m\<rparr>, rmMember = m, rmSnapshot = sn\<rparr>)"
  using assms
proof (induction rq members sns acc rule: selectRestart.induct)
  case (2 rq members sn sns acc)
  from 2(2,3) have "rm \<in> set (acc @ map (\<lambda>m. \<lparr>rmTarget = (Normalize (snTarget sn))\<lparr>tMember := mName m\<rparr>, rmMember = m, rmSnapshot = sn\<rparr>)
      (let ms = selectMembers (snCluster sn) (normalizedWriteRole (rsRole rq)) members True
       in if rsPending rq \<and> rsScheduledAt rq = None then pendingRestartMembers ms else ms))
    \<or> (\<exists>sn \<in> set sns. \<exists>m \<in> set (selectMembers (snCluster sn) (normalizedWriteRole (rsRole rq)) members True).
    rm = \<lparr>rmTarget = (Normalize (snTarget sn))\<lparr>tMember := mName m\<rparr>, rmMember = m, rmSnapshot = sn\<rparr>)"
    using 2(1) by (auto simp: Let_def split: if_splits)
  then show ?case by (auto simp: Let_def pendingRestartMembers_def split: if_splits)
qed simp

lemma selected_from_restart:
  assumes "selectRestart rq members sns [] = Inr sel" and "set (pTargets p) \<subseteq> rmTarget ` set sel"
  shows "selected_from sns (normalizedWriteRole (rsRole rq)) members p"
  using assms selectRestart_in [OF assms(1)] unfolding selected_from_def by (fastforce dest: selectMembers_in)

lemma valid_RandomIndex [wp]: "(\<And>x. Q x es) \<Longrightarrow> valid es (RandomIndex svc n) Q"
  by (simp add: RandomIndex_def valid_quiet)

lemma restart_plan_accepted:
  assumes "normalizeRestartRequest rt rq = (t, members, None)" and "plan_Validate p = None"
    and "pOperation p = ''restart''" "pTarget p = t" "pPath p = PathREST" "pRisk p = RiskAvailability"
      "pRetrySafety p = UnsafeAfterSend" "pPreconditions p = restartPreconditions rv rq members groups"
  shows "restart_accepts rt rq p"
  using assms
  by (simp add: restart_accepts_def validateRestartPlan_def preconditionMismatch_def restartPreconditions_def
      expectedPrecondition_find)

lemma restart_plan_groups:
  "pPreconditions p = restartPreconditions rv rq members groups \<Longrightarrow> plannedGroups p = groups"
  by (simp add: restartPreconditions_def expectedPrecondition_find plannedGroups_def)

lemma PrepareRestart_prepared:
  "valid [] (PrepareRestart svc ctx rq)
    (prepared (normalizedWriteRole (rsRole rq)) (fst (snd (normalizeRestartRequest (svcRuntime svc) rq)))
       (restart_accepts (svcRuntime svc) rq))"
proof -
  obtain t members err where n: "normalizeRestartRequest (svcRuntime svc) rq = (t, members, err)"
    by (cases "normalizeRestartRequest (svcRuntime svc) rq")
  show ?thesis
    unfolding PrepareRestart_def n prod.case Let_def fst_conv snd_conv
    by (intro prepare_wp valid_prepareBatchPlan valid_RandomIndex valid_returnI valid_snapshotEvidence)
       (auto simp: n intro!: restart_plan_accepted restart_plan_groups selected_from_restart dest: reads_only split: sum.splits if_splits)
qed

definition reinit_accepts :: "reinitialize_request \<Rightarrow> plan \<Rightarrow> bool" where
  "reinit_accepts rq p =
     (case normalizeReinitializeRequest rq of (t, members, err) \<Rightarrow> err = None \<and> validateReinitializePlan p t rq members = None)"

lemma PrepareReinitialize_prepared:
  "valid [] (PrepareReinitialize svc ctx rq)
    (prepared RoleReplica (fst (snd (normalizeReinitializeRequest rq))) (reinit_accepts rq))"
proof -
  obtain t members err where n: "normalizeReinitializeRequest rq = (t, members, err)" by (cases "normalizeReinitializeRequest rq")
  show ?thesis
    unfolding PrepareReinitialize_def n prod.case Let_def fst_conv snd_conv
    by (intro prepare_wp valid_prepareBatchPlan)
       (auto simp: reinit_accepts_def n validateReinitializePlan_def preconditionMismatch_def plannedGroups_def
          reinitializePreconditions_def expectedPrecondition_find intro!: selected_from_targets dest: reads_only)
qed

lemma reload_guard_plan:
  assumes "reload_guard svc ctx rq p" and "target_ok (Normalize (rlTarget rq))"
  shows "plan_Validate p = None \<and> target_ok (fst (normalizeReloadRequest rq))"
proof (cases "normalizeMemberRequest (rlTarget rq) (rlMembers rq)")
  case (fields t members err)
  with assms normalizeMemberRequest_target [OF fields assms(2)] show ?thesis
    by (auto simp: reload_guard_def normalizeReloadRequest_def validateReloadPlan_def split: option.splits if_splits)
qed

lemma restart_guard_plan:
  assumes "restart_guard svc ctx rq p" and "target_ok (Normalize (rsTarget rq))"
  shows "plan_Validate p = None \<and> target_ok (fst (normalizeRestartRequest (svcRuntime svc) rq))"
proof (cases "normalizeMemberRequest (rsTarget rq) (rsMembers rq)")
  case (fields t members err)
  with assms normalizeMemberRequest_target [OF fields assms(2)] show ?thesis
    by (auto simp: restart_guard_def normalizeRestartRequest_def validateRestartPlan_def split: option.splits if_splits)
qed

lemma reinit_guard_plan:
  assumes "reinit_guard svc ctx rq p sns" and "target_ok (Normalize (riTarget rq))"
  shows "plan_Validate p = None \<and> target_ok (fst (normalizeReinitializeRequest rq))"
proof (cases "normalizeMemberRequest (riTarget rq) (riMembers rq)")
  case (fields t members err)
  with assms normalizeMemberRequest_target [OF fields assms(2)] show ?thesis
    by (auto simp: reinit_guard_def normalizeReinitializeRequest_def validateReinitializePlan_def split: option.splits)
qed

lemma normalized_ok: "target_ok (Normalize t0) \<Longrightarrow> target_ok (Normalize (fst (normalizeMemberRequest t0 names)))"
  using normalizeMemberRequest_target(1) by (cases "normalizeMemberRequest t0 names") simp

lemma normalized_requests_ok:
  "target_ok (Normalize (rlTarget rl)) \<Longrightarrow> target_ok (Normalize (fst (normalizeReloadRequest rl)))"
  "target_ok (Normalize (rsTarget rs)) \<Longrightarrow> target_ok (Normalize (fst (normalizeRestartRequest rt rs)))"
  "target_ok (Normalize (riTarget ri)) \<Longrightarrow> target_ok (Normalize (fst (normalizeReinitializeRequest ri)))"
  by (auto simp: normalizeReloadRequest_def normalizeRestartRequest_def normalizeReinitializeRequest_def split_beta
      intro: normalized_ok)

section \<open>Properties\<close>

definition demoReload :: reload_request where
  "demoReload = \<lparr>rlTarget = demoTarget, rlMembers = [], rlRole = RoleEmpty, rlCitus = False\<rparr>"

definition demoRestart :: restart_request where
  "demoRestart = \<lparr>rsTarget = demoTarget, rsMembers = [''pg-2''], rsRole = RoleReplica, rsAny = False,
     rsScheduledAt = None, rsPostgresVersion = [], rsPending = False, rsTimeout = [], rsForce = False, rsCitus = False\<rparr>"

definition demoReinit :: reinitialize_request where
  "demoReinit = \<lparr>riTarget = demoTarget, riMembers = [''pg-2''], riForce = False, riFromLeader = False, riWait = True, riCitus = False\<rparr>"

definition demoRead :: "nat \<Rightarrow> goerror + snapshot" where
  "demoRead n = Inr (demoSnapshot 10 (demoCluster ''pg-1''))"

text \<open>Patroni accepts on the first member and answers 503 on the second.\<close>

definition restMixed :: "rest_call \<Rightarrow> rest_response \<times> goerror option" where
  "restMixed c = restStatus (if rest_url c = ''http://pg-1:8008'' then 200 else 503) c"

definition demoReloadPlan :: plan where
  "demoReloadPlan = rData (fst (demoRun (PrepareReload (demoService demoRead restMixed casApplied) demoCtx demoReload)))"

definition demoReinitPlan :: plan where
  "demoReinitPlan = rData (fst (demoRun (PrepareReinitialize (demoService demoRead (restStatus 200) casApplied) demoCtx demoReinit)))"

definition demoReloadRun :: "batch_write_data result \<times> event list" where
  "demoReloadRun = demoRun (ExecuteReload (demoService demoRead restMixed casApplied) demoCtx demoReload demoReloadPlan)"

lemma demoReloadRun: "rOutcome (fst demoReloadRun) = Failed \<and> list_ex is_write (snd demoReloadRun)
   \<and> map mwOutcome (bwMembers (rData (fst demoReloadRun))) = [Succeeded, Failed]"
  by code_simp

text \<open>C22: No member write is reported FAILED while its fate is open. If a reload, a restart or a
  reinitialization issues any write, its events are reads followed by one segment per planned target, in the
  order of the plan: the target stands for the member of its name, with the selected role, in a snapshot of its cluster among
  those reads, and the segment and the result at its place are of that member: its calls go to the REST address that
  this member published and start with a look at the context that found it live; a FAILED result means that
  every write of the segment got an HTTP status or was never sent, a SUCCEEDED one that the last
  event shows it: an accepting answer, a snapshot with the scheduled restart, or a member status
  outside \<open>creating replica\<close>.\<close>

theorem batch_no_false_failure:
  "valid [] (ExecuteReload svc ctx rl p) (\<lambda>r es. list_ex is_write es \<longrightarrow>
     batch_explained p (normalizedWriteRole (rlRole rl)) (reload_trace svc) r es)
   \<and> valid [] (ExecuteRestart svc ctx rs p) (\<lambda>r es. list_ex is_write es \<longrightarrow>
     batch_explained p (normalizedWriteRole (rsRole rs)) (restart_trace svc rs) r es)
   \<and> valid [] (ExecuteReinitialize svc ctx ri p) (\<lambda>r es. list_ex is_write es \<longrightarrow>
     batch_explained p RoleReplica (reinit_trace svc ri) r es)"
  by (intro conjI valid_mono [OF ExecuteReload_execution] valid_mono [OF ExecuteRestart_execution]
        valid_mono [OF ExecuteReinitialize_execution] impI)
     (erule (1) execution_explained_by_members)+

theorem batch_no_false_failure_witness:
  "batch_explained demoReloadPlan RoleAny (reload_trace (demoService demoRead restMixed casApplied)) (fst demoReloadRun) (snd demoReloadRun)"
proof -
  have "valid [] (ExecuteReload (demoService demoRead restMixed casApplied) demoCtx demoReload demoReloadPlan)
     (\<lambda>r es. list_ex is_write es \<longrightarrow> batch_explained demoReloadPlan (normalizedWriteRole (rlRole demoReload))
        (reload_trace (demoService demoRead restMixed casApplied)) r es)"
    using batch_no_false_failure by blast
  from valid_demoRun [OF this] demoReloadRun show ?thesis
    by (simp add: demoReloadRun_def demoReload_def normalizedWriteRole_def)
qed

text \<open>C23: All or nothing on the confirmed targets. If a reload, restart or reinitialization issues any
  write, then context, request and plan passed their checks, every snapshot it used was read first and passes the
  version gate, the Citus groups are the planned ones, and every planned target resolves in these
  snapshots to a member that still has the selected role (and, for a pending-only restart, is still
  pending; for a reinitialization from the leader, all members support it). If one target is gone, nothing is sent to any.\<close>

theorem batch_writes_guarded:
  "valid [] (ExecuteReload svc ctx rl p) (\<lambda>r es. list_ex is_write es \<longrightarrow>
     batch_guarded svc p (normalizedWriteRole (rlRole rl)) (\<lambda>_. True) (\<lambda>_. reload_guard svc ctx rl p) es)
   \<and> valid [] (ExecuteRestart svc ctx rs p) (\<lambda>r es. list_ex is_write es \<longrightarrow>
     batch_guarded svc p (normalizedWriteRole (rsRole rs)) (restart_extra rs) (\<lambda>_. restart_guard svc ctx rs p) es)
   \<and> valid [] (ExecuteReinitialize svc ctx ri p) (\<lambda>r es. list_ex is_write es \<longrightarrow>
     batch_guarded svc p RoleReplica (\<lambda>_. True) (reinit_guard svc ctx ri p) es)"
  by (intro conjI valid_mono [OF ExecuteReload_execution] valid_mono [OF ExecuteRestart_execution]
        valid_mono [OF ExecuteReinitialize_execution] impI)
     (erule (1) execution_guarded)+

theorem batch_writes_guarded_witness:
  "batch_guarded (demoService demoRead restMixed casApplied) demoReloadPlan RoleAny (\<lambda>_. True)
     (\<lambda>_. reload_guard (demoService demoRead restMixed casApplied) demoCtx demoReload demoReloadPlan) (snd demoReloadRun)"
proof -
  have "valid [] (ExecuteReload (demoService demoRead restMixed casApplied) demoCtx demoReload demoReloadPlan)
     (\<lambda>r es. list_ex is_write es \<longrightarrow> batch_guarded (demoService demoRead restMixed casApplied) demoReloadPlan
        (normalizedWriteRole (rlRole demoReload)) (\<lambda>_. True)
        (\<lambda>_. reload_guard (demoService demoRead restMixed casApplied) demoCtx demoReload demoReloadPlan) es)"
    using batch_writes_guarded by blast
  from valid_demoRun [OF this] demoReloadRun show ?thesis
    by (simp add: demoReloadRun_def demoReload_def normalizedWriteRole_def)
qed

text \<open>C24: Batches are accounted for. Either the execution failed before any member was visited, with no
  results and no write, or it has exactly one result per planned target, in the order of the plan, its
  outcome is UNKNOWN when some member is UNKNOWN, otherwise FAILED when some member failed, otherwise
  SUCCEEDED, and it wrote at most once (restart: twice, flush and restart) per target.\<close>

theorem batch_accounted:
  "valid [] (ExecuteReload svc ctx rl p) (batch_complete p 1)
   \<and> valid [] (ExecuteRestart svc ctx rs p) (batch_complete p 2)
   \<and> valid [] (ExecuteReinitialize svc ctx ri p) (batch_complete p 1)"
  by (intro conjI valid_mono [OF ExecuteReload_execution] valid_mono [OF ExecuteRestart_execution]
        valid_mono [OF ExecuteReinitialize_execution];
      unfold reload_trace_def restart_trace_def reinit_trace_def)
     (erule execution_complete [OF reload_step.member_step_axioms]
        execution_complete [OF restart_step.member_step_axioms] execution_complete [OF reinit_step.member_step_axioms])+

text \<open>Batch results are well formed. With a clock that shows no zero time and requests for valid
  targets, the result of executing a reload, restart or reinitialization passes \<open>Result.Validate\<close>,
  and each member result passes \<open>MemberWriteResult.Validate\<close>.\<close>

lemma batch_results_valid:
  assumes "clock_ok svc" and "target_ok (Normalize (rlTarget rl))" and "target_ok (Normalize (rsTarget rs))"
    and "target_ok (Normalize (riTarget ri))"
  shows "valid [] (ExecuteReload svc ctx rl p) (\<lambda>r es. batch_valid r)
    \<and> valid [] (ExecuteRestart svc ctx rs p) (\<lambda>r es. batch_valid r)
    \<and> valid [] (ExecuteReinitialize svc ctx ri p) (\<lambda>r es. batch_valid r)"
  using assms
  by (intro conjI valid_mono [OF ExecuteReload_execution] valid_mono [OF ExecuteRestart_execution]
        valid_mono [OF ExecuteReinitialize_execution];
      unfold reload_trace_def restart_trace_def reinit_trace_def)
     (erule execution_valid [OF reload_step.member_step_axioms, rotated -1]
        execution_valid [OF restart_step.member_step_axioms, rotated -1]
        execution_valid [OF reinit_step.member_step_axioms, rotated -1];
      simp add: normalized_requests_ok reload_guard_plan restart_guard_plan reinit_guard_plan)+

text \<open>Preparing only reads, and its plans are honest. Preparing a reload, restart or
  reinitialization issues nothing but snapshot reads and discoveries. When it succeeds, the plan is
  valid, passes the plan check of the execution for the same request, lists only targets that are
  members of the snapshots read, with the role asked for and among the names asked for, and
  records the Citus groups of these snapshots.\<close>

lemma batch_plans_roundtrip:
  "valid [] (PrepareReload svc ctx rl)
     (prepared (normalizedWriteRole (rlRole rl)) (fst (snd (normalizeReloadRequest rl))) (reload_accepts rl))
   \<and> valid [] (PrepareRestart svc ctx rs)
     (prepared (normalizedWriteRole (rsRole rs)) (fst (snd (normalizeRestartRequest (svcRuntime svc) rs)))
        (restart_accepts (svcRuntime svc) rs))
   \<and> valid [] (PrepareReinitialize svc ctx ri)
     (prepared RoleReplica (fst (snd (normalizeReinitializeRequest ri))) (reinit_accepts ri))"
  by (intro conjI PrepareReload_prepared PrepareRestart_prepared PrepareReinitialize_prepared)

end
