(* ===== verification/Flush.thy ===== *)
theory Flush
  imports Batch Verify_Loop
begin

text \<open>
  Flushing scheduled events, \<^verbatim>\<open>src/control/flush.go\<close>: scheduled restarts are deleted member by
  member through REST; a scheduled switchover is deleted through the first member that answers, and
  otherwise by a compare-and-delete of the failover key.  The loops over Go maps of expected
  preconditions run in the order the source lists the fields.
\<close>

section \<open>Requests and plans\<close>

record flush_intent =
  fiTarget :: target
  fiEvent :: flush_event
  fiMembers :: "string list"
  fiRole :: role
  fiForce :: bool
  fiCitus :: bool

fun flush_event_string :: "flush_event \<Rightarrow> string" where
  "flush_event_string FlushRestart = ''restart''"
| "flush_event_string FlushSwitchover = ''switchover''"
| "flush_event_string (FlushOther s) = s"

definition normalizeFlushRequest :: "flush_request \<Rightarrow> flush_intent \<times> goerror option" where
  "normalizeFlushRequest rq =
     (case normalizeMemberRequest (fqTarget rq) (fqMembers rq) of (t, members, err) \<Rightarrow>
        (\<lparr>fiTarget = t, fiEvent = fqEvent rq, fiMembers = members, fiRole = normalizedWriteRole (fqRole rq),
          fiForce = fqForce rq, fiCitus = fqCitus rq\<rparr>,
         case err of
           Some e \<Rightarrow> Some e
         | None \<Rightarrow>
            if \<not> flush_event_valid (fqEvent rq) then Some (errorsNew ''flush event must be restart or switchover'')
            else if \<not> role_validOrEmpty (fqRole rq) then Some (errorsNew ''invalid role'') else None))"

definition flushPath :: "flush_event \<Rightarrow> path" where
  "flushPath ev = (if ev = FlushSwitchover then PathRESTToDCS else PathREST)"

definition flushOperationSnapshots :: "'w service \<Rightarrow> flush_intent \<Rightarrow> ('w, read_outcome) prog" where
  "flushOperationSnapshots svc fi =
     (if fiEvent fi \<noteq> FlushSwitchover \<or> \<not> fiCitus fi \<or> tGroup (fiTarget fi) \<noteq> None
      then operationSnapshots svc ''flush'' (fiTarget fi) (fiCitus fi) False
      else citusCoordinatorSnapshot svc ''flush'' (fiTarget fi) False)"

definition hasScheduledRestart :: "dcs_member \<Rightarrow> bool" where
  "hasScheduledRestart m = (decodeScheduledRestart (mdScheduledRestart (mData m)) \<noteq> None)"

definition memberIDsFromTargets :: "target list \<Rightarrow> string list" where
  "memberIDsFromTargets ts = map (\<lambda>t. MemberID (Normalize t)) ts"

definition memberTargets :: "target \<Rightarrow> dcs_member list \<Rightarrow> target list" where
  "memberTargets t ms = map (\<lambda>m. t\<lparr>tMember := mName m\<rparr>) ms"

definition scheduledRestartPreconditionField :: "target \<Rightarrow> string" where
  "scheduledRestartPreconditionField t0 =
     (let t = Normalize t0 in
      if tGroup t = None then ''member.'' @ tMember t @ ''.scheduledRestart''
      else ''member.'' @ MemberID t @ ''.scheduledRestart'')"

definition leaderFirstRESTMembers :: "cluster_state \<Rightarrow> dcs_member list" where
  "leaderFirstRESTMembers cl =
     (let leader = clusterLeader cl;
          reachable = (\<lambda>m. TrimSpace (mdAPIURL (mData m)) \<noteq> [])
      in (if leader = [] then []
          else (case find (\<lambda>m. mName m = leader \<and> reachable m) (cMembers cl) of None \<Rightarrow> [] | Some m \<Rightarrow> [m]))
         @ filter (\<lambda>m. mName m \<noteq> leader \<and> reachable m) (cMembers cl))"

definition flushRequestPreconditions :: "int \<Rightarrow> flush_intent \<Rightarrow> string \<Rightarrow> precondition list" where
  "flushRequestPreconditions revision fi groups =
     [pre ''dcs.revision'' (FormatInt revision) EvidenceDCS,
      pre ''flush.event'' (flush_event_string (fiEvent fi)) EvidenceControl,
      pre ''selector.role'' (role_string (fiRole fi)) EvidenceControl,
      pre ''selector.members'' (Join '','' (fiMembers fi)) EvidenceControl,
      pre ''request.force'' (FormatBool (fiForce fi)) EvidenceControl,
      pre ''request.citus'' (FormatBool (fiCitus fi)) EvidenceControl,
      pre ''citus.groups'' groups EvidenceDCS]"

definition failoverFlushPreconditions :: "dcs_failover \<Rightarrow> target list \<Rightarrow> precondition list" where
  "failoverFlushPreconditions f ts =
     [pre ''failover.modRevision'' (FormatInt (fModRevision f)) EvidenceDCS,
      pre ''failover.leader'' (fLeader f) EvidenceDCS,
      pre ''failover.candidate'' (fCandidate f) EvidenceDCS,
      pre ''failover.scheduledAt'' (fScheduledAt f) EvidenceDCS,
      pre ''rest.members'' (Join '','' (memberNamesFromTargets ts)) EvidenceDCS,
      pre ''rest.targets'' (Join '','' (memberIDsFromTargets ts)) EvidenceDCS]"

definition emptyFailoverFlushPreconditions :: "precondition list" where
  "emptyFailoverFlushPreconditions =
     [pre ''failover.modRevision'' ''0'' EvidenceDCS, pre ''failover.leader'' [] EvidenceDCS,
      pre ''failover.candidate'' [] EvidenceDCS, pre ''failover.scheduledAt'' [] EvidenceDCS,
      pre ''rest.members'' [] EvidenceDCS, pre ''rest.targets'' [] EvidenceDCS]"

text \<open>The members a restart flush selects, with their targets.\<close>

definition selectFlush :: "flush_intent \<Rightarrow> snapshot list \<Rightarrow> (target \<times> dcs_member) list" where
  "selectFlush fi sns =
     concat (map (\<lambda>sn. map (\<lambda>m. ((Normalize (snTarget sn))\<lparr>tMember := mName m\<rparr>, m))
                     (selectMembers (snCluster sn) (fiRole fi) (fiMembers fi) True)) sns)"

definition flushPlan :: "string \<Rightarrow> flush_intent \<Rightarrow> target list \<Rightarrow> string \<Rightarrow> precondition list \<Rightarrow> plan" where
  "flushPlan opID fi targets summary preconditions =
     \<lparr>pOperationID = opID, pOperation = ''flush'', pTarget = fiTarget fi, pTargets = targets,
      pPath = flushPath (fiEvent fi), pRisk = RiskAdminWrite, pRetrySafety = UnsafeAfterSend,
      pSummary = summary, pPreconditions = preconditions\<rparr>"

definition buildFlushPlan :: "string \<Rightarrow> flush_intent \<Rightarrow> snapshot list \<Rightarrow> goerror + plan" where
  "buildFlushPlan opID fi sns =
     (case sns of
        [] \<Rightarrow> Inl (errorsNew ''flush requires at least one cluster snapshot'')
      | sn # _ \<Rightarrow>
         (let request = flushRequestPreconditions (snRevision sn) fi (snapshotGroupIDs sns) in
          if fiEvent fi = FlushRestart then
            (let selected = selectFlush fi sns; targets = map fst selected in
             if selected = [] then Inl (errorsNew ''flush found no matching members'')
             else Inr (flushPlan opID fi targets
               (''flush scheduled restart for '' @ FormatInt (int (length selected)) @ '' selected member(s): ''
                  @ Join '', '' (memberNamesFromTargets targets))
               (request
                @ [pre ''rest.members'' (Join '','' (memberNamesFromTargets targets)) EvidenceDCS]
                @ [pre ''rest.targets'' (Join '','' (memberIDsFromTargets targets)) EvidenceDCS]
                @ map (\<lambda>(t, m). pre (scheduledRestartPreconditionField t) (FormatBool (hasScheduledRestart m)) EvidenceDCS)
                    selected)))
          else
            (let members = leaderFirstRESTMembers (snCluster sn) in
             case cFailover (snCluster sn) of
               Some f \<Rightarrow>
                 if fScheduledAt f \<noteq> [] then
                   (let targets = memberTargets (snTarget sn) members in
                    Inr (flushPlan opID fi targets (''flush scheduled switchover at '' @ fScheduledAt f)
                      (request @ failoverFlushPreconditions f targets)))
                 else Inr (flushPlan opID fi [] ''flush scheduled switchover (no pending event observed)''
                        (request @ emptyFailoverFlushPreconditions))
             | None \<Rightarrow> Inr (flushPlan opID fi [] ''flush scheduled switchover (no pending event observed)''
                        (request @ emptyFailoverFlushPreconditions)))))"

definition PrepareFlush :: "'w service \<Rightarrow> 'w goctx \<Rightarrow> flush_request \<Rightarrow> ('w, plan result) prog" where
  "PrepareFlush svc ctx rq = do {
     opID \<leftarrow> operationID svc;
     (case normalizeFlushRequest rq of (fi, err) \<Rightarrow>
      (let t = fiTarget fi; path = flushPath (fiEvent fi) in
       if \<not> validContext ctx then
         failedRead svc zeroPlan opID ''flush'' t path CategoryUsage False ''flush requires a context'' None
       else if err \<noteq> None then
         failedRead svc zeroPlan opID ''flush'' t path CategoryUsage False ''flush request is invalid'' err
       else do {
         (evs, r) \<leftarrow> flushOperationSnapshots svc fi;
         (case r of
            Inl f \<Rightarrow> failedReadWithEvidence svc zeroPlan opID ''flush'' t path (dfCategory f) (dfRetryable f)
                       (dfMessage f) (dfCause f) evs
          | Inr sns \<Rightarrow>
              (case buildFlushPlan opID fi sns of
                 Inl e \<Rightarrow> failedReadWithEvidence svc zeroPlan opID ''flush'' t path CategoryNotFound False
                            ''flush target selection failed'' (Some e) evs
               | Inr p \<Rightarrow>
                  (case plan_Validate p of
                     Some e \<Rightarrow> failedReadWithEvidence svc zeroPlan opID ''flush'' t path CategoryInternal False
                                 ''flush plan construction failed'' (Some e) evs
                   | None \<Rightarrow> State_Monad.return \<lparr>rOperationID = opID, rOutcome = Succeeded, rTarget = t, rPath = path,
                               rData = p, rEvidence = evs, rError = None\<rparr>)))
       }))
   }"

definition validateFlushPlan :: "plan \<Rightarrow> flush_intent \<Rightarrow> goerror option" where
  "validateFlushPlan p fi =
     (case plan_Validate p of
        Some e \<Rightarrow> Some e
      | None \<Rightarrow>
         if pOperation p \<noteq> ''flush'' \<or> pPath p \<noteq> flushPath (fiEvent fi) \<or> pRisk p \<noteq> RiskAdminWrite
            \<or> pRetrySafety p \<noteq> UnsafeAfterSend then
           Some (errorsNew ''plan operation contract differs from flush'')
         else if ClusterID (Normalize (pTarget p)) \<noteq> ClusterID (fiTarget fi) then
           Some (errorsNew ''plan cluster differs from request'')
         else (case preconditionMismatch p (tl (flushRequestPreconditions 0 fi [])) of
           Some e \<Rightarrow> Some e
         | None \<Rightarrow>
            if expectedPrecondition p ''rest.members'' \<noteq> Some (Join '','' (memberNamesFromTargets (pTargets p))) then
              Some (errorsNew ''plan REST target set is incomplete or changed'')
            else if expectedPrecondition p ''rest.targets'' \<noteq> Some (Join '','' (memberIDsFromTargets (pTargets p))) then
              Some (errorsNew ''plan REST target identities are incomplete or changed'')
            else if fiEvent fi = FlushRestart \<and> pTargets p = [] then
              Some (errorsNew ''restart flush plan requires member targets'')
            else None))"


section \<open>Results\<close>

definition aggregateRESTSendState :: "member_write_result list \<Rightarrow> send_state" where
  "aggregateRESTSendState ms =
     (if \<exists>m \<in> set ms. mwSendState m = SendMaybeSent then SendMaybeSent
      else if \<exists>m \<in> set ms. mwSendState m = SendAccepted then SendAccepted else SendNotSent)"

definition flushHasAmbiguousREST :: "member_write_result list \<Rightarrow> bool" where
  "flushHasAmbiguousREST ms = (\<exists>m \<in> set ms. mwOutcome m = Unknown)"

definition appendFlushEvidence :: "evidence list \<Rightarrow> member_write_result list \<Rightarrow> evidence list" where
  "appendFlushEvidence base ms = base @ concat (map mwEvidence ms)"

definition flushSuccess ::
  "string \<Rightarrow> flush_intent \<Rightarrow> path \<Rightarrow> flush_data \<Rightarrow> evidence list \<Rightarrow> flush_data result" where
  "flushSuccess opID fi path d evs =
     \<lparr>rOperationID = opID, rOutcome = Succeeded, rTarget = fiTarget fi, rPath = path, rData = d,
      rEvidence = evs, rError = None\<rparr>"

definition flushFailureWithRetry ::
  "string \<Rightarrow> flush_intent \<Rightarrow> path \<Rightarrow> flush_data \<Rightarrow> category \<Rightarrow> bool \<Rightarrow> string \<Rightarrow> goerror option \<Rightarrow> evidence list
   \<Rightarrow> flush_data result" where
  "flushFailureWithRetry opID fi path d cat retryable message cause evs =
     \<lparr>rOperationID = opID, rOutcome = Failed, rTarget = fiTarget fi, rPath = path,
      rData = d\<lparr>fdVerification := VerifiedFailed\<rparr>, rEvidence = evs,
      rError = Some (NewError cat ''flush'' (fiTarget fi) retryable message cause evs)\<rparr>"

definition flushFailure ::
  "string \<Rightarrow> flush_intent \<Rightarrow> path \<Rightarrow> flush_data \<Rightarrow> category \<Rightarrow> string \<Rightarrow> goerror option \<Rightarrow> evidence list
   \<Rightarrow> flush_data result" where
  "flushFailure opID fi path d cat message cause evs =
     flushFailureWithRetry opID fi path d cat False message cause evs"

definition flushUnknown ::
  "string \<Rightarrow> flush_intent \<Rightarrow> path \<Rightarrow> flush_data \<Rightarrow> string \<Rightarrow> goerror option \<Rightarrow> evidence list \<Rightarrow> flush_data result" where
  "flushUnknown opID fi path d message cause evs =
     \<lparr>rOperationID = opID, rOutcome = Unknown, rTarget = fiTarget fi, rPath = path,
      rData = d\<lparr>fdVerification := Unverified\<rparr>, rEvidence = evs,
      rError = Some (NewError CategoryUnknown ''flush'' (fiTarget fi) False message cause evs)\<rparr>"

definition memberError :: "member_write_result \<Rightarrow> goerror option" where
  "memberError m = map_option ControlError (mwError m)"

text \<open>The loop of \<open>finalizeFlushResults\<close>: outcome, category and cause.\<close>

fun flushVerdict ::
  "outcome \<times> category \<times> goerror option \<Rightarrow> member_write_result list \<Rightarrow> outcome \<times> category \<times> goerror option" where
  "flushVerdict v [] = v"
| "flushVerdict (oc, cat, cause) (m # ms) =
     flushVerdict
       (if mwOutcome m = Unknown then (Unknown, cat, memberError m)
        else if mwOutcome m = Failed \<and> oc \<noteq> Unknown then
          (Failed, (case mwError m of None \<Rightarrow> cat | Some e \<Rightarrow> errCategory e), memberError m)
        else (oc, cat, cause)) ms"

definition finalizeFlushResults ::
  "string \<Rightarrow> flush_intent \<Rightarrow> path \<Rightarrow> member_write_result list \<Rightarrow> evidence list \<Rightarrow> flush_data result" where
  "finalizeFlushResults opID fi path ms base =
     (let allNoop = (ms \<noteq> [] \<and> (\<forall>m \<in> set ms. mwSendState m = SendNotSent \<and> mwOutcome m = Succeeded));
          d = zeroFlushData\<lparr>fdEvent := fiEvent fi, fdResults := ms, fdRESTSendState := aggregateRESTSendState ms,
                fdNoop := allNoop\<rparr>;
          evs = appendFlushEvidence base ms in
      case flushVerdict (Succeeded, CategoryFailed, None) ms of (oc, cat, cause) \<Rightarrow>
        if oc = Succeeded then flushSuccess opID fi path (d\<lparr>fdVerification := VerifiedSucceeded\<rparr>) evs
        else if oc = Failed then
          flushFailure opID fi path (d\<lparr>fdVerification := VerifiedFailed\<rparr>) cat ''flush failed for one or more members'' cause evs
        else flushUnknown opID fi path d ''flush outcome is unknown for one or more members; verify before retrying'' cause evs)"


section \<open>Flushing scheduled restarts\<close>

definition flushMemberNoop :: "'w service \<Rightarrow> target \<Rightarrow> snapshot \<Rightarrow> string \<Rightarrow> ('w, member_write_result) prog" where
  "flushMemberNoop svc t sn summary = do {
     e \<leftarrow> observe svc EvidenceDCS summary (FormatInt (snRevision sn)) (snPrefix sn) SendNotSent;
     State_Monad.return (acceptedWrite t SendNotSent 0 e)
   }"

definition flushMemberNotSent ::
  "'w service \<Rightarrow> target \<Rightarrow> category \<Rightarrow> bool \<Rightarrow> string \<Rightarrow> goerror option \<Rightarrow> ('w, member_write_result) prog" where
  "flushMemberNotSent svc t cat retryable message cause = memberNotSent svc ''flush'' t cat retryable message cause"

definition classifyRestartFlushResponse ::
  "'w service \<Rightarrow> target \<Rightarrow> rest_response \<Rightarrow> goerror option \<Rightarrow> ('w, member_write_result) prog" where
  "classifyRestartFlushResponse svc =
     classifyAnswer svc ''flush''
       \<lparr>awPath = ''/restart'', awAccepted = ''Patroni removed the scheduled restart'',
        awRejected = ''Patroni rejected scheduled restart flush'',
        awSilent = ''scheduled restart flush transport ended without an HTTP response'',
        awUnknown = ''scheduled restart flush may have been sent; DCS verification is required'',
        awNotSent = ''scheduled restart flush was not sent''\<rparr>
       (\<lambda>status. 0 < status \<and> status < 400)"

definition restartFlushed :: "string \<Rightarrow> snapshot \<Rightarrow> bool" where
  "restartFlushed memberName sn =
     (case find (\<lambda>m. mName m = memberName) (cMembers (snCluster sn)) of
        None \<Rightarrow> True | Some m \<Rightarrow> \<not> hasScheduledRestart m)"

definition verifyRestartFlush ::
  "'w service \<Rightarrow> target \<Rightarrow> string \<Rightarrow> ('w, bool \<times> unit \<times> evidence list) prog" where
  "verifyRestartFlush svc t memberName =
     verifyLoop svc (t\<lparr>tMember := []\<rparr>) restartVerificationInterval
       \<lparr>lwCanceled = ''scheduled restart flush verification canceled'',
        lwFailed = ''scheduled restart flush readback failed''\<rparr>
       (\<lambda>sn. (restartFlushed memberName sn,
              if restartFlushed memberName sn then ''scheduled restart is absent from DCS''
              else ''scheduled restart remains present in DCS''))
       (\<lambda>_. ()) (nat (svcVerificationAttempts svc)) False () []"

definition settleRestartFlush ::
  "'w service \<Rightarrow> resolved_member \<Rightarrow> member_write_result \<Rightarrow> ('w, member_write_result) prog" where
  "settleRestartFlush svc rm m =
     (if mwOutcome m = Unknown then do {
        (verified, _, vevs) \<leftarrow> verifyRestartFlush svc (rmTarget rm) (mName (rmMember rm));
        (let m = m\<lparr>mwEvidence := mwEvidence m @ vevs\<rparr> in
         State_Monad.return
           (if verified then
              m\<lparr>mwOutcome := Succeeded, mwVerification := VerifiedSucceeded,
                mwSummary := ''scheduled restart absence verified in DCS'', mwError := None\<rparr>
            else m))
      }
      else State_Monad.return m)"

definition restartFlushMember ::
  "'w service \<Rightarrow> 'w goctx \<Rightarrow> resolved_member \<Rightarrow> ('w, member_write_result) prog" where
  "restartFlushMember svc ctx rm =
     (if \<not> hasScheduledRestart (rmMember rm) then
        flushMemberNoop svc (rmTarget rm) (rmSnapshot rm) ''member has no scheduled restart''
      else do {
        ce \<leftarrow> ctxErr ctx;
        (if ce \<noteq> None then skippedWriteAfterCancellation svc ''flush'' (rmTarget rm) ce
         else (case svcPatroni svc of
            None \<Rightarrow> flushMemberNotSent svc (rmTarget rm) CategoryConfig False
                      ''scheduled restart flush requires a Patroni REST client'' None
          | Some client \<Rightarrow>
              (case patroniBaseURL (mdAPIURL (mData (rmMember rm))) of
                 Inl err \<Rightarrow> invalidRESTAddressWrite svc ''flush'' (rmTarget rm) (rmSnapshot rm) (Some (Plain err))
               | Inr baseURL \<Rightarrow> do {
                   (response, callError) \<leftarrow> callREST client (DeleteRestart baseURL);
                   m \<leftarrow> classifyRestartFlushResponse svc (rmTarget rm) response callError;
                   settleRestartFlush svc rm m
                 })))
      })"

text \<open>A restart that appeared after the plan was confirmed; \<open>None\<close> when the plan says nothing of a member.\<close>

fun flushStateConflicts ::
  "'w service \<Rightarrow> plan \<Rightarrow> resolved_member list \<Rightarrow> ('w, member_write_result list option) prog" where
  "flushStateConflicts svc p [] = State_Monad.return (Some [])"
| "flushStateConflicts svc p (rm # rms) =
     (case expectedPrecondition p (scheduledRestartPreconditionField (rmTarget rm)) of
        None \<Rightarrow> State_Monad.return None
      | Some planned \<Rightarrow>
          if planned = ''false'' \<and> hasScheduledRestart (rmMember rm) then do {
            e \<leftarrow> observe svc EvidenceDCS ''scheduled restart appeared after confirmation''
                   (FormatInt (snRevision (rmSnapshot rm))) (snPrefix (rmSnapshot rm)) SendNotSent;
            more \<leftarrow> flushStateConflicts svc p rms;
            State_Monad.return (map_option (\<lambda>cs. failedWrite ''flush'' (rmTarget rm) SendNotSent 0 CategoryConflict False
              ''new scheduled restart was not deleted because it was absent from the confirmed plan'' None e # cs) more)
          }
          else flushStateConflicts svc p rms)"

definition executeRestartFlush ::
  "'w service \<Rightarrow> 'w goctx \<Rightarrow> string \<Rightarrow> flush_intent \<Rightarrow> plan \<Rightarrow> snapshot list \<Rightarrow> evidence list
   \<Rightarrow> ('w, flush_data result) prog" where
  "executeRestartFlush svc ctx opID fi p sns base = do {
     (resolved, conflicts) \<leftarrow> resolvePlannedMembersAcrossSnapshots svc ''flush'' sns (pTargets p) (fiRole fi);
     (if conflicts \<noteq> [] then do {
        d \<leftarrow> abortBatchForTargetChange svc ''flush'' (pTargets p) conflicts;
        State_Monad.return (finalizeFlushResults opID fi PathREST (bwMembers d) base)
      }
      else do {
        changed \<leftarrow> flushStateConflicts svc p resolved;
        (case changed of
           None \<Rightarrow> State_Monad.return (flushFailure opID fi PathREST
             (zeroFlushData\<lparr>fdEvent := fiEvent fi, fdRESTSendState := SendNotSent, fdVerification := VerifiedFailed\<rparr>)
             CategoryUsage ''flush plan is missing a member event precondition'' None base)
         | Some cs \<Rightarrow>
             if cs \<noteq> [] then do {
               d \<leftarrow> abortBatchForTargetChange svc ''flush'' (pTargets p) cs;
               State_Monad.return (finalizeFlushResults opID fi PathREST (bwMembers d) base)
             }
             else do {
               results \<leftarrow> forEach (restartFlushMember svc ctx) resolved;
               State_Monad.return (finalizeFlushResults opID fi PathREST results base)
             })
      })
   }"


section \<open>Flushing a scheduled switchover\<close>

definition classifySwitchoverFlushResponse ::
  "'w service \<Rightarrow> target \<Rightarrow> rest_response \<Rightarrow> goerror option \<Rightarrow> ('w, member_write_result) prog" where
  "classifySwitchoverFlushResponse svc =
     classifyAnswer svc ''flush''
       \<lparr>awPath = ''/switchover'', awAccepted = ''Patroni removed the scheduled switchover'',
        awRejected = ''Patroni did not remove the scheduled switchover'',
        awSilent = ''scheduled switchover flush transport ended without an HTTP response'',
        awUnknown = ''scheduled switchover flush may have been sent'',
        awNotSent = ''scheduled switchover flush was not sent''\<rparr>
       (\<lambda>status. status = 200)"

text \<open>The map of members by name: of two with the same name the last counts.  Go's map answers with a
  zero member, without a REST address, for a name it does not have.\<close>

definition memberMap :: "dcs_member list \<Rightarrow> string \<Rightarrow> dcs_member option" where
  "memberMap ms name = find (\<lambda>m. mName m = name) (rev ms)"

definition memberAPIURL :: "dcs_member list \<Rightarrow> string \<Rightarrow> string" where
  "memberAPIURL ms name = (case memberMap ms name of None \<Rightarrow> [] | Some m \<Rightarrow> mdAPIURL (mData m))"

definition revalidateSwitchoverFlushPlan ::
  "plan \<Rightarrow> dcs_failover option \<Rightarrow> dcs_member list \<Rightarrow> target \<Rightarrow> goerror option" where
  "revalidateSwitchoverFlushPlan p failover members clusterTarget =
     (case failover of
        None \<Rightarrow> Some (errorsNew ''scheduled failover key disappeared'')
      | Some f \<Rightarrow>
          map_option (\<lambda>field. Errorf ''confirmed %s changed'' [AStr field] [])
            (firstMismatch p
               [(''failover.modRevision'', FormatInt (fModRevision f)), (''failover.leader'', fLeader f),
                (''failover.candidate'', fCandidate f), (''failover.scheduledAt'', fScheduledAt f),
                (''rest.members'', Join '','' (memberNamesFromTargets (memberTargets clusterTarget members))),
                (''rest.targets'', Join '','' (memberIDsFromTargets (memberTargets clusterTarget members)))]))"

definition switchoverScheduled :: "snapshot \<Rightarrow> bool" where
  "switchoverScheduled sn = (case cFailover (snCluster sn) of None \<Rightarrow> False | Some f \<Rightarrow> fScheduledAt f \<noteq> [])"

definition verifySwitchoverFlush :: "'w service \<Rightarrow> target \<Rightarrow> ('w, bool \<times> int \<times> evidence list) prog" where
  "verifySwitchoverFlush svc t =
     verifyLoop svc t restartVerificationInterval
       \<lparr>lwCanceled = ''scheduled switchover flush verification canceled'',
        lwFailed = ''scheduled switchover flush readback failed''\<rparr>
       (\<lambda>sn. (\<not> switchoverScheduled sn,
              if switchoverScheduled sn then ''scheduled switchover remains present in DCS''
              else ''scheduled switchover is absent from DCS''))
       snRevision (nat (svcVerificationAttempts svc)) False 0 []"

definition switchoverFlushDCSDeleteSummary :: "write_result \<Rightarrow> goerror option \<Rightarrow> string" where
  "switchoverFlushDCSDeleteSummary r err =
     (if err = None \<and> wrApplied r then ''DCS scheduled switchover delete CAS was applied''
      else if asConflictError err \<noteq> None then ''DCS scheduled switchover delete CAS conflicted''
      else ''DCS scheduled switchover delete ended without a verified apply'')"

text \<open>The branch the fallback repeats: UNKNOWN when a REST answer is still open, else FAILED.\<close>

definition flushDoubt ::
  "string \<Rightarrow> flush_intent \<Rightarrow> flush_data \<Rightarrow> string \<Rightarrow> category \<times> bool \<Rightarrow> string \<Rightarrow> goerror option \<Rightarrow> evidence list
   \<Rightarrow> flush_data result" where
  "flushDoubt opID fi d unsure cr failed cause evs =
     (if flushHasAmbiguousREST (fdResults d) then flushUnknown opID fi PathRESTToDCS d unsure cause evs
      else flushFailureWithRetry opID fi PathRESTToDCS d (fst cr) (snd cr) failed cause evs)"

definition finishCanceledSwitchoverFlush ::
  "string \<Rightarrow> flush_intent \<Rightarrow> flush_data \<Rightarrow> goerror option \<Rightarrow> evidence list \<Rightarrow> flush_data result" where
  "finishCanceledSwitchoverFlush opID fi d cause base =
     flushDoubt opID fi d ''scheduled switchover may have been flushed before cancellation; verify DCS''
       (CategoryFailed, False) ''scheduled switchover flush was canceled before completion'' cause
       (appendFlushEvidence base (fdResults d))"

text \<open>What the fallback answers once the key was deleted and the DCS read back.\<close>

definition concludeSwitchoverFlush ::
  "string \<Rightarrow> flush_intent \<Rightarrow> flush_data \<Rightarrow> goerror option \<Rightarrow> bool \<Rightarrow> evidence list \<Rightarrow> flush_data result" where
  "concludeSwitchoverFlush opID fi d writeError verified evs =
     (if verified then flushSuccess opID fi PathRESTToDCS (d\<lparr>fdVerification := VerifiedSucceeded\<rparr>) evs
      else if asConflictError writeError \<noteq> None then
        (if flushHasAmbiguousREST (fdResults d) \<or> fdDCSSendState d = SendMaybeSent then
           flushUnknown opID fi PathRESTToDCS d
             ''scheduled switchover REST/DCS deletion conflicted and was not verified'' writeError evs
         else flushFailure opID fi PathRESTToDCS d CategoryConflict
             ''scheduled switchover DCS delete lost a compare-and-swap race'' writeError evs)
      else if writeError \<noteq> None \<and> fdDCSSendState d = SendNotSent \<and> \<not> flushHasAmbiguousREST (fdResults d) then
        (case classifyReadError writeError of (cat, retryable) \<Rightarrow>
           flushFailureWithRetry opID fi PathRESTToDCS d cat retryable
             ''scheduled switchover was not deleted through REST or DCS'' writeError evs)
      else flushUnknown opID fi PathRESTToDCS d
             ''scheduled switchover deletion was not verified; inspect DCS before retrying'' writeError evs)"

definition deleteScheduledSwitchover ::
  "'w service \<Rightarrow> (failover_call \<Rightarrow> 'w \<Rightarrow> (write_result \<times> goerror option) \<times> 'w) \<Rightarrow> string \<Rightarrow> flush_intent
   \<Rightarrow> target \<Rightarrow> dcs_failover \<Rightarrow> flush_data \<Rightarrow> evidence list \<Rightarrow> ('w, flush_data result) prog" where
  "deleteScheduledSwitchover svc cap opID fi t f d evs = do {
     (wr, werr) \<leftarrow> callFailoverDCS cap (DeleteFailover t (Some (fModRevision f)));
     (let send = dcsSendState werr (wrApplied wr) in do {
        e \<leftarrow> observe svc EvidenceDCS (switchoverFlushDCSDeleteSummary wr werr) (FormatInt (wrRevision wr))
               (path_string PathDCS) send;
        (verified, revision, vevs) \<leftarrow> verifySwitchoverFlush svc t;
        State_Monad.return (concludeSwitchoverFlush opID fi
          (d\<lparr>fdDCSSendState := send, fdDCSRevision := (if revision > wrRevision wr then revision else wrRevision wr)\<rparr>)
          werr verified (evs @ [e] @ vevs))
      })
   }"

definition executeSwitchoverFlushFallback ::
  "'w service \<Rightarrow> 'w goctx \<Rightarrow> string \<Rightarrow> flush_intent \<Rightarrow> plan \<Rightarrow> target \<Rightarrow> flush_data \<Rightarrow> evidence list
   \<Rightarrow> ('w, flush_data result) prog" where
  "executeSwitchoverFlushFallback svc ctx opID fi p t0 d base =
     (let evs = appendFlushEvidence base (fdResults d); t = t0\<lparr>tMember := []\<rparr> in do {
        r \<leftarrow> Snapshot svc t;
        (case r of
           Inl err \<Rightarrow> do {
             e \<leftarrow> observe svc EvidenceDCS ''scheduled switchover fallback could not read DCS'' [] (path_string PathDCS)
                    SendNotSent;
             State_Monad.return (flushDoubt opID fi d
               ''scheduled switchover REST outcome is ambiguous and DCS could not be verified''
               (classifyReadError (Some err)) ''scheduled switchover fallback could not read DCS'' (Some err) (evs @ [e]))
           }
         | Inr fresh \<Rightarrow> do {
             e \<leftarrow> snapshotEvidence svc fresh ''scheduled switchover fallback obtained a fresh DCS snapshot'';
             (let evs = evs @ [e] in
              if \<not> switchoverScheduled fresh then
                State_Monad.return (flushSuccess opID fi PathRESTToDCS
                  (d\<lparr>fdVerification := VerifiedSucceeded, fdDCSRevision := snRevision fresh\<rparr>) evs)
              else (case revalidateSwitchoverFlushPlan p (cFailover (snCluster fresh))
                           (leaderFirstRESTMembers (snCluster fresh)) (snTarget fresh) of
                 Some err \<Rightarrow> State_Monad.return (flushDoubt opID fi d
                   ''scheduled switchover may have been flushed but fallback preconditions changed''
                   (CategoryConflict, False) ''scheduled switchover fallback lost its confirmed preconditions'' (Some err) evs)
               | None \<Rightarrow>
                   (case svcFailoverDCS svc of
                      None \<Rightarrow> State_Monad.return (flushDoubt opID fi d
                        ''scheduled switchover may have been flushed and DCS fallback is unavailable''
                        (CategoryConfig, False) ''scheduled switchover fallback requires DCS delete capability''
                        (Some (errorsNew ''dcs failover capability is unavailable'')) evs)
                    | Some cap \<Rightarrow> do {
                        ce \<leftarrow> ctxErr ctx;
                        (if ce \<noteq> None then State_Monad.return (flushDoubt opID fi d
                           ''scheduled switchover may have been flushed; cancellation prevented DCS fallback''
                           (CategoryFailed, False) ''scheduled switchover fallback was canceled before DCS delete'' ce evs)
                         else deleteScheduledSwitchover svc cap opID fi t (the (cFailover (snCluster fresh))) d evs)
                      })))
           })
      })"

definition switchoverFlushMember :: "'w service \<Rightarrow> snapshot \<Rightarrow> target \<Rightarrow> ('w, member_write_result) prog" where
  "switchoverFlushMember svc sn t =
     (case svcPatroni svc of
        None \<Rightarrow> flushMemberNotSent svc t CategoryConfig False ''scheduled switchover flush REST client is unavailable'' None
      | Some client \<Rightarrow>
          (case patroniBaseURL (memberAPIURL (cMembers (snCluster sn)) (tMember t)) of
             Inl err \<Rightarrow> invalidRESTAddressWrite svc ''flush'' t sn (Some (Plain err))
           | Inr baseURL \<Rightarrow> do {
               (response, callError) \<leftarrow> callREST client (DeleteSwitchover baseURL);
               classifySwitchoverFlushResponse svc t response callError
             }))"

text \<open>The loop over the planned targets: a result, or the data with which the fallback starts.\<close>

fun switchoverFlushLoop ::
  "'w service \<Rightarrow> 'w goctx \<Rightarrow> string \<Rightarrow> flush_intent \<Rightarrow> snapshot \<Rightarrow> evidence list \<Rightarrow> target list \<Rightarrow> flush_data
   \<Rightarrow> ('w, flush_data result + flush_data) prog" where
  "switchoverFlushLoop svc ctx opID fi sn base [] d = State_Monad.return (Inr d)"
| "switchoverFlushLoop svc ctx opID fi sn base (t # ts) d = do {
     ce \<leftarrow> ctxErr ctx;
     (if ce \<noteq> None then State_Monad.return (Inl (finishCanceledSwitchoverFlush opID fi d ce base))
      else do {
        m \<leftarrow> switchoverFlushMember svc sn t;
        (let d = d\<lparr>fdResults := fdResults d @ [m], fdRESTSendState := aggregateRESTSendState (fdResults d @ [m])\<rparr> in
         if mwHTTPStatus m = 200 then
           State_Monad.return (Inl (flushSuccess opID fi PathRESTToDCS (d\<lparr>fdVerification := VerifiedSucceeded\<rparr>)
             (appendFlushEvidence base (fdResults d))))
         else if mwHTTPStatus m = 404 then
           State_Monad.return (Inl (flushFailure opID fi PathRESTToDCS d CategoryNotFound
             ''Patroni reported that no scheduled switchover could be flushed'' (memberError m)
             (appendFlushEvidence base (fdResults d))))
         else switchoverFlushLoop svc ctx opID fi sn base ts d)
      })
   }"

definition executeSwitchoverFlush ::
  "'w service \<Rightarrow> 'w goctx \<Rightarrow> string \<Rightarrow> flush_intent \<Rightarrow> plan \<Rightarrow> snapshot \<Rightarrow> evidence list
   \<Rightarrow> ('w, flush_data result) prog" where
  "executeSwitchoverFlush svc ctx opID fi p sn base =
     (let plannedSchedule = (case expectedPrecondition p ''failover.scheduledAt'' of None \<Rightarrow> [] | Some s \<Rightarrow> s);
          d = zeroFlushData\<lparr>fdEvent := fiEvent fi, fdRESTSendState := SendNotSent, fdVerification := Unverified\<rparr>;
          noop = flushSuccess opID fi PathRESTToDCS (d\<lparr>fdNoop := True, fdVerification := VerifiedSucceeded\<rparr>) base in
      if plannedSchedule = [] then
        State_Monad.return
          (if switchoverScheduled sn then
             flushFailure opID fi PathRESTToDCS d CategoryConflict
               ''a scheduled switchover appeared after confirmation and was not deleted'' None base
           else noop)
      else if \<not> switchoverScheduled sn then State_Monad.return noop
      else (case revalidateSwitchoverFlushPlan p (cFailover (snCluster sn))
                   (leaderFirstRESTMembers (snCluster sn)) (snTarget sn) of
         Some err \<Rightarrow> State_Monad.return (flushFailure opID fi PathRESTToDCS d CategoryConflict
           ''scheduled switchover changed after confirmation'' (Some err) base)
       | None \<Rightarrow> do {
           r \<leftarrow> switchoverFlushLoop svc ctx opID fi sn base (pTargets p) d;
           (case r of
              Inl res \<Rightarrow> State_Monad.return res
            | Inr d \<Rightarrow> executeSwitchoverFlushFallback svc ctx opID fi p (snTarget sn) d base)
         }))"


section \<open>Execution\<close>

definition ExecuteFlush ::
  "'w service \<Rightarrow> 'w goctx \<Rightarrow> flush_request \<Rightarrow> plan \<Rightarrow> ('w, flush_data result) prog" where
  "ExecuteFlush svc ctx rq p = do {
     opID \<leftarrow> (if TrimSpace (pOperationID p) = [] then operationID svc
              else State_Monad.return (TrimSpace (pOperationID p)));
     (case normalizeFlushRequest rq of (fi, err) \<Rightarrow>
      (let t = fiTarget fi; path = flushPath (fiEvent fi) in
       if \<not> validContext ctx then
         failedRead svc zeroFlushData opID ''flush'' t path CategoryUsage False ''flush requires a context'' None
       else if err \<noteq> None then
         failedRead svc zeroFlushData opID ''flush'' t path CategoryUsage False ''flush request is invalid'' err
       else if validateFlushPlan p fi \<noteq> None then
         failedRead svc zeroFlushData opID ''flush'' t path CategoryUsage False
           ''flush plan does not match the request'' (validateFlushPlan p fi)
       else do {
         (evs, r) \<leftarrow> flushOperationSnapshots svc fi;
         (case r of
            Inl f \<Rightarrow> failedReadWithEvidence svc zeroFlushData opID ''flush'' t path (dfCategory f) (dfRetryable f)
                       (dfMessage f) (dfCause f) evs
          | Inr sns \<Rightarrow>
              if snapshotGroupIDs sns \<noteq> plannedGroups p then
                failedReadWithEvidence svc zeroFlushData opID ''flush'' t path CategoryConflict False
                  ''flush was not sent because the Citus group inventory changed'' None evs
              else if fiEvent fi = FlushRestart then executeRestartFlush svc ctx opID fi p sns evs
              else executeSwitchoverFlush svc ctx opID fi p (hd sns) evs)
       }))
   }"

end
