(* ===== verification/Pause.thy ===== *)
theory Pause
  imports Flush
begin

text \<open>
  Pausing and resuming the cluster management, \<^verbatim>\<open>src/control/pause.go\<close>: the members are asked one
  after another, leader first, to patch the configuration, until one answers with an HTTP status; an
  ambiguous send is settled by reading the configuration and the members back.
\<close>

section \<open>Requests and plans\<close>

record pause_intent =
  piOperation :: string
  piTarget :: target
  piDesired :: bool
  piWait :: bool
  piCitus :: bool

definition normalizePauseRequest :: "string \<Rightarrow> bool \<Rightarrow> pause_request \<Rightarrow> pause_intent \<times> goerror option" where
  "normalizePauseRequest operation desired rq =
     (let t = Normalize (pqTarget rq) in
      (\<lparr>piOperation = operation, piTarget = t, piDesired = desired, piWait = pqWait rq, piCitus = pqCitus rq\<rparr>,
       if tMember t \<noteq> [] then Some (errorsNew ''pause/resume target must be a cluster'')
       else map_option errorsNew (Validate t True)))"

definition snapshotPaused :: "snapshot \<Rightarrow> bool" where
  "snapshotPaused sn = boolConfig (jlookup (cConfig (snCluster sn)) ''pause'')"

definition pausePlan :: "string \<Rightarrow> pause_intent \<Rightarrow> snapshot \<Rightarrow> plan" where
  "pausePlan opID pi sn =
     (let targets = memberTargets (piTarget pi) (leaderFirstRESTMembers (snCluster sn)) in
      \<lparr>pOperationID = opID, pOperation = piOperation pi, pTarget = piTarget pi, pTargets = targets,
       pPath = PathREST, pRisk = RiskAvailability, pRetrySafety = UnsafeAfterSend,
       pSummary = piOperation pi @ '' cluster management through leader-first members: ''
                    @ Join '', '' (memberNamesFromTargets targets),
       pPreconditions =
         [pre ''dcs.revision'' (FormatInt (snRevision sn)) EvidenceDCS,
          pre ''pause.current'' (FormatBool (snapshotPaused sn)) EvidenceDCS,
          pre ''pause.desired'' (FormatBool (piDesired pi)) EvidenceControl,
          pre ''request.wait'' (FormatBool (piWait pi)) EvidenceControl,
          pre ''request.citus'' (FormatBool (piCitus pi)) EvidenceControl,
          pre ''rest.members'' (Join '','' (memberNamesFromTargets targets)) EvidenceDCS]\<rparr>)"

text \<open>\<open>failedRead\<close> with one piece of evidence from a snapshot.\<close>

definition failedOnSnapshot ::
  "'w service \<Rightarrow> 'd \<Rightarrow> string \<Rightarrow> string \<Rightarrow> target \<Rightarrow> path \<Rightarrow> category \<Rightarrow> string \<Rightarrow> goerror option \<Rightarrow> snapshot \<Rightarrow> string
   \<Rightarrow> ('w, 'd result) prog" where
  "failedOnSnapshot svc zero opID operation t path cat message cause sn summary = do {
     e \<leftarrow> snapshotEvidence svc sn summary;
     failedReadWithEvidence svc zero opID operation t path cat False message cause [e]
   }"

definition preparePause ::
  "'w service \<Rightarrow> 'w goctx \<Rightarrow> pause_intent \<Rightarrow> goerror option \<Rightarrow> ('w, plan result) prog" where
  "preparePause svc ctx pi requestError = do {
     opID \<leftarrow> operationID svc;
     (let op = piOperation pi; t = piTarget pi in
      if \<not> validContext ctx then
        failedRead svc zeroPlan opID op t PathREST CategoryUsage False (op @ '' requires a context'') None
      else if requestError \<noteq> None then
        failedRead svc zeroPlan opID op t PathREST CategoryUsage False (op @ '' request is invalid'') requestError
      else do {
        r \<leftarrow> Snapshot svc t;
        (case r of
           Inl err \<Rightarrow> (case classifyReadError (Some err) of (cat, retryable) \<Rightarrow>
             failedRead svc zeroPlan opID op t PathREST cat retryable (op @ '' cluster discovery failed'') (Some err))
         | Inr sn \<Rightarrow>
             (case checkSnapshotPatroniVersion svc sn False of
                Some err \<Rightarrow> unsupportedVersionResult svc zeroPlan opID op t PathREST sn (Some err)
              | None \<Rightarrow>
                  if snapshotPaused sn = piDesired pi then
                    failedOnSnapshot svc zeroPlan opID op t PathREST CategoryConflict
                      (if piDesired pi then ''cluster is already paused'' else ''cluster is not paused'') None sn
                      (op @ '' observed current cluster state'')
                  else if leaderFirstRESTMembers (snCluster sn) = [] then
                    failedOnSnapshot svc zeroPlan opID op t PathREST CategoryNotFound
                      ''cannot find an accessible cluster member'' None sn (op @ '' member selection completed'')
                  else (let p = pausePlan opID pi sn in
                    (case plan_Validate p of
                       Some err \<Rightarrow> failedOnSnapshot svc zeroPlan opID op t PathREST CategoryInternal
                         (op @ '' plan construction failed'') (Some err) sn (op @ '' member selection completed'')
                     | None \<Rightarrow> do {
                         e \<leftarrow> snapshotEvidence svc sn (op @ '' plan built from fresh cluster snapshot'');
                         State_Monad.return \<lparr>rOperationID = opID, rOutcome = Succeeded, rTarget = t, rPath = PathREST,
                           rData = p, rEvidence = [e], rError = None\<rparr>
                       }))))
      })
   }"

definition validatePausePlan :: "plan \<Rightarrow> pause_intent \<Rightarrow> goerror option" where
  "validatePausePlan p pi =
     (case plan_Validate p of
        Some e \<Rightarrow> Some e
      | None \<Rightarrow>
         if pOperation p \<noteq> piOperation pi \<or> pPath p \<noteq> PathREST \<or> pRisk p \<noteq> RiskAvailability
            \<or> pRetrySafety p \<noteq> UnsafeAfterSend then
           Some (errorsNew ''plan operation contract differs from pause/resume'')
         else if ClusterID (Normalize (pTarget p)) \<noteq> ClusterID (piTarget pi) then
           Some (errorsNew ''plan cluster differs from request'')
         else (case firstMismatch p
             [(''pause.desired'', FormatBool (piDesired pi)), (''request.wait'', FormatBool (piWait pi)),
              (''request.citus'', FormatBool (piCitus pi)),
              (''rest.members'', Join '','' (memberNamesFromTargets (pTargets p)))] of
            Some field \<Rightarrow> Some (Errorf ''plan %s differs from request'' [AStr field] [])
          | None \<Rightarrow>
              if pTargets p = [] then Some (errorsNew ''pause/resume plan requires REST member targets'') else None))"


section \<open>Results\<close>

definition pauseSuccess :: "string \<Rightarrow> pause_intent \<Rightarrow> pause_data \<Rightarrow> evidence list \<Rightarrow> pause_data result" where
  "pauseSuccess opID pi d evs =
     \<lparr>rOperationID = opID, rOutcome = Succeeded, rTarget = piTarget pi, rPath = PathREST, rData = d,
      rEvidence = evs, rError = None\<rparr>"

definition pauseFailure ::
  "string \<Rightarrow> pause_intent \<Rightarrow> pause_data \<Rightarrow> category \<Rightarrow> bool \<Rightarrow> string \<Rightarrow> goerror option \<Rightarrow> evidence list
   \<Rightarrow> pause_data result" where
  "pauseFailure opID pi d cat retryable message cause evs =
     \<lparr>rOperationID = opID, rOutcome = Failed, rTarget = piTarget pi, rPath = PathREST,
      rData = d\<lparr>pdVerification := VerifiedFailed\<rparr>, rEvidence = evs,
      rError = Some (NewError cat (piOperation pi) (piTarget pi) retryable message cause evs)\<rparr>"

definition pauseUnknown ::
  "string \<Rightarrow> pause_intent \<Rightarrow> pause_data \<Rightarrow> string \<Rightarrow> goerror option \<Rightarrow> evidence list \<Rightarrow> pause_data result" where
  "pauseUnknown opID pi d message cause evs =
     \<lparr>rOperationID = opID, rOutcome = Unknown, rTarget = piTarget pi, rPath = PathREST,
      rData = d\<lparr>pdVerification := Unverified\<rparr>, rEvidence = evs,
      rError = Some (NewError CategoryUnknown (piOperation pi) (piTarget pi) False message cause evs)\<rparr>"

text \<open>The category, retryability and cause of the last member result that has an error.\<close>

fun terminalPauseFailure ::
  "category \<times> bool \<times> goerror option \<Rightarrow> member_write_result list \<Rightarrow> category \<times> bool \<times> goerror option" where
  "terminalPauseFailure v [] = v"
| "terminalPauseFailure v (m # ms) =
     terminalPauseFailure
       (case mwError m of None \<Rightarrow> v | Some e \<Rightarrow> (errCategory e, errRetryable e, Some (ControlError e))) ms"

definition lastPauseError :: "member_write_result list \<Rightarrow> goerror option" where
  "lastPauseError ms = first_some memberError (rev ms)"

definition finishCanceledPause ::
  "string \<Rightarrow> pause_intent \<Rightarrow> pause_data \<Rightarrow> goerror option \<Rightarrow> evidence list \<Rightarrow> pause_data result" where
  "finishCanceledPause opID pi d cause base =
     (let evs = appendFlushEvidence base (pdResults d) in
      if flushHasAmbiguousREST (pdResults d) then
        pauseUnknown opID pi d (piOperation pi @ '' may have been sent before cancellation; verify DCS'') cause evs
      else pauseFailure opID pi d CategoryFailed False (piOperation pi @ '' was canceled before completion'') cause evs)"


section \<open>Reading back\<close>

definition pausePendingMembers :: "cluster_state \<Rightarrow> string list \<Rightarrow> bool \<Rightarrow> string list" where
  "pausePendingMembers cl planned desired =
     sort (filter (\<lambda>name.
       (case memberMap (cMembers cl) name of
          None \<Rightarrow> True
        | Some m \<Rightarrow> (mdPause (mData m) = Some True) \<noteq> desired)) planned)"

definition pauseConverged :: "pause_intent \<Rightarrow> string list \<Rightarrow> snapshot \<Rightarrow> bool" where
  "pauseConverged pi planned sn =
     (snapshotPaused sn = piDesired pi
      \<and> (\<not> piWait pi \<or> pausePendingMembers (snCluster sn) planned (piDesired pi) = []))"

text \<open>The remembered members are those pending on the last snapshot read, none after a match.\<close>

definition verifyPauseState ::
  "'w service \<Rightarrow> pause_intent \<Rightarrow> string list \<Rightarrow> ('w, bool \<times> (string list \<times> int) \<times> evidence list) prog" where
  "verifyPauseState svc pi planned =
     verifyLoop svc (piTarget pi) restartVerificationInterval
       \<lparr>lwCanceled = piOperation pi @ '' convergence verification canceled'',
        lwFailed = piOperation pi @ '' convergence readback failed''\<rparr>
       (\<lambda>sn. (pauseConverged pi planned sn,
              if pauseConverged pi planned sn then piOperation pi @ '' state is authoritative''
              else piOperation pi @ '' state is not yet authoritative''))
       (\<lambda>sn. (if pauseConverged pi planned sn then []
              else pausePendingMembers (snCluster sn) planned (piDesired pi), snRevision sn))
       (nat (svcVerificationAttempts svc)) False ([], 0) []"

text \<open>The shape the source repeats four times: verify, then SUCCEEDED or UNKNOWN.\<close>

definition settlePause ::
  "'w service \<Rightarrow> string \<Rightarrow> pause_intent \<Rightarrow> pause_data \<Rightarrow> string list \<Rightarrow> string \<Rightarrow> goerror option \<Rightarrow> evidence list
   \<Rightarrow> ('w, pause_data result) prog" where
  "settlePause svc opID pi d planned unsure cause evs = do {
     (verified, (pending, revision), vevs) \<leftarrow> verifyPauseState svc pi planned;
     (let d = d\<lparr>pdPendingMembers := pending, pdDCSRevision := revision\<rparr> in
      State_Monad.return
        (if verified then pauseSuccess opID pi (d\<lparr>pdVerification := VerifiedSucceeded\<rparr>) (evs @ vevs)
         else pauseUnknown opID pi d unsure cause (evs @ vevs)))
   }"


section \<open>Execution\<close>

definition classifyPauseResponse ::
  "'w service \<Rightarrow> pause_intent \<Rightarrow> target \<Rightarrow> rest_response \<Rightarrow> goerror option \<Rightarrow> ('w, member_write_result) prog" where
  "classifyPauseResponse svc pi =
     (let op = piOperation pi in
      classifyAnswer svc op
        \<lparr>awPath = ''/config'', awAccepted = ''Patroni accepted '' @ op @ '' configuration'',
         awRejected = ''Patroni rejected '' @ op @ '' configuration'',
         awSilent = op @ '' transport ended without an HTTP response'',
         awUnknown = op @ '' may have been sent'', awNotSent = op @ '' was not sent''\<rparr>
        (\<lambda>status. status = 200))"

definition pauseMemberNotSent ::
  "'w service \<Rightarrow> pause_intent \<Rightarrow> target \<Rightarrow> category \<Rightarrow> bool \<Rightarrow> string \<Rightarrow> goerror option \<Rightarrow> ('w, member_write_result) prog" where
  "pauseMemberNotSent svc pi t cat retryable message cause =
     memberNotSent svc (piOperation pi) t cat retryable message cause"

definition pausePayload :: "pause_intent \<Rightarrow> jobject" where
  "pausePayload pi = [(''pause'', if piDesired pi then JBool True else JNull)]"

definition pauseMember :: "'w service \<Rightarrow> pause_intent \<Rightarrow> snapshot \<Rightarrow> target \<Rightarrow> ('w, member_write_result) prog" where
  "pauseMember svc pi sn t =
     (case svcPatroni svc of
        None \<Rightarrow> pauseMemberNotSent svc pi t CategoryConfig False ''Patroni REST client is unavailable'' None
      | Some client \<Rightarrow>
          (case patroniBaseURL (memberAPIURL (cMembers (snCluster sn)) (tMember t)) of
             Inl err \<Rightarrow> invalidRESTAddressWrite svc (piOperation pi) t sn (Some (Plain err))
           | Inr baseURL \<Rightarrow> do {
               (response, callError) \<leftarrow> callREST client (PatchConfig baseURL (pausePayload pi));
               classifyPauseResponse svc pi t response callError
             }))"

definition finishPauseHTTPResponse ::
  "'w service \<Rightarrow> string \<Rightarrow> pause_intent \<Rightarrow> pause_data \<Rightarrow> member_write_result \<Rightarrow> string list \<Rightarrow> evidence list
   \<Rightarrow> ('w, pause_data result) prog" where
  "finishPauseHTTPResponse svc opID pi d terminal planned base =
     (let evs = appendFlushEvidence base (pdResults d) in
      if mwHTTPStatus terminal = 200 then
        (if \<not> piWait pi then State_Monad.return (pauseSuccess opID pi (d\<lparr>pdVerification := VerifiedSucceeded\<rparr>) evs)
         else settlePause svc opID pi d planned
                (piOperation pi @ '' was accepted but member convergence was not verified'') (memberError terminal) evs)
      else if flushHasAmbiguousREST (pdResults d) then
        settlePause svc opID pi d planned
          (piOperation pi @ '' had an earlier ambiguous send and was not verified'') (memberError terminal) evs
      else (case classifyHTTPStatus (mwHTTPStatus terminal) of (cat, retryable) \<Rightarrow>
        State_Monad.return (pauseFailure opID pi d cat retryable (''Patroni rejected '' @ piOperation pi)
          (memberError terminal) evs)))"

fun pauseLoop ::
  "'w service \<Rightarrow> 'w goctx \<Rightarrow> string \<Rightarrow> pause_intent \<Rightarrow> snapshot \<Rightarrow> string list \<Rightarrow> evidence list \<Rightarrow> target list
   \<Rightarrow> pause_data \<Rightarrow> ('w, pause_data result) prog" where
  "pauseLoop svc ctx opID pi sn planned base [] d =
     (let evs = appendFlushEvidence base (pdResults d) in
      if flushHasAmbiguousREST (pdResults d) then
        settlePause svc opID pi d planned
          (piOperation pi @ '' may have been sent but authoritative state did not verify it'')
          (lastPauseError (pdResults d)) evs
      else (case terminalPauseFailure (CategoryUnreachable, True, None) (pdResults d) of (cat, retryable, cause) \<Rightarrow>
        State_Monad.return (pauseFailure opID pi d cat retryable ''cannot find an accessible cluster member'' cause evs)))"
| "pauseLoop svc ctx opID pi sn planned base (t # ts) d = do {
     ce \<leftarrow> ctxErr ctx;
     (if ce \<noteq> None then State_Monad.return (finishCanceledPause opID pi d ce base)
      else do {
        m \<leftarrow> pauseMember svc pi sn t;
        (let d = d\<lparr>pdResults := pdResults d @ [m], pdRESTSendState := aggregateRESTSendState (pdResults d @ [m])\<rparr> in
         if mwHTTPStatus m \<noteq> 0 then finishPauseHTTPResponse svc opID pi d m planned base
         else pauseLoop svc ctx opID pi sn planned base ts d)
      })
   }"

text \<open>The data an execution starts with.\<close>

definition pauseStart :: "pause_intent \<Rightarrow> pause_data" where
  "pauseStart pi =
     zeroPauseData\<lparr>pdPaused := piDesired pi, pdWait := piWait pi, pdRESTSendState := SendNotSent,
       pdVerification := Unverified\<rparr>"

definition pauseOnSnapshot ::
  "'w service \<Rightarrow> 'w goctx \<Rightarrow> string \<Rightarrow> pause_intent \<Rightarrow> plan \<Rightarrow> snapshot \<Rightarrow> evidence list \<Rightarrow> ('w, pause_data result) prog" where
  "pauseOnSnapshot svc ctx opID pi p sn base =
     (let op = piOperation pi;
          d = pauseStart pi;
          planned = memberNamesFromTargets (pTargets p) in
      if snapshotPaused sn = piDesired pi then
        (if \<not> piWait pi then
           State_Monad.return (pauseSuccess opID pi
             (d\<lparr>pdNoop := True, pdVerification := VerifiedSucceeded, pdDCSRevision := snRevision sn\<rparr>) base)
         else settlePause svc opID pi (d\<lparr>pdNoop := True\<rparr>) planned
                (op @ '' state is set but member convergence is unverified'') None base)
      else if Join '','' (memberNamesFromTargets (memberTargets (piTarget pi) (leaderFirstRESTMembers (snCluster sn))))
              \<noteq> Join '','' planned then
        State_Monad.return (pauseFailure opID pi d CategoryConflict False
          (op @ '' was not sent because the confirmed REST member set changed'') None base)
      else pauseLoop svc ctx opID pi sn planned base (pTargets p) d)"

definition executePause ::
  "'w service \<Rightarrow> 'w goctx \<Rightarrow> pause_intent \<Rightarrow> goerror option \<Rightarrow> plan \<Rightarrow> ('w, pause_data result) prog" where
  "executePause svc ctx pi requestError p = do {
     opID \<leftarrow> (if TrimSpace (pOperationID p) = [] then operationID svc
              else State_Monad.return (TrimSpace (pOperationID p)));
     (let op = piOperation pi; t = piTarget pi in
      if \<not> validContext ctx then
        failedRead svc zeroPauseData opID op t PathREST CategoryUsage False (op @ '' requires a context'') None
      else if requestError \<noteq> None then
        failedRead svc zeroPauseData opID op t PathREST CategoryUsage False (op @ '' request is invalid'') requestError
      else if validatePausePlan p pi \<noteq> None then
        failedRead svc zeroPauseData opID op t PathREST CategoryUsage False
          (op @ '' plan does not match the request'') (validatePausePlan p pi)
      else do {
        r \<leftarrow> Snapshot svc t;
        (case r of
           Inl err \<Rightarrow> (case classifyReadError (Some err) of (cat, retryable) \<Rightarrow>
             failedRead svc zeroPauseData opID op t PathREST cat retryable (op @ '' execution snapshot failed'') (Some err))
         | Inr sn \<Rightarrow>
             (case checkSnapshotPatroniVersion svc sn False of
                Some err \<Rightarrow> unsupportedVersionResult svc zeroPauseData opID op t PathREST sn (Some err)
              | None \<Rightarrow> do {
                  e \<leftarrow> snapshotEvidence svc sn (op @ '' targets revalidated before execution'');
                  pauseOnSnapshot svc ctx opID pi p sn [e]
                }))
      })
   }"

definition PreparePause :: "'w service \<Rightarrow> 'w goctx \<Rightarrow> pause_request \<Rightarrow> ('w, plan result) prog" where
  "PreparePause svc ctx rq = (case normalizePauseRequest ''pause'' True rq of (pi, err) \<Rightarrow> preparePause svc ctx pi err)"

definition ExecutePause :: "'w service \<Rightarrow> 'w goctx \<Rightarrow> pause_request \<Rightarrow> plan \<Rightarrow> ('w, pause_data result) prog" where
  "ExecutePause svc ctx rq p = (case normalizePauseRequest ''pause'' True rq of (pi, err) \<Rightarrow> executePause svc ctx pi err p)"

definition PrepareResume :: "'w service \<Rightarrow> 'w goctx \<Rightarrow> pause_request \<Rightarrow> ('w, plan result) prog" where
  "PrepareResume svc ctx rq = (case normalizePauseRequest ''resume'' False rq of (pi, err) \<Rightarrow> preparePause svc ctx pi err)"

definition ExecuteResume :: "'w service \<Rightarrow> 'w goctx \<Rightarrow> pause_request \<Rightarrow> plan \<Rightarrow> ('w, pause_data result) prog" where
  "ExecuteResume svc ctx rq p = (case normalizePauseRequest ''resume'' False rq of (pi, err) \<Rightarrow> executePause svc ctx pi err p)"

end
