(* ===== verification/Leader_First.thy ===== *)
theory Leader_First
  imports Batch_Spec Pause
begin

text \<open>
  Operations that ask the members one after another, leader first, until one of them answers: flushing
  a scheduled switchover, pausing and resuming.  What one question may do is a locale; from it follow
  the facts about the list of members asked so far that the loops of both operations rest on.
\<close>

section \<open>One question\<close>

text \<open>Nothing was sent, or one call to the address the member publishes, classified.\<close>

definition asked ::
  "bool \<Rightarrow> snapshot \<Rightarrow> (string \<Rightarrow> rest_call) \<Rightarrow> (int \<Rightarrow> bool) \<Rightarrow> target \<Rightarrow> member_write_result \<Rightarrow> event list \<Rightarrow> bool" where
  "asked clocked sn call accepts t m ds =
     ((ds = [] \<and> mwTarget m = t \<and> refused clocked m \<and> mwHTTPStatus m = 0)
      \<or> (\<exists>u r e. ds = [EvRest (call u) r e]
           \<and> patroniBaseURL (memberAPIURL (cMembers (snCluster sn)) (tMember t)) = Inr u
           \<and> classified clocked accepts t r e m))"

text \<open>Each question comes after a look at the context that found it live.\<close>

definition visited ::
  "bool \<Rightarrow> snapshot \<Rightarrow> (string \<Rightarrow> rest_call) \<Rightarrow> (int \<Rightarrow> bool) \<Rightarrow> target list \<Rightarrow> member_write_result list
   \<Rightarrow> event list \<Rightarrow> bool" where
  "visited clocked sn call accepts = segments (\<lambda>t m d. \<exists>d'. d = EvCtx None # d' \<and> asked clocked sn call accepts t m d')"

section \<open>Answers\<close>

fun answer_status :: "event \<Rightarrow> int option" where
  "answer_status (EvRest c r e) = (if rest_write c \<and> respStatus r \<noteq> 0 then Some (respStatus r) else None)"
| "answer_status _ = None"

text \<open>The first HTTP status a write got.\<close>

definition answered :: "event list \<Rightarrow> int option" where
  "answered ds = first_some answer_status ds"

lemma first_some_append:
  "first_some f (xs @ ys) = (case first_some f xs of None \<Rightarrow> first_some f ys | Some y \<Rightarrow> Some y)"
  by (induction xs) (auto split: option.splits)

lemma answered_simps [simp]:
  "answered [] = None"
  "answered (EvRest c r e # xs) = (if rest_write c \<and> respStatus r \<noteq> 0 then Some (respStatus r) else answered xs)"
  "answered (EvCtx x # xs) = answered xs" "answered (EvSnapshot t sn # xs) = answered xs"
  "answered (EvWait d x # xs) = answered xs" "answered (EvFailover fc w x # xs) = answered xs"
  by (simp_all add: answered_def)

lemma answered_append: "answered (xs @ ys) = (case answered xs of None \<Rightarrow> answered ys | Some y \<Rightarrow> Some y)"
  unfolding answered_def first_some_append ..

lemma answered_skip [simp]: "answered xs = None \<Longrightarrow> answered (xs @ ys) = answered ys"
  by (simp add: answered_append)

lemma readback_unanswered: "list_all (is_readback t) ds \<Longrightarrow> answered ds = None"
  by (induction ds) (auto elim!: is_readback.elims)

lemma segments_induct [consumes 1, case_names Nil Cons]:
  assumes "segments P xs ys ds" and "R [] [] []"
    and "\<And>x xs y ys a b. P x y a \<Longrightarrow> segments P xs ys b \<Longrightarrow> R xs ys b \<Longrightarrow> R (x # xs) (y # ys) (a @ b)"
  shows "R xs ys ds"
  using assms(1)
proof (induction xs arbitrary: ys ds)
  case Nil
  with assms(2) show ?case by (cases ys) auto
next
  case (Cons x xs)
  with assms(3) show ?case by (cases ys) auto
qed

lemma segments_snoc: "segments P xs ys ds \<Longrightarrow> P x y d \<Longrightarrow> segments P (xs @ [x]) (ys @ [y]) (ds @ d)"
proof (induction rule: segments_induct)
  case (Cons x' xs y' ys a b)
  then show ?case by (metis append.assoc append_Cons segments.simps(2))
qed auto


text \<open>Every write comes right after a look at the context that found it live.\<close>

fun looked :: "bool \<Rightarrow> event list \<Rightarrow> bool" where
  "looked ok [] = True"
| "looked ok (e # es) = ((is_write e \<longrightarrow> ok) \<and> looked (e = EvCtx None) es)"

lemma looked_quiet: "\<not> list_ex is_write es \<Longrightarrow> looked b es"
  by (induction es arbitrary: b) auto

lemma looked_append: "looked b xs \<Longrightarrow> \<not> list_ex is_write ys \<Longrightarrow> looked b (xs @ ys)"
  by (induction xs arbitrary: b) (auto simp: looked_quiet)

text \<open>After the first HTTP status a write gets, nothing more is written.\<close>

fun first_answer_final :: "event list \<Rightarrow> bool" where
  "first_answer_final [] = True"
| "first_answer_final (e # es) = ((answer_status e \<noteq> None \<longrightarrow> \<not> list_ex is_write es) \<and> first_answer_final es)"

lemma first_answer_final_append:
  "answered (butlast a) = None \<Longrightarrow> \<not> list_ex is_write b \<Longrightarrow> first_answer_final (a @ b)"
proof (induction a)
  case Nil
  then show ?case by (induction b) auto
next
  case (Cons e a)
  then show ?case
    by (cases "a = []") (auto simp: answered_def split: option.splits if_splits)
qed


section \<open>The contract\<close>

locale leader_first =
  fixes step :: "target \<Rightarrow> ('w, member_write_result) prog"
    and sn :: snapshot
    and call :: "string \<Rightarrow> rest_call"
    and accepts :: "int \<Rightarrow> bool"
    and clocked :: bool
  assumes step: "valid [] (step t) (asked clocked sn call accepts t)"
    and writes: "rest_write (call u)"
    and silent: "\<not> accepts 0"
begin

abbreviation asks :: "target \<Rightarrow> member_write_result \<Rightarrow> event list \<Rightarrow> bool" where
  "asks \<equiv> asked clocked sn call accepts"

abbreviation visits :: "target list \<Rightarrow> member_write_result list \<Rightarrow> event list \<Rightarrow> bool" where
  "visits \<equiv> visited clocked sn call accepts"

lemma use:
  assumes "\<And>m ds. asks t m ds \<Longrightarrow> Q m (es @ ds)"
  shows "valid es (step t) Q"
  by (rule valid_use [OF step]) (use assms in auto)

lemma one:
  assumes "asks t m ds"
  shows "mwTarget m = t" and "mwOutcome m = Unknown \<longleftrightarrow> \<not> list_all definite ds"
    and "answered ds = (if mwHTTPStatus m = 0 then None else Some (mwHTTPStatus m))"
    and "length (filter is_write ds) \<le> 1" and "length ds \<le> 1" and "clocked \<Longrightarrow> member_sound m"
    and "EvRest c r e \<in> set ds \<Longrightarrow>
          \<exists>u. c = call u \<and> patroniBaseURL (memberAPIURL (cMembers (snCluster sn)) (tMember t)) = Inr u"
  using assms writes silent
  by (auto simp: asked_def refused_def classified_def split: if_splits)

lemma grow:
  assumes "visits vs ms ds" and "asks t m d"
  shows "visits (vs @ [t]) (ms @ [m]) (ds @ EvCtx None # d)"
  using segments_snoc [OF assms(1) [unfolded visited_def], where x = t and y = m and d = "EvCtx None # d"] assms(2)
  by (simp add: visited_def)

lemma none: "visits [] [] []"
  by (simp add: visited_def)

text \<open>Among the members asked, one is UNKNOWN exactly when the fate of a write is open.\<close>

lemma open_iff: "visits vs ms ds \<Longrightarrow> flushHasAmbiguousREST ms \<longleftrightarrow> \<not> list_all definite ds"
  unfolding visited_def
  by (induction rule: segments_induct) (auto simp: flushHasAmbiguousREST_def one(2))

lemma targets: "visits vs ms ds \<Longrightarrow> map mwTarget ms = vs"
  unfolding visited_def by (induction rule: segments_induct) (auto dest: one(1))

lemma sound: "visits vs ms ds \<Longrightarrow> clocked \<Longrightarrow> \<forall>m \<in> set ms. member_sound m"
  unfolding visited_def by (induction rule: segments_induct) (use one(6) in auto)

lemma categorized: "visits vs ms ds \<Longrightarrow> \<forall>m \<in> set ms. categorized m"
  unfolding visited_def by (induction rule: segments_induct) (auto simp: asked_def refused_def classified_def)

lemma bound: "visits vs ms ds \<Longrightarrow> length (filter is_write ds) \<le> length vs \<and> length ds \<le> 2 * length vs"
  unfolding visited_def
proof (induction rule: segments_induct)
  case (Cons t vs m ms a b)
  then obtain d' where "a = EvCtx None # d'" "asks t m d'" by blast
  with one(4,5) [of t m d'] Cons.IH show ?case by simp
qed simp

lemma addresses:
  "visits vs ms ds \<Longrightarrow> EvRest c r e \<in> set ds \<Longrightarrow>
     \<exists>t \<in> set vs. \<exists>u. c = call u \<and> patroniBaseURL (memberAPIURL (cMembers (snCluster sn)) (tMember t)) = Inr u"
  unfolding visited_def by (induction rule: segments_induct) (auto dest: one(7))

lemma live: "visits vs ms ds \<Longrightarrow> EvCtx (Some x) \<notin> set ds"
  unfolding visited_def by (induction rule: segments_induct) (auto simp: asked_def)

lemma looked: "visits vs ms ds \<Longrightarrow> looked b ds"
  unfolding visited_def by (induction arbitrary: b rule: segments_induct) (auto simp: asked_def)

lemma only_asks: "visits vs ms ds \<Longrightarrow> x \<in> set ds \<Longrightarrow> x = EvCtx None \<or> (\<exists>c r e. x = EvRest c r e)"
  unfolding visited_def by (induction rule: segments_induct) (auto simp: asked_def)

end


section \<open>Shared facts about results and traces\<close>

lemma failedOnSnapshot_wp [wp]:
  "(\<And>r e. observed svc EvidenceDCS summary SendEmpty e \<Longrightarrow> failed_with svc zero opID operation t path cat message [e] r \<Longrightarrow> Q r es)
   \<Longrightarrow> valid es (failedOnSnapshot svc zero opID operation t path cat message cause sn summary) Q"
  unfolding failedOnSnapshot_def by (intro wp) blast

text \<open>The last event is a reading of a good state.\<close>

definition confirms :: "(snapshot \<Rightarrow> bool) \<Rightarrow> event list \<Rightarrow> bool" where
  "confirms good ds = (ds \<noteq> [] \<and> exhibits good (last ds))"

lemma readback_confirms: "readback_trace t n good ok ds \<Longrightarrow> ok \<longleftrightarrow> confirms good ds"
  by (cases ds rule: rev_cases) (cases ok; auto simp: readback_trace_def confirms_def)+

lemma read_snapshots_set: "sn \<in> set (read_snapshots ds) \<longleftrightarrow> (\<exists>t. EvSnapshot t (Inr sn) \<in> set ds)"
  by (induction ds rule: read_snapshots.induct) auto

lemma aggregateRESTSendState_ok [simp]:
  "validOrEmpty (aggregateRESTSendState ms)" "aggregateRESTSendState ms \<noteq> SendEmpty"
  by (simp_all add: aggregateRESTSendState_def)

lemma appendFlushEvidence_ok [simp]:
  "evidence_all_ok (appendFlushEvidence base ms) \<longleftrightarrow> evidence_all_ok base \<and> (\<forall>m \<in> set ms. evidence_all_ok (mwEvidence m))"
  "appendFlushEvidence base ms = [] \<longleftrightarrow> base = [] \<and> (\<forall>m \<in> set ms. mwEvidence m = [])"
  by (auto simp: appendFlushEvidence_def evidence_all_ok_def)

lemma confirms_simps [simp]:
  "\<not> confirms good []" "b \<noteq> [] \<Longrightarrow> confirms good (a @ b) \<longleftrightarrow> confirms good b"
  "\<not> confirms good [EvCtx x]"
  by (auto simp: confirms_def)

lemma readback_definite: "list_all (is_readback t) ds \<Longrightarrow> list_all definite ds"
  using is_readback_list by blast

lemma asked_sound:
  assumes "asked clocked sn call accepts t m ds" and clocked
  shows "member_sound m \<and> categorized m"
  using assms by (auto simp: asked_def refused_def classified_def)

lemma sound_evidence: "member_sound m \<Longrightarrow> evidence_all_ok (mwEvidence m) \<and> mwEvidence m \<noteq> []"
  by (simp add: member_sound_def)

lemma readback_writes: "list_all (is_readback t) ds \<Longrightarrow> \<not> list_ex is_write ds \<and> filter is_write ds = []"
  by (induction ds) (auto elim!: is_readback.elims)

lemma live_cancel_safe: "\<forall>x. EvCtx (Some x) \<notin> set ds \<Longrightarrow> cancel_safe ds"
  by (induction ds) auto

text \<open>The revision an event reports; the DCS counts them from zero.\<close>

fun event_revision :: "event \<Rightarrow> int" where
  "event_revision (EvSnapshot _ (Inr sn)) = snRevision sn"
| "event_revision (EvFailover _ r _) = wrRevision r"
| "event_revision _ = 0"

definition revisions_ok :: "event list \<Rightarrow> bool" where
  "revisions_ok es = (\<forall>e \<in> set es. 0 \<le> event_revision e)"

lemma revisions_ok_snapshot: "revisions_ok es \<Longrightarrow> EvSnapshot t (Inr sn) \<in> set es \<Longrightarrow> 0 \<le> snRevision sn"
  by (force simp: revisions_ok_def)

definition from_events :: "event list \<Rightarrow> int \<Rightarrow> bool" where
  "from_events es rv = (rv = 0 \<or> rv \<in> event_revision ` set es)"

lemma from_events_nonnegative: "from_events es rv \<Longrightarrow> revisions_ok es \<Longrightarrow> 0 \<le> rv"
  by (auto simp: from_events_def revisions_ok_def)

end
