(* ===== verification/Pause_Spec.thy ===== *)
theory Pause_Spec
  imports Leader_First Example_Service
begin

text \<open>
  What pausing and resuming guarantee.  The question to one member and the verification are
  interpreted in their locales; one description of an execution (\<open>pause_execution\<close>) carries the
  properties: the outcome as a function of the events, the guards of the writes, and well-formed results.
\<close>

section \<open>Interfaces\<close>

interpretation pause_ask: leader_first "pauseMember svc pi sn" sn "\<lambda>u. PatchConfig u (pausePayload pi)" "\<lambda>s. s = 200" "clock_ok svc"
  for svc :: "'w service" and pi sn
proof unfold_locales
  fix t
  show "valid [] (pauseMember svc pi sn t) (asked (clock_ok svc) sn (\<lambda>u. PatchConfig u (pausePayload pi)) (\<lambda>s. s = 200) t)"
    unfolding pauseMember_def pauseMemberNotSent_def classifyPauseResponse_def Let_def
    by (intro wp valid_use [OF classifyAnswer_spec]) (auto simp: asked_def refused_def answer_words_ok_def)
qed auto

definition pauseRecall :: "pause_intent \<Rightarrow> string list \<Rightarrow> snapshot \<Rightarrow> string list \<times> int" where
  "pauseRecall pi planned sn =
     (if pauseConverged pi planned sn then []
      else pausePendingMembers (snCluster sn) planned (piDesired pi), snRevision sn)"

interpretation pause_reading: verification "verifyPauseState svc pi planned" "piTarget pi"
    "nat (svcVerificationAttempts svc)" "pauseConverged pi planned" "pauseRecall pi planned" "([], 0)" "clock_ok svc"
  for svc :: "'w service" and pi planned
proof unfold_locales
  show "valid [] (verifyPauseState svc pi planned)
      (loop_trace (piTarget pi) (nat (svcVerificationAttempts svc)) (pauseConverged pi planned) (pauseRecall pi planned)
        ([], 0) (clock_ok svc))"
    unfolding verifyPauseState_def pauseRecall_def
    by (rule valid_mono [OF verifyLoop_trace]) (auto simp: words_ok_def)
qed


section \<open>Settling\<close>

lemma pause_result_simps [simp]:
  "rOutcome (pauseSuccess opID pi d evs) = Succeeded" "rData (pauseSuccess opID pi d evs) = d"
  "rOutcome (pauseFailure opID pi d cat retry msg c evs) = Failed"
  "rData (pauseFailure opID pi d cat retry msg c evs) = d\<lparr>pdVerification := VerifiedFailed\<rparr>"
  "rOutcome (pauseUnknown opID pi d msg c evs) = Unknown"
  "rData (pauseUnknown opID pi d msg c evs) = d\<lparr>pdVerification := Unverified\<rparr>"
  by (simp_all add: pauseSuccess_def pauseFailure_def pauseUnknown_def)

lemma pause_result_Validate [simp]:
  "result_Validate (pauseSuccess opID pi d evs) = None \<longleftrightarrow>
     opID \<noteq> [] \<and> target_ok (piTarget pi) \<and> evs \<noteq> [] \<and> evidence_all_ok evs"
  "result_Validate (pauseFailure opID pi d cat retry msg c evs) = None \<longleftrightarrow>
     opID \<noteq> [] \<and> target_ok (piTarget pi) \<and> evs \<noteq> [] \<and> evidence_all_ok evs \<and> validCategory cat \<and> cat \<noteq> CategoryUnknown
     \<and> piOperation pi \<noteq> [] \<and> msg \<noteq> []"
  "result_Validate (pauseUnknown opID pi d msg c evs) = None \<longleftrightarrow>
     opID \<noteq> [] \<and> target_ok (piTarget pi) \<and> evs \<noteq> [] \<and> evidence_all_ok evs \<and> piOperation pi \<noteq> [] \<and> msg \<noteq> []"
  by (auto simp: pauseSuccess_def pauseFailure_def pauseUnknown_def result_Validate_None error_Validate_NewError)

text \<open>Data of a settled result: what \<open>PauseData.Validate\<close> asks besides the member results.\<close>

definition pause_data_ok :: "pause_data \<Rightarrow> bool" where
  "pause_data_ok d =
     (validOrEmpty (pdRESTSendState d) \<and> pdRESTSendState d \<noteq> SendEmpty \<and> verification_valid (pdVerification d)
      \<and> (pdNoop d \<longrightarrow> pdVerification d = VerifiedSucceeded) \<and> sorted (pdPendingMembers d))"

lemma pause_data_Validate_None:
  "pause_data_Validate d = None \<longleftrightarrow>
     pause_data_ok d \<and> 0 \<le> pdDCSRevision d \<and> (\<forall>m \<in> set (pdResults d). member_write_Validate m = None)"
proof (cases "wrapFirst ''pause REST result: %w'' (map member_write_Validate (pdResults d))")
  case None
  then have "\<forall>m \<in> set (pdResults d). member_write_Validate m = None" by simp
  then show ?thesis unfolding pause_data_Validate_def None pause_data_ok_def by auto
next
  case (Some e)
  from wrapFirst_Some [OF Some] show ?thesis unfolding pause_data_Validate_def Some by auto
qed

lemma sorted_pausePending [simp]: "sorted (pausePendingMembers cl planned desired)"
  by (simp add: pausePendingMembers_def)


lemma pause_remembered:
  assumes "remembers (pauseRecall pi planned) ([], 0) (pending, rv) ds"
  shows "sorted pending \<and> (rv = 0 \<or> (\<exists>t sn. EvSnapshot t (Inr sn) \<in> set ds \<and> rv = snRevision sn))"
proof (cases "read_snapshots ds = []")
  case False
  then have "last (read_snapshots ds) \<in> set (read_snapshots ds)" by simp
  then obtain t where "EvSnapshot t (Inr (last (read_snapshots ds))) \<in> set ds" by (auto simp: read_snapshots_set)
  with assms False show ?thesis by (auto simp: remembers_def pauseRecall_def)
qed (use assms in \<open>simp add: remembers_def\<close>)

lemma valid_verifyPauseState:
  assumes "\<And>ok pending rv vevs ds. list_all (is_readback (piTarget pi)) ds
      \<Longrightarrow> length ds \<le> 2 * nat (svcVerificationAttempts svc) \<Longrightarrow> (ok \<longleftrightarrow> confirms (pauseConverged pi planned) ds)
      \<Longrightarrow> sorted pending \<Longrightarrow> rv = 0 \<or> (\<exists>t sn. EvSnapshot t (Inr sn) \<in> set ds \<and> rv = snRevision sn)
      \<Longrightarrow> (clock_ok svc \<Longrightarrow> evidence_all_ok vevs) \<Longrightarrow> Q (ok, (pending, rv), vevs) (es @ ds)"
  shows "valid es (verifyPauseState svc pi planned) Q"
proof (rule pause_reading.use)
  fix ok x vevs ds
  assume "loop_trace (piTarget pi) (nat (svcVerificationAttempts svc)) (pauseConverged pi planned) (pauseRecall pi planned)
       ([], 0) (clock_ok svc) (ok, x, vevs) ds"
  then have r: "readback_trace (piTarget pi) (nat (svcVerificationAttempts svc)) (pauseConverged pi planned) ok ds"
    and m: "remembers (pauseRecall pi planned) ([], 0) (fst x, snd x) ds" and e: "clock_ok svc \<Longrightarrow> evidence_all_ok vevs"
    by (auto simp: loop_trace_def)
  show "Q (ok, x, vevs) (es @ ds)"
    using assms [OF _ _ readback_confirms [OF r] _ _ e, of "fst x" "snd x"] readback_facts [OF r] pause_remembered [OF m] by simp
qed

definition settled :: "'w service \<Rightarrow> pause_intent \<Rightarrow> string list \<Rightarrow> pause_data \<Rightarrow> pause_data result \<Rightarrow> event list \<Rightarrow> bool" where
  "settled svc pi planned d r ds =
     (list_all (is_readback (piTarget pi)) ds \<and> length ds \<le> 2 * nat (svcVerificationAttempts svc)
      \<and> rOutcome r = (if confirms (pauseConverged pi planned) ds then Succeeded else Unknown)
      \<and> pdResults (rData r) = pdResults d \<and> pdNoop (rData r) = pdNoop d
      \<and> (pause_data_ok (d\<lparr>pdNoop := False\<rparr>) \<longrightarrow> (pause_data_ok (rData r) \<longleftrightarrow> pdNoop d \<longrightarrow> rOutcome r = Succeeded))
      \<and> (pdDCSRevision (rData r) = 0 \<or> (\<exists>t s. EvSnapshot t (Inr s) \<in> set ds \<and> pdDCSRevision (rData r) = snRevision s)))"

lemma settlePause_spec:
  "valid [] (settlePause svc opID pi d planned unsure cause evs) (settled svc pi planned d)"
  unfolding settlePause_def Let_def
  by (intro wp valid_verifyPauseState) (auto simp: settled_def pause_data_ok_def mult.commute)

lemma settlePause_valid:
  assumes "clock_ok svc" "opID \<noteq> []" "target_ok (piTarget pi)" "piOperation pi \<noteq> []" "unsure \<noteq> []" "evs \<noteq> []" "evidence_all_ok evs"
  shows "valid [] (settlePause svc opID pi d planned unsure cause evs) (\<lambda>r ds. result_Validate r = None)"
  unfolding settlePause_def Let_def
  by (intro wp valid_verifyPauseState) (use assms in auto)


section \<open>The loop\<close>

text \<open>The outcome of a pause as a function of what happened.\<close>

definition pauseTail :: "pause_intent \<Rightarrow> string list \<Rightarrow> event list \<Rightarrow> outcome" where
  "pauseTail pi planned ds =
     (let confirmed = confirms (pauseConverged pi planned) ds in
      if answered ds = Some 200 then (if \<not> piWait pi \<or> confirmed then Succeeded else Unknown)
      else if list_all definite ds then Failed
      else if confirmed then Succeeded else Unknown)"

definition pause_asks :: "'w service \<Rightarrow> pause_intent \<Rightarrow> snapshot \<Rightarrow> target list \<Rightarrow> member_write_result list \<Rightarrow> event list \<Rightarrow> bool" where
  "pause_asks svc pi sn = visited (clock_ok svc) sn (\<lambda>u. PatchConfig u (pausePayload pi)) (\<lambda>s. s = 200)"

definition pause_run ::
  "'w service \<Rightarrow> pause_intent \<Rightarrow> snapshot \<Rightarrow> string list \<Rightarrow> target list \<Rightarrow> pause_data result \<Rightarrow> event list \<Rightarrow> bool" where
  "pause_run svc pi sn planned ts r ds =
     (\<exists>vs ws a b. ts = vs @ ws \<and> ds = a @ b \<and> pause_asks svc pi sn vs (pdResults (rData r)) a
        \<and> answered (butlast a) = None
        \<and> ((\<exists>x. b = [EvCtx (Some x)])
           \<or> list_all (is_readback (piTarget pi)) b \<and> length b \<le> 2 * nat (svcVerificationAttempts svc))
        \<and> rOutcome r = pauseTail pi planned ds
        \<and> pause_data_ok (rData r) \<and> \<not> pdNoop (rData r)
        \<and> (pdDCSRevision (rData r) = 0 \<or> (\<exists>t s. EvSnapshot t (Inr s) \<in> set ds \<and> pdDCSRevision (rData r) = snRevision s)))"

lemma asks_no_confirm:
  assumes "pause_asks svc pi sn vs ms a"
  shows "\<not> confirms good a"
proof
  assume c: "confirms good a"
  then have "last a \<in> set a" by (simp add: confirms_def)
  from pause_ask.only_asks [OF assms [unfolded pause_asks_def] this] c show False
    by (auto simp: confirms_def)
qed

lemma run_stop:
  assumes "pause_asks svc pi sn vs (pdResults (rData r)) a" and "answered (butlast a) = None" and "b = [] \<or> (\<exists>x. b = [EvCtx (Some x)])"
    and "rOutcome r = pauseTail pi planned a" and "pause_data_ok (rData r)" "\<not> pdNoop (rData r)" "pdDCSRevision (rData r) = 0"
  shows "pause_run svc pi sn planned (vs @ ws) r (a @ b)"
proof -
  have "pauseTail pi planned (a @ b) = pauseTail pi planned a"
    using assms(3) asks_no_confirm [OF assms(1)] by (auto simp: pauseTail_def answered_append split: option.splits)
  with assms show ?thesis unfolding pause_run_def by (intro exI [of _ vs] exI [of _ ws] exI [of _ a] exI [of _ b]) auto
qed

lemma run_settled:
  assumes "pause_asks svc pi sn vs (pdResults d) a" and "answered (butlast a) = None" and "pause_data_ok d" "\<not> pdNoop d"
    and s: "settled svc pi planned d r b"
    and "if answered a = Some 200 then piWait pi else \<not> list_all definite a"
  shows "pause_run svc pi sn planned (vs @ ws) r (a @ b)"
proof -
  have rb: "list_all (is_readback (piTarget pi)) b" using s by (simp add: settled_def)
  have c: "confirms g (a @ b) = confirms g b" for g using asks_no_confirm [OF assms(1)] by (cases "b = []") auto
  have "pauseTail pi planned (a @ b) = rOutcome r"
    using assms(6) s readback_unanswered [OF rb] readback_definite [OF rb]
    by (auto simp: pauseTail_def c settled_def answered_append split: option.splits if_splits)
  moreover have "pause_data_ok (d\<lparr>pdNoop := False\<rparr>)" using assms(3) by (simp add: pause_data_ok_def)
  ultimately show ?thesis
    using assms unfolding pause_run_def settled_def
    by (intro exI [of _ vs] exI [of _ ws] exI [of _ a] exI [of _ b]) auto
qed

lemma pause_data_ok_update [simp]:
  "pause_data_ok d \<Longrightarrow> \<not> pdNoop d \<Longrightarrow> verification_valid v \<Longrightarrow> pause_data_ok (d\<lparr>pdVerification := v\<rparr>)"
  "pause_data_ok d \<Longrightarrow> pause_data_ok (d\<lparr>pdResults := ms, pdRESTSendState := aggregateRESTSendState ms'\<rparr>)"
  by (auto simp: pause_data_ok_def)

lemma answered_butlast: "answered es = None \<Longrightarrow> answered (butlast es) = None"
  by (cases es rule: rev_cases) (auto simp: answered_append split: option.splits)

lemma pauseLoop_spec:
  assumes "pause_asks svc pi sn vs (pdResults d) es" and "answered es = None" and "pause_data_ok d" "\<not> pdNoop d" "pdDCSRevision d = 0"
  shows "valid es (pauseLoop svc (Some look) opID pi sn planned base ts d) (pause_run svc pi sn planned (vs @ ts))"
  using assms
proof (induction ts arbitrary: vs d es)
  case Nil
  note opn = pause_ask.open_iff [OF Nil(1) [unfolded pause_asks_def]]
  note settled = run_settled [OF Nil(1) answered_butlast [OF Nil(2)] Nil(3,4), where ws = "[]"]
  note stop = run_stop [where vs = vs and a = es and b = "[]" and ws = "[]", simplified]
  show ?case unfolding pauseLoop.simps Let_def
    by (intro wp valid_use [OF settlePause_spec]) (use settled Nil opn in \<open>auto simp: pauseTail_def answered_butlast intro!: stop\<close>)
next
  case (Cons t ts)
  let ?d = "\<lambda>m. d\<lparr>pdResults := pdResults d @ [m], pdRESTSendState := aggregateRESTSendState (pdResults d @ [m])\<rparr>"
  have asks: "pause_asks svc pi sn (vs @ [t]) (pdResults d @ [m]) (es @ EvCtx None # ds)"
    and st: "answered (es @ EvCtx None # ds) = (if mwHTTPStatus m = 0 then None else Some (mwHTTPStatus m))"
    and bl: "answered (butlast (es @ EvCtx None # ds)) = None"
    and op: "flushHasAmbiguousREST (pdResults d @ [m]) \<longleftrightarrow> \<not> list_all definite (es @ EvCtx None # ds)"
    if a: "asked (clock_ok svc) sn (\<lambda>u. PatchConfig u (pausePayload pi)) (\<lambda>s. s = 200) t m ds" for m ds
  proof -
    show "pause_asks svc pi sn (vs @ [t]) (pdResults d @ [m]) (es @ EvCtx None # ds)"
      using pause_ask.grow [OF Cons.prems(1) [unfolded pause_asks_def] a] by (simp add: pause_asks_def)
    then show "flushHasAmbiguousREST (pdResults d @ [m]) \<longleftrightarrow> \<not> list_all definite (es @ EvCtx None # ds)"
      unfolding pause_asks_def by (rule pause_ask.open_iff)
    show "answered (es @ EvCtx None # ds) = (if mwHTTPStatus m = 0 then None else Some (mwHTTPStatus m))"
      using pause_ask.one(3) [OF a] Cons.prems(2) by simp
    show "answered (butlast (es @ EvCtx None # ds)) = None"
      using pause_ask.one(5) [OF a] Cons.prems(2) by (cases ds) (auto simp: butlast_append)
  qed
  have settled: "pause_run svc pi sn planned (vs @ t # ts) r (es @ EvCtx None # ds @ b)"
    if "asked (clock_ok svc) sn (\<lambda>u. PatchConfig u (pausePayload pi)) (\<lambda>s. s = 200) t m ds"
      and "settled svc pi planned (?d m) r b" and "mwHTTPStatus m \<noteq> 0"
      and "if mwHTTPStatus m = 200 then piWait pi else flushHasAmbiguousREST (pdResults d @ [m])" for m ds r b
    using run_settled [of svc pi sn "vs @ [t]" "?d m" "es @ EvCtx None # ds" planned r b ts]
      asks [OF that(1)] st [OF that(1)] bl [OF that(1)] op [OF that(1)] that(2-4) Cons.prems(3,4) by (simp split: if_splits)
  have stop: "pause_run svc pi sn planned (vs @ t # ts) r (es @ EvCtx None # ds)"
    if "asked (clock_ok svc) sn (\<lambda>u. PatchConfig u (pausePayload pi)) (\<lambda>s. s = 200) t m ds" and "mwHTTPStatus m \<noteq> 0"
      and "pdResults (rData r) = pdResults d @ [m]" and "rOutcome r = (if mwHTTPStatus m = 200 then Succeeded else Failed)"
      and "mwHTTPStatus m = 200 \<Longrightarrow> \<not> piWait pi" and "mwHTTPStatus m \<noteq> 200 \<Longrightarrow> \<not> flushHasAmbiguousREST (pdResults d @ [m])"
      and "pause_data_ok (rData r)" "\<not> pdNoop (rData r)" "pdDCSRevision (rData r) = 0" for m ds r
    using run_stop [of svc pi sn "vs @ [t]" r "es @ EvCtx None # ds" "[]" planned ts]
      asks [OF that(1)] st [OF that(1)] bl [OF that(1)] op [OF that(1)] that(2-9) by (auto simp: pauseTail_def)
  have cancel: "pause_run svc pi sn planned (vs @ t # ts) (finishCanceledPause opID pi d e base) (es @ [EvCtx e])" if "e \<noteq> None" for e
    using run_stop [of svc pi sn vs "finishCanceledPause opID pi d e base" es "[EvCtx e]" planned "t # ts"] that Cons.prems
      pause_ask.open_iff [OF Cons.prems(1) [unfolded pause_asks_def]] asks_no_confirm [OF Cons.prems(1)]
    by (auto simp: finishCanceledPause_def Let_def answered_butlast pauseTail_def)
  have again: "valid (es @ EvCtx None # ds) (pauseLoop svc (Some look) opID pi sn planned base ts (?d m))
      (pause_run svc pi sn planned (vs @ t # ts))"
    if "asked (clock_ok svc) sn (\<lambda>u. PatchConfig u (pausePayload pi)) (\<lambda>s. s = 200) t m ds" and "mwHTTPStatus m = 0" for m ds
    using Cons.IH [of "vs @ [t]" "?d m" "es @ EvCtx None # ds"] asks [OF that(1)] st [OF that(1)] that(2) Cons.prems(3-5) by simp
  show ?case unfolding pauseLoop.simps Let_def finishPauseHTTPResponse_def
    by (intro wp valid_use [OF settlePause_spec] pause_ask.use; simp add: cancel;
        (erule settled; simp | erule again; simp | erule stop; simp add: Cons.prems)?)
qed

lemma terminalPauseFailure_category:
  "terminalPauseFailure v ms = (cat, retry, cause) \<Longrightarrow> validCategory (fst v) \<and> fst v \<noteq> CategoryUnknown
   \<Longrightarrow> \<forall>m \<in> set ms. member_sound m \<and> categorized m \<Longrightarrow> \<not> flushHasAmbiguousREST ms
   \<Longrightarrow> validCategory cat \<and> cat \<noteq> CategoryUnknown"
proof (induction v ms rule: terminalPauseFailure.induct)
  case (2 v m ms)
  from 2(4,5) have "\<forall>e. mwError m = Some e \<longrightarrow> validCategory (errCategory e) \<and> errCategory e \<noteq> CategoryUnknown"
    by (auto simp: member_sound_def categorized_def flushHasAmbiguousREST_def split: outcome.splits)
  with 2 show ?case by (auto simp: flushHasAmbiguousREST_def split: option.splits)
qed simp

lemma pauseLoop_valid:
  assumes env: "clock_ok svc" "opID \<noteq> []" "target_ok (piTarget pi)" "piOperation pi \<noteq> []" "base \<noteq> []" "evidence_all_ok base"
    and "\<forall>m \<in> set (pdResults d). member_sound m \<and> categorized m"
  shows "valid es (pauseLoop svc ctx opID pi sn planned base ts d) (\<lambda>r es. result_Validate r = None)"
  using assms(7)
proof (induction ts arbitrary: d es)
  case Nil
  then show ?case unfolding pauseLoop.simps Let_def
    by (intro wp valid_use [OF settlePause_valid])
       (auto simp: env sound_evidence dest!: terminalPauseFailure_category)
next
  case (Cons t ts)
  have m: "member_sound m \<and> categorized m"
    if "asked (clock_ok svc) sn (\<lambda>u. PatchConfig u (pausePayload pi)) (\<lambda>s. s = 200) t m ds" for m ds
    using asked_sound [OF that env(1)] .
  show ?case unfolding pauseLoop.simps Let_def finishPauseHTTPResponse_def finishCanceledPause_def
    by (intro wp valid_use [OF settlePause_valid] pause_ask.use Cons.IH)
       (auto simp: env Cons.prems sound_evidence m dest: classifyHTTPStatus_category)
qed



section \<open>Execution\<close>

text \<open>The checks before the first write.\<close>

definition pause_guard :: "'w service \<Rightarrow> 'w goctx \<Rightarrow> pause_intent \<Rightarrow> goerror option \<Rightarrow> plan \<Rightarrow> bool" where
  "pause_guard svc ctx pi err p = (ctx \<noteq> None \<and> err = None \<and> validatePausePlan p pi = None)"

definition same_members :: "pause_intent \<Rightarrow> plan \<Rightarrow> snapshot \<Rightarrow> bool" where
  "same_members pi p sn =
     (Join '','' (memberNamesFromTargets (memberTargets (piTarget pi) (leaderFirstRESTMembers (snCluster sn))))
      = Join '','' (memberNamesFromTargets (pTargets p)))"

text \<open>The outcome that the events of an execution call for.\<close>

definition pauseVerdict :: "'w service \<Rightarrow> pause_intent \<Rightarrow> string list \<Rightarrow> event list \<Rightarrow> outcome" where
  "pauseVerdict svc pi planned es =
     (case es of
        EvSnapshot _ (Inr sn) # ds \<Rightarrow>
          if checkSnapshotPatroniVersion svc sn False \<noteq> None then Failed
          else if snapshotPaused sn = piDesired pi then
            (if \<not> piWait pi \<or> confirms (pauseConverged pi planned) ds then Succeeded else Unknown)
          else pauseTail pi planned ds
      | _ \<Rightarrow> Failed)"

definition pause_execution ::
  "'w service \<Rightarrow> 'w goctx \<Rightarrow> pause_intent \<Rightarrow> goerror option \<Rightarrow> plan \<Rightarrow> pause_data result \<Rightarrow> event list \<Rightarrow> bool" where
  "pause_execution svc ctx pi err p r es =
     (rOutcome r = Failed \<and> rData r = zeroPauseData
        \<and> (es = [] \<or> (\<exists>x. es = [EvSnapshot (piTarget pi) x] \<and> (\<forall>sn. x = Inr sn \<longrightarrow> checkSnapshotPatroniVersion svc sn False \<noteq> None)))
      \<or> (\<exists>sn ds. es = EvSnapshot (piTarget pi) (Inr sn) # ds \<and> pause_guard svc ctx pi err p
           \<and> checkSnapshotPatroniVersion svc sn False = None
           \<and> (if snapshotPaused sn = piDesired pi then
                (if \<not> piWait pi then ds = [] \<and> rOutcome r = Succeeded \<and> pause_data_ok (rData r) \<and> pdResults (rData r) = []
                                  \<and> pdDCSRevision (rData r) = snRevision sn
                 else settled svc pi (memberNamesFromTargets (pTargets p)) ((pauseStart pi)\<lparr>pdNoop := True\<rparr>) r ds)
              else if \<not> same_members pi p sn then
                ds = [] \<and> rOutcome r = Failed \<and> pause_data_ok (rData r) \<and> pdResults (rData r) = []
                  \<and> pdDCSRevision (rData r) = 0 \<and> \<not> pdNoop (rData r)
              else pause_run svc pi sn (memberNamesFromTargets (pTargets p)) (pTargets p) r ds)))"

lemma pauseStart_ok [simp]:
  "pause_data_ok (pauseStart pi)" "pdNoop (pauseStart pi) = False" "pdResults (pauseStart pi) = []"
  "pdDCSRevision (pauseStart pi) = 0" "pause_data_ok ((pauseStart pi)\<lparr>pdNoop := False\<rparr>)"
  "pause_data_ok ((pauseStart pi)\<lparr>pdNoop := True, pdVerification := VerifiedSucceeded, pdDCSRevision := rv\<rparr>)"
  by (simp_all add: pauseStart_def zeroPauseData_def pause_data_ok_def)

lemma executePause_execution:
  "valid [] (executePause svc ctx pi err p) (pause_execution svc ctx pi err p)"
proof (cases ctx)
  case None
  then show ?thesis
    unfolding executePause_def Let_def
    by (intro wp valid_planOperationID) (auto simp: pause_execution_def failed_with_def validContext_def)
next
  case (Some look)
  show ?thesis
    unfolding executePause_def pauseOnSnapshot_def Let_def Some
    by (intro valid_planOperationID wp valid_use [OF settlePause_spec]
         valid_use [OF pauseLoop_spec [where vs = "[]", simplified]])
       (simp_all add: pause_execution_def pause_guard_def validContext_def failed_with_def same_members_def pause_asks_def pause_ask.none)
qed

lemma executePause_valid:
  assumes "clock_ok svc" "target_ok (Normalize (piTarget pi))" "target_ok (piTarget pi)" "piOperation pi \<noteq> []"
  shows "valid [] (executePause svc ctx pi err p) (\<lambda>r es. result_Validate r = None)"
  unfolding executePause_def pauseOnSnapshot_def Let_def
  by (intro valid_planOperationID wp valid_use [OF settlePause_valid] valid_use [OF pauseLoop_valid])
     (use assms in \<open>auto dest!: classifyReadError_category intro: failed_with_ok\<close>)

lemma pause_execution_cases:
  assumes "pause_execution svc ctx pi err p r es"
  obtains
    (early) "rOutcome r = Failed" "rData r = zeroPauseData" "\<not> list_ex is_write es" "pauseVerdict svc pi (memberNamesFromTargets (pTargets p)) es = Failed"
  | (late) sn ds where "es = EvSnapshot (piTarget pi) (Inr sn) # ds" "pause_guard svc ctx pi err p"
      "checkSnapshotPatroniVersion svc sn False = None"
      "if snapshotPaused sn = piDesired pi then
         (if \<not> piWait pi then ds = [] \<and> rOutcome r = Succeeded \<and> pause_data_ok (rData r) \<and> pdResults (rData r) = []
            \<and> pdDCSRevision (rData r) = snRevision sn
          else settled svc pi (memberNamesFromTargets (pTargets p)) ((pauseStart pi)\<lparr>pdNoop := True\<rparr>) r ds)
       else if \<not> same_members pi p sn then
         ds = [] \<and> rOutcome r = Failed \<and> pause_data_ok (rData r) \<and> pdResults (rData r) = []
           \<and> pdDCSRevision (rData r) = 0 \<and> \<not> pdNoop (rData r)
       else pause_run svc pi sn (memberNamesFromTargets (pTargets p)) (pTargets p) r ds"
  using assms unfolding pause_execution_def
proof (elim disjE exE conjE)
  assume e: "rOutcome r = Failed" "rData r = zeroPauseData" and es: "es = []"
  show thesis by (rule early) (use e es in \<open>simp_all add: pauseVerdict_def\<close>)
next
  fix x assume e: "rOutcome r = Failed" "rData r = zeroPauseData" and es: "es = [EvSnapshot (piTarget pi) x]"
    and x: "\<forall>sn. x = Inr sn \<longrightarrow> checkSnapshotPatroniVersion svc sn False \<noteq> None"
  show thesis by (rule early) (use e es x in \<open>auto simp: pauseVerdict_def split: sum.splits\<close>)
qed

lemma execution_outcome:
  assumes "pause_execution svc ctx pi err p r es"
  shows "rOutcome r = pauseVerdict svc pi (memberNamesFromTargets (pTargets p)) es"
  using assms
proof (cases rule: pause_execution_cases)
  case (late sn ds)
  then show ?thesis by (auto simp: pauseVerdict_def settled_def pause_run_def pauseTail_def split: if_splits)
qed simp

definition pause_guarded :: "'w service \<Rightarrow> 'w goctx \<Rightarrow> pause_intent \<Rightarrow> goerror option \<Rightarrow> plan \<Rightarrow> event list \<Rightarrow> bool" where
  "pause_guarded svc ctx pi err p es =
     (\<exists>sn ds. es = EvSnapshot (piTarget pi) (Inr sn) # ds \<and> pause_guard svc ctx pi err p
        \<and> checkSnapshotPatroniVersion svc sn False = None \<and> snapshotPaused sn \<noteq> piDesired pi \<and> same_members pi p sn
        \<and> (\<forall>e \<in> set ds. is_write e \<longrightarrow> (\<exists>t \<in> set (pTargets p). \<exists>u r x. e = EvRest (PatchConfig u (pausePayload pi)) r x
             \<and> patroniBaseURL (memberAPIURL (cMembers (snCluster sn)) (tMember t)) = Inr u))
        \<and> length (filter is_write ds) \<le> length (pTargets p)
        \<and> looked False ds \<and> cancel_safe ds \<and> first_answer_final ds)"

lemma run_guarded:
  assumes "pause_run svc pi sn planned ts r ds"
  shows "(\<forall>e \<in> set ds. is_write e \<longrightarrow> (\<exists>t \<in> set ts. \<exists>u r x. e = EvRest (PatchConfig u (pausePayload pi)) r x
             \<and> patroniBaseURL (memberAPIURL (cMembers (snCluster sn)) (tMember t)) = Inr u))
        \<and> length (filter is_write ds) \<le> length ts \<and> looked False ds \<and> cancel_safe ds \<and> first_answer_final ds"
proof -
  obtain vs ws a b where ts: "ts = vs @ ws" and ds: "ds = a @ b" and v: "pause_asks svc pi sn vs (pdResults (rData r)) a"
    and bl: "answered (butlast a) = None" and b: "(\<exists>x. b = [EvCtx (Some x)]) \<or> list_all (is_readback (piTarget pi)) b"
    using assms unfolding pause_run_def by blast
  note v = v [unfolded pause_asks_def]
  from b have q: "\<not> list_ex is_write b" "filter is_write b = []" using readback_writes by auto
  have "\<exists>t \<in> set ts. \<exists>u r x. e = EvRest (PatchConfig u (pausePayload pi)) r x
      \<and> patroniBaseURL (memberAPIURL (cMembers (snCluster sn)) (tMember t)) = Inr u" if e: "e \<in> set ds" "is_write e" for e
  proof -
    from e q ds have "e \<in> set a" by (auto simp: list_ex_iff)
    with pause_ask.only_asks [OF v] e obtain c r x where "e = EvRest c r x" "EvRest c r x \<in> set a" by fastforce
    with pause_ask.addresses [OF v] ts show ?thesis by fastforce
  qed
  moreover have "cancel_safe ds" unfolding ds cancel_safe_append
    using pause_ask.live [OF v] q by (auto simp: cancel_safe_no_write intro!: live_cancel_safe)
  ultimately show ?thesis
    using pause_ask.bound [OF v] pause_ask.looked [OF v] looked_append first_answer_final_append [OF bl q(1)] q ts ds by auto
qed

lemma execution_pause_guarded:
  assumes "pause_execution svc ctx pi err p r es" and "list_ex is_write es"
  shows "pause_guarded svc ctx pi err p es"
  using assms(1)
proof (cases rule: pause_execution_cases)
  case (late sn ds)
  with assms(2) have w: "list_ex is_write ds" by simp
  then have "ds \<noteq> []" and "\<not> list_all (is_readback (piTarget pi)) ds" using readback_writes [of "piTarget pi" ds] by auto
  with late(4) have c: "snapshotPaused sn \<noteq> piDesired pi \<and> same_members pi p sn"
    and run: "pause_run svc pi sn (memberNamesFromTargets (pTargets p)) (pTargets p) r ds"
    by (simp_all add: settled_def split: if_splits)
  show ?thesis unfolding pause_guarded_def
    by (intro exI [of _ sn] exI [of _ ds]) (use late(1-3) c run_guarded [OF run] in simp)
qed (use assms(2) in simp)

text \<open>The data of an executed pause: valid but for one case.\<close>

lemma execution_data:
  assumes "pause_execution svc ctx pi err p r es" and "clock_ok svc" and "revisions_ok es" and "rData r \<noteq> zeroPauseData"
  shows "pause_data_Validate (rData r) = None \<longleftrightarrow> \<not> (pdNoop (rData r) \<and> rOutcome r = Unknown)"
  using assms(1)
proof (cases rule: pause_execution_cases)
  case (late sn ds)
  have v: "plan_Validate p = None"
    using late(2) by (auto simp: pause_guard_def validatePausePlan_def split: option.splits)
  have m: "\<forall>m \<in> set (pdResults (rData r)). member_write_Validate m = None"
    if a: "pause_asks svc pi sn vs (pdResults (rData r)) a" and "set vs \<subseteq> set (pTargets p)" for vs a
  proof
    fix m assume "m \<in> set (pdResults (rData r))"
    with pause_ask.targets [OF a [unfolded pause_asks_def]] pause_ask.sound [OF a [unfolded pause_asks_def] assms(2)] that(2)
    have "member_sound m" and "mwTarget m \<in> set (pTargets p)" by auto
    with valid_targets [OF v, of "mwTarget m"] show "member_write_Validate m = None"
      by (auto simp: member_write_Validate_None)
  qed
  have rv: "0 \<le> pdDCSRevision (rData r)"
    using late(1,4) assms(3) by (fastforce simp: settled_def pause_run_def dest: revisions_ok_snapshot split: if_splits)
  show ?thesis
  proof (cases "snapshotPaused sn = piDesired pi \<or> \<not> same_members pi p sn")
    case True
    with late(4) rv show ?thesis by (auto simp: pause_data_Validate_None settled_def split: if_splits)
  next
    case False
    with late(4) have run: "pause_run svc pi sn (memberNamesFromTargets (pTargets p)) (pTargets p) r ds" by simp
    then obtain vs ws a where "pTargets p = vs @ ws" "pause_asks svc pi sn vs (pdResults (rData r)) a"
        "pause_data_ok (rData r)" "\<not> pdNoop (rData r)" unfolding pause_run_def by blast
    with m rv show ?thesis by (auto simp: pause_data_Validate_None)
  qed
qed (use assms(4) in simp)

section \<open>Preparation\<close>

definition pause_prepared :: "'w service \<Rightarrow> pause_intent \<Rightarrow> plan result \<Rightarrow> event list \<Rightarrow> bool" where
  "pause_prepared svc pi r es =
     (list_all is_read es \<and> length es \<le> 1
      \<and> (rOutcome r = Failed \<and> rData r = zeroPlan
         \<or> rOutcome r = Succeeded \<and> plan_Validate (rData r) = None \<and> validatePausePlan (rData r) pi = None
           \<and> (\<exists>sn. es = [EvSnapshot (piTarget pi) (Inr sn)] \<and> checkSnapshotPatroniVersion svc sn False = None
                \<and> snapshotPaused sn \<noteq> piDesired pi \<and> same_members pi (rData r) sn
                \<and> (\<forall>t \<in> set (pTargets (rData r)). \<exists>m \<in> set (cMembers (snCluster sn)).
                      tMember t = mName m \<and> TrimSpace (mdAPIURL (mData m)) \<noteq> []))))"

lemma leaderFirst_in:
  "m \<in> set (leaderFirstRESTMembers cl) \<Longrightarrow> m \<in> set (cMembers cl) \<and> TrimSpace (mdAPIURL (mData m)) \<noteq> []"
  by (auto simp: leaderFirstRESTMembers_def Let_def split: if_splits option.splits dest: find_SomeD [OF sym])

lemma preparePause_prepared:
  assumes "Normalize (piTarget pi) = piTarget pi"
  shows "valid [] (preparePause svc ctx pi err) (pause_prepared svc pi)"
  unfolding preparePause_def Let_def
  by (intro wp)
     (use assms in \<open>auto simp: pause_prepared_def failed_with_def validatePausePlan_def pausePlan_def Let_def firstMismatch_def
        expectedPrecondition_find same_members_def memberTargets_def dest!: leaderFirst_in\<close>)

section \<open>Properties\<close>

lemma normalizePause_sel [simp]:
  "piOperation (fst (normalizePauseRequest op want rq)) = op" "piDesired (fst (normalizePauseRequest op want rq)) = want"
  "piTarget (fst (normalizePauseRequest op want rq)) = Normalize (pqTarget rq)"
  "piWait (fst (normalizePauseRequest op want rq)) = pqWait rq"
  by (simp_all add: normalizePauseRequest_def Let_def)

text \<open>An ambiguous send to the first member, status 200 from the second.\<close>

definition restAmbiguous :: "rest_call \<Rightarrow> rest_response \<times> goerror option" where
  "restAmbiguous c =
     (if rest_url c = ''http://pg-1:8008'' then
        (\<lparr>respStatus = 0, respText = [], respState = [], respVersion = [], respServerVersion = None\<rparr>, Some (PatroniError PatTransport ''PATCH'' ''/config'' DeliveryMaybeSent 0 None))
      else restStatus 200 c)"

definition demoPauseRead :: "nat \<Rightarrow> goerror + snapshot" where
  "demoPauseRead n = Inr (demoSnapshot 10 (demoCluster ''pg-1''))"

definition demoPausedRead :: "nat \<Rightarrow> goerror + snapshot" where
  "demoPausedRead n = Inr (demoSnapshot 10 ((demoCluster ''pg-1'')\<lparr>cConfig := [(''pause'', JBool True)]\<rparr>))"

definition demoPause :: "bool \<Rightarrow> pause_request" where
  "demoPause wait = \<lparr>pqTarget = demoTarget, pqWait = wait, pqCitus = False\<rparr>"

definition demoPausePlan :: "bool \<Rightarrow> plan" where
  "demoPausePlan wait = rData (fst (demoRun (PreparePause (demoService demoPauseRead restAmbiguous casApplied) demoCtx (demoPause wait))))"

definition demoPauseRun :: "pause_data result \<times> event list" where
  "demoPauseRun = demoRun (ExecutePause (demoService demoPauseRead restAmbiguous casApplied) demoCtx (demoPause False) (demoPausePlan False))"

lemma demoPauseRun:
  "rOutcome (fst demoPauseRun) = Succeeded \<and> list_ex is_write (snd demoPauseRun)
   \<and> map mwOutcome (pdResults (rData (fst demoPauseRun))) = [Unknown, Succeeded]"
  by code_simp

text \<open>The cluster is paused already, its members have not followed, and the caller waits.\<close>

definition demoNoopRun :: "pause_data result \<times> event list" where
  "demoNoopRun = demoRun (ExecutePause (demoService demoPausedRead restAmbiguous casApplied) demoCtx (demoPause True) (demoPausePlan True))"

text \<open>C6: The outcome of a pause or resume is what its events call for. \<open>pauseVerdict\<close> computes it from
  the trace of calls alone: FAILED without an admissible snapshot; without a change to make, SUCCEEDED, or what the
  reading back shows when the caller waits; otherwise, from the first HTTP status, the writes of open fate and
  the reading back: 200 is SUCCEEDED (with \<open>wait\<close> only when the last snapshot shows convergence, else
  UNKNOWN); FAILED only if every write has a known fate; an open write is SUCCEEDED or UNKNOWN by the last
  snapshot read.\<close>

theorem pause_outcome:
  "valid [] (ExecutePause svc ctx rq p) (\<lambda>r es.
     rOutcome r = pauseVerdict svc (fst (normalizePauseRequest ''pause'' True rq)) (memberNamesFromTargets (pTargets p)) es)
   \<and> valid [] (ExecuteResume svc ctx rq p) (\<lambda>r es.
     rOutcome r = pauseVerdict svc (fst (normalizePauseRequest ''resume'' False rq)) (memberNamesFromTargets (pTargets p)) es)"
  unfolding ExecutePause_def ExecuteResume_def split_beta
  by (intro conjI valid_mono [OF executePause_execution]) (erule execution_outcome)+

text \<open>C9: Writes of a pause or resume are guarded. If any write is issued, then context, request and
  plan passed their checks, the first event is the snapshot of the target, it passes the version gate, is not
  already in the wanted state and has the planned members, leader first; every write patches the
  configuration with exactly the wanted \<open>pause\<close> value at the address that a planned member published in
  that snapshot; each comes right after a live look at the context; there is at most one per planned target, none after
  the first HTTP status and none after a cancellation.\<close>

theorem pause_writes_guarded:
  "valid [] (ExecutePause svc ctx rq p) (\<lambda>r es. list_ex is_write es \<longrightarrow>
     pause_guarded svc ctx (fst (normalizePauseRequest ''pause'' True rq)) (snd (normalizePauseRequest ''pause'' True rq)) p es)
   \<and> valid [] (ExecuteResume svc ctx rq p) (\<lambda>r es. list_ex is_write es \<longrightarrow>
     pause_guarded svc ctx (fst (normalizePauseRequest ''resume'' False rq)) (snd (normalizePauseRequest ''resume'' False rq)) p es)"
  unfolding ExecutePause_def ExecuteResume_def split_beta
  by (intro conjI valid_mono [OF executePause_execution] impI) (erule (1) execution_pause_guarded)+

theorem pause_writes_guarded_witness:
  "pause_guarded (demoService demoPauseRead restAmbiguous casApplied) demoCtx (fst (normalizePauseRequest ''pause'' True (demoPause False)))
     (snd (normalizePauseRequest ''pause'' True (demoPause False))) (demoPausePlan False) (snd demoPauseRun)"
proof -
  have "valid [] (ExecutePause (demoService demoPauseRead restAmbiguous casApplied) demoCtx (demoPause False) (demoPausePlan False))
     (\<lambda>r es. list_ex is_write es \<longrightarrow> pause_guarded (demoService demoPauseRead restAmbiguous casApplied) demoCtx
        (fst (normalizePauseRequest ''pause'' True (demoPause False))) (snd (normalizePauseRequest ''pause'' True (demoPause False)))
        (demoPausePlan False) es)"
    using pause_writes_guarded by blast
  from valid_demoRun [OF this] demoPauseRun show ?thesis by (simp add: demoPauseRun_def)
qed

text \<open>A result of an execution: well formed, with valid data unless a no-op that waits stays unverified.\<close>

definition pause_valid :: "pause_data result \<Rightarrow> event list \<Rightarrow> bool" where
  "pause_valid r es =
     (result_Validate r = None
      \<and> (rData r = zeroPauseData \<or> \<not> revisions_ok es
         \<or> (pause_data_Validate (rData r) = None \<longleftrightarrow> \<not> (pdNoop (rData r) \<and> rOutcome r = Unknown))))"

lemma executePause_pause_valid:
  assumes "clock_ok svc" and "target_ok (Normalize t)" and "piTarget pi = Normalize t" and "piOperation pi \<noteq> []"
  shows "valid [] (executePause svc ctx pi err p) pause_valid"
proof -
  have "Normalize (piTarget pi) = Normalize t" by (simp add: assms)
  with assms show ?thesis
  by (intro valid_mono [OF valid_conj [OF executePause_valid executePause_execution]])
     (auto simp: pause_valid_def execution_data)
qed

text \<open>Results of pause and resume are well formed. With a clock that shows no zero time and a request for
  a valid target, the result passes \<open>Result.Validate\<close>; with non-negative revisions its data passes
  \<open>PauseData.Validate\<close> in every case but one: an execution that had nothing to change, waited, and could not
  verify the members.\<close>

lemma pause_results_valid:
  assumes "clock_ok svc" and "target_ok (Normalize (pqTarget rq))"
  shows "valid [] (ExecutePause svc ctx rq p) pause_valid \<and> valid [] (ExecuteResume svc ctx rq p) pause_valid"
  unfolding ExecutePause_def ExecuteResume_def split_beta
  by (intro conjI executePause_pause_valid [OF assms]) simp_all

text \<open>The excepted case happens. On a paused cluster whose members have not followed, pausing with
  \<open>wait\<close> ends UNKNOWN with data that claims a no-op and so fails \<open>PauseData.Validate\<close>.\<close>

lemma pause_noop_invalid:
  "rOutcome (fst demoNoopRun) = Unknown \<and> pdNoop (rData (fst demoNoopRun)) \<and> result_Validate (fst demoNoopRun) = None
   \<and> pause_data_Validate (rData (fst demoNoopRun)) = Some (errorsNew ''pause no-op requires verified success'')"
  by code_simp

text \<open>Preparing a pause or resume reads one snapshot and its plan is honest. When it succeeds, the plan
  is valid, passes the plan check of the execution for the same request, was made from a snapshot
  that passes the version gate and is not in the wanted state, lists members of it with a REST address, and the
  execution would find its member set unchanged on that snapshot.\<close>

lemma pause_plans_roundtrip:
  "valid [] (PreparePause svc ctx rq) (pause_prepared svc (fst (normalizePauseRequest ''pause'' True rq)))
   \<and> valid [] (PrepareResume svc ctx rq) (pause_prepared svc (fst (normalizePauseRequest ''resume'' False rq)))"
  unfolding PreparePause_def PrepareResume_def split_beta
  by (intro conjI preparePause_prepared) simp_all

end
