(* ===== verification/Flush_Run.thy ===== *)
theory Flush_Run
  imports Leader_First
begin

text \<open>
  Flushing, run by run: what the verification loops read, what one member's request may do, what the
  fallback to the compare-and-delete of the failover key may do, and the two executions composed of
  them.  Each run is described by the events it made and the result they call for.
\<close>

section \<open>Interfaces\<close>

interpretation restart_flush_reading: verification "verifyRestartFlush svc t name" "t\<lparr>tMember := []\<rparr>"
    "nat (svcVerificationAttempts svc)" "restartFlushed name" "\<lambda>_. ()" "()" "clock_ok svc"
  for svc :: "'w service" and t name
proof unfold_locales
  show "valid [] (verifyRestartFlush svc t name)
      (loop_trace (t\<lparr>tMember := []\<rparr>) (nat (svcVerificationAttempts svc)) (restartFlushed name) (\<lambda>_. ()) () (clock_ok svc))"
    unfolding verifyRestartFlush_def
    by (rule valid_mono [OF verifyLoop_trace]) (auto simp: words_ok_def)
qed

interpretation switchover_flush_reading: verification "verifySwitchoverFlush svc t" t
    "nat (svcVerificationAttempts svc)" "\<lambda>sn. \<not> switchoverScheduled sn" snRevision 0 "clock_ok svc"
  for svc :: "'w service" and t
proof unfold_locales
  show "valid [] (verifySwitchoverFlush svc t)
      (loop_trace t (nat (svcVerificationAttempts svc)) (\<lambda>sn. \<not> switchoverScheduled sn) snRevision 0 (clock_ok svc))"
    unfolding verifySwitchoverFlush_def
    by (rule valid_mono [OF verifyLoop_trace]) (auto simp: words_ok_def)
qed

interpretation switchover_ask: leader_first "switchoverFlushMember svc sn" sn DeleteSwitchover "\<lambda>s. s = 200" "clock_ok svc"
  for svc :: "'w service" and sn
proof unfold_locales
  fix t
  show "valid [] (switchoverFlushMember svc sn t) (asked (clock_ok svc) sn DeleteSwitchover (\<lambda>s. s = 200) t)"
    unfolding switchoverFlushMember_def flushMemberNotSent_def classifySwitchoverFlushResponse_def
    by (intro wp valid_use [OF classifyAnswer_spec]) (auto simp: asked_def refused_def answer_words_ok_def)
qed auto

lemma readback_all:
  assumes "readback_trace t n good ok ds"
  shows "ok = confirms good ds \<and> list_all (is_readback t) ds \<and> length ds \<le> 2 * n"
  using readback_confirms [OF assms] readback_facts [OF assms] by blast

lemma confirms_reading:
  assumes "confirms good ds" and "list_all (is_readback t) ds"
  shows "ds \<noteq> [] \<and> (\<exists>sn. last ds = EvSnapshot t (Inr sn) \<and> good sn)"
proof -
  from assms have "exhibits good (last ds)" "is_readback t (last ds)" "ds \<noteq> []" by (auto simp: confirms_def list_all_iff)
  then show ?thesis by (cases "last ds") (auto elim: exhibits.elims)
qed

section \<open>Restart flush: one member\<close>

definition restart_flush_shown :: "resolved_member \<Rightarrow> event list \<Rightarrow> bool" where
  "restart_flush_shown rm ds =
     (\<not> hasScheduledRestart (rmMember rm) \<and> ds = []
      \<or> (\<exists>u r e. last ds = EvRest (DeleteRestart u) r e \<and> 0 < respStatus r \<and> respStatus r < 400)
      \<or> (\<exists>sn. last ds = EvSnapshot ((rmTarget rm)\<lparr>tMember := []\<rparr>) (Inr sn) \<and> restartFlushed (mName (rmMember rm)) sn))"

lemma classifyRestartFlush_spec:
  "valid [] (classifyRestartFlushResponse svc t response err)
    (\<lambda>m ds. ds = [] \<and> classified (clock_ok svc) (\<lambda>s. 0 < s \<and> s < 400) t response err m)"
  unfolding classifyRestartFlushResponse_def
  by (rule classifyAnswer_spec) (auto simp: answer_words_ok_def)

lemma settleRestartFlush_spec:
  assumes "clock_ok svc \<Longrightarrow> member_sound m0" and "categorized m0"
  shows "valid [] (settleRestartFlush svc rm m0)
    (\<lambda>m ds. mwTarget m = mwTarget m0 \<and> categorized m \<and> (clock_ok svc \<longrightarrow> member_sound m)
       \<and> list_all (is_readback ((rmTarget rm)\<lparr>tMember := []\<rparr>)) ds \<and> length ds \<le> 2 * nat (svcVerificationAttempts svc)
       \<and> (mwOutcome m0 \<noteq> Unknown \<longrightarrow> ds = [] \<and> m = m0)
       \<and> (mwOutcome m0 = Unknown \<longrightarrow> mwOutcome m = (if confirms (restartFlushed (mName (rmMember rm))) ds then Succeeded else Unknown)))"
  unfolding settleRestartFlush_def Let_def
  by (intro wp restart_flush_reading.use)
     (use assms in \<open>auto simp: loop_trace_def member_sound_def categorized_def dest!: readback_all\<close>)

fun is_failover_write :: "event \<Rightarrow> bool" where
  "is_failover_write (EvFailover _ _ _) = True"
| "is_failover_write _ = False"

lemma failover_writes: "filter is_write ds = [] \<Longrightarrow> \<not> list_ex is_failover_write ds"
  by (induction ds) (auto elim!: is_failover_write.elims split: if_splits)

lemma restart_flush_settled:
  assumes c: "classified clocked (\<lambda>s. 0 < s \<and> s < 400) (rmTarget rm) response err m0"
    and r: "list_all (is_readback ((rmTarget rm)\<lparr>tMember := []\<rparr>)) ds"
    and keep: "mwOutcome m0 \<noteq> Unknown \<Longrightarrow> ds = [] \<and> m = m0"
    and settle: "mwOutcome m0 = Unknown \<Longrightarrow>
      mwOutcome m = (if confirms (restartFlushed (mName (rmMember rm))) ds then Succeeded else Unknown)"
  shows "mwTarget m0 = rmTarget rm \<and> (mwOutcome m = Failed \<longrightarrow> (respStatus response = 0 \<longrightarrow> patroniSendState err 0 = SendNotSent) \<and> list_all definite ds)
    \<and> (mwOutcome m = Succeeded \<longrightarrow> restart_flush_shown rm (EvCtx None # EvRest (DeleteRestart u) response err # ds))
    \<and> filter is_write ds = [] \<and> (\<forall>c r e. EvRest c r e \<notin> set ds) \<and> \<not> list_ex is_failover_write ds"
proof (cases "mwOutcome m0 = Unknown")
  case True
  have "restart_flush_shown rm (EvCtx None # EvRest (DeleteRestart u) response err # ds)"
    if "confirms (restartFlushed (mName (rmMember rm))) ds"
    using confirms_reading [OF that r] by (auto simp: restart_flush_shown_def)
  with settle [OF True] readback_writes [OF r] failover_writes is_readback_list [OF r] c show ?thesis by (simp add: classified_def)
next
  case False
  with keep c show ?thesis by (auto simp: restart_flush_shown_def classified_def split: if_splits)
qed

definition restart_flush_trace :: "'w service \<Rightarrow> resolved_member \<Rightarrow> member_write_result \<Rightarrow> event list \<Rightarrow> bool" where
  "restart_flush_trace svc rm m ds =
     (member_trace (clock_ok svc) 1 (2 + 2 * nat (svcVerificationAttempts svc)) restart_flush_shown rm m ds
      \<and> categorized m \<and> \<not> list_ex is_failover_write ds)"

lemma restartFlushMember_spec: "valid [] (restartFlushMember svc (Some look) rm) (restart_flush_trace svc rm)"
  unfolding restartFlushMember_def flushMemberNoop_def flushMemberNotSent_def
  apply (intro wp valid_use [OF classifyRestartFlush_spec] valid_use [OF settleRestartFlush_spec])
  subgoal by (simp add: restart_flush_trace_def member_trace_def restart_flush_shown_def, simp add: observed_def)
  apply (simp_all add: restart_flush_trace_def member_trace_def)
  apply (simp_all add: classified_def)[2]
  subgoal for e client u r ea response m0 m ds
    by (elim conjE, drule restart_flush_settled [where u = u], simp_all, blast)
  done


section \<open>Results\<close>

lemma flush_result_simps [simp]:
  "rOutcome (flushSuccess opID fi path d evs) = Succeeded" "rData (flushSuccess opID fi path d evs) = d"
  "rOutcome (flushFailureWithRetry opID fi path d cat retry msg c evs) = Failed"
  "rData (flushFailureWithRetry opID fi path d cat retry msg c evs) = d\<lparr>fdVerification := VerifiedFailed\<rparr>"
  "rOutcome (flushFailure opID fi path d cat msg c evs) = Failed"
  "rData (flushFailure opID fi path d cat msg c evs) = d\<lparr>fdVerification := VerifiedFailed\<rparr>"
  "rOutcome (flushUnknown opID fi path d msg c evs) = Unknown"
  "rData (flushUnknown opID fi path d msg c evs) = d\<lparr>fdVerification := Unverified\<rparr>"
  "rOutcome (flushDoubt opID fi d m1 cr m2 c evs) = (if flushHasAmbiguousREST (fdResults d) then Unknown else Failed)"
  "rData (flushDoubt opID fi d m1 cr m2 c evs) =
     d\<lparr>fdVerification := (if flushHasAmbiguousREST (fdResults d) then Unverified else VerifiedFailed)\<rparr>"
  by (simp_all add: flushSuccess_def flushFailureWithRetry_def flushFailure_def flushUnknown_def flushDoubt_def)

lemma flush_result_Validate [simp]:
  "result_Validate (flushSuccess opID fi path d evs) = None \<longleftrightarrow>
     opID \<noteq> [] \<and> target_ok (fiTarget fi) \<and> validPath path \<and> evs \<noteq> [] \<and> evidence_all_ok evs"
  "result_Validate (flushFailureWithRetry opID fi path d cat retry msg c evs) = None \<longleftrightarrow>
     opID \<noteq> [] \<and> target_ok (fiTarget fi) \<and> validPath path \<and> evs \<noteq> [] \<and> evidence_all_ok evs
     \<and> validCategory cat \<and> cat \<noteq> CategoryUnknown \<and> msg \<noteq> []"
  "result_Validate (flushFailure opID fi path d cat msg c evs) = None \<longleftrightarrow>
     opID \<noteq> [] \<and> target_ok (fiTarget fi) \<and> validPath path \<and> evs \<noteq> [] \<and> evidence_all_ok evs
     \<and> validCategory cat \<and> cat \<noteq> CategoryUnknown \<and> msg \<noteq> []"
  "result_Validate (flushUnknown opID fi path d msg c evs) = None \<longleftrightarrow>
     opID \<noteq> [] \<and> target_ok (fiTarget fi) \<and> validPath path \<and> evs \<noteq> [] \<and> evidence_all_ok evs \<and> msg \<noteq> []"
  "result_Validate (flushDoubt opID fi d m1 cr m2 c evs) = None \<longleftrightarrow>
     opID \<noteq> [] \<and> target_ok (fiTarget fi) \<and> evs \<noteq> [] \<and> evidence_all_ok evs
     \<and> (if flushHasAmbiguousREST (fdResults d) then m1 \<noteq> []
        else validCategory (fst cr) \<and> fst cr \<noteq> CategoryUnknown \<and> m2 \<noteq> [])"
  by (auto simp: flushSuccess_def flushFailureWithRetry_def flushFailure_def flushUnknown_def flushDoubt_def
      result_Validate_None error_Validate_NewError)

definition flush_data_ok :: "flush_data \<Rightarrow> bool" where
  "flush_data_ok d =
     (flush_event_valid (fdEvent d) \<and> validOrEmpty (fdRESTSendState d) \<and> fdRESTSendState d \<noteq> SendEmpty
      \<and> validOrEmpty (fdDCSSendState d) \<and> verification_valid (fdVerification d)
      \<and> (fdNoop d \<longrightarrow> fdVerification d = VerifiedSucceeded))"

lemma flush_data_Validate_None:
  "flush_data_Validate d = None \<longleftrightarrow>
     flush_data_ok d \<and> 0 \<le> fdDCSRevision d \<and> (\<forall>m \<in> set (fdResults d). member_write_Validate m = None)"
proof (cases "wrapFirst ''flush REST result: %w'' (map member_write_Validate (fdResults d))")
  case None
  then have "\<forall>m \<in> set (fdResults d). member_write_Validate m = None" by simp
  then show ?thesis unfolding flush_data_Validate_def None flush_data_ok_def by auto
next
  case (Some e)
  from wrapFirst_Some [OF Some] show ?thesis unfolding flush_data_Validate_def Some by auto
qed

lemma flushVerdict_spec:
  "flushVerdict (oc, cat, cause) ms = (oc', cat', cause') \<Longrightarrow> oc' = batchOutcome oc ms
   \<and> ((validCategory cat \<and> cat \<noteq> CategoryUnknown) \<and> (\<forall>m \<in> set ms. member_sound m \<and> categorized m)
      \<longrightarrow> validCategory cat' \<and> cat' \<noteq> CategoryUnknown)"
proof (induction ms arbitrary: oc cat cause)
  case (Cons m ms)
  have "member_sound m \<and> categorized m \<and> mwOutcome m = Failed \<Longrightarrow> \<forall>e. mwError m = Some e \<longrightarrow>
      validCategory (errCategory e) \<and> errCategory e \<noteq> CategoryUnknown"
    by (auto simp: member_sound_def categorized_def)
  then show ?case using Cons.prems by (auto dest!: Cons.IH split: if_splits option.splits)
qed simp

lemma aggregate_cases: "aggregate ms = Succeeded \<or> aggregate ms = Failed \<or> aggregate ms = Unknown"
  by (simp add: aggregate_def)

lemma finalizeFlushResults_sel [simp]:
  "rOutcome (finalizeFlushResults opID fi path ms base) = aggregate ms"
  "fdResults (rData (finalizeFlushResults opID fi path ms base)) = ms"
  "fdDCSRevision (rData (finalizeFlushResults opID fi path ms base)) = 0"
  "flush_event_valid (fiEvent fi) \<Longrightarrow> flush_data_ok (rData (finalizeFlushResults opID fi path ms base))"
proof -
  obtain oc cat cause where v: "flushVerdict (Succeeded, CategoryFailed, None) ms = (oc, cat, cause)"
    by (cases "flushVerdict (Succeeded, CategoryFailed, None) ms") auto
  then have oc: "oc = aggregate ms" using flushVerdict_spec [OF v] by (simp add: batchOutcome_aggregate)
  have noop: "aggregate ms = Succeeded" if "\<forall>m \<in> set ms. mwSendState m = SendNotSent \<and> mwOutcome m = Succeeded"
    using that by (auto simp: aggregate_def)
  show "rOutcome (finalizeFlushResults opID fi path ms base) = aggregate ms"
    "fdResults (rData (finalizeFlushResults opID fi path ms base)) = ms"
    "fdDCSRevision (rData (finalizeFlushResults opID fi path ms base)) = 0"
    using oc aggregate_cases [of ms] by (auto simp: finalizeFlushResults_def v Let_def zeroFlushData_def)
  show "flush_data_ok (rData (finalizeFlushResults opID fi path ms base))" if "flush_event_valid (fiEvent fi)"
    using oc that noop aggregate_cases [of ms]
    by (auto simp: finalizeFlushResults_def v Let_def zeroFlushData_def flush_data_ok_def)
qed

lemma finalizeFlushResults_valid:
  assumes "opID \<noteq> []" "target_ok (fiTarget fi)" "validPath path" "base \<noteq> []" "evidence_all_ok base"
    and "\<forall>m \<in> set ms. member_sound m \<and> categorized m"
  shows "result_Validate (finalizeFlushResults opID fi path ms base) = None"
proof -
  obtain oc cat cause where v: "flushVerdict (Succeeded, CategoryFailed, None) ms = (oc, cat, cause)"
    by (cases "flushVerdict (Succeeded, CategoryFailed, None) ms") auto
  with flushVerdict_spec [OF v] assms(6) have "validCategory cat \<and> cat \<noteq> CategoryUnknown" by simp
  then show ?thesis using assms by (auto simp: finalizeFlushResults_def v Let_def sound_evidence)
qed


section \<open>Flushing restarts: the execution\<close>

text \<open>The plan knows the member, and a restart that is scheduled now was scheduled then.\<close>

definition restart_confirmed :: "plan \<Rightarrow> resolved_member \<Rightarrow> bool" where
  "restart_confirmed p rm =
     (\<exists>planned. expectedPrecondition p (scheduledRestartPreconditionField (rmTarget rm)) = Some planned
        \<and> (hasScheduledRestart (rmMember rm) \<longrightarrow> planned \<noteq> ''false''))"

text \<open>The plan says nothing of the restart of this member.\<close>

definition unplanned :: "plan \<Rightarrow> resolved_member \<Rightarrow> bool" where
  "unplanned p rm = (expectedPrecondition p (scheduledRestartPreconditionField (rmTarget rm)) = None)"

lemma unplanned_unconfirmed: "list_ex (unplanned p) rms \<Longrightarrow> \<not> list_all (restart_confirmed p) rms"
  by (induction rms) (auto simp: unplanned_def restart_confirmed_def)

lemma flushStateConflicts_spec:
  "valid [] (flushStateConflicts svc p rms) (\<lambda>x ds. ds = []
     \<and> (case x of None \<Rightarrow> list_ex (unplanned p) rms
        | Some cs \<Rightarrow> (cs = [] \<longleftrightarrow> list_all (restart_confirmed p) rms)
            \<and> (\<forall>c \<in> set cs. refused (clock_ok svc) c \<and> (\<exists>rm \<in> set rms. mwTarget c = rmTarget rm))))"
proof (induction rms)
  case (Cons rm rms)
  show ?case unfolding flushStateConflicts.simps
    by (intro wp valid_use [OF Cons.IH]) (auto simp: restart_confirmed_def unplanned_def split: option.splits)
qed simp

text \<open>What the flush of the restarts has to do: the planned members, as the new snapshots have them, all
  confirmed.  Otherwise nothing is due, and nothing is sent.\<close>

definition restart_due :: "plan \<Rightarrow> snapshot list \<Rightarrow> role \<Rightarrow> resolved_member list \<Rightarrow> bool" where
  "restart_due p sns r rms =
     (map (resolution sns r) (pTargets p) = map Some rms \<and> list_all (restart_confirmed p) rms)"

lemma resolved_unique: "map f ts = map Some xs \<Longrightarrow> map f ts = map Some ys \<Longrightarrow> xs = (ys :: 'a list)"
  by (metis inj_map_eq_map inj_Some)

lemma resolved_all: "map f ts = map Some rms \<Longrightarrow> None \<notin> f ` set ts"
  by (drule arg_cong [where f = set]) auto

lemma due_resolved:
  "restart_due p sns r rms \<Longrightarrow> None \<notin> resolution sns r ` set (pTargets p)"
  "restart_due p sns r rms \<Longrightarrow> map (resolution sns r) (pTargets p) = map Some rms' \<Longrightarrow> list_all (restart_confirmed p) rms'"
  unfolding restart_due_def by (blast dest: resolved_all) (metis resolved_unique)

definition restart_flush_run ::
  "'w service \<Rightarrow> flush_intent \<Rightarrow> plan \<Rightarrow> snapshot list \<Rightarrow> flush_data result \<Rightarrow> event list \<Rightarrow> bool" where
  "restart_flush_run svc fi p sns r ds =
     (fdDCSRevision (rData r) = 0 \<and> (flush_event_valid (fiEvent fi) \<longrightarrow> flush_data_ok (rData r))
      \<and> (\<forall>rms. restart_due p sns (fiRole fi) rms \<longrightarrow> segments (restart_flush_trace svc) rms (fdResults (rData r)) ds)
      \<and> (ds = [] \<and> fdResults (rData r) = [] \<and> rOutcome r = Failed
           \<and> (\<exists>rms. map (resolution sns (fiRole fi)) (pTargets p) = map Some rms \<and> list_ex (unplanned p) rms)
         \<or> rOutcome r = aggregate (fdResults (rData r))
           \<and> batch_run (restart_flush_trace svc) (restart_confirmed p) (clock_ok svc) sns (fiRole fi) (pTargets p)
                (fdResults (rData r)) ds))"

lemma restart_flush_aborted:
  assumes "list_all2 (\<lambda>raw m. refused (clock_ok svc) m \<and> MemberID (mwTarget m) = MemberID raw
     \<and> (mwTarget m = raw \<or> (\<exists>raw \<in> set (pTargets p). mwTarget m = Normalize raw))) (pTargets p) ms"
    and "None \<in> resolution sns (fiRole fi) ` set (pTargets p)
      \<or> (\<exists>rms. map (resolution sns (fiRole fi)) (pTargets p) = map Some rms \<and> \<not> list_all (restart_confirmed p) rms)"
  shows "restart_flush_run svc fi p sns (finalizeFlushResults opID fi PathREST ms base) []"
proof -
  have "\<not> restart_due p sns (fiRole fi) rms" for rms
    using assms(2) due_resolved [of p sns "fiRole fi" rms] by blast
  with assms(1) show ?thesis by (simp add: restart_flush_run_def batch_run_def)
qed

lemma restart_flush_missing:
  assumes "map (resolution sns (fiRole fi)) (pTargets p) = map Some rms" and "list_ex (unplanned p) rms"
    and "rOutcome r = Failed" "rData r = zeroFlushData\<lparr>fdEvent := fiEvent fi, fdRESTSendState := SendNotSent, fdVerification := VerifiedFailed\<rparr>"
  shows "restart_flush_run svc fi p sns r []"
proof -
  have "\<not> restart_due p sns (fiRole fi) rms'" for rms'
    using due_resolved(2) assms(1) unplanned_unconfirmed [OF assms(2)] by blast
  with assms show ?thesis by (auto simp: restart_flush_run_def zeroFlushData_def flush_data_ok_def)
qed

lemma restart_flush_visited:
  assumes "segments (restart_flush_trace svc) rms ms ds"
    and "map (resolution sns (fiRole fi)) (pTargets p) = map Some rms" and "list_all (restart_confirmed p) rms"
  shows "restart_flush_run svc fi p sns (finalizeFlushResults opID fi PathREST ms base) ds"
proof -
  have "rms' = rms" if "restart_due p sns (fiRole fi) rms'" for rms'
    using that resolved_unique [OF _ assms(2)] by (simp add: restart_due_def)
  then have "\<forall>rms'. restart_due p sns (fiRole fi) rms' \<longrightarrow> segments (restart_flush_trace svc) rms' ms ds"
    using assms(1) by blast
  moreover have "batch_run (restart_flush_trace svc) (restart_confirmed p) (clock_ok svc) sns (fiRole fi) (pTargets p) ms ds"
    using assms unfolding batch_run_def by blast
  ultimately show ?thesis by (simp add: restart_flush_run_def)
qed

lemma conflict_targets:
  assumes "\<forall>c \<in> set cs. refused b c \<and> (\<exists>rm \<in> set rms. mwTarget c = rmTarget rm)"
    and "\<forall>rm \<in> set rms. \<exists>raw \<in> set ts. resolution sns r raw = Some rm"
  shows "\<forall>c \<in> set cs. \<exists>raw \<in> set ts. mwTarget c = Normalize raw"
  using assms resolution_target by (metis (no_types))

lemmas restart_flush_wp = valid_if valid_bind valid_option valid_prod valid_use [OF resolvePlannedMembers_spec]
  valid_use [OF abortBatch_spec] valid_use [OF flushStateConflicts_spec]
  valid_forEach [OF restartFlushMember_spec] valid_returnI

lemma executeRestartFlush_run:
  "valid [] (executeRestartFlush svc (Some look) opID fi p sns base) (restart_flush_run svc fi p sns)"
  unfolding executeRestartFlush_def
  apply (intro restart_flush_wp; clarsimp simp: restart_flush_visited)
  subgoal by (rule restart_flush_aborted) auto
  subgoal by (erule (1) restart_flush_missing) (simp_all add: flushFailure_def flushFailureWithRetry_def)
  subgoal by (blast dest: conflict_targets)
  subgoal by (rule restart_flush_aborted) auto
  done

lemma executeRestartFlush_valid:
  assumes "clock_ok svc" "opID \<noteq> []" "target_ok (fiTarget fi)" "base \<noteq> []" "evidence_all_ok base"
  shows "valid [] (executeRestartFlush svc (Some look) opID fi p sns base) (\<lambda>r ds. result_Validate r = None)"
proof -
  have all: "result_Validate (finalizeFlushResults opID fi PathREST ms base) = None"
    if "\<forall>m \<in> set ms. member_sound m \<and> categorized m" for ms
    using assms that by (intro finalizeFlushResults_valid) auto
  have abort: "result_Validate (finalizeFlushResults opID fi PathREST ms base) = None"
    if "list_all2 (\<lambda>raw m. refused (clock_ok svc) m \<and> MemberID (mwTarget m) = MemberID raw
     \<and> (mwTarget m = raw \<or> (\<exists>raw \<in> set (pTargets p). mwTarget m = Normalize raw))) (pTargets p) ms" for ms
    using that assms(1) by (intro all) (auto simp: list_all2_conv_all_nth in_set_conv_nth refused_def)
  have visited: "result_Validate (finalizeFlushResults opID fi PathREST ms base) = None"
    if "segments (restart_flush_trace svc) rms ms ds" for rms ms ds
    using segments_member [OF that] assms(1) by (intro all) (auto simp: restart_flush_trace_def member_trace_def)
  show ?thesis
    unfolding executeRestartFlush_def
    by (intro restart_flush_wp; simp add: abort visited)
       (use assms in \<open>auto dest: conflict_targets\<close>)
qed

section \<open>Flushing a switchover: the fallback\<close>

abbreviation unscheduled :: "snapshot \<Rightarrow> bool" where
  "unscheduled sn \<equiv> \<not> switchoverScheduled sn"

text \<open>A compare-and-delete that certainly did not take effect.\<close>

fun cas_lost :: "event \<Rightarrow> bool" where
  "cas_lost (EvFailover _ r e) =
     (if asConflictError e \<noteq> None then dcsSendState e (wrApplied r) \<noteq> SendMaybeSent
      else e \<noteq> None \<and> dcsSendState e (wrApplied r) = SendNotSent)"
| "cas_lost (EvRest _ _ _) = True"
| "cas_lost e = definite e"

text \<open>The outcome the events of the fallback call for, when a REST answer was open before it or not.\<close>

definition fallbackVerdict :: "bool \<Rightarrow> event list \<Rightarrow> outcome" where
  "fallbackVerdict unsure ds =
     (if confirms unscheduled ds then Succeeded
      else if unsure \<or> \<not> list_all cas_lost ds then Unknown else Failed)"

text \<open>The deletion is of the key as the fallback just read it, unchanged since the plan.\<close>

definition fallback_trace :: "'w service \<Rightarrow> plan \<Rightarrow> target \<Rightarrow> event list \<Rightarrow> bool" where
  "fallback_trace svc p t ds =
     ((\<exists>a. ds = [EvSnapshot t a]) \<or> (\<exists>a x. ds = [EvSnapshot t a, EvCtx (Some x)])
      \<or> (\<exists>fresh f wr err rb. ds = EvSnapshot t (Inr fresh) # EvCtx None # EvFailover (DeleteFailover t (Some (fModRevision f))) wr err # rb
           \<and> cFailover (snCluster fresh) = Some f \<and> switchoverScheduled fresh
           \<and> revalidateSwitchoverFlushPlan p (Some f) (leaderFirstRESTMembers (snCluster fresh)) (snTarget fresh) = None
           \<and> list_all (is_readback t) rb \<and> length rb \<le> 2 * nat (svcVerificationAttempts svc)))"

definition flush_kept :: "flush_data \<Rightarrow> flush_data \<Rightarrow> event list \<Rightarrow> bool" where
  "flush_kept d d' ds =
     (fdResults d' = fdResults d \<and> from_events ds (fdDCSRevision d') \<and> fdNoop d' = fdNoop d
      \<and> (flush_data_ok d \<and> \<not> fdNoop d \<longrightarrow> flush_data_ok d'))"

lemma flush_data_ok_update [simp]:
  "flush_data_ok d \<Longrightarrow> \<not> fdNoop d \<Longrightarrow> verification_valid v \<Longrightarrow> flush_data_ok (d\<lparr>fdVerification := v\<rparr>)"
  "flush_data_ok d \<Longrightarrow> flush_data_ok (d\<lparr>fdDCSRevision := rv\<rparr>)"
  "flush_data_ok d \<Longrightarrow> validOrEmpty send \<Longrightarrow> flush_data_ok (d\<lparr>fdDCSSendState := send, fdDCSRevision := rv\<rparr>)"
  "flush_data_ok d \<Longrightarrow> flush_data_ok (d\<lparr>fdResults := ms, fdRESTSendState := aggregateRESTSendState ms'\<rparr>)"
  by (auto simp: flush_data_ok_def)

lemma valid_verifySwitchoverFlush:
  assumes "\<And>ok rv vevs ds. list_all (is_readback t) ds \<Longrightarrow> length ds \<le> 2 * nat (svcVerificationAttempts svc)
      \<Longrightarrow> (ok \<longleftrightarrow> confirms unscheduled ds) \<Longrightarrow> from_events ds rv \<Longrightarrow> (clock_ok svc \<Longrightarrow> evidence_all_ok vevs)
      \<Longrightarrow> Q (ok, rv, vevs) (es @ ds)"
  shows "valid es (verifySwitchoverFlush svc t) Q"
proof (rule switchover_flush_reading.use)
  fix ok rv vevs ds
  assume l: "loop_trace t (nat (svcVerificationAttempts svc)) unscheduled snRevision 0 (clock_ok svc) (ok, rv, vevs) ds"
  then have r: "readback_trace t (nat (svcVerificationAttempts svc)) unscheduled ok ds"
    and e: "clock_ok svc \<Longrightarrow> evidence_all_ok vevs" and m: "remembers snRevision 0 rv ds" by (auto simp: loop_trace_def)
  have "from_events ds rv"
  proof (cases "read_snapshots ds = []")
    case False
    then have "last (read_snapshots ds) \<in> set (read_snapshots ds)" by simp
    then obtain u where "EvSnapshot u (Inr (last (read_snapshots ds))) \<in> set ds" by (auto simp: read_snapshots_set)
    moreover have "rv = snRevision (last (read_snapshots ds))" using m False by (simp add: remembers_def)
    ultimately show ?thesis by (force simp: from_events_def image_iff)
  qed (use m in \<open>simp add: remembers_def from_events_def\<close>)
  with assms [OF _ _ _ _ e] readback_all [OF r] show "Q (ok, rv, vevs) (es @ ds)" by blast
qed

lemma conclude_outcome:
  "rOutcome (concludeSwitchoverFlush opID fi d err ok evs) =
     (if ok then Succeeded
      else if flushHasAmbiguousREST (fdResults d) then Unknown
      else if asConflictError err \<noteq> None then (if fdDCSSendState d = SendMaybeSent then Unknown else Failed)
      else if err \<noteq> None \<and> fdDCSSendState d = SendNotSent then Failed else Unknown)"
  by (simp add: concludeSwitchoverFlush_def split: prod.splits)

lemma conclude_data:
  "\<exists>v. rData (concludeSwitchoverFlush opID fi d err ok evs) = d\<lparr>fdVerification := v\<rparr> \<and> verification_valid v"
  by (auto simp: concludeSwitchoverFlush_def split: prod.splits intro: exI [of _ Unverified] exI [of _ VerifiedFailed] exI [of _ VerifiedSucceeded])

lemma readback_cas_lost: "list_all (is_readback t) ds \<Longrightarrow> list_all cas_lost ds"
  by (induction ds) (auto elim!: is_readback.elims)

lemma deleted_verdict:
  assumes "list_all (is_readback t) ds"
  shows "rOutcome (concludeSwitchoverFlush opID fi (d\<lparr>fdDCSSendState := dcsSendState err (wrApplied wr), fdDCSRevision := rv\<rparr>)
      err (confirms unscheduled ds) evs) =
    fallbackVerdict (flushHasAmbiguousREST (fdResults d)) (EvSnapshot t (Inr fresh) # EvCtx None # EvFailover c wr err # ds)"
proof -
  have c: "confirms unscheduled (EvSnapshot t (Inr fresh) # EvCtx None # EvFailover c wr err # ds) = confirms unscheduled ds"
    by (cases "ds = []") (auto simp: confirms_def)
  show ?thesis using readback_cas_lost [OF assms]
    by (simp add: conclude_outcome fallbackVerdict_def c) auto
qed

lemma deleted_kept:
  assumes "from_events es rv" and "validOrEmpty send"
  shows "flush_kept d (rData (concludeSwitchoverFlush opID fi (d\<lparr>fdDCSSendState := send, fdDCSRevision := rv\<rparr>) err ok evs)) es"
proof -
  obtain v where "rData (concludeSwitchoverFlush opID fi (d\<lparr>fdDCSSendState := send, fdDCSRevision := rv\<rparr>) err ok evs)
      = d\<lparr>fdDCSSendState := send, fdDCSRevision := rv, fdVerification := v\<rparr>" and "verification_valid v"
    using conclude_data by blast
  with assms show ?thesis by (auto simp: flush_kept_def flush_data_ok_def)
qed

definition fallback_run :: "'w service \<Rightarrow> plan \<Rightarrow> target \<Rightarrow> flush_data \<Rightarrow> flush_data result \<Rightarrow> event list \<Rightarrow> bool" where
  "fallback_run svc p t d r ds =
     (fallback_trace svc p t ds \<and> rOutcome r = fallbackVerdict (flushHasAmbiguousREST (fdResults d)) ds
      \<and> flush_kept d (rData r) ds)"

lemma delete_fallback:
  assumes "cFailover (snCluster fresh) = Some f" and "switchoverScheduled fresh"
    and "revalidateSwitchoverFlushPlan p (Some f) (leaderFirstRESTMembers (snCluster fresh)) (snTarget fresh) = None"
  shows "valid [EvSnapshot t (Inr fresh), EvCtx None] (deleteScheduledSwitchover svc cap opID fi t f d evs) (fallback_run svc p t d)"
  unfolding deleteScheduledSwitchover_def Let_def
  by (intro wp valid_verifySwitchoverFlush)
     (use assms in \<open>auto simp: fallback_run_def fallback_trace_def from_events_def intro!: deleted_kept deleted_verdict\<close>)

lemma fallback_stopped:
  assumes "ds = [EvSnapshot t a] \<or> (\<exists>x. ds = [EvSnapshot t a, EvCtx (Some x)])"
    and "rOutcome r = (if ds = [EvSnapshot t a] \<and> exhibits unscheduled (EvSnapshot t a) then Succeeded
       else if flushHasAmbiguousREST (fdResults d) then Unknown else Failed)"
    and "flush_kept d (rData r) ds"
  shows "fallback_run svc p t d r ds"
  using assms by (auto simp: fallback_run_def fallback_trace_def fallbackVerdict_def confirms_def)

lemma switchoverScheduled_failover: "switchoverScheduled sn \<Longrightarrow> \<exists>f. cFailover (snCluster sn) = Some f"
  by (auto simp: switchoverScheduled_def split: option.splits)

lemma executeFallback_run:
  assumes "fdDCSRevision d = 0"
  shows "valid [] (executeSwitchoverFlushFallback svc (Some look) opID fi p t0 d base) (fallback_run svc p (t0\<lparr>tMember := []\<rparr>) d)"
  unfolding executeSwitchoverFlushFallback_def Let_def
  by (intro wp)
     (auto intro!: fallback_stopped delete_fallback simp: flush_kept_def from_events_def assms dest: switchoverScheduled_failover)


section \<open>Flushing a switchover: the members\<close>

fun decisive :: "event \<Rightarrow> int option" where
  "decisive (EvRest c r e) = (if rest_write c \<and> (respStatus r = 200 \<or> respStatus r = 404) then Some (respStatus r) else None)"
| "decisive _ = None"

text \<open>The first status 200 or 404 a write got: it ends the loop.\<close>

definition decided :: "event list \<Rightarrow> int option" where
  "decided ds = first_some decisive ds"

lemma decided_simps [simp]:
  "decided [] = None"
  "decided (EvRest c r e # xs) = (if rest_write c \<and> (respStatus r = 200 \<or> respStatus r = 404) then Some (respStatus r) else decided xs)"
  "decided (EvCtx x # xs) = decided xs" "decided (EvSnapshot t s # xs) = decided xs"
  "decided (EvWait d x # xs) = decided xs" "decided (EvFailover fc w x # xs) = decided xs"
  by (auto simp: decided_def)

lemma decided_append: "decided (xs @ ys) = (case decided xs of None \<Rightarrow> decided ys | Some y \<Rightarrow> Some y)"
  unfolding decided_def first_some_append ..

lemma decided_skip [simp]: "decided xs = None \<Longrightarrow> decided (xs @ ys) = decided ys"
  by (simp add: decided_append)

lemma readback_decided: "list_all (is_readback t) ds \<Longrightarrow> decided ds = None"
  by (induction ds) (auto elim!: is_readback.elims)

lemma decided_butlast: "decided es = None \<Longrightarrow> decided (butlast es) = None"
  by (cases es rule: rev_cases) (auto simp: decided_append split: option.splits)

fun rest_definite :: "event \<Rightarrow> bool" where
  "rest_definite (EvRest c r e) = definite (EvRest c r e)"
| "rest_definite _ = True"

definition switchTail :: "event list \<Rightarrow> outcome" where
  "switchTail ds =
     (case decided ds of
        Some status \<Rightarrow> if status = 200 then Succeeded else Failed
      | None \<Rightarrow> fallbackVerdict (\<not> list_all rest_definite ds) ds)"

definition switch_asks :: "'w service \<Rightarrow> snapshot \<Rightarrow> target list \<Rightarrow> member_write_result list \<Rightarrow> event list \<Rightarrow> bool" where
  "switch_asks svc sn = visited (clock_ok svc) sn DeleteSwitchover (\<lambda>s. s = 200)"

abbreviation switch_asked :: "'w service \<Rightarrow> snapshot \<Rightarrow> target \<Rightarrow> member_write_result \<Rightarrow> event list \<Rightarrow> bool" where
  "switch_asked svc sn \<equiv> asked (clock_ok svc) sn DeleteSwitchover (\<lambda>s. s = 200)"

definition switch_run :: "'w service \<Rightarrow> plan \<Rightarrow> snapshot \<Rightarrow> target list \<Rightarrow> flush_data result \<Rightarrow> event list \<Rightarrow> bool" where
  "switch_run svc p sn ts r ds =
     (\<exists>vs ws a b. ts = vs @ ws \<and> ds = a @ b \<and> switch_asks svc sn vs (fdResults (rData r)) a
        \<and> decided (butlast a) = None
        \<and> (b = [] \<and> decided a \<noteq> None \<or> decided a = None \<and> (\<exists>x. b = [EvCtx (Some x)])
           \<or> decided a = None \<and> ws = [] \<and> fallback_trace svc p ((snTarget sn)\<lparr>tMember := []\<rparr>) b)
        \<and> rOutcome r = switchTail ds
        \<and> flush_data_ok (rData r) \<and> \<not> fdNoop (rData r) \<and> from_events ds (fdDCSRevision (rData r)))"

lemma switch_asked_decided:
  "switch_asked svc sn t m ds \<Longrightarrow> decided ds = (if mwHTTPStatus m = 200 \<or> mwHTTPStatus m = 404 then Some (mwHTTPStatus m) else None)"
  by (auto simp: asked_def classified_def)

lemma switch_asks_definite:
  assumes "switch_asks svc sn vs ms a"
  shows "list_all rest_definite a \<longleftrightarrow> list_all definite a"
proof -
  have "x \<in> set a \<Longrightarrow> rest_definite x = definite x" for x
    using switchover_ask.only_asks [OF assms [unfolded switch_asks_def]] by fastforce
  then show ?thesis by (auto simp: list_all_iff)
qed

lemma switch_asks_confirm: "switch_asks svc sn vs ms a \<Longrightarrow> \<not> confirms good a"
proof
  assume v: "switch_asks svc sn vs ms a" and c: "confirms good a"
  then have "last a \<in> set a" by (simp add: confirms_def)
  from switchover_ask.only_asks [OF v [unfolded switch_asks_def] this] c show False by (auto simp: confirms_def)
qed

lemma readback_rest_definite: "list_all (is_readback t) ds \<Longrightarrow> list_all rest_definite ds"
  by (induction ds) (auto elim!: is_readback.elims)

lemma fallback_facts:
  assumes "fallback_trace svc p t b"
  shows "b \<noteq> []" and "decided b = None" and "list_all rest_definite b"
  using assms by (auto simp: fallback_trace_def readback_decided readback_rest_definite)

lemma asks_cas_lost: "switch_asks svc sn vs ms a \<Longrightarrow> list_all cas_lost a"
  using switchover_ask.only_asks unfolding switch_asks_def list_all_iff by fastforce


lemma switch_stopped:
  assumes "switch_asks svc sn vs (fdResults (rData r)) a" and "decided (butlast a) = None"
    and "b = [] \<and> decided a \<noteq> None \<or> decided a = None \<and> (\<exists>x. b = [EvCtx (Some x)])"
    and "rOutcome r = (if decided a = Some 200 then Succeeded else if decided a = None \<and> \<not> list_all definite a then Unknown else Failed)"
    and "flush_data_ok (rData r)" "\<not> fdNoop (rData r)" "fdDCSRevision (rData r) = 0"
  shows "switch_run svc p sn (vs @ ws) r (a @ b)"
proof -
  have "switchTail (a @ b) = rOutcome r"
    using assms(3,4) switch_asks_definite [OF assms(1)] switch_asks_confirm [OF assms(1)] asks_cas_lost [OF assms(1)]
    by (auto simp: switchTail_def fallbackVerdict_def split: option.splits)
  with assms show ?thesis unfolding switch_run_def
    by (intro exI [of _ vs] exI [of _ ws] exI [of _ a] exI [of _ b]) (auto simp: from_events_def)
qed

definition switch_open ::
  "'w service \<Rightarrow> plan \<Rightarrow> snapshot \<Rightarrow> target list \<Rightarrow> flush_data result + flush_data \<Rightarrow> event list \<Rightarrow> bool" where
  "switch_open svc p sn ts out ds =
     (case out of
        Inl r \<Rightarrow> switch_run svc p sn ts r ds
      | Inr d \<Rightarrow> switch_asks svc sn ts (fdResults d) ds \<and> decided ds = None \<and> flush_data_ok d \<and> \<not> fdNoop d \<and> fdDCSRevision d = 0)"

lemma switchLoop_spec:
  assumes "switch_asks svc sn vs (fdResults d) es" and "decided es = None" and "flush_data_ok d" "\<not> fdNoop d" "fdDCSRevision d = 0"
  shows "valid es (switchoverFlushLoop svc (Some look) opID fi sn base ts d) (switch_open svc p sn (vs @ ts))"
  using assms
proof (induction ts arbitrary: vs d es)
  case Nil
  then show ?case by (simp add: switch_open_def)
next
  case (Cons t ts)
  let ?d = "\<lambda>m. d\<lparr>fdResults := fdResults d @ [m], fdRESTSendState := aggregateRESTSendState (fdResults d @ [m])\<rparr>"
  have asks: "switch_asks svc sn (vs @ [t]) (fdResults d @ [m]) (es @ EvCtx None # ds)"
    and st: "decided (es @ EvCtx None # ds) = (if mwHTTPStatus m = 200 \<or> mwHTTPStatus m = 404 then Some (mwHTTPStatus m) else None)"
    and bl: "decided (butlast (es @ EvCtx None # ds)) = None"
    if a: "switch_asked svc sn t m ds" for m ds
  proof -
    show "switch_asks svc sn (vs @ [t]) (fdResults d @ [m]) (es @ EvCtx None # ds)"
      using switchover_ask.grow [OF Cons.prems(1) [unfolded switch_asks_def] a] by (simp add: switch_asks_def)
    show "decided (es @ EvCtx None # ds) = (if mwHTTPStatus m = 200 \<or> mwHTTPStatus m = 404 then Some (mwHTTPStatus m) else None)"
      using switch_asked_decided [OF a] Cons.prems(2) by simp
    show "decided (butlast (es @ EvCtx None # ds)) = None"
      using switchover_ask.one(5) [OF a] Cons.prems(2) by (cases ds) (auto simp: butlast_append)
  qed
  have stop: "switch_run svc p sn (vs @ t # ts) r (es @ EvCtx None # ds)"
    if "switch_asked svc sn t m ds" and "mwHTTPStatus m = 200 \<or> mwHTTPStatus m = 404"
      and "fdResults (rData r) = fdResults d @ [m]" and "rOutcome r = (if mwHTTPStatus m = 200 then Succeeded else Failed)"
      and "flush_data_ok (rData r)" "\<not> fdNoop (rData r)" "fdDCSRevision (rData r) = 0" for m ds r
    using switch_stopped [of svc sn "vs @ [t]" r "es @ EvCtx None # ds" "[]" p ts]
      asks [OF that(1)] st [OF that(1)] bl [OF that(1)] that(2-7) by auto
  have cancel: "switch_run svc p sn (vs @ t # ts) (finishCanceledSwitchoverFlush opID fi d e base) (es @ [EvCtx e])" if "e \<noteq> None" for e
    using switch_stopped [of svc sn vs "finishCanceledSwitchoverFlush opID fi d e base" es "[EvCtx e]" p "t # ts"] that Cons.prems
      switchover_ask.open_iff [OF Cons.prems(1) [unfolded switch_asks_def]]
    by (auto simp: finishCanceledSwitchoverFlush_def decided_butlast)
  have again: "valid (es @ EvCtx None # ds) (switchoverFlushLoop svc (Some look) opID fi sn base ts (?d m))
      (switch_open svc p sn (vs @ t # ts))"
    if "switch_asked svc sn t m ds" and "mwHTTPStatus m \<noteq> 200" "mwHTTPStatus m \<noteq> 404" for m ds
    using Cons.IH [of "vs @ [t]" "?d m" "es @ EvCtx None # ds"] asks [OF that(1)] st [OF that(1)] that(2,3) Cons.prems(3-5) by simp
  show ?case unfolding switchoverFlushLoop.simps Let_def
    by (intro wp switchover_ask.use; simp add: cancel switch_open_def;
        (erule again [unfolded switch_open_def]; simp | erule stop; simp add: Cons.prems)?)
qed

lemma switch_fallen:
  assumes "switch_asks svc sn vs (fdResults d) a" and "decided a = None" and "flush_data_ok d" "\<not> fdNoop d"
    and f: "fallback_run svc p ((snTarget sn)\<lparr>tMember := []\<rparr>) d r b"
  shows "switch_run svc p sn vs r (a @ b)"
proof -
  note t = fallback_facts [of svc p "(snTarget sn)\<lparr>tMember := []\<rparr>" b]
  have "switchTail (a @ b) = fallbackVerdict (flushHasAmbiguousREST (fdResults d)) b"
    using f t assms(2) switch_asks_definite [OF assms(1)] asks_cas_lost [OF assms(1)]
      switchover_ask.open_iff [OF assms(1) [unfolded switch_asks_def]]
    by (simp add: switchTail_def fallbackVerdict_def fallback_run_def)
  with assms show ?thesis unfolding switch_run_def fallback_run_def flush_kept_def
    by (intro exI [of _ vs] exI [of _ "[]"] exI [of _ a] exI [of _ b]) (auto simp: from_events_def decided_butlast)
qed


definition planned_schedule :: "plan \<Rightarrow> string" where
  "planned_schedule p = (case expectedPrecondition p ''failover.scheduledAt'' of None \<Rightarrow> [] | Some s \<Rightarrow> s)"

text \<open>Nothing is asked: no switchover was planned, none is left, or it is not the planned one.\<close>

definition switch_idle :: "plan \<Rightarrow> snapshot \<Rightarrow> bool" where
  "switch_idle p sn =
     (planned_schedule p = [] \<or> unscheduled sn
      \<or> revalidateSwitchoverFlushPlan p (cFailover (snCluster sn)) (leaderFirstRESTMembers (snCluster sn)) (snTarget sn) \<noteq> None)"

definition switchVerdict :: "plan \<Rightarrow> snapshot \<Rightarrow> event list \<Rightarrow> outcome" where
  "switchVerdict p sn ds = (if switch_idle p sn then (if unscheduled sn then Succeeded else Failed) else switchTail ds)"

definition switch_exec :: "'w service \<Rightarrow> plan \<Rightarrow> snapshot \<Rightarrow> flush_data result \<Rightarrow> event list \<Rightarrow> bool" where
  "switch_exec svc p sn r ds =
     (rOutcome r = switchVerdict p sn ds
      \<and> (if switch_idle p sn then ds = [] \<and> fdResults (rData r) = [] \<and> fdDCSRevision (rData r) = 0 \<and> flush_data_ok (rData r)
         else switch_run svc p sn (pTargets p) r ds))"

definition flushStart :: "flush_intent \<Rightarrow> flush_data" where
  "flushStart fi = zeroFlushData\<lparr>fdEvent := fiEvent fi, fdRESTSendState := SendNotSent, fdVerification := Unverified\<rparr>"

lemma flushStart_sel [simp]:
  "fdResults (flushStart fi) = []" "fdNoop (flushStart fi) = False" "fdDCSRevision (flushStart fi) = 0"
  "flush_event_valid (fiEvent fi) \<Longrightarrow> flush_data_ok (flushStart fi)"
  "flush_event_valid (fiEvent fi) \<Longrightarrow> flush_data_ok ((flushStart fi)\<lparr>fdNoop := True, fdVerification := VerifiedSucceeded\<rparr>)"
  by (simp_all add: flushStart_def zeroFlushData_def flush_data_ok_def)

lemma switch_run_outcome: "switch_run svc p sn ts r ds \<Longrightarrow> rOutcome r = switchTail ds"
  by (auto simp: switch_run_def)

lemma executeSwitchoverFlush_exec:
  assumes "flush_event_valid (fiEvent fi)"
  shows "valid [] (executeSwitchoverFlush svc (Some look) opID fi p sn base) (switch_exec svc p sn)"
proof -
  have loop: "valid [] (switchoverFlushLoop svc (Some look) opID fi sn base (pTargets p) (flushStart fi)) (switch_open svc p sn (pTargets p))"
    using switchLoop_spec [of svc sn "[]" "flushStart fi" "[]" look opID fi base "pTargets p" p] assms
    by (simp add: switch_asks_def switchover_ask.none)
  show ?thesis
    unfolding executeSwitchoverFlush_def Let_def flushStart_def [symmetric] planned_schedule_def [symmetric]
    by (intro wp valid_use [OF loop] valid_use [OF executeFallback_run])
       (auto simp: assms switch_open_def switch_exec_def switchVerdict_def switch_idle_def dest: switch_run_outcome intro: switch_fallen
          intro!: switch_run_outcome [OF switch_fallen])
qed

section \<open>Flushing a switchover: well-formed results\<close>

lemma switchLoop_valid:
  assumes env: "clock_ok svc" "opID \<noteq> []" "target_ok (fiTarget fi)" "base \<noteq> []" "evidence_all_ok base"
    and "\<forall>m \<in> set (fdResults d). member_sound m"
  shows "valid es (switchoverFlushLoop svc ctx opID fi sn base ts d) (\<lambda>out es. case out of
      Inl r \<Rightarrow> result_Validate r = None | Inr d \<Rightarrow> \<forall>m \<in> set (fdResults d). member_sound m)"
  using assms(6)
proof (induction ts arbitrary: d es)
  case Nil
  then show ?case by simp
next
  case (Cons t ts)
  have m: "member_sound m" if "switch_asked svc sn t m ds" for m ds using asked_sound [OF that env(1)] by simp
  show ?case unfolding switchoverFlushLoop.simps Let_def finishCanceledSwitchoverFlush_def
    by (intro wp switchover_ask.use Cons.IH) (auto simp: env Cons.prems sound_evidence m)
qed

lemma switchoverFlushDCSDeleteSummary_nonempty [simp]: "switchoverFlushDCSDeleteSummary r e \<noteq> []"
  by (simp add: switchoverFlushDCSDeleteSummary_def)

lemma conclude_valid:
  assumes "opID \<noteq> []" "target_ok (fiTarget fi)" "evs \<noteq> []" "evidence_all_ok evs"
  shows "result_Validate (concludeSwitchoverFlush opID fi d err ok evs) = None"
  using assms by (auto simp: concludeSwitchoverFlush_def dest: classifyReadError_category split: prod.splits)

lemma fst_classifyReadError: "validCategory (fst (classifyReadError e)) \<and> fst (classifyReadError e) \<noteq> CategoryUnknown"
  using classifyReadError_category by (cases "classifyReadError e") auto

lemma executeFallback_valid:
  assumes env: "clock_ok svc" "opID \<noteq> []" "target_ok (fiTarget fi)" "base \<noteq> []" "evidence_all_ok base"
    and "\<forall>m \<in> set (fdResults d). member_sound m"
  shows "valid es (executeSwitchoverFlushFallback svc ctx opID fi p t0 d base) (\<lambda>r es. result_Validate r = None)"
  unfolding executeSwitchoverFlushFallback_def deleteScheduledSwitchover_def Let_def
  by (intro wp valid_verifySwitchoverFlush conclude_valid) (use assms in \<open>auto simp: sound_evidence fst_classifyReadError\<close>)

lemma executeSwitchoverFlush_valid:
  assumes env: "clock_ok svc" "opID \<noteq> []" "target_ok (fiTarget fi)" "base \<noteq> []" "evidence_all_ok base"
  shows "valid es (executeSwitchoverFlush svc ctx opID fi p sn base) (\<lambda>r es. result_Validate r = None)"
  unfolding executeSwitchoverFlush_def Let_def
  by (intro wp valid_use [OF switchLoop_valid [OF assms]] executeFallback_valid) (use assms in \<open>auto simp: zeroFlushData_def split: sum.splits\<close>)



section \<open>Execution\<close>

lemma coordinator_checked:
  assumes "find P sns = Some sn" and "\<forall>sn \<in> set sns. read_in ds sn \<and> (if P sn then c sn else None) = None"
  shows "read_in ds sn \<and> c sn = None"
  using find_SomeD [OF assms(1)] assms(2) by force

lemma citusCoordinator_spec:
  "valid [] (citusCoordinatorSnapshot svc operation t False)
    (read_trace (clock_ok svc) (\<lambda>sn. checkSnapshotPatroniVersion svc sn False))"
  unfolding citusCoordinatorSnapshot_def Let_def
  by (intro valid_if valid_bind valid_prod valid_returnI valid_use [OF operationSnapshots_spec] valid_use [OF citusGroup_spec])
     (auto simp: read_trace_def split: option.splits sum.splits dest: coordinator_checked)

lemma flushOperationSnapshots_spec:
  "valid [] (flushOperationSnapshots svc fi) (read_trace (clock_ok svc) (\<lambda>sn. checkSnapshotPatroniVersion svc sn False))"
  unfolding flushOperationSnapshots_def
  by (intro valid_if operationSnapshots_spec citusCoordinator_spec)

end
