(* ===== verification/Flush_Spec.thy ===== *)
theory Flush_Spec
  imports Flush_Run Example_Service
begin

text \<open>
  Flushing, as a whole: the executions after their checks, the preparation of plans, what stands before
  every write, the validity of results, and the properties.
\<close>


section \<open>Executing a plan\<close>

definition flush_intent_of :: "flush_request \<Rightarrow> flush_intent" where
  "flush_intent_of rq = fst (normalizeFlushRequest rq)"

definition flush_guard :: "'w goctx \<Rightarrow> flush_request \<Rightarrow> plan \<Rightarrow> bool" where
  "flush_guard ctx rq p =
     (ctx \<noteq> None \<and> snd (normalizeFlushRequest rq) = None \<and> validateFlushPlan p (flush_intent_of rq) = None)"

definition flush_execution ::
  "'w service \<Rightarrow> 'w goctx \<Rightarrow> flush_request \<Rightarrow> plan \<Rightarrow> flush_data result \<Rightarrow> event list \<Rightarrow> bool" where
  "flush_execution svc ctx rq p r es =
     (rOutcome r = Failed \<and> rData r = zeroFlushData \<and> list_all is_read es
      \<or> (\<exists>base sns reads ds. flush_guard ctx rq p \<and> es = reads @ ds
           \<and> read_trace (clock_ok svc) (\<lambda>sn. checkSnapshotPatroniVersion svc sn False) (base, Inr sns) reads
           \<and> snapshotGroupIDs sns = plannedGroups p
           \<and> (if fqEvent rq = FlushRestart then restart_flush_run svc (flush_intent_of rq) p sns r ds
              else switch_exec svc p (hd sns) r ds)))"

lemma normalizeFlush_event [simp]: "fiEvent (fst (normalizeFlushRequest rq)) = fqEvent rq"
  by (simp add: normalizeFlushRequest_def split_beta)

lemma normalizeFlush_valid: "snd (normalizeFlushRequest rq) = None \<Longrightarrow> flush_event_valid (fqEvent rq)"
  by (auto simp: normalizeFlushRequest_def split_beta split: option.splits if_splits)

lemma flush_late:
  assumes "flush_guard ctx rq p" and "read_trace (clock_ok svc) (\<lambda>sn. checkSnapshotPatroniVersion svc sn False) (base, Inr sns) reads"
    and "snapshotGroupIDs sns = plannedGroups p"
    and "valid [] m (\<lambda>r ds. if fqEvent rq = FlushRestart then restart_flush_run svc (flush_intent_of rq) p sns r ds
              else switch_exec svc p (hd sns) r ds)"
  shows "valid reads m (flush_execution svc ctx rq p)"
  unfolding flush_execution_def by (rule valid_use [OF assms(4)]) (use assms(1-3) in blast)

lemma flush_early:
  "list_all is_read es \<Longrightarrow>
   valid es (failedReadWithEvidence svc zeroFlushData opID operation t path cat retry message cause evs) (flush_execution svc ctx rq p)"
  by (rule valid_failedReadWithEvidence) (simp add: flush_execution_def failed_with_def)

lemma ExecuteFlush_execution: "valid [] (ExecuteFlush svc ctx rq p) (flush_execution svc ctx rq p)"
proof (cases ctx)
  case None
  then show ?thesis
    by (auto simp: ExecuteFlush_def validContext_def split_beta Let_def intro!: valid_bind valid_operationID flush_early)
next
  case (Some look)
  obtain fi err where n: "normalizeFlushRequest rq = (fi, err)" by (cases "normalizeFlushRequest rq")
  then have f: "fi = flush_intent_of rq" and e: "fiEvent fi = fqEvent rq" using normalizeFlush_event [of rq] by (simp_all add: flush_intent_of_def)
  have v: "err = None \<Longrightarrow> flush_event_valid (fqEvent rq)" using normalizeFlush_valid [of rq] n by simp
  show ?thesis
    unfolding ExecuteFlush_def Some n prod.case Let_def
    by (intro valid_bind valid_planOperationID valid_prod valid_if valid_use [OF flushOperationSnapshots_spec] valid_sum flush_early flush_late)
       (auto simp: validContext_def flush_guard_def n f e [unfolded f] v dest: reads_only
          intro: executeRestartFlush_run executeSwitchoverFlush_exec)
qed

lemma ExecuteFlush_valid:
  assumes "clock_ok svc" and "target_ok (Normalize (fqTarget rq))"
  shows "valid [] (ExecuteFlush svc ctx rq p) (\<lambda>r es. result_Validate r = None)"
proof -
  obtain t members err' where m: "normalizeMemberRequest (fqTarget rq) (fqMembers rq) = (t, members, err')"
    by (cases "normalizeMemberRequest (fqTarget rq) (fqMembers rq)")
  note t = normalizeMemberRequest_target [OF m assms(2)]
  obtain fi err where n: "normalizeFlushRequest rq = (fi, err)" by (cases "normalizeFlushRequest rq")
  with m have fi: "fiTarget fi = t" and e: "err = None \<Longrightarrow> err' = None"
    by (auto simp: normalizeFlushRequest_def split: option.splits if_splits)
  show ?thesis
  proof (cases ctx)
    case None
    show ?thesis
      unfolding ExecuteFlush_def None n prod.case Let_def validContext_def
      by (intro valid_bind valid_planOperationID valid_if valid_failedReadWithEvidence)
         (use assms t fi in \<open>auto simp: flushPath_def intro: failed_with_ok\<close>)
  next
    case (Some look)
    show ?thesis
      unfolding ExecuteFlush_def Some n prod.case Let_def
      by (intro valid_bind valid_planOperationID valid_prod valid_if valid_use [OF flushOperationSnapshots_spec] valid_sum
           valid_failedReadWithEvidence valid_use [OF executeRestartFlush_valid] executeSwitchoverFlush_valid)
         (use assms t fi e in \<open>auto simp: read_trace_def flushPath_def intro: failed_with_ok\<close>)
  qed
qed


section \<open>Preparation\<close>

definition flush_prepared :: "flush_request \<Rightarrow> plan result \<Rightarrow> event list \<Rightarrow> bool" where
  "flush_prepared rq r es =
     (list_all is_read es
      \<and> (rOutcome r = Failed \<and> rData r = zeroPlan
         \<or> rOutcome r = Succeeded \<and> snd (normalizeFlushRequest rq) = None \<and> plan_Validate (rData r) = None
           \<and> validateFlushPlan (rData r) (flush_intent_of rq) = None
           \<and> (\<exists>sns. sns \<noteq> [] \<and> (\<forall>sn \<in> set sns. read_in es sn) \<and> plannedGroups (rData r) = snapshotGroupIDs sns
                \<and> (if fqEvent rq = FlushRestart
                   then selected_from sns (fiRole (flush_intent_of rq)) (fiMembers (flush_intent_of rq)) (rData r)
                   else (switch_idle (rData r) (hd sns) \<longleftrightarrow> unscheduled (hd sns))))))"

definition expects :: "precondition list \<Rightarrow> string \<Rightarrow> string option" where
  "expects cs f = map_of (map (\<lambda>c. (pcField c, pcExpected c)) cs) f"

lemma expects_simps [simp]:
  "expects [] f = None" "expects (pre g v s # cs) f = (if g = f then Some v else expects cs f)"
  by (simp_all add: expects_def)

definition request_field :: "string \<Rightarrow> bool" where
  "request_field f = (f \<in> set [''dcs.revision'', ''flush.event'', ''selector.role'', ''selector.members'', ''request.force'', ''request.citus'', ''citus.groups''])"

lemma flushPlan_expects:
  "\<not> request_field f \<Longrightarrow> expectedPrecondition (flushPlan opID fi ts sm (flushRequestPreconditions rv fi groups @ extra)) f = expects extra f"
  "expectedPrecondition (flushPlan opID fi ts sm (flushRequestPreconditions rv fi groups @ extra)) ''citus.groups'' = Some groups"
  by (simp_all add: flushPlan_def expectedPrecondition_find expects_def flushRequestPreconditions_def request_field_def)

lemma flushPlan_request:
  "preconditionMismatch (flushPlan opID fi ts sm (flushRequestPreconditions rv fi groups @ extra)) (tl (flushRequestPreconditions 0 fi [])) = None"
  by (simp add: flushPlan_def expectedPrecondition_find flushRequestPreconditions_def preconditionMismatch_def)

lemma flushPlan_validates:
  assumes "p = flushPlan opID fi ts sm (flushRequestPreconditions rv fi groups @ extra)" and "plan_Validate p = None"
    and "Normalize (fiTarget fi) = fiTarget fi" and "expects extra ''rest.members'' = Some (Join '','' (memberNamesFromTargets ts))"
    and "expects extra ''rest.targets'' = Some (Join '','' (memberIDsFromTargets ts))" and "fiEvent fi = FlushRestart \<Longrightarrow> ts \<noteq> []"
  shows "validateFlushPlan p fi = None \<and> plannedGroups p = groups"
proof -
  have r: "\<not> request_field ''rest.members''" "\<not> request_field ''rest.targets''" by code_simp+
  have "preconditionMismatch p (tl (flushRequestPreconditions 0 fi [])) = None" unfolding assms(1) by (rule flushPlan_request)
  moreover have "expectedPrecondition p ''rest.members'' = Some (Join '','' (memberNamesFromTargets ts))"
    "expectedPrecondition p ''rest.targets'' = Some (Join '','' (memberIDsFromTargets ts))" "plannedGroups p = groups"
    unfolding assms(1) plannedGroups_def using assms(4,5) by (simp_all only: flushPlan_expects r not_False_eq_True option.case)
  moreover have "pOperation p = ''flush''" "pPath p = flushPath (fiEvent fi)" "pRisk p = RiskAdminWrite" "pRetrySafety p = UnsafeAfterSend"
     "pTarget p = fiTarget fi" "pTargets p = ts" unfolding assms(1) by (simp_all add: flushPlan_def)
  ultimately show ?thesis using assms(2,3,6) unfolding validateFlushPlan_def by simp
qed

lemma restart_plan:
  assumes "buildFlushPlan opID fi sns = Inr p" and "fiEvent fi = FlushRestart" and "plan_Validate p = None"
    and "Normalize (fiTarget fi) = fiTarget fi"
  shows "validateFlushPlan p fi = None \<and> plannedGroups p = snapshotGroupIDs sns \<and> selected_from sns (fiRole fi) (fiMembers fi) p"
proof -
  obtain sn sns' where sns: "sns = sn # sns'" using assms(1) by (cases sns) (auto simp: buildFlushPlan_def)
  define ts where "ts = map fst (selectFlush fi sns)"
  obtain sm extra where p: "p = flushPlan opID fi ts sm (flushRequestPreconditions (snRevision sn) fi (snapshotGroupIDs sns) @
      pre ''rest.members'' (Join '','' (memberNamesFromTargets ts)) EvidenceDCS # pre ''rest.targets'' (Join '','' (memberIDsFromTargets ts)) EvidenceDCS # extra)"
    and ne: "ts \<noteq> []"
    using assms(1,2) by (auto simp: buildFlushPlan_def sns Let_def ts_def split: if_splits)
  have "selected_from sns (fiRole fi) (fiMembers fi) p"
    unfolding selected_from_def p ts_def flushPlan_def by (fastforce simp: selectFlush_def dest: selectMembers_in)
  with flushPlan_validates [OF p assms(3,4)] ne show ?thesis by simp
qed

lemma switchover_plan:
  assumes "buildFlushPlan opID fi sns = Inr p" and "fiEvent fi \<noteq> FlushRestart" and "plan_Validate p = None"
    and "Normalize (fiTarget fi) = fiTarget fi"
  shows "validateFlushPlan p fi = None \<and> plannedGroups p = snapshotGroupIDs sns \<and> (switch_idle p (hd sns) \<longleftrightarrow> unscheduled (hd sns))"
proof -
  obtain sn sns' where sns: "sns = sn # sns'" using assms(1) by (cases sns) (auto simp: buildFlushPlan_def)
  let ?req = "flushRequestPreconditions (snRevision sn) fi (snapshotGroupIDs sns)"
  let ?ts = "memberTargets (snTarget sn) (leaderFirstRESTMembers (snCluster sn))"
  have r: "\<forall>f \<in> set [''failover.modRevision'', ''failover.leader'', ''failover.candidate'', ''failover.scheduledAt'', ''rest.members'', ''rest.targets''].
    \<not> request_field f" by code_simp
  show ?thesis
  proof (cases "switchoverScheduled sn")
    case True
    then obtain f where f: "cFailover (snCluster sn) = Some f" "fScheduledAt f \<noteq> []" by (auto simp: switchoverScheduled_def split: option.splits)
    then obtain sm where p: "p = flushPlan opID fi ?ts sm (?req @ failoverFlushPreconditions f ?ts)"
      using assms(1,2) by (auto simp: buildFlushPlan_def sns Let_def)
    have "\<not> switch_idle p sn"
      using r f unfolding switch_idle_def planned_schedule_def revalidateSwitchoverFlushPlan_def p
      by (simp add: True firstMismatch_def flushPlan_expects failoverFlushPreconditions_def)
    with flushPlan_validates [OF p assms(3,4)] assms(2) True show ?thesis
      by (simp add: failoverFlushPreconditions_def sns)
  next
    case False
    then obtain sm where p: "p = flushPlan opID fi [] sm (?req @ emptyFailoverFlushPreconditions)"
      using assms(1,2) by (auto simp: buildFlushPlan_def sns Let_def switchoverScheduled_def split: option.splits if_splits)
    with flushPlan_validates [OF p assms(3,4)] assms(2) False show ?thesis
      by (simp add: emptyFailoverFlushPreconditions_def sns memberNamesFromTargets_def memberIDsFromTargets_def switch_idle_def)
  qed
qed

lemma flush_prepared_early:
  "list_all is_read es \<Longrightarrow>
   valid es (failedReadWithEvidence svc zeroPlan opID operation t path cat retry message cause evs) (flush_prepared rq)"
  by (rule valid_failedReadWithEvidence) (simp add: flush_prepared_def failed_with_def)

lemma PrepareFlush_prepared: "valid [] (PrepareFlush svc ctx rq) (flush_prepared rq)"
proof -
  obtain fi err where n: "normalizeFlushRequest rq = (fi, err)" by (cases "normalizeFlushRequest rq")
  then have f: "fi = flush_intent_of rq" and e: "fiEvent fi = fqEvent rq"
    using normalizeFlush_event [of rq] by (simp_all add: flush_intent_of_def)
  obtain t members err' where m: "normalizeMemberRequest (fqTarget rq) (fqMembers rq) = (t, members, err')"
    by (cases "normalizeMemberRequest (fqTarget rq) (fqMembers rq)")
  have t: "Normalize (fiTarget fi) = fiTarget fi"
    using m n by (auto simp: normalizeFlushRequest_def normalizeMemberRequest_def Let_def split: option.splits if_splits)
  have "err = None \<and> plan_Validate p = None \<and> buildFlushPlan opID fi sns = Inr p \<and> list_all is_read ds \<and> sns \<noteq> []
      \<and> (\<forall>sn \<in> set sns. read_in ds sn)
      \<Longrightarrow> flush_prepared rq \<lparr>rOperationID = opID, rOutcome = Succeeded, rTarget = tt, rPath = path, rData = p, rEvidence = evs, rError = None\<rparr> ds"
    for opID sns p ds tt path evs
    unfolding flush_prepared_def n snd_conv f [symmetric] e [symmetric]
    using restart_plan [OF _ _ _ t, of opID sns p] switchover_plan [OF _ _ _ t, of opID sns p] by auto
  note prep = this
  show ?thesis
    unfolding PrepareFlush_def n prod.case Let_def
    by (intro valid_bind valid_operationID valid_prod valid_if valid_use [OF flushOperationSnapshots_spec] valid_sum valid_option
          flush_prepared_early valid_returnI prep)
       (auto simp: read_trace_def)
qed


text \<open>The outcome of a flush, explained by what was read and what happened then.\<close>

text \<open>Scheduled restarts: what is due is done, one member of the plan after the other, each with its own segment of
  events and its result; when a planned member is gone, lost the role or got a restart the plan does not know of,
  nothing is sent and every planned member is refused; a plan that says nothing of a member has no results.\<close>

definition restart_explained :: "'w service \<Rightarrow> plan \<Rightarrow> snapshot list \<Rightarrow> role \<Rightarrow> flush_data result \<Rightarrow> event list \<Rightarrow> bool" where
  "restart_explained svc p sns role r ds =
     ((\<exists>rms. restart_due p sns role rms \<and> segments (restart_flush_trace svc) rms (fdResults (rData r)) ds)
        \<and> rOutcome r = aggregate (fdResults (rData r))
      \<or> (\<forall>rms. \<not> restart_due p sns role rms) \<and> ds = [] \<and> rOutcome r = aggregate (fdResults (rData r))
        \<and> list_all2 (\<lambda>raw m. refused (clock_ok svc) m \<and> MemberID (mwTarget m) = MemberID raw) (pTargets p) (fdResults (rData r))
      \<or> (\<exists>rms. map (resolution sns role) (pTargets p) = map Some rms \<and> list_ex (unplanned p) rms)
        \<and> ds = [] \<and> rOutcome r = Failed \<and> fdResults (rData r) = [])"

definition switch_writes :: "'w service \<Rightarrow> plan \<Rightarrow> snapshot \<Rightarrow> member_write_result list \<Rightarrow> event list \<Rightarrow> bool" where
  "switch_writes svc p sn ms ds =
     (\<exists>vs ws a b. pTargets p = vs @ ws \<and> ds = a @ b \<and> switch_asks svc sn vs ms a \<and> decided (butlast a) = None
        \<and> (b = [] \<or> (\<exists>x. b = [EvCtx (Some x)])
           \<or> ws = [] \<and> decided a = None \<and> fallback_trace svc p ((snTarget sn)\<lparr>tMember := []\<rparr>) b))"

definition flush_explained ::
  "'w service \<Rightarrow> 'w goctx \<Rightarrow> flush_request \<Rightarrow> plan \<Rightarrow> flush_data result \<Rightarrow> event list \<Rightarrow> bool" where
  "flush_explained svc ctx rq p r es =
     (rOutcome r = Failed \<and> rData r = zeroFlushData \<and> list_all is_read es
      \<or> flush_guard ctx rq p
        \<and> (\<exists>reads sns ds. es = reads @ ds \<and> list_all is_read reads \<and> sns \<noteq> []
             \<and> (\<forall>sn \<in> set sns. read_in reads sn \<and> checkSnapshotPatroniVersion svc sn False = None)
             \<and> snapshotGroupIDs sns = plannedGroups p
             \<and> (if fqEvent rq = FlushRestart then restart_explained svc p sns (fiRole (flush_intent_of rq)) r ds
                else rOutcome r = switchVerdict p (hd sns) ds
                  \<and> (if switch_idle p (hd sns) then ds = [] \<and> fdResults (rData r) = []
                     else switch_writes svc p (hd sns) (fdResults (rData r)) ds)
                  \<and> (rOutcome r = Failed \<longrightarrow> list_all definite es \<or> decided es = Some 404))))"

lemma is_read_quiet: "list_all is_read es \<Longrightarrow> list_all definite es \<and> decided es = None \<and> \<not> list_ex is_write es \<and> filter is_write es = []"
  by (induction es) (auto elim!: is_read.elims simp: decided_def)

lemma cas_lost_definite: "cas_lost e \<Longrightarrow> rest_definite e \<Longrightarrow> definite e"
  by (cases e) (auto split: if_splits)

lemma switchVerdict_definite:
  assumes "switchVerdict p sn ds = Failed" and "switch_idle p sn \<Longrightarrow> ds = []"
  shows "list_all definite ds \<or> decided ds = Some 404"
proof (cases "switch_idle p sn")
  case False
  have "status = 200 \<or> status = 404" if "decided xs = Some status" for xs status
    using that by (induction xs) (auto simp: decided_def elim!: decisive.elims split: option.splits if_splits)
  with False assms(1) show ?thesis
    by (auto simp: switchVerdict_def switchTail_def fallbackVerdict_def list_all_iff cas_lost_definite split: option.splits if_splits)
qed (use assms in auto)

lemma restart_run_explained:
  assumes "restart_flush_run svc fi p sns r ds"
  shows "restart_explained svc p sns (fiRole fi) r ds"
proof (cases "\<exists>rms. restart_due p sns (fiRole fi) rms")
  case True
  then obtain rms where d: "restart_due p sns (fiRole fi) rms" by blast
  then have "\<not> list_ex (unplanned p) rms'" if "map (resolution sns (fiRole fi)) (pTargets p) = map Some rms'" for rms'
    using due_resolved(2) [OF _ that] unplanned_unconfirmed by blast
  with assms have "rOutcome r = aggregate (fdResults (rData r))" by (auto simp: restart_flush_run_def)
  moreover have "segments (restart_flush_trace svc) rms (fdResults (rData r)) ds"
    using assms d by (simp add: restart_flush_run_def)
  ultimately show ?thesis using d unfolding restart_explained_def by (intro disjI1) blast
next
  case False
  consider "ds = []" "fdResults (rData r) = []" "rOutcome r = Failed"
      "\<exists>rms. map (resolution sns (fiRole fi)) (pTargets p) = map Some rms \<and> list_ex (unplanned p) rms"
    | "rOutcome r = aggregate (fdResults (rData r))"
      "batch_run (restart_flush_trace svc) (restart_confirmed p) (clock_ok svc) sns (fiRole fi) (pTargets p) (fdResults (rData r)) ds"
    using assms unfolding restart_flush_run_def by blast
  then show ?thesis
  proof cases
    case 2
    with False have "ds = []" "list_all2 (\<lambda>raw m. refused (clock_ok svc) m \<and> MemberID (mwTarget m) = MemberID raw) (pTargets p) (fdResults (rData r))"
      by (auto simp: batch_run_def restart_due_def elim: list_all2_mono)
    with 2 False show ?thesis by (simp add: restart_explained_def)
  qed (simp add: restart_explained_def)
qed

lemma switch_run_writes: "switch_run svc p sn (pTargets p) r ds \<Longrightarrow> switch_writes svc p sn (fdResults (rData r)) ds"
  unfolding switch_run_def switch_writes_def by blast

lemma execution_explained:
  assumes "flush_execution svc ctx rq p r es"
  shows "flush_explained svc ctx rq p r es"
  using assms unfolding flush_execution_def
proof (elim disjE exE conjE)
  fix base sns reads ds
  assume g: "flush_guard ctx rq p" and es: "es = reads @ ds" and gr: "snapshotGroupIDs sns = plannedGroups p"
    and rd: "read_trace (clock_ok svc) (\<lambda>sn. checkSnapshotPatroniVersion svc sn False) (base, Inr sns) reads"
    and run: "if fqEvent rq = FlushRestart then restart_flush_run svc (flush_intent_of rq) p sns r ds else switch_exec svc p (hd sns) r ds"
  from rd have r: "list_all is_read reads" "sns \<noteq> []"
    "\<forall>sn \<in> set sns. read_in reads sn \<and> checkSnapshotPatroniVersion svc sn False = None" by (auto simp: read_trace_def)
  have "rOutcome r = Failed \<longrightarrow> list_all definite es \<or> decided es = Some 404" if "switch_exec svc p (hd sns) r ds"
    using that switchVerdict_definite [of p "hd sns" ds] is_read_quiet [OF r(1)] es by (auto simp: switch_exec_def)
  with run have "if fqEvent rq = FlushRestart then restart_explained svc p sns (fiRole (flush_intent_of rq)) r ds
                else rOutcome r = switchVerdict p (hd sns) ds
                  \<and> (if switch_idle p (hd sns) then ds = [] \<and> fdResults (rData r) = []
                     else switch_writes svc p (hd sns) (fdResults (rData r)) ds)
                  \<and> (rOutcome r = Failed \<longrightarrow> list_all definite es \<or> decided es = Some 404)"
    by (auto simp: switch_exec_def intro: restart_run_explained switch_run_writes split: if_splits)
  with g es gr r show ?thesis unfolding flush_explained_def by blast
qed (simp add: flush_explained_def)


text \<open>What stands before the writes of a flush, and what they are.\<close>

definition flush_guarded ::
  "'w service \<Rightarrow> 'w goctx \<Rightarrow> flush_request \<Rightarrow> plan \<Rightarrow> flush_data result \<Rightarrow> event list \<Rightarrow> bool" where
  "flush_guarded svc ctx rq p r es =
     (flush_guard ctx rq p
      \<and> (\<exists>reads sns ds. es = reads @ ds \<and> list_all is_read reads
           \<and> (\<forall>sn \<in> set sns. read_in reads sn \<and> checkSnapshotPatroniVersion svc sn False = None)
           \<and> snapshotGroupIDs sns = plannedGroups p
           \<and> (if fqEvent rq = FlushRestart
              then (\<exists>rms. map (resolution sns (fiRole (flush_intent_of rq))) (pTargets p) = map Some rms
                     \<and> list_all (restart_confirmed p) rms
                     \<and> segments (restart_flush_trace svc) rms (fdResults (rData r)) ds)
              else sns \<noteq> [] \<and> \<not> switch_idle p (hd sns) \<and> switch_writes svc p (hd sns) (fdResults (rData r)) ds)))"

lemma execution_flush_guarded:
  assumes "flush_execution svc ctx rq p r es" and w: "list_ex is_write es"
  shows "flush_guarded svc ctx rq p r es"
  using assms(1) unfolding flush_execution_def
proof (elim disjE exE conjE)
  fix base sns reads ds
  assume g: "flush_guard ctx rq p" and es: "es = reads @ ds" and gr: "snapshotGroupIDs sns = plannedGroups p"
    and rd: "read_trace (clock_ok svc) (\<lambda>sn. checkSnapshotPatroniVersion svc sn False) (base, Inr sns) reads"
    and run: "if fqEvent rq = FlushRestart then restart_flush_run svc (flush_intent_of rq) p sns r ds else switch_exec svc p (hd sns) r ds"
  from rd have r: "list_all is_read reads" "sns \<noteq> []"
    "\<forall>sn \<in> set sns. read_in reads sn \<and> checkSnapshotPatroniVersion svc sn False = None" by (auto simp: read_trace_def)
  with w es have "ds \<noteq> []" using is_read_quiet [of reads] by auto
  with run have "if fqEvent rq = FlushRestart
      then (\<exists>rms. map (resolution sns (fiRole (flush_intent_of rq))) (pTargets p) = map Some rms
        \<and> list_all (restart_confirmed p) rms \<and> segments (restart_flush_trace svc) rms (fdResults (rData r)) ds)
      else \<not> switch_idle p (hd sns) \<and> switch_run svc p (hd sns) (pTargets p) r ds"
    by (auto simp: restart_flush_run_def batch_run_def switch_exec_def split: if_splits)
  moreover note switch_run_writes [of svc p "hd sns" r ds]
  ultimately show ?thesis unfolding flush_guarded_def using g es gr r
    by (intro conjI exI [of _ reads] exI [of _ sns] exI [of _ ds]) (simp_all split: if_splits)
qed (use w is_read_quiet in blast)

text \<open>The compare-and-delete of the failover key.\<close>

definition guarded_delete :: "plan \<Rightarrow> event list \<Rightarrow> bool" where
  "guarded_delete p es =
     (\<exists>before t fresh f wr err after.
        es = before @ EvSnapshot t (Inr fresh) # EvCtx None # EvFailover (DeleteFailover t (Some (fModRevision f))) wr err # after
        \<and> cFailover (snCluster fresh) = Some f \<and> fScheduledAt f \<noteq> []
        \<and> revalidateSwitchoverFlushPlan p (Some f) (leaderFirstRESTMembers (snCluster fresh)) (snTarget fresh) = None
        \<and> decided before = None \<and> \<not> list_ex is_failover_write before \<and> \<not> list_ex is_write after)"


lemma switch_no_failover:
  assumes "switch_asks svc sn vs ms a" shows "\<not> list_ex is_failover_write a"
  using switchover_ask.only_asks [OF assms [unfolded switch_asks_def]] by (fastforce simp: list_ex_iff)

lemma restart_no_failover: "segments (restart_flush_trace svc) rms ms ds \<Longrightarrow> \<not> list_ex is_failover_write ds"
  by (induction rule: segments_induct) (auto simp: restart_flush_trace_def)

lemma reads_no_failover: "list_all is_read es \<Longrightarrow> \<not> list_ex is_failover_write es \<and> decided es = None"
  by (induction es) (auto elim!: is_read.elims simp: decided_def)

lemma fallback_guarded:
  assumes "fallback_trace svc p t b" and "list_ex is_failover_write b"
    and "decided a = None" and "\<not> list_ex is_failover_write a"
  shows "guarded_delete p (a @ b)"
proof -
  from assms(1,2) obtain fresh f wr err rb where b: "b = EvSnapshot t (Inr fresh) # EvCtx None #
      EvFailover (DeleteFailover t (Some (fModRevision f))) wr err # rb"
    and f: "cFailover (snCluster fresh) = Some f" "switchoverScheduled fresh"
      "revalidateSwitchoverFlushPlan p (Some f) (leaderFirstRESTMembers (snCluster fresh)) (snTarget fresh) = None"
    and rb: "list_all (is_readback t) rb" by (auto simp: fallback_trace_def)
  from f have "fScheduledAt f \<noteq> []" by (simp add: switchoverScheduled_def)
  then show ?thesis unfolding guarded_delete_def b
    using f(1,3) readback_writes [OF rb] assms(3,4)
    by (intro exI [of _ a] exI [of _ t] exI [of _ fresh] exI [of _ f] exI [of _ wr] exI [of _ err] exI [of _ rb]) simp
qed

lemma execution_guarded_delete:
  assumes "flush_execution svc ctx rq p r es" and w: "list_ex is_failover_write es"
  shows "fqEvent rq \<noteq> FlushRestart \<and> guarded_delete p es"
  using assms(1) unfolding flush_execution_def
proof (elim disjE exE conjE)
  fix base sns reads ds
  assume es: "es = reads @ ds"
    and rd: "read_trace (clock_ok svc) (\<lambda>sn. checkSnapshotPatroniVersion svc sn False) (base, Inr sns) reads"
    and run: "if fqEvent rq = FlushRestart then restart_flush_run svc (flush_intent_of rq) p sns r ds else switch_exec svc p (hd sns) r ds"
  from rd have r: "\<not> list_ex is_failover_write reads" "decided reads = None"
    using reads_no_failover by (auto simp: read_trace_def)
  with w es have d: "list_ex is_failover_write ds" by simp
  show ?thesis
  proof (cases "fqEvent rq = FlushRestart")
    case True
    with run d have False by (auto simp: restart_flush_run_def batch_run_def dest: restart_no_failover)
    then show ?thesis ..
  next
    case False
    with run d have "switch_run svc p (hd sns) (pTargets p) r ds" by (auto simp: switch_exec_def split: if_splits)
    then obtain vs a b where ab: "ds = a @ b" "switch_asks svc (hd sns) vs (fdResults (rData r)) a"
      and "b = [] \<or> (\<exists>x. b = [EvCtx (Some x)])
        \<or> decided a = None \<and> fallback_trace svc p ((snTarget (hd sns))\<lparr>tMember := []\<rparr>) b"
      unfolding switch_run_def by blast
    moreover from this d have "list_ex is_failover_write b" using switch_no_failover [OF ab(2)] by simp
    ultimately show ?thesis using r es False switch_no_failover [OF ab(2)]
      fallback_guarded [of svc p "(snTarget (hd sns))\<lparr>tMember := []\<rparr>" b "reads @ a"] by auto
  qed
qed (use w reads_no_failover in blast)


section \<open>The data of a result\<close>

interpretation restart_flush_step: member_step svc "restartFlushMember svc (Some look)" 1
    "2 + 2 * nat (svcVerificationAttempts svc)" restart_flush_shown
  for svc :: "'w service" and look
  by unfold_locales (rule valid_mono [OF restartFlushMember_spec], simp add: restart_flush_trace_def)

lemma batch_run_mono:
  assumes "batch_run P extra clocked sns r ts ms ds" and "\<And>x y d. P x y d \<Longrightarrow> R x y d"
  shows "batch_run R extra clocked sns r ts ms ds"
proof -
  have "segments P rms ms ds \<Longrightarrow> segments R rms ms ds" for rms
    using segments_mono [of P rms ms ds R] assms(2) by blast
  with assms(1) show ?thesis unfolding batch_run_def by blast
qed

lemma from_events_ok: "from_events ds rv \<Longrightarrow> revisions_ok (xs @ ds) \<Longrightarrow> 0 \<le> rv"
  by (auto simp: from_events_def revisions_ok_def)

lemma execution_flush_data:
  assumes "flush_execution svc ctx rq p r es" and "clock_ok svc" and "revisions_ok es"
  shows "rData r = zeroFlushData \<or> flush_data_Validate (rData r) = None"
  using assms(1) unfolding flush_execution_def
proof (elim disjE exE conjE)
  fix base sns reads ds
  assume g: "flush_guard ctx rq p" and es: "es = reads @ ds"
    and run: "if fqEvent rq = FlushRestart then restart_flush_run svc (flush_intent_of rq) p sns r ds else switch_exec svc p (hd sns) r ds"
  from g have e: "flush_event_valid (fqEvent rq)" and "validateFlushPlan p (flush_intent_of rq) = None"
    using normalizeFlush_valid by (auto simp: flush_guard_def)
  then have "plan_Validate p = None" by (auto simp: validateFlushPlan_def split: option.splits)
  then have ok: "\<forall>raw \<in> set (pTargets p). Validate raw True = None \<and> TrimSpace (tMember raw) \<noteq> []"
    using valid_targets by blast
  have "flush_data_ok (rData r) \<and> 0 \<le> fdDCSRevision (rData r) \<and> (\<forall>m \<in> set (fdResults (rData r)). member_write_Validate m = None)"
  proof (cases "fqEvent rq = FlushRestart")
    case True
    then have "restart_flush_run svc (flush_intent_of rq) p sns r ds" using run by simp
    moreover have "member_write_Validate m = None" if "m \<in> set ms"
      and "batch_run (restart_flush_trace svc) (restart_confirmed p) (clock_ok svc) sns (fiRole (flush_intent_of rq)) (pTargets p) ms ds" for m ms
    proof (rule member_step.wellformed [OF restart_flush_step.member_step_axioms _ assms(2) ok that(1)])
      show "batch_run (member_trace (clock_ok svc) 1 (2 + 2 * nat (svcVerificationAttempts svc)) restart_flush_shown)
          (restart_confirmed p) (clock_ok svc) sns (fiRole (flush_intent_of rq)) (pTargets p) ms ds"
        by (rule batch_run_mono [OF that(2)]) (simp add: restart_flush_trace_def)
    qed
    ultimately show ?thesis using e by (auto simp: restart_flush_run_def flush_intent_of_def)
  next
    case False
    have "member_write_Validate m = None" if a: "switch_asks svc (hd sns) vs ms a" and "m \<in> set ms" and "set vs \<subseteq> set (pTargets p)" for vs ms a m
    proof -
      from that switchover_ask.targets [OF a [unfolded switch_asks_def]] switchover_ask.sound [OF a [unfolded switch_asks_def] assms(2)]
      have "member_sound m" and "mwTarget m \<in> set (pTargets p)" by auto
      with ok show ?thesis by (auto simp: member_write_Validate_None)
    qed
    note m = this
    from False run have x: "switch_exec svc p (hd sns) r ds" by simp
    show ?thesis
    proof (cases "switch_idle p (hd sns)")
      case False
      with x have "switch_run svc p (hd sns) (pTargets p) r ds" by (simp add: switch_exec_def)
      then obtain vs ws a where "pTargets p = vs @ ws" "switch_asks svc (hd sns) vs (fdResults (rData r)) a"
        and "flush_data_ok (rData r)" "from_events ds (fdDCSRevision (rData r))" unfolding switch_run_def by blast
      with m from_events_ok assms(3) es show ?thesis by simp
    qed (use x in \<open>simp add: switch_exec_def\<close>)
  qed
  then show ?thesis by (simp add: flush_data_Validate_None)
qed simp

text \<open>Validity of the result with the data of the execution.\<close>

definition flush_valid :: "flush_data result \<Rightarrow> event list \<Rightarrow> bool" where
  "flush_valid r es =
     (result_Validate r = None
      \<and> (rData r = zeroFlushData \<or> \<not> revisions_ok es \<or> flush_data_Validate (rData r) = None))"


section \<open>An example\<close>

text \<open>A switchover is scheduled until the third reading of the cluster.\<close>

definition demoScheduledRead :: "nat \<Rightarrow> goerror + snapshot" where
  "demoScheduledRead n = Inr (demoSnapshot (10 + int n) ((demoCluster ''pg-1'')\<lparr>cFailover :=
     (if n < 2 then Some \<lparr>fModRevision = 7, fLeader = ''pg-1'', fCandidate = ''pg-2'', fScheduledAt = ''2030-01-01T00:00:00Z''\<rparr>
      else None)\<rparr>))"

definition demoFlush :: flush_request where
  "demoFlush = \<lparr>fqTarget = demoTarget, fqEvent = FlushSwitchover, fqMembers = [], fqRole = RoleAny, fqForce = False, fqCitus = False\<rparr>"

definition demoFlushService :: "(rest_call \<Rightarrow> rest_response \<times> goerror option) \<Rightarrow> nat service" where
  "demoFlushService rest = demoService demoScheduledRead rest casApplied"

definition demoFlushPlan :: plan where
  "demoFlushPlan = rData (fst (demoRun (PrepareFlush (demoFlushService restFailed) demoCtx demoFlush)))"

definition demoFlushRun :: "(rest_call \<Rightarrow> rest_response \<times> goerror option) \<Rightarrow> flush_data result \<times> event list" where
  "demoFlushRun rest = demoRun (ExecuteFlush (demoFlushService rest) demoCtx demoFlush demoFlushPlan)"

text \<open>The first member may have received the request, the second knows no switchover.\<close>

definition restMissed :: "rest_call \<Rightarrow> rest_response \<times> goerror option" where
  "restMissed c =
     (if rest_url c = ''http://pg-1:8008'' then
        (\<lparr>respStatus = 0, respText = [], respState = [], respVersion = [], respServerVersion = None\<rparr>, Some (PatroniError PatTransport ''DELETE'' ''/switchover'' DeliveryMaybeSent 0 None))
      else restStatus 404 c)"

text \<open>A status 404 of a later member ends a flush as FAILED while the DELETE sent to an earlier one is open.\<close>

lemma flush_not_found_open:
  "case demoFlushRun restMissed of (r, es) \<Rightarrow>
     rOutcome r = Failed \<and> \<not> list_all definite es \<and> map mwOutcome (fdResults (rData r)) = [Unknown, Failed]"
  by code_simp

lemma demoFlushRun:
  "case demoFlushRun (restStatus 503) of (r, es) \<Rightarrow> rOutcome r = Succeeded \<and> list_ex is_failover_write es \<and> revisions_ok es"
  by code_simp

lemma failover_is_write: "list_ex is_failover_write es \<Longrightarrow> list_ex is_write es"
  by (induction es) (auto elim!: is_failover_write.elims)

lemma demoFlush_writes:
  "list_ex is_failover_write (snd (demoFlushRun (restStatus 503)))" "list_ex is_write (snd (demoFlushRun (restStatus 503)))"
  using demoFlushRun failover_is_write by (auto split: prod.splits)

lemma demoFlush_valid:
  assumes "\<And>svc p. valid [] (ExecuteFlush svc demoCtx demoFlush p) (Q svc p)"
  shows "Q (demoFlushService rest) demoFlushPlan (fst (demoFlushRun rest)) (snd (demoFlushRun rest))"
  using valid_demoRun [OF assms] unfolding demoFlushRun_def by blast


section \<open>Properties\<close>

text \<open>C7: The outcome of a flush is what its calls account for. It fails on reads alone, with zero data; or its
  request and plan passed their checks and its calls are the readings of snapshots that pass the version gate, of the planned
  groups, followed by the execution. For scheduled restarts: when every planned member is in these
  snapshots with its role and its restart was confirmed, one result per planned member in the order of the plan, each with
  its own segment of events, and the aggregate of them; otherwise nothing is sent and every planned member is
  refused, or, when the plan has no statement on a member, there are no results and it fails. For a scheduled switchover:
  nothing is sent when there is nothing to do, otherwise the planned members are asked in order as far as needed, one result
  each, and the verdict is computed from the events: the first status 200 or 404 decides, otherwise the fallback does, SUCCEEDED
  only when the last reading shows no scheduled switchover. FAILED means the fate of every write is known, except after
  a status 404.\<close>

theorem flush_outcome: "valid [] (ExecuteFlush svc ctx rq p) (flush_explained svc ctx rq p)"
  by (rule valid_mono [OF ExecuteFlush_execution]) (rule execution_explained)

text \<open>C8: Writes of a flush are guarded, and the failover key is deleted only by compare-and-delete. If any write is issued, context,
  request and plan passed their checks, the writes follow the readings of snapshots that pass the version gate and have exactly the
  planned Citus groups, and for scheduled restarts every planned target resolves in them to a member whose restart was already
  scheduled in the plan; for a scheduled switchover the planned one is still there, unchanged, and the planned
  members are asked in their order, each after a live look at the context, none after a status 200 or 404. The failover key is deleted
  at most once and only when it still is the planned switchover. A flush of
  scheduled restarts never touches it. A flush of a switchover that writes to the DCS issues exactly one
  deletion, compared against the revision of the key in a snapshot read just before, in which
  the key is a scheduled switchover with the planned members, leader, candidate and time; the context was live,
  no member had answered with status 200 or 404, and nothing is written afterwards.\<close>

theorem flush_writes_guarded:
  "valid [] (ExecuteFlush svc ctx rq p) (\<lambda>r es.
     (list_ex is_write es \<longrightarrow> flush_guarded svc ctx rq p r es)
     \<and> (list_ex is_failover_write es \<longrightarrow> fqEvent rq \<noteq> FlushRestart \<and> guarded_delete p es))"
  by (rule valid_mono [OF ExecuteFlush_execution]) (blast intro: execution_flush_guarded dest: execution_guarded_delete)

theorem flush_writes_guarded_witness:
  "flush_guarded (demoFlushService (restStatus 503)) demoCtx demoFlush demoFlushPlan
     (fst (demoFlushRun (restStatus 503))) (snd (demoFlushRun (restStatus 503)))
   \<and> guarded_delete demoFlushPlan (snd (demoFlushRun (restStatus 503)))"
  using demoFlush_valid [OF flush_writes_guarded] demoFlush_writes by blast

text \<open>Results of a flush are well formed. With a clock that shows no zero time and a request for a valid
  target, the result passes \<open>Result.Validate\<close>, and its data is the zero data of an early failure or passes
  \<open>FlushData.Validate\<close> when no reading reports a negative revision.\<close>

lemma flush_results_valid:
  assumes "clock_ok svc" and "target_ok (Normalize (fqTarget rq))"
  shows "valid [] (ExecuteFlush svc ctx rq p) flush_valid"
  by (rule valid_mono [OF valid_conj [OF ExecuteFlush_valid [OF assms] ExecuteFlush_execution]])
     (auto simp: flush_valid_def dest: execution_flush_data [OF _ assms(1)])

text \<open>Preparing a flush reads only and its plan is honest. When it succeeds, the plan is valid, passes the plan
  check of the execution for the same request and has the Citus groups of the snapshots; for scheduled restarts
  its targets are members of those snapshots that the request selected; for a switchover the execution would
  proceed on the same snapshot exactly if a switchover is scheduled there.\<close>

lemma flush_plans_roundtrip: "valid [] (PrepareFlush svc ctx rq) (flush_prepared rq)"
  by (rule PrepareFlush_prepared)

end
