(* ===== verification/Go_Json_Spec.thy ===== *)
theory Go_Json_Spec
  imports Go_Json
begin

text \<open>
  The encoder and the decoder of \<^theory_text>\<open>Go_Json\<close> fit together: a string, a number and a value that is encoded,
  followed by anything that may follow it, is decoded to itself.  Hence encoding is injective on values
  with valid UTF-8 strings and numbers and no deeper than the decoder accepts.
\<close>

section \<open>Strings\<close>

function utf8_valid :: "string \<Rightarrow> bool" where
  "utf8_valid s = (if s = [] then True else if utf8_len s = 0 then False else utf8_valid (drop (utf8_len s) s))"
  by pat_completeness auto
termination
  by (relation "measure length") auto

declare utf8_valid.simps [simp del]

definition utf8_two :: "char \<Rightarrow> char \<Rightarrow> bool" where
  "utf8_two a b = (in_byte 0xC2 0xDF a \<and> in_byte 0x80 0xBF b)"

definition utf8_three :: "char \<Rightarrow> char \<Rightarrow> char \<Rightarrow> bool" where
  "utf8_three a b c = (in_byte 0x80 0xBF c
     \<and> (byte a = 0xE0 \<and> in_byte 0xA0 0xBF b
        \<or> (in_byte 0xE1 0xEC a \<or> in_byte 0xEE 0xEF a) \<and> in_byte 0x80 0xBF b
        \<or> byte a = 0xED \<and> in_byte 0x80 0x9F b))"

definition utf8_four :: "char \<Rightarrow> char \<Rightarrow> char \<Rightarrow> char \<Rightarrow> bool" where
  "utf8_four a b c d = (in_byte 0x80 0xBF c \<and> in_byte 0x80 0xBF d
     \<and> (byte a = 0xF0 \<and> in_byte 0x90 0xBF b \<or> in_byte 0xF1 0xF3 a \<and> in_byte 0x80 0xBF b
        \<or> byte a = 0xF4 \<and> in_byte 0x80 0x8F b))"

lemma utf8_len_Cons:
  "utf8_len (a # t) =
     (if byte a < 0x80 then 1
      else (case t of [] \<Rightarrow> 0
        | b # u \<Rightarrow> if utf8_two a b then 2
            else (case u of [] \<Rightarrow> 0
              | c # v \<Rightarrow> if utf8_three a b c then 3
                  else (case v of [] \<Rightarrow> 0 | d # _ \<Rightarrow> if utf8_four a b c d then 4 else 0))))"
  unfolding utf8_len_def utf8_two_def utf8_three_def utf8_four_def list.case ..

lemma utf8_len_Nil [simp]: "utf8_len [] = 0"
  by (simp add: utf8_len_def)

lemma utf8_len_take:
  assumes "utf8_len s = n" and "n \<noteq> 0"
  shows "utf8_len (take n s @ x) = n"
  using assms by (cases s) (auto simp: utf8_len_Cons split: list.splits if_splits)

lemma utf8_len_multi:
  assumes "\<not> byte c < 0x80" and "utf8_len (c # cs) \<noteq> 0"
  shows "2 \<le> utf8_len (c # cs)" "utf8_len (c # cs) \<le> length (c # cs)"
  using assms by (auto simp: utf8_len_Cons split: list.splits if_splits)

lemma byte_less [simp]: "byte c < 256"
  by (simp add: byte_def)

lemma char_of_byte [simp]: "char_of (byte c) = c"
  by (simp add: byte_def)

lemma scan_raw:
  assumes "\<not> byte c < 0x80" and "utf8_len (c # cs) = n" and "n \<noteq> 0"
  shows "scan_string (take n (c # cs) @ r) = map_option (\<lambda>(t, q). (take n (c # cs) @ t, q)) (scan_string r)"
proof -
  have n: "2 \<le> n" "n \<le> length (c # cs)" using utf8_len_multi assms by auto
  then obtain m where m: "n = Suc m" by (cases n) auto
  have l: "utf8_len (c # take m cs @ r) = n"
    using utf8_len_take [OF assms(2), of r] assms(3) m by simp
  have "c \<noteq> CHR 0x22" "c \<noteq> bs" "\<not> byte c < 32" using assms(1) by (auto simp: byte_def bs_def)
  then show ?thesis using assms(1) l n m by (subst scan_string.simps) simp
qed

lemma bs_facts [simp]: "bs \<noteq> CHR 0x22" "CHR 0x22 \<noteq> bs" "byte bs = 92" "byte CHR 0x22 = 34"
  by code_simp+

lemma hex_val_lower: "n < 16 \<Longrightarrow> hex_val (hex_lower n) = Some n"
proof -
  have "\<forall>k \<in> {0..<16}. hex_val (hex_lower k) = Some k" by code_simp
  then show "n < 16 \<Longrightarrow> ?thesis" by simp
qed

lemma scan_escape:
  assumes "simple_escape e = Some d" and "e \<noteq> CHR ''u''"
  shows "scan_string (bs # e # r) = map_option (\<lambda>(t, q). (d # t, q)) (scan_string r)"
  using assms by (subst scan_string.simps) simp

lemma hex4_byte: "hex4 (CHR ''0'' # CHR ''0'' # hex_lower (byte c div 16) # hex_lower (byte c mod 16) # r) = Some (byte c)"
proof -
  have "hex_val (hex_lower (byte c div 16)) = Some (byte c div 16)" "hex_val (hex_lower (byte c mod 16)) = Some (byte c mod 16)"
    using byte_less [of c] by (simp_all add: hex_val_lower less_mult_imp_div_less)
  moreover have "hex_val (CHR ''0'') = Some 0" by code_simp
  ultimately show ?thesis by (simp add: hex4_def)
qed

lemma scan_u:
  assumes "hex4 r = Some w" and "w < 0xD800 \<or> 0xE000 \<le> w"
  shows "scan_string (bs # CHR ''u'' # r) = map_option (\<lambda>(t, q). (utf8_encode w @ t, q)) (scan_string (drop 4 r))"
  using assms by (subst scan_string.simps) auto

definition encoded_as :: "char \<Rightarrow> bool" where
  "encoded_as c =
     ((case encodeASCII c of [b, e] \<Rightarrow> b = bs \<and> e \<noteq> CHR ''u'' \<and> simple_escape e = Some c | _ \<Rightarrow> False)
      \<or> encodeASCII c = bs # ''u00'' @ [hex_lower (byte c div 16), hex_lower (byte c mod 16)]
      \<or> encodeASCII c = [c] \<and> c \<noteq> CHR 0x22 \<and> c \<noteq> bs \<and> \<not> byte c < 32)"

lemma scan_ascii:
  assumes "byte c < 0x80"
  shows "scan_string (encodeASCII c @ r) = map_option (\<lambda>(t, q). (c # t, q)) (scan_string r)"
proof -
  have "list_all (\<lambda>k. encoded_as (char_of k)) [0..<128]" by code_simp
  then have "encoded_as (char_of (byte c))" using assms unfolding list_all_iff by (metis atLeastLessThan_iff set_upt zero_le)
  then consider (esc) e where "encodeASCII c = [bs, e]" "e \<noteq> CHR ''u''" "simple_escape e = Some c"
    | (hex) "encodeASCII c = bs # ''u00'' @ [hex_lower (byte c div 16), hex_lower (byte c mod 16)]"
    | (raw) "encodeASCII c = [c]" "c \<noteq> CHR 0x22" "c \<noteq> bs" "\<not> byte c < 32"
    by (auto simp: encoded_as_def split: list.splits)
  then show ?thesis
  proof cases
    case esc
    then show ?thesis using scan_escape by simp
  next
    case hex
    have "utf8_encode (byte c) = [c]" using assms by (simp add: utf8_encode_def)
    with hex assms show ?thesis by (simp add: scan_u [OF hex4_byte])
  next
    case raw
    with assms show ?thesis by (subst scan_string.simps) simp
  qed
qed


lemma separators:
  assumes "take 3 s = utf8_encode w" and "w = 0x2028 \<or> w = 0x2029"
  shows "utf8_len s = 3"
proof -
  have "utf8_len (utf8_encode 0x2028) = 3" "utf8_len (utf8_encode 0x2029) = 3"
    "length (utf8_encode 0x2028) = 3" "length (utf8_encode 0x2029) = 3" by code_simp+
  with assms utf8_len_take [of "utf8_encode w" 3 "drop 3 s"] show ?thesis by (metis append_take_drop_id take_all order_refl zero_neq_numeral)
qed

lemma scan_encode: "utf8_valid s \<Longrightarrow> scan_string (encodeString s @ CHR 0x22 # r) = Some (s, r)"
proof (induction s rule: length_induct)
  case (1 s)
  show ?case
  proof (cases s)
    case Nil
    then show ?thesis by (subst encodeString.simps, subst scan_string.simps) simp
  next
    case (Cons c cs)
    define n where "n = utf8_len s"
    from 1(2) Cons have n: "n \<noteq> 0" "utf8_valid (drop n s)" using utf8_valid.simps [of s] by (auto simp: n_def split: if_splits)
    with 1(1) Cons have tail: "scan_string (encodeString (drop n s) @ CHR 0x22 # r) = Some (drop n s, r)" by simp
    show ?thesis
    proof (cases "byte c < 0x80")
      case True
      with Cons have "n = 1" by (simp add: n_def utf8_len_Cons)
      with tail Cons True show ?thesis by (subst encodeString.simps) (simp add: scan_ascii)
    next
      case False
      have u: "scan_string (bs # CHR ''u'' # t @ q) = map_option (\<lambda>(y, z). (utf8_encode w @ y, z)) (scan_string q)"
        if "hex4 t = Some w" "length t = 4" "w < 0xD800" for t q w
      proof -
        have "hex4 (t @ q) = Some w" using that(1) by (auto simp: hex4_def split: list.splits)
        from scan_u [OF this] that show ?thesis by simp
      qed
      have h: "hex4 ''2028'' = Some 0x2028" "hex4 ''2029'' = Some 0x2029" by code_simp+
      consider "take 3 s = utf8_encode 0x2028" | "take 3 s = utf8_encode 0x2029" "take 3 s \<noteq> utf8_encode 0x2028"
        | "take 3 s \<noteq> utf8_encode 0x2028" "take 3 s \<noteq> utf8_encode 0x2029" by blast
      then show ?thesis
      proof cases
        case 1
        then have "n = 3" using separators n_def by blast
        then show ?thesis using 1 tail Cons False n u [OF h(1), of "encodeString (drop 3 s) @ CHR 0x22 # r"]
          append_take_drop_id [of 3 s]
          by (subst encodeString.simps) (simp add: n_def)
      next
        case 2
        then have "n = 3" using separators n_def by blast
        then show ?thesis using 2 tail Cons False n u [OF h(2), of "encodeString (drop 3 s) @ CHR 0x22 # r"]
          append_take_drop_id [of 3 s]
          by (subst encodeString.simps) (simp add: n_def)
      next
        case 3
        have "scan_string (take n s @ encodeString (drop n s) @ CHR 0x22 # r) = Some (s, r)"
          using scan_raw [OF False, of cs n "encodeString (drop n s) @ CHR 0x22 # r"] n Cons tail by (simp add: n_def del: take_Cons drop_Cons)
        with 3 Cons False n show ?thesis by (subst encodeString.simps) (simp add: n_def)
      qed
    qed
  qed
qed



section \<open>Numbers\<close>

definition stops :: "string \<Rightarrow> bool" where
  "stops r = (r = [] \<or> hd r = CHR '','' \<or> hd r = CHR '']'' \<or> hd r = CHR ''}'')"

lemma stops_digit: "stops r \<Longrightarrow> r = [] \<or> \<not> is_digit (hd r)"
  by (auto simp: stops_def is_digit_def)

lemma span_stop:
  assumes "r = [] \<or> \<not> P (hd r)"
  shows "takeWhile P (s @ r) = takeWhile P s" "dropWhile P (s @ r) = dropWhile P s @ r"
  using assms by (induction s) (cases r; auto)+

lemma scan_digits1_stop: "scan_digits1 s = Some (d, q) \<Longrightarrow> stops r \<Longrightarrow> scan_digits1 (s @ r) = Some (d, q @ r)"
  using span_stop [of r is_digit s] stops_digit [of r] by (auto simp: scan_digits1_def Let_def split: if_splits)

lemma scan_int_stop: "scan_int s = Some (d, q) \<Longrightarrow> stops r \<Longrightarrow> scan_int (s @ r) = Some (d, q @ r)"
  using scan_digits1_stop [of s d q r] by (auto simp: scan_int_def split: list.splits if_splits)

lemma scan_frac_stop: "scan_frac s = Some (d, q) \<Longrightarrow> stops r \<Longrightarrow> scan_frac (s @ r) = Some (d, q @ r)"
  using scan_digits1_stop by (cases s; cases r) (auto simp: scan_frac_def stops_def split: if_splits)

lemma scan_exp_stop:
  assumes "scan_exp s = Some (d, q)" and "stops r"
  shows "scan_exp (s @ r) = Some (d, q @ r)"
proof (cases s)
  case Nil
  with assms show ?thesis by (cases r) (auto simp: scan_exp_def stops_def)
next
  case (Cons c cs)
  have "scan_digits1 u = Some (e, q) \<Longrightarrow> scan_digits1 (u @ r) = Some (e, q @ r)" for u e
    using scan_digits1_stop assms(2) by blast
  from this [of "tl cs"] this [of cs] Cons assms(1) show ?thesis
    by (cases cs) (auto simp: scan_exp_def split: if_splits)
qed

lemma scan_number_stop:
  assumes "scan_number s = Some (t, q)" and "stops r"
  shows "scan_number (s @ r) = Some (t, q @ r)"
proof -
  define p where "p = HasPrefix s ''-''"
  define u where "u = (if p then drop 1 s else s)"
  from assms(1) have "s \<noteq> []" by (auto simp: scan_number_def scan_int_def HasPrefix_def)
  then have p: "HasPrefix (s @ r) ''-'' = p" by (cases s) (auto simp: p_def HasPrefix_def)
  from assms(1) obtain i r1 f r2 e where i: "scan_int u = Some (i, r1)" and f: "scan_frac r1 = Some (f, r2)"
    and e: "scan_exp r2 = Some (e, q)" and t: "t = (if p then ''-'' else []) @ i @ f @ e"
    unfolding scan_number_def p_def [symmetric] u_def by (auto split: option.splits if_splits)
  show ?thesis
    using scan_int_stop [OF i assms(2)] scan_frac_stop [OF f assms(2)] scan_exp_stop [OF e assms(2)] t \<open>s \<noteq> []\<close>
    unfolding scan_number_def p u_def by (cases s) (auto split: if_splits)
qed

lemma scan_number_hd: "scan_number s = Some (t, q) \<Longrightarrow> \<exists>c cs. s = c # cs \<and> (c = CHR ''-'' \<or> is_digit c)"
  by (cases s) (auto simp: scan_number_def scan_int_def scan_digits1_def HasPrefix_def Let_def is_digit_def split: if_splits option.splits)


section \<open>Values\<close>

fun json_ok :: "nat \<Rightarrow> jval \<Rightarrow> bool" where
  "json_ok n JNull = True"
| "json_ok n (JBool b) = True"
| "json_ok n (JNum s) = (scan_number s = Some (s, []))"
| "json_ok n (JStr s) = utf8_valid s"
| "json_ok 0 (JArr vs) = False"
| "json_ok (Suc n) (JArr vs) = (\<forall>v \<in> set vs. json_ok n v)"
| "json_ok 0 (JObj ps) = False"
| "json_ok (Suc n) (JObj ps) = (\<forall>(k, v) \<in> set ps. utf8_valid k \<and> json_ok n v)"

lemma Marshal_hd:
  assumes "json_ok n v"
  shows "\<exists>c cs. Marshal v = c # cs \<and> \<not> json_space c \<and> c \<noteq> CHR '']'' \<and> c \<noteq> CHR ''}''"
proof (cases v)
  case (JNum s)
  with assms have "scan_number s = Some (s, [])" by simp
  then obtain c cs where s: "s = c # cs" "c = CHR ''-'' \<or> is_digit c" using scan_number_hd by blast
  then have "\<not> json_space c \<and> c \<noteq> CHR '']'' \<and> c \<noteq> CHR ''}''" by (auto simp: json_space_def byte_def is_digit_def)
  with s JNum show ?thesis by simp
qed (auto simp: FormatBool_def quoteString_def json_space_def byte_def)

lemma parse_elems_Marshal:
  assumes "vs \<noteq> []" and "\<forall>v \<in> set vs. \<forall>r. stops r \<longrightarrow> parse_value d (Marshal v @ r) = Some (v, r)"
    and "\<forall>v \<in> set vs. Marshal v \<noteq> []"
  shows "parse_elems d (Join '','' (map Marshal vs) @ CHR '']'' # r) = Some (vs, r)"
  using assms
proof (induction vs)
  case (Cons v vs)
  have step: "parse_value d (Marshal v @ x) = Some (v, x)" if "stops x" for x using Cons.prems that by simp
  obtain c cs where c: "Marshal v = c # cs" using Cons.prems by (cases "Marshal v") auto
  have sp: "skip_space (e # u) = e # u" if "e = CHR '']'' \<or> e = CHR '',''" for e u
    using that by (auto simp: skip_space_def json_space_def byte_def)
  show ?case
  proof (cases vs)
    case Nil
    with step [of "CHR '']'' # r"] c sp show ?thesis by (subst parse_elems.simps) (simp add: stops_def)
  next
    case (Cons w ws)
    with Cons.IH Cons.prems have "parse_elems d (Join '','' (map Marshal vs) @ CHR '']'' # r) = Some (vs, r)" by simp
    with Cons step [of "CHR '','' # Join '','' (map Marshal vs) @ CHR '']'' # r"] c sp show ?thesis
      by (subst parse_elems.simps) (simp add: stops_def shorter_def)
  qed
qed simp

abbreviation member_text :: "string \<times> jval \<Rightarrow> string" where
  "member_text p \<equiv> (case p of (k, v) \<Rightarrow> quoteString k @ '':'' @ Marshal v)"

lemma parse_members_Marshal:
  assumes "ps \<noteq> []" and "\<forall>(k, v) \<in> set ps. utf8_valid k \<and> (\<forall>r. stops r \<longrightarrow> parse_value d (Marshal v @ r) = Some (v, r))"
  shows "parse_members d (Join '','' (map member_text ps) @ CHR ''}'' # r) = Some (ps, r)"
  using assms
proof (induction ps)
  case (Cons p ps)
  obtain k v where p: "p = (k, v)" by (cases p)
  with Cons.prems have k: "utf8_valid k" and step: "stops x \<Longrightarrow> parse_value d (Marshal v @ x) = Some (v, x)" for x by auto
  have sp: "skip_space (e # u) = e # u" if "e = CHR ''}'' \<or> e = CHR '','' \<or> e = CHR 0x22 \<or> e = CHR '':''" for e u
    using that by (auto simp: skip_space_def json_space_def byte_def)
  note scan = scan_encode [OF k]
  show ?case
  proof (cases ps)
    case Nil
    with step [of "CHR ''}'' # r"] p scan sp show ?thesis
      by (subst parse_members.simps) (simp add: stops_def shorter_def quoteString_def)
  next
    case (Cons w ws)
    with Cons.IH Cons.prems have "parse_members d (Join '','' (map member_text ps) @ CHR ''}'' # r) = Some (ps, r)" by simp
    with Cons p step [of "CHR '','' # Join '','' (map member_text ps) @ CHR ''}'' # r"] scan sp show ?thesis
      by (subst parse_members.simps) (simp add: stops_def shorter_def quoteString_def)
  qed
qed simp

lemma parse_Marshal:
  "json_ok n v \<Longrightarrow> d + n \<le> 10000 \<Longrightarrow> stops r \<Longrightarrow> parse_value d (Marshal v @ r) = Some (v, r)"
proof (induction v arbitrary: n d r rule: Marshal.induct)
  case 1
  then show ?case by (subst parse_value.simps) (simp add: skip_space_def json_space_def byte_def HasPrefix_def)
next
  case (2 b)
  then show ?case by (subst parse_value.simps) (simp add: skip_space_def json_space_def byte_def HasPrefix_def FormatBool_def)
next
  case (3 s)
  then have s: "scan_number s = Some (s, [])" by simp
  then obtain c cs where c: "s = c # cs" "c = CHR ''-'' \<or> is_digit c" using scan_number_hd by blast
  have "c \<noteq> CHR ''{'' \<and> c \<noteq> CHR ''['' \<and> c \<noteq> CHR 0x22 \<and> c \<noteq> CHR ''n'' \<and> c \<noteq> CHR ''t'' \<and> c \<noteq> CHR ''f'' \<and> \<not> json_space c"
    using c(2) by (auto simp: is_digit_def json_space_def byte_def)
  with scan_number_stop [OF s 3(3)] c(1) show ?case
    by (subst parse_value.simps) (simp add: skip_space_def HasPrefix_def)
next
  case (4 s)
  then show ?case using scan_encode [of s r]
    by (subst parse_value.simps) (simp add: quoteString_def skip_space_def json_space_def byte_def)
next
  case (5 vs)
  then obtain m where n: "n = Suc m" by (cases n) auto
  show ?case
  proof (cases vs)
    case Nil
    with 5 n show ?thesis
      by (subst parse_value.simps) (simp add: skip_space_def json_space_def byte_def shorter_def HasPrefix_def)
  next
    case (Cons w ws)
    have "json_ok m w" using 5(2) n Cons by simp
    then obtain c cs where "Marshal w = c # cs" "\<not> json_space c" "c \<noteq> CHR '']''" using Marshal_hd by blast
    then obtain cs' where j: "Join '','' (map Marshal vs) = c # cs'" "\<not> json_space c" "c \<noteq> CHR '']''"
      using Cons by (cases ws) auto
    have "parse_elems (Suc d) (Join '','' (map Marshal vs) @ CHR '']'' # r) = Some (vs, r)"
      using 5 n Cons Marshal_hd by (intro parse_elems_Marshal) fastforce+
    with j 5(3) n show ?thesis
      by (subst parse_value.simps) (simp add: skip_space_def json_space_def byte_def shorter_def HasPrefix_def)
  qed
next
  case (6 ps)
  then obtain m where n: "n = Suc m" by (cases n) auto
  show ?case
  proof (cases ps)
    case Nil
    with 6 n show ?thesis
      by (subst parse_value.simps) (simp add: skip_space_def json_space_def byte_def shorter_def HasPrefix_def)
  next
    case (Cons w ws)
    then obtain cs' where j: "Join '','' (map member_text ps) = CHR 0x22 # cs'"
      by (cases w; cases ws) (auto simp: quoteString_def)
    have "parse_members (Suc d) (Join '','' (map member_text ps) @ CHR ''}'' # r) = Some (ps, r)"
      using 6 n Cons by (intro parse_members_Marshal) fastforce+
    with j 6(3) n show ?thesis
      by (subst parse_value.simps) (simp add: skip_space_def json_space_def byte_def shorter_def HasPrefix_def)
  qed
qed

text \<open>Decoding an encoded value gives the value back, so encoding is injective.\<close>

lemma parseJSON_Marshal: "json_ok 10000 v \<Longrightarrow> parseJSON (Marshal v) = Some v"
  using parse_Marshal [of 10000 v 0 "[]"] by (simp add: parseJSON_def stops_def skip_space_def)

lemma Marshal_inj: "json_ok 10000 v \<Longrightarrow> json_ok 10000 w \<Longrightarrow> Marshal v = Marshal w \<longleftrightarrow> v = w"
  using parseJSON_Marshal by (metis option.inject)

lemma json_ok_mono: "json_ok m v \<Longrightarrow> m \<le> n \<Longrightarrow> json_ok n v"
proof (induction m v arbitrary: n rule: json_ok.induct)
  case (6 m vs)
  then show ?case by (cases n) auto
next
  case (8 m ps)
  then show ?case by (cases n) fastforce+
qed auto

end
