(* ===== verification/Config_Edit.thy ===== *)
theory Config_Edit
  imports Go_Json_Spec Control_Base
begin

text \<open>
  Editing a dynamic configuration without I/O, the first half of \<^verbatim>\<open>src/control/edit_config.go\<close>: replacement,
  recursive patch, ordered dotted-path settings, and the paths that differ.  A Go map is a \<open>jobject\<close> read
  with \<open>jlookup\<close>; the loop over a patch takes its keys in the order of the list, which stands for any order.
  Values are JSON values with numbers as text, as the decoder builds them; so copying cannot fail, and the
  error branches of the copies are not reached.
\<close>

section \<open>Objects as Go maps\<close>

definition jput :: "string \<Rightarrow> jval \<Rightarrow> jobject \<Rightarrow> jobject" where
  "jput k v ps = filter (\<lambda>p. fst p \<noteq> k) ps @ [(k, v)]"

definition jdelete :: "string \<Rightarrow> jobject \<Rightarrow> jobject" where
  "jdelete k ps = filter (\<lambda>p. fst p \<noteq> k) ps"

fun jencodable :: "jval \<Rightarrow> bool" where
  "jencodable (JNum n) = (scan_number n = Some (n, []))"
| "jencodable (JArr vs) = (\<forall>v \<in> set vs. jencodable v)"
| "jencodable (JObj ps) = (\<forall>(k, v) \<in> set ps. jencodable v)"
| "jencodable _ = True"

text \<open>\<open>json.Marshal\<close>: an error for a number that is none, otherwise the text of the map the object stands for.\<close>

definition MarshalValue :: "jval \<Rightarrow> string option" where
  "MarshalValue v = (if jencodable (jnorm v) then Some (Marshal (jnorm v)) else None)"


section \<open>Copies\<close>

definition cloneConfigValue :: "jval \<Rightarrow> jval" where
  "cloneConfigValue v = jnorm v"

definition cloneConfigMap :: "jobject \<Rightarrow> jobject" where
  "cloneConfigMap ps = jmap (map (\<lambda>(k, v). (k, cloneConfigValue v)) ps)"


section \<open>Patches\<close>

fun isConfigComposite :: "jval \<Rightarrow> bool" where
  "isConfigComposite (JArr vs) = True"
| "isConfigComposite (JObj ps) = True"
| "isConfigComposite _ = False"

fun patroniScalarString :: "jval \<Rightarrow> string" where
  "patroniScalarString (JBool b) = (if b then ''True'' else ''False'')"
| "patroniScalarString JNull = ''None''"
| "patroniScalarString v = Sprint v"

definition canonicalConfigEqual :: "jval \<Rightarrow> jval \<Rightarrow> bool" where
  "canonicalConfigEqual v w =
     (case (MarshalValue v, MarshalValue w) of (Some s, Some t) \<Rightarrow> s = t | _ \<Rightarrow> False)"

fun is_object :: "jval \<Rightarrow> bool" where
  "is_object (JObj ps) = True"
| "is_object _ = False"

definition patroniConfigValuesEquivalent :: "jval \<Rightarrow> jval \<Rightarrow> bool" where
  "patroniConfigValuesEquivalent left right =
     (if is_object left then canonicalConfigEqual left right
      else if is_object right then False
      else if isConfigComposite left \<or> isConfigComposite right then canonicalConfigEqual left right
      else patroniScalarString left = patroniScalarString right)"

text \<open>The loop over the patch, in any order of its keys.\<close>

fun applyPatroniConfigPatch :: "jobject \<Rightarrow> jobject \<Rightarrow> jobject" where
  "applyPatroniConfigPatch cfg [] = cfg"
| "applyPatroniConfigPatch cfg ((k, v) # ps) =
     applyPatroniConfigPatch
       (case v of
          JNull \<Rightarrow> jdelete k cfg
        | JObj patch \<Rightarrow>
            (case jlookup cfg k of
               Some (JObj current) \<Rightarrow> jput k (JObj (applyPatroniConfigPatch current patch)) cfg
             | _ \<Rightarrow> jput k (JObj (cloneConfigMap patch)) cfg)
        | _ \<Rightarrow>
            (case jlookup cfg k of
               Some current \<Rightarrow> if patroniConfigValuesEquivalent current v then cfg else jput k (cloneConfigValue v) cfg
             | None \<Rightarrow> jput k (cloneConfigValue v) cfg)) ps"


section \<open>Settings\<close>

text \<open>\<open>strings.Split\<close> never gives an empty path, so the first equation is not reached.\<close>

function setPatroniConfigPath :: "jobject \<Rightarrow> string list \<Rightarrow> jval \<Rightarrow> string list \<Rightarrow> jobject" where
  "setPatroniConfigPath cfg path value outer =
     (case (if outer = [''postgresql'', ''parameters''] then [Join ''.'' path] else path) of
        [] \<Rightarrow> cfg
      | [key] \<Rightarrow> (if value = JNull then jdelete key cfg else jput key value cfg)
      | key # rest \<Rightarrow>
          (let child = setPatroniConfigPath (case jlookup cfg key of Some (JObj c) \<Rightarrow> c | _ \<Rightarrow> []) rest value (outer @ [key])
           in if child = [] then jdelete key cfg else jput key (JObj child) cfg))"
  by pat_completeness auto
termination
  by (relation "measure (\<lambda>(_, path, _, _). length path)") (auto split: if_splits)

declare setPatroniConfigPath.simps [simp del]


section \<open>Differences\<close>

lemma jlookup_in: "jlookup ps k = Some v \<Longrightarrow> (k, v) \<in> set ps"
  unfolding jlookup_def using map_of_SomeD by fastforce

lemma size_member: "(k, v) \<in> set ps \<Longrightarrow> size v < size (JObj ps)"
  by (induction ps) auto

lemma size_jlookup: "jlookup ps k = Some v \<Longrightarrow> size v < size (JObj ps)"
  using jlookup_in size_member by blast

definition childPath :: "string \<Rightarrow> string \<Rightarrow> string" where
  "childPath outer key = (if outer \<noteq> [] then outer @ ''.'' @ key else key)"

function collectChangedConfigPaths :: "jobject \<Rightarrow> jobject \<Rightarrow> string \<Rightarrow> string list" where
  "collectChangedConfigPaths old after outer =
     concat (map (\<lambda>key.
       (let path = childPath outer key in
        case (jlookup old key, jlookup after key) of
          (Some (JObj l), Some (JObj r)) \<Rightarrow> collectChangedConfigPaths l r path
        | (Some left, Some right) \<Rightarrow> if canonicalConfigEqual left right then [] else [path]
        | (None, Some (JObj r)) \<Rightarrow> if r \<noteq> [] then collectChangedConfigPaths [] r path else [path]
        | (Some (JObj l), None) \<Rightarrow> if l \<noteq> [] then collectChangedConfigPaths l [] path else [path]
        | _ \<Rightarrow> [path]))
       (sort (remdups (map fst old @ map fst after))))"
  by pat_completeness auto
termination
  by (relation "measure (\<lambda>(b, a, _). size (JObj b) + size (JObj a))") (auto dest!: size_jlookup [OF sym])


declare collectChangedConfigPaths.simps [simp del]

definition changedConfigPaths :: "jobject \<Rightarrow> jobject \<Rightarrow> string list" where
  "changedConfigPaths old after = sort (collectChangedConfigPaths old after [])"


section \<open>Preview\<close>

record config_setting =
  csPath :: string
  csValue :: jval

record edit_config_request =
  eqTarget :: target
  eqReplacement :: "jobject option"
  eqApply :: "jobject option"
  eqSettings :: "config_setting list"
  eqCitus :: bool

record config_edit_preview =
  epBefore :: jobject
  epAfter :: jobject
  epChangedPaths :: "string list"
  epNoop :: bool

definition applyPatroniConfigSetting :: "jobject \<Rightarrow> config_setting \<Rightarrow> jobject" where
  "applyPatroniConfigSetting cfg st =
     setPatroniConfigPath cfg (Split (CHR ''.'') (TrimSpace (csPath st))) (cloneConfigValue (csValue st)) []"

definition PreviewEditConfig :: "jobject \<Rightarrow> edit_config_request \<Rightarrow> goerror + config_edit_preview" where
  "PreviewEditConfig current rq =
     (if eqReplacement rq = None \<and> eqApply rq = None \<and> eqSettings rq = [] then
        Inl (errorsNew ''edit-config requires replacement, apply patch, or settings'')
      else
        (let old = cloneConfigMap current;
             after = (case eqReplacement rq of None \<Rightarrow> cloneConfigMap current | Some r \<Rightarrow> cloneConfigMap r);
             after = (case eqApply rq of None \<Rightarrow> after | Some a \<Rightarrow> applyPatroniConfigPatch after (cloneConfigMap a));
             after = fold (\<lambda>st cfg. applyPatroniConfigSetting cfg st) (eqSettings rq) after;
             changed = changedConfigPaths old after in
         Inr \<lparr>epBefore = old, epAfter = after, epChangedPaths = changed, epNoop = (changed = [])\<rparr>))"

end
