(* ===== verification/Plan_Tokens.thy ===== *)
theory Plan_Tokens
  imports Config_Edit
begin

text \<open>
  What the operations that bind their plans with tokens share: the token itself
  (\<^verbatim>\<open>src/control/service.go\<close>), joined errors, and lists of strings as JSON texts.
\<close>

text \<open>\<open>errors.Join\<close>: the text of the joined error is that of its parts, one to a line.\<close>

definition errorsJoin :: "goerror option list \<Rightarrow> goerror option" where
  "errorsJoin errs =
     (case concat (map (\<lambda>e. case e of None \<Rightarrow> [] | Some x \<Rightarrow> [x]) errs) of
        [] \<Rightarrow> None
      | ws \<Rightarrow> Some (Errorf (Join [CHR 0x0A] (replicate (length ws) ''%v'')) [] ws))"

text \<open>\<open>json.Marshal\<close> of a struct keeps the order of its fields.\<close>

definition MarshalStruct :: "jobject \<Rightarrow> string option" where
  "MarshalStruct fs =
     (if \<forall>(k, v) \<in> set fs. jencodable (jnorm v) then Some (Marshal (JObj (map (\<lambda>(k, v). (k, jnorm v)) fs)))
      else None)"

text \<open>The token of an encoded value in a domain; the error is that of an encoding that fails on a number.\<close>

definition planToken :: "'w service \<Rightarrow> string \<Rightarrow> string option \<Rightarrow> goerror + string" where
  "planToken svc domain encoded =
     (case encoded of
        None \<Rightarrow> Inl (errorsNew ''json: invalid number literal'')
      | Some text \<Rightarrow>
          Inr (rtHMAC (svcRuntime svc) (svcPlanKey svc) (''go-patroni/control/'' @ domain @ [CHR 0x00] @ text)))"

text \<open>
  \<open>json.Marshal\<close> of a \<open>[]string\<close> and \<open>json.Unmarshal\<close> into one.  A nil slice is \<open>None\<close>: it
  is what \<open>null\<close> is decoded to, and it is encoded as \<open>null\<close>.
\<close>

definition MarshalStrings :: "string list option \<Rightarrow> string" where
  "MarshalStrings slice = (case slice of None \<Rightarrow> ''null'' | Some ss \<Rightarrow> Marshal (JArr (map JStr ss)))"

definition elements :: "string list option \<Rightarrow> string list" where
  "elements slice = (case slice of None \<Rightarrow> [] | Some ss \<Rightarrow> ss)"

lemma elements_simps [simp]: "elements None = []" "elements (Some ss) = ss"
  by (simp_all add: elements_def)

fun jstring :: "jval \<Rightarrow> string option" where
  "jstring (JStr s) = Some s"
| "jstring JNull = Some []"
| "jstring _ = None"

definition UnmarshalStrings :: "string \<Rightarrow> string list option option" where
  "UnmarshalStrings text =
     (case parseJSON text of
        Some JNull \<Rightarrow> Some None
      | Some (JArr vs) \<Rightarrow>
          if \<forall>v \<in> set vs. jstring v \<noteq> None then Some (Some (map (\<lambda>v. the (jstring v)) vs)) else None
      | _ \<Rightarrow> None)"

lemma UnmarshalStrings_Marshal:
  "\<forall>s \<in> set ss. utf8_valid s \<Longrightarrow> UnmarshalStrings (MarshalStrings (Some ss)) = Some (Some ss)"
proof -
  assume "\<forall>s \<in> set ss. utf8_valid s"
  then have "json_ok 1 (JArr (map JStr ss))" by simp
  then have "json_ok 10000 (JArr (map JStr ss))" by (rule json_ok_mono) simp
  from parseJSON_Marshal [OF this] show ?thesis by (simp add: UnmarshalStrings_def MarshalStrings_def comp_def)
qed

definition reflectStringSlices :: "string list \<Rightarrow> string list \<Rightarrow> bool" where
  "reflectStringSlices left right = (length left = length right \<and> list_all2 (=) left right)"

lemma reflectStringSlices_eq [simp]: "reflectStringSlices xs ys \<longleftrightarrow> xs = ys"
  by (auto simp: reflectStringSlices_def list.rel_eq)

text \<open>The length of an HMAC-SHA256 in hexadecimal.\<close>

definition token_length :: nat where
  "token_length = 64"

text \<open>An execution reports the operation ID of its plan, or draws one.\<close>

definition executionID :: "'w service \<Rightarrow> plan \<Rightarrow> ('w, string) prog" where
  "executionID svc p =
     (if TrimSpace (pOperationID p) = [] then operationID svc else State_Monad.return (TrimSpace (pOperationID p)))"

text \<open>The evidence of a failure that has none yet.\<close>

definition orObserved ::
  "'w service \<Rightarrow> evidence list \<Rightarrow> evidence_source \<Rightarrow> string \<Rightarrow> path \<Rightarrow> send_state \<Rightarrow> ('w, evidence list) prog" where
  "orObserved svc evs source message path send =
     (if evs \<noteq> [] then State_Monad.return evs
      else do {
        e \<leftarrow> observe svc source message [] (path_string path) send;
        State_Monad.return [e]
      })"

text \<open>The cause of an unverified write: the error of the write, joined with the context's when that ended.\<close>

definition unverifiedCause :: "'w goctx \<Rightarrow> goerror option \<Rightarrow> ('w, goerror option) prog" where
  "unverifiedCause ctx writeError = do {
     ce \<leftarrow> ctxErr ctx;
     (if ce = None then State_Monad.return writeError
      else do {
        again \<leftarrow> ctxErr ctx;
        State_Monad.return (errorsJoin [writeError, again])
      })
   }"

end
