(* ===== verification/Edit_Config.thy ===== *)
theory Edit_Config
  imports Plan_Tokens Pause
begin

text \<open>
  Editing the dynamic configuration, the second half of \<^verbatim>\<open>src/control/edit_config.go\<close>: a plan binds the
  request, the revision of the config key and the wanted configuration with tokens; the execution writes the
  key by compare-and-swap and reads it back.
\<close>

section \<open>Data\<close>

record config_edit_data =
  cdChangedPaths :: "string list"
  cdBeforeRevision :: int
  cdDCSRevision :: int
  cdDCSSendState :: send_state
  cdVerification :: verification
  cdNoop :: bool

definition zeroConfigEditData :: config_edit_data where
  "zeroConfigEditData = \<lparr>cdChangedPaths = [], cdBeforeRevision = 0, cdDCSRevision = 0, cdDCSSendState = SendEmpty,
     cdVerification = VerificationOther [], cdNoop = False\<rparr>"

definition config_edit_Validate :: "config_edit_data \<Rightarrow> goerror option" where
  "config_edit_Validate d =
     (if \<not> validOrEmpty (cdDCSSendState d) \<or> cdDCSSendState d = SendEmpty then
        Some (errorsNew ''edit-config DCS send state is invalid'')
      else if cdVerification d \<noteq> Unverified \<and> cdVerification d \<noteq> VerifiedSucceeded \<and> cdVerification d \<noteq> VerifiedFailed then
        Some (errorsNew ''edit-config verification is invalid'')
      else if cdBeforeRevision d < 0 \<or> cdDCSRevision d < 0 then
        Some (errorsNew ''edit-config revisions must be non-negative'')
      else if \<not> sorted (cdChangedPaths d) then Some (errorsNew ''edit-config changed paths must be deterministic'')
      else if cdNoop d \<and> (cdDCSSendState d \<noteq> SendNotSent \<or> cdVerification d \<noteq> VerifiedSucceeded) then
        Some (errorsNew ''edit-config no-op requires verified NOT_SENT success'')
      else None)"


section \<open>Requests, tokens and plans\<close>

definition normalizeEditConfigRequest :: "edit_config_request \<Rightarrow> edit_config_request \<times> goerror option" where
  "normalizeEditConfigRequest rq0 =
     (let rq = rq0\<lparr>eqTarget := Normalize (eqTarget rq0)\<rparr> in
      (rq,
       if tMember (eqTarget rq) \<noteq> [] then Some (errorsNew ''edit-config target must be a cluster'')
       else (case Validate (eqTarget rq) True of
          Some e \<Rightarrow> Some (errorsNew e)
        | None \<Rightarrow>
           if eqReplacement rq = None \<and> eqApply rq = None \<and> eqSettings rq = [] then
             Some (errorsNew ''edit-config requires replacement, apply patch, or settings'') else None)))"

text \<open>An error is its text here.\<close>

definition configEntryForEdit :: "snapshot \<Rightarrow> string + dcs_entry" where
  "configEntryForEdit sn =
     (case snapshot_Entry sn ''config'' of
        None \<Rightarrow> Inl ''dynamic config key does not exist''
      | Some entry \<Rightarrow>
          if \<exists>i \<in> set (snIssues sn). diRelativePath i = ''config'' then Inl ''dynamic config key is not a JSON object''
          else Inr entry)"

text \<open>\<open>strings.Contains\<close>.\<close>

fun contains :: "string \<Rightarrow> string \<Rightarrow> bool" where
  "contains part [] = (part = [])"
| "contains part (c # cs) = (take (length part) (c # cs) = part \<or> contains part cs)"

definition configEntryCategory :: "string \<Rightarrow> category" where
  "configEntryCategory text =
     (if contains ''does not exist'' text then CategoryNotFound else CategoryConfig)"

definition optionObject :: "jobject option \<Rightarrow> jval" where
  "optionObject ps = (case ps of None \<Rightarrow> JNull | Some qs \<Rightarrow> JObj qs)"

definition configRequestToken :: "'w service \<Rightarrow> edit_config_request \<Rightarrow> goerror + string" where
  "configRequestToken svc rq =
     planToken svc ''edit-config/request'' (MarshalStruct
       [(''hasReplacement'', JBool (eqReplacement rq \<noteq> None)), (''replacement'', optionObject (eqReplacement rq)),
        (''hasApply'', JBool (eqApply rq \<noteq> None)), (''apply'', optionObject (eqApply rq)),
        (''settings'', JArr (map (\<lambda>st. JObj [(''path'', JStr (TrimSpace (csPath st))), (''value'', csValue st)]) (eqSettings rq))),
        (''citus'', JBool (eqCitus rq))])"

definition configValueToken :: "'w service \<Rightarrow> jobject \<Rightarrow> goerror + string" where
  "configValueToken svc cfg = planToken svc ''edit-config/desired'' (MarshalValue (JObj cfg))"

definition configPlanBinding ::
  "'w service \<Rightarrow> target \<Rightarrow> int \<Rightarrow> string \<Rightarrow> string \<Rightarrow> string \<Rightarrow> string \<Rightarrow> string \<Rightarrow> goerror + string" where
  "configPlanBinding svc t revision requestToken desiredToken changedPaths noop citus =
     planToken svc ''edit-config/plan'' (MarshalStruct
       [(''target'', JStr (ClusterID (Normalize t))), (''revision'', JNum (FormatInt revision)), (''request'', JStr requestToken),
        (''desired'', JStr desiredToken), (''changedPaths'', JStr changedPaths), (''noop'', JStr noop), (''citus'', JStr citus)])"

definition editConfigPlanRevision :: "plan \<Rightarrow> goerror + int" where
  "editConfigPlanRevision p =
     (case expectedPrecondition p ''config.modRevision'' of
        None \<Rightarrow> Inl (errorsNew ''plan config revision is missing'')
      | Some v \<Rightarrow>
          (case ParseInt v of
             Some n \<Rightarrow> if n \<le> 0 then Inl (errorsNew ''plan config revision is invalid'') else Inr n
           | None \<Rightarrow> Inl (errorsNew ''plan config revision is invalid'')))"

definition editConfigPlanPaths :: "plan \<Rightarrow> goerror + string list option" where
  "editConfigPlanPaths p =
     (case expectedPrecondition p ''config.changedPaths'' of
        None \<Rightarrow> Inl (errorsNew ''plan changed paths are missing'')
      | Some v \<Rightarrow>
          (case UnmarshalStrings v of
             Some paths \<Rightarrow> if sorted (elements paths) then Inr paths else Inl (errorsNew ''plan changed paths are invalid'')
           | None \<Rightarrow> Inl (errorsNew ''plan changed paths are invalid'')))"

definition validateEditConfigPlan :: "'w service \<Rightarrow> plan \<Rightarrow> edit_config_request \<Rightarrow> goerror option" where
  "validateEditConfigPlan svc p rq =
     (case plan_Validate p of
        Some e \<Rightarrow> Some e
      | None \<Rightarrow>
         if pOperation p \<noteq> ''edit-config'' \<or> pPath p \<noteq> PathDCS \<or> pRisk p \<noteq> RiskConfiguration
            \<or> pRetrySafety p \<noteq> UnsafeAfterSend then
           Some (errorsNew ''plan operation contract differs from edit-config'')
         else if ClusterID (Normalize (pTarget p)) \<noteq> ClusterID (eqTarget rq) then
           Some (errorsNew ''plan cluster differs from request'')
         else (case configRequestToken svc rq of
           Inl e \<Rightarrow> Some e
         | Inr requestToken \<Rightarrow>
            if expectedPrecondition p ''config.request'' \<noteq> Some requestToken then
              Some (errorsNew ''plan configuration request differs from request'')
            else if expectedPrecondition p ''request.citus'' \<noteq> Some (FormatBool (eqCitus rq)) then
              Some (errorsNew ''plan Citus selector differs from request'')
            else (case editConfigPlanRevision p of
              Inl e \<Rightarrow> Some e
            | Inr revision \<Rightarrow>
               (case expectedPrecondition p ''config.desired'' of
                  None \<Rightarrow> Some (errorsNew ''plan desired configuration token is invalid'')
                | Some desired \<Rightarrow>
                   if length desired \<noteq> token_length then Some (errorsNew ''plan desired configuration token is invalid'')
                   else (case editConfigPlanPaths p of
                     Inl e \<Rightarrow> Some e
                   | Inr paths \<Rightarrow>
                      (case expectedPrecondition p ''config.noop'' of
                         None \<Rightarrow> Some (errorsNew ''plan no-op precondition is invalid'')
                       | Some noop \<Rightarrow>
                          if noop \<noteq> ''true'' \<and> noop \<noteq> ''false'' then Some (errorsNew ''plan no-op precondition is invalid'')
                          else (case expectedPrecondition p ''config.binding'' of
                            None \<Rightarrow> Some (errorsNew ''plan binding is invalid'')
                          | Some planned \<Rightarrow>
                             if length planned \<noteq> token_length then Some (errorsNew ''plan binding is invalid'')
                             else if configPlanBinding svc (eqTarget rq) revision requestToken desired (MarshalStrings paths) noop
                                       (FormatBool (eqCitus rq)) \<noteq> Inr planned then
                               Some (errorsNew ''plan configuration binding is invalid'')
                             else None)))))))"


section \<open>Preparation\<close>

definition editConfigPlan ::
  "string \<Rightarrow> edit_config_request \<Rightarrow> snapshot \<Rightarrow> dcs_entry \<Rightarrow> config_edit_preview \<Rightarrow> string \<Rightarrow> string \<Rightarrow> string \<Rightarrow> plan" where
  "editConfigPlan opID rq sn entry preview requestToken desiredToken binding =
     \<lparr>pOperationID = opID, pOperation = ''edit-config'', pTarget = eqTarget rq, pTargets = [], pPath = PathDCS,
      pRisk = RiskConfiguration, pRetrySafety = UnsafeAfterSend,
      pSummary = ''edit dynamic configuration''
        @ (if epChangedPaths preview = [] then '': no changes'' else '' paths: '' @ Join '', '' (epChangedPaths preview)),
      pPreconditions =
        [pre ''dcs.revision'' (FormatInt (snRevision sn)) EvidenceDCS,
         pre ''config.modRevision'' (FormatInt (eModRevision entry)) EvidenceDCS,
         pre ''config.request'' requestToken EvidenceControl,
         pre ''config.desired'' desiredToken EvidenceControl,
         pre ''config.changedPaths'' (MarshalStrings (Some (epChangedPaths preview))) EvidenceControl,
         pre ''config.noop'' (FormatBool (epNoop preview)) EvidenceControl,
         pre ''request.citus'' (FormatBool (eqCitus rq)) EvidenceControl,
         pre ''config.binding'' binding EvidenceControl]\<rparr>"

definition PrepareEditConfig :: "'w service \<Rightarrow> 'w goctx \<Rightarrow> edit_config_request \<Rightarrow> ('w, plan result) prog" where
  "PrepareEditConfig svc ctx rq0 = do {
     opID \<leftarrow> operationID svc;
     (let (rq, requestError) = normalizeEditConfigRequest rq0; t = eqTarget rq;
          fail = (\<lambda>cat retryable message cause. failedRead svc zeroPlan opID ''edit-config'' t PathDCS cat retryable message cause) in
      if \<not> validContext ctx then fail CategoryUsage False ''edit-config requires a context'' None
      else if requestError \<noteq> None then fail CategoryUsage False ''edit-config request is invalid'' requestError
      else do {
        r \<leftarrow> Snapshot svc t;
        (case r of
           Inl err \<Rightarrow> (case classifyReadError (Some err) of (cat, retryable) \<Rightarrow>
             fail cat retryable ''edit-config cluster snapshot failed'' (Some err))
         | Inr sn \<Rightarrow>
            (case checkSnapshotPatroniVersion svc sn False of
               Some err \<Rightarrow> unsupportedVersionResult svc zeroPlan opID ''edit-config'' t PathDCS sn (Some err)
             | None \<Rightarrow>
            (case configEntryForEdit sn of
               Inl text \<Rightarrow> failedOnSnapshot svc zeroPlan opID ''edit-config'' t PathDCS (configEntryCategory text) text
                 (Some (errorsNew text)) sn ''dynamic configuration lookup completed''
             | Inr entry \<Rightarrow>
            (case PreviewEditConfig (cConfig (snCluster sn)) rq of
               Inl err \<Rightarrow> failedOnSnapshot svc zeroPlan opID ''edit-config'' t PathDCS CategoryUsage
                 ''edit-config mutation is invalid'' (Some err) sn ''dynamic configuration read for preview''
             | Inr preview \<Rightarrow>
            (case configRequestToken svc rq of
               Inl err \<Rightarrow> fail CategoryUsage False ''edit-config request is not JSON-compatible'' (Some err)
             | Inr requestToken \<Rightarrow>
            (case configValueToken svc (epAfter preview) of
               Inl err \<Rightarrow> fail CategoryUsage False ''edit-config desired configuration is not JSON-compatible'' (Some err)
             | Inr desiredToken \<Rightarrow>
            (case configPlanBinding svc t (eModRevision entry) requestToken desiredToken
                    (MarshalStrings (Some (epChangedPaths preview))) (FormatBool (epNoop preview)) (FormatBool (eqCitus rq)) of
               Inl err \<Rightarrow> fail CategoryInternal False ''edit-config plan binding failed'' (Some err)
             | Inr binding \<Rightarrow>
            (let p = editConfigPlan opID rq sn entry preview requestToken desiredToken binding in
             case plan_Validate p of
               Some err \<Rightarrow> failedOnSnapshot svc zeroPlan opID ''edit-config'' t PathDCS CategoryInternal
                 ''edit-config plan construction failed'' (Some err) sn ''dynamic configuration preview completed''
             | None \<Rightarrow> do {
                 e \<leftarrow> snapshotEvidence svc sn ''edit-config plan built from revisioned dynamic configuration'';
                 State_Monad.return \<lparr>rOperationID = opID, rOutcome = Succeeded, rTarget = t, rPath = PathDCS,
                   rData = p, rEvidence = [e], rError = None\<rparr>
               }))))))))
      })
   }"


section \<open>Results\<close>

definition editConfigSuccess :: "string \<Rightarrow> target \<Rightarrow> config_edit_data \<Rightarrow> evidence list \<Rightarrow> config_edit_data result" where
  "editConfigSuccess opID t d evs =
     \<lparr>rOperationID = opID, rOutcome = Succeeded, rTarget = t, rPath = PathDCS, rData = d, rEvidence = evs, rError = None\<rparr>"

definition editConfigFailure ::
  "'w service \<Rightarrow> string \<Rightarrow> target \<Rightarrow> config_edit_data \<Rightarrow> category \<Rightarrow> bool \<Rightarrow> string \<Rightarrow> goerror option \<Rightarrow> evidence list
   \<Rightarrow> ('w, config_edit_data result) prog" where
  "editConfigFailure svc opID t d cat retryable message cause evidence = do {
     evs \<leftarrow> orObserved svc evidence EvidenceDCS message PathDCS (cdDCSSendState d);
     State_Monad.return \<lparr>rOperationID = opID, rOutcome = Failed, rTarget = t, rPath = PathDCS,
       rData = d\<lparr>cdVerification := VerifiedFailed\<rparr>, rEvidence = evs,
       rError = Some (NewError cat ''edit-config'' t retryable message cause evs)\<rparr>
   }"

definition editConfigUnknown ::
  "'w service \<Rightarrow> string \<Rightarrow> target \<Rightarrow> config_edit_data \<Rightarrow> string \<Rightarrow> goerror option \<Rightarrow> evidence list
   \<Rightarrow> ('w, config_edit_data result) prog" where
  "editConfigUnknown svc opID t d message cause evidence = do {
     evs \<leftarrow> orObserved svc evidence EvidenceDCS message PathDCS (cdDCSSendState d);
     State_Monad.return \<lparr>rOperationID = opID, rOutcome = Unknown, rTarget = t, rPath = PathDCS,
       rData = d\<lparr>cdVerification := Unverified\<rparr>, rEvidence = evs,
       rError = Some (NewError CategoryUnknown ''edit-config'' t False message cause evs)\<rparr>
   }"


section \<open>Writing and reading back\<close>

definition editConfigWriteSummary :: "write_result \<Rightarrow> goerror option \<Rightarrow> string" where
  "editConfigWriteSummary w err =
     (if err = None \<and> wrApplied w then ''DCS dynamic configuration CAS was applied''
      else if asConflictError err \<noteq> None then ''DCS dynamic configuration CAS conflicted''
      else ''DCS dynamic configuration CAS ended without a verified apply'')"

text \<open>The config key is there and its configuration has the wanted token.\<close>

definition configMatches :: "'w service \<Rightarrow> string \<Rightarrow> snapshot \<Rightarrow> bool" where
  "configMatches svc desiredToken sn =
     (\<not> isl (configEntryForEdit sn) \<and> configValueToken svc (cConfig (snCluster sn)) = Inr desiredToken)"

definition verifyEditConfig :: "'w service \<Rightarrow> target \<Rightarrow> string \<Rightarrow> ('w, bool \<times> int \<times> evidence list) prog" where
  "verifyEditConfig svc t desiredToken =
     verifyLoop svc t restartVerificationInterval
       \<lparr>lwCanceled = ''edit-config readback canceled'', lwFailed = ''edit-config readback failed''\<rparr>
       (\<lambda>sn. (configMatches svc desiredToken sn,
              if configMatches svc desiredToken sn then ''dynamic configuration matches the confirmed desired state''
              else ''dynamic configuration does not match the confirmed desired state''))
       snRevision (nat (svcVerificationAttempts svc)) False 0 []"

text \<open>\<open>ExecuteEditConfig\<close> from its last look at the context on.\<close>

definition editConfigWrite ::
  "'w service \<Rightarrow> 'w goctx \<Rightarrow> string \<Rightarrow> target \<Rightarrow> config_edit_data \<Rightarrow> jobject \<Rightarrow> string \<Rightarrow> evidence list
   \<Rightarrow> ('w, config_edit_data result) prog" where
  "editConfigWrite svc ctx opID t d after plannedDesired evs = do {
     ce \<leftarrow> ctxErr ctx;
     (if ce \<noteq> None then
        editConfigFailure svc opID t d CategoryFailed False ''edit-config was canceled before DCS CAS'' ce evs
      else (case svcConfigDCS svc of
        None \<Rightarrow> editConfigFailure svc opID t d CategoryConfig False ''edit-config requires a DCS config CAS capability'' None evs
      | Some cap \<Rightarrow>
      (case MarshalValue (JObj after) of
        None \<Rightarrow> editConfigFailure svc opID t d CategoryUsage False ''edit-config payload is not JSON-compatible''
                 (Some (errorsNew ''json: invalid number literal'')) evs
      | Some payload \<Rightarrow> do {
          (w, writeError) \<leftarrow> callConfigDCS cap t payload (Some (cdBeforeRevision d));
          let send = dcsSendState writeError (wrApplied w);
          e \<leftarrow> observe svc EvidenceDCS (editConfigWriteSummary w writeError) (FormatInt (wrRevision w)) (path_string PathDCS) send;
          (verified, revision, vevs) \<leftarrow> verifyEditConfig svc t plannedDesired;
          (let d = d\<lparr>cdDCSSendState := send, cdDCSRevision := max (wrRevision w) revision\<rparr>;
               evs = evs @ [e] @ vevs in
           if verified then
             State_Monad.return (editConfigSuccess opID t
               (d\<lparr>cdVerification := VerifiedSucceeded, cdNoop := cdNoop d \<or> send = SendNotSent\<rparr>) evs)
           else if asConflictError writeError \<noteq> None then
             editConfigFailure svc opID t d CategoryConflict False ''edit-config CAS lost a concurrent modification'' writeError evs
           else if send = SendNotSent then
             (case classifyReadError writeError of (cat, retryable) \<Rightarrow>
               editConfigFailure svc opID t d cat retryable ''edit-config was definitely not sent'' writeError evs)
           else do {
             cause \<leftarrow> unverifiedCause ctx writeError;
             editConfigUnknown svc opID t d ''edit-config was not verified; inspect DCS before retrying'' cause evs
           })
        })))
   }"


section \<open>Execution\<close>

text \<open>The data of an execution whose configuration already is as wanted.\<close>

definition editConfigNoop ::
  "'w service \<Rightarrow> string \<Rightarrow> target \<Rightarrow> config_edit_data \<Rightarrow> snapshot \<Rightarrow> string \<Rightarrow> evidence list
   \<Rightarrow> ('w, config_edit_data result) prog" where
  "editConfigNoop svc opID t d sn summary evs = do {
     e \<leftarrow> observe svc EvidenceDCS summary (FormatInt (snRevision sn)) (snPrefix sn) SendNotSent;
     State_Monad.return (editConfigSuccess opID t
       (d\<lparr>cdNoop := True, cdDCSRevision := snRevision sn, cdVerification := VerifiedSucceeded\<rparr>) (evs @ [e]))
   }"

text \<open>The checks against the fresh snapshot.\<close>

definition editConfigOnSnapshot ::
  "'w service \<Rightarrow> 'w goctx \<Rightarrow> string \<Rightarrow> edit_config_request \<Rightarrow> plan \<Rightarrow> config_edit_data \<Rightarrow> snapshot \<Rightarrow> evidence list
   \<Rightarrow> ('w, config_edit_data result) prog" where
  "editConfigOnSnapshot svc ctx opID rq p d sn evs =
     (let t = eqTarget rq;
          plannedDesired = the (expectedPrecondition p ''config.desired'');
          fail = (\<lambda>cat message cause. editConfigFailure svc opID t d cat False message cause evs) in
      case configEntryForEdit sn of
        Inl text \<Rightarrow> fail CategoryConflict ''edit-config was not sent because the config key changed'' (Some (errorsNew text))
      | Inr entry \<Rightarrow>
      (case configValueToken svc (cConfig (snCluster sn)) of
        Inl err \<Rightarrow> fail CategoryConfig ''current dynamic configuration is not JSON-compatible'' (Some err)
      | Inr currentToken \<Rightarrow>
         if eModRevision entry \<noteq> cdBeforeRevision d then
           (if currentToken = plannedDesired then
              editConfigNoop svc opID t d sn ''concurrent writer already established the confirmed configuration'' evs
            else editConfigFailure svc opID t (d\<lparr>cdDCSRevision := snRevision sn\<rparr>) CategoryConflict False
                   ''edit-config was not sent because the config revision changed'' None evs)
         else (case PreviewEditConfig (cConfig (snCluster sn)) rq of
           Inl err \<Rightarrow> fail CategoryUsage ''edit-config mutation is invalid'' (Some err)
         | Inr preview \<Rightarrow>
             if configValueToken svc (epAfter preview) \<noteq> Inr plannedDesired
                \<or> \<not> reflectStringSlices (epChangedPaths preview) (cdChangedPaths d) then
               fail CategoryUsage ''edit-config desired state differs from the confirmed plan''
                 (case configValueToken svc (epAfter preview) of Inl err \<Rightarrow> Some err | Inr _ \<Rightarrow> None)
             else if expectedPrecondition p ''config.noop'' \<noteq> Some (FormatBool (epNoop preview)) then
               fail CategoryUsage ''edit-config no-op state differs from the confirmed plan'' None
             else if epNoop preview then
               editConfigNoop svc opID t d sn ''dynamic configuration already matches the request'' evs
             else editConfigWrite svc ctx opID t d (epAfter preview) plannedDesired evs)))"

text \<open>The data an execution starts with, from a plan that passed the plan check.\<close>

definition editConfigStart :: "plan \<Rightarrow> config_edit_data" where
  "editConfigStart p =
     zeroConfigEditData\<lparr>cdChangedPaths := (case editConfigPlanPaths p of Inr paths \<Rightarrow> elements paths | Inl _ \<Rightarrow> []),
       cdBeforeRevision := (case editConfigPlanRevision p of Inr n \<Rightarrow> n | Inl _ \<Rightarrow> 0),
       cdDCSSendState := SendNotSent, cdVerification := Unverified\<rparr>"

definition ExecuteEditConfig ::
  "'w service \<Rightarrow> 'w goctx \<Rightarrow> edit_config_request \<Rightarrow> plan \<Rightarrow> ('w, config_edit_data result) prog" where
  "ExecuteEditConfig svc ctx rq0 p = do {
     opID \<leftarrow> executionID svc p;
     (let (rq, requestError) = normalizeEditConfigRequest rq0; t = eqTarget rq; d = editConfigStart p;
          refuse = (\<lambda>message cause. failedRead svc zeroConfigEditData opID ''edit-config'' t PathDCS CategoryUsage False message cause) in
      if \<not> validContext ctx then refuse ''edit-config requires a context'' None
      else if requestError \<noteq> None then refuse ''edit-config request is invalid'' requestError
      else if validateEditConfigPlan svc p rq \<noteq> None then
        refuse ''edit-config plan does not match the request'' (validateEditConfigPlan svc p rq)
      else do {
        r \<leftarrow> Snapshot svc t;
        (case r of
           Inl err \<Rightarrow> (case classifyReadError (Some err) of (cat, retryable) \<Rightarrow>
             editConfigFailure svc opID t d cat retryable ''edit-config execution snapshot failed'' (Some err) [])
         | Inr sn \<Rightarrow>
            (case checkSnapshotPatroniVersion svc sn False of
               Some err \<Rightarrow> unsupportedVersionResult svc zeroConfigEditData opID ''edit-config'' t PathDCS sn (Some err)
             | None \<Rightarrow> do {
                 e \<leftarrow> snapshotEvidence svc sn ''edit-config CAS preconditions revalidated'';
                 editConfigOnSnapshot svc ctx opID rq p d sn [e]
               }))
      })
   }"

end
