(* ===== verification/Config_Edit_Spec.thy ===== *)
theory Config_Edit_Spec
  imports Config_Edit "HOL-Library.Sublist"
begin

text \<open>
  What an edit does: objects are compared as maps, a patch is described key by key and does not depend on the
  order of its keys, a setting changes its own path only, and no path differs exactly when the
  encodings are equal.
\<close>


section \<open>Objects as maps\<close>

lemma jlookup_Cons: "jlookup ((k, v) # ps) k' = (case jlookup ps k' of None \<Rightarrow> if k = k' then Some v else None | Some w \<Rightarrow> Some w)"
  by (simp add: jlookup_def map_add_def split: option.splits)

lemma jlookup_filter: "jlookup (filter (\<lambda>p. fst p \<noteq> k) ps) k' = (if k' = k then None else jlookup ps k')"
proof (induction ps)
  case (Cons p ps)
  then show ?case by (cases p) (auto simp: jlookup_Cons split: option.splits)
qed simp

lemma jlookup_jput [simp]: "jlookup (jput k v ps) k' = (if k' = k then Some v else jlookup ps k')"
  by (simp add: jput_def jlookup_append jlookup_filter jlookup_Cons)

lemma jlookup_jdelete [simp]: "jlookup (jdelete k ps) k' = (if k' = k then None else jlookup ps k')"
  by (simp add: jdelete_def jlookup_filter)

lemma jlookup_map: "jlookup (map (\<lambda>(k, v). (k, f v)) ps) k = map_option f (jlookup ps k)"
  by (induction ps) (auto simp: jlookup_def map_add_def split: option.splits)

lemma jmap_keys: "set (map fst (jmap ps)) = fst ` set ps" "sorted (map fst (jmap ps))" "distinct (map fst (jmap ps))"
  by (auto simp: jmap_def comp_def)

text \<open>A canonical object is determined by its lookups.\<close>

lemma jmap_eqI:
  assumes "\<And>k. jlookup ps k = jlookup qs k"
  shows "jmap ps = jmap qs"
proof -
  have k: "fst ` set ps = fst ` set qs" using assms jlookup_None_iff by (metis (no_types, lifting) set_eqI)
  have "sort (remdups (map fst ps)) = sort (remdups (map fst qs))"
    by (rule sorted_distinct_set_unique) (use k in auto)
  then show ?thesis by (simp add: jmap_def assms)
qed

text \<open>Two values are the same when they are the same maps, lists and scalars.\<close>

definition same :: "jval \<Rightarrow> jval \<Rightarrow> bool" where
  "same v w = (jnorm v = jnorm w)"

abbreviation same_object :: "jobject \<Rightarrow> jobject \<Rightarrow> bool" where
  "same_object ps qs \<equiv> same (JObj ps) (JObj qs)"

definition same_option :: "jval option \<Rightarrow> jval option \<Rightarrow> bool" where
  "same_option = rel_option same"

lemma same_object_iff: "same_object ps qs \<longleftrightarrow> (\<forall>k. same_option (jlookup ps k) (jlookup qs k))"
proof
  assume "same_object ps qs"
  then have "jlookup (jmap (map (\<lambda>(k, v). (k, jnorm v)) ps)) k = jlookup (jmap (map (\<lambda>(k, v). (k, jnorm v)) qs)) k" for k
    by (simp add: same_def)
  then have "map_option jnorm (jlookup ps k) = map_option jnorm (jlookup qs k)" for k
    by (simp add: jlookup_jmap jlookup_map)
  then show "\<forall>k. same_option (jlookup ps k) (jlookup qs k)"
    by (auto simp: same_option_def same_def option_rel_Some1 option_rel_Some2 rel_option_iff split: option.splits)
       (metis option.map_disc_iff option.simps(9) option.inject not_None_eq)+
next
  assume "\<forall>k. same_option (jlookup ps k) (jlookup qs k)"
  then have "map_option jnorm (jlookup ps k) = map_option jnorm (jlookup qs k)" for k
    by (auto simp: same_option_def rel_option_iff same_def split: option.splits dest!: spec [of _ k])
  then show "same_object ps qs"
    by (auto simp: same_def jlookup_map intro!: jmap_eqI)
qed

lemma same_refl [simp]: "same v v" and same_sym: "same v w \<Longrightarrow> same w v" and same_trans [trans]: "same u v \<Longrightarrow> same v w \<Longrightarrow> same u w"
  by (simp_all add: same_def)

lemma jnorm_idem [simp]: "jnorm (jnorm v) = jnorm v"
proof (induction v rule: jnorm.induct)
  case (2 ps)
  have "jlookup ps k = Some v \<Longrightarrow> jnorm (jnorm v) = jnorm v" for k v using 2 jlookup_in by blast
  then have "jlookup (map (\<lambda>(k, v). (k, jnorm v)) (jmap (map (\<lambda>(k, v). (k, jnorm v)) ps))) k = jlookup (map (\<lambda>(k, v). (k, jnorm v)) ps) k" for k
    by (simp add: jlookup_map jlookup_jmap) (cases "jlookup ps k"; simp)
  then show ?case by (simp only: jnorm.simps jval.inject) (rule jmap_eqI, assumption)
qed simp_all

lemma clone_object: "JObj (cloneConfigMap ps) = jnorm (JObj ps)"
  by (simp add: cloneConfigMap_def cloneConfigValue_def)

lemma same_clone [simp]: "same (cloneConfigValue v) w \<longleftrightarrow> same v w" "same_object (cloneConfigMap ps) qs \<longleftrightarrow> same_object ps qs"
  "same v (cloneConfigValue w) \<longleftrightarrow> same v w" "same_object ps (cloneConfigMap qs) \<longleftrightarrow> same_object ps qs"
  unfolding same_def clone_object cloneConfigValue_def jnorm_idem by (rule refl)+

lemma same_cases:
  assumes "same v w"
  shows "is_object v = is_object w" and "isConfigComposite v = isConfigComposite w" and "v = JNull \<longleftrightarrow> w = JNull"
    and "\<not> isConfigComposite v \<Longrightarrow> v = w"
  using assms by (cases v; cases w; simp add: same_def)+

lemma same_MarshalValue: "same v w \<Longrightarrow> MarshalValue v = MarshalValue w"
  by (simp add: same_def MarshalValue_def)

lemma same_equivalent: "same v v' \<Longrightarrow> same w w' \<Longrightarrow> patroniConfigValuesEquivalent v w = patroniConfigValuesEquivalent v' w'"
  using same_cases [of v v'] same_cases [of w w'] same_MarshalValue [of v v'] same_MarshalValue [of w w']
  unfolding patroniConfigValuesEquivalent_def canonicalConfigEqual_def by auto


section \<open>Patches\<close>

text \<open>What a patch does to one key.\<close>

definition merged :: "jval option \<Rightarrow> jval option \<Rightarrow> jval option" where
  "merged current patch =
     (case patch of
        None \<Rightarrow> current
      | Some JNull \<Rightarrow> None
      | Some (JObj p) \<Rightarrow>
          (case current of
             Some (JObj c) \<Rightarrow> Some (JObj (applyPatroniConfigPatch c p))
           | _ \<Rightarrow> Some (JObj (cloneConfigMap p)))
      | Some v \<Rightarrow>
          (case current of
             Some c \<Rightarrow> if patroniConfigValuesEquivalent c v then Some c else Some (cloneConfigValue v)
           | None \<Rightarrow> Some (cloneConfigValue v)))"

lemma patch_lookup:
  assumes "distinct (map fst ps)"
  shows "jlookup (applyPatroniConfigPatch cfg ps) k = merged (jlookup cfg k) (jlookup ps k)"
  using assms
proof (induction ps arbitrary: cfg)
  case Nil
  then show ?case by (simp add: merged_def)
next
  case (Cons p ps)
  obtain k' v where p: "p = (k', v)" by (cases p)
  with Cons.prems have n: "jlookup ps k' = None" by (force simp: jlookup_None_iff)
  show ?case
  proof (cases "k = k'")
    case True
    with p n Cons show ?thesis by (auto simp: jlookup_Cons merged_def split: jval.splits option.splits)
  next
    case False
    with p Cons show ?thesis by (auto simp: jlookup_Cons split: jval.splits option.splits)
  qed
qed

fun distinct_keys :: "jval \<Rightarrow> bool" where
  "distinct_keys (JArr vs) = (\<forall>v \<in> set vs. distinct_keys v)"
| "distinct_keys (JObj ps) = (distinct (map fst ps) \<and> (\<forall>(k, v) \<in> set ps. distinct_keys v))"
| "distinct_keys _ = True"

lemma distinct_keys_jlookup: "distinct_keys (JObj ps) \<Longrightarrow> jlookup ps k = Some v \<Longrightarrow> distinct_keys v"
  using jlookup_in by fastforce

lemma distinct_keys_jnorm: "distinct_keys (jnorm v)"
proof (induction v rule: jnorm.induct)
  case (2 ps)
  have "distinct_keys w" if "(k, w) \<in> set (jmap (map (\<lambda>(k, v). (k, jnorm v)) ps))" for k w
  proof -
    have "jlookup (jmap (map (\<lambda>(k, v). (k, jnorm v)) ps)) k = Some w"
      using that jmap_keys(3) [of "map (\<lambda>(k, v). (k, jnorm v)) ps"] by (simp add: jlookup_def rev_map [symmetric])
    then show ?thesis using 2 jlookup_in by (fastforce simp: jlookup_jmap jlookup_map)
  qed
  then show ?case using jmap_keys(3) [of "map (\<lambda>(k, v). (k, jnorm v)) ps"] by auto
qed simp_all

lemma patch_same:
  assumes "distinct_keys (JObj p)" "distinct_keys (JObj q)" and "same_object p q" and "same_object c d"
  shows "same_object (applyPatroniConfigPatch c p) (applyPatroniConfigPatch d q)"
  using assms
proof (induction p arbitrary: q c d rule: measure_induct_rule [of "\<lambda>p. size (JObj p)"])
  case (less p)
  have "same_option (merged (jlookup c k) (jlookup p k)) (merged (jlookup d k) (jlookup q k))" for k
  proof -
    have pq: "same_option (jlookup p k) (jlookup q k)" and cd: "same_option (jlookup c k) (jlookup d k)"
      using less.prems by (simp_all add: same_object_iff)
    show ?thesis
    proof (cases "jlookup p k")
      case None
      with pq cd show ?thesis by (auto simp: merged_def same_option_def rel_option_iff split: option.splits)
    next
      case (Some v)
      then obtain w where w: "jlookup q k = Some w" "same v w" using pq by (auto simp: same_option_def rel_option_iff split: option.splits)
      have sub: "same_option (Some (JObj (applyPatroniConfigPatch a x))) (Some (JObj (applyPatroniConfigPatch b y)))"
        if "v = JObj x" "w = JObj y" "same_object a b" for x y a b
      proof -
        have "distinct_keys (JObj x)" "distinct_keys (JObj y)"
          using distinct_keys_jlookup [OF less.prems(1)] distinct_keys_jlookup [OF less.prems(2)] Some w(1) that(1,2) by blast+
        with less.IH [of x y a b] that Some w(2) size_jlookup [OF Some] show ?thesis by (simp add: same_option_def)
      qed
      note vw = same_cases [OF w(2)]
      show ?thesis
      proof (cases "jlookup c k")
        case None
        with cd have "jlookup d k = None" by (auto simp: same_option_def rel_option_iff split: option.splits)
        with None Some w vw show ?thesis by (cases v; cases w) (auto simp: merged_def same_option_def)
      next
        case a: (Some a)
        with cd obtain b where b: "jlookup d k = Some b" "same a b" by (auto simp: same_option_def rel_option_iff split: option.splits)
        note ab = same_cases(1) [OF b(2)] and eq = same_equivalent [OF b(2) w(2)]
        show ?thesis
        proof (cases "is_object v")
          case True
          then obtain x y where "v = JObj x" "w = JObj y" using vw(1) by (auto elim!: is_object.elims)
          with Some w a b ab sub [of x y] show ?thesis
            by (cases a; cases b) (simp_all add: merged_def same_option_def)
        next
          case False
          with Some w a b eq vw show ?thesis
            by (cases v; cases w) (simp_all add: merged_def same_option_def)
        qed
      qed
    qed
  qed
  with less.prems show ?case by (simp add: same_object_iff patch_lookup)
qed



section \<open>Settings\<close>

text \<open>The value at the end of a path, through objects only.\<close>

fun getPath :: "jval option \<Rightarrow> string list \<Rightarrow> jval option" where
  "getPath v [] = v"
| "getPath (Some (JObj ps)) (k # ks) = getPath (jlookup ps k) ks"
| "getPath _ (k # ks) = None"

text \<open>The keys a setting visits: below \<open>postgresql.parameters\<close> the rest of the path is one key.\<close>

fun flatPath :: "string list \<Rightarrow> string list \<Rightarrow> string list" where
  "flatPath outer [] = []"
| "flatPath outer (k # ks) =
     (if outer = [''postgresql'', ''parameters''] then [Join ''.'' (k # ks)] else k # flatPath (outer @ [k]) ks)"

lemma getPath_None [simp]: "getPath None ks = None"
  by (cases ks) auto

definition stored :: "jval \<Rightarrow> jval option" where
  "stored v = (if v = JNull then None else Some v)"

lemma setPath_equations:
  "setPatroniConfigPath cfg (k # ks) v [''postgresql'', ''parameters''] =
     (if v = JNull then jdelete (Join ''.'' (k # ks)) cfg else jput (Join ''.'' (k # ks)) v cfg)"
  "outer \<noteq> [''postgresql'', ''parameters''] \<Longrightarrow>
   setPatroniConfigPath cfg [k] v outer = (if v = JNull then jdelete k cfg else jput k v cfg)"
  "outer \<noteq> [''postgresql'', ''parameters''] \<Longrightarrow> ks \<noteq> [] \<Longrightarrow>
   setPatroniConfigPath cfg (k # ks) v outer =
     (let child = setPatroniConfigPath (case jlookup cfg k of Some (JObj c) \<Rightarrow> c | _ \<Rightarrow> []) ks v (outer @ [k])
      in if child = [] then jdelete k cfg else jput k (JObj child) cfg)"
  by (subst setPatroniConfigPath.simps, simp split: list.splits)+

lemma getPath_empty [simp]: "ks \<noteq> [] \<Longrightarrow> getPath (Some (JObj [])) ks = None"
  by (cases ks) auto

lemma flatPath_Nil [simp]: "flatPath outer path = [] \<longleftrightarrow> path = []"
  by (cases path) auto

lemma setPath_get:
  assumes "path \<noteq> []"
  shows "getPath (Some (JObj (setPatroniConfigPath cfg path v outer))) (flatPath outer path) = stored v"
  using assms
proof (induction path arbitrary: cfg outer)
  case (Cons k ks)
  show ?case
  proof (cases "outer = [''postgresql'', ''parameters'']")
    case True
    then show ?thesis by (simp add: setPath_equations(1) stored_def)
  next
    case False
    show ?thesis
    proof (cases "ks = []")
      case True
      with False show ?thesis by (simp add: setPath_equations(2) stored_def)
    next
      case ks: False
      define child where "child = setPatroniConfigPath (case jlookup cfg k of Some (JObj c) \<Rightarrow> c | _ \<Rightarrow> []) ks v (outer @ [k])"
      have ih: "getPath (Some (JObj child)) (flatPath (outer @ [k]) ks) = stored v" unfolding child_def using Cons.IH ks by blast
      show ?thesis
      proof (cases "child = []")
        case True
        with ih ks have "stored v = None" by simp
        with True False ks show ?thesis by (simp add: setPath_equations(3) child_def [symmetric])
      next
        case c: False
        with False ks ih show ?thesis by (simp add: setPath_equations(3) child_def [symmetric])
      qed
    qed
  qed
qed simp

definition apart :: "string list \<Rightarrow> string list \<Rightarrow> bool" where
  "apart p q = (\<not> prefix p q \<and> \<not> prefix q p)"

lemma setPath_frame:
  assumes "path \<noteq> []" and "apart (flatPath outer path) q"
  shows "getPath (Some (JObj (setPatroniConfigPath cfg path v outer))) q = getPath (Some (JObj cfg)) q"
  using assms
proof (induction path arbitrary: cfg outer q)
  case (Cons k ks)
  from Cons.prems(2) obtain l ls where q: "q = l # ls" by (cases q) (auto simp: apart_def)
  show ?case
  proof (cases "outer = [''postgresql'', ''parameters'']")
    case True
    with Cons.prems(2) q show ?thesis by (auto simp: setPath_equations(1) apart_def)
  next
    case False
    show ?thesis
    proof (cases "ks = []")
      case True
      with False Cons.prems(2) q show ?thesis by (auto simp: setPath_equations(2) apart_def)
    next
      case ks: False
      define c where "c = (case jlookup cfg k of Some (JObj c) \<Rightarrow> c | _ \<Rightarrow> [])"
      define child where "child = setPatroniConfigPath c ks v (outer @ [k])"
      show ?thesis
      proof (cases "l = k")
        case True
        with False Cons.prems(2) q have ap: "apart (flatPath (outer @ [k]) ks) ls" by (simp add: apart_def)
        then have ls: "ls \<noteq> []" by (auto simp: apart_def)
        have "getPath (Some (JObj child)) ls = getPath (Some (JObj c)) ls"
          unfolding child_def using Cons.IH ks ap by blast
        also have "\<dots> = getPath (jlookup cfg k) ls"
          using ls by (cases ls) (auto simp: c_def split: option.splits jval.splits)
        finally have "getPath (Some (JObj child)) ls = getPath (jlookup cfg k) ls" .
        with True False ks q ls show ?thesis
          by (auto simp: setPath_equations(3) child_def [symmetric] c_def [symmetric])
      next
        case l: False
        with False ks q show ?thesis by (simp add: setPath_equations(3) Let_def)
      qed
    qed
  qed
qed simp


section \<open>Differences\<close>

lemma json_ok_object: "json_ok n (JObj ps) \<Longrightarrow> \<exists>m. n = Suc m \<and> (\<forall>k v. jlookup ps k = Some v \<longrightarrow> json_ok m v)"
  by (cases n) (auto dest: jlookup_in)

lemma jmap_in: "(k, v) \<in> set (jmap ps) \<longleftrightarrow> jlookup ps k = Some v"
proof -
  have "(k, v) \<in> set (jmap ps) \<longleftrightarrow> k \<in> fst ` set ps \<and> v = the (jlookup ps k)" by (auto simp: jmap_def)
  then show ?thesis using jlookup_None_iff [of ps k] by (cases "jlookup ps k") auto
qed

lemma json_ok_jnorm: "json_ok n v \<Longrightarrow> json_ok n (jnorm v)"
proof (induction n v rule: json_ok.induct)
  case (8 n ps)
  have "utf8_valid k \<and> json_ok n w" if "(k, w) \<in> set (jmap (map (\<lambda>(k, v). (k, jnorm v)) ps))" for k w
    using that 8 jlookup_in by (fastforce simp: jmap_in jlookup_map)
  then show ?case by auto
qed auto

lemma json_ok_encodable: "json_ok n v \<Longrightarrow> jencodable v"
  by (induction n v rule: json_ok.induct) auto

lemma canonicalConfigEqual_same:
  assumes "json_ok n v" "json_ok n w" "n \<le> 10000"
  shows "canonicalConfigEqual v w \<longleftrightarrow> same v w"
proof -
  have "json_ok 10000 (jnorm v)" "json_ok 10000 (jnorm w)" using assms json_ok_jnorm json_ok_mono by blast+
  then show ?thesis using Marshal_inj json_ok_encodable unfolding canonicalConfigEqual_def MarshalValue_def same_def by auto
qed

lemma collect_same:
  assumes "json_ok n (JObj old)" "json_ok n (JObj after)" "n \<le> 10000"
  shows "collectChangedConfigPaths old after outer = [] \<longleftrightarrow> same_object old after"
  using assms
proof (induction old after outer arbitrary: n rule: collectChangedConfigPaths.induct)
  case (1 old after outer)
  obtain m where m: "n = Suc m" and b: "jlookup old k = Some v \<Longrightarrow> json_ok m v" for k v
    using json_ok_object [OF 1(4)] by blast
  have a: "jlookup after k = Some v \<Longrightarrow> json_ok m v" for k v using json_ok_object [OF 1(5)] m by auto
  have le: "m \<le> 10000" using 1(6) m by simp
  have pos: "json_ok m (JObj x) \<Longrightarrow> json_ok m (JObj [])" for x by (cases m) auto
  let ?keys = "set (sort (remdups (map fst old @ map fst after)))"
  let ?item = "\<lambda>key. (let path = childPath outer key in
        case (jlookup old key, jlookup after key) of
          (Some (JObj l), Some (JObj r)) \<Rightarrow> collectChangedConfigPaths l r path
        | (Some left, Some right) \<Rightarrow> if canonicalConfigEqual left right then [] else [path]
        | (None, Some (JObj r)) \<Rightarrow> if r \<noteq> [] then collectChangedConfigPaths [] r path else [path]
        | (Some (JObj l), None) \<Rightarrow> if l \<noteq> [] then collectChangedConfigPaths l [] path else [path]
        | _ \<Rightarrow> [path])"
  have item: "?item key = [] \<longleftrightarrow> same_option (jlookup old key) (jlookup after key)" if k: "key \<in> ?keys" for key
  proof (cases "jlookup old key")
    case None
    with k have "jlookup after key \<noteq> None" by (auto simp: jlookup_None_iff)
    then obtain r where r: "jlookup after key = Some r" by auto
    show ?thesis
    proof (cases "\<exists>x. r = JObj x \<and> x \<noteq> []")
      case True
      then obtain x where x: "r = JObj x" "x \<noteq> []" by blast
      with None r have "collectChangedConfigPaths [] x (childPath outer key) = [] \<longleftrightarrow> same_object [] x"
        by (intro 1(1) [OF k refl _ _ _ refl x(2)]) (auto intro: pos a le)
      also have "\<not> same_object [] x" using x(2) by (cases x) (auto simp: same_object_iff jlookup_Cons same_option_def split: option.splits)
      finally show ?thesis using None r x by (simp add: Let_def same_option_def)
    next
      case False
      with None r show ?thesis by (cases r) (auto simp: Let_def same_option_def)
    qed
  next
    case l: (Some l)
    show ?thesis
    proof (cases "jlookup after key")
      case None
      show ?thesis
      proof (cases "\<exists>x. l = JObj x \<and> x \<noteq> []")
        case True
        then obtain x where x: "l = JObj x" "x \<noteq> []" by blast
        with None l have "collectChangedConfigPaths x [] (childPath outer key) = [] \<longleftrightarrow> same_object x []"
          by (intro 1(2) [OF k refl _ _ refl _ x(2)]) (auto intro: pos b le)
        also have "\<not> same_object x []" using x(2) by (cases x) (auto simp: same_object_iff jlookup_Cons same_option_def split: option.splits)
        finally show ?thesis using None l x by (simp add: Let_def same_option_def)
      next
        case False
        with None l show ?thesis by (cases l) (auto simp: Let_def same_option_def)
      qed
    next
      case r: (Some r)
      show ?thesis
      proof (cases "is_object l \<and> is_object r")
        case True
        then obtain x y where xy: "l = JObj x" "r = JObj y" by (auto elim!: is_object.elims)
        with l r have "collectChangedConfigPaths x y (childPath outer key) = [] \<longleftrightarrow> same_object x y"
          by (intro 1(3) [OF k refl _ _ refl _ refl]) (auto intro: a b le)
        with xy l r show ?thesis by (simp add: Let_def same_option_def)
      next
        case False
        with l r canonicalConfigEqual_same [OF b [OF l] a [OF r] le] show ?thesis
          by (cases l; cases r) (simp_all add: Let_def same_option_def)
      qed
    qed
  qed
  have "collectChangedConfigPaths old after outer = [] \<longleftrightarrow> (\<forall>key \<in> ?keys. ?item key = [])"
    by (subst collectChangedConfigPaths.simps) simp
  also have "\<dots> \<longleftrightarrow> (\<forall>key \<in> ?keys. same_option (jlookup old key) (jlookup after key))" using item by simp
  also have "\<dots> \<longleftrightarrow> same_object old after"
  proof -
    have "same_option (jlookup old key) (jlookup after key)" if "key \<notin> ?keys" for key
    proof -
      have "jlookup old key = None" "jlookup after key = None" using that by (auto simp: jlookup_None_iff)
      then show ?thesis by (simp add: same_option_def)
    qed
    then show ?thesis by (auto simp: same_object_iff)
  qed
  finally show ?case .
qed


section \<open>Properties\<close>

text \<open>C36: A patch means the same in any order of its keys. Go walks the map of a patch in no fixed order. Two
  patches that are the same object, read in two orders, lead to the same configuration; and key by key the result
  is what \<open>merged\<close> says: a null deletes, an object is merged into an object and otherwise replaces, an
  equivalent scalar keeps the present value, and a key the patch does not have is left alone.\<close>

theorem patch_order_independent:
  assumes "distinct_keys (JObj p)" and "distinct_keys (JObj q)" and "same_object p q" and "same_object c d"
  shows "same_object (applyPatroniConfigPatch c p) (applyPatroniConfigPatch d q)
    \<and> (\<forall>k. jlookup (applyPatroniConfigPatch c p) k = merged (jlookup c k) (jlookup p k))"
  using patch_same [OF assms] patch_lookup [of p c] assms(1) by simp

definition demoPatch :: jobject where
  "demoPatch = [(''ttl'', JNull), (''postgresql'', JObj [(''use_slots'', JBool True)]), (''loop_wait'', JStr ''10'')]"

definition demoConfig :: jobject where
  "demoConfig = [(''loop_wait'', JNum ''10''), (''postgresql'', JObj [(''use_pg_rewind'', JBool True)]), (''ttl'', JNum ''30'')]"

theorem patch_order_independent_witness:
  "same_object (applyPatroniConfigPatch demoConfig demoPatch) (applyPatroniConfigPatch demoConfig (rev demoPatch))
   \<and> jlookup (applyPatroniConfigPatch demoConfig demoPatch) ''loop_wait'' = Some (JNum ''10'')"
proof -
  have "distinct_keys (JObj demoPatch)" "distinct_keys (JObj (rev demoPatch))" "same_object demoPatch (rev demoPatch)"
    by code_simp+
  moreover have "merged (jlookup demoConfig ''loop_wait'') (jlookup demoPatch ''loop_wait'') = Some (JNum ''10'')" by code_simp
  ultimately show ?thesis using patch_order_independent [of demoPatch "rev demoPatch" demoConfig demoConfig] by simp
qed

text \<open>A setting changes its own path and nothing beside it. After \<open>--set path=value\<close> the value is at the end of
  the path (gone, for null), where everything below \<open>postgresql.parameters\<close> is one key, dots included; and
  every path that neither leads to it nor goes on from it reads as before.\<close>

lemma setting_effect:
  assumes "path = flatPath [] (Split (CHR ''.'') (TrimSpace (csPath st)))"
  shows "getPath (Some (JObj (applyPatroniConfigSetting cfg st))) path = stored (cloneConfigValue (csValue st))
    \<and> (\<forall>other. apart path other \<longrightarrow>
         getPath (Some (JObj (applyPatroniConfigSetting cfg st))) other = getPath (Some (JObj cfg)) other)"
proof -
  have "Split (CHR ''.'') (TrimSpace (csPath st)) \<noteq> []" by simp
  then show ?thesis unfolding assms applyPatroniConfigSetting_def by (simp add: setPath_get setPath_frame)
qed

text \<open>A preview reports no change exactly when nothing changes. For configurations the decoder can produce, the
  list of changed paths is sorted, it is empty exactly when the configuration after the edit is the same
  object as the current one, and exactly then both have the same JSON text.\<close>

lemma preview_noop_exact:
  assumes "PreviewEditConfig current rq = Inr preview"
    and "json_ok 10000 (JObj (epBefore preview))" and "json_ok 10000 (JObj (epAfter preview))"
  shows "sorted (epChangedPaths preview) \<and> (epNoop preview \<longleftrightarrow> epChangedPaths preview = [])
    \<and> (epNoop preview \<longleftrightarrow> same_object current (epAfter preview))
    \<and> (epNoop preview \<longleftrightarrow> MarshalValue (JObj (epBefore preview)) = MarshalValue (JObj (epAfter preview)))"
proof -
  have pv: "epBefore preview = cloneConfigMap current" "epChangedPaths preview = changedConfigPaths (epBefore preview) (epAfter preview)"
    "epNoop preview \<longleftrightarrow> epChangedPaths preview = []"
    using assms(1) by (auto simp: PreviewEditConfig_def Let_def split: if_splits)
  have empty: "changedConfigPaths b a = [] \<longleftrightarrow> collectChangedConfigPaths b a [] = []" for b a
    unfolding changedConfigPaths_def by (metis set_empty set_sort)
  have same: "epChangedPaths preview = [] \<longleftrightarrow> same_object (epBefore preview) (epAfter preview)"
    unfolding pv(2) empty by (rule collect_same [OF assms(2,3)]) simp
  moreover have "same_object (epBefore preview) (epAfter preview) \<longleftrightarrow> same_object current (epAfter preview)"
    using pv(1) by simp
  moreover have "same_object (epBefore preview) (epAfter preview)
      \<longleftrightarrow> MarshalValue (JObj (epBefore preview)) = MarshalValue (JObj (epAfter preview))"
    using canonicalConfigEqual_same [OF assms(2,3)] json_ok_encodable [OF json_ok_jnorm [OF assms(2)]]
      json_ok_encodable [OF json_ok_jnorm [OF assms(3)]]
    by (simp add: canonicalConfigEqual_def MarshalValue_def del: jnorm.simps jencodable.simps)
  ultimately show ?thesis using pv(2,3) by (simp add: changedConfigPaths_def)
qed

definition demoEdit :: edit_config_request where
  "demoEdit = \<lparr>eqTarget = \<lparr>tContext = [], tNamespace = [], tScope = ''demo'', tGroup = None, tMember = []\<rparr>,
     eqReplacement = None, eqApply = Some demoPatch, eqSettings = [], eqCitus = False\<rparr>"

definition demoEdited :: jobject where
  "demoEdited = applyPatroniConfigPatch demoConfig demoPatch"

text \<open>C37: Edits do what they say, and previews show it. After \<open>--set path=value\<close> the value is at the end of the path (gone, for
  null), where everything below \<open>postgresql.parameters\<close> is one key, dots included, and every path that neither leads to it nor
  goes on from it reads as before. For configurations the decoder can produce, the list of changed paths of a preview is sorted; it
  is empty exactly when the configuration after the edit is the same object as the current one, and exactly then both have the
  same JSON text.\<close>

theorem edits_previewed:
  assumes "path = flatPath [] (Split (CHR ''.'') (TrimSpace (csPath st)))"
    and "PreviewEditConfig current rq = Inr preview"
    and "json_ok 10000 (JObj (epBefore preview))" and "json_ok 10000 (JObj (epAfter preview))"
  shows "getPath (Some (JObj (applyPatroniConfigSetting cfg st))) path = stored (cloneConfigValue (csValue st))
    \<and> (\<forall>other. apart path other \<longrightarrow>
         getPath (Some (JObj (applyPatroniConfigSetting cfg st))) other = getPath (Some (JObj cfg)) other)
    \<and> sorted (epChangedPaths preview) \<and> (epNoop preview \<longleftrightarrow> epChangedPaths preview = [])
    \<and> (epNoop preview \<longleftrightarrow> same_object current (epAfter preview))
    \<and> (epNoop preview \<longleftrightarrow> MarshalValue (JObj (epBefore preview)) = MarshalValue (JObj (epAfter preview)))"
  using setting_effect [OF assms(1), of cfg] preview_noop_exact [OF assms(2-4)] by blast

theorem edits_previewed_witness:
  "(\<exists>preview. PreviewEditConfig demoConfig demoEdit = Inr preview
     \<and> epChangedPaths preview = [''postgresql.use_slots'', ''ttl''] \<and> \<not> epNoop preview
     \<and> \<not> same_object demoConfig (epAfter preview))
   \<and> getPath (Some (JObj (applyPatroniConfigSetting demoConfig \<lparr>csPath = ''postgresql.parameters.pg_stat.track'', csValue = JStr ''all''\<rparr>)))
       [''postgresql'', ''parameters'', ''pg_stat.track''] = Some (JStr ''all'')"
proof -
  let ?preview = "\<lparr>epBefore = demoConfig, epAfter = demoEdited, epChangedPaths = [''postgresql.use_slots'', ''ttl''], epNoop = False\<rparr>"
  let ?path = "[''postgresql'', ''parameters'', ''pg_stat.track'']"
  let ?st = "\<lparr>csPath = ''postgresql.parameters.pg_stat.track'', csValue = JStr ''all''\<rparr>"
  have s: "?path = flatPath [] (Split (CHR ''.'') (TrimSpace (csPath ?st)))" by code_simp
  have v: "stored (cloneConfigValue (csValue ?st)) = Some (JStr ''all'')" by code_simp
  have p: "PreviewEditConfig demoConfig demoEdit = Inr ?preview" by code_simp
  have "json_ok (Suc (Suc (Suc 0))) (JObj demoConfig)" "json_ok (Suc (Suc (Suc 0))) (JObj demoEdited)" by code_simp+
  then have ok: "json_ok 10000 (JObj (epBefore ?preview))" "json_ok 10000 (JObj (epAfter ?preview))"
    using json_ok_mono [of "Suc (Suc (Suc 0))" _ 10000] by fastforce+
  note all = edits_previewed [OF s p ok, of demoConfig]
  have "\<not> same_object demoConfig demoEdited" using all by simp
  moreover have "getPath (Some (JObj (applyPatroniConfigSetting demoConfig ?st))) ?path = Some (JStr ''all'')"
    by (rule trans [OF conjunct1 [OF all] v])
  ultimately show ?thesis using p by simp
qed

end
