(* ===== verification/Single_Write.thy ===== *)
theory Single_Write
  imports Leader_First Plan_Tokens
begin

text \<open>
  Operations that write once: editing the configuration, removing a cluster, and changing the role of a
  standby cluster.  Each reads the state, decides whether to refuse, to report that nothing is to do, or
  to write; it looks at the context once more, writes, and reads back.  That shape is a locale here, with
  the decision, the write and the wanted state as parameters.
\<close>

section \<open>Traces\<close>

datatype decision = Refused | Settled | Admitted

text \<open>After the write: readings of one target, waits, and looks at the context.\<close>

fun is_settling :: "target \<Rightarrow> event \<Rightarrow> bool" where
  "is_settling t (EvSnapshot u _) = (u = t)"
| "is_settling t (EvWait _ _) = True"
| "is_settling t (EvCtx _) = True"
| "is_settling t _ = False"

text \<open>The outcome an admitted write calls for: a last reading that shows the wanted state is SUCCEEDED; without
  one, a write that is known not to have happened is FAILED, any other UNKNOWN.\<close>

fun write_verdict :: "(event \<Rightarrow> bool) \<Rightarrow> (snapshot \<Rightarrow> bool) \<Rightarrow> event list \<Rightarrow> outcome" where
  "write_verdict lost good (EvCtx None # w # rb) =
     (if confirms good rb then Succeeded else if lost w then Failed else Unknown)"
| "write_verdict lost good _ = Failed"

definition write_trace ::
  "(event \<Rightarrow> bool) \<Rightarrow> (event \<Rightarrow> bool) \<Rightarrow> target \<Rightarrow> nat \<Rightarrow> (snapshot \<Rightarrow> bool) \<Rightarrow> outcome \<Rightarrow> event list \<Rightarrow> bool" where
  "write_trace writes lost t bound good out ds =
     (out = write_verdict lost good ds
      \<and> ((\<exists>x. ds = [EvCtx x])
         \<or> (\<exists>w rb. ds = EvCtx None # w # rb \<and> writes w \<and> list_all (is_settling t) rb \<and> length rb \<le> 3 * bound + 2)))"

text \<open>What follows a decision.\<close>

definition decided :: "decision \<Rightarrow> (event \<Rightarrow> bool) \<Rightarrow> (snapshot \<Rightarrow> bool) \<Rightarrow> event list \<Rightarrow> outcome" where
  "decided dec lost good ds =
     (case dec of Refused \<Rightarrow> Failed | Settled \<Rightarrow> Succeeded | Admitted \<Rightarrow> write_verdict lost good ds)"

text \<open>The execution: refused before it knew the state, or decided on what it read.\<close>

definition execution_trace ::
  "bool \<Rightarrow> (event list \<Rightarrow> 'v \<Rightarrow> bool) \<Rightarrow> (event list \<Rightarrow> bool) \<Rightarrow> ('v \<Rightarrow> decision) \<Rightarrow> ('v \<Rightarrow> event \<Rightarrow> bool) \<Rightarrow> (event \<Rightarrow> bool)
   \<Rightarrow> ('v \<Rightarrow> target) \<Rightarrow> nat \<Rightarrow> (snapshot \<Rightarrow> bool) \<Rightarrow> outcome \<Rightarrow> event list \<Rightarrow> bool" where
  "execution_trace guard observes unread decide writes lost t bound good out es =
     (unread es \<and> out = Failed
      \<or> guard \<and> (\<exists>v reads ds. es = reads @ ds \<and> observes reads v \<and> out = decided (decide v) lost good ds
           \<and> (if decide v = Admitted then write_trace (writes v) lost (t v) bound good out ds else ds = [])))"

lemma is_settling_no_write: "list_all (is_settling t) rb \<Longrightarrow> \<not> list_ex is_write rb"
  by (induction rb) (auto elim!: is_settling.elims)

lemma settling_readback: "list_all (is_readback t) rb \<Longrightarrow> list_all (is_settling t) rb"
  by (induction rb) (auto elim!: is_readback.elims)


lemma write_trace_verdict: "write_trace writes lost t bound good out ds \<Longrightarrow> out = write_verdict lost good ds"
  by (simp add: write_trace_def)

lemma write_trace_mono:
  "write_trace writes lost t bound good out ds \<Longrightarrow> (\<And>w. writes w \<Longrightarrow> writes' w) \<Longrightarrow> write_trace writes' lost t bound good out ds"
  unfolding write_trace_def by blast

text \<open>Of one target a single snapshot is read.\<close>

definition one_snapshot :: "target \<Rightarrow> event list \<Rightarrow> snapshot \<Rightarrow> bool" where
  "one_snapshot t reads sn = (reads = [EvSnapshot t (Inr sn)])"

definition no_snapshot :: "target \<Rightarrow> event list \<Rightarrow> bool" where
  "no_snapshot t es = (es = [] \<or> (\<exists>e. es = [EvSnapshot t (Inl e)]))"


text \<open>The outcome of such an execution as a function of its events.\<close>

fun snapshot_outcome :: "(snapshot \<Rightarrow> decision) \<Rightarrow> (event \<Rightarrow> bool) \<Rightarrow> (snapshot \<Rightarrow> bool) \<Rightarrow> event list \<Rightarrow> outcome" where
  "snapshot_outcome decide lost good (EvSnapshot t (Inr sn) # ds) = decided (decide sn) lost good ds"
| "snapshot_outcome decide lost good _ = Failed"

lemma one_snapshot_outcome:
  "execution_trace guard (one_snapshot t) (no_snapshot t) decide writes lost u bound good out es
   \<Longrightarrow> out = snapshot_outcome decide lost good es"
  unfolding execution_trace_def one_snapshot_def no_snapshot_def by auto

section \<open>The contract\<close>

text \<open>Every write of the trace is the one that was decided, right after a live look at the context.\<close>

definition guarded_write ::
  "bool \<Rightarrow> (event list \<Rightarrow> 'v \<Rightarrow> bool) \<Rightarrow> ('v \<Rightarrow> decision) \<Rightarrow> ('v \<Rightarrow> event \<Rightarrow> bool) \<Rightarrow> ('v \<Rightarrow> target) \<Rightarrow> event list \<Rightarrow> bool" where
  "guarded_write guard observes decide writes t es =
     (guard \<and> (\<exists>v reads w rb. es = reads @ EvCtx None # w # rb \<and> observes reads v \<and> list_all is_read reads
        \<and> decide v = Admitted \<and> writes v w \<and> list_all (is_settling (t v)) rb \<and> \<not> list_ex is_write rb))"

locale single_write =
  fixes exec :: "('w, 'd result) prog"
    and guard :: bool
    and observes :: "event list \<Rightarrow> 'v \<Rightarrow> bool"
    and unread :: "event list \<Rightarrow> bool"
    and decide :: "'v \<Rightarrow> decision"
    and writes :: "'v \<Rightarrow> event \<Rightarrow> bool"
    and lost :: "event \<Rightarrow> bool"
    and t :: "'v \<Rightarrow> target"
    and bound :: nat
    and good :: "snapshot \<Rightarrow> bool"
  assumes run: "valid [] exec (\<lambda>r. execution_trace guard observes unread decide writes lost t bound good (rOutcome r))"
    and observed_reads: "observes reads v \<Longrightarrow> list_all is_read reads"
    and unread_reads: "unread reads \<Longrightarrow> list_all is_read reads"
    and writes_write: "writes v w \<Longrightarrow> is_write w"
begin

abbreviation trace :: "outcome \<Rightarrow> event list \<Rightarrow> bool" where
  "trace \<equiv> execution_trace guard observes unread decide writes lost t bound good"

text \<open>A trace with a write is that of an admitted decision.\<close>

lemma trace_write:
  assumes "trace out es" and "list_ex is_write es"
  obtains v reads w rb where "guard" "es = reads @ EvCtx None # w # rb" "observes reads v" "decide v = Admitted"
    "writes v w" "list_all (is_settling (t v)) rb" "length rb \<le> 3 * bound + 2"
    "out = (if confirms good rb then Succeeded else if lost w then Failed else Unknown)"
proof -
  have "\<not> unread es" using unread_reads is_read_no_write assms(2) by blast
  with assms(1) obtain v reads ds where e: "guard" "es = reads @ ds" "observes reads v"
    and d: "if decide v = Admitted then write_trace (writes v) lost (t v) bound good out ds else ds = []"
    unfolding execution_trace_def by blast
  have "\<not> list_ex is_write reads" using observed_reads [OF e(3)] is_read_no_write by blast
  with assms(2) e(2) have "list_ex is_write ds" by simp
  with d show thesis using that e by (cases "decide v = Admitted") (auto simp: write_trace_def)
qed

lemma guarded: "valid [] exec (\<lambda>r es. list_ex is_write es \<longrightarrow> guarded_write guard observes decide writes t es)"
proof (rule valid_mono [OF run], rule impI)
  fix r es
  assume "trace (rOutcome r) es" and "list_ex is_write es"
  then obtain v reads w rb where "guard" "es = reads @ EvCtx None # w # rb" "observes reads v" "decide v = Admitted"
    "writes v w" "list_all (is_settling (t v)) rb"
    by (rule trace_write)
  then show "guarded_write guard observes decide writes t es"
    unfolding guarded_write_def using observed_reads is_settling_no_write by blast
qed

text \<open>FAILED vouches that no write took effect; SUCCEEDED after a write that the wanted state was read.\<close>

lemma honest:
  "valid [] exec (\<lambda>r es. list_ex is_write es \<longrightarrow>
     (rOutcome r = Failed \<longrightarrow> list_all (\<lambda>e. is_write e \<longrightarrow> lost e) es)
     \<and> (rOutcome r = Succeeded \<longrightarrow> confirms good es))"
proof (rule valid_mono [OF run], rule impI)
  fix r es
  assume "trace (rOutcome r) es" and "list_ex is_write es"
  then show "(rOutcome r = Failed \<longrightarrow> list_all (\<lambda>e. is_write e \<longrightarrow> lost e) es) \<and> (rOutcome r = Succeeded \<longrightarrow> confirms good es)"
  proof (rule trace_write)
    fix v reads w rb
    assume es: "es = reads @ EvCtx None # w # rb" and "observes reads v" and rb: "list_all (is_settling (t v)) rb"
      and o: "rOutcome r = (if confirms good rb then Succeeded else if lost w then Failed else Unknown)"
    then have "\<not> list_ex is_write reads" "\<not> list_ex is_write rb"
      using observed_reads is_read_no_write is_settling_no_write by blast+
    then have q: "list_all (\<lambda>e. is_write e \<longrightarrow> lost e) reads" "list_all (\<lambda>e. is_write e \<longrightarrow> lost e) rb"
      by (auto simp: list_all_iff list_ex_iff)
    have "confirms good es" if "confirms good rb" using that by (auto simp: es confirms_def)
    with o q show ?thesis by (auto simp: es)
  qed
qed

text \<open>At most one write, and an end: everything after the readings of the state is bounded, the readings of the
  verification included.\<close>

lemma bounded:
  "valid [] exec (\<lambda>r es. length (filter is_write es) \<le> 1
     \<and> (\<exists>reads ds. es = reads @ ds \<and> (unread reads \<or> (\<exists>v. observes reads v)) \<and> length ds \<le> 3 * bound + 4))"
proof (rule valid_mono [OF run])
  fix r es
  assume tr: "trace (rOutcome r) es"
  have q: "filter is_write xs = []" if "list_all is_read xs" for xs
    using is_read_no_write [OF that] by blast
  have s: "filter is_write rb = []" if "list_all (is_settling u) rb" for u rb
    using is_settling_no_write [OF that] by (induction rb) auto
  show "length (filter is_write es) \<le> 1
     \<and> (\<exists>reads ds. es = reads @ ds \<and> (unread reads \<or> (\<exists>v. observes reads v)) \<and> length ds \<le> 3 * bound + 4)"
    using tr unfolding execution_trace_def
  proof (elim disjE conjE exE)
    assume "unread es"
    with q [OF unread_reads] show ?thesis by (intro conjI exI [of _ es] exI [of _ "[]"]) simp_all
  next
    fix v reads ds
    assume es: "es = reads @ ds" and o: "observes reads v"
      and d: "if decide v = Admitted then write_trace (writes v) lost (t v) bound good (rOutcome r) ds else ds = []"
    consider "ds = []" | x where "ds = [EvCtx x]"
      | w rb where "ds = EvCtx None # w # rb" "list_all (is_settling (t v)) rb" "length rb \<le> 3 * bound + 2"
      using d by (auto simp: write_trace_def split: if_splits)
    then have "length ds \<le> 3 * bound + 4 \<and> length (filter is_write ds) \<le> 1"
      using s by cases auto
    with es o q [OF observed_reads [OF o]] show ?thesis by auto
  qed
qed

end


section \<open>Shared parts\<close>

lemma valid_prod_app [wp]:
  "(\<And>a b. x = (a, b) \<Longrightarrow> valid es (f a b y) Q) \<Longrightarrow> valid es ((case x of (a, b) \<Rightarrow> f a b) y) Q"
  by (cases x) simp

lemma valid_executionID [wp]: "(\<And>x. x \<noteq> [] \<Longrightarrow> Q x es) \<Longrightarrow> valid es (executionID svc p) Q"
  unfolding executionID_def by (rule valid_planOperationID)

lemma valid_orObserved [wp]:
  assumes "\<And>xs. xs \<noteq> [] \<Longrightarrow> (clock_ok svc \<Longrightarrow> validSource source \<Longrightarrow> message \<noteq> [] \<Longrightarrow> validOrEmpty send
      \<Longrightarrow> evidence_all_ok evs \<Longrightarrow> evidence_all_ok xs) \<Longrightarrow> Q xs es"
  shows "valid es (orObserved svc evs source message path send) Q"
  unfolding orObserved_def by (intro wp) (auto intro!: assms)

lemma result_Validate_error [simp]:
  "result_Validate \<lparr>rOperationID = opID, rOutcome = Failed, rTarget = t, rPath = path, rData = d, rEvidence = evs,
     rError = Some (NewError cat operation u retry message cause evs)\<rparr> = None \<longleftrightarrow>
   opID \<noteq> [] \<and> target_ok t \<and> validPath path \<and> evs \<noteq> [] \<and> evidence_all_ok evs
   \<and> validCategory cat \<and> cat \<noteq> CategoryUnknown \<and> operation \<noteq> [] \<and> message \<noteq> []"
  "result_Validate \<lparr>rOperationID = opID, rOutcome = Unknown, rTarget = t, rPath = path, rData = d, rEvidence = evs,
     rError = Some (NewError CategoryUnknown operation u retry message cause evs)\<rparr> = None \<longleftrightarrow>
   opID \<noteq> [] \<and> target_ok t \<and> validPath path \<and> evs \<noteq> [] \<and> evidence_all_ok evs \<and> operation \<noteq> [] \<and> message \<noteq> []"
  by (auto simp: result_Validate_None error_Validate_NewError)

text \<open>The cause of an unverified write costs at most two looks at the context.\<close>

lemma valid_unverifiedCause [wp]:
  assumes "\<And>cause xs. length xs \<le> 2 \<Longrightarrow> Q cause (es @ map EvCtx xs)"
  shows "valid es (unverifiedCause ctx err) Q"
  unfolding unverifiedCause_def
  by (intro wp) (use assms [of "[]"] assms [of "[_]"] assms [of "[_, _]"] in auto)

lemma looks_simps [simp]:
  "list_all (is_settling t) (map EvCtx xs)" "filter is_write (map EvCtx xs) = []" "list_all definite (map EvCtx xs)"
  by (induction xs) auto

lemma looks_confirm: "\<not> confirms good rb \<Longrightarrow> \<not> confirms good (rb @ map EvCtx xs)"
  by (cases xs rule: rev_cases) (auto simp: confirms_def)

text \<open>Reading back with \<open>verifyLoop\<close>, as the last part of a write.\<close>

context verification begin

lemma settles:
  assumes "\<And>ok x evs ds. list_all (is_readback t) ds \<Longrightarrow> list_all (is_settling t) ds \<Longrightarrow> length ds \<le> 2 * bound \<Longrightarrow> (ok \<longleftrightarrow> confirms good ds)
      \<Longrightarrow> remembers recall x0 x ds \<Longrightarrow> (clocked \<Longrightarrow> evidence_all_ok evs) \<Longrightarrow> Q (ok, x, evs) (es @ ds)"
  shows "valid es verify Q"
proof (rule use)
  fix ok x evs ds
  assume "loop_trace t bound good recall x0 clocked (ok, x, evs) ds"
  then have r: "readback_trace t bound good ok ds" and m: "remembers recall x0 x ds" and e: "clocked \<Longrightarrow> evidence_all_ok evs"
    by (auto simp: loop_trace_def)
  show "Q (ok, x, evs) (es @ ds)"
    using assms [OF _ _ _ readback_confirms [OF r] m e] readback_facts [OF r] settling_readback [of t ds] by simp
qed

end

lemma remembers_cases:
  assumes "remembers recall x0 x ds"
  shows "x = x0 \<or> (\<exists>t sn. EvSnapshot t (Inr sn) \<in> set ds \<and> x = recall sn)"
proof (cases "read_snapshots ds = []")
  case False
  then have "last (read_snapshots ds) \<in> set (read_snapshots ds)" by simp
  with assms False show ?thesis by (auto simp: remembers_def read_snapshots_set)
qed (use assms in \<open>simp add: remembers_def\<close>)

lemma classifyReadError_fst [simp]:
  "validCategory (fst (classifyReadError e))" "fst (classifyReadError e) \<noteq> CategoryUnknown"
  using classifyReadError_category [of e "fst (classifyReadError e)" "snd (classifyReadError e)"] by simp_all

lemma dcsSendState_nonempty [simp]: "dcsSendState e a \<noteq> SendEmpty"
  by (auto simp: dcsSendState_def split: option.splits delivery.splits)

lemma revisions_ok_simps [simp]:
  "revisions_ok []" "revisions_ok (e # es) \<longleftrightarrow> 0 \<le> event_revision e \<and> revisions_ok es"
  "revisions_ok (es @ es') \<longleftrightarrow> revisions_ok es \<and> revisions_ok es'"
  "revisions_ok (map EvCtx xs)"
  by (auto simp: revisions_ok_def)

lemma remembers_revision:
  assumes "remembers recall x0 x ds" and "revisions_ok ds" and "\<And>sn. f (recall sn) = snRevision sn" and "0 \<le> f x0"
  shows "0 \<le> f x"
  using remembers_cases [OF assms(1)] assms(2-4) revisions_ok_snapshot by fastforce

lemmas remembers_last_revision = remembers_revision [where f = id and recall = snRevision, simplified]

lemma failed_valid:
  assumes "failed_with svc zero opID operation t path cat message evs r" and "clock_ok svc"
    and "opID \<noteq> []" "operation \<noteq> []" "message \<noteq> []" "target_ok (Normalize t)" "validPath path" "validCategory cat" "cat \<noteq> CategoryUnknown"
    "evidence_all_ok evs"
  shows "result_Validate r = None \<and> rData r = zero"
  using failed_with_ok [OF assms] assms(1) by (simp add: failed_with_def)

lemma remembers_pair:
  assumes "remembers (\<lambda>sn. (f sn, snRevision sn)) (x0, 0) (x, rv) ds"
  shows "revisions_ok ds \<Longrightarrow> 0 \<le> rv" and "x = x0 \<or> x \<in> range f"
  using remembers_cases [OF assms] revisions_ok_snapshot by auto

text \<open>An HMAC-SHA256 has 64 hexadecimal digits.\<close>

definition tokens_ok :: "'w service \<Rightarrow> bool" where
  "tokens_ok svc = (\<forall>message. length (rtHMAC (svcRuntime svc) (svcPlanKey svc) message) = token_length)"

lemma planToken_length: "tokens_ok svc \<Longrightarrow> planToken svc domain encoded = Inr token \<Longrightarrow> length token = token_length"
  by (auto simp: tokens_ok_def planToken_def split: option.splits)

lemma FormatBool_cases: "FormatBool b = ''true'' \<or> FormatBool b = ''false''"
  by (cases b) (simp_all add: FormatBool_def)

end
