(* ===== verification/Edit_Config_Spec.thy ===== *)
theory Edit_Config_Spec
  imports Edit_Config Config_Edit_Spec Single_Write
begin

text \<open>What editing the configuration guarantees: an instance of the single write, and well-formed results.\<close>

section \<open>Reading back\<close>

interpretation edit_reading: verification "verifyEditConfig svc t desired" t "nat (svcVerificationAttempts svc)"
    "configMatches svc desired" snRevision 0 "clock_ok svc"
  for svc :: "'w service" and t desired
proof unfold_locales
  show "valid [] (verifyEditConfig svc t desired)
      (loop_trace t (nat (svcVerificationAttempts svc)) (configMatches svc desired) snRevision 0 (clock_ok svc))"
    unfolding verifyEditConfig_def by (rule valid_mono [OF verifyLoop_trace]) (auto simp: words_ok_def)
qed

lemmas edit_results = editConfigSuccess_def editConfigFailure_def editConfigUnknown_def


section \<open>The write\<close>

definition edit_cas :: "target \<Rightarrow> int \<Rightarrow> jobject \<Rightarrow> event \<Rightarrow> bool" where
  "edit_cas t revision after w =
     (\<exists>payload r e. w = EvConfigCAS t payload (Some revision) r e \<and> MarshalValue (JObj after) = Some payload)"

lemma editConfigWrite_trace:
  assumes "ctx \<noteq> None"
  shows "valid [] (editConfigWrite svc ctx opID t d after desired evs) (\<lambda>r.
    write_trace (edit_cas t (cdBeforeRevision d) after) definite t (nat (svcVerificationAttempts svc)) (configMatches svc desired) (rOutcome r))"
  unfolding editConfigWrite_def edit_results Let_def
  by (intro wp edit_reading.settles) (use assms in \<open>auto simp: write_trace_def edit_cas_def looks_confirm\<close>)


section \<open>The execution\<close>

definition edit_guard :: "'w service \<Rightarrow> 'w goctx \<Rightarrow> edit_config_request \<Rightarrow> plan \<Rightarrow> bool" where
  "edit_guard svc ctx rq p =
     (ctx \<noteq> None \<and> snd (normalizeEditConfigRequest rq) = None
      \<and> validateEditConfigPlan svc p (fst (normalizeEditConfigRequest rq)) = None)"

lemma edit_guardI:
  "ctx \<noteq> None \<Longrightarrow> snd (normalizeEditConfigRequest rq) = None
   \<Longrightarrow> validateEditConfigPlan svc p (fst (normalizeEditConfigRequest rq)) = None \<Longrightarrow> edit_guard svc ctx rq p"
  by (simp add: edit_guard_def)

text \<open>The preview made now is the one that was confirmed.\<close>

definition edit_agrees :: "'w service \<Rightarrow> plan \<Rightarrow> config_edit_preview \<Rightarrow> bool" where
  "edit_agrees svc p preview =
     (configValueToken svc (epAfter preview) = Inr (the (expectedPrecondition p ''config.desired''))
      \<and> epChangedPaths preview = cdChangedPaths (editConfigStart p)
      \<and> expectedPrecondition p ''config.noop'' = Some (FormatBool (epNoop preview)))"

text \<open>What to do on a snapshot: the config key is at the planned revision and the confirmed preview changes
  something, or the configuration already is as confirmed.\<close>

definition editDecision :: "'w service \<Rightarrow> edit_config_request \<Rightarrow> plan \<Rightarrow> snapshot \<Rightarrow> decision" where
  "editDecision svc rq p sn =
     (case (checkSnapshotPatroniVersion svc sn False, configEntryForEdit sn, configValueToken svc (cConfig (snCluster sn))) of
        (None, Inr entry, Inr current) \<Rightarrow>
          if eModRevision entry \<noteq> cdBeforeRevision (editConfigStart p) then
            (if current = the (expectedPrecondition p ''config.desired'') then Settled else Refused)
          else (case PreviewEditConfig (cConfig (snCluster sn)) (fst (normalizeEditConfigRequest rq)) of
             Inr preview \<Rightarrow>
               if \<not> edit_agrees svc p preview then Refused else if epNoop preview then Settled else Admitted
           | Inl _ \<Rightarrow> Refused)
      | _ \<Rightarrow> Refused)"

text \<open>The write: the configuration of the preview, for the planned revision of the key.\<close>

definition edit_writes :: "edit_config_request \<Rightarrow> plan \<Rightarrow> snapshot \<Rightarrow> event \<Rightarrow> bool" where
  "edit_writes rq p sn w =
     (\<exists>preview. PreviewEditConfig (cConfig (snCluster sn)) (fst (normalizeEditConfigRequest rq)) = Inr preview
        \<and> edit_cas (Normalize (eqTarget rq)) (cdBeforeRevision (editConfigStart p)) (epAfter preview) w)"

lemma normalizeEdit_target [simp]: "eqTarget (fst (normalizeEditConfigRequest rq)) = Normalize (eqTarget rq)"
  by (simp add: normalizeEditConfigRequest_def Let_def)

abbreviation edit_trace :: "'w service \<Rightarrow> 'w goctx \<Rightarrow> edit_config_request \<Rightarrow> plan \<Rightarrow> outcome \<Rightarrow> event list \<Rightarrow> bool" where
  "edit_trace svc ctx rq p \<equiv> execution_trace (edit_guard svc ctx rq p) (one_snapshot (Normalize (eqTarget rq)))
     (no_snapshot (Normalize (eqTarget rq))) (editDecision svc rq p) (edit_writes rq p) definite (\<lambda>_. Normalize (eqTarget rq))
     (nat (svcVerificationAttempts svc)) (configMatches svc (the (expectedPrecondition p ''config.desired'')))"

lemma edit_trace_step:
  assumes "edit_guard svc ctx rq p" and "out = decided (editDecision svc rq p sn) definite
      (configMatches svc (the (expectedPrecondition p ''config.desired''))) ds"
    and "if editDecision svc rq p sn = Admitted then write_trace (edit_writes rq p sn) definite (Normalize (eqTarget rq))
          (nat (svcVerificationAttempts svc)) (configMatches svc (the (expectedPrecondition p ''config.desired''))) out ds else ds = []"
  shows "edit_trace svc ctx rq p out (EvSnapshot (Normalize (eqTarget rq)) (Inr sn) # ds)"
  unfolding execution_trace_def one_snapshot_def using assms by (intro disjI2 conjI exI [of _ sn]) auto

lemma edit_trace_unread [simp]:
  "edit_trace svc ctx rq p Failed []" "edit_trace svc ctx rq p Failed [EvSnapshot (Normalize (eqTarget rq)) (Inl e)]"
  by (simp_all add: execution_trace_def no_snapshot_def)

lemma edit_trace_version:
  assumes "edit_guard svc ctx rq p" and "checkSnapshotPatroniVersion svc sn False = Some err"
  shows "edit_trace svc ctx rq p Failed [EvSnapshot (Normalize (eqTarget rq)) (Inr sn)]"
  by (rule edit_trace_step) (use assms in \<open>simp_all add: editDecision_def decided_def\<close>)

lemma editConfigOnSnapshot_trace:
  assumes g: "edit_guard svc ctx rq p" and v: "checkSnapshotPatroniVersion svc sn False = None"
  shows "valid [EvSnapshot (Normalize (eqTarget rq)) (Inr sn)]
    (editConfigOnSnapshot svc ctx opID (fst (normalizeEditConfigRequest rq)) p (editConfigStart p) sn evs)
    (\<lambda>r. edit_trace svc ctx rq p (rOutcome r))"
proof -
  have c: "ctx \<noteq> None" using g by (simp add: edit_guard_def)
  show ?thesis
    unfolding editConfigOnSnapshot_def editConfigNoop_def edit_results Let_def normalizeEdit_target
    by (intro wp valid_use [OF editConfigWrite_trace [OF c]])
       (auto simp: editDecision_def v edit_agrees_def decided_def edit_writes_def split: sum.splits
         intro!: edit_trace_step [OF g] intro: write_trace_verdict elim!: write_trace_mono)
qed

interpretation edit_write: single_write "ExecuteEditConfig svc ctx rq p" "edit_guard svc ctx rq p"
    "one_snapshot (Normalize (eqTarget rq))" "no_snapshot (Normalize (eqTarget rq))" "editDecision svc rq p" "edit_writes rq p"
    definite "\<lambda>_. Normalize (eqTarget rq)" "nat (svcVerificationAttempts svc)"
    "configMatches svc (the (expectedPrecondition p ''config.desired''))"
  for svc :: "'w service" and ctx rq p
proof unfold_locales
  show "valid [] (ExecuteEditConfig svc ctx rq p) (\<lambda>r. edit_trace svc ctx rq p (rOutcome r))"
    unfolding ExecuteEditConfig_def edit_results Let_def split_beta normalizeEdit_target
    by (intro wp)
       (auto simp: failed_with_def validContext_def intro!: editConfigOnSnapshot_trace edit_trace_version edit_guardI)
qed (auto simp: one_snapshot_def no_snapshot_def edit_writes_def edit_cas_def)


section \<open>Well-formed results\<close>

lemma editConfigWriteSummary_nonempty [simp]: "editConfigWriteSummary w e \<noteq> []"
  by (simp add: editConfigWriteSummary_def)

definition edit_data_ok :: "config_edit_data \<Rightarrow> bool" where
  "edit_data_ok d =
     (validOrEmpty (cdDCSSendState d) \<and> cdDCSSendState d \<noteq> SendEmpty \<and> 0 \<le> cdBeforeRevision d \<and> sorted (cdChangedPaths d))"

lemma config_edit_Validate_None:
  "config_edit_Validate d = None \<longleftrightarrow>
     edit_data_ok d \<and> 0 \<le> cdDCSRevision d
     \<and> (cdVerification d = Unverified \<or> cdVerification d = VerifiedSucceeded \<or> cdVerification d = VerifiedFailed)
     \<and> (cdNoop d \<longrightarrow> cdDCSSendState d = SendNotSent \<and> cdVerification d = VerifiedSucceeded)"
  by (auto simp: config_edit_Validate_def edit_data_ok_def)

lemma editConfigStart_ok:
  assumes "validateEditConfigPlan svc p rq = None"
  shows "edit_data_ok (editConfigStart p)" "cdDCSRevision (editConfigStart p) = 0" "\<not> cdNoop (editConfigStart p)"
    "cdVerification (editConfigStart p) = Unverified" "cdDCSSendState (editConfigStart p) = SendNotSent"
  using assms
  by (auto simp: validateEditConfigPlan_def edit_data_ok_def editConfigStart_def zeroConfigEditData_def editConfigPlanPaths_def
      editConfigPlanRevision_def split: option.splits if_splits sum.splits)

definition edit_valid :: "config_edit_data result \<Rightarrow> event list \<Rightarrow> bool" where
  "edit_valid r es =
     (result_Validate r = None
      \<and> (rData r = zeroConfigEditData \<or> \<not> revisions_ok es \<or> config_edit_Validate (rData r) = None))"

lemma editConfigWrite_valid:
  assumes "clock_ok svc" "opID \<noteq> []" "target_ok t" "evs \<noteq> []" "evidence_all_ok evs" "edit_data_ok d" "\<not> cdNoop d"
    "cdDCSRevision d = 0" "cdDCSSendState d = SendNotSent"
  shows "valid es (editConfigWrite svc ctx opID t d after desired evs) edit_valid"
  unfolding editConfigWrite_def edit_results Let_def
  by (intro wp edit_reading.settles)
     (use assms in \<open>auto simp: edit_valid_def config_edit_Validate_None edit_data_ok_def max_def
        dest: classifyReadError_category remembers_last_revision\<close>)

lemma editConfigOnSnapshot_valid:
  assumes "clock_ok svc" "opID \<noteq> []" "target_ok (eqTarget rq)" "evs \<noteq> []" "evidence_all_ok evs" "edit_data_ok d" "\<not> cdNoop d"
    "cdDCSRevision d = 0" "cdDCSSendState d = SendNotSent" and "EvSnapshot t (Inr sn) \<in> set es"
  shows "valid es (editConfigOnSnapshot svc ctx opID rq p d sn evs) edit_valid"
  unfolding editConfigOnSnapshot_def editConfigNoop_def edit_results Let_def
  by (intro wp editConfigWrite_valid)
     (use assms in \<open>auto simp: edit_valid_def config_edit_Validate_None edit_data_ok_def dest: revisions_ok_snapshot [OF _ assms(10)]\<close>)

lemma ExecuteEditConfig_valid:
  assumes "clock_ok svc" and "target_ok (Normalize (eqTarget rq))"
  shows "valid [] (ExecuteEditConfig svc ctx rq p) edit_valid"
  unfolding ExecuteEditConfig_def Let_def split_beta normalizeEdit_target editConfigFailure_def
  by (intro wp editConfigOnSnapshot_valid)
     (use assms in \<open>auto simp: edit_valid_def config_edit_Validate_None editConfigStart_ok editConfigStart_ok(1) [unfolded edit_data_ok_def]
        edit_data_ok_def dest: classifyReadError_category failed_valid\<close>)


section \<open>Preparation\<close>

definition edit_prepared :: "'w service \<Rightarrow> edit_config_request \<Rightarrow> plan result \<Rightarrow> event list \<Rightarrow> bool" where
  "edit_prepared svc rq r es =
     (list_all is_read es \<and> length es \<le> 1
      \<and> (rOutcome r = Failed \<and> rData r = zeroPlan
         \<or> rOutcome r = Succeeded
           \<and> (\<exists>sn entry preview. es = [EvSnapshot (Normalize (eqTarget rq)) (Inr sn)]
                \<and> checkSnapshotPatroniVersion svc sn False = None \<and> configEntryForEdit sn = Inr entry
                \<and> PreviewEditConfig (cConfig (snCluster sn)) (fst (normalizeEditConfigRequest rq)) = Inr preview
                \<and> (0 < eModRevision entry \<and> eModRevision entry < 2 ^ 63 \<and> (\<forall>path \<in> set (epChangedPaths preview). utf8_valid path)
                   \<longrightarrow> validateEditConfigPlan svc (rData r) (fst (normalizeEditConfigRequest rq)) = None
                     \<and> (\<forall>sn' entry'. checkSnapshotPatroniVersion svc sn' False = None \<and> configEntryForEdit sn' = Inr entry'
                           \<and> eModRevision entry' = eModRevision entry \<and> cConfig (snCluster sn') = cConfig (snCluster sn)
                           \<and> MarshalValue (JObj (cConfig (snCluster sn'))) \<noteq> None
                         \<longrightarrow> editDecision svc rq (rData r) sn' = (if epNoop preview then Settled else Admitted))))))"

lemma configValueToken_Inr: "MarshalValue (JObj cfg) \<noteq> None \<Longrightarrow> \<exists>token. configValueToken svc cfg = Inr token"
  by (auto simp: configValueToken_def planToken_def)

lemma PreviewEditConfig_sorted: "PreviewEditConfig cfg rq = Inr preview \<Longrightarrow> sorted (epChangedPaths preview)"
  by (auto simp: PreviewEditConfig_def Let_def changedConfigPaths_def split: if_splits)

lemma editConfigPlan_fields:
  assumes "p = editConfigPlan opID rq sn entry preview requestToken desiredToken binding"
  shows "expectedPrecondition p ''config.modRevision'' = Some (FormatInt (eModRevision entry))"
    "expectedPrecondition p ''config.request'' = Some requestToken" "expectedPrecondition p ''config.desired'' = Some desiredToken"
    "expectedPrecondition p ''config.changedPaths'' = Some (MarshalStrings (Some (epChangedPaths preview)))"
    "expectedPrecondition p ''config.noop'' = Some (FormatBool (epNoop preview))"
    "expectedPrecondition p ''request.citus'' = Some (FormatBool (eqCitus rq))" "expectedPrecondition p ''config.binding'' = Some binding"
    "pOperation p = ''edit-config''" "pPath p = PathDCS" "pRisk p = RiskConfiguration" "pRetrySafety p = UnsafeAfterSend" "pTarget p = eqTarget rq"
  by (simp_all add: assms expectedPrecondition_find editConfigPlan_def)

lemma editConfigPlan_accepted:
  assumes "tokens_ok svc" and p: "p = editConfigPlan opID rq sn entry preview requestToken desiredToken binding"
    and "plan_Validate p = None" and n: "Normalize (eqTarget rq) = eqTarget rq"
    and "configRequestToken svc rq = Inr requestToken" "configValueToken svc (epAfter preview) = Inr desiredToken"
    and "configPlanBinding svc (eqTarget rq) (eModRevision entry) requestToken desiredToken
          (MarshalStrings (Some (epChangedPaths preview))) (FormatBool (epNoop preview)) (FormatBool (eqCitus rq)) = Inr binding"
    and "0 < eModRevision entry" "eModRevision entry < 2 ^ 63" and u: "\<forall>path \<in> set (epChangedPaths preview). utf8_valid path"
    and s: "sorted (epChangedPaths preview)"
  shows "validateEditConfigPlan svc p rq = None" "cdBeforeRevision (editConfigStart p) = eModRevision entry"
    "cdChangedPaths (editConfigStart p) = epChangedPaths preview"
proof -
  note f = editConfigPlan_fields [OF p]
  have rev: "editConfigPlanRevision p = Inr (eModRevision entry)"
    using assms(8,9) ParseInt_FormatInt [of "eModRevision entry"] by (simp add: editConfigPlanRevision_def f)
  have paths: "editConfigPlanPaths p = Inr (Some (epChangedPaths preview))"
    using s by (simp add: editConfigPlanPaths_def f UnmarshalStrings_Marshal [OF u])
  have "length desiredToken = token_length" "length binding = token_length"
    using planToken_length [OF assms(1)] assms(6,7) unfolding configValueToken_def configPlanBinding_def by blast+
  then show "validateEditConfigPlan svc p rq = None"
    using assms(3,5,7) n FormatBool_cases by (auto simp: validateEditConfigPlan_def f rev paths)
  show "cdBeforeRevision (editConfigStart p) = eModRevision entry" "cdChangedPaths (editConfigStart p) = epChangedPaths preview"
    by (simp_all add: editConfigStart_def rev paths zeroConfigEditData_def)
qed

lemma edit_prepared_failed:
  "failed_with svc zeroPlan opID operation t path cat message evs r \<Longrightarrow> list_all is_read es \<Longrightarrow> length es \<le> 1
   \<Longrightarrow> edit_prepared svc rq r es"
  by (simp add: edit_prepared_def failed_with_def)

lemma edit_prepared_planned:
  assumes "tokens_ok svc" and sn: "checkSnapshotPatroniVersion svc sn False = None" "configEntryForEdit sn = Inr entry"
    and pv: "PreviewEditConfig (cConfig (snCluster sn)) (fst (normalizeEditConfigRequest rq)) = Inr preview"
    and tokens: "configRequestToken svc (fst (normalizeEditConfigRequest rq)) = Inr requestToken"
      "configValueToken svc (epAfter preview) = Inr desiredToken"
      "configPlanBinding svc (Normalize (eqTarget rq)) (eModRevision entry) requestToken desiredToken
          (MarshalStrings (Some (epChangedPaths preview))) (FormatBool (epNoop preview))
          (FormatBool (eqCitus (fst (normalizeEditConfigRequest rq)))) = Inr binding"
    and "plan_Validate (editConfigPlan opID (fst (normalizeEditConfigRequest rq)) sn entry preview requestToken desiredToken binding) = None"
  shows "edit_prepared svc rq \<lparr>rOperationID = opID, rOutcome = Succeeded, rTarget = Normalize (eqTarget rq), rPath = PathDCS,
      rData = editConfigPlan opID (fst (normalizeEditConfigRequest rq)) sn entry preview requestToken desiredToken binding,
      rEvidence = evs, rError = None\<rparr> [EvSnapshot (Normalize (eqTarget rq)) (Inr sn)]"
proof -
  let ?rq = "fst (normalizeEditConfigRequest rq)"
  define p where "p = editConfigPlan opID ?rq sn entry preview requestToken desiredToken binding"
  note f = editConfigPlan_fields [OF p_def]
  have acc: "validateEditConfigPlan svc p ?rq = None \<and> cdBeforeRevision (editConfigStart p) = eModRevision entry
      \<and> cdChangedPaths (editConfigStart p) = epChangedPaths preview"
    if "0 < eModRevision entry" "eModRevision entry < 2 ^ 63" "\<forall>path \<in> set (epChangedPaths preview). utf8_valid path"
    using editConfigPlan_accepted [OF assms(1) p_def _ _ tokens(1,2) _ that PreviewEditConfig_sorted [OF pv]] assms(8) tokens(3)
    by (simp add: p_def)
  have dec: "editDecision svc rq p sn' = (if epNoop preview then Settled else Admitted)"
    if "cdBeforeRevision (editConfigStart p) = eModRevision entry" "cdChangedPaths (editConfigStart p) = epChangedPaths preview"
      "checkSnapshotPatroniVersion svc sn' False = None" "configEntryForEdit sn' = Inr entry'"
      "eModRevision entry' = eModRevision entry" "cConfig (snCluster sn') = cConfig (snCluster sn)"
      "MarshalValue (JObj (cConfig (snCluster sn'))) \<noteq> None" for sn' entry'
    using configValueToken_Inr [OF that(7), of svc] that pv tokens(2) by (auto simp: editDecision_def edit_agrees_def f)
  from acc dec sn pv show ?thesis unfolding edit_prepared_def p_def [symmetric] by auto
qed

lemma PrepareEditConfig_prepared:
  assumes "tokens_ok svc"
  shows "valid [] (PrepareEditConfig svc ctx rq) (edit_prepared svc rq)"
  unfolding PrepareEditConfig_def Let_def split_beta normalizeEdit_target
  by (intro wp) (use assms in \<open>auto elim!: edit_prepared_failed intro!: edit_prepared_planned\<close>)

end
