(* ===== verification/Remove.thy ===== *)
theory Remove
  imports Plan_Tokens Pause
begin

text \<open>
  Removing the state of a cluster from the DCS, \<^verbatim>\<open>src/control/remove.go\<close>: the plan binds the exact inventory of
  keys and the leader; the caller confirms the name of the cluster, a sentence and the leader; the
  execution compares the inventory again, deletes the root of the cluster and reads it back.
\<close>

section \<open>Data\<close>

definition RemoveAcknowledgement :: string where
  "RemoveAcknowledgement = ''Yes I am aware''"

record remove_request =
  rqTarget :: target
  rqCitus :: bool

record remove_confirmation =
  rcClusterName :: string
  rcAcknowledgement :: string
  rcLeader :: string

record remove_data =
  rdExpectedKeys :: int
  rdDeleted :: int
  rdRemainingKeys :: "string list"
  rdDCSSendState :: send_state
  rdVerification :: verification
  rdDCSRevision :: int
  rdNoop :: bool

definition zeroRemoveData :: remove_data where
  "zeroRemoveData = \<lparr>rdExpectedKeys = 0, rdDeleted = 0, rdRemainingKeys = [], rdDCSSendState = SendEmpty,
     rdVerification = VerificationOther [], rdDCSRevision = 0, rdNoop = False\<rparr>"

definition remove_data_Validate :: "remove_data \<Rightarrow> goerror option" where
  "remove_data_Validate d =
     (if rdExpectedKeys d < 0 \<or> rdDeleted d < 0 \<or> rdDCSRevision d < 0 then
        Some (errorsNew ''remove counts and revision must be non-negative'')
      else if \<not> validOrEmpty (rdDCSSendState d) \<or> rdDCSSendState d = SendEmpty then
        Some (Errorf ''remove DCS send state %q is invalid'' [AStr (send_text (rdDCSSendState d))] [])
      else if \<not> verification_valid (rdVerification d) then
        Some (Errorf ''remove verification %q is invalid'' [AStr (verification_text (rdVerification d))] [])
      else if \<not> sorted (rdRemainingKeys d) then
        Some (errorsNew ''remove remaining keys must be deterministic'')
      else if rdNoop d \<and> (rdDCSSendState d \<noteq> SendNotSent \<or> rdVerification d \<noteq> VerifiedSucceeded) then
        Some (errorsNew ''remove no-op requires verified NOT_SENT success'')
      else None)"


section \<open>Requests, plans and confirmations\<close>

definition normalizeRemoveRequest :: "remove_request \<Rightarrow> remove_request \<times> goerror option" where
  "normalizeRemoveRequest rq0 =
     (let rq = rq0\<lparr>rqTarget := Normalize (rqTarget rq0)\<rparr> in
      (rq,
       if tMember (rqTarget rq) \<noteq> [] then Some (errorsNew ''remove target must be a cluster'')
       else (case Validate (rqTarget rq) True of
          Some e \<Rightarrow> Some (errorsNew e)
        | None \<Rightarrow>
           if rqCitus rq \<and> tGroup (rqTarget rq) = None then
             Some (errorsNew ''citus remove requires an explicit group'') else None)))"

definition removeInventory :: "snapshot \<Rightarrow> string list" where
  "removeInventory sn = sort (map eRelativePath (snEntries sn))"

definition removeLeader :: "cluster_state \<Rightarrow> string" where
  "removeLeader cl = (case cLeader cl of None \<Rightarrow> [] | Some l \<Rightarrow> lName l)"

definition removePlanBinding :: "'w service \<Rightarrow> remove_request \<Rightarrow> int \<Rightarrow> string \<Rightarrow> string \<Rightarrow> goerror + string" where
  "removePlanBinding svc rq revision leader keys =
     planToken svc ''remove/plan'' (MarshalStruct
       [(''target'', JStr (ClusterID (rqTarget rq))), (''revision'', JNum (FormatInt revision)),
        (''clusterName'', JStr (tScope (rqTarget rq))), (''acknowledgement'', JStr RemoveAcknowledgement),
        (''leader'', JStr leader), (''keys'', JStr keys), (''citus'', JBool (rqCitus rq))])"

text \<open>The loop over the sorted keys: a blank key, or one that equals its predecessor.\<close>

fun emptyOrDuplicated :: "string option \<Rightarrow> string list \<Rightarrow> bool" where
  "emptyOrDuplicated previous [] = False"
| "emptyOrDuplicated previous (key # keys) =
     (TrimSpace key = [] \<or> previous = Some key \<or> emptyOrDuplicated (Some key) keys)"

definition removePlanKeys :: "plan \<Rightarrow> goerror + string list" where
  "removePlanKeys p =
     (case expectedPrecondition p ''remove.keys'' of
        None \<Rightarrow> Inl (errorsNew ''plan remove keys are missing'')
      | Some v \<Rightarrow>
          (case UnmarshalStrings v of
             None \<Rightarrow> Inl (errorsNew ''plan remove keys are invalid'')
           | Some slice \<Rightarrow>
               if \<not> sorted (elements slice) then Inl (errorsNew ''plan remove keys are invalid'')
               else if emptyOrDuplicated None (elements slice) then
                 Inl (errorsNew ''plan remove keys are empty or duplicated'')
               else Inr (elements slice)))"

definition validateRemovePlan :: "'w service \<Rightarrow> plan \<Rightarrow> remove_request \<Rightarrow> goerror option" where
  "validateRemovePlan svc p rq =
     (case plan_Validate p of
        Some e \<Rightarrow> Some e
      | None \<Rightarrow>
         if pOperation p \<noteq> ''remove'' \<or> pPath p \<noteq> PathDCS \<or> pRisk p \<noteq> RiskDestructive
            \<or> pRetrySafety p \<noteq> UnsafeAfterSend then
           Some (errorsNew ''plan operation contract differs from remove'')
         else if ClusterID (Normalize (pTarget p)) \<noteq> ClusterID (rqTarget rq) then
           Some (errorsNew ''plan cluster differs from request'')
         else if expectedPrecondition p ''remove.clusterName'' \<noteq> Some (tScope (rqTarget rq))
            \<or> expectedPrecondition p ''remove.acknowledgement'' \<noteq> Some RemoveAcknowledgement
            \<or> expectedPrecondition p ''remove.leader'' = None
            \<or> expectedPrecondition p ''request.citus'' \<noteq> Some (FormatBool (rqCitus rq)) then
           Some (errorsNew ''plan confirmation contract differs from remove request'')
         else (case removePlanKeys p of
           Inl _ \<Rightarrow> Some (errorsNew ''plan remove key inventory is invalid'')
         | Inr keys \<Rightarrow>
            if keys = [] then Some (errorsNew ''plan remove key inventory is invalid'')
            else (case Option.bind (expectedPrecondition p ''dcs.revision'') ParseInt of
              None \<Rightarrow> Some (errorsNew ''plan DCS revision is invalid'')
            | Some revision \<Rightarrow>
               if revision \<le> 0 then Some (errorsNew ''plan DCS revision is invalid'')
               else (case removePlanBinding svc rq revision (the (expectedPrecondition p ''remove.leader''))
                             (MarshalStrings (Some keys)) of
                 Inl e \<Rightarrow> Some e
               | Inr binding \<Rightarrow>
                  if expectedPrecondition p ''remove.binding'' \<noteq> Some binding \<or> length binding \<noteq> token_length then
                    Some (errorsNew ''plan remove binding is invalid'')
                  else None))))"

text \<open>The expected values are empty when the plan does not have them.\<close>

definition expectedText :: "plan \<Rightarrow> string \<Rightarrow> string" where
  "expectedText p field = (case expectedPrecondition p field of None \<Rightarrow> [] | Some v \<Rightarrow> v)"

definition validateRemoveConfirmation :: "plan \<Rightarrow> remove_confirmation \<Rightarrow> goerror option" where
  "validateRemoveConfirmation p c =
     (if rcClusterName c \<noteq> expectedText p ''remove.clusterName'' then
        Some (errorsNew ''cluster names specified do not match'')
      else if rcAcknowledgement c \<noteq> expectedText p ''remove.acknowledgement'' then
        Some (Errorf ''confirmation must exactly equal %q'' [AStr (expectedText p ''remove.acknowledgement'')] [])
      else if rcLeader c \<noteq> expectedText p ''remove.leader'' then
        Some (errorsNew ''confirmation does not specify the current leader'')
      else None)"

definition removePlan :: "string \<Rightarrow> remove_request \<Rightarrow> snapshot \<Rightarrow> string \<Rightarrow> plan" where
  "removePlan opID rq sn binding =
     (let keys = removeInventory sn; leader = removeLeader (snCluster sn) in
      \<lparr>pOperationID = opID, pOperation = ''remove'', pTarget = rqTarget rq, pTargets = [], pPath = PathDCS,
       pRisk = RiskDestructive, pRetrySafety = UnsafeAfterSend,
       pSummary = ''delete '' @ FormatInt (int (length keys)) @ '' keys under exact cluster DCS root '' @ ClusterID (rqTarget rq),
       pPreconditions =
         [pre ''dcs.revision'' (FormatInt (snRevision sn)) EvidenceDCS,
          pre ''remove.clusterName'' (tScope (rqTarget rq)) EvidenceControl,
          pre ''remove.acknowledgement'' RemoveAcknowledgement EvidenceControl,
          pre ''remove.leader'' leader EvidenceDCS,
          pre ''remove.keys'' (MarshalStrings (Some keys)) EvidenceDCS,
          pre ''request.citus'' (FormatBool (rqCitus rq)) EvidenceControl,
          pre ''remove.binding'' binding EvidenceControl]\<rparr>)"

definition PrepareRemove :: "'w service \<Rightarrow> 'w goctx \<Rightarrow> remove_request \<Rightarrow> ('w, plan result) prog" where
  "PrepareRemove svc ctx rq0 = do {
     opID \<leftarrow> operationID svc;
     (let (rq, requestError) = normalizeRemoveRequest rq0; t = rqTarget rq;
          fail = (\<lambda>cat retryable message cause. failedRead svc zeroPlan opID ''remove'' t PathDCS cat retryable message cause) in
      if \<not> validContext ctx then fail CategoryUsage False ''remove requires a context'' None
      else if requestError \<noteq> None then fail CategoryUsage False ''remove request is invalid'' requestError
      else do {
        r \<leftarrow> Snapshot svc t;
        (case r of
           Inl err \<Rightarrow> (case classifyReadError (Some err) of (cat, retryable) \<Rightarrow>
             fail cat retryable ''remove cluster snapshot failed'' (Some err))
         | Inr sn \<Rightarrow>
            (case checkSnapshotPatroniVersion svc sn False of
               Some err \<Rightarrow> unsupportedVersionResult svc zeroPlan opID ''remove'' t PathDCS sn (Some err)
             | None \<Rightarrow>
                 if removeInventory sn = [] then
                   failedOnSnapshot svc zeroPlan opID ''remove'' t PathDCS CategoryNotFound
                     ''cluster DCS state does not exist'' None sn ''remove target lookup completed''
                 else (case removePlanBinding svc rq (snRevision sn) (removeLeader (snCluster sn))
                              (MarshalStrings (Some (removeInventory sn))) of
                   Inl err \<Rightarrow> fail CategoryInternal False ''remove Plan binding failed'' (Some err)
                 | Inr binding \<Rightarrow>
                    (let p = removePlan opID rq sn binding in
                     case plan_Validate p of
                       Some err \<Rightarrow> failedOnSnapshot svc zeroPlan opID ''remove'' t PathDCS CategoryInternal
                         ''remove Plan construction failed'' (Some err) sn ''remove inventory completed''
                     | None \<Rightarrow> do {
                         e \<leftarrow> snapshotEvidence svc sn ''remove Plan built from exact DCS key inventory'';
                         State_Monad.return \<lparr>rOperationID = opID, rOutcome = Succeeded, rTarget = t, rPath = PathDCS,
                           rData = p, rEvidence = [e], rError = None\<rparr>
                       }))))
      })
   }"


section \<open>Results\<close>

definition removeSuccess :: "string \<Rightarrow> target \<Rightarrow> remove_data \<Rightarrow> evidence list \<Rightarrow> remove_data result" where
  "removeSuccess opID t d evs =
     \<lparr>rOperationID = opID, rOutcome = Succeeded, rTarget = t, rPath = PathDCS, rData = d, rEvidence = evs, rError = None\<rparr>"

definition removeFailure ::
  "'w service \<Rightarrow> string \<Rightarrow> target \<Rightarrow> remove_data \<Rightarrow> category \<Rightarrow> bool \<Rightarrow> string \<Rightarrow> goerror option \<Rightarrow> evidence list
   \<Rightarrow> ('w, remove_data result) prog" where
  "removeFailure svc opID t d cat retryable message cause evidence = do {
     evs \<leftarrow> orObserved svc evidence EvidenceDCS message PathDCS (rdDCSSendState d);
     State_Monad.return \<lparr>rOperationID = opID, rOutcome = Failed, rTarget = t, rPath = PathDCS,
       rData = d\<lparr>rdVerification := VerifiedFailed\<rparr>, rEvidence = evs,
       rError = Some (NewError cat ''remove'' t retryable message cause evs)\<rparr>
   }"

definition removeUnknown ::
  "'w service \<Rightarrow> string \<Rightarrow> target \<Rightarrow> remove_data \<Rightarrow> string \<Rightarrow> goerror option \<Rightarrow> evidence list
   \<Rightarrow> ('w, remove_data result) prog" where
  "removeUnknown svc opID t d message cause evidence = do {
     evs \<leftarrow> orObserved svc evidence EvidenceDCS message PathDCS (rdDCSSendState d);
     State_Monad.return \<lparr>rOperationID = opID, rOutcome = Unknown, rTarget = t, rPath = PathDCS,
       rData = d\<lparr>rdVerification := Unverified\<rparr>, rEvidence = evs,
       rError = Some (NewError CategoryUnknown ''remove'' t False message cause evs)\<rparr>
   }"


section \<open>Deleting and reading back\<close>

definition removeSendState :: "goerror option \<Rightarrow> send_state" where
  "removeSendState err =
     (if err = None then SendAccepted
      else (case asDCSError err of
              Some (_, DeliveryNotSent) \<Rightarrow> SendNotSent
            | Some (_, DeliveryMaybeSent) \<Rightarrow> SendMaybeSent
            | Some (_, DeliveryResponseReceived) \<Rightarrow> SendAccepted
            | _ \<Rightarrow> SendMaybeSent))"

definition removeDeleteSummary :: "remove_result \<Rightarrow> goerror option \<Rightarrow> string" where
  "removeDeleteSummary w err =
     (if err = None then
        ''DCS exact-root delete received a response for '' @ FormatInt (rmDeleted w) @ '' keys''
      else if removeSendState err = SendNotSent then ''DCS exact-root delete was not sent''
      else ''DCS exact-root delete ended without a verified response'')"

definition verifyRemove :: "'w service \<Rightarrow> target \<Rightarrow> ('w, bool \<times> (string list \<times> int) \<times> evidence list) prog" where
  "verifyRemove svc t =
     verifyLoop svc t restartVerificationInterval
       \<lparr>lwCanceled = ''remove readback canceled'', lwFailed = ''remove readback failed''\<rparr>
       (\<lambda>sn. (removeInventory sn = [],
              if removeInventory sn = [] then ''cluster DCS root is empty'' else ''cluster DCS root still contains keys''))
       (\<lambda>sn. (removeInventory sn, snRevision sn)) (nat (svcVerificationAttempts svc)) False ([], 0) []"

text \<open>\<open>ExecuteRemove\<close> from its last look at the context on.\<close>

definition removeWrite ::
  "'w service \<Rightarrow> 'w goctx \<Rightarrow> string \<Rightarrow> target \<Rightarrow> remove_data \<Rightarrow> string list \<Rightarrow> evidence list
   \<Rightarrow> ('w, remove_data result) prog" where
  "removeWrite svc ctx opID t d keys evs = do {
     ce \<leftarrow> ctxErr ctx;
     (if ce \<noteq> None then
        removeFailure svc opID t (d\<lparr>rdRemainingKeys := keys\<rparr>) CategoryFailed False ''remove was canceled before DCS delete'' ce evs
      else (case svcRemoverDCS svc of
        None \<Rightarrow> removeFailure svc opID t (d\<lparr>rdRemainingKeys := keys\<rparr>) CategoryConfig False
                  ''remove requires a DCS cluster remover capability'' None evs
      | Some cap \<Rightarrow> do {
          (w, deleteError) \<leftarrow> callRemoverDCS cap t;
          let send = removeSendState deleteError;
          e \<leftarrow> observe svc EvidenceDCS (removeDeleteSummary w deleteError) (FormatInt (rmRevision w)) (path_string PathDCS) send;
          (verified, (remaining, revision), vevs) \<leftarrow> verifyRemove svc t;
          (let d = d\<lparr>rdDeleted := rmDeleted w, rdDCSRevision := max (rmRevision w) revision, rdDCSSendState := send,
                     rdRemainingKeys := remaining\<rparr>;
               evs = evs @ [e] @ vevs in
           if verified then
             State_Monad.return (removeSuccess opID t
               (d\<lparr>rdVerification := VerifiedSucceeded, rdNoop := rdNoop d \<or> send = SendNotSent\<rparr>) evs)
           else if send = SendNotSent then
             (case classifyReadError deleteError of (cat, retryable) \<Rightarrow>
               removeFailure svc opID t d cat retryable ''cluster DCS delete was definitely not sent'' deleteError evs)
           else do {
             cause \<leftarrow> unverifiedCause ctx deleteError;
             removeUnknown svc opID t d
               ''cluster DCS deletion was not verified; inspect the exact root before retrying'' cause evs
           })
        }))
   }"


section \<open>Execution\<close>

definition removeStart :: "plan \<Rightarrow> remove_data" where
  "removeStart p =
     zeroRemoveData\<lparr>rdExpectedKeys := int (length (case removePlanKeys p of Inr keys \<Rightarrow> keys | Inl _ \<Rightarrow> [])),
       rdDCSSendState := SendNotSent, rdVerification := Unverified\<rparr>"

definition removeOnSnapshot ::
  "'w service \<Rightarrow> 'w goctx \<Rightarrow> string \<Rightarrow> target \<Rightarrow> plan \<Rightarrow> snapshot \<Rightarrow> evidence list \<Rightarrow> ('w, remove_data result) prog" where
  "removeOnSnapshot svc ctx opID t p sn evs =
     (let d = removeStart p; currentKeys = removeInventory sn in
      if currentKeys = [] then do {
        e \<leftarrow> observe svc EvidenceDCS ''cluster DCS root is already absent'' (FormatInt (snRevision sn)) (snPrefix sn) SendNotSent;
        State_Monad.return (removeSuccess opID t
          (d\<lparr>rdNoop := True, rdVerification := VerifiedSucceeded, rdDCSRevision := snRevision sn\<rparr>) (evs @ [e]))
      }
      else if \<not> reflectStringSlices currentKeys (case removePlanKeys p of Inr keys \<Rightarrow> keys | Inl _ \<Rightarrow> [])
              \<or> removeLeader (snCluster sn) \<noteq> expectedText p ''remove.leader'' then
        removeFailure svc opID t (d\<lparr>rdRemainingKeys := currentKeys\<rparr>) CategoryConflict False
          ''remove was not sent because the confirmed cluster state changed'' None evs
      else removeWrite svc ctx opID t d currentKeys evs)"

definition ExecuteRemove ::
  "'w service \<Rightarrow> 'w goctx \<Rightarrow> remove_request \<Rightarrow> remove_confirmation \<Rightarrow> plan \<Rightarrow> ('w, remove_data result) prog" where
  "ExecuteRemove svc ctx rq0 confirmation p = do {
     opID \<leftarrow> executionID svc p;
     (let (rq, requestError) = normalizeRemoveRequest rq0; t = rqTarget rq;
          refuse = (\<lambda>message cause. failedRead svc zeroRemoveData opID ''remove'' t PathDCS CategoryUsage False message cause) in
      if \<not> validContext ctx then refuse ''remove requires a context'' None
      else if requestError \<noteq> None then refuse ''remove request is invalid'' requestError
      else if validateRemovePlan svc p rq \<noteq> None then
        refuse ''remove Plan does not match the request'' (validateRemovePlan svc p rq)
      else if validateRemoveConfirmation p confirmation \<noteq> None then
        refuse ''remove confirmation does not match the Plan'' (validateRemoveConfirmation p confirmation)
      else do {
        r \<leftarrow> Snapshot svc t;
        (case r of
           Inl err \<Rightarrow> (case classifyReadError (Some err) of (cat, retryable) \<Rightarrow>
             removeFailure svc opID t (removeStart p) cat retryable ''remove execution snapshot failed'' (Some err) [])
         | Inr sn \<Rightarrow>
            (case checkSnapshotPatroniVersion svc sn False of
               Some err \<Rightarrow> unsupportedVersionResult svc zeroRemoveData opID ''remove'' t PathDCS sn (Some err)
             | None \<Rightarrow> do {
                 e \<leftarrow> snapshotEvidence svc sn ''remove key inventory revalidated before delete'';
                 removeOnSnapshot svc ctx opID t p sn [e]
               }))
      })
   }"

end
