(* ===== verification/Remove_Spec.thy ===== *)
theory Remove_Spec
  imports Remove Single_Write Example_Service
begin

text \<open>What removing a cluster guarantees: an instance of the single write, and well-formed results.\<close>

section \<open>Reading back\<close>

definition remove_good :: "snapshot \<Rightarrow> bool" where
  "remove_good sn = (removeInventory sn = [])"

interpretation remove_reading: verification "verifyRemove svc t" t "nat (svcVerificationAttempts svc)"
    remove_good "\<lambda>sn. (removeInventory sn, snRevision sn)" "([], 0)" "clock_ok svc"
  for svc :: "'w service" and t
proof unfold_locales
  show "valid [] (verifyRemove svc t)
      (loop_trace t (nat (svcVerificationAttempts svc)) remove_good (\<lambda>sn. (removeInventory sn, snRevision sn)) ([], 0) (clock_ok svc))"
    unfolding verifyRemove_def remove_good_def by (rule valid_mono [OF verifyLoop_trace]) (auto simp: words_ok_def)
qed

lemmas remove_results = removeSuccess_def removeFailure_def removeUnknown_def

lemma removeSendState_facts [simp]:
  "removeSendState e = SendNotSent \<longleftrightarrow> (\<exists>k. asDCSError e = Some (k, DeliveryNotSent))"
  "validOrEmpty (removeSendState e)" "removeSendState e \<noteq> SendEmpty"
  by (auto simp: removeSendState_def asDCSError_def errors_chain_def split: option.splits delivery.splits)

lemma removeDeleteSummary_nonempty [simp]: "removeDeleteSummary w e \<noteq> []"
  by (simp add: removeDeleteSummary_def)

lemma removeInventory_sorted [simp]: "sorted (removeInventory sn)"
  by (simp add: removeInventory_def)


section \<open>The write\<close>

definition cluster_delete :: "target \<Rightarrow> event \<Rightarrow> bool" where
  "cluster_delete t w = (\<exists>r e. w = EvDeleteCluster t r e)"

lemma removeWrite_trace:
  assumes "ctx \<noteq> None"
  shows "valid [] (removeWrite svc ctx opID t d keys evs) (\<lambda>r.
    write_trace (cluster_delete t) definite t (nat (svcVerificationAttempts svc)) remove_good (rOutcome r))"
  unfolding removeWrite_def remove_results Let_def
  by (intro wp remove_reading.settles) (use assms in \<open>auto simp: write_trace_def cluster_delete_def looks_confirm\<close>)


section \<open>The execution\<close>

definition remove_guard :: "'w service \<Rightarrow> 'w goctx \<Rightarrow> remove_request \<Rightarrow> remove_confirmation \<Rightarrow> plan \<Rightarrow> bool" where
  "remove_guard svc ctx rq c p =
     (ctx \<noteq> None \<and> snd (normalizeRemoveRequest rq) = None
      \<and> validateRemovePlan svc p (fst (normalizeRemoveRequest rq)) = None \<and> validateRemoveConfirmation p c = None)"

lemma remove_guardI:
  "ctx \<noteq> None \<Longrightarrow> snd (normalizeRemoveRequest rq) = None
   \<Longrightarrow> validateRemovePlan svc p (fst (normalizeRemoveRequest rq)) = None \<Longrightarrow> validateRemoveConfirmation p c = None
   \<Longrightarrow> remove_guard svc ctx rq c p"
  by (simp add: remove_guard_def)

text \<open>Delete only what was confirmed: exactly the planned keys under the planned leader.\<close>

definition removeDecision :: "'w service \<Rightarrow> plan \<Rightarrow> snapshot \<Rightarrow> decision" where
  "removeDecision svc p sn =
     (if checkSnapshotPatroniVersion svc sn False \<noteq> None then Refused
      else if removeInventory sn = [] then Settled
      else if removePlanKeys p = Inr (removeInventory sn) \<and> expectedText p ''remove.leader'' = removeLeader (snCluster sn)
      then Admitted else Refused)"

lemma normalizeRemove_target [simp]: "rqTarget (fst (normalizeRemoveRequest rq)) = Normalize (rqTarget rq)"
  by (simp add: normalizeRemoveRequest_def Let_def)

abbreviation remove_trace :: "'w service \<Rightarrow> 'w goctx \<Rightarrow> remove_request \<Rightarrow> remove_confirmation \<Rightarrow> plan \<Rightarrow> outcome \<Rightarrow> event list \<Rightarrow> bool" where
  "remove_trace svc ctx rq c p \<equiv> execution_trace (remove_guard svc ctx rq c p) (one_snapshot (Normalize (rqTarget rq)))
     (no_snapshot (Normalize (rqTarget rq))) (removeDecision svc p) (\<lambda>_. cluster_delete (Normalize (rqTarget rq))) definite
     (\<lambda>_. Normalize (rqTarget rq)) (nat (svcVerificationAttempts svc)) remove_good"

lemma remove_trace_step:
  assumes "remove_guard svc ctx rq c p" and "out = decided (removeDecision svc p sn) definite remove_good ds"
    and "if removeDecision svc p sn = Admitted then write_trace (cluster_delete (Normalize (rqTarget rq))) definite
          (Normalize (rqTarget rq)) (nat (svcVerificationAttempts svc)) remove_good out ds else ds = []"
  shows "remove_trace svc ctx rq c p out (EvSnapshot (Normalize (rqTarget rq)) (Inr sn) # ds)"
  unfolding execution_trace_def one_snapshot_def using assms by (intro disjI2 conjI exI [of _ sn]) auto

lemma remove_trace_unread [simp]:
  "remove_trace svc ctx rq c p Failed []" "remove_trace svc ctx rq c p Failed [EvSnapshot (Normalize (rqTarget rq)) (Inl e)]"
  by (simp_all add: execution_trace_def no_snapshot_def)

lemma remove_trace_version:
  assumes "remove_guard svc ctx rq c p" and "checkSnapshotPatroniVersion svc sn False = Some err"
  shows "remove_trace svc ctx rq c p Failed [EvSnapshot (Normalize (rqTarget rq)) (Inr sn)]"
  by (rule remove_trace_step) (use assms in \<open>simp_all add: removeDecision_def decided_def\<close>)

lemma valid_plan_keys:
  assumes "validateRemovePlan svc p rq = None"
  obtains keys where "removePlanKeys p = Inr keys" "keys \<noteq> []"
  using assms by (auto simp: validateRemovePlan_def split: option.splits if_splits sum.splits)

lemma removeOnSnapshot_trace:
  assumes g: "remove_guard svc ctx rq c p" and v: "checkSnapshotPatroniVersion svc sn False = None"
  shows "valid [EvSnapshot (Normalize (rqTarget rq)) (Inr sn)]
    (removeOnSnapshot svc ctx opID (Normalize (rqTarget rq)) p sn evs) (\<lambda>r. remove_trace svc ctx rq c p (rOutcome r))"
proof -
  have ctx: "ctx \<noteq> None" using g by (simp add: remove_guard_def)
  obtain keys where k: "removePlanKeys p = Inr keys" using g valid_plan_keys by (metis remove_guard_def)
  show ?thesis
    unfolding removeOnSnapshot_def remove_results Let_def
    by (intro wp valid_use [OF removeWrite_trace [OF ctx]])
       (auto simp: removeDecision_def v k decided_def intro!: remove_trace_step [OF g] intro: write_trace_verdict)
qed

interpretation remove_write: single_write "ExecuteRemove svc ctx rq c p" "remove_guard svc ctx rq c p"
    "one_snapshot (Normalize (rqTarget rq))" "no_snapshot (Normalize (rqTarget rq))" "removeDecision svc p"
    "\<lambda>_. cluster_delete (Normalize (rqTarget rq))" definite "\<lambda>_. Normalize (rqTarget rq)"
    "nat (svcVerificationAttempts svc)" remove_good
  for svc :: "'w service" and ctx rq c p
proof unfold_locales
  show "valid [] (ExecuteRemove svc ctx rq c p) (\<lambda>r. remove_trace svc ctx rq c p (rOutcome r))"
    unfolding ExecuteRemove_def removeFailure_def Let_def split_beta normalizeRemove_target
    by (intro wp)
       (auto simp: failed_with_def validContext_def intro!: removeOnSnapshot_trace remove_trace_version remove_guardI)
qed (auto simp: one_snapshot_def no_snapshot_def cluster_delete_def)


section \<open>Well-formed results\<close>

definition remove_data_ok :: "remove_data \<Rightarrow> bool" where
  "remove_data_ok d =
     (validOrEmpty (rdDCSSendState d) \<and> rdDCSSendState d \<noteq> SendEmpty \<and> 0 \<le> rdExpectedKeys d \<and> sorted (rdRemainingKeys d))"

lemma remove_data_Validate_None:
  "remove_data_Validate d = None \<longleftrightarrow>
     remove_data_ok d \<and> 0 \<le> rdDeleted d \<and> 0 \<le> rdDCSRevision d \<and> verification_valid (rdVerification d)
     \<and> (rdNoop d \<longrightarrow> rdDCSSendState d = SendNotSent \<and> rdVerification d = VerifiedSucceeded)"
  by (auto simp: remove_data_Validate_def remove_data_ok_def)

lemma removeStart_ok [simp]:
  "remove_data_ok (removeStart p)" "rdDeleted (removeStart p) = 0" "rdDCSRevision (removeStart p) = 0" "\<not> rdNoop (removeStart p)"
  "rdDCSSendState (removeStart p) = SendNotSent" "rdVerification (removeStart p) = Unverified" "rdRemainingKeys (removeStart p) = []"
  "0 \<le> rdExpectedKeys (removeStart p)"
  by (simp_all add: removeStart_def zeroRemoveData_def remove_data_ok_def)

text \<open>The DCS counts the deleted keys from zero.\<close>

definition counts_ok :: "event list \<Rightarrow> bool" where
  "counts_ok es = (\<forall>t r e. EvDeleteCluster t r e \<in> set es \<longrightarrow> 0 \<le> rmDeleted r)"

definition remove_valid :: "remove_data result \<Rightarrow> event list \<Rightarrow> bool" where
  "remove_valid r es =
     (result_Validate r = None
      \<and> (rData r = zeroRemoveData \<or> \<not> revisions_ok es \<or> \<not> counts_ok es \<or> remove_data_Validate (rData r) = None))"

lemma remove_remembered:
  "remembers (\<lambda>sn. (removeInventory sn, snRevision sn)) ([], 0) (keys, rv) ds \<Longrightarrow> sorted keys"
  using remembers_pair(2) by fastforce

lemma removeWrite_valid:
  assumes "clock_ok svc" "opID \<noteq> []" "target_ok t" "evs \<noteq> []" "evidence_all_ok evs" "sorted keys"
  shows "valid es (removeWrite svc ctx opID t (removeStart p) keys evs) remove_valid"
  unfolding removeWrite_def remove_results Let_def
  by (intro wp remove_reading.settles)
     (use assms in \<open>auto simp: remove_valid_def remove_data_Validate_None remove_data_ok_def max_def counts_ok_def
        dest: classifyReadError_category remembers_pair(1) remove_remembered\<close>)

lemma removeOnSnapshot_valid:
  assumes "clock_ok svc" "opID \<noteq> []" "target_ok t" "evs \<noteq> []" "evidence_all_ok evs" and "EvSnapshot u (Inr sn) \<in> set es"
  shows "valid es (removeOnSnapshot svc ctx opID t p sn evs) remove_valid"
  unfolding removeOnSnapshot_def remove_results Let_def
  by (intro wp removeWrite_valid)
     (use assms removeInventory_sorted [of sn] in
       \<open>auto simp: remove_valid_def remove_data_Validate_None remove_data_ok_def simp del: removeInventory_sorted
          dest: revisions_ok_snapshot [OF _ assms(6)]\<close>)

lemma ExecuteRemove_valid:
  assumes "clock_ok svc" and "target_ok (Normalize (rqTarget rq))"
  shows "valid [] (ExecuteRemove svc ctx rq c p) remove_valid"
  unfolding ExecuteRemove_def Let_def split_beta normalizeRemove_target removeFailure_def
  by (intro wp removeOnSnapshot_valid)
     (use assms in \<open>auto simp: remove_valid_def remove_data_Validate_None remove_data_ok_def dest: failed_valid\<close>)


section \<open>Preparation\<close>

text \<open>What the plan check asks of an inventory: keys that are not blank, and no key twice.\<close>

definition inventory_ok :: "string list \<Rightarrow> bool" where
  "inventory_ok keys = (distinct keys \<and> (\<forall>k \<in> set keys. TrimSpace k \<noteq> []))"

lemma emptyOrDuplicated_iff:
  "sorted keys \<Longrightarrow> emptyOrDuplicated previous keys \<longleftrightarrow>
     \<not> inventory_ok keys \<or> (\<exists>k. previous = Some k \<and> keys \<noteq> [] \<and> hd keys = k)"
proof (induction keys arbitrary: previous)
  case (Cons k ks)
  have "k \<in> set ks \<Longrightarrow> ks \<noteq> [] \<and> hd ks = k"
    using Cons.prems by (cases ks) (auto intro: antisym)
  with Cons show ?case by (cases ks) (auto simp: inventory_ok_def)
qed (simp add: inventory_ok_def)

definition remove_prepared :: "'w service \<Rightarrow> remove_request \<Rightarrow> plan result \<Rightarrow> event list \<Rightarrow> bool" where
  "remove_prepared svc rq r es =
     (list_all is_read es \<and> length es \<le> 1
      \<and> (rOutcome r = Failed \<and> rData r = zeroPlan
         \<or> rOutcome r = Succeeded
           \<and> (\<exists>sn. es = [EvSnapshot (Normalize (rqTarget rq)) (Inr sn)]
                \<and> checkSnapshotPatroniVersion svc sn False = None \<and> removeInventory sn \<noteq> []
                \<and> (\<forall>c. validateRemoveConfirmation (rData r) c = None \<longleftrightarrow>
                      c = \<lparr>rcClusterName = tScope (Normalize (rqTarget rq)), rcAcknowledgement = ''Yes I am aware'',
                           rcLeader = removeLeader (snCluster sn)\<rparr>)
                \<and> ((\<forall>k \<in> set (removeInventory sn). utf8_valid k) \<and> snRevision sn \<in> {- (2 ^ 63)..<2 ^ 63} \<longrightarrow>
                      (validateRemovePlan svc (rData r) (fst (normalizeRemoveRequest rq)) = None \<longleftrightarrow>
                         inventory_ok (removeInventory sn) \<and> 0 < snRevision sn)
                      \<and> (inventory_ok (removeInventory sn) \<longrightarrow>
                           (\<forall>sn'. removeDecision svc (rData r) sn' = Admitted \<longleftrightarrow>
                              checkSnapshotPatroniVersion svc sn' False = None \<and> removeInventory sn' = removeInventory sn
                              \<and> removeLeader (snCluster sn') = removeLeader (snCluster sn)))))))"

lemma removePlan_fields:
  assumes "p = removePlan opID rq sn binding"
  shows "expectedPrecondition p ''dcs.revision'' = Some (FormatInt (snRevision sn))"
    "expectedPrecondition p ''remove.clusterName'' = Some (tScope (rqTarget rq))"
    "expectedPrecondition p ''remove.acknowledgement'' = Some ''Yes I am aware''"
    "expectedPrecondition p ''remove.leader'' = Some (removeLeader (snCluster sn))"
    "expectedPrecondition p ''remove.keys'' = Some (MarshalStrings (Some (removeInventory sn)))"
    "expectedPrecondition p ''request.citus'' = Some (FormatBool (rqCitus rq))" "expectedPrecondition p ''remove.binding'' = Some binding"
    "pOperation p = ''remove''" "pPath p = PathDCS" "pRisk p = RiskDestructive" "pRetrySafety p = UnsafeAfterSend" "pTarget p = rqTarget rq"
  by (simp_all add: assms expectedPrecondition_find removePlan_def Let_def RemoveAcknowledgement_def)

lemma remove_prepared_failed:
  "failed_with svc zeroPlan opID operation t path cat message evs r \<Longrightarrow> list_all is_read es \<Longrightarrow> length es \<le> 1
   \<Longrightarrow> remove_prepared svc rq r es"
  by (simp add: remove_prepared_def failed_with_def)

lemma remove_prepared_planned:
  assumes t: "tokens_ok svc" and sn: "checkSnapshotPatroniVersion svc sn False = None" "removeInventory sn \<noteq> []"
    and b: "removePlanBinding svc (fst (normalizeRemoveRequest rq)) (snRevision sn) (removeLeader (snCluster sn))
              (MarshalStrings (Some (removeInventory sn))) = Inr binding"
    and v: "plan_Validate (removePlan opID (fst (normalizeRemoveRequest rq)) sn binding) = None"
  shows "remove_prepared svc rq \<lparr>rOperationID = opID, rOutcome = Succeeded, rTarget = Normalize (rqTarget rq), rPath = PathDCS,
      rData = removePlan opID (fst (normalizeRemoveRequest rq)) sn binding, rEvidence = evs, rError = None\<rparr>
      [EvSnapshot (Normalize (rqTarget rq)) (Inr sn)]"
proof -
  define p where "p = removePlan opID (fst (normalizeRemoveRequest rq)) sn binding"
  note f = removePlan_fields [OF p_def]
  have keys: "removePlanKeys p = (if inventory_ok (removeInventory sn) then Inr (removeInventory sn)
      else Inl (errorsNew ''plan remove keys are empty or duplicated''))" if "\<forall>k \<in> set (removeInventory sn). utf8_valid k"
    by (simp add: removePlanKeys_def f UnmarshalStrings_Marshal [OF that] emptyOrDuplicated_iff)
  have "length binding = token_length" using planToken_length [OF t] b unfolding removePlanBinding_def by blast
  then have accept: "validateRemovePlan svc p (fst (normalizeRemoveRequest rq)) = None \<longleftrightarrow> inventory_ok (removeInventory sn) \<and> 0 < snRevision sn"
    if "\<forall>k \<in> set (removeInventory sn). utf8_valid k" "snRevision sn \<in> {- (2 ^ 63)..<2 ^ 63}"
    using v b sn(2) that(2) ParseInt_FormatInt [of "snRevision sn"]
    by (auto simp: validateRemovePlan_def p_def [symmetric] f keys [OF that(1)] RemoveAcknowledgement_def)
  have "validateRemoveConfirmation p c = None \<longleftrightarrow> c = \<lparr>rcClusterName = tScope (Normalize (rqTarget rq)),
      rcAcknowledgement = ''Yes I am aware'', rcLeader = removeLeader (snCluster sn)\<rparr>" for c
    by (cases c) (simp add: validateRemoveConfirmation_def expectedText_def f)
  moreover have "removeDecision svc p sn' = Admitted \<longleftrightarrow> checkSnapshotPatroniVersion svc sn' False = None
      \<and> removeInventory sn' = removeInventory sn \<and> removeLeader (snCluster sn') = removeLeader (snCluster sn)"
    if "\<forall>k \<in> set (removeInventory sn). utf8_valid k" "inventory_ok (removeInventory sn)" for sn'
    using that(2) sn(2) by (auto simp: removeDecision_def keys [OF that(1)] expectedText_def f)
  ultimately show ?thesis using accept sn unfolding remove_prepared_def p_def [symmetric] by auto
qed

lemma PrepareRemove_prepared:
  assumes "tokens_ok svc"
  shows "valid [] (PrepareRemove svc ctx rq) (remove_prepared svc rq)"
  unfolding PrepareRemove_def Let_def split_beta normalizeRemove_target
  by (intro wp) (use assms in \<open>auto elim!: remove_prepared_failed intro!: remove_prepared_planned\<close>)

end
