(* ===== verification/Standby_Cluster.thy ===== *)
theory Standby_Cluster
  imports Plan_Tokens Pause Reinitialize
begin

text \<open>
  Turning a cluster into a standby cluster and back, \<^verbatim>\<open>src/control/standby_cluster.go\<close>: the current
  leader is asked to patch the \<open>standby_cluster\<close> part of the configuration, and the members in the DCS are
  watched until the roles have followed.
\<close>

section \<open>Requests and data\<close>

definition primaryClusterRole :: string where
  "primaryClusterRole = ''primary''"

definition standbyLeaderRole :: string where
  "standbyLeaderRole = ''standby_leader''"

record standby_config =
  scHost :: string
  scPort :: int
  scRestoreCommand :: string
  scPrimarySlotName :: string

record demote_cluster_request =
  dmTarget :: target
  dmStandby :: standby_config
  dmForce :: bool
  dmCitus :: bool

record promote_cluster_request =
  pmTarget :: target
  pmForce :: bool
  pmCitus :: bool

record cluster_role_data =
  crPreviousLeader :: string
  crLeader :: string
  crDesiredRole :: string
  crRESTSendState :: send_state
  crVerification :: verification
  crHTTPStatus :: int
  crDCSRevision :: int
  crPendingConditions :: "string list"
  crNoop :: bool

definition zeroClusterRoleData :: cluster_role_data where
  "zeroClusterRoleData = \<lparr>crPreviousLeader = [], crLeader = [], crDesiredRole = [], crRESTSendState = SendEmpty,
     crVerification = VerificationOther [], crHTTPStatus = 0, crDCSRevision = 0, crPendingConditions = [], crNoop = False\<rparr>"

definition cluster_role_Validate :: "cluster_role_data \<Rightarrow> goerror option" where
  "cluster_role_Validate d =
     (if crDesiredRole d \<noteq> primaryClusterRole \<and> crDesiredRole d \<noteq> standbyLeaderRole then
        Some (Errorf ''standby-cluster desired role %q is invalid'' [AStr (crDesiredRole d)] [])
      else if \<not> validOrEmpty (crRESTSendState d) \<or> crRESTSendState d = SendEmpty then
        Some (Errorf ''standby-cluster REST send state %q is invalid'' [AStr (send_text (crRESTSendState d))] [])
      else if \<not> verification_valid (crVerification d) then
        Some (Errorf ''standby-cluster verification %q is invalid'' [AStr (verification_text (crVerification d))] [])
      else if crHTTPStatus d < 0 \<or> crDCSRevision d < 0 then
        Some (errorsNew ''standby-cluster status and revision must be non-negative'')
      else if \<not> sorted (crPendingConditions d) then
        Some (errorsNew ''standby-cluster pending conditions must be deterministic'')
      else if crNoop d \<and> (crRESTSendState d \<noteq> SendNotSent \<or> crVerification d \<noteq> VerifiedSucceeded) then
        Some (errorsNew ''standby-cluster no-op requires verified NOT_SENT success'')
      else None)"

record standby_intent =
  siOperation :: string
  siTarget :: target
  siStandby :: "standby_config option"
  siForce :: bool
  siCitus :: bool
  siDesired :: string

definition validateStandbyClusterTarget :: "target \<Rightarrow> goerror option" where
  "validateStandbyClusterTarget t =
     (if tMember t \<noteq> [] then Some (errorsNew ''standby-cluster transition target must be a cluster'')
      else map_option errorsNew (Validate t True))"

definition normalizeDemoteClusterRequest :: "demote_cluster_request \<Rightarrow> standby_intent \<times> goerror option" where
  "normalizeDemoteClusterRequest rq =
     (let t = Normalize (dmTarget rq); c = dmStandby rq in
      (\<lparr>siOperation = ''demote-cluster'', siTarget = t, siStandby = Some c, siForce = dmForce rq, siCitus = dmCitus rq,
        siDesired = standbyLeaderRole\<rparr>,
       case validateStandbyClusterTarget t of
         Some e \<Rightarrow> Some e
       | None \<Rightarrow>
          if dmCitus rq \<and> tGroup t \<noteq> None then
            Some (errorsNew ''demote-cluster does not accept a Citus group; coordinator group 0 is selected'')
          else if scHost c = [] \<and> scPort c = 0 \<and> scRestoreCommand c = [] then
            Some (errorsNew ''at least host, port, or restore command is required'')
          else None))"

definition normalizePromoteClusterRequest :: "promote_cluster_request \<Rightarrow> standby_intent \<times> goerror option" where
  "normalizePromoteClusterRequest rq =
     (let t = Normalize (pmTarget rq) in
      (\<lparr>siOperation = ''promote-cluster'', siTarget = t, siStandby = None, siForce = pmForce rq, siCitus = pmCitus rq,
        siDesired = primaryClusterRole\<rparr>,
       case validateStandbyClusterTarget t of
         Some e \<Rightarrow> Some e
       | None \<Rightarrow>
          if pmCitus rq \<and> tGroup t \<noteq> None then
            Some (errorsNew ''promote-cluster does not accept a Citus group; coordinator group 0 is selected'')
          else None))"


section \<open>The leader and the payload\<close>

text \<open>
  A selection: the leader member and the address of its REST API.  A failed one has a category, an
  error, and the leader member when only the address was unusable.
\<close>

type_synonym standby_selection = "(category \<times> goerror \<times> dcs_member option) + (dcs_member \<times> string)"

definition resolveStandbyClusterSelection :: "snapshot \<Rightarrow> standby_selection" where
  "resolveStandbyClusterSelection sn =
     (case cLeader (snCluster sn) of
        None \<Rightarrow> Inl (CategoryNotFound, errorsNew ''cluster has no leader'', None)
      | Some l \<Rightarrow>
          if TrimSpace (lName l) = [] then Inl (CategoryNotFound, errorsNew ''cluster has no leader'', None)
          else (case find (\<lambda>m. mName m = lName l) (cMembers (snCluster sn)) of
             None \<Rightarrow> Inl (CategoryNotFound, errorsNew ''current leader member is absent'', None)
           | Some m \<Rightarrow>
               (case patroniBaseURL (mdAPIURL (mData m)) of
                  Inl _ \<Rightarrow> Inl (CategoryConfig, errorsNew ''current leader has no usable Patroni API URL'', Some m)
                | Inr url \<Rightarrow> Inr (m, url))))"

definition selectedLeader :: "standby_selection \<Rightarrow> dcs_member option" where
  "selectedLeader sel = (case sel of Inl (_, _, m) \<Rightarrow> m | Inr (m, _) \<Rightarrow> Some m)"

definition standbyClusterPayload :: "standby_intent \<Rightarrow> jobject" where
  "standbyClusterPayload si =
     [(''standby_cluster'',
       case siStandby si of
         None \<Rightarrow> JNull
       | Some c \<Rightarrow> JObj (
           (if scHost c \<noteq> [] then [(''host'', JStr (scHost c))] else [])
           @ (if scPort c \<noteq> 0 then [(''port'', JNum (FormatInt (scPort c)))] else [])
           @ (if scPrimarySlotName c \<noteq> [] then [(''primary_slot_name'', JStr (scPrimarySlotName c))] else [])
           @ (if scRestoreCommand c \<noteq> [] then [(''restore_command'', JStr (scRestoreCommand c))] else [])))]"


section \<open>Bindings\<close>

definition standbyClusterRequestBinding :: "'w service \<Rightarrow> standby_intent \<Rightarrow> goerror + string" where
  "standbyClusterRequestBinding svc si =
     planToken svc ''standby-cluster/request'' (MarshalStruct
       [(''operation'', JStr (siOperation si)), (''target'', JStr (ClusterID (siTarget si))), (''force'', JBool (siForce si)),
        (''citus'', JBool (siCitus si)), (''payload'', JObj (standbyClusterPayload si))])"

text \<open>Of the selected leader the name, the role and the state are bound.\<close>

definition standbyClusterStateBinding ::
  "'w service \<Rightarrow> standby_intent \<Rightarrow> string \<Rightarrow> string \<Rightarrow> string \<Rightarrow> goerror + string" where
  "standbyClusterStateBinding svc si leader role state =
     planToken svc ''standby-cluster/state'' (MarshalStruct
       [(''operation'', JStr (siOperation si)), (''target'', JStr (ClusterID (siTarget si))), (''leader'', JStr leader),
        (''role'', JStr role), (''state'', JStr state)])"

definition standbyClusterEndpointBinding :: "'w service \<Rightarrow> string \<Rightarrow> goerror + string" where
  "standbyClusterEndpointBinding svc baseURL =
     planToken svc ''standby-cluster/endpoint'' (MarshalStruct [(''baseUrl'', JStr baseURL)])"

definition standbyClusterPlanBinding ::
  "'w service \<Rightarrow> standby_intent \<Rightarrow> int \<Rightarrow> string \<Rightarrow> string \<Rightarrow> string \<Rightarrow> string \<Rightarrow> string \<Rightarrow> string \<Rightarrow> goerror + string" where
  "standbyClusterPlanBinding svc si revision leader role state requestBinding stateBinding endpointBinding =
     planToken svc ''standby-cluster/plan'' (MarshalStruct
       [(''operation'', JStr (siOperation si)), (''target'', JStr (ClusterID (siTarget si))), (''revision'', JNum (FormatInt revision)),
        (''leader'', JStr leader), (''role'', JStr role), (''state'', JStr state), (''requestBinding'', JStr requestBinding),
        (''stateBinding'', JStr stateBinding), (''endpointBinding'', JStr endpointBinding)])"


section \<open>Plans\<close>

definition standbyClusterPlan ::
  "string \<Rightarrow> standby_intent \<Rightarrow> snapshot list \<Rightarrow> snapshot \<Rightarrow> dcs_member \<Rightarrow> string \<Rightarrow> string \<Rightarrow> string \<Rightarrow> string \<Rightarrow> plan" where
  "standbyClusterPlan opID si sns sn leader requestBinding stateBinding endpointBinding planBinding =
     \<lparr>pOperationID = opID, pOperation = siOperation si, pTarget = siTarget si,
      pTargets = [Normalize ((Normalize (snTarget sn))\<lparr>tMember := mName leader\<rparr>)],
      pPath = PathREST, pRisk = RiskAvailability, pRetrySafety = UnsafeAfterSend,
      pSummary = siOperation si @ '' cluster through current leader '' @ mName leader @ '' and wait for ''
        @ siDesired si @ ''/running convergence'',
      pPreconditions =
        [pre ''dcs.revision'' (FormatInt (snRevision sn)) EvidenceDCS,
         pre ''cluster.leader'' (mName leader) EvidenceDCS,
         pre ''leader.role'' (mdRole (mData leader)) EvidenceDCS,
         pre ''leader.state'' (mdState (mData leader)) EvidenceDCS,
         pre ''desired.role'' (siDesired si) EvidenceControl,
         pre ''request.force'' (FormatBool (siForce si)) EvidenceControl,
         pre ''selector.citus'' (FormatBool (siCitus si)) EvidenceControl,
         pre ''citus.groups'' (snapshotGroupIDs sns) EvidenceDCS,
         pre ''request.binding'' requestBinding EvidenceControl,
         pre ''state.binding'' stateBinding EvidenceControl,
         pre ''endpoint.binding'' endpointBinding EvidenceControl,
         pre ''plan.binding'' planBinding EvidenceControl]\<rparr>"

definition standbyClusterSnapshots :: "'w service \<Rightarrow> standby_intent \<Rightarrow> ('w, read_outcome) prog" where
  "standbyClusterSnapshots svc si =
     (if siCitus si then citusCoordinatorSnapshot svc (siOperation si) (siTarget si) False
      else operationSnapshots svc (siOperation si) (siTarget si) False False)"

text \<open>The bindings of a plan, in the order the code makes them; a failure has the words of its step.\<close>

definition standbyClusterBindings ::
  "'w service \<Rightarrow> standby_intent \<Rightarrow> int \<Rightarrow> dcs_member \<Rightarrow> string
   \<Rightarrow> (string \<times> goerror) + (string \<times> string \<times> string \<times> string)" where
  "standbyClusterBindings svc si revision leader baseURL =
     (let name = mName leader; role = mdRole (mData leader); state = mdState (mData leader) in
      case standbyClusterRequestBinding svc si of
        Inl err \<Rightarrow> Inl ('' request binding failed'', err)
      | Inr request \<Rightarrow>
      (case standbyClusterStateBinding svc si name role state of
        Inl err \<Rightarrow> Inl ('' state binding failed'', err)
      | Inr stateB \<Rightarrow>
      (case standbyClusterEndpointBinding svc baseURL of
        Inl err \<Rightarrow> Inl ('' endpoint binding failed'', err)
      | Inr endpoint \<Rightarrow>
      (case standbyClusterPlanBinding svc si revision name role state request stateB endpoint of
        Inl err \<Rightarrow> Inl ('' Plan binding failed'', err)
      | Inr planB \<Rightarrow> Inr (request, stateB, endpoint, planB)))))"

text \<open>\<open>failedReadWithEvidence\<close> with one more piece of evidence, from a snapshot.\<close>

definition failedOnSelection ::
  "'w service \<Rightarrow> string \<Rightarrow> standby_intent \<Rightarrow> category \<Rightarrow> string \<Rightarrow> goerror option \<Rightarrow> evidence list \<Rightarrow> snapshot \<Rightarrow> string
   \<Rightarrow> ('w, plan result) prog" where
  "failedOnSelection svc opID si cat message cause evs sn summary = do {
     e \<leftarrow> snapshotEvidence svc sn summary;
     failedReadWithEvidence svc zeroPlan opID (siOperation si) (siTarget si) PathREST cat False message cause (evs @ [e])
   }"

definition prepareOnSnapshots ::
  "'w service \<Rightarrow> string \<Rightarrow> standby_intent \<Rightarrow> evidence list \<Rightarrow> snapshot list \<Rightarrow> ('w, plan result) prog" where
  "prepareOnSnapshots svc opID si evs sns =
     (let op = siOperation si; t = siTarget si; sn = hd sns in
      case resolveStandbyClusterSelection sn of
        Inl (cat, err, _) \<Rightarrow>
          failedOnSelection svc opID si cat (op @ '' leader selection failed'') (Some err) evs sn (op @ '' leader selection completed'')
      | Inr (leader, baseURL) \<Rightarrow>
          if mdRole (mData leader) = siDesired si then
            failedOnSelection svc opID si CategoryConflict ''cluster is already in the required state'' None evs sn
              (op @ '' observed current cluster role'')
          else (case standbyClusterBindings svc si (snRevision sn) leader baseURL of
            Inl (words, err) \<Rightarrow> failedRead svc zeroPlan opID op t PathREST CategoryInternal False (op @ words) (Some err)
          | Inr (request, stateB, endpoint, planB) \<Rightarrow>
              (let p = standbyClusterPlan opID si sns sn leader request stateB endpoint planB in
               case plan_Validate p of
                 Some err \<Rightarrow> failedOnSnapshot svc zeroPlan opID op t PathREST CategoryInternal
                   (op @ '' Plan construction failed'') (Some err) sn (op @ '' leader selection completed'')
               | None \<Rightarrow> State_Monad.return \<lparr>rOperationID = opID, rOutcome = Succeeded, rTarget = t, rPath = PathREST,
                   rData = p, rEvidence = evs, rError = None\<rparr>)))"

definition prepareStandbyCluster ::
  "'w service \<Rightarrow> 'w goctx \<Rightarrow> standby_intent \<Rightarrow> goerror option \<Rightarrow> ('w, plan result) prog" where
  "prepareStandbyCluster svc ctx si requestError = do {
     opID \<leftarrow> operationID svc;
     (let op = siOperation si; t = siTarget si in
      if \<not> validContext ctx then
        failedRead svc zeroPlan opID op t PathREST CategoryUsage False (op @ '' requires a context'') None
      else if requestError \<noteq> None then
        failedRead svc zeroPlan opID op t PathREST CategoryUsage False (op @ '' request is invalid'') requestError
      else do {
        (evs, r) \<leftarrow> standbyClusterSnapshots svc si;
        (case r of
           Inl failure \<Rightarrow> failedReadWithEvidence svc zeroPlan opID op t PathREST (dfCategory failure) (dfRetryable failure)
             (dfMessage failure) (dfCause failure) evs
         | Inr sns \<Rightarrow>
             (case checkSnapshotsFeature sns FeatureStandbyClusterCLI of
                Some err \<Rightarrow> failedReadWithEvidence svc zeroPlan opID op t PathREST CategoryUnsupported False
                  (op @ '' requires Patroni 4.1 or newer'') (Some err) evs
              | None \<Rightarrow> prepareOnSnapshots svc opID si evs sns))
      })
   }"

definition standby_fields :: "string list" where
  "standby_fields = [''dcs.revision'', ''cluster.leader'', ''leader.role'', ''leader.state'', ''desired.role'', ''request.force'',
     ''selector.citus'', ''citus.groups'', ''request.binding'', ''state.binding'', ''endpoint.binding'', ''plan.binding'']"

text \<open>The field of the error is the first one wrong in the order of the list; Go's map may name another.\<close>

definition validateStandbyClusterPlan :: "'w service \<Rightarrow> plan \<Rightarrow> standby_intent \<Rightarrow> goerror option" where
  "validateStandbyClusterPlan svc p si =
     (case plan_Validate p of
        Some e \<Rightarrow> Some e
      | None \<Rightarrow>
         if pOperation p \<noteq> siOperation si \<or> pPath p \<noteq> PathREST \<or> pRisk p \<noteq> RiskAvailability
            \<or> pRetrySafety p \<noteq> UnsafeAfterSend then
           Some (errorsNew ''plan operation contract differs from standby-cluster transition'')
         else if ClusterID (Normalize (pTarget p)) \<noteq> ClusterID (siTarget si) \<or> length (pTargets p) \<noteq> 1 then
           Some (errorsNew ''plan cluster or leader target differs from request'')
         else (case find (\<lambda>f. count_list (map pcField (pPreconditions p)) f \<noteq> 1) standby_fields of
           Some f \<Rightarrow> Some (Errorf ''plan requires exactly one %s precondition'' [AStr f] [])
         | None \<Rightarrow>
            (let field = expectedPrecondition p;
                 leader = the (field ''cluster.leader''); role = the (field ''leader.role''); state = the (field ''leader.state'');
                 request = the (field ''request.binding''); stateB = the (field ''state.binding'');
                 endpoint = the (field ''endpoint.binding''); planB = the (field ''plan.binding'') in
             case ParseInt (the (field ''dcs.revision'')) of
               None \<Rightarrow> Some (errorsNew ''plan standby-cluster preconditions are incomplete'')
             | Some revision \<Rightarrow>
                if leader = [] \<or> revision < 0 \<or> field ''desired.role'' \<noteq> Some (siDesired si)
                   \<or> field ''request.force'' \<noteq> Some (FormatBool (siForce si))
                   \<or> field ''selector.citus'' \<noteq> Some (FormatBool (siCitus si))
                   \<or> request = [] \<or> stateB = [] \<or> endpoint = [] \<or> planB = [] \<or> tMember (hd (pTargets p)) \<noteq> leader then
                  Some (errorsNew ''plan standby-cluster preconditions are incomplete'')
                else (case standbyClusterRequestBinding svc si of
                  Inl e \<Rightarrow> Some e
                | Inr expected \<Rightarrow>
                   if request \<noteq> expected then Some (errorsNew ''plan request binding differs from request'')
                   else if standbyClusterStateBinding svc si leader role state \<noteq> Inr stateB then
                     Some (errorsNew ''plan leader-state binding is invalid'')
                   else if standbyClusterPlanBinding svc si revision leader role state request stateB endpoint \<noteq> Inr planB then
                     Some (errorsNew ''plan binding is invalid'')
                   else None))))"


section \<open>Results\<close>

definition standbyClusterSuccess :: "string \<Rightarrow> standby_intent \<Rightarrow> cluster_role_data \<Rightarrow> evidence list \<Rightarrow> cluster_role_data result" where
  "standbyClusterSuccess opID si d evs =
     \<lparr>rOperationID = opID, rOutcome = Succeeded, rTarget = siTarget si, rPath = PathREST, rData = d, rEvidence = evs, rError = None\<rparr>"

definition standbyClusterFailure ::
  "'w service \<Rightarrow> string \<Rightarrow> standby_intent \<Rightarrow> cluster_role_data \<Rightarrow> category \<Rightarrow> bool \<Rightarrow> string \<Rightarrow> goerror option \<Rightarrow> evidence list
   \<Rightarrow> ('w, cluster_role_data result) prog" where
  "standbyClusterFailure svc opID si d cat retryable message cause evidence = do {
     evs \<leftarrow> orObserved svc evidence EvidenceControl message PathREST (crRESTSendState d);
     State_Monad.return \<lparr>rOperationID = opID, rOutcome = Failed, rTarget = siTarget si, rPath = PathREST,
       rData = d\<lparr>crVerification := VerifiedFailed\<rparr>, rEvidence = evs,
       rError = Some (NewError cat (siOperation si) (siTarget si) retryable message cause evs)\<rparr>
   }"

definition standbyClusterUnknown ::
  "string \<Rightarrow> standby_intent \<Rightarrow> cluster_role_data \<Rightarrow> string \<Rightarrow> goerror option \<Rightarrow> evidence list \<Rightarrow> cluster_role_data result" where
  "standbyClusterUnknown opID si d message cause evs =
     \<lparr>rOperationID = opID, rOutcome = Unknown, rTarget = siTarget si, rPath = PathREST,
      rData = d\<lparr>crVerification := Unverified\<rparr>, rEvidence = evs,
      rError = Some (NewError CategoryUnknown (siOperation si) (siTarget si) False message cause evs)\<rparr>"


section \<open>Convergence\<close>

definition standbyClusterPending :: "cluster_state \<Rightarrow> standby_intent \<Rightarrow> string \<Rightarrow> string list" where
  "standbyClusterPending cl si previousLeader =
     (case cLeader cl of
        None \<Rightarrow> [''leader'']
      | Some l \<Rightarrow>
          if lName l = [] then [''leader'']
          else (case memberMap (cMembers cl) (lName l) of
             None \<Rightarrow> [''leader.member'']
           | Some leader \<Rightarrow> sort (
               (if mdRole (mData leader) \<noteq> siDesired si then [''leader.role''] else [])
               @ (if mdState (mData leader) \<noteq> ''running'' then [''leader.state''] else [])
               @ (if siOperation si = ''demote-cluster''
                     \<and> (case memberMap (cMembers cl) previousLeader of
                          None \<Rightarrow> True | Some old \<Rightarrow> mdState (mData old) \<noteq> ''running'')
                  then [''previous-leader.state''] else []))))"

definition snapshotLeader :: "snapshot \<Rightarrow> string" where
  "snapshotLeader sn = (case cLeader (snCluster sn) of None \<Rightarrow> [] | Some l \<Rightarrow> lName l)"

fun verifyStandbyLoop ::
  "'w service \<Rightarrow> 'w goctx \<Rightarrow> standby_intent \<Rightarrow> target \<Rightarrow> string \<Rightarrow> nat \<Rightarrow> bool \<Rightarrow> string \<times> string list \<times> int \<Rightarrow> evidence list
   \<Rightarrow> ('w, bool \<times> (string \<times> string list \<times> int) \<times> evidence list) prog" where
  "verifyStandbyLoop svc ctx si t previousLeader 0 later x evs = State_Monad.return (False, x, evs)"
| "verifyStandbyLoop svc ctx si t previousLeader (Suc left) later x evs = do {
     ce \<leftarrow> ctxErr ctx;
     w \<leftarrow> (if ce = None \<and> later then Wait svc (svcStandbyInterval svc) else State_Monad.return None);
     (if ce \<noteq> None \<or> w \<noteq> None then do {
        e \<leftarrow> observe svc EvidenceControl (siOperation si @ '' convergence verification canceled'') [] (path_string PathDCS) SendEmpty;
        State_Monad.return (False, x, evs @ [e])
      } else do {
        r \<leftarrow> Snapshot svc (t\<lparr>tMember := []\<rparr>);
        (case r of
           Inl err \<Rightarrow> do {
             e \<leftarrow> observe svc EvidenceDCS (siOperation si @ '' convergence readback failed'') [] (path_string PathDCS) SendEmpty;
             verifyStandbyLoop svc ctx si t previousLeader left True x (evs @ [e])
           }
         | Inr sn \<Rightarrow>
             (let pending = standbyClusterPending (snCluster sn) si previousLeader;
                  seen = (snapshotLeader sn, pending, snRevision sn) in do {
                e \<leftarrow> observe svc EvidenceDCS
                       (siOperation si @ (if pending = [] then '' cluster role is authoritative''
                                          else '' cluster role is not yet authoritative''))
                       (FormatInt (snRevision sn)) (snPrefix sn) SendEmpty;
                (if pending = [] then State_Monad.return (True, seen, evs @ [e])
                 else verifyStandbyLoop svc ctx si t previousLeader left True seen (evs @ [e]))
              }))
      })
   }"

definition verifyStandbyCluster ::
  "'w service \<Rightarrow> 'w goctx \<Rightarrow> standby_intent \<Rightarrow> target \<Rightarrow> string
   \<Rightarrow> ('w, bool \<times> (string \<times> string list \<times> int) \<times> evidence list) prog" where
  "verifyStandbyCluster svc ctx si t previousLeader =
     verifyStandbyLoop svc ctx si t previousLeader (nat (svcStandbyAttempts svc)) False ([], [], 0) []"


section \<open>Execution\<close>

text \<open>\<open>executeStandbyCluster\<close> from its last look at the context on.\<close>

definition standbyClusterWrite ::
  "'w service \<Rightarrow> 'w goctx \<Rightarrow> string \<Rightarrow> standby_intent \<Rightarrow> cluster_role_data \<Rightarrow> string \<Rightarrow> target \<Rightarrow> evidence list
   \<Rightarrow> ('w, cluster_role_data result) prog" where
  "standbyClusterWrite svc ctx opID si d baseURL effective evs = (let op = siOperation si in do {
     ce \<leftarrow> ctxErr ctx;
     (if ce \<noteq> None then
        standbyClusterFailure svc opID si d CategoryFailed False (op @ '' was canceled before REST write'') ce evs
      else (case svcPatroni svc of
        None \<Rightarrow> standbyClusterFailure svc opID si d CategoryConfig False (op @ '' requires a Patroni REST client'') None evs
      | Some client \<Rightarrow> do {
          (response, callError) \<leftarrow> callREST client (PatchConfig baseURL (standbyClusterPayload si));
          let status = respStatus response;
          let send = patroniSendState callError status;
          let d = d\<lparr>crRESTSendState := send, crHTTPStatus := status\<rparr>;
          e \<leftarrow> observe svc EvidencePatroni
                 (if status = 200 then ''Patroni accepted '' @ op @ '' configuration''
                  else if status \<noteq> 0 then ''Patroni rejected '' @ op @ '' configuration''
                  else op @ '' transport ended without an HTTP response'') [] ''/config'' send;
          let evs = evs @ [e];
          (if status \<noteq> 0 \<and> status \<noteq> 200 then
             (case classifyHTTPStatus status of (cat, retryable) \<Rightarrow>
               standbyClusterFailure svc opID si d cat retryable (''Patroni rejected '' @ op) callError evs)
           else if status = 0 \<and> send = SendNotSent then
             (case classifyReadError callError of (cat, retryable) \<Rightarrow>
               standbyClusterFailure svc opID si d cat retryable (op @ '' was definitely not sent'') callError evs)
           else do {
             (verified, (leader, pending, revision), vevs) \<leftarrow> verifyStandbyCluster svc ctx si effective (crPreviousLeader d);
             (let d = d\<lparr>crLeader := leader, crPendingConditions := pending, crDCSRevision := revision\<rparr>; evs = evs @ vevs in
              if verified then State_Monad.return (standbyClusterSuccess opID si (d\<lparr>crVerification := VerifiedSucceeded\<rparr>) evs)
              else do {
                cause \<leftarrow> unverifiedCause ctx callError;
                State_Monad.return (standbyClusterUnknown opID si d
                  (op @ '' was sent or may have been sent but DCS convergence was not verified; inspect cluster role before retrying'')
                  cause evs)
              })
           })
        }))
   })"

definition standbyClusterStart :: "standby_intent \<Rightarrow> plan \<Rightarrow> cluster_role_data" where
  "standbyClusterStart si p =
     zeroClusterRoleData\<lparr>crPreviousLeader := the (expectedPrecondition p ''cluster.leader''), crDesiredRole := siDesired si,
       crRESTSendState := SendNotSent, crVerification := Unverified\<rparr>"

definition inlError :: "goerror + 'a \<Rightarrow> goerror option" where
  "inlError r = (case r of Inl e \<Rightarrow> Some e | Inr _ \<Rightarrow> None)"

text \<open>The selected leader already has the wanted role; its REST address does not matter then.\<close>

definition alreadyDesired :: "standby_intent \<Rightarrow> standby_selection \<Rightarrow> bool" where
  "alreadyDesired si sel =
     (case selectedLeader sel of None \<Rightarrow> False | Some m \<Rightarrow> mName m \<noteq> [] \<and> mdRole (mData m) = siDesired si)"

text \<open>The checks against the first of the fresh snapshots, after the group check.\<close>

definition standbyClusterOnSnapshot ::
  "'w service \<Rightarrow> 'w goctx \<Rightarrow> string \<Rightarrow> standby_intent \<Rightarrow> plan \<Rightarrow> snapshot \<Rightarrow> evidence list
   \<Rightarrow> ('w, cluster_role_data result) prog" where
  "standbyClusterOnSnapshot svc ctx opID si p sn evs =
     (let op = siOperation si; d = standbyClusterStart si p; sel = resolveStandbyClusterSelection sn in
      if alreadyDesired si sel then
        (let pending = standbyClusterPending (snCluster sn) si (crPreviousLeader d);
             d = d\<lparr>crLeader := mName (the (selectedLeader sel)), crDCSRevision := snRevision sn, crPendingConditions := pending\<rparr> in
         if pending = [] then do {
           e \<leftarrow> observe svc EvidenceDCS (op @ '' desired role already converged'') (FormatInt (snRevision sn)) (snPrefix sn) SendNotSent;
           State_Monad.return (standbyClusterSuccess opID si
             (d\<lparr>crNoop := True, crVerification := VerifiedSucceeded\<rparr>) (evs @ [e]))
         }
         else standbyClusterFailure svc opID si d CategoryConflict False
                (op @ '' was not sent because another role transition is incomplete'') None evs)
      else (case sel of
        Inl (_, err, _) \<Rightarrow> standbyClusterFailure svc opID si d CategoryConflict False
          (op @ '' was not sent because the confirmed leader changed'') (Some err) evs
      | Inr (leader, baseURL) \<Rightarrow>
         (let state = standbyClusterStateBinding svc si (mName leader) (mdRole (mData leader)) (mdState (mData leader));
              endpoint = standbyClusterEndpointBinding svc baseURL in
          if state \<noteq> Inr (the (expectedPrecondition p ''state.binding''))
             \<or> endpoint \<noteq> Inr (the (expectedPrecondition p ''endpoint.binding'')) then
            standbyClusterFailure svc opID si d CategoryConflict False
              (op @ '' was not sent because confirmed leader state changed'')
              (errorsJoin [inlError state, inlError endpoint]) evs
          else standbyClusterWrite svc ctx opID si d baseURL (snTarget sn) evs)))"

definition executeStandbyCluster ::
  "'w service \<Rightarrow> 'w goctx \<Rightarrow> standby_intent \<Rightarrow> goerror option \<Rightarrow> plan \<Rightarrow> ('w, cluster_role_data result) prog" where
  "executeStandbyCluster svc ctx si requestError p = do {
     opID \<leftarrow> executionID svc p;
     (let op = siOperation si; d = standbyClusterStart si p;
          refuse = (\<lambda>message cause. failedRead svc zeroClusterRoleData opID op (siTarget si) PathREST CategoryUsage False message cause) in
      if \<not> validContext ctx then refuse (op @ '' requires a context'') None
      else if requestError \<noteq> None then refuse (op @ '' request is invalid'') requestError
      else if validateStandbyClusterPlan svc p si \<noteq> None then
        refuse (op @ '' Plan does not match the request'') (validateStandbyClusterPlan svc p si)
      else do {
        (evs, r) \<leftarrow> standbyClusterSnapshots svc si;
        (case r of
           Inl failure \<Rightarrow> standbyClusterFailure svc opID si d (dfCategory failure) (dfRetryable failure) (dfMessage failure)
             (dfCause failure) evs
         | Inr sns \<Rightarrow>
             (case checkSnapshotsFeature sns FeatureStandbyClusterCLI of
                Some err \<Rightarrow> standbyClusterFailure svc opID si d CategoryUnsupported False
                  (op @ '' requires Patroni 4.1 or newer'') (Some err) evs
              | None \<Rightarrow>
                 (let sn = hd sns in
                  if snapshotGroupIDs sns \<noteq> plannedGroups p
                     \<or> ClusterID (Normalize (hd (pTargets p))) \<noteq> ClusterID (Normalize (snTarget sn)) then
                    standbyClusterFailure svc opID si d CategoryConflict False
                      (op @ '' was not sent because the coordinator group changed'') None evs
                  else do {
                    e \<leftarrow> snapshotEvidence svc sn (op @ '' leader state revalidated before execution'');
                    standbyClusterOnSnapshot svc ctx opID si p sn (evs @ [e])
                  })))
      })
   }"

definition PrepareDemoteCluster :: "'w service \<Rightarrow> 'w goctx \<Rightarrow> demote_cluster_request \<Rightarrow> ('w, plan result) prog" where
  "PrepareDemoteCluster svc ctx rq =
     (case normalizeDemoteClusterRequest rq of (si, err) \<Rightarrow> prepareStandbyCluster svc ctx si err)"

definition ExecuteDemoteCluster ::
  "'w service \<Rightarrow> 'w goctx \<Rightarrow> demote_cluster_request \<Rightarrow> plan \<Rightarrow> ('w, cluster_role_data result) prog" where
  "ExecuteDemoteCluster svc ctx rq p =
     (case normalizeDemoteClusterRequest rq of (si, err) \<Rightarrow> executeStandbyCluster svc ctx si err p)"

definition PreparePromoteCluster :: "'w service \<Rightarrow> 'w goctx \<Rightarrow> promote_cluster_request \<Rightarrow> ('w, plan result) prog" where
  "PreparePromoteCluster svc ctx rq =
     (case normalizePromoteClusterRequest rq of (si, err) \<Rightarrow> prepareStandbyCluster svc ctx si err)"

definition ExecutePromoteCluster ::
  "'w service \<Rightarrow> 'w goctx \<Rightarrow> promote_cluster_request \<Rightarrow> plan \<Rightarrow> ('w, cluster_role_data result) prog" where
  "ExecutePromoteCluster svc ctx rq p =
     (case normalizePromoteClusterRequest rq of (si, err) \<Rightarrow> executeStandbyCluster svc ctx si err p)"

end
