(* ===== verification/Group_Reads.thy ===== *)
theory Group_Reads
  imports Batch_Spec
begin

text \<open>
  What the readings of an operation are, exactly: one snapshot of the target, or a discovery followed by one snapshot
  for each group of the scope that the discovery did not bring along, in the order of the groups.
\<close>

section \<open>The groups of a scope\<close>

definition in_scope :: "target \<Rightarrow> discovered_cluster \<Rightarrow> bool" where
  "in_scope t item =
     (let it = Normalize (dcTarget item) in
      tContext it = tContext t \<and> tNamespace it = tNamespace t \<and> tScope it = tScope t \<and> tGroup it \<noteq> None)"

definition group_items :: "target \<Rightarrow> discovered_cluster list \<Rightarrow> discovered_cluster list" where
  "group_items t items = filter (in_scope t) (sort_key (\<lambda>i. targetKey (dcTarget i)) items)"

text \<open>The snapshot of a group: the one that came with the discovery, or one read for it.\<close>

definition group_read :: "discovered_cluster \<Rightarrow> snapshot \<Rightarrow> event list \<Rightarrow> bool" where
  "group_read item sn ds =
     (if dcSnapshot item = None then ds = [EvSnapshot (Normalize (dcTarget item)) (Inr sn)]
      else ds = [] \<and> dcSnapshot item = Some sn \<and> ClusterID (Normalize (snTarget sn)) = ClusterID (Normalize (dcTarget item)))"

definition snapshots_read :: "target \<Rightarrow> bool \<Rightarrow> snapshot list \<Rightarrow> event list \<Rightarrow> bool" where
  "snapshots_read t citus sns ds =
     (if citus \<and> tGroup (Normalize t) = None
      then \<exists>items rest. ds = EvDiscover (tContext (Normalize t)) (tNamespace (Normalize t)) (Inr items) # rest
        \<and> segments group_read (group_items (Normalize t) items) sns rest
      else \<exists>sn u. sns = [sn] \<and> ds = [EvSnapshot u (Inr sn)] \<and> u = (if citus then Normalize t else t))"

text \<open>At most one reading, or a discovery and at most one reading for each of its clusters.\<close>

definition few_reads :: "event list \<Rightarrow> bool" where
  "few_reads ds =
     (list_all is_read ds
      \<and> (length ds \<le> 1 \<or> (\<exists>c n items rest. ds = EvDiscover c n (Inr items) # rest \<and> length rest \<le> length items)))"

definition exact_reads :: "target \<Rightarrow> bool \<Rightarrow> read_outcome \<Rightarrow> event list \<Rightarrow> bool" where
  "exact_reads t citus out ds =
     (few_reads ds \<and> (case snd out of Inl f \<Rightarrow> True | Inr sns \<Rightarrow> snapshots_read t citus sns ds))"

lemma few_reads_single [simp]: "few_reads []" "few_reads [EvSnapshot t r]" "few_reads [EvDiscover c n (Inl e)]"
  by (simp_all add: few_reads_def)


section \<open>The loop over the groups\<close>

definition group_loop ::
  "target \<Rightarrow> discovered_cluster list \<Rightarrow> snapshot list \<Rightarrow> read_outcome \<Rightarrow> event list \<Rightarrow> bool" where
  "group_loop t items sns out ds =
     (list_all is_read ds \<and> length ds \<le> length items
      \<and> (case snd out of
           Inl f \<Rightarrow> True
         | Inr found \<Rightarrow> \<exists>new. found = sns @ new \<and> segments group_read (filter (in_scope t) items) new ds))"

lemma group_loop_skip: "\<not> in_scope t item \<Longrightarrow> group_loop t items sns out ds \<Longrightarrow> group_loop t (item # items) sns out ds"
  by (auto simp: group_loop_def split: sum.splits)

lemma group_loop_step:
  assumes "in_scope t item" "group_read item sn d" "group_loop t items (sns @ [sn]) out ds"
  shows "group_loop t (item # items) sns out (d @ ds)"
proof -
  have d: "list_all is_read d" "length d \<le> 1" using assms(2) by (auto simp: group_read_def split: if_splits)
  have "\<exists>new. found = sns @ new \<and> segments group_read (item # filter (in_scope t) items) new (d @ ds)"
    if found: "snd out = Inr found" for found
  proof -
    obtain new where new: "found = sns @ sn # new" "segments group_read (filter (in_scope t) items) new ds"
      using assms(3) found by (auto simp: group_loop_def)
    then have "segments group_read (item # filter (in_scope t) items) (sn # new) (d @ ds)" using assms(2) by auto
    with new(1) show ?thesis by blast
  qed
  with d assms(1,3) show ?thesis by (auto simp: group_loop_def split: sum.splits)
qed

lemma citusItemSnapshot_read:
  "valid [] (citusItemSnapshot svc (Normalize (dcTarget item)) item evs)
    (\<lambda>(evs', r) ds. list_all is_read ds \<and> length ds \<le> 1 \<and> (case r of Inl f \<Rightarrow> True | Inr sn \<Rightarrow> group_read item sn ds))"
  unfolding citusItemSnapshot_def by (intro wp) (auto simp: group_read_def)

lemma citusLoop_reads: "valid [] (citusLoop svc operation t allow check items evs sns) (group_loop t items sns)"
proof (induction items arbitrary: evs sns)
  case Nil
  then show ?case by (auto simp: group_loop_def)
next
  case (Cons item items)
  show ?case
  proof (cases "in_scope t item")
    case False
    then have "valid [] (citusLoop svc operation t allow check (item # items) evs sns) (group_loop t items sns)"
      using Cons.IH by (auto simp: in_scope_def Let_def)
    then show ?thesis by (rule valid_mono) (rule group_loop_skip [OF False])
  next
    case True
    then show ?thesis
      unfolding citusLoop.simps Let_def
      by (intro wp valid_use [OF citusItemSnapshot_read] valid_use [OF Cons.IH])
         (auto simp: in_scope_def Let_def group_loop_def [of _ _ _ "(_, Inl _)"] intro: group_loop_step [OF True])
  qed
qed


section \<open>The readings of an operation\<close>

lemma readOne_reads:
  "valid [] (readOneSnapshot svc operation t allow check failed fine)
    (\<lambda>out ds. few_reads ds \<and> (case snd out of Inl f \<Rightarrow> True | Inr sns \<Rightarrow> \<exists>sn. sns = [sn] \<and> ds = [EvSnapshot t (Inr sn)]))"
  unfolding readOneSnapshot_def Let_def by (intro wp) auto

lemma group_loop_few: "group_loop t (sort_key f items) sns out ds \<Longrightarrow> few_reads (EvDiscover c n (Inr items) # ds)"
  by (simp add: group_loop_def few_reads_def)

lemma group_loop_found:
  "group_loop t (sort_key (\<lambda>i. targetKey (dcTarget i)) items) [] (evs, Inr sns) ds \<Longrightarrow> segments group_read (group_items t items) sns ds"
  by (simp add: group_loop_def group_items_def)

lemma citusGroup_reads:
  "valid [] (citusGroupSnapshotsWithVersionCheck svc operation t allow check) (exact_reads t True)"
  unfolding citusGroupSnapshotsWithVersionCheck_def Let_def
  by (intro wp valid_mono [OF readOne_reads] valid_use [OF citusLoop_reads])
     (auto simp: exact_reads_def snapshots_read_def split: sum.splits intro: group_loop_few group_loop_found)

lemma operationSnapshots_reads:
  "valid [] (operationSnapshotsWithVersionCheck svc operation t citus allow check) (exact_reads t citus)"
proof (cases citus)
  case True
  then show ?thesis unfolding operationSnapshotsWithVersionCheck_def by (simp add: citusGroup_reads)
next
  case False
  then show ?thesis unfolding operationSnapshotsWithVersionCheck_def
    by simp (rule valid_mono [OF readOne_reads], auto simp: exact_reads_def snapshots_read_def split: sum.splits)
qed

lemma operationSnapshots_exact: "valid [] (operationSnapshots svc operation t citus allow) (exact_reads t citus)"
  unfolding operationSnapshots_def by (rule operationSnapshots_reads)

end
