(* ===== verification/Standby_Cluster_Spec.thy ===== *)
theory Standby_Cluster_Spec
  imports Standby_Cluster Single_Write Group_Reads Member_Ops_Spec
begin

text \<open>What changing the role of a standby cluster guarantees: an instance of the single write, and well-formed results.\<close>

section \<open>Reading the cluster\<close>

definition standby_target :: "snapshot list \<Rightarrow> target" where
  "standby_target sns = (snTarget (hd sns))\<lparr>tMember := []\<rparr>"

text \<open>The snapshots an execution decides on; without \<open>--citus\<close> a single one.\<close>

definition standby_observes :: "'w service \<Rightarrow> standby_intent \<Rightarrow> event list \<Rightarrow> snapshot list \<Rightarrow> bool" where
  "standby_observes svc si reads sns =
     (list_all is_read reads \<and> few_reads reads \<and> sns \<noteq> []
      \<and> (\<forall>sn \<in> set sns. read_in reads sn \<and> checkSnapshotPatroniVersion svc sn False = None)
      \<and> (siCitus si \<or> (\<exists>sn. sns = [sn] \<and> reads = [EvSnapshot (siTarget si) (Inr sn)])))"

lemma standby_observes_reads: "standby_observes svc si reads sns \<Longrightarrow> list_all is_read reads"
  by (simp add: standby_observes_def)

definition standby_unread :: "'w service \<Rightarrow> standby_intent \<Rightarrow> event list \<Rightarrow> bool" where
  "standby_unread svc si es =
     (list_all is_read es \<and> few_reads es
      \<and> (siCitus si \<or> no_snapshot (siTarget si) es
         \<or> (\<exists>sn. es = [EvSnapshot (siTarget si) (Inr sn)] \<and> checkSnapshotPatroniVersion svc sn False \<noteq> None)))"

definition standby_read :: "'w service \<Rightarrow> standby_intent \<Rightarrow> read_outcome \<Rightarrow> event list \<Rightarrow> bool" where
  "standby_read svc si out ds =
     ((clock_ok svc \<longrightarrow> evidence_all_ok (fst out))
      \<and> (case snd out of
           Inl f \<Rightarrow> standby_unread svc si ds \<and> validCategory (dfCategory f) \<and> dfCategory f \<noteq> CategoryUnknown \<and> dfMessage f \<noteq> []
         | Inr sns \<Rightarrow> fst out \<noteq> [] \<and> standby_observes svc si ds sns))"

lemma read_trace_standby:
  "read_trace (clock_ok svc) (\<lambda>sn. checkSnapshotPatroniVersion svc sn False) out ds \<Longrightarrow> few_reads ds \<Longrightarrow> siCitus si \<Longrightarrow> standby_read svc si out ds"
  by (auto simp: read_trace_def standby_read_def standby_unread_def standby_observes_def split: sum.splits)

lemma standby_coordinator_spec:
  assumes "siCitus si"
  shows "valid [] (citusCoordinatorSnapshot svc operation t False) (standby_read svc si)"
  unfolding citusCoordinatorSnapshot_def Let_def
  by (intro wp valid_use [OF valid_conj [OF citusGroup_spec citusGroup_reads]]
        valid_mono [OF valid_conj [OF operationSnapshots_spec operationSnapshots_exact]])
     (auto simp: exact_reads_def read_trace_def standby_read_def standby_unread_def standby_observes_def assms split: sum.splits option.splits
       dest!: find_SomeD intro!: read_trace_standby)

lemma standbyClusterSnapshots_spec: "valid [] (standbyClusterSnapshots svc si) (standby_read svc si)"
proof (cases "siCitus si")
  case True
  then show ?thesis by (simp add: standbyClusterSnapshots_def standby_coordinator_spec)
next
  case False
  then show ?thesis
    unfolding standbyClusterSnapshots_def operationSnapshots_def operationSnapshotsWithVersionCheck_def readOneSnapshot_def
    by simp (intro wp; auto simp: standby_read_def standby_unread_def standby_observes_def read_in_def no_snapshot_def)
qed


section \<open>Convergence\<close>

definition standby_good :: "standby_intent \<Rightarrow> string \<Rightarrow> snapshot \<Rightarrow> bool" where
  "standby_good si previousLeader sn = (standbyClusterPending (snCluster sn) si previousLeader = [])"

lemma standbyClusterPending_sorted [simp]: "sorted (standbyClusterPending cl si previousLeader)"
  by (auto simp: standbyClusterPending_def split: option.splits)

definition standby_loop ::
  "bool \<Rightarrow> target \<Rightarrow> nat \<Rightarrow> (snapshot \<Rightarrow> bool) \<Rightarrow> int \<Rightarrow> bool \<times> (string \<times> string list \<times> int) \<times> evidence list \<Rightarrow> event list \<Rightarrow> bool" where
  "standby_loop clocked t n good rv0 out ds =
     (case out of (ok, (leader, pending, rv), evs) \<Rightarrow>
        list_all (is_settling t) ds \<and> length ds \<le> 3 * n \<and> (ok \<longleftrightarrow> confirms good ds) \<and> sorted pending
        \<and> (rv = rv0 \<or> (\<exists>u sn. EvSnapshot u (Inr sn) \<in> set ds \<and> rv = snRevision sn)) \<and> (clocked \<longrightarrow> evidence_all_ok evs))"

lemma verifyStandbyLoop_trace:
  assumes "clock_ok svc \<Longrightarrow> evidence_all_ok evs" and "sorted (fst (snd x))"
  shows "valid [] (verifyStandbyLoop svc ctx si t prev n later x evs)
    (standby_loop (clock_ok svc) (t\<lparr>tMember := []\<rparr>) n (standby_good si prev) (snd (snd x)))"
  using assms
proof (induction n arbitrary: later x evs)
  case 0
  then show ?case by (auto simp: standby_loop_def split: prod.splits)
next
  case (Suc n)
  have step: "valid ps (verifyStandbyLoop svc ctx si t prev n True x' evs')
      (standby_loop (clock_ok svc) (t\<lparr>tMember := []\<rparr>) (Suc n) (standby_good si prev) (snd (snd x)))"
    if "clock_ok svc \<Longrightarrow> evidence_all_ok evs'" and "sorted (fst (snd x'))" and "list_all (is_settling (t\<lparr>tMember := []\<rparr>)) ps"
      and "length ps \<le> 3" and "\<not> confirms (standby_good si prev) ps"
      and "snd (snd x') = snd (snd x) \<or> (\<exists>u sn. EvSnapshot u (Inr sn) \<in> set ps \<and> snd (snd x') = snRevision sn)" for x' evs' ps
  proof (rule valid_mono [OF valid_shift [OF Suc.IH [OF that(1,2)]]])
    fix out es'
    assume "\<exists>ds. es' = ps @ ds \<and> standby_loop (clock_ok svc) (t\<lparr>tMember := []\<rparr>) n (standby_good si prev) (snd (snd x')) out ds"
    then obtain ds where ds: "es' = ps @ ds" "standby_loop (clock_ok svc) (t\<lparr>tMember := []\<rparr>) n (standby_good si prev) (snd (snd x')) out ds"
      by blast
    have "confirms (standby_good si prev) es' \<longleftrightarrow> confirms (standby_good si prev) ds"
      using that(5) ds(1) by (cases "ds = []") auto
    with ds that(3,4,6) show "standby_loop (clock_ok svc) (t\<lparr>tMember := []\<rparr>) (Suc n) (standby_good si prev) (snd (snd x)) out es'"
      by (auto simp: standby_loop_def split: prod.splits)
  qed
  show ?case
    unfolding verifyStandbyLoop.simps Let_def
    by (intro wp step) (use Suc.prems in \<open>auto simp: standby_loop_def standby_good_def confirms_def split: prod.splits\<close>)
qed

text \<open>The DCS counts revisions from zero.\<close>

definition snapshots_ok :: "event list \<Rightarrow> bool" where
  "snapshots_ok es = list_all (\<lambda>e. \<forall>sn. read_in [e] sn \<longrightarrow> 0 \<le> snRevision sn) es"

lemma snapshots_ok_append [simp]: "snapshots_ok (es @ es') \<longleftrightarrow> snapshots_ok es \<and> snapshots_ok es'"
  by (simp add: snapshots_ok_def)

lemma snapshots_ok_Cons [simp]: "snapshots_ok (e # es) \<longleftrightarrow> (\<forall>sn. read_in [e] sn \<longrightarrow> 0 \<le> snRevision sn) \<and> snapshots_ok es"
  by (simp add: snapshots_ok_def)

lemma snapshots_ok_read: "snapshots_ok es \<Longrightarrow> read_in es sn \<Longrightarrow> 0 \<le> snRevision sn"
  by (fastforce simp: snapshots_ok_def list_all_iff read_in_def)

lemma snapshots_ok_snapshot: "snapshots_ok es \<Longrightarrow> EvSnapshot t (Inr sn) \<in> set es \<Longrightarrow> 0 \<le> snRevision sn"
  by (rule snapshots_ok_read) (auto simp: read_in_def)

lemma valid_verifyStandbyCluster:
  assumes "\<And>ok leader pending rv evs ds. list_all (is_settling (t\<lparr>tMember := []\<rparr>)) ds \<Longrightarrow> length ds \<le> 3 * nat (svcStandbyAttempts svc)
      \<Longrightarrow> (ok \<longleftrightarrow> confirms (standby_good si prev) ds) \<Longrightarrow> sorted pending \<Longrightarrow> (snapshots_ok ds \<Longrightarrow> 0 \<le> rv)
      \<Longrightarrow> (clock_ok svc \<Longrightarrow> evidence_all_ok evs) \<Longrightarrow> Q (ok, (leader, pending, rv), evs) (es @ ds)"
  shows "valid es (verifyStandbyCluster svc ctx si t prev) Q"
  unfolding verifyStandbyCluster_def
  by (rule valid_use [OF verifyStandbyLoop_trace])
     (use assms snapshots_ok_snapshot in \<open>fastforce simp: standby_loop_def split: prod.splits\<close>)+


section \<open>The write\<close>

lemmas standby_results = standbyClusterSuccess_def standbyClusterFailure_def standbyClusterUnknown_def

definition config_patch :: "string \<Rightarrow> jobject \<Rightarrow> event \<Rightarrow> bool" where
  "config_patch url payload w = (\<exists>r e. w = EvRest (PatchConfig url payload) r e)"

text \<open>A REST write that did not take effect: Patroni rejected it, or the transport vouches that it was not sent.\<close>

fun patch_lost :: "event \<Rightarrow> bool" where
  "patch_lost (EvRest c r e) = (if respStatus r = 0 then patroniSendState e 0 = SendNotSent else respStatus r \<noteq> 200)"
| "patch_lost _ = False"

lemma standbyClusterWrite_trace:
  assumes "ctx \<noteq> None"
  shows "valid [] (standbyClusterWrite svc ctx opID si d url t evs) (\<lambda>r.
    write_trace (config_patch url (standbyClusterPayload si)) patch_lost (t\<lparr>tMember := []\<rparr>) (nat (svcStandbyAttempts svc))
      (standby_good si (crPreviousLeader d)) (rOutcome r))"
  unfolding standbyClusterWrite_def standby_results Let_def
  by (intro wp valid_verifyStandbyCluster) (use assms in \<open>auto simp: write_trace_def config_patch_def looks_confirm split: if_splits\<close>)


section \<open>The execution\<close>

definition standby_guard :: "'w service \<Rightarrow> 'w goctx \<Rightarrow> standby_intent \<Rightarrow> goerror option \<Rightarrow> plan \<Rightarrow> bool" where
  "standby_guard svc ctx si err p = (ctx \<noteq> None \<and> err = None \<and> validateStandbyClusterPlan svc p si = None)"

lemma standby_guardI:
  "ctx \<noteq> None \<Longrightarrow> validateStandbyClusterPlan svc p si = None \<Longrightarrow> standby_guard svc ctx si None p"
  by (simp add: standby_guard_def)

text \<open>The leader, its role, its state and its address must be those that were confirmed, in the planned groups, all
  members must know the feature, and the leader must not have the wanted role already.\<close>

definition standbyDecision :: "'w service \<Rightarrow> standby_intent \<Rightarrow> plan \<Rightarrow> snapshot list \<Rightarrow> decision" where
  "standbyDecision svc si p sns =
     (let sn = hd sns; sel = resolveStandbyClusterSelection sn in
      if checkSnapshotsFeature sns FeatureStandbyClusterCLI \<noteq> None \<or> snapshotGroupIDs sns \<noteq> plannedGroups p
         \<or> ClusterID (Normalize (hd (pTargets p))) \<noteq> ClusterID (Normalize (snTarget sn)) then Refused
      else if alreadyDesired si sel then
        (if standby_good si (the (expectedPrecondition p ''cluster.leader'')) sn then Settled else Refused)
      else (case sel of
          Inl _ \<Rightarrow> Refused
        | Inr (leader, url) \<Rightarrow>
            if standbyClusterStateBinding svc si (mName leader) (mdRole (mData leader)) (mdState (mData leader))
                 = Inr (the (expectedPrecondition p ''state.binding''))
               \<and> standbyClusterEndpointBinding svc url = Inr (the (expectedPrecondition p ''endpoint.binding''))
            then Admitted else Refused))"

definition standby_writes :: "standby_intent \<Rightarrow> snapshot list \<Rightarrow> event \<Rightarrow> bool" where
  "standby_writes si sns w =
     (\<exists>leader url. resolveStandbyClusterSelection (hd sns) = Inr (leader, url) \<and> config_patch url (standbyClusterPayload si) w)"

abbreviation standby_trace :: "'w service \<Rightarrow> 'w goctx \<Rightarrow> standby_intent \<Rightarrow> goerror option \<Rightarrow> plan \<Rightarrow> outcome \<Rightarrow> event list \<Rightarrow> bool" where
  "standby_trace svc ctx si err p \<equiv> execution_trace (standby_guard svc ctx si err p) (standby_observes svc si) (standby_unread svc si)
     (standbyDecision svc si p) (standby_writes si) patch_lost standby_target (nat (svcStandbyAttempts svc))
     (standby_good si (the (expectedPrecondition p ''cluster.leader'')))"

lemma standby_trace_step:
  assumes "standby_guard svc ctx si err p" and "standby_observes svc si reads sns"
    and "out = decided (standbyDecision svc si p sns) patch_lost (standby_good si (the (expectedPrecondition p ''cluster.leader''))) ds"
    and "if standbyDecision svc si p sns = Admitted then write_trace (standby_writes si sns) patch_lost (standby_target sns)
          (nat (svcStandbyAttempts svc)) (standby_good si (the (expectedPrecondition p ''cluster.leader''))) out ds else ds = []"
  shows "standby_trace svc ctx si err p out (reads @ ds)"
  unfolding execution_trace_def using assms by (intro disjI2 conjI exI [of _ sns] exI [of _ reads] exI [of _ ds]) auto

lemma standbyClusterOnSnapshot_trace:
  assumes g: "standby_guard svc ctx si err p" and o: "standby_observes svc si reads sns"
    and "checkSnapshotsFeature sns FeatureStandbyClusterCLI = None" "snapshotGroupIDs sns = plannedGroups p"
      "ClusterID (Normalize (hd (pTargets p))) = ClusterID (Normalize (snTarget (hd sns)))"
  shows "valid reads (standbyClusterOnSnapshot svc ctx opID si p (hd sns) evs) (\<lambda>r. standby_trace svc ctx si err p (rOutcome r))"
proof -
  have ctx: "ctx \<noteq> None" using g by (simp add: standby_guard_def)
  have prev: "crPreviousLeader (standbyClusterStart si p) = the (expectedPrecondition p ''cluster.leader'')"
    by (simp add: standbyClusterStart_def zeroClusterRoleData_def)
  show ?thesis
    unfolding standbyClusterOnSnapshot_def standby_results Let_def
    by (intro wp valid_use [OF standbyClusterWrite_trace [OF ctx]])
       (auto simp: standbyDecision_def assms(3,4) assms(5) [simplified] decided_def prev standby_good_def [symmetric] standby_target_def [symmetric]
          standby_writes_def Let_def intro!: standby_trace_step [OF g o, where ds = "[]", simplified] standby_trace_step [OF g o]
          intro: write_trace_verdict elim!: write_trace_mono)
qed

lemma standby_trace_early:
  assumes "standby_observes svc si reads sns" and "ctx \<noteq> None" and "validateStandbyClusterPlan svc p si = None"
    and "checkSnapshotsFeature sns FeatureStandbyClusterCLI \<noteq> None \<or> snapshotGroupIDs sns \<noteq> plannedGroups p
         \<or> ClusterID (hd (pTargets p)) \<noteq> ClusterID (snTarget (hd sns))"
  shows "standby_trace svc ctx si None p Failed reads"
proof -
  have "standbyDecision svc si p sns = Refused" using assms(4) by (simp add: standbyDecision_def)
  then show ?thesis using standby_trace_step [OF standby_guardI [OF assms(2,3)] assms(1), of Failed "[]"] by (simp add: decided_def)
qed

lemma standby_trace_unread [simp]:
  "standby_unread svc si es \<Longrightarrow> standby_trace svc ctx si err p Failed es" "standby_trace svc ctx si err p Failed []"
  by (simp_all add: execution_trace_def standby_unread_def no_snapshot_def)

interpretation standby_write: single_write "executeStandbyCluster svc ctx si err p" "standby_guard svc ctx si err p"
    "standby_observes svc si" "standby_unread svc si" "standbyDecision svc si p" "standby_writes si" patch_lost standby_target
    "nat (svcStandbyAttempts svc)" "standby_good si (the (expectedPrecondition p ''cluster.leader''))"
  for svc :: "'w service" and ctx si err p
proof unfold_locales
  show "valid [] (executeStandbyCluster svc ctx si err p) (\<lambda>r. standby_trace svc ctx si err p (rOutcome r))"
    unfolding executeStandbyCluster_def standbyClusterFailure_def Let_def
    by (intro wp valid_use [OF standbyClusterSnapshots_spec])
       (auto simp: failed_with_def validContext_def standby_read_def
         intro!: standbyClusterOnSnapshot_trace [OF standby_guardI] elim!: standby_trace_early)
qed (auto simp: standby_observes_def standby_unread_def standby_writes_def config_patch_def)


section \<open>Well-formed results\<close>

definition standby_data_ok :: "cluster_role_data \<Rightarrow> bool" where
  "standby_data_ok d =
     ((crDesiredRole d = primaryClusterRole \<or> crDesiredRole d = standbyLeaderRole)
      \<and> validOrEmpty (crRESTSendState d) \<and> crRESTSendState d \<noteq> SendEmpty \<and> sorted (crPendingConditions d))"

lemma cluster_role_Validate_None:
  "cluster_role_Validate d = None \<longleftrightarrow>
     standby_data_ok d \<and> verification_valid (crVerification d) \<and> 0 \<le> crHTTPStatus d \<and> 0 \<le> crDCSRevision d
     \<and> (crNoop d \<longrightarrow> crRESTSendState d = SendNotSent \<and> crVerification d = VerifiedSucceeded)"
  by (auto simp: cluster_role_Validate_def standby_data_ok_def)

definition desired_ok :: "standby_intent \<Rightarrow> bool" where
  "desired_ok si = (siOperation si \<noteq> [] \<and> (siDesired si = primaryClusterRole \<or> siDesired si = standbyLeaderRole))"

lemma standbyClusterStart_sel [simp]:
  "crDesiredRole (standbyClusterStart si p) = siDesired si" "crRESTSendState (standbyClusterStart si p) = SendNotSent"
  "crPendingConditions (standbyClusterStart si p) = []" "crHTTPStatus (standbyClusterStart si p) = 0"
  "crDCSRevision (standbyClusterStart si p) = 0" "\<not> crNoop (standbyClusterStart si p)"
  "crVerification (standbyClusterStart si p) = Unverified"
  by (simp_all add: standbyClusterStart_def zeroClusterRoleData_def)

text \<open>HTTP statuses are not negative.\<close>

definition statuses_ok :: "event list \<Rightarrow> bool" where
  "statuses_ok es = (\<forall>c r e. EvRest c r e \<in> set es \<longrightarrow> 0 \<le> respStatus r)"

definition standby_valid :: "cluster_role_data result \<Rightarrow> event list \<Rightarrow> bool" where
  "standby_valid r es =
     (result_Validate r = None
      \<and> (rData r = zeroClusterRoleData \<or> \<not> snapshots_ok es \<or> \<not> statuses_ok es \<or> cluster_role_Validate (rData r) = None))"

lemma classifyHTTPStatus_fst [simp]:
  "validCategory (fst (classifyHTTPStatus st))" "fst (classifyHTTPStatus st) \<noteq> CategoryUnknown"
  using classifyHTTPStatus_category [of st "fst (classifyHTTPStatus st)" "snd (classifyHTTPStatus st)"] by simp_all

lemma standbyClusterWrite_valid:
  assumes "clock_ok svc" "opID \<noteq> []" "target_ok (siTarget si)" "desired_ok si" "evs \<noteq> []" "evidence_all_ok evs"
  shows "valid es (standbyClusterWrite svc ctx opID si (standbyClusterStart si p) url t evs) standby_valid"
  unfolding standbyClusterWrite_def standby_results Let_def split_beta
  by (intro wp valid_verifyStandbyCluster)
     (use assms in \<open>auto simp: standby_valid_def cluster_role_Validate_None standby_data_ok_def statuses_ok_def desired_ok_def\<close>)

lemma standbyClusterOnSnapshot_valid:
  assumes "clock_ok svc" "opID \<noteq> []" "target_ok (siTarget si)" "desired_ok si" "evs \<noteq> []" "evidence_all_ok evs"
    and rv: "snapshots_ok es \<Longrightarrow> 0 \<le> snRevision sn"
  shows "valid es (standbyClusterOnSnapshot svc ctx opID si p sn evs) standby_valid"
  unfolding standbyClusterOnSnapshot_def standby_results Let_def
  by (intro wp standbyClusterWrite_valid)
     (use assms in \<open>auto simp: standby_valid_def cluster_role_Validate_None standby_data_ok_def desired_ok_def\<close>)

lemma executeStandbyCluster_valid:
  assumes "clock_ok svc" "target_ok (siTarget si)" "Normalize (siTarget si) = siTarget si" "desired_ok si"
  shows "valid [] (executeStandbyCluster svc ctx si err p) standby_valid"
  unfolding executeStandbyCluster_def standbyClusterFailure_def Let_def
  by (intro wp valid_use [OF standbyClusterSnapshots_spec] standbyClusterOnSnapshot_valid)
     (use assms in \<open>auto simp: standby_valid_def cluster_role_Validate_None standby_data_ok_def desired_ok_def standby_read_def
        standby_observes_def dest: failed_valid snapshots_ok_read\<close>)


section \<open>Preparation\<close>

definition standby_prepared :: "'w service \<Rightarrow> standby_intent \<Rightarrow> plan result \<Rightarrow> event list \<Rightarrow> bool" where
  "standby_prepared svc si r es =
     (list_all is_read es
      \<and> (rOutcome r = Failed \<and> rData r = zeroPlan
         \<or> rOutcome r = Succeeded
           \<and> (\<exists>sns leader url. standby_observes svc si es sns \<and> checkSnapshotsFeature sns FeatureStandbyClusterCLI = None
                \<and> resolveStandbyClusterSelection (hd sns) = Inr (leader, url) \<and> mdRole (mData leader) \<noteq> siDesired si
                \<and> (TrimSpace (mName leader) = mName leader \<and> 0 \<le> snRevision (hd sns) \<and> snRevision (hd sns) < 2 ^ 63 \<longrightarrow>
                     validateStandbyClusterPlan svc (rData r) si = None
                     \<and> standbyDecision svc si (rData r) sns = Admitted))))"

lemma selected_leader_named: "resolveStandbyClusterSelection sn = Inr (leader, url) \<Longrightarrow> mName leader \<noteq> []"
  by (auto simp: resolveStandbyClusterSelection_def dest!: find_SomeD split: option.splits if_splits sum.splits)

lemma standbyClusterPlan_fields:
  assumes "p = standbyClusterPlan opID si sns sn leader request stateB endpoint planB"
  shows "expectedPrecondition p ''dcs.revision'' = Some (FormatInt (snRevision sn))"
    "expectedPrecondition p ''cluster.leader'' = Some (mName leader)" "expectedPrecondition p ''leader.role'' = Some (mdRole (mData leader))"
    "expectedPrecondition p ''leader.state'' = Some (mdState (mData leader))" "expectedPrecondition p ''desired.role'' = Some (siDesired si)"
    "expectedPrecondition p ''request.force'' = Some (FormatBool (siForce si))" "expectedPrecondition p ''selector.citus'' = Some (FormatBool (siCitus si))"
    "expectedPrecondition p ''citus.groups'' = Some (snapshotGroupIDs sns)" "expectedPrecondition p ''request.binding'' = Some request"
    "expectedPrecondition p ''state.binding'' = Some stateB" "expectedPrecondition p ''endpoint.binding'' = Some endpoint"
    "expectedPrecondition p ''plan.binding'' = Some planB"
    "pOperation p = siOperation si" "pPath p = PathREST" "pRisk p = RiskAvailability" "pRetrySafety p = UnsafeAfterSend" "pTarget p = siTarget si"
    "pTargets p = [Normalize ((Normalize (snTarget sn))\<lparr>tMember := mName leader\<rparr>)]"
    "find (\<lambda>f. count_list (map pcField (pPreconditions p)) f \<noteq> Suc 0) standby_fields = None"
  by (simp_all add: assms expectedPrecondition_find standbyClusterPlan_def standby_fields_def)

lemma standby_binding_lengths:
  assumes "tokens_ok svc"
  shows "standbyClusterRequestBinding svc si = Inr b \<Longrightarrow> b \<noteq> []" "standbyClusterStateBinding svc si l r s = Inr b \<Longrightarrow> b \<noteq> []"
    "standbyClusterEndpointBinding svc u = Inr b \<Longrightarrow> b \<noteq> []" "standbyClusterPlanBinding svc si n l r s x y z = Inr b \<Longrightarrow> b \<noteq> []"
  using planToken_length [OF assms]
  unfolding standbyClusterRequestBinding_def standbyClusterStateBinding_def standbyClusterEndpointBinding_def standbyClusterPlanBinding_def
  by (fastforce simp: token_length_def)+

lemma standbyClusterBindings_Inr:
  "standbyClusterBindings svc si rv leader url = Inr (request, stateB, endpoint, planB) \<longleftrightarrow>
     standbyClusterRequestBinding svc si = Inr request
     \<and> standbyClusterStateBinding svc si (mName leader) (mdRole (mData leader)) (mdState (mData leader)) = Inr stateB
     \<and> standbyClusterEndpointBinding svc url = Inr endpoint
     \<and> standbyClusterPlanBinding svc si rv (mName leader) (mdRole (mData leader)) (mdState (mData leader)) request stateB endpoint = Inr planB"
  by (auto simp: standbyClusterBindings_def Let_def split: sum.splits)

lemma ClusterID_member [simp]: "ClusterID (t\<lparr>tMember := m\<rparr>) = ClusterID t"
  by (cases t) (simp add: ClusterID_def groupText_def Normalize_def Let_def)

lemma standby_plan_accepted:
  assumes "tokens_ok svc" and o: "standby_observes svc si es sns" and ft: "checkSnapshotsFeature sns FeatureStandbyClusterCLI = None"
    and sel: "resolveStandbyClusterSelection (hd sns) = Inr (leader, url)" and role: "mdRole (mData leader) \<noteq> siDesired si"
    and b: "standbyClusterBindings svc si (snRevision (hd sns)) leader url = Inr (request, stateB, endpoint, planB)"
    and v: "plan_Validate (standbyClusterPlan opID si sns (hd sns) leader request stateB endpoint planB) = None"
  shows "standby_prepared svc si \<lparr>rOperationID = opID, rOutcome = Succeeded, rTarget = siTarget si, rPath = PathREST,
      rData = standbyClusterPlan opID si sns (hd sns) leader request stateB endpoint planB, rEvidence = evs, rError = None\<rparr> es"
proof -
  define p where "p = standbyClusterPlan opID si sns (hd sns) leader request stateB endpoint planB"
  note f = standbyClusterPlan_fields [OF p_def]
  have b: "standbyClusterRequestBinding svc si = Inr request"
    "standbyClusterStateBinding svc si (mName leader) (mdRole (mData leader)) (mdState (mData leader)) = Inr stateB"
    "standbyClusterEndpointBinding svc url = Inr endpoint"
    "standbyClusterPlanBinding svc si (snRevision (hd sns)) (mName leader) (mdRole (mData leader)) (mdState (mData leader)) request stateB endpoint = Inr planB"
    using b by (simp_all add: standbyClusterBindings_Inr)
  have ne: "request \<noteq> []" "stateB \<noteq> []" "endpoint \<noteq> []" "planB \<noteq> []"
    using standby_binding_lengths [OF assms(1)] b by blast+
  have name: "mName leader \<noteq> []" by (rule selected_leader_named [OF sel])
  have "validateStandbyClusterPlan svc p si = None"
    if "TrimSpace (mName leader) = mName leader" "0 \<le> snRevision (hd sns)" "snRevision (hd sns) < 2 ^ 63"
  proof -
    have "ParseInt (FormatInt (snRevision (hd sns))) = Some (snRevision (hd sns))" using that by (intro ParseInt_FormatInt) auto
    moreover have "tMember (hd (pTargets p)) = mName leader" using that(1) by (simp add: f Normalize_def Let_def)
    ultimately show ?thesis
      using v b ne name that(2) by (simp add: validateStandbyClusterPlan_def p_def [symmetric] f Let_def)
  qed
  moreover have "standbyDecision svc si p sns = Admitted"
    using ft sel role b by (simp add: standbyDecision_def Let_def f plannedGroups_def alreadyDesired_def selectedLeader_def)
  moreover have "list_all is_read es" using o by (simp add: standby_observes_def)
  ultimately show ?thesis using o ft sel role unfolding standby_prepared_def p_def [symmetric] by auto
qed

lemma standby_prepared_failed:
  "failed_with svc zeroPlan opID operation t path cat message evs r \<Longrightarrow> list_all is_read es \<Longrightarrow> standby_prepared svc si r es"
  by (simp add: standby_prepared_def failed_with_def)

lemma prepareStandbyCluster_prepared:
  assumes "tokens_ok svc"
  shows "valid [] (prepareStandbyCluster svc ctx si err) (standby_prepared svc si)"
  unfolding prepareStandbyCluster_def prepareOnSnapshots_def failedOnSelection_def Let_def
  by (intro wp valid_use [OF standbyClusterSnapshots_spec])
     (use assms in \<open>auto simp: standby_read_def standby_unread_def elim!: standby_prepared_failed standby_plan_accepted
        dest: standby_observes_reads\<close>)

end
