(* ===== verification/Single_Write_Properties.thy ===== *)
theory Single_Write_Properties
  imports Edit_Config_Spec Remove_Spec Standby_Cluster_Spec Example_Service
begin

text \<open>
  The properties of the operations that write once, written out over their definitions: the interpretations
  of the locale \<open>single_write\<close> prove them.  At the end a service whose writers apply, on which the
  witnesses run the operations.
\<close>

section \<open>Outcomes\<close>

text \<open>What changing the role of a cluster comes to: it did not know the state, or decided on the snapshots it read.\<close>

definition role_outcome :: "'w service \<Rightarrow> standby_intent \<Rightarrow> plan \<Rightarrow> outcome \<Rightarrow> event list \<Rightarrow> bool" where
  "role_outcome svc si p out es =
     (standby_unread svc si es \<and> out = Failed
      \<or> (\<exists>reads sns ds. es = reads @ ds \<and> standby_observes svc si reads sns
           \<and> out = decided (standbyDecision svc si p sns) patch_lost
                      (standby_good si (the (expectedPrecondition p ''cluster.leader''))) ds))"

lemma executeStandbyCluster_outcome:
  "valid [] (executeStandbyCluster svc ctx si err p) (\<lambda>r. role_outcome svc si p (rOutcome r))"
  by (rule valid_mono [OF standby_write.run]) (auto simp: execution_trace_def role_outcome_def)

text \<open>C13: Every outcome is accounted for by the calls made, on every branch. Editing the configuration and removing
  a cluster fail unless the snapshot could be read; the snapshot decides between refusing, reporting that nothing is
  to do, and writing; and a write succeeds if a reading behind it, the last one, shows the wanted state, fails
  if it is certain that it had no effect, and is UNKNOWN otherwise. Demoting and promoting a cluster do the same
  with the snapshots of the groups and a REST write.\<close>

theorem single_write_outcomes:
  "valid [] (ExecuteEditConfig svc ctx erq p) (\<lambda>r es.
       rOutcome r = snapshot_outcome (editDecision svc erq p) definite
                      (configMatches svc (the (expectedPrecondition p ''config.desired''))) es)
   \<and> valid [] (ExecuteRemove svc ctx rrq c p) (\<lambda>r es.
       rOutcome r = snapshot_outcome (removeDecision svc p) definite remove_good es)
   \<and> valid [] (ExecuteDemoteCluster svc ctx drq p) (\<lambda>r. role_outcome svc (fst (normalizeDemoteClusterRequest drq)) p (rOutcome r))
   \<and> valid [] (ExecutePromoteCluster svc ctx prq p) (\<lambda>r. role_outcome svc (fst (normalizePromoteClusterRequest prq)) p (rOutcome r))"
  unfolding ExecuteDemoteCluster_def ExecutePromoteCluster_def split_beta
  by (intro conjI executeStandbyCluster_outcome valid_mono [OF edit_write.run] valid_mono [OF remove_write.run])
     (rule one_snapshot_outcome, assumption)+


section \<open>Guards\<close>

text \<open>C10: The configuration is replaced only by what was confirmed. A write of \<open>edit-config\<close> is a compare-and-swap
  for the revision of the config key in the snapshot read right before, which is the planned revision; the plan and
  the request passed their checks; and the payload is the configuration of the preview made from that snapshot, whose
  token, changed paths and effect are those of the plan. Nothing but readings, waits and looks at the context follows.\<close>

theorem edit_writes_guarded:
  "valid [] (ExecuteEditConfig svc ctx rq p) (\<lambda>r es. list_ex is_write es \<longrightarrow>
     (let t = Normalize (eqTarget rq) in
      edit_guard svc ctx rq p
      \<and> (\<exists>sn entry preview payload w e rb.
           es = EvSnapshot t (Inr sn) # EvCtx None # EvConfigCAS t payload (Some (eModRevision entry)) w e # rb
           \<and> checkSnapshotPatroniVersion svc sn False = None \<and> configEntryForEdit sn = Inr entry
           \<and> eModRevision entry = cdBeforeRevision (editConfigStart p)
           \<and> PreviewEditConfig (cConfig (snCluster sn)) (fst (normalizeEditConfigRequest rq)) = Inr preview
           \<and> edit_agrees svc p preview \<and> \<not> epNoop preview \<and> MarshalValue (JObj (epAfter preview)) = Some payload
           \<and> list_all (is_settling t) rb)))"
  by (rule valid_mono [OF edit_write.guarded])
     (fastforce simp: guarded_write_def one_snapshot_def editDecision_def edit_writes_def edit_cas_def Let_def
        split: option.splits sum.splits if_splits)

text \<open>C11: A cluster is removed only as confirmed. The one deletion of \<open>remove\<close> is sent right after a snapshot whose
  keys are exactly those of the plan, at least one, under the planned leader; and the caller has typed the name of
  the cluster, the sentence and the name of that leader.\<close>

theorem remove_writes_guarded:
  "valid [] (ExecuteRemove svc ctx rq c p) (\<lambda>r es. list_ex is_write es \<longrightarrow>
     (let t = Normalize (rqTarget rq) in
      remove_guard svc ctx rq c p
      \<and> (\<exists>sn w e rb.
           es = EvSnapshot t (Inr sn) # EvCtx None # EvDeleteCluster t w e # rb
           \<and> checkSnapshotPatroniVersion svc sn False = None \<and> removeInventory sn \<noteq> []
           \<and> removePlanKeys p = Inr (removeInventory sn)
           \<and> c = \<lparr>rcClusterName = tScope t, rcAcknowledgement = ''Yes I am aware'', rcLeader = removeLeader (snCluster sn)\<rparr>
           \<and> list_all (is_settling t) rb)))"
proof (rule valid_mono [OF remove_write.guarded], intro impI)
  fix r es
  let ?t = "Normalize (rqTarget rq)"
  assume "list_ex is_write es \<longrightarrow> guarded_write (remove_guard svc ctx rq c p) (one_snapshot ?t) (removeDecision svc p) (\<lambda>_. cluster_delete ?t) (\<lambda>_. ?t) es"
    and "list_ex is_write es"
  then obtain sn w e rb where g: "remove_guard svc ctx rq c p" and es: "es = EvSnapshot ?t (Inr sn) # EvCtx None # EvDeleteCluster ?t w e # rb"
    and d: "removeDecision svc p sn = Admitted" and rb: "list_all (is_settling ?t) rb"
    unfolding guarded_write_def one_snapshot_def cluster_delete_def by auto
  have "c = \<lparr>rcClusterName = tScope ?t, rcAcknowledgement = ''Yes I am aware'', rcLeader = removeLeader (snCluster sn)\<rparr>"
    using g d by (cases c)
      (auto simp: remove_guard_def validateRemovePlan_def validateRemoveConfirmation_def removeDecision_def expectedText_def RemoveAcknowledgement_def
        split: option.splits if_splits)
  with g es d rb show "let t = ?t in remove_guard svc ctx rq c p \<and> (\<exists>sn w e rb. es = EvSnapshot t (Inr sn) # EvCtx None # EvDeleteCluster t w e # rb
      \<and> checkSnapshotPatroniVersion svc sn False = None \<and> removeInventory sn \<noteq> [] \<and> removePlanKeys p = Inr (removeInventory sn)
      \<and> c = \<lparr>rcClusterName = tScope t, rcAcknowledgement = ''Yes I am aware'', rcLeader = removeLeader (snCluster sn)\<rparr>
      \<and> list_all (is_settling t) rb)"
    by (auto simp: removeDecision_def Let_def split: if_splits)
qed

definition role_write_guarded :: "'w service \<Rightarrow> 'w goctx \<Rightarrow> standby_intent \<Rightarrow> plan \<Rightarrow> event list \<Rightarrow> bool" where
  "role_write_guarded svc ctx si p es =
     (validateStandbyClusterPlan svc p si = None
      \<and> (\<exists>sns leader url reads w e rb.
           es = reads @ EvCtx None # EvRest (PatchConfig url (standbyClusterPayload si)) w e # rb
           \<and> standby_observes svc si reads sns \<and> checkSnapshotsFeature sns FeatureStandbyClusterCLI = None
           \<and> snapshotGroupIDs sns = plannedGroups p
           \<and> resolveStandbyClusterSelection (hd sns) = Inr (leader, url) \<and> mdRole (mData leader) \<noteq> siDesired si
           \<and> standbyClusterStateBinding svc si (mName leader) (mdRole (mData leader)) (mdState (mData leader))
                = Inr (the (expectedPrecondition p ''state.binding''))
           \<and> standbyClusterEndpointBinding svc url = Inr (the (expectedPrecondition p ''endpoint.binding''))
           \<and> list_all (is_settling (standby_target sns)) rb))"

lemma executeStandbyCluster_guarded:
  "valid [] (executeStandbyCluster svc ctx si err p) (\<lambda>r es. list_ex is_write es \<longrightarrow> err = None \<and> role_write_guarded svc ctx si p es)"
proof (rule valid_mono [OF standby_write.guarded], rule impI)
  fix r es
  assume "list_ex is_write es \<longrightarrow> guarded_write (standby_guard svc ctx si err p) (standby_observes svc si) (standbyDecision svc si p)
      (standby_writes si) standby_target es" and "list_ex is_write es"
  then obtain sns reads w rb where g: "standby_guard svc ctx si err p" and es: "es = reads @ EvCtx None # w # rb"
    and o: "standby_observes svc si reads sns" and d: "standbyDecision svc si p sns = Admitted" and w: "standby_writes si sns w"
    and rb: "list_all (is_settling (standby_target sns)) rb"
    unfolding guarded_write_def by blast
  obtain leader url r e where sel: "resolveStandbyClusterSelection (hd sns) = Inr (leader, url)" and w': "w = EvRest (PatchConfig url (standbyClusterPayload si)) r e"
    using w by (auto simp: standby_writes_def config_patch_def)
  have "mdRole (mData leader) \<noteq> siDesired si" "checkSnapshotsFeature sns FeatureStandbyClusterCLI = None" "snapshotGroupIDs sns = plannedGroups p"
    "standbyClusterStateBinding svc si (mName leader) (mdRole (mData leader)) (mdState (mData leader)) = Inr (the (expectedPrecondition p ''state.binding''))"
    "standbyClusterEndpointBinding svc url = Inr (the (expectedPrecondition p ''endpoint.binding''))"
    using d sel selected_leader_named [OF sel] by (auto simp: standbyDecision_def Let_def alreadyDesired_def selectedLeader_def split: if_splits)
  with g es o rb sel w' show "err = None \<and> role_write_guarded svc ctx si p es"
    unfolding role_write_guarded_def standby_guard_def by blast
qed

text \<open>C12: The role of a cluster is changed only at the leader that was confirmed. The one write of \<open>demote-cluster\<close> and
  \<open>promote-cluster\<close> patches the configuration through the leader of the snapshots just read, when all members
  know the feature, the groups are the planned ones, the leader does not have the role yet, and its name, role, state
  and address have the tokens of the plan, which passed its check.\<close>

theorem role_writes_guarded:
  "valid [] (ExecuteDemoteCluster svc ctx drq p) (\<lambda>r es. list_ex is_write es \<longrightarrow>
       snd (normalizeDemoteClusterRequest drq) = None \<and> role_write_guarded svc ctx (fst (normalizeDemoteClusterRequest drq)) p es)
   \<and> valid [] (ExecutePromoteCluster svc ctx prq p) (\<lambda>r es. list_ex is_write es \<longrightarrow>
       snd (normalizePromoteClusterRequest prq) = None \<and> role_write_guarded svc ctx (fst (normalizePromoteClusterRequest prq)) p es)"
  unfolding ExecuteDemoteCluster_def ExecutePromoteCluster_def split_beta
  by (intro conjI executeStandbyCluster_guarded)


section \<open>Results\<close>

lemma normalized_roles:
  "siTarget (fst (normalizeDemoteClusterRequest drq)) = Normalize (dmTarget drq)" "desired_ok (fst (normalizeDemoteClusterRequest drq))"
  "siTarget (fst (normalizePromoteClusterRequest prq)) = Normalize (pmTarget prq)" "desired_ok (fst (normalizePromoteClusterRequest prq))"
  by (simp_all add: normalizeDemoteClusterRequest_def normalizePromoteClusterRequest_def Let_def desired_ok_def)

text \<open>Results are well-formed. With a clock that works and a target that validates, every result of the four
  operations passes \<open>Result.Validate\<close>; its data passes the \<open>Validate\<close> method of its type when it is not the zero value of
  an execution refused before it began, given that the DCS counts revisions and deletions, and HTTP its statuses, from zero.\<close>

lemma single_write_results_valid:
  assumes "clock_ok svc" and "target_ok (Normalize t)"
  shows "valid [] (ExecuteEditConfig svc ctx (erq\<lparr>eqTarget := t\<rparr>) p) edit_valid
    \<and> valid [] (ExecuteRemove svc ctx (rrq\<lparr>rqTarget := t\<rparr>) c p) remove_valid
    \<and> valid [] (ExecuteDemoteCluster svc ctx (drq\<lparr>dmTarget := t\<rparr>) p) standby_valid
    \<and> valid [] (ExecutePromoteCluster svc ctx (prq\<lparr>pmTarget := t\<rparr>) p) standby_valid"
  unfolding ExecuteDemoteCluster_def ExecutePromoteCluster_def split_beta
  by (intro conjI ExecuteEditConfig_valid ExecuteRemove_valid executeStandbyCluster_valid)
     (use assms in \<open>simp_all add: normalized_roles\<close>)

text \<open>C14: Preparing only reads, and a prepared plan is one the execution accepts, under the conditions stated here. The keyed
  hash of the plans has the length of a SHA-256. A successful preparation of \<open>edit-config\<close> read one admissible snapshot; if the
  revision of its configuration is positive (and an int64) and the changed paths are valid UTF-8, the plan passes the check of
  the same request, and every admissible state with the same configuration at the same revision, when that
  configuration has a JSON encoding, is written to, or settled when the edit changes nothing. A plan of \<open>remove\<close> is
  confirmed by one confirmation only; if the keys it was made from are valid UTF-8 and the revision is an int64, the plan passes its
  check if and only if no key is blank or listed twice and the revision is positive, and in the case of such keys it
  admits exactly the admissible states with the same keys and leader. A plan of \<open>demote-cluster\<close> or \<open>promote-cluster\<close> passes
  the check of the same request, and the snapshots it was made from are written to, if the name of the leader
  has no space around it and the revision is not negative (and an int64).\<close>

theorem single_write_plans_roundtrip:
  assumes "tokens_ok svc"
  shows "valid [] (PrepareEditConfig svc ctx erq) (edit_prepared svc erq)
    \<and> valid [] (PrepareRemove svc ctx rrq) (remove_prepared svc rrq)
    \<and> valid [] (PrepareDemoteCluster svc ctx drq) (standby_prepared svc (fst (normalizeDemoteClusterRequest drq)))
    \<and> valid [] (PreparePromoteCluster svc ctx prq) (standby_prepared svc (fst (normalizePromoteClusterRequest prq)))"
  unfolding PrepareDemoteCluster_def PreparePromoteCluster_def split_beta
  by (intro conjI PrepareEditConfig_prepared PrepareRemove_prepared prepareStandbyCluster_prepared assms)

text \<open>Every execution ends, after at most one write. After the readings of the state before the decision it makes at
  most three calls per verification attempt and four more, readings included, whatever the services answer. The readings
  before the decision are one, or for a Citus cluster one discovery and at most one snapshot for each cluster it found.\<close>

lemma single_snapshot_reads:
  assumes "k \<and> (\<exists>reads ds. es = reads @ ds \<and> (no_snapshot t reads \<or> (\<exists>v. one_snapshot t reads v)) \<and> length ds \<le> 3 * n + 4)"
  shows "k \<and> length es \<le> 3 * n + 5"
  using assms by (auto simp: no_snapshot_def one_snapshot_def)

lemma snapshot_writes_bounded:
  "valid [] (ExecuteEditConfig svc ctx erq p) (\<lambda>r es. length (filter is_write es) \<le> 1
       \<and> length es \<le> 3 * nat (svcVerificationAttempts svc) + 5)"
  "valid [] (ExecuteRemove svc ctx rrq c p) (\<lambda>r es. length (filter is_write es) \<le> 1
       \<and> length es \<le> 3 * nat (svcVerificationAttempts svc) + 5)"
  subgoal by (rule valid_mono [OF edit_write.bounded]) (rule single_snapshot_reads, assumption)
  subgoal by (rule valid_mono [OF remove_write.bounded]) (rule single_snapshot_reads, assumption)
  done

lemma role_write_bounded:
  "valid [] (executeStandbyCluster svc ctx si err p) (\<lambda>r es. length (filter is_write es) \<le> 1
       \<and> (\<exists>reads ds. es = reads @ ds \<and> few_reads reads \<and> length ds \<le> 3 * nat (svcStandbyAttempts svc) + 4))"
proof (rule valid_mono [OF standby_write.bounded], elim conjE exE, intro conjI)
  fix es reads ds
  assume "standby_unread svc si reads \<or> (\<exists>v. standby_observes svc si reads v)"
  then have "few_reads reads" unfolding standby_observes_def standby_unread_def by blast
  moreover assume "es = reads @ ds" "length ds \<le> 3 * nat (svcStandbyAttempts svc) + 4"
  ultimately show "\<exists>reads ds. es = reads @ ds \<and> few_reads reads \<and> length ds \<le> 3 * nat (svcStandbyAttempts svc) + 4"
    by blast
qed

lemma single_writes_bounded:
  "valid [] (ExecuteEditConfig svc ctx erq p) (\<lambda>r es. length (filter is_write es) \<le> 1
       \<and> length es \<le> 3 * nat (svcVerificationAttempts svc) + 5)
   \<and> valid [] (ExecuteRemove svc ctx rrq c p) (\<lambda>r es. length (filter is_write es) \<le> 1
       \<and> length es \<le> 3 * nat (svcVerificationAttempts svc) + 5)
   \<and> valid [] (ExecuteDemoteCluster svc ctx drq p) (\<lambda>r es. length (filter is_write es) \<le> 1
       \<and> (\<exists>reads ds. es = reads @ ds \<and> few_reads reads \<and> length ds \<le> 3 * nat (svcStandbyAttempts svc) + 4))
   \<and> valid [] (ExecutePromoteCluster svc ctx prq p) (\<lambda>r es. length (filter is_write es) \<le> 1
       \<and> (\<exists>reads ds. es = reads @ ds \<and> few_reads reads \<and> length ds \<le> 3 * nat (svcStandbyAttempts svc) + 4))"
  unfolding ExecuteDemoteCluster_def ExecutePromoteCluster_def split_beta
  by (intro conjI snapshot_writes_bounded role_write_bounded)


section \<open>A service that writes\<close>

definition demoWriter :: "(nat \<Rightarrow> goerror + snapshot) \<Rightarrow> nat service" where
  "demoWriter snaps = (demoService snaps (restStatus 200) casApplied)
     \<lparr>svcConfigDCS := Some (\<lambda>t payload rv n. ((\<lparr>wrApplied = True, wrRevision = 12, wrPrevious = None, wrCurrent = None\<rparr>, None), n)),
      svcRemoverDCS := Some (\<lambda>t n. ((\<lparr>rmDeleted = 2, rmRevision = 12\<rparr>, None), n))\<rparr>"

definition demoEntry :: "string \<Rightarrow> dcs_entry" where
  "demoEntry path = \<lparr>eKey = ''/service/main/'' @ path, eRelativePath = path, eKind = ClassifyRelativePath path, eCreateRevision = 1,
     eModRevision = 6, eVersion = 1, eLease = 0, eValue = []\<rparr>"

definition demoState :: "jobject \<Rightarrow> snapshot" where
  "demoState cfg = (demoSnapshot 11 ((demoCluster ''pg-1'')\<lparr>cConfig := cfg\<rparr>))\<lparr>snEntries := [demoEntry ''leader'', demoEntry ''config'']\<rparr>"

definition demoPlan :: "(nat, plan result) prog \<Rightarrow> plan" where
  "demoPlan prepare = rData (fst (demoRun prepare))"

definition editReads :: "nat \<Rightarrow> goerror + snapshot" where
  "editReads n = Inr (demoState (if n = 0 then demoConfig else demoEdited))"

definition editRequest :: edit_config_request where
  "editRequest = demoEdit\<lparr>eqTarget := demoTarget\<rparr>"

definition editPlan :: plan where
  "editPlan = demoPlan (PrepareEditConfig (demoWriter editReads) demoCtx editRequest)"

definition removeReads :: "nat \<Rightarrow> goerror + snapshot" where
  "removeReads n = Inr (if n = 0 then demoState [] else (demoSnapshot 12 (demoCluster []))\<lparr>snEntries := []\<rparr>)"

definition removeDemo :: remove_request where
  "removeDemo = \<lparr>rqTarget = demoTarget, rqCitus = False\<rparr>"

definition removeConfirmed :: remove_confirmation where
  "removeConfirmed = \<lparr>rcClusterName = ''main'', rcAcknowledgement = RemoveAcknowledgement, rcLeader = ''pg-1''\<rparr>"

definition standbyState :: "string \<Rightarrow> snapshot" where
  "standbyState r = demoSnapshot 11 ((demoCluster ''pg-1'')\<lparr>cMembers :=
     [(demoMember ''pg-1'')\<lparr>mData := (demoData ''http://pg-1:8008/patroni'')\<lparr>mdRole := r, mdPatroniVersion := ''4.1.0''\<rparr>\<rparr>]\<rparr>)"

definition standbyReads :: "nat \<Rightarrow> goerror + snapshot" where
  "standbyReads n = Inr (standbyState (if n = 0 then ''primary'' else ''standby_leader''))"

definition demoteDemo :: demote_cluster_request where
  "demoteDemo = \<lparr>dmTarget = demoTarget, dmStandby = \<lparr>scHost = ''10.0.0.1'', scPort = 5432, scRestoreCommand = [], scPrimarySlotName = []\<rparr>,
     dmForce = False, dmCitus = False\<rparr>"

definition demotePlan :: plan where
  "demotePlan = demoPlan (PrepareDemoteCluster (demoWriter standbyReads) demoCtx demoteDemo)"

definition removeDemoPlan :: plan where
  "removeDemoPlan = demoPlan (PrepareRemove (demoWriter removeReads) demoCtx removeDemo)"

definition editRun :: "config_edit_data result \<times> event list" where
  "editRun = demoRun (ExecuteEditConfig (demoWriter editReads) demoCtx editRequest editPlan)"

definition removeRun :: "remove_data result \<times> event list" where
  "removeRun = demoRun (ExecuteRemove (demoWriter removeReads) demoCtx removeDemo removeConfirmed removeDemoPlan)"

definition demoteRun :: "cluster_role_data result \<times> event list" where
  "demoteRun = demoRun (ExecuteDemoteCluster (demoWriter standbyReads) demoCtx demoteDemo demotePlan)"

lemma edit_writes_once: "list_ex is_write (snd editRun)" by code_simp

lemma remove_writes_once: "list_ex is_write (snd removeRun)" by code_simp

lemma demote_writes_once: "list_ex is_write (snd demoteRun)" by code_simp

lemmas demo_writes = edit_writes_once remove_writes_once demote_writes_once

lemma demo_writer_ok: "clock_ok (demoWriter snaps)" "tokens_ok (demoWriter snaps)"
  by (auto simp: clock_ok_def tokens_ok_def demoWriter_def demoService_def demoRuntime_def IsZero_def token_length_def min_def)

lemma demo_targets [simp]: "eqTarget editRequest = demoTarget" "rqTarget removeDemo = demoTarget"
  by (simp_all add: editRequest_def removeDemo_def)

lemma demo_first_reads:
  "hd (snd editRun) = EvSnapshot (Normalize demoTarget) (Inr (demoState demoConfig))"
  "hd (snd removeRun) = EvSnapshot (Normalize demoTarget) (Inr (demoState []))"
  by code_simp+

theorem edit_writes_guarded_witness:
  "edit_guard (demoWriter editReads) demoCtx editRequest editPlan
   \<and> (\<exists>revision payload w e rb. snd editRun =
        EvSnapshot (Normalize demoTarget) (Inr (demoState demoConfig)) # EvCtx None # EvConfigCAS (Normalize demoTarget) payload (Some revision) w e # rb
        \<and> revision = cdBeforeRevision (editConfigStart editPlan))"
  using edit_writes_guarded [of "demoWriter editReads" demoCtx editRequest editPlan, THEN valid_demoRun] demo_writes(1) demo_first_reads(1)
  unfolding editRun_def [symmetric] by (auto simp: Let_def)

theorem remove_writes_guarded_witness:
  "\<exists>w e rb. snd removeRun = EvSnapshot (Normalize demoTarget) (Inr (demoState [])) # EvCtx None # EvDeleteCluster (Normalize demoTarget) w e # rb
     \<and> removePlanKeys removeDemoPlan = Inr (removeInventory (demoState []))"
  using remove_writes_guarded [of "demoWriter removeReads" demoCtx removeDemo removeConfirmed removeDemoPlan, THEN valid_demoRun]
    demo_writes(2) demo_first_reads(2)
  unfolding removeRun_def [symmetric] by (auto simp: Let_def)

theorem role_writes_guarded_witness:
  "role_write_guarded (demoWriter standbyReads) demoCtx (fst (normalizeDemoteClusterRequest demoteDemo)) demotePlan (snd demoteRun)"
  using role_writes_guarded [THEN conjunct1, of "demoWriter standbyReads" demoCtx demoteDemo demotePlan, THEN valid_demoRun] demo_writes(3)
  unfolding demoteRun_def by blast

definition preparedRun :: "plan result \<times> event list" where
  "preparedRun = demoRun (PrepareRemove (demoWriter removeReads) demoCtx removeDemo)"

theorem single_write_plans_roundtrip_witness:
  "remove_prepared (demoWriter removeReads) removeDemo (fst preparedRun) (snd preparedRun) \<and> rOutcome (fst preparedRun) = Succeeded"
proof -
  have "rOutcome (fst preparedRun) = Succeeded" by code_simp
  then show ?thesis
    using single_write_plans_roundtrip [OF demo_writer_ok(2), THEN conjunct2, THEN conjunct1, of removeReads demoCtx removeDemo, THEN valid_demoRun]
    unfolding preparedRun_def by blast
qed

end
