(* ===== verification/Cluster_View.thy ===== *)
theory Cluster_View
  imports Batch "HOL-Library.Signed_Division"
begin

text \<open>
  What the read operations show of a cluster: the model of \<^verbatim>\<open>src/model/cluster.go\<close> and \<^verbatim>\<open>state.go\<close>, and the
  projections of \<^verbatim>\<open>src/control/read.go\<close> from a snapshot to it.  Positions in the log are Go's \<open>int64\<close>; where
  the code computes with them the wrap-around is written out.
\<close>

section \<open>The model\<close>

datatype discovery_state = DiscoveryDiscovered | DiscoveryConfiguredOnly | DiscoveryAbsent
datatype management_state = ManagementExplicit | ManagementAllSelected | ManagementUnmanaged
datatype reachability_state = Reachable | PartiallyReachable | Unreachable | ReachabilityUnknown
datatype health_state = Healthy | Degraded | Unhealthy | HealthUnknown

datatype member_role = MemberLeader | MemberStandbyLeader | MemberSyncStandby | MemberQuorumStandby | MemberReplica

record member_view =
  vmTarget :: target
  vmName :: string
  vmAPIURL :: string
  vmHost :: string
  vmPort :: int
  vmRole :: member_role
  vmState :: string
  vmTimeline :: "int option"
  vmReceiveLSN :: string
  vmReceiveLagBytes :: int
  vmReplayLSN :: string
  vmReplayLagBytes :: int
  vmPendingRestart :: bool
  vmPendingRestartReason :: jobject
  vmScheduledRestart :: "(string \<times> string) option"
  vmTags :: jobject
  vmPatroniVersion :: string

record scheduled_switchover =
  swAt :: string
  swFrom :: string
  swTo :: string

record cluster_view =
  vcTarget :: target
  vcDiscoveryState :: discovery_state
  vcManagementState :: management_state
  vcReachabilityState :: reachability_state
  vcHealthState :: health_state
  vcRevision :: int
  vcInitialize :: string
  vcLeader :: string
  vcPaused :: bool
  vcScheduledSwitchover :: "scheduled_switchover option"
  vcMembers :: "member_view list"

record cluster_summary =
  csTarget :: target
  csDiscoveryState :: discovery_state
  csManagementState :: management_state
  csReachabilityState :: reachability_state
  csHealthState :: health_state
  csRevision :: int
  csMemberCount :: nat
  csLeader :: string


section \<open>Values\<close>

text \<open>The value of a Go \<open>int64\<close> computation.\<close>

definition int64 :: "int \<Rightarrow> int" where
  "int64 n = (n + 2 ^ 63) mod 2 ^ 64 - 2 ^ 63"

definition uint64 :: "int \<Rightarrow> nat" where
  "uint64 n = nat (n mod 2 ^ 64)"

fun nat_to_hex :: "nat \<Rightarrow> string" where
  "nat_to_hex n = (if n < 16 then [hex_digit n] else nat_to_hex (n div 16) @ [hex_digit (n mod 16)])"

declare nat_to_hex.simps [simp del]

definition formatLSN :: "int \<Rightarrow> string" where
  "formatLSN value = nat_to_hex (uint64 value div 2 ^ 32) @ ''/'' @ nat_to_hex (uint64 value mod 2 ^ 32)"

definition nonnegativeLag :: "int \<Rightarrow> int \<Rightarrow> int" where
  "nonnegativeLag clusterLSN memberLSN = (if clusterLSN \<le> memberLSN then 0 else int64 (clusterLSN - memberLSN))"

definition formatPostgresVersion :: "int \<Rightarrow> string" where
  "formatPostgresVersion version =
     (if version < 100000 then
        Join ''.'' [FormatInt (version sdiv 10000), FormatInt ((version sdiv 100) smod 100), FormatInt (version smod 100)]
      else Join ''.'' [FormatInt (version sdiv 10000), FormatInt (version smod 100)])"

text \<open>\<open>URL.Hostname\<close> and \<open>URL.Port\<close> split the host at the last colon before a port.\<close>

definition splitHostPort :: "string \<Rightarrow> string \<times> string" where
  "splitHostPort hostPort =
     (let (host, port) = (case CutLast (CHR '':'') hostPort of
            Some (h, p) \<Rightarrow> if validOptionalPort ('':'' @ p) then (h, p) else (hostPort, [])
          | None \<Rightarrow> (hostPort, []))
      in (if HasPrefix host ''['' \<and> HasSuffix host '']'' then butlast (tl host) else host, port))"

text \<open>\<open>strconv.ParseUint(port, 10, 16)\<close> of the digits a valid port is.\<close>

definition ParsePort :: "string \<Rightarrow> int option" where
  "ParsePort s =
     (if s \<noteq> [] \<and> list_all is_digit s then
        (case ParseInt s of Some n \<Rightarrow> if n < 2 ^ 16 then Some n else None | None \<Rightarrow> None)
      else None)"

definition postgresAddress :: "string \<Rightarrow> goerror + string \<times> int" where
  "postgresAddress connectionURL =
     (case urlParse (TrimSpace connectionURL) of
        None \<Rightarrow> Inl (errorsNew ''invalid PostgreSQL connection URL'')
      | Some parsed \<Rightarrow>
          (let (host, port) = splitHostPort (uHost parsed) in
           if uHost parsed = [] \<or> host = [] then Inl (errorsNew ''invalid PostgreSQL connection URL'')
           else if uScheme parsed \<noteq> ''postgres'' \<and> uScheme parsed \<noteq> ''postgresql'' then
             Inl (errorsNew ''unsupported PostgreSQL connection URL scheme'')
           else if port = [] then Inr (host, 5432)
           else (case ParsePort port of
             Some n \<Rightarrow> if n = 0 then Inl (errorsNew ''invalid PostgreSQL connection URL port'') else Inr (host, n)
           | None \<Rightarrow> Inl (errorsNew ''invalid PostgreSQL connection URL port''))))"

text \<open>\<open>standbyCluster\<close>: the source has a host, a port or a restore command that is not blank and not 0.\<close>

definition standbyCluster :: "jobject \<Rightarrow> bool" where
  "standbyCluster config =
     (case jlookup config ''standby_cluster'' of
        Some (JObj raw) \<Rightarrow>
          list_ex (\<lambda>key. case jlookup raw key of
              Some value \<Rightarrow> TrimSpace (Sprint value) \<noteq> [] \<and> Sprint value \<noteq> ''0''
            | None \<Rightarrow> False) [''host'', ''port'', ''restore_command'']
      | _ \<Rightarrow> False)"

definition aggregateTarget :: "target list \<Rightarrow> target" where
  "aggregateTarget targets =
     (case targets of
        [] \<Rightarrow> Normalize zeroTarget
      | [t] \<Rightarrow> (Normalize t)\<lparr>tMember := []\<rparr>
      | t # ts \<Rightarrow>
          (let aggregate = Normalize (zeroTarget\<lparr>tContext := tContext (Normalize t), tNamespace := tNamespace (Normalize t)\<rparr>) in
           if \<exists>u \<in> set ts. tContext (Normalize u) \<noteq> tContext aggregate \<or> tNamespace (Normalize u) \<noteq> tNamespace aggregate
           then Normalize zeroTarget else aggregate))"


section \<open>Projecting a snapshot\<close>

definition discoveryStateForSnapshot :: "snapshot \<Rightarrow> discovery_state" where
  "discoveryStateForSnapshot sn =
     (if \<exists>e \<in> set (snEntries sn). eKind e \<noteq> KeyUnknown then DiscoveryDiscovered else DiscoveryAbsent)"

definition projectLSN :: "member_view \<Rightarrow> member_data \<Rightarrow> int \<Rightarrow> member_view" where
  "projectLSN m d clusterLSN =
     (let alone = (mdReceiveLSN d = None \<and> mdReplayLSN d = None);
          receive = (if alone \<and> vmState m = ''streaming'' then mdXLogLocation d else mdReceiveLSN d);
          replay = (if alone \<and> vmState m \<noteq> ''streaming'' then mdXLogLocation d else mdReplayLSN d);
          m = (case receive of
                 None \<Rightarrow> m
               | Some lsn \<Rightarrow> m\<lparr>vmReceiveLSN := formatLSN lsn, vmReceiveLagBytes := nonnegativeLag clusterLSN lsn\<rparr>)
      in (case replay of
            None \<Rightarrow> m
          | Some lsn \<Rightarrow> m\<lparr>vmReplayLSN := formatLSN lsn, vmReplayLagBytes := nonnegativeLag clusterLSN lsn\<rparr>))"

text \<open>The role shown for a member: whether it is the leader, and then how it replicates.\<close>

definition projectRole :: "cluster_state \<Rightarrow> string \<Rightarrow> member_role" where
  "projectRole cl name =
     (let standby = standbyCluster (cConfig cl) in
      if name = clusterLeader cl then (if standby then MemberStandbyLeader else MemberLeader)
      else if \<not> standby \<and> synchronousMode (cConfig cl) \<and> name \<in> stringSet (sStandbys (cSync cl)) then
        (if EqualFold (sprintConfig (jlookup (cConfig cl) ''synchronous_mode'')) ''quorum'' then MemberQuorumStandby
         else MemberSyncStandby)
      else MemberReplica)"

definition projectMember :: "cluster_state \<Rightarrow> target \<Rightarrow> dcs_member \<Rightarrow> member_view" where
  "projectMember cl t m =
     (let d = mData m; leader = (mName m = clusterLeader cl);
          (host, port) = (case postgresAddress (mdConnURL d) of Inl _ \<Rightarrow> ([], 0) | Inr a \<Rightarrow> a);
          projected = \<lparr>vmTarget = t\<lparr>tMember := mName m\<rparr>, vmName = mName m, vmAPIURL = mdAPIURL d, vmHost = host, vmPort = port,
            vmRole = projectRole cl (mName m),
            vmState = (if \<not> leader \<and> mdReplicationState d \<noteq> [] then mdReplicationState d else mdState d),
            vmTimeline = mdTimeline d, vmReceiveLSN = [], vmReceiveLagBytes = 0, vmReplayLSN = [], vmReplayLagBytes = 0,
            vmPendingRestart = (mdPendingRestart d = Some True), vmPendingRestartReason = mdPendingRestartReason d,
            vmScheduledRestart = decodeScheduledRestart (mdScheduledRestart d), vmTags = mdTags d,
            vmPatroniVersion = mdPatroniVersion d\<rparr>
      in if leader then projected else projectLSN projected d (stLastLSN (cStatus cl)))"

definition projectCluster :: "snapshot \<Rightarrow> target \<Rightarrow> cluster_view" where
  "projectCluster sn requested =
     (let cl = snCluster sn;
          t = (if tScope (Normalize (snTarget sn)) = [] then Normalize requested else Normalize (snTarget sn)) in
      \<lparr>vcTarget = t, vcDiscoveryState = discoveryStateForSnapshot sn, vcManagementState = ManagementExplicit,
       vcReachabilityState = ReachabilityUnknown, vcHealthState = HealthUnknown, vcRevision = snRevision sn,
       vcInitialize = cInitialize cl, vcLeader = clusterLeader cl, vcPaused = boolConfig (jlookup (cConfig cl) ''pause''),
       vcScheduledSwitchover = (case cFailover cl of
           None \<Rightarrow> None
         | Some f \<Rightarrow> if fScheduledAt f = [] then None
                     else Some \<lparr>swAt = fScheduledAt f, swFrom = fLeader f, swTo = fCandidate f\<rparr>),
       vcMembers = sort_key vmName (map (projectMember cl t) (cMembers cl))\<rparr>)"


section \<open>Topology\<close>

record topology_member =
  tpMember :: member_view
  tpParent :: string
  tpDepth :: int

text \<open>The member a name stands for; of two with one name, the last.\<close>

definition viewMember :: "cluster_view \<Rightarrow> string \<Rightarrow> member_view option" where
  "viewMember cl name = find (\<lambda>m. vmName m = name) (rev (vcMembers cl))"

text \<open>A replica hangs below the member its tag \<open>replicatefrom\<close> names, if that is another replica, else below the leader.\<close>

definition parentOf :: "cluster_view \<Rightarrow> member_view \<Rightarrow> string" where
  "parentOf cl m =
     (case jlookup (vmTags m) ''replicatefrom'' of
        Some (JStr candidate) \<Rightarrow>
          if candidate \<noteq> vmName m \<and> candidate \<noteq> vcLeader cl \<and> candidate \<in> vmName ` set (vcMembers cl) then candidate
          else vcLeader cl
      | _ \<Rightarrow> vcLeader cl)"

definition replicasOf :: "cluster_view \<Rightarrow> member_view list" where
  "replicasOf cl = filter (\<lambda>m. vmName m \<noteq> vcLeader cl) (vcMembers cl)"

definition childrenOf :: "cluster_view \<Rightarrow> string \<Rightarrow> string list" where
  "childrenOf cl parent = sort (map vmName (filter (\<lambda>m. parentOf cl m = parent) (replicasOf cl)))"

text \<open>The parent stored for a name: that of the last replica of the name.\<close>

definition storedParent :: "cluster_view \<Rightarrow> string \<Rightarrow> string" where
  "storedParent cl name =
     (case find (\<lambda>m. vmName m = name) (rev (replicasOf cl)) of None \<Rightarrow> [] | Some m \<Rightarrow> parentOf cl m)"

definition shown :: "topology_member list \<Rightarrow> string set" where
  "shown out = vmName ` tpMember ` set out"

definition unshown :: "cluster_view \<Rightarrow> topology_member list \<Rightarrow> string set" where
  "unshown cl out = vmName ` set (vcMembers cl) - shown out"

lemma shown_snoc [simp]: "shown [] = {}" "shown (out @ out') = shown out \<union> shown out'"
    "shown [\<lparr>tpMember = m, tpParent = parent, tpDepth = depth\<rparr>] = {vmName m}"
  by (auto simp: shown_def)

lemma viewMember_Some:
  assumes "viewMember cl name = Some m"
  shows "m \<in> set (vcMembers cl)" "vmName m = name"
proof -
  obtain i where "i < length (rev (vcMembers cl))" "m = rev (vcMembers cl) ! i" "vmName m = name"
    using assms by (auto simp: viewMember_def find_Some_iff)
  then show "m \<in> set (vcMembers cl)" "vmName m = name" using nth_mem [of i "rev (vcMembers cl)"] by simp_all
qed

text \<open>
  The closure \<open>walk\<close> of the source, for a list of siblings: it appends to the result, from which the set of
  visited names is read, and it descends before it goes on.
\<close>

function walk :: "cluster_view \<Rightarrow> string list \<Rightarrow> string \<Rightarrow> int \<Rightarrow> topology_member list \<Rightarrow> topology_member list" where
  "walk cl [] parent depth out = out"
| "walk cl (name # names) parent depth out =
     (case viewMember cl name of
        None \<Rightarrow> walk cl names parent depth out
      | Some m \<Rightarrow>
          if name = [] \<or> name \<in> shown out then walk cl names parent depth out
          else walk cl names parent depth
                 (walk cl (childrenOf cl name) name (depth + 1)
                    (out @ [\<lparr>tpMember = m, tpParent = parent, tpDepth = depth\<rparr>])))"
  by pat_completeness auto
termination
proof -
  have grows: "shown out \<subseteq> shown (walk cl names parent depth out)" if "walk_dom (cl, names, parent, depth, out)"
    for cl names parent depth out
    using that
  proof (induction cl names parent depth out rule: walk.pinduct)
    case (2 cl name names parent depth out)
    then show ?case
      by (cases "viewMember cl name"; cases "name = [] \<or> name \<in> shown out") (simp_all add: walk.psimps, blast)
  qed (simp add: walk.psimps)
  show ?thesis
  proof (relation "inv_image (finite_psubset <*lex*> less_than) (\<lambda>(cl, names, parent, depth, out). (unshown cl out, length names))", goal_cases)
    case (4 cl name names parent depth out m)
    with viewMember_Some [OF 4(1)] show ?case by (auto simp: finite_psubset_def unshown_def)
  next
    case (5 cl name names parent depth out m)
    with viewMember_Some [OF 5(1)] grows [OF 5(3)] show ?case by (auto simp: finite_psubset_def unshown_def)
  qed (auto simp: unshown_def)
qed

text \<open>First the leader and what hangs below it, then, for every member not shown yet, what hangs below that.\<close>

definition topologyMembers :: "cluster_view \<Rightarrow> topology_member list" where
  "topologyMembers cl =
     fold (\<lambda>m out. if vmName m \<in> shown out then out else walk cl [vmName m] (storedParent cl (vmName m)) 0 out)
       (vcMembers cl) (walk cl [vcLeader cl] [] 0 [])"

end
