(* ===== verification/Cluster_View_Spec.thy ===== *)
theory Cluster_View_Spec
  imports Cluster_View Example_Service "HOL-Library.Multiset"
begin

text \<open>What the projections guarantee: the topology is a forest of all members, positions keep their order, roles follow the leader.\<close>

section \<open>Topology\<close>

abbreviation shown_name :: "topology_member \<Rightarrow> string" where
  "shown_name e \<equiv> vmName (tpMember e)"

text \<open>An entry is a root, or one deeper than an entry shown before, of which it is a child.\<close>

definition placed :: "cluster_view \<Rightarrow> topology_member list \<Rightarrow> topology_member \<Rightarrow> bool" where
  "placed cl out e =
     (tpDepth e = 0
      \<or> (\<exists>p \<in> set out. shown_name p = tpParent e \<and> tpDepth e = tpDepth p + 1 \<and> shown_name e \<in> set (childrenOf cl (tpParent e))))"

text \<open>Results grow at their end.\<close>

inductive grown :: "cluster_view \<Rightarrow> topology_member list \<Rightarrow> bool" for cl where
  grown_Nil: "grown cl []"
| grown_snoc: "grown cl out \<Longrightarrow> viewMember cl (shown_name e) = Some (tpMember e) \<Longrightarrow> shown_name e \<noteq> []
    \<Longrightarrow> shown_name e \<notin> shown out \<Longrightarrow> placed cl out e \<Longrightarrow> grown cl (out @ [e])"

lemma grown_facts:
  "grown cl out \<Longrightarrow> distinct (map shown_name out) \<and> [] \<notin> shown out \<and> shown out \<subseteq> vmName ` set (vcMembers cl)
     \<and> (\<forall>i < length out. placed cl (take i out) (out ! i))"
proof (induction rule: grown.induct)
  case (grown_snoc out e)
  then show ?case
    using viewMember_Some(1) [OF grown_snoc(2)]
    by (auto simp: shown_def nth_append less_Suc_eq image_iff)
qed (simp add: shown_def)

lemma viewMember_ex: "name \<in> vmName ` set (vcMembers cl) \<longleftrightarrow> viewMember cl name \<noteq> None"
  by (auto simp: viewMember_def find_None_iff)

lemma children_known: "set (childrenOf cl p) \<subseteq> vmName ` set (vcMembers cl)"
  by (auto simp: childrenOf_def replicasOf_def)

definition siblings_ok :: "cluster_view \<Rightarrow> string list \<Rightarrow> string \<Rightarrow> int \<Rightarrow> topology_member list \<Rightarrow> bool" where
  "siblings_ok cl names parent depth out =
     (depth = 0
      \<or> (\<exists>p \<in> set out. shown_name p = parent \<and> depth = tpDepth p + 1 \<and> set names \<subseteq> set (childrenOf cl parent)))"

lemma walk_grown:
  "grown cl out \<Longrightarrow> siblings_ok cl names parent depth out
   \<Longrightarrow> grown cl (walk cl names parent depth out) \<and> set out \<subseteq> set (walk cl names parent depth out)"
proof (induction cl names parent depth out rule: walk.induct)
  case (2 cl name names parent depth out)
  show ?case
  proof (cases "viewMember cl name = None \<or> name = [] \<or> name \<in> shown out")
    case True
    then show ?thesis using 2 by (auto simp: siblings_ok_def split: option.splits)
  next
    case False
    then obtain m where m: "viewMember cl name = Some m" and n: "name \<noteq> []" "name \<notin> shown out" by auto
    let ?e = "\<lparr>tpMember = m, tpParent = parent, tpDepth = depth\<rparr>"
    have "grown cl (out @ [?e])"
      using 2(5,6) m n viewMember_Some [OF m] by (intro grown.intros) (auto simp: placed_def siblings_ok_def)
    moreover have "siblings_ok cl (childrenOf cl name) name (depth + 1) (out @ [?e])"
      using viewMember_Some [OF m] by (auto simp: siblings_ok_def)
    ultimately have inner: "grown cl (walk cl (childrenOf cl name) name (depth + 1) (out @ [?e]))"
      "set (out @ [?e]) \<subseteq> set (walk cl (childrenOf cl name) name (depth + 1) (out @ [?e]))"
      using 2(3) m n by auto
    moreover have "siblings_ok cl names parent depth (walk cl (childrenOf cl name) name (depth + 1) (out @ [?e]))"
      using 2(6) inner(2) by (fastforce simp: siblings_ok_def)
    ultimately show ?thesis using 2(4) m n by auto
  qed
qed simp

text \<open>A walk shows its siblings, and whatever it shows it shows with its children.\<close>

definition visited :: "cluster_view \<Rightarrow> string \<Rightarrow> topology_member list \<Rightarrow> bool" where
  "visited cl name out = (viewMember cl name = None \<or> name = [] \<or> name \<in> shown out)"

lemma walk_mono: "shown out \<subseteq> shown (walk cl names parent depth out)"
proof (induction cl names parent depth out rule: walk.induct)
  case (2 cl name names parent depth out)
  then show ?case by (cases "viewMember cl name"; cases "name = [] \<or> name \<in> shown out") (simp_all, blast)
qed simp

lemma visited_mono: "visited cl name out \<Longrightarrow> visited cl name (walk cl names parent depth out)"
  using walk_mono [of out cl names parent depth] by (auto simp: visited_def)

lemma walk_visits:
  "(\<forall>name \<in> set names. visited cl name (walk cl names parent depth out))
   \<and> (\<forall>p \<in> shown (walk cl names parent depth out) - shown out. \<forall>c \<in> set (childrenOf cl p). visited cl c (walk cl names parent depth out))"
proof (induction cl names parent depth out rule: walk.induct)
  case (2 cl name names parent depth out)
  show ?case
  proof (cases "viewMember cl name = None \<or> name = [] \<or> name \<in> shown out")
    case True
    then show ?thesis using 2(1,2) walk_mono [of out cl names parent depth]
      by (auto simp: visited_def split: option.splits)
  next
    case False
    then obtain m where m: "viewMember cl name = Some m" "name \<noteq> []" "name \<notin> shown out" by auto
    define inner where "inner = walk cl (childrenOf cl name) name (depth + 1) (out @ [\<lparr>tpMember = m, tpParent = parent, tpDepth = depth\<rparr>])"
    have w: "walk cl (name # names) parent depth out = walk cl names parent depth inner" using m by (simp add: inner_def)
    have "insert name (shown out) \<subseteq> shown inner"
      using walk_mono [of "out @ [\<lparr>tpMember = m, tpParent = parent, tpDepth = depth\<rparr>]" cl "childrenOf cl name" name "depth + 1"]
        viewMember_Some(2) [OF m(1)] by (auto simp: inner_def)
    moreover have "\<forall>c \<in> set (childrenOf cl name). visited cl c inner"
      "\<forall>p \<in> shown inner - insert name (shown out). \<forall>c \<in> set (childrenOf cl p). visited cl c inner"
      using 2(3) [OF m(1)] m viewMember_Some(2) [OF m(1)] by (auto simp: inner_def)
    moreover have "\<forall>n \<in> set names. visited cl n (walk cl names parent depth inner)"
      "\<forall>p \<in> shown (walk cl names parent depth inner) - shown inner. \<forall>c \<in> set (childrenOf cl p). visited cl c (walk cl names parent depth inner)"
      using 2(4) [OF m(1)] m by (auto simp: inner_def)
    moreover have "visited cl name (walk cl names parent depth inner)"
      using calculation(1) visited_mono [of cl name inner names parent depth] by (auto simp: visited_def)
    ultimately show ?thesis unfolding w using visited_mono [of cl _ inner names parent depth] by (auto; blast)
  qed
qed simp

lemma walk_depth:
  "e \<in> set (walk cl names parent depth out) \<Longrightarrow> e \<in> set out \<or> depth < tpDepth e \<or> depth = tpDepth e \<and> shown_name e \<in> set names"
proof (induction cl names parent depth out rule: walk.induct)
  case (2 cl name names parent depth out)
  then show ?case using viewMember_Some(2) [of cl name] by (auto split: option.splits if_splits)
qed simp

text \<open>The members the chain of parents leads from to the leader.\<close>

inductive hangs :: "cluster_view \<Rightarrow> string \<Rightarrow> bool" for cl where
  hangs_leader: "vcLeader cl \<in> vmName ` set (vcMembers cl) \<Longrightarrow> vcLeader cl \<noteq> [] \<Longrightarrow> hangs cl (vcLeader cl)"
| hangs_child: "hangs cl p \<Longrightarrow> name \<in> set (childrenOf cl p) \<Longrightarrow> name \<noteq> [] \<Longrightarrow> hangs cl name"

definition leaderTree :: "cluster_view \<Rightarrow> topology_member list" where
  "leaderTree cl = walk cl [vcLeader cl] [] 0 []"

lemma leaderTree_hangs: "hangs cl name \<Longrightarrow> name \<in> shown (leaderTree cl)"
proof (induction rule: hangs.induct)
  case hangs_leader
  then show ?case
    using walk_visits [of "[vcLeader cl]" cl "[]" 0 "[]"] by (auto simp: leaderTree_def visited_def viewMember_ex)
next
  case (hangs_child p name)
  then have "visited cl name (leaderTree cl)"
    using walk_visits [of "[vcLeader cl]" cl "[]" 0 "[]"] by (auto simp: leaderTree_def)
  moreover have "name \<in> vmName ` set (vcMembers cl)" using hangs_child(2) children_known by blast
  ultimately show ?case using hangs_child(3) by (auto simp: visited_def viewMember_ex)
qed

definition addTree :: "cluster_view \<Rightarrow> member_view \<Rightarrow> topology_member list \<Rightarrow> topology_member list" where
  "addTree cl m out = (if vmName m \<in> shown out then out else walk cl [vmName m] (storedParent cl (vmName m)) 0 out)"

lemma topologyMembers_fold: "topologyMembers cl = fold (addTree cl) (vcMembers cl) (leaderTree cl)"
  by (simp add: topologyMembers_def addTree_def [abs_def] leaderTree_def)

lemma addTree_facts:
  assumes "grown cl out"
  shows "grown cl (addTree cl m out)" "set out \<subseteq> set (addTree cl m out)" "visited cl (vmName m) (addTree cl m out)"
  using walk_grown [OF assms, of "[vmName m]" "storedParent cl (vmName m)" 0] walk_visits [of "[vmName m]" cl "storedParent cl (vmName m)" 0 out] assms
  by (auto simp: addTree_def siblings_ok_def visited_def)

lemma addTrees_facts:
  "grown cl out \<Longrightarrow> grown cl (fold (addTree cl) ms out) \<and> set out \<subseteq> set (fold (addTree cl) ms out)
     \<and> (\<forall>m \<in> set ms. visited cl (vmName m) (fold (addTree cl) ms out))"
proof (induction ms arbitrary: out)
  case (Cons m ms)
  note f = addTree_facts [OF Cons.prems, of m]
  from Cons.IH [OF f(1)] f show ?case by (auto simp: visited_def shown_def)
qed simp

text \<open>C30: The topology of a cluster is a forest of all its members. Whatever the tags \<open>replicatefrom\<close> say, cycles included,
  the walk ends and lists every member name exactly once; every entry is a root or stands one level below an entry listed
  before, of which it is a replica; and a member from which the chain of parents leads to the leader is never a root.\<close>

theorem topology_forest:
  "(let out = topologyMembers cl in
     distinct (map shown_name out) \<and> set (map shown_name out) = vmName ` set (vcMembers cl) - {[]}
     \<and> (\<forall>i < length out. placed cl (take i out) (out ! i))
     \<and> (\<forall>e \<in> set out. tpDepth e = 0 \<and> hangs cl (shown_name e) \<longrightarrow> shown_name e = vcLeader cl))"
proof -
  define out where "out = topologyMembers cl"
  have "grown cl (leaderTree cl)" unfolding leaderTree_def using walk_grown [OF grown_Nil, of cl "[vcLeader cl]" "[]" 0]
    by (simp add: siblings_ok_def)
  then have g: "grown cl out" and sub: "set (leaderTree cl) \<subseteq> set out" and v: "\<forall>m \<in> set (vcMembers cl). visited cl (vmName m) out"
    using addTrees_facts unfolding out_def topologyMembers_fold by blast+
  note f = grown_facts [OF g]
  have "vmName ` set (vcMembers cl) - {[]} \<subseteq> shown out"
    using v by (auto simp: visited_def dest: viewMember_ex [THEN iffD1, OF imageI])
  with f have "shown out = vmName ` set (vcMembers cl) - {[]}" by blast
  then have "set (map shown_name out) = vmName ` set (vcMembers cl) - {[]}" by (simp add: shown_def image_image)
  moreover have "shown_name e = vcLeader cl" if e: "e \<in> set out" "tpDepth e = 0" "hangs cl (shown_name e)" for e
  proof -
    obtain e' where "e' \<in> set (leaderTree cl)" "shown_name e' = shown_name e"
      using leaderTree_hangs [OF e(3)] by (auto simp: shown_def)
    moreover from this have "e' = e" using f sub e(1) by (auto simp: distinct_map dest: inj_onD)
    ultimately show ?thesis using walk_depth [of e cl "[vcLeader cl]" "[]" 0 "[]"] e(2) by (simp add: leaderTree_def)
  qed
  ultimately show ?thesis using f by (simp add: Let_def out_def)
qed

text \<open>A replica chain below the leader, and two members that name each other.\<close>

definition demoReplica :: "string \<Rightarrow> string \<Rightarrow> member_view" where
  "demoReplica name source =
     (projectMember (demoCluster ''pg-1'') demoTarget (demoMember name))
       \<lparr>vmTags := (if source = [] then [] else [(''replicatefrom'', JStr source)])\<rparr>"

definition demoView :: cluster_view where
  "demoView = (projectCluster (demoSnapshot 7 (demoCluster ''pg-1'')) demoTarget)\<lparr>vcMembers :=
     [demoReplica ''pg-1'' [], demoReplica ''pg-2'' ''pg-3'', demoReplica ''pg-3'' [], demoReplica ''pg-4'' ''pg-5'',
      demoReplica ''pg-5'' ''pg-4'']\<rparr>"

theorem topology_forest_witness:
  "map (\<lambda>e. (shown_name e, tpParent e, tpDepth e)) (topologyMembers demoView) =
     [(''pg-1'', [], 0), (''pg-3'', ''pg-1'', 1), (''pg-2'', ''pg-3'', 2), (''pg-4'', ''pg-5'', 0), (''pg-5'', ''pg-4'', 1)]
   \<and> distinct (map shown_name (topologyMembers demoView)) \<and> hangs demoView ''pg-2''
   \<and> \<not> (\<exists>e \<in> set (topologyMembers demoView). shown_name e = ''pg-2'' \<and> tpDepth e = 0)"
proof -
  have l: "vcLeader demoView = ''pg-1''" "''pg-1'' \<in> vmName ` set (vcMembers demoView)"
    "''pg-3'' \<in> set (childrenOf demoView ''pg-1'')" "''pg-2'' \<in> set (childrenOf demoView ''pg-3'')"
    by code_simp+
  then have h: "hangs demoView ''pg-2''"
    using hangs_leader [of demoView] hangs_child [of demoView "''pg-1''" "''pg-3''"] hangs_child [of demoView "''pg-3''" "''pg-2''"] by simp
  have "map (\<lambda>e. (shown_name e, tpParent e, tpDepth e)) (topologyMembers demoView) =
     [(''pg-1'', [], 0), (''pg-3'', ''pg-1'', 1), (''pg-2'', ''pg-3'', 2), (''pg-4'', ''pg-5'', 0), (''pg-5'', ''pg-4'', 1)]"
    by code_simp
  moreover note f = topology_forest [of demoView, unfolded Let_def]
  have "\<not> (\<exists>e \<in> set (topologyMembers demoView). shown_name e = ''pg-2'' \<and> tpDepth e = 0)"
  proof
    assume "\<exists>e \<in> set (topologyMembers demoView). shown_name e = ''pg-2'' \<and> tpDepth e = 0"
    with f h have "''pg-2'' = vcLeader demoView" by metis
    with l(1) show False by simp
  qed
  moreover have "distinct (map shown_name (topologyMembers demoView))" using f by blast
  ultimately show ?thesis using h by blast
qed

section \<open>Positions\<close>

lemma hex_digit_inj: "m < 16 \<Longrightarrow> n < 16 \<Longrightarrow> hex_digit m = hex_digit n \<longleftrightarrow> m = n"
  by (metis hex_val_hex_digit option.inject)

lemma nat_to_hex_slash: "CHR ''/'' \<notin> set (nat_to_hex n)"
proof (induction n rule: nat_to_hex.induct)
  case (1 n)
  then show ?case by (subst nat_to_hex.simps) (auto dest: sym [of "hex_digit _"] simp: hex_digit_not_slash [symmetric])
qed

lemma nat_to_hex_nonempty: "nat_to_hex n \<noteq> []"
  by (subst nat_to_hex.simps) simp

lemma nat_to_hex_inj: "nat_to_hex m = nat_to_hex n \<Longrightarrow> m = n"
proof (induction m arbitrary: n rule: nat_to_hex.induct)
  case (1 m)
  have small: "k < 16 \<Longrightarrow> nat_to_hex k = [hex_digit k]" and large: "\<not> k < 16 \<Longrightarrow> nat_to_hex k = nat_to_hex (k div 16) @ [hex_digit (k mod 16)]" for k
    by (subst nat_to_hex.simps; simp)+
  show ?case
  proof (cases "m < 16 \<or> n < 16")
    case True
    then show ?thesis
      using 1(2) by (cases "m < 16"; cases "n < 16") (auto simp: small large hex_digit_inj nat_to_hex_nonempty nat_to_hex_nonempty [symmetric])
  next
    case False
    then have "nat_to_hex (m div 16) = nat_to_hex (n div 16)" "m mod 16 = n mod 16"
      using 1(2) by (auto simp: large hex_digit_inj)
    with 1(1) False show ?thesis by (metis div_mult_mod_eq)
  qed
qed

lemma append_slash: "CHR ''/'' \<notin> set a \<Longrightarrow> CHR ''/'' \<notin> set b \<Longrightarrow> a @ ''/'' @ x = b @ ''/'' @ y \<longleftrightarrow> a = b \<and> x = y"
proof (induction a arbitrary: b)
  case (Cons c a)
  then show ?case by (cases b) auto
qed (case_tac b; auto)

lemma uint64_inj: "a \<in> {- (2 ^ 63)..<2 ^ 63} \<Longrightarrow> b \<in> {- (2 ^ 63)..<2 ^ 63} \<Longrightarrow> uint64 a = uint64 b \<longleftrightarrow> a = b"
proof
  assume a: "a \<in> {- (2 ^ 63)..<2 ^ 63}" and b: "b \<in> {- (2 ^ 63)..<2 ^ 63}" and "uint64 a = uint64 b"
  then have "a mod 2 ^ 64 = b mod 2 ^ 64" by (simp add: uint64_def nat_eq_iff)
  then have "2 ^ 64 dvd a - b" by (simp add: mod_eq_dvd_iff)
  moreover have "\<bar>a - b\<bar> < 2 ^ 64" using a b by auto
  ultimately show "a = b" using zdvd_imp_le [of "2 ^ 64" "\<bar>a - b\<bar>"] by (cases "a = b") auto
qed simp

lemma formatLSN_inj:
  assumes "a \<in> {- (2 ^ 63)..<2 ^ 63}" "b \<in> {- (2 ^ 63)..<2 ^ 63}"
  shows "formatLSN a = formatLSN b \<longleftrightarrow> a = b"
proof
  assume "formatLSN a = formatLSN b"
  then have "nat_to_hex (uint64 a div 2 ^ 32) = nat_to_hex (uint64 b div 2 ^ 32)" "nat_to_hex (uint64 a mod 2 ^ 32) = nat_to_hex (uint64 b mod 2 ^ 32)"
    unfolding formatLSN_def by (simp_all add: append_slash [OF nat_to_hex_slash nat_to_hex_slash] del: append_Cons)
  then have "uint64 a div 2 ^ 32 = uint64 b div 2 ^ 32" "uint64 a mod 2 ^ 32 = uint64 b mod 2 ^ 32" using nat_to_hex_inj by blast+
  then have "uint64 a = uint64 b" by (metis div_mult_mod_eq)
  with assms show "a = b" using uint64_inj by blast
qed simp

lemma int64_id: "n \<in> {- (2 ^ 63)..<2 ^ 63} \<Longrightarrow> int64 n = n"
  by (simp add: int64_def)

lemma int64_range: "int64 n \<in> {- (2 ^ 63)..<2 ^ 63}"
  by (simp add: int64_def)


section \<open>Projections\<close>

lemma projectLSN_sel [simp]:
  "vmName (projectLSN m d lsn) = vmName m" "vmRole (projectLSN m d lsn) = vmRole m" "vmTarget (projectLSN m d lsn) = vmTarget m"
  by (simp_all add: projectLSN_def Let_def split: option.splits)

lemma projectMember_sel [simp]:
  "vmName (projectMember cl t m) = mName m" "vmRole (projectMember cl t m) = projectRole cl (mName m)"
  "vmTarget (projectMember cl t m) = t\<lparr>tMember := mName m\<rparr>"
  by (simp_all add: projectMember_def Let_def split: prod.splits sum.splits)

lemma projectCluster_sel [simp]:
  "vcMembers (projectCluster sn t) = sort_key vmName (map (projectMember (snCluster sn) (vcTarget (projectCluster sn t))) (cMembers (snCluster sn)))"
  "vcLeader (projectCluster sn t) = clusterLeader (snCluster sn)"
  "vcRevision (projectCluster sn t) = snRevision sn"
  by (simp_all add: projectCluster_def Let_def)

definition follows :: "member_role \<Rightarrow> bool" where
  "follows r = (r \<noteq> MemberLeader \<and> r \<noteq> MemberStandbyLeader)"

lemma projectRole_follows: "follows (projectRole cl name) \<longleftrightarrow> name \<noteq> clusterLeader cl"
  by (auto simp: follows_def projectRole_def Let_def)

lemma projectRole_sync:
  "projectRole cl name \<in> {MemberSyncStandby, MemberQuorumStandby} \<longleftrightarrow>
     name \<noteq> clusterLeader cl \<and> \<not> standbyCluster (cConfig cl) \<and> synchronousMode (cConfig cl) \<and> name \<in> stringSet (sStandbys (cSync cl))"
  by (auto simp: projectRole_def Let_def)

text \<open>C31: A view shows the cluster of its snapshot. Its members are those of the snapshot, sorted by name, each under the
  target of the cluster; exactly the member with the name of the leader leads; a member is shown as a synchronous or quorum
  standby exactly when it is another one, the cluster is no standby cluster, its configuration has a synchronous mode and the
  sync key lists it. Positions print without loss, and below a cluster position a member's lag is the exact difference.\<close>

theorem view_faithful:
  assumes "v = projectCluster sn requested" and "a \<in> {- (2 ^ 63)..<2 ^ 63}" and "b \<in> {- (2 ^ 63)..<2 ^ 63}"
  shows "sorted (map vmName (vcMembers v)) \<and> mset (map vmName (vcMembers v)) = mset (map mName (cMembers (snCluster sn)))
    \<and> list_all (\<lambda>m. vmTarget m = (vcTarget v)\<lparr>tMember := vmName m\<rparr> \<and> (follows (vmRole m) \<longleftrightarrow> vmName m \<noteq> vcLeader v)
         \<and> (vmRole m \<in> {MemberSyncStandby, MemberQuorumStandby} \<longleftrightarrow>
              vmName m \<noteq> vcLeader v \<and> \<not> standbyCluster (cConfig (snCluster sn)) \<and> synchronousMode (cConfig (snCluster sn))
              \<and> vmName m \<in> stringSet (sStandbys (cSync (snCluster sn))))) (vcMembers v)
    \<and> (formatLSN a = formatLSN b \<longleftrightarrow> a = b)
    \<and> (0 \<le> b \<longrightarrow> nonnegativeLag a b = max 0 (a - b))"
proof -
  have "mset (map vmName (vcMembers v)) = mset (map mName (cMembers (snCluster sn)))"
    by (simp add: assms(1) multiset.map_comp comp_def)
  moreover have "nonnegativeLag a b = max 0 (a - b)" if "0 \<le> b"
    using that assms(2,3) int64_id [of "a - b"] by (auto simp: nonnegativeLag_def max_def)
  moreover have "sorted (map vmName (vcMembers v))" by (simp add: assms(1))
  ultimately show ?thesis
    using formatLSN_inj [OF assms(2,3)] by (simp add: assms(1) list_all_iff projectRole_follows projectRole_sync del: insert_iff)
qed

theorem view_faithful_witness:
  "mset (map vmName (vcMembers (projectCluster (demoSnapshot 7 (demoCluster ''pg-2'')) demoTarget))) = {#''pg-1'', ''pg-2''#}
   \<and> nonnegativeLag (2 ^ 40) 5 = 2 ^ 40 - 5 \<and> formatLSN (2 ^ 40) \<noteq> formatLSN 5"
proof -
  have r: "(2 :: int) ^ 40 \<in> {- (2 ^ 63)..<2 ^ 63}" "(5 :: int) \<in> {- (2 ^ 63)..<2 ^ 63}" by simp_all
  have "map mName (cMembers (snCluster (demoSnapshot 7 (demoCluster ''pg-2'')))) = [''pg-1'', ''pg-2'']" by code_simp
  with view_faithful [OF refl r, of "demoSnapshot 7 (demoCluster ''pg-2'')" demoTarget] show ?thesis by auto
qed

end
