(* ===== verification/Reads.thy ===== *)
theory Reads
  imports Cluster_View
begin

text \<open>
  The operations that only read: \<^verbatim>\<open>src/control/read.go\<close> and \<^verbatim>\<open>src/control/discover.go\<close>.  The query of a PostgreSQL
  member is left out: it is a call of the \<open>postgres\<close> client.
\<close>

section \<open>Requests and data\<close>

record list_request =
  lqTargets :: "target list"
  lqCitus :: bool
  lqAllow :: bool

record namespace_request =
  nqContext :: string
  nqNamespace :: string
  nqAllow :: bool

record cluster_request =
  cqTarget :: target
  cqAllow :: bool

record dsn_request =
  dqTarget :: target
  dqRole :: role
  dqMember :: string
  dqCitus :: bool
  dqAllow :: bool

record dsn_data =
  dnTarget :: target
  dnMember :: string
  dnRole :: role
  dnHost :: string
  dnPort :: int

record topology_data =
  tdCluster :: cluster_view
  tdMembers :: "topology_member list"

record config_data =
  cgTarget :: target
  cgRevision :: int
  cgConfig :: jobject

record history_entry =
  heTimeline :: int
  heLSN :: int
  heReason :: string
  heTimestamp :: string
  heNewLeader :: string

record history_data =
  hdTarget :: target
  hdEntries :: "history_entry list"

record version_request =
  vqTarget :: target
  vqMembers :: "string list"
  vqCitus :: bool
  vqAllow :: bool

record member_version =
  mvTarget :: target
  mvPatroniVersion :: string
  mvPostgresVersion :: string
  mvHTTPStatus :: int
  mvError :: "control_error option"

record version_data =
  vdProductVersion :: string
  vdMembers :: "member_version list"


section \<open>One cluster\<close>

definition zeroCluster :: cluster_view where
  "zeroCluster = \<lparr>vcTarget = zeroTarget, vcDiscoveryState = DiscoveryAbsent, vcManagementState = ManagementUnmanaged,
     vcReachabilityState = ReachabilityUnknown, vcHealthState = HealthUnknown, vcRevision = 0, vcInitialize = [],
     vcLeader = [], vcPaused = False, vcScheduledSwitchover = None, vcMembers = []\<rparr>"

text \<open>What \<open>Topology\<close>, \<open>ShowConfig\<close> and \<open>History\<close> share: the checks, one snapshot, the gate.\<close>

definition readCluster ::
  "'w service \<Rightarrow> 'w goctx \<Rightarrow> 'd \<Rightarrow> string \<Rightarrow> cluster_request \<Rightarrow> (string \<Rightarrow> target \<Rightarrow> snapshot \<Rightarrow> ('w, 'd result) prog)
   \<Rightarrow> ('w, 'd result) prog" where
  "readCluster svc ctx zero operation rq conclude = do {
     opID \<leftarrow> operationID svc;
     (let t = Normalize (cqTarget rq);
          fail = (\<lambda>cat retryable message cause. failedRead svc zero opID operation t PathDCS cat retryable message cause) in
      if \<not> validContext ctx then fail CategoryUsage False (operation @ '' requires a context'') None
      else (case Validate t True of
        Some e \<Rightarrow> fail CategoryUsage False (operation @ '' target is invalid'') (Some (errorsNew e))
      | None \<Rightarrow> do {
          r \<leftarrow> Snapshot svc t;
          (case r of
             Inl err \<Rightarrow> (case classifyReadError (Some err) of (cat, retryable) \<Rightarrow>
               fail cat retryable ''cluster snapshot failed'' (Some err))
           | Inr sn \<Rightarrow>
              (case checkSnapshotPatroniVersion svc sn (cqAllow rq) of
                 Some err \<Rightarrow> unsupportedVersionResult svc zero opID operation t PathDCS sn (Some err)
               | None \<Rightarrow> conclude opID t sn))
        }))
   }"

text \<open>A result read from one snapshot.\<close>

definition readFrom :: "'w service \<Rightarrow> string \<Rightarrow> target \<Rightarrow> 'd \<Rightarrow> snapshot \<Rightarrow> string \<Rightarrow> ('w, 'd result) prog" where
  "readFrom svc opID t d sn summary = do {
     e \<leftarrow> snapshotEvidence svc sn summary;
     State_Monad.return \<lparr>rOperationID = opID, rOutcome = Succeeded, rTarget = t, rPath = PathDCS, rData = d,
       rEvidence = [e], rError = None\<rparr>
   }"

definition topologyData :: "cluster_view \<Rightarrow> topology_data" where
  "topologyData cl = \<lparr>tdCluster = cl, tdMembers = topologyMembers cl\<rparr>"

definition Topology :: "'w service \<Rightarrow> 'w goctx \<Rightarrow> cluster_request \<Rightarrow> ('w, topology_data result) prog" where
  "Topology svc ctx rq =
     readCluster svc ctx \<lparr>tdCluster = zeroCluster, tdMembers = []\<rparr> ''topology'' rq
       (\<lambda>opID t sn. readFrom svc opID t (topologyData (projectCluster sn t)) sn ''cluster topology projected'')"

definition ShowConfig :: "'w service \<Rightarrow> 'w goctx \<Rightarrow> cluster_request \<Rightarrow> ('w, config_data result) prog" where
  "ShowConfig svc ctx rq =
     readCluster svc ctx \<lparr>cgTarget = zeroTarget, cgRevision = 0, cgConfig = []\<rparr> ''show-config'' rq
       (\<lambda>opID t sn. readFrom svc opID t
          \<lparr>cgTarget = t, cgRevision = (case snapshot_Entry sn ''config'' of None \<Rightarrow> 0 | Some e \<Rightarrow> eModRevision e),
           cgConfig = cConfig (snCluster sn)\<rparr> sn ''dynamic configuration read'')"

text \<open>Decoding a number of the log and a text of a history entry; \<open>null\<close> leaves the zero value.\<close>

fun jint64 :: "jval \<Rightarrow> int option" where
  "jint64 (JNum n) = ParseInt n"
| "jint64 JNull = Some 0"
| "jint64 _ = None"

fun jtext :: "jval \<Rightarrow> string option" where
  "jtext (JStr s) = Some s"
| "jtext JNull = Some []"
| "jtext _ = None"

text \<open>Of an error of the JSON decoder only that there is one is modelled.\<close>

definition normalizeHistoryEntry :: "string \<Rightarrow> goerror + history_entry" where
  "normalizeHistoryEntry raw =
     (let optional = (\<lambda>xs. case xs of [] \<Rightarrow> Some [] | x # _ \<Rightarrow> jtext x) in
      case parseJSON raw of
        Some (JArr (timeline # lsn # reason # rest)) \<Rightarrow>
          (case (jint64 timeline, jint64 lsn, jtext reason, optional rest, optional (tl rest)) of
             (Some number, Some pos, Some why, Some at, Some leader) \<Rightarrow>
               Inr \<lparr>heTimeline = number, heLSN = pos, heReason = why, heTimestamp = at, heNewLeader = leader\<rparr>
           | _ \<Rightarrow> Inl (errorsNew ''json: cannot unmarshal history field''))
      | Some (JArr _) \<Rightarrow> Inl (errorsNew ''history entry has fewer than three fields'')
      | Some JNull \<Rightarrow> Inl (errorsNew ''history entry has fewer than three fields'')
      | _ \<Rightarrow> Inl (errorsNew ''json: cannot unmarshal history entry''))"

text \<open>The loop over the history: the first malformed entry ends it.\<close>

fun historyEntries :: "string list \<Rightarrow> goerror + history_entry list" where
  "historyEntries [] = Inr []"
| "historyEntries (raw # raws) =
     (case normalizeHistoryEntry raw of
        Inl e \<Rightarrow> Inl e
      | Inr entry \<Rightarrow> (case historyEntries raws of Inl e \<Rightarrow> Inl e | Inr entries \<Rightarrow> Inr (entry # entries)))"

definition History :: "'w service \<Rightarrow> 'w goctx \<Rightarrow> cluster_request \<Rightarrow> ('w, history_data result) prog" where
  "History svc ctx rq = (let zero = \<lparr>hdTarget = zeroTarget, hdEntries = []\<rparr> in
     readCluster svc ctx zero ''history'' rq
       (\<lambda>opID t sn. case historyEntries (cHistory (snCluster sn)) of
          Inl err \<Rightarrow> do {
            e \<leftarrow> snapshotEvidence svc sn ''cluster history read'';
            failedReadWithEvidence svc zero opID ''history'' t PathDCS CategoryFailed False ''cluster history is malformed''
              (Some err) [e]
          }
        | Inr entries \<Rightarrow> readFrom svc opID t \<lparr>hdTarget = t, hdEntries = entries\<rparr> sn ''cluster history read''))"


section \<open>Lists of clusters\<close>

text \<open>A cluster that was asked for and found.\<close>

definition asDiscovered :: "management_state \<Rightarrow> cluster_view \<Rightarrow> cluster_view" where
  "asDiscovered management cl = cl\<lparr>vcDiscoveryState := DiscoveryDiscovered, vcManagementState := management\<rparr>"

definition citusGroupSnapshots :: "'w service \<Rightarrow> string \<Rightarrow> target \<Rightarrow> bool \<Rightarrow> ('w, read_outcome) prog" where
  "citusGroupSnapshots svc operation t allow =
     citusGroupSnapshotsWithVersionCheck svc operation t allow (checkSnapshotPatroniVersion svc)"

text \<open>The loop over the targets of \<open>List\<close>: a failed result, or the clusters and their evidence.\<close>

fun listLoop ::
  "'w service \<Rightarrow> string \<Rightarrow> bool \<Rightarrow> bool \<Rightarrow> target list \<Rightarrow> cluster_view list \<Rightarrow> evidence list
   \<Rightarrow> ('w, cluster_view list result + (cluster_view list \<times> evidence list)) prog" where
  "listLoop svc opID citus allow [] clusters evs = State_Monad.return (Inr (clusters, evs))"
| "listLoop svc opID citus allow (raw # targets) clusters evs =
     (let t = Normalize raw;
          stop = (\<lambda>cat retryable message cause evs. do {
            r \<leftarrow> failedReadWithEvidence svc [] opID ''list'' t PathDCS cat retryable message cause evs;
            State_Monad.return (Inl r)
          }) in
      case Validate t True of
        Some e \<Rightarrow> stop CategoryUsage False ''list target is invalid'' (Some (errorsNew e)) evs
      | None \<Rightarrow>
         if citus \<and> tGroup t = None then do {
           (gevs, r) \<leftarrow> citusGroupSnapshots svc ''list'' t allow;
           (case r of
              Inl f \<Rightarrow> stop (dfCategory f) (dfRetryable f) (dfMessage f) (dfCause f) (evs @ gevs)
            | Inr sns \<Rightarrow> listLoop svc opID citus allow targets
                (clusters @ map (\<lambda>sn. asDiscovered ManagementExplicit (projectCluster sn (snTarget sn))) sns) (evs @ gevs))
         }
         else do {
           r \<leftarrow> Snapshot svc t;
           (case r of
              Inl err \<Rightarrow> (case classifyReadError (Some err) of (cat, retryable) \<Rightarrow>
                stop cat retryable ''cluster snapshot failed'' (Some err) evs)
            | Inr sn \<Rightarrow>
               (case checkSnapshotPatroniVersion svc sn allow of
                  Some err \<Rightarrow> do {
                    r \<leftarrow> unsupportedVersionResult svc [] opID ''list'' t PathDCS sn (Some err);
                    State_Monad.return (Inl r)
                  }
                | None \<Rightarrow> do {
                    e \<leftarrow> snapshotEvidence svc sn ''cluster snapshot read'';
                    listLoop svc opID citus allow targets (clusters @ [projectCluster sn t]) (evs @ [e])
                  }))
         })"

definition ServiceList :: "'w service \<Rightarrow> 'w goctx \<Rightarrow> list_request \<Rightarrow> ('w, cluster_view list result) prog" where
  "ServiceList svc ctx rq = do {
     opID \<leftarrow> operationID svc;
     (let t = aggregateTarget (lqTargets rq);
          fail = (\<lambda>message. failedRead svc [] opID ''list'' t PathDCS CategoryUsage False message None) in
      if \<not> validContext ctx then fail ''list requires a context''
      else if lqTargets rq = [] then fail ''list requires at least one target''
      else do {
        r \<leftarrow> listLoop svc opID (lqCitus rq) (lqAllow rq) (lqTargets rq) [] [];
        State_Monad.return (case r of
            Inl failed \<Rightarrow> failed
          | Inr (clusters, evs) \<Rightarrow> \<lparr>rOperationID = opID, rOutcome = Succeeded, rTarget = t, rPath = PathDCS,
              rData = clusters, rEvidence = evs, rError = None\<rparr>)
      })
   }"

definition TopologyGroups :: "'w service \<Rightarrow> 'w goctx \<Rightarrow> cluster_request \<Rightarrow> ('w, topology_data list result) prog" where
  "TopologyGroups svc ctx rq = do {
     opID \<leftarrow> operationID svc;
     (let t = Normalize (cqTarget rq);
          invalid = (case Validate t True of
              Some e \<Rightarrow> Some (errorsNew e)
            | None \<Rightarrow> if tGroup t \<noteq> None \<or> tMember t \<noteq> [] then
                  Some (errorsNew ''citus topology group expansion requires a group-less cluster target'') else None);
          fail = (\<lambda>message cause. failedRead svc [] opID ''topology'' t PathDCS CategoryUsage False message cause) in
      if \<not> validContext ctx then fail ''Citus topology requires a context'' None
      else if invalid \<noteq> None then fail ''Citus topology target is invalid'' invalid
      else do {
        (evs, r) \<leftarrow> operationSnapshots svc ''topology'' t True (cqAllow rq);
        (case r of
           Inl f \<Rightarrow> failedReadWithEvidence svc [] opID ''topology'' t PathDCS (dfCategory f) (dfRetryable f) (dfMessage f)
             (dfCause f) evs
         | Inr sns \<Rightarrow> State_Monad.return \<lparr>rOperationID = opID, rOutcome = Succeeded, rTarget = t, rPath = PathDCS,
             rData = map (\<lambda>sn. topologyData (asDiscovered ManagementExplicit (projectCluster sn (snTarget sn)))) sns,
             rEvidence = evs, rError = None\<rparr>)
      })
   }"


section \<open>A member's address\<close>

definition zeroDSN :: dsn_data where
  "zeroDSN = \<lparr>dnTarget = zeroTarget, dnMember = [], dnRole = RoleEmpty, dnHost = [], dnPort = 0\<rparr>"

definition DSN :: "'w service \<Rightarrow> 'w goctx \<Rightarrow> dsn_request \<Rightarrow> ('w, dsn_data result) prog" where
  "DSN svc ctx rq = do {
     opID \<leftarrow> operationID svc;
     (let t0 = Normalize (dqTarget rq);
          named = TrimSpace (dqMember rq);
          name = (if named = [] then tMember t0 else named);
          t = t0\<lparr>tMember := []\<rparr>;
          r0 = (if dqRole rq = RoleEmpty \<and> name = [] then RoleLeader else dqRole rq);
          usage = (\<lambda>t message cause. failedRead svc zeroDSN opID ''dsn'' t PathDCS CategoryUsage False message cause) in
      if named \<noteq> [] \<and> tMember t0 \<noteq> [] \<and> tMember t0 \<noteq> named then usage t0 ''DSN member selectors conflict'' None
      else if \<not> validContext ctx then usage t ''DSN requires a context'' None
      else if Validate t True \<noteq> None then usage t ''DSN target is invalid'' (map_option errorsNew (Validate t True))
      else if \<not> role_validOrEmpty (dqRole rq) then usage t ''DSN role is invalid'' None
      else if dqRole rq \<noteq> RoleEmpty \<and> name \<noteq> [] then usage t ''DSN role and member are mutually exclusive'' None
      else do {
        (evs, r) \<leftarrow> operationSnapshots svc ''dsn'' t (dqCitus rq) (dqAllow rq);
        (case r of
           Inl f \<Rightarrow> failedReadWithEvidence svc zeroDSN opID ''dsn'' t PathDCS (dfCategory f) (dfRetryable f) (dfMessage f)
             (dfCause f) evs
         | Inr sns \<Rightarrow>
            (case selectMemberAcrossSnapshots sns r0 name of
               None \<Rightarrow> failedReadWithEvidence svc zeroDSN opID ''dsn'' t PathDCS CategoryNotFound False
                 ''cannot find a suitable member'' None evs
             | Some (sn, m) \<Rightarrow>
                (case postgresAddress (mdConnURL (mData m)) of
                   Inl err \<Rightarrow> failedReadWithEvidence svc zeroDSN opID ''dsn'' t PathDCS CategoryFailed False
                     ''selected member has no usable PostgreSQL address'' (Some err) evs
                 | Inr (host, port) \<Rightarrow>
                    (let selected = (Normalize (snTarget sn))\<lparr>tMember := mName m\<rparr> in
                     State_Monad.return \<lparr>rOperationID = opID, rOutcome = Succeeded, rTarget = selected, rPath = PathDCS,
                       rData = \<lparr>dnTarget = selected, dnMember = mName m, dnRole = r0, dnHost = host, dnPort = port\<rparr>,
                       rEvidence = evs, rError = None\<rparr>))))
      })
   }"


section \<open>Versions\<close>

text \<open>The answer of one member; \<open>Inl\<close> is the error that ends the operation: a version outside the range.\<close>

definition memberVersion ::
  "'w service \<Rightarrow> bool \<Rightarrow> target \<Rightarrow> rest_response \<Rightarrow> goerror option \<Rightarrow> goerror + member_version" where
  "memberVersion svc allow t response callError =
     (let failed = (\<lambda>(cat, retryable) cause. Inr \<lparr>mvTarget = t, mvPatroniVersion = [], mvPostgresVersion = [],
            mvHTTPStatus = respStatus response,
            mvError = Some (NewError cat ''version'' t retryable ''failed to get member version'' cause [])\<rparr>) in
      if callError \<noteq> None then failed (classifyReadError callError) callError
      else if respStatus response < 200 \<or> respStatus response \<ge> 300 then
        failed (classifyHTTPStatus (respStatus response)) None
      else
        (case (if allow then None else checkPatroniVersion svc (respVersion response)) of
           Some e \<Rightarrow> Inl e
         | None \<Rightarrow> Inr \<lparr>mvTarget = t, mvPatroniVersion = respVersion response,
             mvPostgresVersion = (case respServerVersion response of None \<Rightarrow> [] | Some v \<Rightarrow> formatPostgresVersion v),
             mvHTTPStatus = respStatus response, mvError = None\<rparr>))"

definition zeroVersionData :: version_data where
  "zeroVersionData = \<lparr>vdProductVersion = [], vdMembers = []\<rparr>"

text \<open>The members that are asked: those of the filter, when there is one, with an address.\<close>

definition versionMembers :: "string list \<Rightarrow> snapshot list \<Rightarrow> (snapshot \<times> dcs_member) list" where
  "versionMembers members sns =
     filter (\<lambda>(sn, m). (stringSet members = {} \<or> mName m \<in> stringSet members) \<and> TrimSpace (mdAPIURL (mData m)) \<noteq> [])
       (concat (map (\<lambda>sn. map (Pair sn) (cMembers (snCluster sn))) sns))"

fun versionLoop ::
  "'w service \<Rightarrow> (rest_call \<Rightarrow> 'w \<Rightarrow> (rest_response \<times> goerror option) \<times> 'w) \<Rightarrow> string \<Rightarrow> target \<Rightarrow> bool
   \<Rightarrow> (snapshot \<times> dcs_member) list \<Rightarrow> member_version list \<Rightarrow> ('w, version_data result + member_version list) prog" where
  "versionLoop svc client opID t allow [] items = State_Monad.return (Inr items)"
| "versionLoop svc client opID t allow ((sn, m) # ms) items =
     (let mt = (Normalize (snTarget sn))\<lparr>tMember := mName m\<rparr> in
      case patroniBaseURL (mdAPIURL (mData m)) of
        Inl e \<Rightarrow> versionLoop svc client opID t allow ms (items @
          [\<lparr>mvTarget = mt, mvPatroniVersion = [], mvPostgresVersion = [], mvHTTPStatus = 0,
            mvError = Some (NewError CategoryConfig ''version'' mt False ''member Patroni address is invalid''
              (Some (Plain e)) [])\<rparr>])
      | Inr baseURL \<Rightarrow> do {
          (response, callError) \<leftarrow> callREST client (GetPatroni baseURL);
          (case memberVersion svc allow mt response callError of
             Inl e \<Rightarrow> do {
               r \<leftarrow> unsupportedVersionResult svc zeroVersionData opID ''version'' t PathREST sn (Some e);
               State_Monad.return (Inl r)
             }
           | Inr item \<Rightarrow> versionLoop svc client opID t allow ms (items @ [item]))
        })"

definition ServiceVersion :: "'w service \<Rightarrow> 'w goctx \<Rightarrow> version_request \<Rightarrow> ('w, version_data result) prog" where
  "ServiceVersion svc ctx rq = do {
     opID \<leftarrow> operationID svc;
     (let t = Normalize (vqTarget rq);
          fail = (\<lambda>path cat retryable message cause evs.
            failedReadWithEvidence svc zeroVersionData opID ''version'' t path cat retryable message cause evs);
          succeed = (\<lambda>path items evs. State_Monad.return \<lparr>rOperationID = opID, rOutcome = Succeeded, rTarget = t,
            rPath = path, rData = \<lparr>vdProductVersion = svcProductVersion svc, vdMembers = items\<rparr>, rEvidence = evs,
            rError = None\<rparr>) in
      if \<not> validContext ctx then fail PathLocal CategoryUsage False ''version requires a context'' None []
      else do {
        loc \<leftarrow> observe svc EvidenceLocal ''local go-patroni version read'' [] (path_string PathLocal) SendEmpty;
        (if tScope t = [] then succeed PathLocal [] [loc]
         else case Validate t True of
           Some e \<Rightarrow> fail PathREST CategoryUsage False ''version target is invalid'' (Some (errorsNew e)) [loc]
         | None \<Rightarrow>
           (case svcPatroni svc of
              None \<Rightarrow> fail PathREST CategoryConfig False ''version requires a Patroni REST reader'' None [loc]
            | Some client \<Rightarrow> do {
                (evs, r) \<leftarrow> versionSnapshots svc ''version'' t (vqCitus rq) (vqAllow rq);
                (case r of
                   Inl f \<Rightarrow> fail PathREST (dfCategory f) (dfRetryable f) (dfMessage f) (dfCause f) (loc # evs)
                 | Inr sns \<Rightarrow> do {
                     items \<leftarrow> versionLoop svc client opID t (vqAllow rq) (versionMembers (vqMembers rq) sns) [];
                     (case items of Inl failed \<Rightarrow> State_Monad.return failed
                      | Inr found \<Rightarrow> succeed PathREST found (loc # evs))
                   })
              }))
      })
   }"


section \<open>Discovery of a namespace\<close>

text \<open>The snapshot of one discovered cluster: its own, or one read now, with its evidence.\<close>

definition discoveredSnapshot ::
  "'w service \<Rightarrow> target \<Rightarrow> discovered_cluster \<Rightarrow> evidence list
   \<Rightarrow> ('w, evidence list \<times> (discovery_failure + snapshot)) prog" where
  "discoveredSnapshot svc itemTarget item evs =
     (case dcSnapshot item of
        Some sn \<Rightarrow>
          State_Monad.return (evs,
            if ClusterID (Normalize (snTarget sn)) \<noteq> ClusterID itemTarget
            then Inl (plainFailure CategoryFailed ''DCS discoverer returned a mismatched snapshot''
                   (Some (Errorf ''snapshot target %s does not match discovered target %s''
                      [AStr (ClusterID (Normalize (snTarget sn))), AStr (ClusterID itemTarget)] [])))
            else Inr sn)
      | None \<Rightarrow> do {
          r \<leftarrow> Snapshot svc itemTarget;
          (case r of
             Inl err \<Rightarrow> State_Monad.return (evs, Inl (readFailure ''discovered cluster snapshot failed'' err))
           | Inr sn \<Rightarrow> do {
               e \<leftarrow> snapshotEvidence svc sn ''legacy discoverer cluster snapshot read'';
               State_Monad.return (evs @ [e], Inr sn)
             })
        })"

text \<open>What is wrong with the target of a discovered cluster.\<close>

definition discoveredTargetError :: "target \<Rightarrow> target \<Rightarrow> goerror option" where
  "discoveredTargetError t it =
     (case Validate it True of
        Some e \<Rightarrow> Some (errorsNew e)
      | None \<Rightarrow> if tContext it \<noteq> tContext t \<or> tNamespace it \<noteq> tNamespace t \<or> tMember it \<noteq> []
          then Some (errorsNew ''discovered target does not belong to requested context/namespace'') else None)"

fun discoverLoop ::
  "'w service \<Rightarrow> string \<Rightarrow> target \<Rightarrow> bool \<Rightarrow> management_state \<Rightarrow> discovered_cluster list \<Rightarrow> evidence list
   \<Rightarrow> cluster_view list \<Rightarrow> ('w, evidence list \<times> (discovery_failure + cluster_view list)) prog" where
  "discoverLoop svc operation t allow management [] evs clusters = State_Monad.return (evs, Inr clusters)"
| "discoverLoop svc operation t allow management (item # items) evs clusters =
     (let it = Normalize (dcTarget item) in
      case discoveredTargetError t it of
        Some e \<Rightarrow> State_Monad.return (evs, Inl (plainFailure CategoryFailed
          ''DCS discoverer returned an invalid target'' (Some e)))
      | None \<Rightarrow> do {
          (evs, r) \<leftarrow> discoveredSnapshot svc it item evs;
          (case r of
             Inl failure \<Rightarrow> State_Monad.return (evs, Inl failure)
           | Inr sn \<Rightarrow>
              (case checkSnapshotPatroniVersion svc sn allow of
                 Some err \<Rightarrow> do {
                   e \<leftarrow> snapshotEvidence svc sn (''Patroni compatibility range checked during '' @ operation);
                   State_Monad.return (evs @ [e], Inl (versionFailure svc operation err))
                 }
               | None \<Rightarrow> discoverLoop svc operation t allow management items evs
                   (clusters @ [(asDiscovered management (projectCluster sn it))
                      \<lparr>vcReachabilityState := ReachabilityUnknown, vcHealthState := HealthUnknown\<rparr>])))
        })"

definition discoverClusters ::
  "'w service \<Rightarrow> (string \<Rightarrow> string \<Rightarrow> 'w \<Rightarrow> (goerror + discovered_cluster list) \<times> 'w) \<Rightarrow> string \<Rightarrow> target \<Rightarrow> bool
   \<Rightarrow> management_state \<Rightarrow> ('w, evidence list \<times> (discovery_failure + cluster_view list)) prog" where
  "discoverClusters svc cap operation t allow management = do {
     r \<leftarrow> Discover cap (tContext t) (tNamespace t);
     (case r of
        Inl err \<Rightarrow> State_Monad.return ([], Inl (readFailure ''namespace discovery failed'' err))
      | Inr items0 \<Rightarrow>
         (let items = sort_key (\<lambda>i. targetKey (dcTarget i)) items0 in do {
            e \<leftarrow> discoveryEvidence svc t items;
            discoverLoop svc operation t allow management items [e] []
          }))
   }"

text \<open>What \<open>Discover\<close>, \<open>ListAll\<close> and \<open>TopologyAll\<close> share; \<open>title\<close> is the name in their messages.\<close>

definition discoverAll ::
  "'w service \<Rightarrow> 'w goctx \<Rightarrow> string \<Rightarrow> string \<Rightarrow> string \<Rightarrow> management_state \<Rightarrow> namespace_request
   \<Rightarrow> (cluster_view \<Rightarrow> 'd) \<Rightarrow> ('w, 'd list result) prog" where
  "discoverAll svc ctx operation title noun management rq project = do {
     opID \<leftarrow> operationID svc;
     (let t = discoveryTarget (nqContext rq) (nqNamespace rq);
          fail = (\<lambda>cat message cause. failedRead svc [] opID operation t PathDCS cat False message cause) in
      if \<not> validContext ctx then fail CategoryUsage (title @ '' requires a context'') None
      else (case Validate t False of
        Some e \<Rightarrow> fail CategoryUsage (noun @ '' target is invalid'') (Some (errorsNew e))
      | None \<Rightarrow>
         (case svcDiscovery svc of
            None \<Rightarrow> fail CategoryConfig (title @ '' requires a DCS discoverer'') None
          | Some cap \<Rightarrow> do {
              (evs, r) \<leftarrow> discoverClusters svc cap operation t (nqAllow rq) management;
              (case r of
                 Inl f \<Rightarrow> failedReadWithEvidence svc [] opID operation t PathDCS (dfCategory f) (dfRetryable f)
                   (dfMessage f) (dfCause f) evs
               | Inr clusters \<Rightarrow> State_Monad.return \<lparr>rOperationID = opID, rOutcome = Succeeded, rTarget = t,
                   rPath = PathDCS, rData = map project clusters, rEvidence = evs, rError = None\<rparr>)
            })))
   }"

definition clusterSummary :: "cluster_view \<Rightarrow> cluster_summary" where
  "clusterSummary cl = \<lparr>csTarget = vcTarget cl, csDiscoveryState = vcDiscoveryState cl,
     csManagementState = vcManagementState cl, csReachabilityState = vcReachabilityState cl,
     csHealthState = vcHealthState cl, csRevision = vcRevision cl, csMemberCount = length (vcMembers cl),
     csLeader = vcLeader cl\<rparr>"

definition ServiceDiscover :: "'w service \<Rightarrow> 'w goctx \<Rightarrow> namespace_request \<Rightarrow> ('w, cluster_summary list result) prog" where
  "ServiceDiscover svc ctx rq =
     discoverAll svc ctx ''discover'' ''discover'' ''discovery'' ManagementUnmanaged rq clusterSummary"

definition ListAll :: "'w service \<Rightarrow> 'w goctx \<Rightarrow> namespace_request \<Rightarrow> ('w, cluster_view list result) prog" where
  "ListAll svc ctx rq = discoverAll svc ctx ''list'' ''list --all'' ''list --all'' ManagementAllSelected rq (\<lambda>cl. cl)"

definition TopologyAll :: "'w service \<Rightarrow> 'w goctx \<Rightarrow> namespace_request \<Rightarrow> ('w, topology_data list result) prog" where
  "TopologyAll svc ctx rq =
     discoverAll svc ctx ''topology'' ''topology --all'' ''topology --all'' ManagementAllSelected rq topologyData"

end
