(* ===== verification/Reads_Spec.thy ===== *)
theory Reads_Spec
  imports Reads Group_Reads Example_Service
begin

text \<open>
  What the reading operations guarantee: they only look, their results are valid, and what a SUCCEEDED result shows is the
  projection of snapshots that were read and passed the version gate.
\<close>

section \<open>Looks and results\<close>

text \<open>A look changes nothing: a read of the DCS or of a member's status.\<close>

fun is_look :: "event \<Rightarrow> bool" where
  "is_look (EvRest (GetPatroni _) _ _) = True"
| "is_look e = is_read e"

lemma read_is_look: "is_read e \<Longrightarrow> is_look e"
  by (cases e rule: is_read.cases) auto

lemma reads_are_looks: "list_all is_read es \<Longrightarrow> list_all is_look es"
  by (simp add: list_all_iff read_is_look)

lemma looks_no_write: "list_all is_look es \<Longrightarrow> \<not> list_ex is_write es"
  by (induction es) (auto elim!: is_look.elims is_read.elims)

text \<open>A result of a read: SUCCEEDED with what \<open>P\<close> promises, or FAILED with an error and no data; valid if its target is.\<close>

definition read_result :: "'w service \<Rightarrow> 'd \<Rightarrow> ('d result \<Rightarrow> event list \<Rightarrow> bool) \<Rightarrow> 'd result \<Rightarrow> event list \<Rightarrow> bool" where
  "read_result svc zero P r ds =
     (list_all is_look ds
      \<and> (if rOutcome r = Succeeded then rError r = None \<and> P r ds
         else rOutcome r = Failed \<and> rError r \<noteq> None \<and> rData r = zero)
      \<and> (clock_ok svc \<and> target_ok (rTarget r) \<longrightarrow> result_Validate r = None))"

lemma failed_read:
  assumes "failed_with svc zero opID operation t path cat message evs r" "list_all is_look ds"
    and "opID \<noteq> []" "operation \<noteq> []" "message \<noteq> []" "validPath path"
    and "validCategory cat \<and> cat \<noteq> CategoryUnknown" "clock_ok svc \<Longrightarrow> evidence_all_ok evs"
  shows "read_result svc zero P r ds"
proof -
  have "result_Validate r = None" if "clock_ok svc" "target_ok (rTarget r)"
    using that assms failed_with_ok [OF assms(1)] by (simp add: failed_with_def)
  with assms(1,2) show ?thesis by (auto simp: read_result_def failed_with_def)
qed

lemma read_result_success:
  "read_result svc zero P \<lparr>rOperationID = opID, rOutcome = Succeeded, rTarget = t, rPath = path, rData = d,
     rEvidence = evs, rError = None\<rparr> ds \<longleftrightarrow>
   list_all is_look ds
   \<and> P \<lparr>rOperationID = opID, rOutcome = Succeeded, rTarget = t, rPath = path, rData = d, rEvidence = evs, rError = None\<rparr> ds
   \<and> (clock_ok svc \<and> target_ok t \<longrightarrow> opID \<noteq> [] \<and> validPath path \<and> evs \<noteq> [] \<and> evidence_all_ok evs)"
  by (auto simp: read_result_def)


section \<open>One cluster\<close>

lemma readCluster_spec:
  assumes "operation \<noteq> []"
    and "\<And>opID sn. opID \<noteq> [] \<Longrightarrow> checkSnapshotPatroniVersion svc sn (cqAllow rq) = None
      \<Longrightarrow> Validate (Normalize (cqTarget rq)) True = None
      \<Longrightarrow> valid [EvSnapshot (Normalize (cqTarget rq)) (Inr sn)] (conclude opID (Normalize (cqTarget rq)) sn)
            (read_result svc zero P)"
  shows "valid [] (readCluster svc ctx zero operation rq conclude) (read_result svc zero P)"
  unfolding readCluster_def Let_def
  by (intro wp) (use assms in \<open>auto elim!: failed_read dest: classifyReadError_category\<close>)

lemma readFrom_spec:
  assumes "list_all is_look es" "opID \<noteq> []" "summary \<noteq> []"
    and "\<And>r. rData r = d \<Longrightarrow> rTarget r = t \<Longrightarrow> P r es"
  shows "valid es (readFrom svc opID t d sn summary) (read_result svc zero P)"
  unfolding readFrom_def by (intro wp) (use assms in \<open>auto simp: read_result_success\<close>)

definition one_read :: "'w service \<Rightarrow> cluster_request \<Rightarrow> (target \<Rightarrow> snapshot \<Rightarrow> 'd \<Rightarrow> bool) \<Rightarrow> 'd result \<Rightarrow> event list \<Rightarrow> bool" where
  "one_read svc rq P r ds =
     (\<exists>sn. ds = [EvSnapshot (rTarget r) (Inr sn)] \<and> rTarget r = Normalize (cqTarget rq) \<and> Validate (rTarget r) True = None
        \<and> checkSnapshotPatroniVersion svc sn (cqAllow rq) = None \<and> P (rTarget r) sn (rData r))"

lemma Topology_spec:
  "valid [] (Topology svc ctx rq) (read_result svc \<lparr>tdCluster = zeroCluster, tdMembers = []\<rparr>
     (one_read svc rq (\<lambda>t sn d. d = topologyData (projectCluster sn t))))"
  unfolding Topology_def by (intro readCluster_spec readFrom_spec) (auto simp: one_read_def)

lemma ShowConfig_spec:
  "valid [] (ShowConfig svc ctx rq) (read_result svc \<lparr>cgTarget = zeroTarget, cgRevision = 0, cgConfig = []\<rparr>
     (one_read svc rq (\<lambda>t sn d. cgTarget d = t \<and> cgConfig d = cConfig (snCluster sn)
        \<and> cgRevision d = (case snapshot_Entry sn ''config'' of None \<Rightarrow> 0 | Some e \<Rightarrow> eModRevision e))))"
  unfolding ShowConfig_def by (intro readCluster_spec readFrom_spec) (auto simp: one_read_def)

lemma historyEntries_all:
  "historyEntries raws = Inr es \<Longrightarrow> map normalizeHistoryEntry raws = map Inr es"
  by (induction raws arbitrary: es) (auto split: sum.splits)

lemma History_spec:
  "valid [] (History svc ctx rq) (read_result svc \<lparr>hdTarget = zeroTarget, hdEntries = []\<rparr>
     (one_read svc rq (\<lambda>t sn d. hdTarget d = t
        \<and> map Inr (hdEntries d) = map normalizeHistoryEntry (cHistory (snCluster sn)))))"
  unfolding History_def Let_def
  by (intro readCluster_spec readFrom_spec wp) (auto simp: one_read_def elim!: failed_read dest: historyEntries_all)


section \<open>Lists of clusters\<close>

text \<open>A cluster of a list: the projection of a snapshot that was read and admitted.\<close>

definition listed :: "'w service \<Rightarrow> bool \<Rightarrow> event list \<Rightarrow> cluster_view \<Rightarrow> bool" where
  "listed svc allow ds cl =
     (\<exists>sn. read_in ds sn \<and> checkSnapshotPatroniVersion svc sn allow = None
        \<and> ((\<exists>t. cl = projectCluster sn t) \<or> cl = asDiscovered ManagementExplicit (projectCluster sn (snTarget sn))))"

lemma listed_append: "listed svc allow ds cl \<Longrightarrow> listed svc allow (ds @ es) cl"
  by (auto simp: listed_def read_in_append)

lemma listed_group:
  "read_in ds sn \<Longrightarrow> checkSnapshotPatroniVersion svc sn allow = None
   \<Longrightarrow> listed svc allow (es @ ds) (asDiscovered ManagementExplicit (projectCluster sn (snTarget sn)))"
  by (auto simp: listed_def read_in_append)

lemma listed_plain:
  "checkSnapshotPatroniVersion svc sn allow = None
   \<Longrightarrow> listed svc allow (es @ [EvSnapshot t (Inr sn)]) (projectCluster sn u)"
  by (auto simp: listed_def read_in_def)

text \<open>Without group expansion: one snapshot and one cluster for each target, in order.\<close>

definition list_trace :: "target list \<Rightarrow> cluster_view list \<Rightarrow> event list \<Rightarrow> bool" where
  "list_trace ts cls ds = segments (\<lambda>raw cl d. \<exists>sn. d = [EvSnapshot (Normalize raw) (Inr sn)]
     \<and> cl = projectCluster sn (Normalize raw)) ts cls ds"

definition list_result ::
  "'w service \<Rightarrow> bool \<Rightarrow> bool \<Rightarrow> target list \<Rightarrow> cluster_view list result + (cluster_view list \<times> evidence list)
   \<Rightarrow> event list \<Rightarrow> bool" where
  "list_result svc allow citus ts out ds =
     (case out of
        Inl r \<Rightarrow> read_result svc [] (\<lambda>_ _. False) r ds
      | Inr (cls, evs) \<Rightarrow> list_all is_look ds \<and> (clock_ok svc \<longrightarrow> evidence_all_ok evs) \<and> evs \<noteq> []
          \<and> (\<forall>cl \<in> set cls. listed svc allow ds cl) \<and> (\<not> citus \<longrightarrow> list_trace ts cls ds))"

lemma segments_extend:
  "segments P xs ys ds \<Longrightarrow> P x y d \<Longrightarrow> segments P (xs @ [x]) (ys @ [y]) (ds @ d)"
proof (induction P xs ys ds rule: segments.induct)
  case (2 P x xs y ys ds)
  then show ?case by simp (metis append.assoc)
qed auto

lemma citusGroupSnapshots_spec:
  "valid [] (citusGroupSnapshots svc operation t allow)
    (read_trace (clock_ok svc) (\<lambda>sn. checkSnapshotPatroniVersion svc sn allow))"
  by (simp add: citusGroupSnapshots_def citusGroup_spec)

lemma read_trace_Inl:
  "read_trace clocked check (evs, Inl f) ds \<longleftrightarrow> list_all is_read ds \<and> (clocked \<longrightarrow> evidence_all_ok evs)
     \<and> validCategory (dfCategory f) \<and> dfCategory f \<noteq> CategoryUnknown \<and> dfMessage f \<noteq> []"
  by (simp add: read_trace_def)

lemma read_trace_Inr:
  "read_trace clocked check (evs, Inr sns) ds \<longleftrightarrow> list_all is_read ds \<and> (clocked \<longrightarrow> evidence_all_ok evs)
     \<and> evs \<noteq> [] \<and> sns \<noteq> [] \<and> (\<forall>sn \<in> set sns. read_in ds sn \<and> check sn = None)"
  by (simp add: read_trace_def)

lemma listLoop_spec:
  assumes "list_all is_look es" "opID \<noteq> []" "clock_ok svc \<Longrightarrow> evidence_all_ok evs" "ts = [] \<Longrightarrow> evs \<noteq> []"
    and "\<forall>cl \<in> set cls. listed svc allow es cl" "\<not> citus \<Longrightarrow> \<exists>seen. all = seen @ ts \<and> list_trace seen cls es"
  shows "valid es (listLoop svc opID citus allow ts cls evs) (list_result svc allow citus all)"
  using assms
proof (induction ts arbitrary: es cls evs)
  case Nil
  then show ?case by (auto simp: list_result_def)
next
  case (Cons raw ts)
  have grown: "\<exists>seen. all = seen @ ts \<and> list_trace seen (cls @ [projectCluster sn (Normalize raw)])
      (es @ [EvSnapshot (Normalize raw) (Inr sn)])" if "\<not> citus" for sn
    using Cons.prems(6) [OF that] segments_extend by (fastforce simp: list_trace_def)
  show ?case
    unfolding listLoop.simps Let_def
    by (intro wp valid_use [OF citusGroupSnapshots_spec] Cons.IH)
       (use Cons.prems grown in \<open>auto simp: list_result_def read_trace_Inl read_trace_Inr reads_are_looks listed_append
          listed_group listed_plain
          elim!: failed_read dest: classifyReadError_category\<close>)
qed


lemma read_result_void: "read_result svc zero (\<lambda>_ _. False) r ds \<Longrightarrow> read_result svc zero P r ds"
  by (auto simp: read_result_def split: if_splits)

definition list_shown :: "'w service \<Rightarrow> list_request \<Rightarrow> cluster_view list result \<Rightarrow> event list \<Rightarrow> bool" where
  "list_shown svc rq r ds =
     (lqTargets rq \<noteq> [] \<and> list_all (listed svc (lqAllow rq) ds) (rData r)
      \<and> (\<not> lqCitus rq \<longrightarrow> list_trace (lqTargets rq) (rData r) ds))"

lemma ServiceList_spec:
  "valid [] (ServiceList svc ctx rq) (read_result svc [] (list_shown svc rq))"
  unfolding ServiceList_def Let_def list_shown_def
  by (intro wp valid_mono [OF listLoop_spec])
     (auto simp: list_result_def read_result_success list_trace_def list_all_iff split: sum.splits
        elim!: failed_read read_result_void)

definition groups_shown :: "'w service \<Rightarrow> cluster_request \<Rightarrow> topology_data list result \<Rightarrow> event list \<Rightarrow> bool" where
  "groups_shown svc rq r ds =
     (\<exists>sns. sns \<noteq> [] \<and> (\<forall>sn \<in> set sns. read_in ds sn \<and> checkSnapshotPatroniVersion svc sn (cqAllow rq) = None)
       \<and> rData r = map (\<lambda>sn. topologyData (asDiscovered ManagementExplicit (projectCluster sn (snTarget sn)))) sns)"

lemma TopologyGroups_spec:
  "valid [] (TopologyGroups svc ctx rq) (read_result svc [] (groups_shown svc rq))"
  unfolding TopologyGroups_def Let_def groups_shown_def
  by (intro wp valid_use [OF operationSnapshots_spec])
     (auto simp: read_result_success read_trace_Inl read_trace_Inr reads_are_looks elim!: failed_read)

lemma selectMember_Some:
  "selectMember cl r name = Some m \<Longrightarrow> m \<in> set (cMembers cl)
     \<and> (if name = [] then memberMatchesRole cl m (if r = RoleEmpty then RoleLeader else r) else mName m = name)"
  by (auto simp: selectMember_def find_Some_iff split: if_splits)

lemma selectMemberAcrossSnapshots_Some:
  "selectMemberAcrossSnapshots sns r name = Some (sn, m) \<Longrightarrow> sn \<in> set sns \<and> selectMember (snCluster sn) r name = Some m"
  unfolding selectMemberAcrossSnapshots_def by (induction sns) (auto split: option.splits)

lemma ParsePort_range: "ParsePort s = Some n \<Longrightarrow> 0 \<le> n \<and> n < 2 ^ 16"
proof -
  assume s: "ParsePort s = Some n"
  then have "\<not> HasPrefix s ''-''"
    by (cases s) (auto simp: ParsePort_def HasPrefix_def is_digit_def split: if_splits)
  with s show ?thesis by (auto simp: ParsePort_def ParseInt_def Let_def split: if_splits option.splits)
qed

lemma postgresAddress_ok:
  "postgresAddress url = Inr (host, port) \<Longrightarrow> host \<noteq> [] \<and> 0 < port \<and> port < 2 ^ 16"
  unfolding postgresAddress_def Let_def
  by (auto split: option.splits prod.splits if_splits dest!: ParsePort_range)

text \<open>The selectors of a request: the named member, or the role, the leader when there is neither.\<close>

definition dsn_name :: "dsn_request \<Rightarrow> string" where
  "dsn_name rq = (if TrimSpace (dqMember rq) = [] then tMember (Normalize (dqTarget rq)) else TrimSpace (dqMember rq))"

definition dsn_role :: "dsn_request \<Rightarrow> role" where
  "dsn_role rq = (if dqRole rq = RoleEmpty \<and> dsn_name rq = [] then RoleLeader else dqRole rq)"

definition dsn_shown :: "'w service \<Rightarrow> dsn_request \<Rightarrow> dsn_data result \<Rightarrow> event list \<Rightarrow> bool" where
  "dsn_shown svc rq r ds =
     (\<exists>sns sn m. snapshots_read ((Normalize (dqTarget rq))\<lparr>tMember := []\<rparr>) (dqCitus rq) sns ds
       \<and> (\<forall>sn \<in> set sns. checkSnapshotPatroniVersion svc sn (dqAllow rq) = None)
       \<and> sn \<in> set sns \<and> m \<in> set (cMembers (snCluster sn))
       \<and> postgresAddress (mdConnURL (mData m)) = Inr (dnHost (rData r), dnPort (rData r))
       \<and> dnHost (rData r) \<noteq> [] \<and> 0 < dnPort (rData r) \<and> dnPort (rData r) < 2 ^ 16
       \<and> (if dsn_name rq = [] then memberMatchesRole (snCluster sn) m (dsn_role rq) else mName m = dsn_name rq)
       \<and> rTarget r = (Normalize (snTarget sn))\<lparr>tMember := mName m\<rparr>
       \<and> dnTarget (rData r) = rTarget r \<and> dnMember (rData r) = mName m \<and> dnRole (rData r) = dsn_role rq)"

lemma dsn_shownI:
  assumes "selectMemberAcrossSnapshots sns (dsn_role rq) (dsn_name rq) = Some (sn, m)"
    and "\<forall>sn \<in> set sns. read_in ds sn \<and> checkSnapshotPatroniVersion svc sn (dqAllow rq) = None"
    and "snapshots_read ((Normalize (dqTarget rq))\<lparr>tMember := []\<rparr>) (dqCitus rq) sns ds"
    and "postgresAddress (mdConnURL (mData m)) = Inr (host, port)"
    and "rTarget r = (Normalize (snTarget sn))\<lparr>tMember := mName m\<rparr>"
    and "rData r = \<lparr>dnTarget = rTarget r, dnMember = mName m, dnRole = dsn_role rq, dnHost = host, dnPort = port\<rparr>"
  shows "dsn_shown svc rq r ds"
proof -
  have "dsn_name rq = [] \<Longrightarrow> dsn_role rq \<noteq> RoleEmpty" by (simp add: dsn_role_def)
  with selectMemberAcrossSnapshots_Some [OF assms(1)] postgresAddress_ok [OF assms(4)] assms(2-6) show ?thesis
    unfolding dsn_shown_def by (intro exI [of _ sns] exI [of _ sn] exI [of _ m]) (auto dest!: selectMember_Some)
qed

lemma exact_reads_Inr: "exact_reads t citus (evs, Inr sns) ds \<longleftrightarrow> few_reads ds \<and> snapshots_read t citus sns ds"
  by (simp add: exact_reads_def)

lemma DSN_spec: "valid [] (DSN svc ctx rq) (read_result svc zeroDSN (dsn_shown svc rq))"
  unfolding DSN_def Let_def dsn_name_def [symmetric] dsn_role_def [symmetric]
  by (intro wp valid_use [OF valid_conj [OF operationSnapshots_spec operationSnapshots_exact]])
     (simp_all add: read_result_success read_trace_Inl read_trace_Inr reads_are_looks
        exact_reads_Inr dsn_shownI failed_read)


section \<open>Versions\<close>

text \<open>One member's part: one call of its address, none when the address is invalid; what is reported is admitted.\<close>

definition version_asked ::
  "'w service \<Rightarrow> bool \<Rightarrow> snapshot \<times> dcs_member \<Rightarrow> member_version \<Rightarrow> event list \<Rightarrow> bool" where
  "version_asked svc allow = (\<lambda>(sn, m) item ds.
     mvTarget item = (Normalize (snTarget sn))\<lparr>tMember := mName m\<rparr>
     \<and> (case patroniBaseURL (mdAPIURL (mData m)) of
          Inl _ \<Rightarrow> ds = [] \<and> mvError item \<noteq> None
        | Inr url \<Rightarrow> (\<exists>response err. ds = [EvRest (GetPatroni url) response err] \<and> mvHTTPStatus item = respStatus response
            \<and> (mvError item = None \<longleftrightarrow> err = None \<and> 200 \<le> respStatus response \<and> respStatus response < 300)
            \<and> (mvError item = None \<longrightarrow> mvPatroniVersion item = respVersion response
                 \<and> (allow \<or> checkPatroniVersion svc (respVersion response) = None)))))"

lemma memberVersion_asked:
  "memberVersion svc allow t response err = Inr item \<Longrightarrow> mvTarget item = t \<and> mvHTTPStatus item = respStatus response
     \<and> (mvError item = None \<longleftrightarrow> err = None \<and> 200 \<le> respStatus response \<and> respStatus response < 300)
     \<and> (mvError item = None \<longrightarrow> mvPatroniVersion item = respVersion response
          \<and> (allow \<or> checkPatroniVersion svc (respVersion response) = None))"
  by (auto simp: memberVersion_def Let_def split: prod.splits if_splits option.splits)

lemma read_result_prefix:
  "read_result svc zero (\<lambda>_ _. False) r ds \<Longrightarrow> list_all is_look es \<Longrightarrow> read_result svc zero P r (es @ ds)"
  by (auto simp: read_result_def split: if_splits)

definition version_result ::
  "'w service \<Rightarrow> bool \<Rightarrow> (snapshot \<times> dcs_member) list \<Rightarrow> member_version list
   \<Rightarrow> version_data result + member_version list \<Rightarrow> event list \<Rightarrow> bool" where
  "version_result svc allow ms items out ds =
     (case out of
        Inl r \<Rightarrow> read_result svc zeroVersionData (\<lambda>_ _. False) r ds
      | Inr items' \<Rightarrow> (\<exists>new. items' = items @ new \<and> segments (version_asked svc allow) ms new ds))"

lemma version_result_step:
  assumes "version_result svc allow ms (items @ [item]) out ds" "version_asked svc allow rm item d" "list_all is_look d"
  shows "version_result svc allow (rm # ms) items out (d @ ds)"
proof (cases out)
  case Inl
  with assms show ?thesis by (simp add: version_result_def read_result_prefix)
next
  case (Inr items')
  with assms(1) obtain new where new: "items' = items @ item # new" "segments (version_asked svc allow) ms new ds"
    by (auto simp: version_result_def)
  with assms(2) have "segments (version_asked svc allow) (rm # ms) (item # new) (d @ ds)" by auto
  with new(1) Inr show ?thesis by (auto simp: version_result_def)
qed

lemma version_asked_answer:
  assumes "memberVersion svc allow ((Normalize (snTarget sn))\<lparr>tMember := mName m\<rparr>) response err = Inr item"
    and "patroniBaseURL (mdAPIURL (mData m)) = Inr url"
  shows "version_asked svc allow (sn, m) item [EvRest (GetPatroni url) response err]"
  using assms(2) memberVersion_asked [OF assms(1)] by (auto simp: version_asked_def)

lemma version_asked_refused:
  assumes "patroniBaseURL (mdAPIURL (mData m)) = Inl e"
    and "mvTarget item = (Normalize (snTarget sn))\<lparr>tMember := mName m\<rparr>" and "mvError item \<noteq> None"
  shows "version_asked svc allow (sn, m) item []"
  using assms by (simp add: version_asked_def)

lemma versionLoop_spec:
  assumes "opID \<noteq> []"
  shows "valid [] (versionLoop svc client opID t allow ms items) (version_result svc allow ms items)"
proof (induction ms arbitrary: items)
  case Nil
  then show ?case by (simp add: version_result_def)
next
  case (Cons rm ms)
  obtain sn m where rm: "rm = (sn, m)" by (cases rm)
  show ?case
  proof (cases "patroniBaseURL (mdAPIURL (mData m))")
    case (Inl e)
    show ?thesis
      by (simp add: rm Inl Let_def) (rule valid_mono [OF Cons.IH], rule version_result_step [where d = "[]", simplified],
         assumption, rule version_asked_refused [OF Inl], simp_all)
  next
    case (Inr url)
    show ?thesis
      unfolding rm versionLoop.simps Let_def Inr sum.case
      by (intro wp valid_use [OF Cons.IH])
         (auto simp: version_result_def [of _ _ _ _ "Inl _"] assms elim!: failed_read
            intro: version_result_step [where d = "[_]", simplified] version_asked_answer [OF _ Inr])
  qed
qed

lemma versionSnapshots_spec:
  "valid [] (versionSnapshots svc operation t citus allow)
    (read_trace (clock_ok svc) (\<lambda>sn. checkSnapshotKnownPatroniVersion svc sn allow))"
  unfolding versionSnapshots_def operationSnapshotsWithVersionCheck_def
  by (intro wp readOne_spec citusGroup_spec) auto

lemma versionSnapshots_exact: "valid [] (versionSnapshots svc operation t citus allow) (exact_reads t citus)"
  unfolding versionSnapshots_def by (rule operationSnapshots_reads)

lemma asked_looks: "version_asked svc allow rm item d \<Longrightarrow> list_all is_look d"
  by (cases rm; cases "patroniBaseURL (mdAPIURL (mData (snd rm)))") (auto simp: version_asked_def)

lemma segments_looks:
  "segments (version_asked svc allow) ms items ds \<Longrightarrow> list_all is_look ds"
  by (induction ms arbitrary: items ds; case_tac items) (auto simp: asked_looks)

definition version_shown :: "'w service \<Rightarrow> version_request \<Rightarrow> version_data result \<Rightarrow> event list \<Rightarrow> bool" where
  "version_shown svc rq r ds =
     (rTarget r = Normalize (vqTarget rq) \<and> vdProductVersion (rData r) = svcProductVersion svc
      \<and> (if tScope (rTarget r) = [] then ds = [] \<and> vdMembers (rData r) = []
         else \<exists>sns reads asks. ds = reads @ asks \<and> snapshots_read (rTarget r) (vqCitus rq) sns reads
           \<and> sns \<noteq> [] \<and> (\<forall>sn \<in> set sns. checkSnapshotKnownPatroniVersion svc sn (vqAllow rq) = None)
           \<and> segments (version_asked svc (vqAllow rq)) (versionMembers (vqMembers rq) sns) (vdMembers (rData r)) asks))"

lemma version_result_fails:
  "version_result svc allow ms [] (Inl r) ds \<Longrightarrow> list_all is_read reads
   \<Longrightarrow> read_result svc zeroVersionData P r (reads @ ds)"
  by (simp add: version_result_def read_result_prefix reads_are_looks)

lemma version_result_looks: "version_result svc allow ms items (Inr found) asks \<Longrightarrow> list_all is_look asks"
  by (auto simp: version_result_def segments_looks)

lemma version_shownI:
  assumes "version_result svc (vqAllow rq) (versionMembers (vqMembers rq) sns) [] (Inr items) asks"
    and "snapshots_read (Normalize (vqTarget rq)) (vqCitus rq) sns reads" "tScope (rTarget r) \<noteq> []"
    and "sns \<noteq> [] \<and> (\<forall>sn \<in> set sns. checkSnapshotKnownPatroniVersion svc sn (vqAllow rq) = None)"
    and "rTarget r = Normalize (vqTarget rq)" "rData r = \<lparr>vdProductVersion = svcProductVersion svc, vdMembers = items\<rparr>"
  shows "version_shown svc rq r (reads @ asks)"
proof -
  from assms(1) have "segments (version_asked svc (vqAllow rq)) (versionMembers (vqMembers rq) sns) items asks"
    by (simp add: version_result_def)
  with assms(2-6) show ?thesis unfolding version_shown_def by auto
qed

lemma ServiceVersion_spec:
  "valid [] (ServiceVersion svc ctx rq) (read_result svc zeroVersionData (version_shown svc rq))"
  unfolding ServiceVersion_def Let_def
  by (intro wp valid_use [OF valid_conj [OF versionSnapshots_spec versionSnapshots_exact]] valid_use [OF versionLoop_spec])
     (auto simp: read_result_success read_trace_Inl read_trace_Inr exact_reads_Inr reads_are_looks version_result_fails failed_read
        version_shown_def [where ds = "[]"] version_result_looks version_shownI)


section \<open>Discovery of a namespace\<close>

text \<open>The snapshot of a discovered cluster: its own, or one read for it.\<close>

definition snapshot_found :: "discovered_cluster \<Rightarrow> snapshot \<Rightarrow> event list \<Rightarrow> bool" where
  "snapshot_found item sn ds =
     (if dcSnapshot item = None then ds = [EvSnapshot (Normalize (dcTarget item)) (Inr sn)]
      else ds = [] \<and> dcSnapshot item = Some sn
        \<and> ClusterID (Normalize (snTarget sn)) = ClusterID (Normalize (dcTarget item)))"

lemma discoveredSnapshot_spec:
  "valid [] (discoveredSnapshot svc (Normalize (dcTarget item)) item evs)
    (\<lambda>(evs', r) ds. list_all is_read ds \<and> (clock_ok svc \<longrightarrow> evidence_all_ok evs \<longrightarrow> evidence_all_ok evs')
       \<and> (evs \<noteq> [] \<longrightarrow> evs' \<noteq> [])
       \<and> (case r of
            Inl f \<Rightarrow> validCategory (dfCategory f) \<and> dfCategory f \<noteq> CategoryUnknown \<and> dfMessage f \<noteq> []
          | Inr sn \<Rightarrow> snapshot_found item sn ds))"
  unfolding discoveredSnapshot_def
  by (intro wp) (auto simp: snapshot_found_def)

text \<open>One discovered cluster: admitted and projected.\<close>

definition discovered_shown ::
  "'w service \<Rightarrow> target \<Rightarrow> bool \<Rightarrow> management_state \<Rightarrow> discovered_cluster \<Rightarrow> cluster_view \<Rightarrow> event list \<Rightarrow> bool" where
  "discovered_shown svc t allow management item cl ds =
     (discoveredTargetError t (Normalize (dcTarget item)) = None
      \<and> (\<exists>sn. snapshot_found item sn ds \<and> checkSnapshotPatroniVersion svc sn allow = None
          \<and> cl = (asDiscovered management (projectCluster sn (Normalize (dcTarget item))))
              \<lparr>vcReachabilityState := ReachabilityUnknown, vcHealthState := HealthUnknown\<rparr>))"

text \<open>The outcome of a read of several clusters.\<close>

definition discover_result ::
  "'w service \<Rightarrow> target \<Rightarrow> bool \<Rightarrow> management_state \<Rightarrow> discovered_cluster list \<Rightarrow> evidence list \<Rightarrow> cluster_view list
   \<Rightarrow> evidence list \<times> (discovery_failure + cluster_view list) \<Rightarrow> event list \<Rightarrow> bool" where
  "discover_result svc t allow management items evs clusters out ds =
     (list_all is_read ds \<and> (clock_ok svc \<longrightarrow> evidence_all_ok evs \<longrightarrow> evidence_all_ok (fst out)) \<and> (evs \<noteq> [] \<longrightarrow> fst out \<noteq> [])
      \<and> (case snd out of
           Inl f \<Rightarrow> validCategory (dfCategory f) \<and> dfCategory f \<noteq> CategoryUnknown \<and> dfMessage f \<noteq> []
         | Inr found \<Rightarrow> \<exists>new. found = clusters @ new \<and> segments (discovered_shown svc t allow management) items new ds))"

lemma discover_result_step:
  assumes "discover_result svc t allow management items evs' (clusters @ [cl]) out ds"
    and "discovered_shown svc t allow management item cl d" "list_all is_read d"
    and "clock_ok svc \<Longrightarrow> evidence_all_ok evs \<Longrightarrow> evidence_all_ok evs'" "evs \<noteq> [] \<Longrightarrow> evs' \<noteq> []"
  shows "discover_result svc t allow management (item # items) evs clusters out (d @ ds)"
proof (cases "snd out")
  case Inl
  with assms show ?thesis by (auto simp: discover_result_def)
next
  case (Inr found)
  with assms(1) obtain new where new: "found = clusters @ cl # new"
      "segments (discovered_shown svc t allow management) items new ds"
    by (auto simp: discover_result_def)
  with assms(2) have "segments (discovered_shown svc t allow management) (item # items) (cl # new) (d @ ds)" by auto
  with new(1) Inr assms show ?thesis by (auto simp: discover_result_def)
qed

lemma discoverLoop_spec:
  "valid [] (discoverLoop svc operation t allow management items evs clusters)
    (discover_result svc t allow management items evs clusters)"
proof (induction items arbitrary: evs clusters)
  case Nil
  then show ?case by (simp add: discover_result_def)
next
  case (Cons item items)
  have shown: "discovered_shown svc t allow management item
      (asDiscovered management (projectCluster sn (Normalize (dcTarget item)))
         \<lparr>vcReachabilityState := ReachabilityUnknown, vcHealthState := HealthUnknown\<rparr>) d"
    if "discoveredTargetError t (Normalize (dcTarget item)) = None" "snapshot_found item sn d"
      "checkSnapshotPatroniVersion svc sn allow = None" for sn d
    using that by (auto simp: discovered_shown_def)
  show ?case
    unfolding discoverLoop.simps Let_def
    by (intro wp valid_use [OF discoveredSnapshot_spec] valid_use [OF Cons.IH])
       (auto simp: discover_result_def [of _ _ _ _ _ _ _ "(_, Inl _)"] intro: discover_result_step shown)
qed

text \<open>A namespace: one discovery, then the discovered clusters in the order of their keys.\<close>

definition namespace_shown ::
  "'w service \<Rightarrow> management_state \<Rightarrow> namespace_request \<Rightarrow> (cluster_view \<Rightarrow> 'd) \<Rightarrow> 'd list result \<Rightarrow> event list \<Rightarrow> bool" where
  "namespace_shown svc management rq project r ds =
     (rTarget r = discoveryTarget (nqContext rq) (nqNamespace rq)
      \<and> (\<exists>items clusters rest. ds = EvDiscover (tContext (rTarget r)) (tNamespace (rTarget r)) (Inr items) # rest
           \<and> segments (discovered_shown svc (rTarget r) (nqAllow rq) management)
               (sort_key (\<lambda>i. targetKey (dcTarget i)) items) clusters rest
           \<and> rData r = map project clusters))"

lemma discoverAll_spec:
  assumes "operation \<noteq> []"
  shows "valid [] (discoverAll svc ctx operation title noun management rq project)
    (read_result svc [] (namespace_shown svc management rq project))"
  unfolding discoverAll_def discoverClusters_def Let_def
  apply (intro wp valid_use [OF discoverLoop_spec])
  apply (use assms in \<open>auto simp: read_result_success discover_result_def namespace_shown_def reads_are_looks
    dest: classifyReadError_category elim!: failed_read\<close>)
  done


section \<open>The properties\<close>

text \<open>C28: \<open>Topology\<close>, \<open>ShowConfig\<close>, \<open>History\<close>, \<open>DSN\<close> and \<open>Version\<close> only look. Their results are SUCCEEDED without an error or
  FAILED with an error and no data, and they pass \<open>Result.Validate\<close> whenever their own target is valid. A SUCCEEDED
  topology, configuration or history is that of the one snapshot read for a valid target and admitted by the version gate. The
  other two read the snapshot of the target or, across Citus groups, make one discovery and take one snapshot for every group
  of the scope that it found, in order, its own or one read for it; all of them are admitted. Then a data source name is the usable
  address of a member of these snapshots, the one named or one of the role asked for, the leader by default; and a version
  report asks every selected member of all these snapshots that has a valid address exactly once, in order, has one item for
  each selected member, reports a version exactly for the answers with status 2xx and never one outside the supported range
  unless that is allowed.\<close>

theorem single_reads_faithful:
  "valid [] (Topology svc ctx rq) (read_result svc \<lparr>tdCluster = zeroCluster, tdMembers = []\<rparr>
     (one_read svc rq (\<lambda>t sn d. d = topologyData (projectCluster sn t))))
   \<and> valid [] (ShowConfig svc ctx rq) (read_result svc \<lparr>cgTarget = zeroTarget, cgRevision = 0, cgConfig = []\<rparr>
     (one_read svc rq (\<lambda>t sn d. cgTarget d = t \<and> cgConfig d = cConfig (snCluster sn)
        \<and> cgRevision d = (case snapshot_Entry sn ''config'' of None \<Rightarrow> 0 | Some e \<Rightarrow> eModRevision e))))
   \<and> valid [] (History svc ctx rq) (read_result svc \<lparr>hdTarget = zeroTarget, hdEntries = []\<rparr>
     (one_read svc rq (\<lambda>t sn d. hdTarget d = t
        \<and> map Inr (hdEntries d) = map normalizeHistoryEntry (cHistory (snCluster sn)))))
   \<and> valid [] (DSN svc ctx drq) (read_result svc zeroDSN (dsn_shown svc drq))
   \<and> valid [] (ServiceVersion svc ctx vrq) (read_result svc zeroVersionData (version_shown svc vrq))"
  by (intro conjI Topology_spec ShowConfig_spec History_spec DSN_spec ServiceVersion_spec)

text \<open>C29: \<open>List\<close>, \<open>TopologyGroups\<close>, \<open>Discover\<close>, \<open>ListAll\<close> and \<open>TopologyAll\<close> only look, and their results are as those of the
  other reads. A SUCCEEDED list without group expansion has one cluster for each target, in order, projected from a snapshot
  read for that target; with expansion every cluster comes from an admitted snapshot that was read. The operations on a namespace
  make one discovery, and show every discovered cluster exactly once in the order of scope and group, each with a target inside
  the namespace, projected from its own snapshot with the same identity or from one read for it.\<close>

theorem list_reads_faithful:
  "valid [] (ServiceList svc ctx lrq) (read_result svc [] (list_shown svc lrq))
   \<and> valid [] (TopologyGroups svc ctx rq) (read_result svc [] (groups_shown svc rq))
   \<and> valid [] (ServiceDiscover svc ctx nrq)
       (read_result svc [] (namespace_shown svc ManagementUnmanaged nrq clusterSummary))
   \<and> valid [] (ListAll svc ctx nrq) (read_result svc [] (namespace_shown svc ManagementAllSelected nrq (\<lambda>cl. cl)))
   \<and> valid [] (TopologyAll svc ctx nrq) (read_result svc [] (namespace_shown svc ManagementAllSelected nrq topologyData))"
  unfolding ServiceDiscover_def ListAll_def TopologyAll_def
  by (intro conjI ServiceList_spec TopologyGroups_spec discoverAll_spec) simp_all

text \<open>Reads of the example service that succeed; a version report without a supported version does not.\<close>

definition demoReader :: "nat service" where
  "demoReader = demoService (\<lambda>n. Inr (demoSnapshot 7 (demoCluster ''pg-2''))) (restStatus 200) casApplied"

lemma demo_topology: "rOutcome (fst (demoRun (Topology demoReader demoCtx \<lparr>cqTarget = demoTarget, cqAllow = False\<rparr>))) = Succeeded
   \<and> map tpDepth (tdMembers (rData (fst (demoRun (Topology demoReader demoCtx \<lparr>cqTarget = demoTarget, cqAllow = False\<rparr>))))) = [0, 1]"
  by code_simp

lemma demo_versions:
  "map mvHTTPStatus (vdMembers (rData (fst (demoRun (ServiceVersion demoReader demoCtx
     \<lparr>vqTarget = demoTarget, vqMembers = [''pg-1''], vqCitus = False, vqAllow = True\<rparr>))))) = [200]
   \<and> rOutcome (fst (demoRun (ServiceVersion demoReader demoCtx
     \<lparr>vqTarget = demoTarget, vqMembers = [], vqCitus = False, vqAllow = False\<rparr>))) = Failed"
  by code_simp

end
