(* ===== verification/Go_Decode.thy ===== *)
theory Go_Decode
  imports Go_Json
begin

text \<open>
  Decoding JSON into typed Go data, as \<open>encoding/json\<close> does it: which values fit a type, what the fields of a struct
  become, and the raw texts of the elements of an array or the members of an object (\<open>json.RawMessage\<close>).

  A value that does not fit is an error of the whole decoding, but the rest is still decoded; only the presence of the
  error is modelled.  \<open>null\<close> fits every type; it leaves a text, number or boolean alone and empties a pointer, map or slice.
\<close>

section \<open>Types and values that fit\<close>

datatype gotype = TText | TInt | TBool | TAny | TNumber | TPtr gotype | TSlice gotype | TMap gotype
  | TStruct "(string \<times> gotype) list"

text \<open>Whether a text is a JSON number.\<close>

definition isValidNumber :: "string \<Rightarrow> bool" where
  "isValidNumber s = (case scan_number s of Some (_, r) \<Rightarrow> r = [] | None \<Rightarrow> False)"

text \<open>A member of an object belongs to the field whose name it has, up to case.\<close>

function fits :: "gotype \<Rightarrow> jval \<Rightarrow> bool" where
  "fits t v =
     (v = JNull \<or>
      (case t of
         TText \<Rightarrow> (case v of JStr _ \<Rightarrow> True | _ \<Rightarrow> False)
       | TInt \<Rightarrow> (case v of JNum n \<Rightarrow> ParseInt n \<noteq> None | _ \<Rightarrow> False)
       | TBool \<Rightarrow> (case v of JBool _ \<Rightarrow> True | _ \<Rightarrow> False)
       | TAny \<Rightarrow> True
       | TNumber \<Rightarrow> (case v of JNum _ \<Rightarrow> True | JStr s \<Rightarrow> isValidNumber s | _ \<Rightarrow> False)
       | TPtr u \<Rightarrow> fits u v
       | TSlice u \<Rightarrow> (case v of JArr vs \<Rightarrow> list_all (fits u) vs | _ \<Rightarrow> False)
       | TMap u \<Rightarrow> (case v of JObj ps \<Rightarrow> list_all (\<lambda>p. fits u (snd p)) ps | _ \<Rightarrow> False)
       | TStruct fs \<Rightarrow>
           (case v of
              JObj ps \<Rightarrow> list_all (\<lambda>p. list_all (\<lambda>f. EqualFold (fst p) (fst f) \<longrightarrow> fits (snd f) (snd p)) fs) ps
            | _ \<Rightarrow> False)))"
  by pat_completeness auto
termination
proof (relation "measure (\<lambda>(t, v). size t)", goal_cases)
  case (5 t v fs ps p f)
  then have "size (snd f) \<le> size_list (\<lambda>x. Suc (size (snd x))) fs"
    by (intro size_list_estimation') auto
  with 5 show ?case by (simp add: size_prod_simp)
qed auto

declare fits.simps [simp del]


section \<open>Fields\<close>

text \<open>The values given to a field, in order.\<close>

definition fieldValues :: "string \<Rightarrow> jobject \<Rightarrow> jval list" where
  "fieldValues name ps = map snd (filter (\<lambda>p. EqualFold (fst p) name) ps)"

definition textField :: "string \<Rightarrow> jobject \<Rightarrow> string" where
  "textField name ps = foldl (\<lambda>s v. case v of JStr t \<Rightarrow> t | _ \<Rightarrow> s) [] (fieldValues name ps)"

text \<open>A pointer to a number: a value that does not fit leaves it pointing to what it pointed to, 0 at first.\<close>

definition intField :: "string \<Rightarrow> jobject \<Rightarrow> int option" where
  "intField name ps =
     foldl (\<lambda>x v. let old = (case x of None \<Rightarrow> 0 | Some n \<Rightarrow> n) in
         case v of JNull \<Rightarrow> None
         | JNum t \<Rightarrow> Some (case ParseInt t of Some n \<Rightarrow> n | None \<Rightarrow> old)
         | _ \<Rightarrow> Some old) None (fieldValues name ps)"

definition boolField :: "string \<Rightarrow> jobject \<Rightarrow> bool option" where
  "boolField name ps =
     foldl (\<lambda>x v. case v of JNull \<Rightarrow> None | JBool b \<Rightarrow> Some b | _ \<Rightarrow> Some (x = Some True)) None (fieldValues name ps)"

text \<open>A map collects the members of all objects given to it; \<open>null\<close> empties it.\<close>

definition objectField :: "string \<Rightarrow> jobject \<Rightarrow> jobject" where
  "objectField name ps =
     foldl (\<lambda>m v. case v of JNull \<Rightarrow> [] | JObj qs \<Rightarrow> m @ qs | _ \<Rightarrow> m) [] (fieldValues name ps)"

definition anyField :: "string \<Rightarrow> jobject \<Rightarrow> jval" where
  "anyField name ps = foldl (\<lambda>_ v. v) JNull (fieldValues name ps)"

text \<open>The members of a value decoded into a struct; \<open>null\<close> assigns nothing.\<close>

definition structMembers :: "jval \<Rightarrow> jobject" where
  "structMembers v = (case v of JObj ps \<Rightarrow> ps | _ \<Rightarrow> [])"

text \<open>\<open>decodeJSON\<close>: one value that fills the whole text and fits the type.\<close>

definition decodeJSON :: "gotype \<Rightarrow> string \<Rightarrow> jval option" where
  "decodeJSON t text = (case parseJSON text of Some v \<Rightarrow> if fits t v then Some v else None | None \<Rightarrow> None)"


section \<open>Raw texts\<close>

text \<open>The text of the value at the front of \<open>s\<close>, when \<open>r\<close> is the rest after it.\<close>

definition rawText :: "string \<Rightarrow> string \<Rightarrow> string" where
  "rawText s r = (let t = skip_space s in take (length t - length r) t)"

function rawElems :: "string \<Rightarrow> string list" where
  "rawElems s =
     (case parse_value 1 s of
        None \<Rightarrow> []
      | Some (_, r) \<Rightarrow>
          rawText s r #
          (case skip_space r of
             [] \<Rightarrow> []
           | c # cs \<Rightarrow> if c = CHR '','' \<and> shorter cs s then rawElems cs else []))"
  by pat_completeness auto
termination
  by (relation "measure length") (auto simp: shorter_def)

declare rawElems.simps [simp del]

text \<open>The raw texts of the elements of an array that fills a text.\<close>

definition rawArray :: "string \<Rightarrow> string list" where
  "rawArray text =
     (let body = skip_space (drop 1 (skip_space text)) in
      if HasPrefix body '']'' then [] else rawElems body)"

function rawMembers :: "string \<Rightarrow> (string \<times> string) list" where
  "rawMembers s =
     (case skip_space s of
        [] \<Rightarrow> []
      | q # cs \<Rightarrow>
         (case scan_string cs of
            None \<Rightarrow> []
          | Some (k, r) \<Rightarrow>
             (let ds = drop 1 (skip_space r) in
              case parse_value 1 ds of
                None \<Rightarrow> []
              | Some (_, r2) \<Rightarrow>
                  (k, rawText ds r2) #
                  (case skip_space r2 of
                     [] \<Rightarrow> []
                   | e # es \<Rightarrow> if e = CHR '','' \<and> shorter es s then rawMembers es else []))))"
  by pat_completeness auto
termination
  by (relation "measure length") (auto simp: shorter_def)

declare rawMembers.simps [simp del]

text \<open>A raw field of a struct decoded from a text: the text of the last value given to it.\<close>

definition rawField :: "string \<Rightarrow> string \<Rightarrow> string" where
  "rawField name text =
     (let body = skip_space (drop 1 (skip_space text));
          members = (if HasPrefix (skip_space text) ''{'' \<and> \<not> HasPrefix body ''}'' then rawMembers body else []) in
      foldl (\<lambda>_ v. v) [] (map snd (filter (\<lambda>p. EqualFold (fst p) name) members)))"

end
