(* ===== verification/Dcs_Decode.thy ===== *)
theory Dcs_Decode
  imports Go_Decode Go_Url Batch
begin

text \<open>
  \<^verbatim>\<open>src/dcs/decode.go\<close>: from the keys below a prefix to a snapshot, and from the keys below a namespace to the clusters in it.
  A value that does not decode is reported as an issue and leaves its part of the state empty.  Go maps become association lists
  sorted by key.
\<close>

section \<open>Values\<close>

definition integerValue :: "jval \<Rightarrow> int option" where
  "integerValue v = (case v of JNum n \<Rightarrow> ParseInt n | JStr s \<Rightarrow> ParseInt s | _ \<Rightarrow> None)"

text \<open>A decoded \<open>map[string]any\<close> in canonical form.\<close>

definition canonicalObject :: "jobject \<Rightarrow> jobject" where
  "canonicalObject ps = structMembers (jnorm (JObj ps))"

text \<open>A JSON string or number as a text, as \<open>json.Number\<close> and Go strings keep it.\<close>

definition plainText :: "jval \<Rightarrow> string" where
  "plainText v = (case v of JNum n \<Rightarrow> n | JStr s \<Rightarrow> s | _ \<Rightarrow> [])"

definition textMap :: "jobject \<Rightarrow> (string \<times> string) list" where
  "textMap ps = map (\<lambda>(k, v). (k, plainText v)) (jmap ps)"

definition parseLegacyConnectionString :: "string \<Rightarrow> string \<times> string" where
  "parseLegacyConnectionString value =
     (case urlParse value of
        None \<Rightarrow> (value, [])
      | Some parsed \<Rightarrow> (URLString (parsed\<lparr>uRawQuery := []\<rparr>), queryGet (uRawQuery parsed) ''application_name''))"


section \<open>The keys of a cluster\<close>

text \<open>An issue with the value of an entry.\<close>

definition valueIssue :: "dcs_entry \<Rightarrow> string \<Rightarrow> decode_issue" where
  "valueIssue e reason = \<lparr>diRelativePath = eRelativePath e, diField = ''value'', diReason = reason\<rparr>"

definition zeroMemberData :: member_data where
  "zeroMemberData = \<lparr>mdAPIURL = [], mdConnURL = [], mdState = [], mdRole = [], mdReplicationState = [], mdTimeline = None,
     mdPendingRestart = None, mdPendingRestartReason = [], mdScheduledRestart = [], mdTags = [], mdPatroniVersion = [],
     mdPause = None, mdXLogLocation = None, mdReceiveLSN = None, mdReplayLSN = None, mdSlots = []\<rparr>"

definition memberType :: gotype where
  "memberType = TStruct [(''api_url'', TText), (''conn_url'', TText), (''state'', TText), (''role'', TText),
     (''replication_state'', TText), (''timeline'', TPtr TInt), (''pending_restart'', TPtr TBool),
     (''pending_restart_reason'', TMap TAny), (''scheduled_restart'', TAny), (''tags'', TMap TAny), (''version'', TText),
     (''pause'', TPtr TBool), (''xlog_location'', TPtr TInt), (''receive_lsn'', TPtr TInt), (''replay_lsn'', TPtr TInt),
     (''slots'', TMap TNumber)]"

definition memberData :: "string \<Rightarrow> jobject \<Rightarrow> member_data" where
  "memberData text ps = \<lparr>mdAPIURL = textField ''api_url'' ps, mdConnURL = textField ''conn_url'' ps,
     mdState = textField ''state'' ps, mdRole = textField ''role'' ps, mdReplicationState = textField ''replication_state'' ps,
     mdTimeline = intField ''timeline'' ps, mdPendingRestart = boolField ''pending_restart'' ps,
     mdPendingRestartReason = canonicalObject (objectField ''pending_restart_reason'' ps),
     mdScheduledRestart = rawField ''scheduled_restart'' text, mdTags = canonicalObject (objectField ''tags'' ps),
     mdPatroniVersion = textField ''version'' ps, mdPause = boolField ''pause'' ps,
     mdXLogLocation = intField ''xlog_location'' ps, mdReceiveLSN = intField ''receive_lsn'' ps,
     mdReplayLSN = intField ''replay_lsn'' ps, mdSlots = textMap (objectField ''slots'' ps)\<rparr>"

text \<open>Each decoder gives its part of the state and the issues it reports.\<close>

definition decodeMember :: "dcs_entry \<Rightarrow> dcs_member \<times> decode_issue list" where
  "decodeMember e =
     (let member = (\<lambda>d. \<lparr>mName = TrimPrefix (eRelativePath e) ''members/'', mModRevision = eModRevision e, mLease = eLease e,
            mData = d\<rparr>) in
      if HasPrefix (eValue e) ''postgres'' then
        (let (conn, api) = parseLegacyConnectionString (eValue e) in
         (member (zeroMemberData\<lparr>mdConnURL := conn, mdAPIURL := api\<rparr>), []))
      else (case decodeJSON memberType (eValue e) of
              None \<Rightarrow> (member zeroMemberData, [valueIssue e ''member value is not a JSON object or legacy PostgreSQL URL''])
            | Some v \<Rightarrow> (member (memberData (eValue e) (structMembers v)), [])))"

definition failoverType :: gotype where
  "failoverType = TStruct [(''leader'', TText), (''member'', TText), (''scheduled_at'', TText)]"

definition decodeFailover :: "dcs_entry \<Rightarrow> dcs_failover \<times> decode_issue list" where
  "decodeFailover e =
     (case decodeJSON failoverType (eValue e) of
        Some v \<Rightarrow> (\<lparr>fModRevision = eModRevision e, fLeader = textField ''leader'' (structMembers v),
          fCandidate = textField ''member'' (structMembers v), fScheduledAt = textField ''scheduled_at'' (structMembers v)\<rparr>, [])
      | None \<Rightarrow>
         (let parts = map TrimSpace (Split (CHR '':'') (eValue e));
              part = (\<lambda>n. if n < length parts then parts ! n else []) in
          (\<lparr>fModRevision = eModRevision e, fLeader = part 0, fCandidate = part 1, fScheduledAt = []\<rparr>,
           if part 0 = [] \<and> part 1 = []
           then [valueIssue e ''failover value is neither JSON nor legacy leader:candidate''] else [])))"

definition syncType :: gotype where
  "syncType = TStruct [(''leader'', TText), (''sync_standby'', TText), (''quorum'', TAny)]"

definition decodeSync :: "dcs_entry \<Rightarrow> sync_state \<times> decode_issue list" where
  "decodeSync e =
     (let none = \<lparr>sModRevision = eModRevision e, sLeader = [], sStandbys = [], sQuorum = 0\<rparr> in
      case decodeJSON syncType (eValue e) of
        None \<Rightarrow> (none, [valueIssue e ''sync state is not a JSON object''])
      | Some v \<Rightarrow>
         (let ps = structMembers v; leader = textField ''leader'' ps in
          if leader = [] then (none, [])
          else (\<lparr>sModRevision = eModRevision e, sLeader = leader,
                 sStandbys = filter (\<lambda>s. s \<noteq> []) (map TrimSpace (Split (CHR '','') (textField ''sync_standby'' ps))),
                 sQuorum = (case integerValue (anyField ''quorum'' ps) of Some n \<Rightarrow> n | None \<Rightarrow> 0)\<rparr>, [])))"

text \<open>A part of the status that may be given as the text of a JSON value.\<close>

definition embedded :: "jval option \<Rightarrow> jval" where
  "embedded v =
     (case v of
        Some (JStr text) \<Rightarrow> (case decodeJSON TAny text of Some d \<Rightarrow> d | None \<Rightarrow> JNull)
      | Some w \<Rightarrow> w
      | None \<Rightarrow> JNull)"

definition decodeStatus :: "dcs_entry \<Rightarrow> dcs_status \<times> decode_issue list" where
  "decodeStatus e =
     (let status = \<lparr>stSource = eKind e, stLastLSN = 0, stSlots = [], stRetainSlots = []\<rparr> in
      if eKind e = KeyLeaderOptime then
        (case ParseInt (TrimSpace (eValue e)) of
           None \<Rightarrow> (status, [valueIssue e ''legacy leader optime is not an integer''])
         | Some n \<Rightarrow> (status\<lparr>stLastLSN := n\<rparr>, []))
      else (case decodeJSON TAny (eValue e) of
           None \<Rightarrow> (status, [valueIssue e ''status value is invalid''])
         | Some root \<Rightarrow>
            (case integerValue root of
               Some n \<Rightarrow> (status\<lparr>stLastLSN := n\<rparr>, [])
             | None \<Rightarrow>
                (case root of
                   JObj ps \<Rightarrow>
                     (status\<lparr>stLastLSN := (case Option.bind (jlookup ps ''optime'') integerValue of Some n \<Rightarrow> n | None \<Rightarrow> 0),
                        stSlots := (case embedded (jlookup ps ''slots'') of
                            JObj slots \<Rightarrow> map (\<lambda>(k, v). (k, case integerValue v of Some n \<Rightarrow> n | None \<Rightarrow> 0)) (jmap slots)
                          | _ \<Rightarrow> []),
                        stRetainSlots := (case embedded (jlookup ps ''retain_slots'') of
                            JArr vs \<Rightarrow> concat (map (\<lambda>v. case v of JStr s \<Rightarrow> [s] | _ \<Rightarrow> []) vs)
                          | _ \<Rightarrow> [])\<rparr>, [])
                 | _ \<Rightarrow> (status, [valueIssue e ''status value is invalid''])))))"

text \<open>The switch of \<open>decodeCluster\<close> on the kind of one entry.\<close>

definition decodeEntry :: "dcs_entry \<Rightarrow> cluster_state \<times> decode_issue list \<Rightarrow> cluster_state \<times> decode_issue list" where
  "decodeEntry e = (\<lambda>(cl, issues).
     case eKind e of
       KeyInitialize \<Rightarrow> (cl\<lparr>cInitialize := eValue e\<rparr>, issues)
     | KeyConfig \<Rightarrow>
         (case decodeJSON (TMap TAny) (eValue e) of
            Some (JObj ps) \<Rightarrow> (cl\<lparr>cConfig := canonicalObject ps\<rparr>, issues)
          | _ \<Rightarrow> (cl\<lparr>cConfig := []\<rparr>, issues @ [valueIssue e ''dynamic configuration is not a JSON object'']))
     | KeyMember \<Rightarrow> (let (m, new) = decodeMember e in (cl\<lparr>cMembers := cMembers cl @ [m]\<rparr>, issues @ new))
     | KeyLeader \<Rightarrow> (cl\<lparr>cLeader := Some \<lparr>lName = eValue e, lModRevision = eModRevision e, lLease = eLease e\<rparr>\<rparr>, issues)
     | KeyFailover \<Rightarrow> (let (f, new) = decodeFailover e in (cl\<lparr>cFailover := Some f\<rparr>, issues @ new))
     | KeyHistory \<Rightarrow>
         (case parseJSON (eValue e) of
            Some (JArr _) \<Rightarrow> (cl\<lparr>cHistory := rawArray (eValue e)\<rparr>, issues)
          | Some JNull \<Rightarrow> (cl\<lparr>cHistory := []\<rparr>, issues)
          | _ \<Rightarrow> (cl, issues @ [valueIssue e ''history is not a JSON array'']))
     | KeySync \<Rightarrow> (let (s, new) = decodeSync e in (cl\<lparr>cSync := s\<rparr>, issues @ new))
     | KeyFailsafe \<Rightarrow>
         (case decodeJSON (TMap TText) (eValue e) of
            Some v \<Rightarrow> (cl\<lparr>cFailsafe := textMap (structMembers v)\<rparr>, issues)
          | None \<Rightarrow> (cl, issues @ [valueIssue e ''failsafe topology is not a string map'']))
     | _ \<Rightarrow> (cl, issues))"

definition emptyCluster :: cluster_state where
  "emptyCluster = \<lparr>cInitialize = [], cConfig = [], cLeader = None, cMembers = [], cFailover = None, cHistory = [],
     cStatus = \<lparr>stSource = KeyUnknown, stLastLSN = 0, stSlots = [], stRetainSlots = []\<rparr>,
     cSync = \<lparr>sModRevision = 0, sLeader = [], sStandbys = [], sQuorum = 0\<rparr>, cFailsafe = []\<rparr>"

text \<open>The last entry with a path.\<close>

definition entryAt :: "dcs_entry list \<Rightarrow> string \<Rightarrow> dcs_entry option" where
  "entryAt entries path = find (\<lambda>e. eRelativePath e = path) (rev entries)"

definition statusEntry :: "dcs_entry list \<Rightarrow> dcs_entry option" where
  "statusEntry entries = (case entryAt entries ''status'' of Some e \<Rightarrow> Some e | None \<Rightarrow> entryAt entries ''optime/leader'')"

definition decodeCluster :: "dcs_entry list \<Rightarrow> cluster_state \<times> decode_issue list" where
  "decodeCluster entries =
     (let (cl, issues) = fold decodeEntry entries (emptyCluster, []);
          (cl, issues) = (case statusEntry entries of
              None \<Rightarrow> (cl, issues)
            | Some e \<Rightarrow> (let (st, new) = decodeStatus e in (cl\<lparr>cStatus := st\<rparr>, issues @ new))) in
      (cl\<lparr>cMembers := sort_key mName (cMembers cl)\<rparr>, issues))"

definition classifiedEntry :: "string \<Rightarrow> dcs_entry \<Rightarrow> dcs_entry" where
  "classifiedEntry pfx e =
     (let relative = (if eRelativePath e = [] then TrimPrefix (TrimPrefix (eKey e) (TrimRight pfx ''/'')) ''/''
                      else eRelativePath e) in
      e\<lparr>eRelativePath := relative, eKind := ClassifyRelativePath relative\<rparr>)"

definition BuildSnapshot :: "target \<Rightarrow> string \<Rightarrow> int \<Rightarrow> dcs_entry list \<Rightarrow> snapshot" where
  "BuildSnapshot t pfx revision entries =
     (let cloned = SortEntries (map (classifiedEntry pfx) entries);
          (cl, issues) = decodeCluster cloned in
      \<lparr>snTarget = Normalize t, snPrefix = TrimRight pfx ''/'', snRevision = revision, snEntries = cloned,
       snCluster = cl, snIssues = issues\<rparr>)"


section \<open>The clusters of a namespace\<close>

text \<open>The cluster a key is evidence of, and its entry there.\<close>

definition clusterEvidence :: "string \<Rightarrow> string \<Rightarrow> dcs_entry \<Rightarrow> (target \<times> dcs_entry) option" where
  "clusterEvidence ctx namespace e =
     (let relative = TrimPrefix (eKey e) (NamespacePrefix namespace); parts = Split (CHR ''/'') relative in
      if relative = eKey e \<or> relative = [] then None
      else if length parts < 2 \<or> TrimSpace (hd parts) = [] then None
      else
        (let t = Normalize \<lparr>tContext = ctx, tNamespace = namespace, tScope = hd parts, tGroup = None, tMember = []\<rparr>;
             grouped = (if length parts \<ge> 3 \<and> ClassifyRelativePath (Join ''/'' (drop 2 parts)) \<noteq> KeyUnknown then
                 (case ParseInt (parts ! 1) of Some g \<Rightarrow> if g \<ge> 0 then Some g else None | None \<Rightarrow> None) else None);
             path = Join ''/'' (drop (if grouped = None then 1 else 2) parts);
             kind = ClassifyRelativePath path in
         if kind = KeyUnknown then None
         else Some (t\<lparr>tGroup := grouped\<rparr>, e\<lparr>eRelativePath := path, eKind := kind\<rparr>)))"

text \<open>What was found for one cluster: the entries by key, of two with one key the last.\<close>

definition lastByKey :: "dcs_entry list \<Rightarrow> dcs_entry list" where
  "lastByKey es = List.map_filter (\<lambda>k. find (\<lambda>e. eKey e = k) (rev es)) (sort (remdups (map eKey es)))"

definition discoveredFrom :: "int \<Rightarrow> target \<Rightarrow> dcs_entry list \<Rightarrow> discovered_cluster option" where
  "discoveredFrom revision t es =
     (case ClusterPrefix t of
        Inl _ \<Rightarrow> None
      | Inr pfx \<Rightarrow> Some \<lparr>dcTarget = t, dcRevision = revision, dcEvidenceKeys = map eKey (lastByKey es),
          dcSnapshot = Some (BuildSnapshot t pfx revision (SortEntries (lastByKey es)))\<rparr>)"

definition DiscoverFromEntries :: "string \<Rightarrow> string \<Rightarrow> int \<Rightarrow> dcs_entry list \<Rightarrow> discovered_cluster list" where
  "DiscoverFromEntries context namespace revision entries =
     (let ctx = (if TrimSpace context = [] then DefaultContext else TrimSpace context);
          ns = NormalizeNamespace namespace;
          found = List.map_filter (clusterEvidence ctx ns) entries;
          ids = remdups (map (ClusterID \<circ> fst) found);
          one = (\<lambda>i. let hits = filter (\<lambda>(t, e). ClusterID t = i) found in discoveredFrom revision (fst (hd hits)) (map snd hits)) in
      sort_key (\<lambda>d. (tScope (dcTarget d), case tGroup (dcTarget d) of None \<Rightarrow> -1 | Some g \<Rightarrow> g))
        (List.map_filter one ids))"

end
