(* ===== verification/Dcs_Decode_Spec.thy ===== *)
theory Dcs_Decode_Spec
  imports Dcs_Decode Go_Json_Spec Transition Reads_Spec Cluster_View_Spec
begin

text \<open>
  What decoding guarantees: which keys decide which part of a snapshot, that the values the control operations write are read
  back as what they meant, and that the discovery of a namespace puts every key into the one cluster it belongs to.
\<close>

section \<open>What each key decides\<close>

lemma decodeEntry_members:
  "cMembers (fst (decodeEntry e acc)) =
     cMembers (fst acc) @ (if eKind e = KeyMember then [fst (decodeMember e)] else [])"
  by (cases acc) (auto simp: decodeEntry_def Let_def split: key_kind.splits option.splits jval.splits prod.splits)

lemma decodeEntry_failover:
  "cFailover (fst (decodeEntry e acc)) =
     (if eKind e = KeyFailover then Some (fst (decodeFailover e)) else cFailover (fst acc))"
  by (cases acc) (auto simp: decodeEntry_def Let_def split: key_kind.splits option.splits jval.splits prod.splits)

lemma decodeEntry_leader:
  "cLeader (fst (decodeEntry e acc)) =
     (if eKind e = KeyLeader then Some \<lparr>lName = eValue e, lModRevision = eModRevision e, lLease = eLease e\<rparr>
      else cLeader (fst acc))"
  by (cases acc) (auto simp: decodeEntry_def Let_def split: key_kind.splits option.splits jval.splits prod.splits)

lemma decodeEntry_config:
  "cConfig (fst (decodeEntry e acc)) =
     (if eKind e = KeyConfig
      then (case decodeJSON (TMap TAny) (eValue e) of Some (JObj ps) \<Rightarrow> canonicalObject ps | _ \<Rightarrow> [])
      else cConfig (fst acc))"
  by (cases acc) (auto simp: decodeEntry_def Let_def split: key_kind.splits option.splits jval.splits prod.splits)

text \<open>A part that one kind of key decides is that of its last entry.\<close>

lemma fold_last:
  assumes "\<And>e acc. part (fst (decodeEntry e acc)) = (if eKind e = k then dec e else part (fst acc))"
  shows "part (fst (fold decodeEntry es acc)) =
     (if filter (\<lambda>e. eKind e = k) es = [] then part (fst acc) else dec (last (filter (\<lambda>e. eKind e = k) es)))"
  by (induction es arbitrary: acc) (auto simp: assms)

lemma fold_members:
  "cMembers (fst (fold decodeEntry es acc)) =
     cMembers (fst acc) @ map (fst \<circ> decodeMember) (filter (\<lambda>e. eKind e = KeyMember) es)"
  by (induction es arbitrary: acc) (auto simp: decodeEntry_members)

lemma decodeCluster_sel:
  "cMembers (fst (decodeCluster es)) = sort_key mName (cMembers (fst (fold decodeEntry es (emptyCluster, []))))"
  "cFailover (fst (decodeCluster es)) = cFailover (fst (fold decodeEntry es (emptyCluster, [])))"
  "cLeader (fst (decodeCluster es)) = cLeader (fst (fold decodeEntry es (emptyCluster, [])))"
  "cConfig (fst (decodeCluster es)) = cConfig (fst (fold decodeEntry es (emptyCluster, [])))"
  by (simp_all add: decodeCluster_def Let_def split: prod.splits option.splits)

lemma BuildSnapshot_sel [simp]:
  "snEntries (BuildSnapshot t pfx rv es) = SortEntries (map (classifiedEntry pfx) es)"
  "snCluster (BuildSnapshot t pfx rv es) = fst (decodeCluster (SortEntries (map (classifiedEntry pfx) es)))"
  "snTarget (BuildSnapshot t pfx rv es) = Normalize t" "snRevision (BuildSnapshot t pfx rv es) = rv"
  by (simp_all add: BuildSnapshot_def Let_def split: prod.splits)

text \<open>The entries of one kind in a snapshot.\<close>

definition entriesOf :: "key_kind \<Rightarrow> string \<Rightarrow> dcs_entry list \<Rightarrow> dcs_entry list" where
  "entriesOf k pfx es = filter (\<lambda>e. eKind e = k) (map (classifiedEntry pfx) es)"

lemma entriesOf_sorted: "filter (\<lambda>e. eKind e = k) (SortEntries (map (classifiedEntry pfx) es)) = sort_key eKey (entriesOf k pfx es)"
  by (simp add: SortEntries_def entriesOf_def filter_sort)

lemma snapshot_failover:
  "entriesOf KeyFailover pfx es = [e] \<Longrightarrow> cFailover (snCluster (BuildSnapshot t pfx rv es)) = Some (fst (decodeFailover e))"
  by (simp add: decodeCluster_sel fold_last [where part = cFailover, OF decodeEntry_failover] entriesOf_sorted)

lemma snapshot_config:
  "entriesOf KeyConfig pfx es = [e] \<Longrightarrow> cConfig (snCluster (BuildSnapshot t pfx rv es)) =
     (case decodeJSON (TMap TAny) (eValue e) of Some (JObj ps) \<Rightarrow> canonicalObject ps | _ \<Rightarrow> [])"
  by (simp add: decodeCluster_sel fold_last [where part = cConfig, OF decodeEntry_config] entriesOf_sorted)

lemma sort_key_Nil [simp]: "sort_key f xs = [] \<longleftrightarrow> xs = []"
  by (metis length_0_conv length_sort)

lemma snapshot_leader:
  "cLeader (snCluster (BuildSnapshot t pfx rv es)) =
     (if entriesOf KeyLeader pfx es = [] then None
      else let e = last (sort_key eKey (entriesOf KeyLeader pfx es))
           in Some \<lparr>lName = eValue e, lModRevision = eModRevision e, lLease = eLease e\<rparr>)"
  by (simp add: decodeCluster_sel fold_last [where part = cLeader, OF decodeEntry_leader] entriesOf_sorted
      emptyCluster_def Let_def)

lemma decodeMember_name [simp]: "mName (fst (decodeMember e)) = TrimPrefix (eRelativePath e) ''members/''"
  by (simp add: decodeMember_def Let_def split: prod.splits option.splits)

lemma snapshot_members:
  "cMembers (snCluster (BuildSnapshot t pfx rv es)) =
     sort_key mName (map (fst \<circ> decodeMember) (sort_key eKey (entriesOf KeyMember pfx es)))"
  by (simp add: decodeCluster_sel fold_members entriesOf_sorted emptyCluster_def)


section \<open>Reading back what was written\<close>

lemma fits_struct:
  "fits (TStruct fs) (JObj ps) \<longleftrightarrow> (\<forall>(k, v) \<in> set ps. \<forall>(n, t) \<in> set fs. EqualFold k n \<longrightarrow> fits t v)"
  by (subst fits.simps) (fastforce simp: list_all_iff)

lemma fits_text [simp]: "fits TText (JStr s)"
  by (subst fits.simps) simp

lemma fits_any [simp]: "fits TAny v"
  by (subst fits.simps) simp

lemma fits_object [simp]: "fits (TMap TAny) (JObj ps)"
  by (subst fits.simps) (simp add: list_all_iff)

lemma failover_names [simp]:
  "EqualFold ''leader'' ''leader''" "EqualFold ''member'' ''member''" "EqualFold ''scheduled_at'' ''scheduled_at''"
  "\<not> EqualFold ''leader'' ''member''" "\<not> EqualFold ''leader'' ''scheduled_at''" "\<not> EqualFold ''member'' ''leader''"
  "\<not> EqualFold ''member'' ''scheduled_at''" "\<not> EqualFold ''scheduled_at'' ''leader''" "\<not> EqualFold ''scheduled_at'' ''member''"
  by code_simp+

text \<open>A failover key with up to three texts.\<close>

definition failoverObject :: "string \<Rightarrow> string \<Rightarrow> string \<Rightarrow> jobject" where
  "failoverObject leader member schedule =
     (if leader = [] then [] else [(''leader'', JStr leader)])
     @ (if member = [] then [] else [(''member'', JStr member)])
     @ (if schedule = [] then [] else [(''scheduled_at'', JStr schedule)])"

lemma utf8_literals [simp]: "utf8_valid ''leader''" "utf8_valid ''member''" "utf8_valid ''scheduled_at''"
  by code_simp+

lemma failoverObject_decodes:
  assumes "utf8_valid leader" "utf8_valid member" "utf8_valid schedule"
    and "eValue e = Marshal (JObj (failoverObject leader member schedule))"
  shows "decodeFailover e = (\<lparr>fModRevision = eModRevision e, fLeader = leader, fCandidate = member, fScheduledAt = schedule\<rparr>, [])"
proof -
  have "json_ok 10000 (JObj (failoverObject leader member schedule))"
    by (rule json_ok_mono [of 1]) (use assms in \<open>auto simp: failoverObject_def eval_nat_numeral\<close>)
  then have "parseJSON (eValue e) = Some (JObj (failoverObject leader member schedule))"
    by (simp only: assms(4) parseJSON_Marshal)
  moreover have "fits failoverType (JObj (failoverObject leader member schedule))"
    by (auto simp: failoverType_def fits_struct failoverObject_def)
  ultimately show ?thesis
    by (simp add: decodeFailover_def decodeJSON_def structMembers_def textField_def fieldValues_def failoverObject_def)
qed

lemma transitionDCSPayload_object:
  "transitionDCSPayload intent planned = Marshal (JObj (failoverObject
     (if tiOperation intent = ''switchover'' then tsLeader planned else []) (tiCandidate intent) (transitionSchedule intent)))"
  by (simp add: transitionDCSPayload_def failoverObject_def)

text \<open>A configuration in canonical form: sorted by key at every level, as the decoder leaves it.\<close>

lemma config_reads_back:
  assumes "json_ok 10000 (JObj cfg)" "jnorm (JObj cfg) = JObj cfg" "eValue e = Marshal (JObj cfg)"
    and "entriesOf KeyConfig pfx es = [e]"
  shows "cConfig (snCluster (BuildSnapshot t pfx rv es)) = cfg"
proof -
  have "decodeJSON (TMap TAny) (eValue e) = Some (JObj cfg)"
    by (simp only: decodeJSON_def assms(3) parseJSON_Marshal [OF assms(1)] fits_object option.case if_True)
  moreover have "canonicalObject cfg = cfg" by (simp only: canonicalObject_def assms(2) structMembers_def jval.case)
  ultimately show ?thesis using snapshot_config [OF assms(4)] by simp
qed

text \<open>C19: What the control operations write is read back as what they meant. When the failover key of a cluster holds the value
  that the fallback of a failover or switchover writes, the snapshot read next shows the transition as completed in the sense of
  the verification that follows the write, whatever the other keys are. When the configuration key holds the JSON text of a
  canonical configuration, which is what an edit writes, the snapshot shows exactly this configuration. Texts are assumed to be
  valid UTF-8, numbers to be JSON numbers and nesting to stay below the decoder's limit.\<close>

theorem writes_read_back:
  assumes "utf8_valid (tsLeader planned)" "utf8_valid (tiCandidate intent)" "utf8_valid (transitionSchedule intent)"
    and "entriesOf KeyFailover pfx es = [e]" "eValue e = transitionDCSPayload intent planned"
    and "json_ok 10000 (JObj cfg)" "jnorm (JObj cfg) = JObj cfg"
    and "entriesOf KeyConfig pfx es = [c]" "eValue c = Marshal (JObj cfg)"
  shows "transitionCompleted (snCluster (BuildSnapshot t pfx rv es)) intent (tsLeader planned)
    \<and> cConfig (snCluster (BuildSnapshot t pfx rv es)) = cfg"
proof -
  let ?leader = "if tiOperation intent = ''switchover'' then tsLeader planned else []"
  have "utf8_valid ?leader" using assms(1) by (simp add: utf8_valid.simps [of "[]"])
  then have "decodeFailover e = (\<lparr>fModRevision = eModRevision e, fLeader = ?leader, fCandidate = tiCandidate intent,
      fScheduledAt = transitionSchedule intent\<rparr>, [])"
    by (rule failoverObject_decodes [OF _ assms(2,3)]) (simp add: assms(5) transitionDCSPayload_object)
  then have "cFailover (snCluster (BuildSnapshot t pfx rv es)) = Some \<lparr>fModRevision = eModRevision e, fLeader = ?leader,
      fCandidate = tiCandidate intent, fScheduledAt = transitionSchedule intent\<rparr>"
    using snapshot_failover [OF assms(4)] by simp
  then have "transitionCompleted (snCluster (BuildSnapshot t pfx rv es)) intent (tsLeader planned)"
    by (simp add: transitionCompleted_def)
  with config_reads_back [OF assms(6,7,9,8)] show ?thesis by blast
qed


definition example_intent :: transition_intent where
  "example_intent = \<lparr>tiOperation = ''switchover'', tiTarget = example_target, tiLeader = ''pg-1'', tiCandidate = ''pg-2'',
     tiScheduledAt = None, tiForce = False, tiCitus = False\<rparr>"

definition example_selection :: transition_selection where
  "example_selection = \<lparr>tsLeader = ''pg-1'', tsCandidate = ''pg-2'', tsCandidateNames = [''pg-2''],
     tsCandidateMember = None, tsRestMember = None, tsSyncEligible = False, tsPaused = False, tsFailoverVersion = 0\<rparr>"

definition example_written :: "dcs_entry list" where
  "example_written = (let e = (\<lambda>k v. \<lparr>eKey = ''/service/pg/'' @ k, eRelativePath = k, eKind = ClassifyRelativePath k,
       eCreateRevision = 1, eModRevision = 7, eVersion = 1, eLease = 0, eValue = v\<rparr>) in
     [e ''config'' (Marshal (JObj [(''pause'', JBool True)])), e ''failover'' (transitionDCSPayload example_intent example_selection)])"

lemma example_kinds [simp]: "ClassifyRelativePath ''config'' = KeyConfig" "ClassifyRelativePath ''failover'' = KeyFailover"
  by code_simp+

theorem writes_read_back_witness:
  "transitionCompleted (snCluster (BuildSnapshot example_target ''/service/pg'' 9 example_written)) example_intent ''pg-1''
   \<and> cConfig (snCluster (BuildSnapshot example_target ''/service/pg'' 9 example_written)) = [(''pause'', JBool True)]"
proof -
  have kinds: "entriesOf KeyFailover ''/service/pg'' example_written = [example_written ! 1]"
    "entriesOf KeyConfig ''/service/pg'' example_written = [example_written ! 0]"
    by (simp_all add: entriesOf_def example_written_def classifiedEntry_def Let_def)
  have texts: "utf8_valid (tsLeader example_selection)" "utf8_valid (tiCandidate example_intent)"
    "utf8_valid (transitionSchedule example_intent)" "jnorm (JObj [(''pause'', JBool True)]) = JObj [(''pause'', JBool True)]"
    by code_simp+
  have "utf8_valid ''pause''" by code_simp
  then have "json_ok 10000 (JObj [(''pause'', JBool True)])"
    by - (rule json_ok_mono [of 1], (simp add: eval_nat_numeral)+)
  note cfg = this texts(4)
  have vals: "eValue (example_written ! 1) = transitionDCSPayload example_intent example_selection"
    "eValue (example_written ! 0) = Marshal (JObj [(''pause'', JBool True)])"
    by (simp_all only: example_written_def Let_def One_nat_def nth_Cons_0 nth_Cons_Suc dcs_entry.simps)
  have "tsLeader example_selection = ''pg-1''" by (simp only: example_selection_def transition_selection.simps)
  from writes_read_back [OF texts(1-3) kinds(1) vals(1) cfg kinds(2) vals(2), unfolded this] show ?thesis by blast
qed


section \<open>Discovery\<close>

text \<open>What a found key tells: a target inside the namespace and a known kind.\<close>

lemma clusterEvidence_Some:
  assumes "clusterEvidence ctx ns e = Some (t, e')" and "TrimSpace ctx = ctx" "ctx \<noteq> []" "NormalizeNamespace ns = ns"
  shows "Normalize t = t \<and> tContext t = ctx \<and> tNamespace t = ns \<and> tMember t = [] \<and> eKey e' = eKey e
    \<and> eKind e' \<noteq> KeyUnknown \<and> eKind e' = ClassifyRelativePath (eRelativePath e') \<and> eRelativePath e' \<noteq> []"
proof -
  have "ClassifyRelativePath [] = KeyUnknown" by code_simp
  with assms show ?thesis
    by (auto simp: clusterEvidence_def Let_def Normalize_def split: if_splits option.splits)
qed

text \<open>The place of an entry in its cluster: the namespace, a text that is the scope up to blanks around it, a text that is the number of
  the Citus group if there is one, and a known path.\<close>

definition placed :: "string \<Rightarrow> target \<Rightarrow> dcs_entry \<Rightarrow> bool" where
  "placed namespace t e = (\<exists>scope group. tScope t = TrimSpace scope
     \<and> (case tGroup t of None \<Rightarrow> group = [] | Some g \<Rightarrow> \<exists>n. ParseInt n = Some g \<and> group = n @ ''/'')
     \<and> eKey e = NamespacePrefix namespace @ scope @ ''/'' @ group @ eRelativePath e
     \<and> eKind e = ClassifyRelativePath (eRelativePath e) \<and> eRelativePath e \<noteq> [])"

lemma Join_slash: "xs \<noteq> [] \<Longrightarrow> Join ''/'' (x # xs) = x @ ''/'' @ Join ''/'' xs"
  by (cases xs) auto

lemma clusterEvidence_placed:
  assumes "clusterEvidence ctx ns e = Some (t, e')"
  shows "placed ns t e'"
proof -
  let ?relative = "TrimPrefix (eKey e) (NamespacePrefix ns)"
  let ?parts = "Split (CHR ''/'') ?relative"
  define grouped where "grouped = (if length ?parts \<ge> 3 \<and> ClassifyRelativePath (Join ''/'' (drop 2 ?parts)) \<noteq> KeyUnknown then
      (case ParseInt (?parts ! 1) of Some g \<Rightarrow> if g \<ge> 0 then Some g else None | None \<Rightarrow> None) else None)"
  define path where "path = Join ''/'' (drop (if grouped = None then 1 else 2) ?parts)"
  have "?relative \<noteq> eKey e \<and> length ?parts \<ge> 2 \<and> ClassifyRelativePath path \<noteq> KeyUnknown
      \<and> t = (Normalize \<lparr>tContext = ctx, tNamespace = ns, tScope = hd ?parts, tGroup = None, tMember = []\<rparr>)\<lparr>tGroup := grouped\<rparr>
      \<and> e' = e\<lparr>eRelativePath := path, eKind := ClassifyRelativePath path\<rparr>"
    using assms unfolding clusterEvidence_def Let_def grouped_def [symmetric] path_def [symmetric]
    by (simp split: if_split_asm)
  then have rel: "?relative \<noteq> eKey e" and len: "length ?parts \<ge> 2"
    and t: "tScope t = TrimSpace (hd ?parts)" "tGroup t = grouped"
    and e': "eKey e' = eKey e" "eRelativePath e' = path" "eKind e' = ClassifyRelativePath (eRelativePath e')" "eKind e' \<noteq> KeyUnknown"
    by simp_all
  from rel have key: "eKey e = NamespacePrefix ns @ ?relative"
    by (auto simp: TrimPrefix_def HasPrefix_iff_prefix prefix_def split: if_splits)
  obtain x y zs where parts: "?parts = x # y # zs" using len by (cases ?parts; cases "tl ?parts") auto
  have joined: "?relative = Join ''/'' (x # y # zs)" using Join_Split [of "CHR ''/''" ?relative] by (simp only: parts)
  have "ClassifyRelativePath [] = KeyUnknown" by code_simp
  with e'(3,4) have nonempty: "eRelativePath e' \<noteq> []" by auto
  show ?thesis
  proof (cases grouped)
    case None
    with e'(2) have "eRelativePath e' = Join ''/'' (y # zs)" by (simp add: path_def parts)
    with joined have "eKey e' = NamespacePrefix ns @ x @ ''/'' @ [] @ eRelativePath e'" using key e'(1) by (simp add: Join_slash)
    with t None e'(3) nonempty show ?thesis unfolding placed_def by (intro exI [of _ x] exI [of _ "[]"]) (simp add: parts)
  next
    case (Some g)
    then have zs: "zs \<noteq> []" and n: "ParseInt y = Some g"
      unfolding grouped_def parts by (auto split: if_splits option.splits)
    from Some e'(2) have "eRelativePath e' = Join ''/'' zs" by (simp add: path_def parts)
    with joined zs have "eKey e' = NamespacePrefix ns @ x @ ''/'' @ (y @ ''/'') @ eRelativePath e'"
      using key e'(1) by (simp add: Join_slash)
    with t Some n e'(3) nonempty show ?thesis unfolding placed_def
      by (intro exI [of _ x] exI [of _ "y @ ''/''"]) (simp add: parts)
  qed
qed

definition foundIn :: "string \<Rightarrow> string \<Rightarrow> dcs_entry list \<Rightarrow> (target \<times> dcs_entry) list" where
  "foundIn context namespace entries =
     List.map_filter (clusterEvidence (if TrimSpace context = [] then DefaultContext else TrimSpace context)
       (NormalizeNamespace namespace)) entries"

definition hitsOf :: "(target \<times> dcs_entry) list \<Rightarrow> string \<Rightarrow> (target \<times> dcs_entry) list" where
  "hitsOf found i = filter (\<lambda>(t, e). ClusterID t = i) found"

definition clusterOf :: "int \<Rightarrow> (target \<times> dcs_entry) list \<Rightarrow> string \<Rightarrow> discovered_cluster option" where
  "clusterOf rv found i = discoveredFrom rv (fst (hd (hitsOf found i))) (map snd (hitsOf found i))"

lemma DiscoverFromEntries_alt:
  "DiscoverFromEntries context namespace rv entries =
     sort_key (\<lambda>d. (tScope (dcTarget d), case tGroup (dcTarget d) of None \<Rightarrow> -1 | Some g \<Rightarrow> g))
       (List.map_filter (clusterOf rv (foundIn context namespace entries))
         (remdups (map (ClusterID \<circ> fst) (foundIn context namespace entries))))"
  by (simp add: DiscoverFromEntries_def foundIn_def clusterOf_def [abs_def] hitsOf_def Let_def)

lemma hitsOf_hd:
  assumes "i \<in> set (map (ClusterID \<circ> fst) found)"
  shows "hd (hitsOf found i) \<in> set found" "ClusterID (fst (hd (hitsOf found i))) = i"
proof -
  from assms have "hitsOf found i \<noteq> []" by (force simp: hitsOf_def filter_empty_conv)
  then have "hd (hitsOf found i) \<in> set (hitsOf found i)" by simp
  then show "hd (hitsOf found i) \<in> set found" "ClusterID (fst (hd (hitsOf found i))) = i"
    by (auto simp: hitsOf_def)
qed

lemma lastByKey_keys: "map eKey (lastByKey es) = sort (remdups (map eKey es))"
proof -
  have "List.map_filter (\<lambda>k. find (\<lambda>e. eKey e = k) (rev es)) ks = map (\<lambda>k. the (find (\<lambda>e. eKey e = k) (rev es))) ks
      \<and> map eKey (map (\<lambda>k. the (find (\<lambda>e. eKey e = k) (rev es))) ks) = ks"
    if "set ks \<subseteq> eKey ` set es" for ks
    using that
  proof (induction ks)
    case (Cons k ks)
    then obtain e where "find (\<lambda>e. eKey e = k) (rev es) = Some e"
      by (cases "find (\<lambda>e. eKey e = k) (rev es)") (force simp: find_None_iff)+
    moreover from this have "eKey e = k" by (auto simp: find_Some_iff)
    ultimately show ?case using Cons by (simp add: List.map_filter_def)
  qed (simp add: List.map_filter_def)
  from this [of "sort (remdups (map eKey es))"] show ?thesis by (simp add: lastByKey_def)
qed

lemma lastByKey_set: "set (lastByKey es) \<subseteq> set es"
proof
  fix e assume "e \<in> set (lastByKey es)"
  then obtain k where "find (\<lambda>e. eKey e = k) (rev es) = Some e"
    by (auto simp: lastByKey_def List.map_filter_def)
  then show "e \<in> set es" using find_SomeD [of _ "rev es"] by fastforce
qed


lemma discoveredFrom_Some:
  assumes "discoveredFrom rv t es = Some d"
  shows "dcTarget d = t \<and> dcRevision d = rv \<and> dcEvidenceKeys d = sort (remdups (map eKey es))
    \<and> (\<exists>pfx. ClusterPrefix t = Inr pfx \<and> dcSnapshot d = Some (BuildSnapshot t pfx rv (SortEntries (lastByKey es))))"
  using assms by (auto simp: discoveredFrom_def lastByKey_keys split: sum.splits)

lemma ClusterPrefix_Validate: "ClusterPrefix t = Inr pfx \<Longrightarrow> Validate t True = None"
  by (auto simp: ClusterPrefix_def Let_def split: option.splits)

lemma distinct_map_sort_key [simp]: "distinct (map f (sort_key g xs)) = distinct (map f xs)"
  by (metis mset_eq_imp_distinct_iff mset_map mset_sort)

lemma map_filter_ids:
  assumes "\<And>i d. i \<in> set is \<Longrightarrow> one i = Some d \<Longrightarrow> f d = i" and "distinct is"
  shows "distinct (map f (List.map_filter one is))"
  using assms by (induction "is") (force simp: List.map_filter_def)+

text \<open>What one discovered cluster is, given what was found.\<close>

definition cluster_of :: "int \<Rightarrow> (target \<times> dcs_entry) list \<Rightarrow> discovered_cluster \<Rightarrow> bool" where
  "cluster_of rv found d =
     ((\<exists>e. (dcTarget d, e) \<in> set found) \<and> clusterOf rv found (ClusterID (dcTarget d)) = Some d)"

lemma map_filter_set: "set (List.map_filter f xs) = {y. \<exists>x \<in> set xs. f x = Some y}"
  by (induction xs) (auto split: option.splits)

lemma DiscoverFromEntries_each:
  "d \<in> set (DiscoverFromEntries context namespace rv entries) \<longleftrightarrow> cluster_of rv (foundIn context namespace entries) d"
proof
  let ?found = "foundIn context namespace entries"
  assume "d \<in> set (DiscoverFromEntries context namespace rv entries)"
  then obtain i where i: "i \<in> set (map (ClusterID \<circ> fst) ?found)" and d: "clusterOf rv ?found i = Some d"
    by (simp only: DiscoverFromEntries_alt set_sort map_filter_set set_remdups mem_Collect_eq) blast
  from d have t: "dcTarget d = fst (hd (hitsOf ?found i))" unfolding clusterOf_def by (rule discoveredFrom_Some [THEN conjunct1])
  have "(dcTarget d, snd (hd (hitsOf ?found i))) \<in> set ?found" using hitsOf_hd(1) [OF i] by (simp add: t)
  moreover have "ClusterID (dcTarget d) = i" using hitsOf_hd(2) [OF i] by (simp only: t)
  ultimately show "cluster_of rv ?found d" unfolding cluster_of_def using d by blast
next
  let ?found = "foundIn context namespace entries"
  assume "cluster_of rv ?found d"
  then obtain e where e: "(dcTarget d, e) \<in> set ?found" and d: "clusterOf rv ?found (ClusterID (dcTarget d)) = Some d"
    unfolding cluster_of_def by blast
  have "ClusterID (dcTarget d) \<in> set (map (ClusterID \<circ> fst) ?found)" using imageI [OF e, of "ClusterID \<circ> fst"] by simp
  with d show "d \<in> set (DiscoverFromEntries context namespace rv entries)"
    by (simp only: DiscoverFromEntries_alt set_sort map_filter_set set_remdups mem_Collect_eq) blast
qed

text \<open>What a search of a namespace asks for, as a target.\<close>

abbreviation searched :: "string \<Rightarrow> string \<Rightarrow> target" where
  "searched context namespace \<equiv>
     Normalize \<lparr>tContext = context, tNamespace = namespace, tScope = [], tGroup = None, tMember = []\<rparr>"

lemma foundIn_target:
  assumes "(t, e) \<in> set (foundIn context namespace entries)"
  shows "Normalize t = t" "tContext t = tContext (searched context namespace)"
    "tNamespace t = tNamespace (searched context namespace)" "tMember t = []"
proof -
  let ?ctx = "if TrimSpace context = [] then DefaultContext else TrimSpace context"
  from assms obtain e0 where "clusterEvidence ?ctx (NormalizeNamespace namespace) e0 = Some (t, e)"
    by (auto simp only: foundIn_def map_filter_set mem_Collect_eq)
  moreover have "TrimSpace ?ctx = ?ctx" by simp
  moreover have "?ctx \<noteq> []" by (simp add: DefaultContext_def)
  ultimately show "Normalize t = t" "tContext t = tContext (searched context namespace)"
    "tNamespace t = tNamespace (searched context namespace)" "tMember t = []"
    using clusterEvidence_Some [of ?ctx "NormalizeNamespace namespace" e0 t e] by (auto simp: Normalize_def Let_def)
qed

text \<open>Two found targets with one identity are one target.\<close>

lemma foundIn_same:
  assumes "(t, e) \<in> set (foundIn context namespace entries)" "(u, f) \<in> set (foundIn context namespace entries)"
    and "ClusterID t = ClusterID u"
  shows "t = u"
proof -
  have "t\<lparr>tMember := []\<rparr> = u\<lparr>tMember := []\<rparr>"
    using assms(3) foundIn_target(1) [OF assms(1)] foundIn_target(1) [OF assms(2)] by (simp add: ClusterID_eq_iff)
  with foundIn_target(4) [OF assms(1)] foundIn_target(4) [OF assms(2)] show ?thesis by (cases t; cases u) simp
qed

lemma foundIn_placed:
  assumes "(t, e) \<in> set (foundIn context namespace entries)"
  shows "placed namespace t e"
proof -
  from assms obtain ctx e0 where "clusterEvidence ctx (NormalizeNamespace namespace) e0 = Some (t, e)"
    by (auto simp only: foundIn_def map_filter_set mem_Collect_eq)
  from clusterEvidence_placed [OF this] show ?thesis by (simp add: placed_def NamespacePrefix_def)
qed

lemma classifiedEntry_placed: "placed namespace t e \<Longrightarrow> placed namespace t (classifiedEntry pfx e)"
  by (auto simp: placed_def classifiedEntry_def Let_def)

definition evidenceOf :: "string \<Rightarrow> string \<Rightarrow> dcs_entry list \<Rightarrow> target \<Rightarrow> string set" where
  "evidenceOf context namespace entries t = {eKey e | u e. (u, e) \<in> set (foundIn context namespace entries) \<and> u = t}"

lemma evidenceOf_hits:
  assumes "(t, e) \<in> set (foundIn context namespace entries)"
  shows "evidenceOf context namespace entries t
    = set (map eKey (map snd (hitsOf (foundIn context namespace entries) (ClusterID t))))"
  using foundIn_same [OF _ assms] by (force simp: evidenceOf_def hitsOf_def)

lemma map_sort_key: "map f (sort_key f xs) = sort (map f xs)"
  by (rule properties_for_sort [symmetric]) simp_all

lemma snapshot_keys:
  "map eKey (SortEntries (map (classifiedEntry pfx) (SortEntries (lastByKey es)))) = sort (remdups (map eKey es))"
proof -
  have "map eKey (map (classifiedEntry pfx) xs) = map eKey xs" for xs
    by (simp add: classifiedEntry_def Let_def)
  then show ?thesis
    by (simp add: SortEntries_def map_sort_key lastByKey_keys sort_key_id_if_sorted del: map_map)
qed

lemma ClusterPrefix_valid: "Validate t True = None \<Longrightarrow> \<exists>pfx. ClusterPrefix t = Inr pfx"
  by (simp add: ClusterPrefix_def Let_def)

text \<open>One cluster that was discovered.\<close>

lemma discovered_one:
  assumes "d \<in> set (DiscoverFromEntries context namespace rv entries)"
  shows "discoveredTargetError (searched context namespace) (Normalize (dcTarget d)) = None" (is ?ours)
    and "\<exists>sn. snapshot_found d sn [] \<and> snTarget sn = dcTarget d \<and> snRevision sn = rv \<and> map eKey (snEntries sn) = dcEvidenceKeys d
        \<and> (\<forall>e \<in> set (snEntries sn). placed namespace (dcTarget d) e)"
      (is ?own)
    and "sorted (dcEvidenceKeys d) \<and> distinct (dcEvidenceKeys d)
      \<and> set (dcEvidenceKeys d) = evidenceOf context namespace entries (dcTarget d)" (is ?keys)
proof -
  let ?found = "foundIn context namespace entries"
  let ?es = "map snd (hitsOf ?found (ClusterID (dcTarget d)))"
  from assms obtain e where e: "(dcTarget d, e) \<in> set ?found"
    and d: "clusterOf rv ?found (ClusterID (dcTarget d)) = Some d"
    unfolding DiscoverFromEntries_each cluster_of_def by blast
  note t = foundIn_target [OF e]
  from discoveredFrom_Some [OF d [unfolded clusterOf_def]] obtain pfx
    where own: "ClusterPrefix (dcTarget d) = Inr pfx"
      "dcSnapshot d = Some (BuildSnapshot (dcTarget d) pfx rv (SortEntries (lastByKey ?es)))"
      and keys: "dcEvidenceKeys d = sort (remdups (map eKey ?es))"
    by auto
  show ?ours using ClusterPrefix_Validate [OF own(1)] t by (simp add: discoveredTargetError_def)
  have "placed namespace (dcTarget d) x" if "x \<in> set ?es" for x
  proof -
    from that obtain u where u: "(u, x) \<in> set ?found" "ClusterID u = ClusterID (dcTarget d)" by (auto simp: hitsOf_def)
    from foundIn_same [OF u(1) e u(2)] foundIn_placed [OF u(1)] show ?thesis by simp
  qed
  then have "\<forall>x \<in> set (lastByKey ?es). placed namespace (dcTarget d) (classifiedEntry pfx x)"
    using lastByKey_set [of ?es] classifiedEntry_placed by blast
  then show ?own using own(2) t(1) by (simp add: snapshot_found_def snapshot_keys keys SortEntries_def del: map_map)
    (use snapshot_keys in \<open>simp add: SortEntries_def del: map_map\<close>)?
  show ?keys using evidenceOf_hits [OF e] by (simp only: keys set_sort set_remdups sorted_sort distinct_sort distinct_remdups)
qed

text \<open>C20: A search of a namespace splits the store into its clusters. Every cluster found belongs to the requested context and
  namespace, so a read over several clusters never rejects what the discoverer hands it; it carries its own snapshot, taken at
  the revision of the search, whose entries are exactly its evidence keys in order, each of them in its place below the namespace,
  the scope and the Citus group of the cluster, and these are exactly the keys recognised for this cluster. No cluster is given twice,
  and no recognised key of a cluster with a valid name is lost.\<close>

theorem discovery_partition:
  fixes "context" namespace rv entries
  defines "ds \<equiv> DiscoverFromEntries context namespace rv entries"
  shows "(\<forall>d \<in> set ds.
      discoveredTargetError (searched context namespace) (Normalize (dcTarget d)) = None
      \<and> (\<exists>sn. snapshot_found d sn [] \<and> snTarget sn = dcTarget d \<and> snRevision sn = rv \<and> map eKey (snEntries sn) = dcEvidenceKeys d
           \<and> (\<forall>e \<in> set (snEntries sn). placed namespace (dcTarget d) e))
      \<and> sorted (dcEvidenceKeys d) \<and> distinct (dcEvidenceKeys d)
      \<and> set (dcEvidenceKeys d) = evidenceOf context namespace entries (dcTarget d))
    \<and> distinct (map (ClusterID \<circ> dcTarget) ds)
    \<and> (\<forall>(t, e) \<in> set (foundIn context namespace entries). Validate t True = None \<longrightarrow>
         (\<exists>d \<in> set ds. dcTarget d = t \<and> eKey e \<in> set (dcEvidenceKeys d)))"
proof (intro conjI ballI)
  let ?found = "foundIn context namespace entries"
  fix d assume d: "d \<in> set ds"
  note one = discovered_one [OF d [unfolded ds_def]]
  from one show "discoveredTargetError (searched context namespace) (Normalize (dcTarget d)) = None"
    "\<exists>sn. snapshot_found d sn [] \<and> snTarget sn = dcTarget d \<and> snRevision sn = rv \<and> map eKey (snEntries sn) = dcEvidenceKeys d
       \<and> (\<forall>e \<in> set (snEntries sn). placed namespace (dcTarget d) e)"
    "sorted (dcEvidenceKeys d)" "distinct (dcEvidenceKeys d)"
    "set (dcEvidenceKeys d) = evidenceOf context namespace entries (dcTarget d)" by blast+
next
  let ?found = "foundIn context namespace entries"
  have "ClusterID (dcTarget d) = i" if "i \<in> set (remdups (map (ClusterID \<circ> fst) ?found))" "clusterOf rv ?found i = Some d" for i d
    using discoveredFrom_Some [OF that(2) [unfolded clusterOf_def]] hitsOf_hd(2) [of i ?found] that(1) by simp
  then show "distinct (map (ClusterID \<circ> dcTarget) ds)"
    unfolding ds_def DiscoverFromEntries_alt distinct_map_sort_key by (intro map_filter_ids) simp_all
next
  let ?found = "foundIn context namespace entries"
  fix h assume h: "h \<in> set ?found"
  obtain t e where [simp]: "h = (t, e)" by (cases h)
  have "\<exists>d \<in> set ds. dcTarget d = t \<and> eKey e \<in> set (dcEvidenceKeys d)" if valid: "Validate t True = None"
  proof -
    have mem: "(t, e) \<in> set ?found" using h by simp
    have i: "ClusterID t \<in> set (map (ClusterID \<circ> fst) ?found)" using imageI [OF mem, of "ClusterID \<circ> fst"] by simp
    have "fst (hd (hitsOf ?found (ClusterID t))) = t"
      using foundIn_same [OF _ mem hitsOf_hd(2) [OF i], of "snd (hd (hitsOf ?found (ClusterID t)))"] hitsOf_hd(1) [OF i] by simp
    with ClusterPrefix_valid [OF valid] obtain d where d: "clusterOf rv ?found (ClusterID t) = Some d"
      and t: "dcTarget d = t" by (auto simp: clusterOf_def discoveredFrom_def)
    have "cluster_of rv ?found d" unfolding cluster_of_def using d t mem by blast
    then have ds: "d \<in> set ds" unfolding ds_def DiscoverFromEntries_each .
    have "eKey e \<in> evidenceOf context namespace entries t" unfolding evidenceOf_def using mem by blast
    with discovered_one(3) [OF ds [unfolded ds_def]] t ds show ?thesis by auto
  qed
  then show "case h of (t, e) \<Rightarrow> Validate t True = None \<longrightarrow>
      (\<exists>d \<in> set ds. dcTarget d = t \<and> eKey e \<in> set (dcEvidenceKeys d))" by simp
qed

definition example_keys :: "dcs_entry list" where
  "example_keys = map (\<lambda>(k, v). \<lparr>eKey = k, eRelativePath = [], eKind = KeyUnknown, eCreateRevision = 1, eModRevision = 7,
     eVersion = 1, eLease = 0, eValue = v\<rparr>)
   [(''/service/pg/leader'', ''pg-1''), (''/service/pg/initialize'', ''7''), (''/service/citus/0/initialize'', ''7''), (''/service/plain'', ''x'')]"

theorem discovery_partition_witness:
  "\<exists>d \<in> set (DiscoverFromEntries [] ''service'' 9 example_keys).
     dcTarget d = \<lparr>tContext = ''default'', tNamespace = ''/service'', tScope = ''pg'', tGroup = None, tMember = []\<rparr>
     \<and> ''/service/pg/leader'' \<in> set (dcEvidenceKeys d)
     \<and> discoveredTargetError (searched [] ''service'') (Normalize (dcTarget d)) = None"
proof -
  let ?t = "\<lparr>tContext = ''default'', tNamespace = ''/service'', tScope = ''pg'', tGroup = None, tMember = []\<rparr>"
  have "list_ex (\<lambda>(t, e). t = ?t \<and> eKey e = ''/service/pg/leader'') (foundIn [] ''service'' example_keys)" by code_simp
  then obtain e where "(?t, e) \<in> set (foundIn [] ''service'' example_keys)" "eKey e = ''/service/pg/leader''"
    by (auto simp only: list_ex_iff split: prod.splits)
  moreover have "Validate ?t True = None" by code_simp
  ultimately obtain d where "d \<in> set (DiscoverFromEntries [] ''service'' 9 example_keys)"
    "dcTarget d = ?t" "''/service/pg/leader'' \<in> set (dcEvidenceKeys d)"
    using discovery_partition [of "[]" "''service''" 9 example_keys, THEN conjunct2, THEN conjunct2, THEN bspec] by force
  with discovery_partition [of "[]" "''service''" 9 example_keys] show ?thesis by blast
qed

end
