(* ===== verification/Rest_Client.thy ===== *)
theory Rest_Client
  imports Go_Url Go_Decode Catalog Effects
begin

text \<open>
  The REST client: \<^verbatim>\<open>src/client.go\<close>, \<^verbatim>\<open>src/endpoints.go\<close> and the request and response types of \<^verbatim>\<open>src/types.go\<close>.

  The transport is a parameter: one round trip takes a request and the outside world and says whether the request was written
  and what came back. Following redirects is written out, because the source decides about them. A context with a
  deadline ends every chain of redirects; how many requests fit into it is the number \<open>hcHops\<close>. Beside its result, a call gives the
  round trips it made. The log and the texts of errors of the transport are not modelled.
\<close>

section \<open>Messages\<close>

type_synonym http_header = "(string \<times> string) list"

record http_request =
  hrMethod :: string
  hrURL :: string
  hrHeader :: http_header
  hrBody :: "string option"

text \<open>An answer with the body as far as it could be read; \<open>haNext\<close> is the request that following the answer would make, if it is a
  redirect.\<close>

record http_answer =
  haStatus :: int
  haHeader :: http_header
  haBody :: string
  haReadError :: "goerror option"
  haCloseError :: "goerror option"
  haNext :: "http_request option"

text \<open>One round trip: whether the request was written, and the answer or the error.\<close>

type_synonym trip = "bool \<times> (goerror + http_answer)"

type_synonym trips = "(http_request \<times> trip) list"

datatype redirect_verdict = Follow | UseLastResponse | RefuseRedirect goerror

type_synonym redirect_policy = "http_request \<Rightarrow> http_request list \<Rightarrow> redirect_verdict"

record 'w http_client =
  hcTransport :: "http_request \<Rightarrow> 'w \<Rightarrow> trip \<times> 'w"
  hcCheckRedirect :: "redirect_policy option"
  hcHops :: nat

definition SetHeader :: "string \<Rightarrow> string \<Rightarrow> http_header \<Rightarrow> http_header" where
  "SetHeader name value header = filter (\<lambda>p. fst p \<noteq> name) header @ [(name, value)]"


section \<open>Authorizers\<close>

type_synonym 'w authorizer = "http_request \<Rightarrow> 'w \<Rightarrow> (goerror + http_request) \<times> 'w"

definition base64_alphabet :: string where
  "base64_alphabet = ''ABCDEFGHIJKLMNOPQRSTUVWXYZabcdefghijklmnopqrstuvwxyz0123456789+/''"

definition base64_digit :: "nat \<Rightarrow> char" where
  "base64_digit n = base64_alphabet ! (n mod 64)"

fun base64 :: "string \<Rightarrow> string" where
  "base64 [] = []"
| "base64 [a] = [base64_digit (byte a div 4), base64_digit (byte a mod 4 * 16), CHR ''='', CHR ''='']"
| "base64 [a, b] =
     [base64_digit (byte a div 4), base64_digit (byte a mod 4 * 16 + byte b div 16), base64_digit (byte b mod 16 * 4), CHR ''='']"
| "base64 (a # b # c # s) =
     base64_digit (byte a div 4) # base64_digit (byte a mod 4 * 16 + byte b div 16)
     # base64_digit (byte b mod 16 * 4 + byte c div 64) # base64_digit (byte c mod 64) # base64 s"

text \<open>\<open>BasicAuth.Authorize\<close>.\<close>

definition BasicAuth :: "string \<Rightarrow> string \<Rightarrow> 'w authorizer" where
  "BasicAuth username password = (\<lambda>request w.
     (Inr (request\<lparr>hrHeader := SetHeader ''Authorization'' (''Basic '' @ base64 (username @ '':'' @ password)) (hrHeader request)\<rparr>), w))"

text \<open>\<open>BasicAuth.String\<close> shows nothing of the credentials.\<close>

definition BasicAuthString :: "string \<Rightarrow> string \<Rightarrow> string" where
  "BasicAuthString username password =
     (if username = [] \<and> password = [] then ''patroni.BasicAuth{}'' else ''patroni.BasicAuth{credentials:[REDACTED]}'')"


section \<open>The client\<close>

record 'w client_options =
  coHTTPClient :: "'w http_client option"
  coTransport :: "(http_request \<Rightarrow> 'w \<Rightarrow> trip \<times> 'w) option"
  coAuthorizer :: "'w authorizer option"
  coTimeout :: int
  coMaxResponseBytes :: int
  coUserAgent :: string

record 'w rest_client =
  clHTTP :: "'w http_client"
  clAuthorizer :: "'w authorizer option"
  clTimeout :: int
  clMaxResponseBytes :: int
  clUserAgent :: string

text \<open>Ten seconds in nanoseconds, and eight megabytes.\<close>

definition defaultTimeout :: int where "defaultTimeout = 10000000000"
definition defaultMaxBodyBytes :: int where "defaultMaxBodyBytes = 8388608"

definition readMethod :: "string \<Rightarrow> bool" where
  "readMethod method = (method = ''GET'' \<or> method = ''HEAD'' \<or> method = ''OPTIONS'')"

text \<open>The redirect policy that \<open>NewClient\<close> installs around the one of the given client.\<close>

definition clientRedirect :: "redirect_policy option \<Rightarrow> redirect_policy" where
  "clientRedirect original = (\<lambda>request via.
     if length via > 0 \<and> \<not> readMethod (hrMethod (hd via)) then UseLastResponse
     else (case original of
         Some policy \<Rightarrow> policy request via
       | None \<Rightarrow> if length via \<ge> 10 then RefuseRedirect (errorsNew ''stopped after 10 redirects'') else Follow))"

text \<open>The default client of the runtime is an argument.\<close>

definition NewClient :: "'w http_client \<Rightarrow> 'w client_options \<Rightarrow> goerror + 'w rest_client" where
  "NewClient defaultClient options =
     (if coHTTPClient options \<noteq> None \<and> coTransport options \<noteq> None
      then Inl (errorsNew ''patroni client: HTTPClient and Transport are mutually exclusive'')
      else
        (let base = (case coHTTPClient options of None \<Rightarrow> defaultClient | Some c \<Rightarrow> c);
             client = (case coTransport options of None \<Rightarrow> base | Some t \<Rightarrow> base\<lparr>hcTransport := t\<rparr>) in
         Inr \<lparr>clHTTP = client\<lparr>hcCheckRedirect := Some (clientRedirect (hcCheckRedirect client))\<rparr>,
              clAuthorizer = coAuthorizer options,
              clTimeout = (if coTimeout options \<le> 0 then defaultTimeout else coTimeout options),
              clMaxResponseBytes = (if coMaxResponseBytes options \<le> 0 then defaultMaxBodyBytes else coMaxResponseBytes options),
              clUserAgent = coUserAgent options\<rparr>))"

text \<open>\<open>Client.Do\<close> of \<open>net/http\<close>: a redirect is followed as long as the policy agrees; \<open>via\<close> are the requests made so far.\<close>

definition checkRedirect :: "'w http_client \<Rightarrow> redirect_policy" where
  "checkRedirect client = (case hcCheckRedirect client of Some policy \<Rightarrow> policy | None \<Rightarrow> clientRedirect None)"

primrec clientDo ::
  "nat \<Rightarrow> 'w http_client \<Rightarrow> http_request list \<Rightarrow> http_request \<Rightarrow> 'w \<Rightarrow> ((goerror + http_answer) \<times> trips) \<times> 'w" where
  "clientDo 0 client via request w = ((Inl ContextDeadlineExceeded, []), w)"
| "clientDo (Suc n) client via request w =
     (case hcTransport client request w of
        ((wrote, r), w) \<Rightarrow>
          (let t = (request, (wrote, r)) in
           case r of
             Inl e \<Rightarrow> ((Inl e, [t]), w)
           | Inr answer \<Rightarrow>
              (case haNext answer of
                 None \<Rightarrow> ((Inr answer, [t]), w)
               | Some following \<Rightarrow>
                  (case checkRedirect client following (via @ [request]) of
                     UseLastResponse \<Rightarrow> ((Inr answer, [t]), w)
                   | RefuseRedirect e \<Rightarrow> ((Inl e, [t]), w)
                   | Follow \<Rightarrow>
                      (case clientDo n client (via @ [request]) following w of
                         ((r, ts), w) \<Rightarrow> ((r, t # ts), w))))))"

section \<open>One exchange\<close>

definition joinEndpoint :: "string \<Rightarrow> string \<Rightarrow> (string \<times> string) list \<Rightarrow> plain_error + string" where
  "joinEndpoint baseURL endpoint query =
     (case urlParse baseURL of
        None \<Rightarrow> Inl (ErrNew ''invalid base URL'')
      | Some base \<Rightarrow>
         (if uScheme base \<noteq> ''http'' \<and> uScheme base \<noteq> ''https'' then Inl (ErrNew ''base URL scheme must be http or https'')
          else if uHost base = [] then Inl (ErrNew ''base URL host is required'')
          else if uUser base \<noteq> None then Inl (ErrNew ''base URL userinfo is not accepted'')
          else if uRawQuery base \<noteq> [] \<or> uFragment base \<noteq> [] then Inl (ErrNew ''base URL query and fragment are not accepted'')
          else
            (let joined = TrimRight (uPath base) ''/'' @ ''/'' @ TrimLeft endpoint ''/'';
                 joined = (if endpoint = ''/'' \<and> \<not> HasSuffix joined ''/'' then joined @ ''/'' else joined) in
             Inr (URLString (base\<lparr>uPath := joined, uRawPath := [],
               uRawQuery := (if query \<noteq> [] then Encode query else uRawQuery base)\<rparr>)))))"

record wire_response =
  wrStatus :: int
  wrHeader :: http_header
  wrRaw :: string

definition noWire :: wire_response where
  "noWire = \<lparr>wrStatus = 0, wrHeader = [], wrRaw = []\<rparr>"

text \<open>Reading the answer: at most \<open>maxResponseBytes\<close> bytes of the body are kept; the error of closing it counts if there is
  no other.\<close>

definition readAnswer :: "int \<Rightarrow> string \<Rightarrow> string \<Rightarrow> http_answer \<Rightarrow> wire_response \<times> goerror option" where
  "readAnswer maximum method endpoint answer =
     (let raw = take (nat (maximum + 1)) (haBody answer);
          wire = \<lparr>wrStatus = haStatus answer, wrHeader = haHeader answer, wrRaw = raw\<rparr>;
          failure = (\<lambda>e. Some (PatroniError PatResponseBody method endpoint DeliveryResponseReceived (haStatus answer) (Some e))) in
      if int (length raw) > maximum
      then (wire\<lparr>wrRaw := take (nat maximum) raw\<rparr>, failure (Plain (ErrFmt ''response exceeds %d-byte limit'' [AInt maximum] [])))
      else (case haReadError answer of
              Some e \<Rightarrow> (wire, failure e)
            | None \<Rightarrow> (wire, Option.bind (haCloseError answer) failure)))"

text \<open>\<open>execute\<close>. A nil client is \<open>None\<close>; \<open>ctx\<close> says that the context is not nil.\<close>

definition newRequest :: "'w rest_client \<Rightarrow> string \<Rightarrow> string \<Rightarrow> string option \<Rightarrow> http_request" where
  "newRequest client method url body =
     \<lparr>hrMethod = method, hrURL = url,
      hrHeader = (''Accept'', ''application/json'')
        # (if body \<noteq> None then [(''Content-Type'', ''application/json'')] else [])
        @ (if clUserAgent client \<noteq> [] then [(''User-Agent'', clUserAgent client)] else []),
      hrBody = body\<rparr>"

definition authorize :: "'w rest_client \<Rightarrow> http_request \<Rightarrow> 'w \<Rightarrow> (goerror + http_request) \<times> 'w" where
  "authorize client request w =
     (case clAuthorizer client of None \<Rightarrow> (Inr request, w) | Some f \<Rightarrow> f request w)"

definition execute ::
  "'w rest_client option \<Rightarrow> bool \<Rightarrow> string \<Rightarrow> string \<Rightarrow> string \<Rightarrow> (string \<times> string) list \<Rightarrow> string option \<Rightarrow> 'w
   \<Rightarrow> ((wire_response \<times> goerror option) \<times> trips) \<times> 'w" where
  "execute clientPtr ctx method baseURL endpoint query body w =
     (let failed = (\<lambda>kind delivery e. (noWire, Some (PatroniError kind method endpoint delivery 0 (Some e)))) in
      case clientPtr of
        None \<Rightarrow> ((failed PatRequest DeliveryNotSent (errorsNew ''client is nil''), []), w)
      | Some client \<Rightarrow>
         (if \<not> ctx then ((failed PatRequest DeliveryNotSent (errorsNew ''context is nil''), []), w)
          else (case joinEndpoint baseURL endpoint query of
            Inl e \<Rightarrow> ((failed PatRequest DeliveryNotSent (Plain e), []), w)
          | Inr url \<Rightarrow>
             (if urlParse url = None then ((failed PatRequest DeliveryNotSent (errorsNew ''invalid request URL''), []), w)
              else (case authorize client (newRequest client method url body) w of
                (Inl e, w) \<Rightarrow> ((failed PatAuthentication DeliveryNotSent e, []), w)
              | (Inr request, w) \<Rightarrow>
                 (case clientDo (hcHops (clHTTP client)) (clHTTP client) [] request w of
                    ((Inl e, ts), w) \<Rightarrow>
                      ((failed PatTransport (if list_ex (fst \<circ> snd) ts then DeliveryMaybeSent else DeliveryNotSent) e, ts), w)
                  | ((Inr answer, ts), w) \<Rightarrow>
                      ((readAnswer (clMaxResponseBytes client) method endpoint answer, ts), w)))))))"

end
