(* ===== verification/Rest_Endpoints.thy ===== *)
theory Rest_Endpoints
  imports Rest_Client
begin

text \<open>
  The endpoints: \<^verbatim>\<open>src/endpoints.go\<close> with the payloads of \<^verbatim>\<open>src/types.go\<close>, and the REST client as the capability a control
  service holds.

  A response of a JSON type keeps the decoded JSON value as its data; the Go type is the \<open>gotype\<close> that the value must fit, and the
  fields of the struct are read from the value as \<open>encoding/json\<close> assigns them.
\<close>

section \<open>The types of the payloads\<close>

definition identityType :: gotype where
  "identityType = TStruct [(''version'', TText), (''scope'', TText), (''name'', TText)]"

definition xlogType :: gotype where
  "xlogType = TStruct [(''location'', TPtr TInt), (''received_location'', TPtr TInt), (''replayed_location'', TPtr TInt),
     (''replayed_timestamp'', TAny), (''paused'', TPtr TBool)]"

definition replicationType :: gotype where
  "replicationType = TStruct [(''usename'', TText), (''application_name'', TText), (''client_addr'', TText), (''state'', TText),
     (''sync_state'', TText), (''sync_priority'', TPtr TInt)]"

definition pendingChangeType :: gotype where
  "pendingChangeType = TStruct [(''old_value'', TAny), (''new_value'', TAny)]"

definition scheduledRestartType :: gotype where
  "scheduledRestartType = TStruct [(''schedule'', TText), (''role'', TText), (''postgres_version'', TText), (''timeout'', TAny),
     (''restart_pending'', TPtr TBool)]"

definition statusType :: gotype where
  "statusType = TStruct [(''state'', TText), (''postmaster_start_time'', TText), (''role'', TText),
     (''server_version'', TPtr TInt), (''xlog'', xlogType), (''timeline'', TPtr TInt),
     (''replication'', TSlice replicationType), (''replication_state'', TText), (''cluster_unlocked'', TPtr TBool),
     (''failsafe_mode_is_active'', TPtr TBool), (''pause'', TPtr TBool), (''dcs_last_seen'', TPtr TInt), (''tags'', TMap TAny),
     (''database_system_identifier'', TText), (''pending_restart'', TPtr TBool),
     (''pending_restart_reason'', TMap pendingChangeType), (''scheduled_restart'', TPtr scheduledRestartType),
     (''watchdog_failed'', TPtr TBool), (''logger_queue_size'', TPtr TInt), (''logger_records_lost'', TPtr TInt),
     (''sync_standby'', TPtr TBool), (''quorum_standby'', TPtr TBool), (''patroni'', identityType)]"

definition clusterMemberType :: gotype where
  "clusterMemberType = TStruct [(''name'', TText), (''role'', TText), (''state'', TText), (''api_url'', TText), (''host'', TText),
     (''port'', TPtr TInt), (''timeline'', TPtr TInt), (''pending_restart'', TPtr TBool),
     (''pending_restart_reason'', TMap pendingChangeType), (''scheduled_restart'', TPtr scheduledRestartType),
     (''tags'', TMap TAny), (''lsn'', TAny), (''lag'', TAny), (''receive_lsn'', TAny), (''receive_lag'', TAny),
     (''replay_lsn'', TAny), (''replay_lag'', TAny)]"

definition scheduledSwitchoverType :: gotype where
  "scheduledSwitchoverType = TStruct [(''at'', TText), (''from'', TText), (''to'', TText)]"

definition clusterType :: gotype where
  "clusterType = TStruct [(''members'', TSlice clusterMemberType), (''scope'', TText), (''pause'', TPtr TBool),
     (''scheduled_switchover'', TPtr scheduledSwitchoverType)]"

text \<open>\<open>HistoryEntry.UnmarshalJSON\<close>: an array of at least three parts, the first five typed.\<close>

definition historyTypes :: "gotype list" where
  "historyTypes = [TInt, TInt, TText, TText, TText]"

definition historyEntryFits :: "jval \<Rightarrow> bool" where
  "historyEntryFits v =
     (case v of
        JArr parts \<Rightarrow> length parts \<ge> 3 \<and> list_all (\<lambda>(t, p). fits t p) (zip historyTypes parts)
      | _ \<Rightarrow> False)"

text \<open>A list of entries; \<open>null\<close> in the place of an entry reaches \<open>UnmarshalJSON\<close>, which refuses it.\<close>

definition historyFits :: "jval \<Rightarrow> bool" where
  "historyFits v = (case v of JNull \<Rightarrow> True | JArr entries \<Rightarrow> list_all historyEntryFits entries | _ \<Rightarrow> False)"

record wire_history_entry =
  heTimeline :: int
  heLSN :: int
  heReason :: string
  heTimestamp :: string
  heMember :: string
  heExtra :: "jval list"

definition intOr0 :: "jval \<Rightarrow> int" where
  "intOr0 v = (case v of JNum n \<Rightarrow> (case ParseInt n of Some i \<Rightarrow> i | None \<Rightarrow> 0) | _ \<Rightarrow> 0)"

definition textOrEmpty :: "jval \<Rightarrow> string" where
  "textOrEmpty v = (case v of JStr s \<Rightarrow> s | _ \<Rightarrow> [])"

definition UnmarshalHistoryEntry :: "jval \<Rightarrow> wire_history_entry option" where
  "UnmarshalHistoryEntry v =
     (case v of
        JArr parts \<Rightarrow>
          if historyEntryFits v
          then Some \<lparr>heTimeline = intOr0 (parts ! 0), heLSN = intOr0 (parts ! 1), heReason = textOrEmpty (parts ! 2),
                 heTimestamp = (if length parts > 3 then textOrEmpty (parts ! 3) else []),
                 heMember = (if length parts > 4 then textOrEmpty (parts ! 4) else []), heExtra = drop 5 parts\<rparr>
          else None
      | _ \<Rightarrow> None)"

text \<open>\<open>HistoryEntry.MarshalJSON\<close>.\<close>

definition MarshalHistoryEntry :: "wire_history_entry \<Rightarrow> jval" where
  "MarshalHistoryEntry e = JArr
     ([JNum (FormatInt (heTimeline e)), JNum (FormatInt (heLSN e)), JStr (heReason e)]
      @ (if heTimestamp e \<noteq> [] \<or> heMember e \<noteq> [] \<or> heExtra e \<noteq> [] then [JStr (heTimestamp e)] else [])
      @ (if heMember e \<noteq> [] \<or> heExtra e \<noteq> [] then [JStr (heMember e)] else [])
      @ heExtra e)"


section \<open>Payloads of requests\<close>

definition omitEmpty :: "string \<Rightarrow> string \<Rightarrow> jobject" where
  "omitEmpty name text = (if text = [] then [] else [(name, JStr text)])"

definition failoverRequest :: "rest_transition \<Rightarrow> jval" where
  "failoverRequest p = JObj (omitEmpty ''leader'' (rtLeader p) @ omitEmpty ''candidate'' (rtCandidate p)
     @ omitEmpty ''member'' (rtMember p) @ omitEmpty ''scheduled_at'' (rtScheduledAt p))"

definition restartRequest :: "rest_restart \<Rightarrow> jval" where
  "restartRequest p = JObj (omitEmpty ''schedule'' (rrSchedule p) @ omitEmpty ''role'' (rrRole p)
     @ omitEmpty ''postgres_version'' (rrPostgresVersion p) @ omitEmpty ''timeout'' (rrTimeout p)
     @ (case rrRestartPending p of None \<Rightarrow> [] | Some b \<Rightarrow> [(''restart_pending'', JBool b)]))"

definition reinitializeRequest :: "bool \<Rightarrow> bool \<Rightarrow> jval" where
  "reinitializeRequest force fromLeader = JObj [(''force'', JBool force), (''from_leader'', JBool fromLeader)]"

record failsafe_peer =
  fpName :: string
  fpConnURL :: string
  fpAPIURL :: string
  fpSlots :: "(string \<times> int) list"

definition failsafePeerRequest :: "failsafe_peer \<Rightarrow> jval" where
  "failsafePeerRequest p = JObj ([(''name'', JStr (fpName p)), (''conn_url'', JStr (fpConnURL p)), (''api_url'', JStr (fpAPIURL p))]
     @ (if fpSlots p = [] then [] else [(''slots'', JObj (jmap (map (\<lambda>(k, n). (k, JNum (FormatInt n))) (fpSlots p))))]))"

text \<open>The two numbers of an event are floating-point numbers, given as their JSON texts.\<close>

record mpp_event =
  meType :: string
  meGroup :: int
  meLeader :: string
  meTimeout :: string
  meCooldown :: string

definition mppEvent :: "mpp_event \<Rightarrow> jval" where
  "mppEvent e = JObj [(''type'', JStr (meType e)), (''group'', JNum (FormatInt (meGroup e))), (''leader'', JStr (meLeader e)),
     (''timeout'', JNum (meTimeout e)), (''cooldown'', JNum (meCooldown e))]"


section \<open>Responses\<close>

record 'a response =
  rpStatus :: int
  rpHeader :: http_header
  rpData :: 'a
  rpRaw :: string

definition rawResponse :: "'a \<Rightarrow> wire_response \<Rightarrow> 'a response" where
  "rawResponse zero wire = \<lparr>rpStatus = wrStatus wire, rpHeader = wrHeader wire, rpData = zero, rpRaw = wrRaw wire\<rparr>"

abbreviation emptyResponse :: "wire_response \<Rightarrow> unit response" where
  "emptyResponse \<equiv> rawResponse ()"

definition textResponse :: "wire_response \<Rightarrow> string response" where
  "textResponse wire = (rawResponse [] wire)\<lparr>rpData := wrRaw wire\<rparr>"

text \<open>\<open>decodeJSON\<close> of \<open>types.go\<close> fills the data with the first value even if the type does not fit or more text follows.\<close>

definition firstValue :: "string \<Rightarrow> jval" where
  "firstValue raw = (case parse_value 0 raw of Some (v, _) \<Rightarrow> v | None \<Rightarrow> JNull)"

definition jsonResponse ::
  "(jval \<Rightarrow> bool) \<Rightarrow> wire_response \<Rightarrow> string \<Rightarrow> string \<Rightarrow> bool \<Rightarrow> jval response \<times> goerror option" where
  "jsonResponse fit wire method endpoint decode =
     (let response = rawResponse JNull wire;
          failure = (\<lambda>e. Some (PatroniError PatDecode method endpoint DeliveryResponseReceived (wrStatus wire) (Some e))) in
      if \<not> decode then (response, None)
      else if wrRaw wire = [] then (response, failure (errorsNew ''unexpected EOF''))
      else (response\<lparr>rpData := firstValue (wrRaw wire)\<rparr>,
            (case parseJSON (wrRaw wire) of
               Some v \<Rightarrow> if fit v then None else failure (errorsNew ''invalid JSON response'')
             | None \<Rightarrow> failure (errorsNew ''invalid JSON response''))))"


section \<open>Endpoints\<close>

type_synonym ('w, 'a) call = "'w \<Rightarrow> (('a response \<times> goerror option) \<times> trips) \<times> 'w"

text \<open>What a call makes of the exchange: the answer is used if there is no error.\<close>

definition exchanged ::
  "((wire_response \<times> goerror option) \<times> trips) \<times> 'w \<Rightarrow> (wire_response \<Rightarrow> goerror option \<Rightarrow> 'a response \<times> goerror option)
   \<Rightarrow> (('a response \<times> goerror option) \<times> trips) \<times> 'w" where
  "exchanged x f = (case x of (((wire, err), ts), w) \<Rightarrow> ((f wire err, ts), w))"

definition getJSON ::
  "(jval \<Rightarrow> bool) \<Rightarrow> 'w rest_client option \<Rightarrow> bool \<Rightarrow> string \<Rightarrow> string \<Rightarrow> (string \<times> string) list \<Rightarrow> bool \<Rightarrow> ('w, jval) call" where
  "getJSON fit client ctx baseURL endpoint query decodeOnSuccess w =
     exchanged (execute client ctx ''GET'' baseURL endpoint query None w)
       (\<lambda>wire err. case err of
          Some e \<Rightarrow> (rawResponse JNull wire, Some e)
        | None \<Rightarrow> jsonResponse fit wire ''GET'' endpoint (decodeOnSuccess \<and> wrStatus wire \<ge> 200 \<and> wrStatus wire < 300))"

text \<open>\<open>marshalRequest\<close> cannot fail on the payloads here, which are JSON values.\<close>

definition sendJSONForJSON ::
  "(jval \<Rightarrow> bool) \<Rightarrow> 'w rest_client option \<Rightarrow> bool \<Rightarrow> string \<Rightarrow> string \<Rightarrow> string \<Rightarrow> jval \<Rightarrow> bool \<Rightarrow> ('w, jval) call" where
  "sendJSONForJSON fit client ctx method baseURL endpoint request decodeOnSuccess w =
     exchanged (execute client ctx method baseURL endpoint [] (Some (Marshal request)) w)
       (\<lambda>wire err. case err of
          Some e \<Rightarrow> (rawResponse JNull wire, Some e)
        | None \<Rightarrow> jsonResponse fit wire method endpoint (decodeOnSuccess \<and> wrStatus wire \<ge> 200 \<and> wrStatus wire < 300))"

definition sendForText ::
  "'w rest_client option \<Rightarrow> bool \<Rightarrow> string \<Rightarrow> string \<Rightarrow> string \<Rightarrow> string option \<Rightarrow> ('w, string) call" where
  "sendForText client ctx method baseURL endpoint body w =
     exchanged (execute client ctx method baseURL endpoint [] body w) (\<lambda>wire err. (textResponse wire, err))"

definition sendJSONForText ::
  "'w rest_client option \<Rightarrow> bool \<Rightarrow> string \<Rightarrow> string \<Rightarrow> string \<Rightarrow> jval \<Rightarrow> ('w, string) call" where
  "sendJSONForText client ctx method baseURL endpoint request = sendForText client ctx method baseURL endpoint (Some (Marshal request))"

definition callForEmpty ::
  "'w rest_client option \<Rightarrow> bool \<Rightarrow> string \<Rightarrow> string \<Rightarrow> string \<Rightarrow> (string \<times> string) list \<Rightarrow> ('w, unit) call" where
  "callForEmpty client ctx method baseURL endpoint query w =
     exchanged (execute client ctx method baseURL endpoint query None w) (\<lambda>wire err. (emptyResponse wire, err))"

subsection \<open>Health checks\<close>

text \<open>The tags are a Go map, so of two values for a name the last one counts; \<open>ReplicationState\<close> is not sent.\<close>

record health_query =
  hqLag :: string
  hqTags :: "(string \<times> string) list"

definition SetValue :: "string \<Rightarrow> string \<Rightarrow> (string \<times> string) list \<Rightarrow> (string \<times> string) list" where
  "SetValue name text values = filter (\<lambda>p. fst p \<noteq> name) values @ [(name, text)]"

definition healthValues :: "health_query \<Rightarrow> (string \<times> string) list" where
  "healthValues query =
     fold (\<lambda>(name, text). SetValue (''tag_'' @ name) text) (hqTags query)
       (if hqLag query \<noteq> [] then [(''lag'', hqLag query)] else [])"

definition readinessValues :: "string \<Rightarrow> string \<Rightarrow> (string \<times> string) list" where
  "readinessValues lag mode =
     (if lag \<noteq> [] then [(''lag'', lag)] else []) @ (if mode \<noteq> [] then [(''mode'', mode)] else [])"

definition invalidAlias :: "string \<Rightarrow> string \<Rightarrow> goerror" where
  "invalidAlias method alias = PatroniError PatRequest method alias DeliveryNotSent 0 (Some (errorsNew ''unknown health alias''))"

definition GetHealth :: "'w rest_client option \<Rightarrow> bool \<Rightarrow> string \<Rightarrow> string \<Rightarrow> health_query \<Rightarrow> ('w, jval) call" where
  "GetHealth client ctx baseURL alias query w =
     (if \<not> validHealthAlias alias then (((rawResponse JNull noWire, Some (invalidAlias ''GET'' alias)), []), w)
      else exchanged (execute client ctx ''GET'' baseURL alias (healthValues query) None w)
        (\<lambda>wire err. case err of
           Some e \<Rightarrow> (rawResponse JNull wire, Some e)
         | None \<Rightarrow> jsonResponse (fits statusType) wire ''GET'' alias True))"

definition HeadHealth :: "'w rest_client option \<Rightarrow> bool \<Rightarrow> string \<Rightarrow> string \<Rightarrow> health_query \<Rightarrow> ('w, unit) call" where
  "HeadHealth client ctx baseURL alias query w =
     (if \<not> validHealthAlias alias then (((emptyResponse noWire, Some (invalidAlias ''HEAD'' alias)), []), w)
      else callForEmpty client ctx ''HEAD'' baseURL alias (healthValues query) w)"

definition OptionsHealth :: "'w rest_client option \<Rightarrow> bool \<Rightarrow> string \<Rightarrow> string \<Rightarrow> ('w, unit) call" where
  "OptionsHealth client ctx baseURL alias w =
     (if \<not> validHealthAlias alias then (((emptyResponse noWire, Some (invalidAlias ''OPTIONS'' alias)), []), w)
      else callForEmpty client ctx ''OPTIONS'' baseURL alias [] w)"

definition GetLiveness :: "'w rest_client option \<Rightarrow> bool \<Rightarrow> string \<Rightarrow> ('w, unit) call" where
  "GetLiveness client ctx baseURL = callForEmpty client ctx ''GET'' baseURL ''/liveness'' []"

definition GetReadiness :: "'w rest_client option \<Rightarrow> bool \<Rightarrow> string \<Rightarrow> string \<Rightarrow> string \<Rightarrow> ('w, unit) call" where
  "GetReadiness client ctx baseURL lag mode = callForEmpty client ctx ''GET'' baseURL ''/readiness'' (readinessValues lag mode)"


subsection \<open>Reading\<close>

definition restGetPatroni :: "'w rest_client option \<Rightarrow> bool \<Rightarrow> string \<Rightarrow> ('w, jval) call" where
  "restGetPatroni client ctx baseURL = getJSON (fits statusType) client ctx baseURL ''/patroni'' [] True"

definition GetCluster :: "'w rest_client option \<Rightarrow> bool \<Rightarrow> string \<Rightarrow> ('w, jval) call" where
  "GetCluster client ctx baseURL = getJSON (fits clusterType) client ctx baseURL ''/cluster'' [] True"

definition GetHistory :: "'w rest_client option \<Rightarrow> bool \<Rightarrow> string \<Rightarrow> ('w, jval) call" where
  "GetHistory client ctx baseURL = getJSON historyFits client ctx baseURL ''/history'' [] True"

definition GetConfig :: "'w rest_client option \<Rightarrow> bool \<Rightarrow> string \<Rightarrow> ('w, jval) call" where
  "GetConfig client ctx baseURL = getJSON (fits (TMap TAny)) client ctx baseURL ''/config'' [] True"

definition GetMetrics :: "'w rest_client option \<Rightarrow> bool \<Rightarrow> string \<Rightarrow> ('w, string) call" where
  "GetMetrics client ctx baseURL w =
     exchanged (execute client ctx ''GET'' baseURL ''/metrics'' [] None w) (\<lambda>wire err. (textResponse wire, err))"

definition GetFailsafe :: "'w rest_client option \<Rightarrow> bool \<Rightarrow> string \<Rightarrow> ('w, jval) call" where
  "GetFailsafe client ctx baseURL = getJSON (fits (TMap TText)) client ctx baseURL ''/failsafe'' [] True"


subsection \<open>Writing\<close>

definition configPayload :: "jobject \<Rightarrow> jval" where
  "configPayload cfg = jnorm (JObj cfg)"

definition restPatchConfig :: "'w rest_client option \<Rightarrow> bool \<Rightarrow> string \<Rightarrow> jobject \<Rightarrow> ('w, jval) call" where
  "restPatchConfig client ctx baseURL patch =
     sendJSONForJSON (fits (TMap TAny)) client ctx ''PATCH'' baseURL ''/config'' (configPayload patch) True"

definition PutConfig :: "'w rest_client option \<Rightarrow> bool \<Rightarrow> string \<Rightarrow> jobject \<Rightarrow> ('w, jval) call" where
  "PutConfig client ctx baseURL cfg =
     sendJSONForJSON (fits (TMap TAny)) client ctx ''PUT'' baseURL ''/config'' (configPayload cfg) True"

definition restPostReload :: "'w rest_client option \<Rightarrow> bool \<Rightarrow> string \<Rightarrow> ('w, string) call" where
  "restPostReload client ctx baseURL = sendForText client ctx ''POST'' baseURL ''/reload'' None"

definition PostFailsafe :: "'w rest_client option \<Rightarrow> bool \<Rightarrow> string \<Rightarrow> failsafe_peer \<Rightarrow> ('w, string) call" where
  "PostFailsafe client ctx baseURL p = sendJSONForText client ctx ''POST'' baseURL ''/failsafe'' (failsafePeerRequest p)"

definition PostSigterm :: "'w rest_client option \<Rightarrow> bool \<Rightarrow> string \<Rightarrow> ('w, string) call" where
  "PostSigterm client ctx baseURL = sendForText client ctx ''POST'' baseURL ''/sigterm'' None"

definition restPostRestart :: "'w rest_client option \<Rightarrow> bool \<Rightarrow> string \<Rightarrow> rest_restart \<Rightarrow> ('w, string) call" where
  "restPostRestart client ctx baseURL p = sendJSONForText client ctx ''POST'' baseURL ''/restart'' (restartRequest p)"

definition restDeleteRestart :: "'w rest_client option \<Rightarrow> bool \<Rightarrow> string \<Rightarrow> ('w, string) call" where
  "restDeleteRestart client ctx baseURL = sendForText client ctx ''DELETE'' baseURL ''/restart'' None"

definition restDeleteSwitchover :: "'w rest_client option \<Rightarrow> bool \<Rightarrow> string \<Rightarrow> ('w, string) call" where
  "restDeleteSwitchover client ctx baseURL = sendForText client ctx ''DELETE'' baseURL ''/switchover'' None"

definition restPostReinitialize :: "'w rest_client option \<Rightarrow> bool \<Rightarrow> string \<Rightarrow> bool \<Rightarrow> bool \<Rightarrow> ('w, string) call" where
  "restPostReinitialize client ctx baseURL force fromLeader =
     sendJSONForText client ctx ''POST'' baseURL ''/reinitialize'' (reinitializeRequest force fromLeader)"

definition restPostFailover :: "'w rest_client option \<Rightarrow> bool \<Rightarrow> string \<Rightarrow> rest_transition \<Rightarrow> ('w, string) call" where
  "restPostFailover client ctx baseURL p = sendJSONForText client ctx ''POST'' baseURL ''/failover'' (failoverRequest p)"

definition restPostSwitchover :: "'w rest_client option \<Rightarrow> bool \<Rightarrow> string \<Rightarrow> rest_transition \<Rightarrow> ('w, string) call" where
  "restPostSwitchover client ctx baseURL p = sendJSONForText client ctx ''POST'' baseURL ''/switchover'' (failoverRequest p)"

definition PostCitus :: "'w rest_client option \<Rightarrow> bool \<Rightarrow> string \<Rightarrow> mpp_event \<Rightarrow> ('w, string) call" where
  "PostCitus client ctx baseURL e = sendJSONForText client ctx ''POST'' baseURL ''/citus'' (mppEvent e)"

definition PostMPP :: "'w rest_client option \<Rightarrow> bool \<Rightarrow> string \<Rightarrow> mpp_event \<Rightarrow> ('w, string) call" where
  "PostMPP client ctx baseURL e = sendJSONForText client ctx ''POST'' baseURL ''/mpp'' (mppEvent e)"


section \<open>The client of a control service\<close>

text \<open>The parts of a response the operations read: a status for \<open>GetPatroni\<close>, a text for the others.\<close>

definition nestedMembers :: "string \<Rightarrow> jobject \<Rightarrow> jobject" where
  "nestedMembers name ps = concat (map structMembers (fieldValues name ps))"

definition statusView :: "jval response \<Rightarrow> rest_response" where
  "statusView r = (let ps = structMembers (rpData r) in
     \<lparr>respStatus = rpStatus r, respText = [], respState = textField ''state'' ps,
      respVersion = textField ''version'' (nestedMembers ''patroni'' ps), respServerVersion = intField ''server_version'' ps\<rparr>)"

definition textView :: "string response \<Rightarrow> rest_response" where
  "textView r = \<lparr>respStatus = rpStatus r, respText = rpData r, respState = [], respVersion = [], respServerVersion = None\<rparr>"

definition plainView :: "'a response \<Rightarrow> rest_response" where
  "plainView r = \<lparr>respStatus = rpStatus r, respText = [], respState = [], respVersion = [], respServerVersion = None\<rparr>"

definition viewed ::
  "('a response \<Rightarrow> rest_response) \<Rightarrow> (('a response \<times> goerror option) \<times> trips) \<times> 'w
   \<Rightarrow> ((rest_response \<times> goerror option) \<times> trips) \<times> 'w" where
  "viewed f x = (case x of (((r, err), ts), w) \<Rightarrow> (((f r, err), ts), w))"

text \<open>A call of the interface \<open>PatroniControlClient\<close> of \<open>control/read_types.go\<close>, with the round trips it made.\<close>

fun restExchange :: "'w rest_client \<Rightarrow> rest_call \<Rightarrow> 'w \<Rightarrow> ((rest_response \<times> goerror option) \<times> trips) \<times> 'w" where
  "restExchange cl (PostFailover url p) w = viewed textView (restPostFailover (Some cl) True url p w)"
| "restExchange cl (PostSwitchover url p) w = viewed textView (restPostSwitchover (Some cl) True url p w)"
| "restExchange cl (PostReload url) w = viewed textView (restPostReload (Some cl) True url w)"
| "restExchange cl (PostRestart url p) w = viewed textView (restPostRestart (Some cl) True url p w)"
| "restExchange cl (DeleteRestart url) w = viewed textView (restDeleteRestart (Some cl) True url w)"
| "restExchange cl (DeleteSwitchover url) w = viewed textView (restDeleteSwitchover (Some cl) True url w)"
| "restExchange cl (PostReinitialize url force fromLeader) w =
     viewed textView (restPostReinitialize (Some cl) True url force fromLeader w)"
| "restExchange cl (PatchConfig url cfg) w = viewed plainView (restPatchConfig (Some cl) True url cfg w)"
| "restExchange cl (GetPatroni url) w = viewed statusView (restGetPatroni (Some cl) True url w)"

definition restCapability :: "'w rest_client \<Rightarrow> rest_call \<Rightarrow> 'w \<Rightarrow> (rest_response \<times> goerror option) \<times> 'w" where
  "restCapability cl c w = (case restExchange cl c w of ((a, _), w) \<Rightarrow> (a, w))"

end
