(* ===== verification/Rest_Client_Spec.thy ===== *)
theory Rest_Client_Spec
  imports Rest_Endpoints Control_Base Go_Json_Spec
begin

text \<open>
  What the REST client guarantees the control operations: a write makes at most one round trip, what its answer says about
  delivery is what happened on that round trip, and sizes and numbers of requests are bounded.
\<close>

section \<open>Redirects\<close>

text \<open>A client as \<open>NewClient\<close> makes it, and an authorizer that changes nothing but the header.\<close>

definition header_only :: "'w authorizer option \<Rightarrow> bool" where
  "header_only f = (\<forall>g q w q' w'. f = Some g \<and> g q w = (Inr q', w') \<longrightarrow>
     hrMethod q' = hrMethod q \<and> hrURL q' = hrURL q \<and> hrBody q' = hrBody q)"

lemma header_only_None [simp]: "header_only None"
  by (simp add: header_only_def)

lemma header_only_BasicAuth [simp]: "header_only (Some (BasicAuth u p))"
  by (simp add: header_only_def BasicAuth_def)

definition made_by :: "redirect_policy option \<Rightarrow> 'w rest_client \<Rightarrow> bool" where
  "made_by original cl =
     (hcCheckRedirect (clHTTP cl) = Some (clientRedirect original) \<and> header_only (clAuthorizer cl) \<and> 0 < clMaxResponseBytes cl
      \<and> 0 < clTimeout cl)"

lemma NewClient_made:
  assumes "NewClient d options = Inr cl" "header_only (coAuthorizer options)"
  shows "made_by (hcCheckRedirect (case coHTTPClient options of None \<Rightarrow> d | Some c \<Rightarrow> c)) cl"
  using assms by (auto simp: NewClient_def made_by_def Let_def defaultMaxBodyBytes_def defaultTimeout_def split: if_splits option.splits)

text \<open>A write is never redirected.\<close>

lemma clientDo_write:
  assumes "hcCheckRedirect c = Some (clientRedirect original)" "\<not> readMethod (hrMethod req)"
    and "clientDo n c [] req w = ((r, ts), w')"
  shows "(ts = [] \<and> (\<exists>e. r = Inl e)) \<or> (\<exists>b. ts = [(req, b, r)])"
  using assms
  by (cases n) (auto simp: checkRedirect_def clientRedirect_def Let_def split: prod.splits sum.splits option.splits)

text \<open>Every other request is made after a decision to follow; the answer is the last one.\<close>

lemma clientDo_answer:
  "clientDo n c via req w = ((r, ts), w') \<Longrightarrow> length ts \<le> n \<and> (\<forall>a. r = Inr a \<longrightarrow> (\<exists>q b. ts \<noteq> [] \<and> last ts = (q, b, Inr a)))"
proof (induction n arbitrary: via req w r ts w')
  case (Suc n)
  obtain wrote x w1 where t: "hcTransport c req w = ((wrote, x), w1)" by (metis prod.collapse)
  show ?case
  proof (cases "\<exists>a f. x = Inr a \<and> haNext a = Some f \<and> checkRedirect c f (via @ [req]) = Follow")
    case True
    then obtain a f where x: "x = Inr a" "haNext a = Some f" "checkRedirect c f (via @ [req]) = Follow" by blast
    obtain ts1 where rest: "clientDo n c (via @ [req]) f w1 = ((r, ts1), w')" and ts: "ts = (req, wrote, x) # ts1"
      using Suc.prems t x by (auto split: prod.splits)
    from Suc.IH [OF rest] show ?thesis by (auto simp: ts)
  next
    case False
    with Suc.prems t show ?thesis
      by (auto simp: Let_def split: sum.splits option.splits redirect_verdict.splits prod.splits)
  qed
qed simp

lemma clientDo_ten:
  assumes "hcCheckRedirect c = Some (clientRedirect None)"
  shows "length via < 10 \<Longrightarrow> clientDo n c via req w = ((r, ts), w') \<Longrightarrow> length via + length ts \<le> 10"
proof (induction n arbitrary: via req w r ts w')
  case (Suc n)
  obtain wrote x w1 where t: "hcTransport c req w = ((wrote, x), w1)" by (metis prod.collapse)
  show ?case
  proof (cases "\<exists>a f. x = Inr a \<and> haNext a = Some f \<and> checkRedirect c f (via @ [req]) = Follow")
    case True
    then obtain a f where x: "x = Inr a" "haNext a = Some f" "checkRedirect c f (via @ [req]) = Follow" by blast
    obtain ts1 where rest: "clientDo n c (via @ [req]) f w1 = ((r, ts1), w')" and ts: "ts = (req, wrote, x) # ts1"
      using Suc.prems t x by (auto split: prod.splits)
    have "length (via @ [req]) < 10"
      using x(3) assms by (auto simp: checkRedirect_def clientRedirect_def split: if_splits)
    from Suc.IH [OF this rest] show ?thesis by (simp add: ts)
  next
    case False
    with Suc.prems t show ?thesis
      by (auto simp: Let_def split: sum.splits option.splits redirect_verdict.splits prod.splits)
  qed
qed simp


section \<open>Exchanges\<close>

lemma readAnswer_kept:
  assumes "readAnswer maximum method endpoint a = (wire, err)" "0 < maximum"
  shows "wrStatus wire = haStatus a \<and> int (length (wrRaw wire)) \<le> maximum
    \<and> (err = None \<or> (\<exists>e. err = Some (PatroniError PatResponseBody method endpoint DeliveryResponseReceived (haStatus a) (Some e))))
    \<and> (err = None \<longrightarrow> wrRaw wire = haBody a \<and> haReadError a = None \<and> haCloseError a = None)"
  using assms by (auto simp: readAnswer_def Let_def split: if_splits option.splits Option.bind_splits)

text \<open>A request is the one asked for.\<close>

definition request_for :: "string \<Rightarrow> string \<Rightarrow> string \<Rightarrow> (string \<times> string) list \<Rightarrow> string option \<Rightarrow> http_request \<Rightarrow> bool" where
  "request_for method baseURL endpoint query body q =
     (hrMethod q = method \<and> joinEndpoint baseURL endpoint query = Inr (hrURL q) \<and> hrBody q = body)"

text \<open>The three ways an exchange of a write ends.\<close>

definition write_exchange ::
  "string \<Rightarrow> string \<Rightarrow> string \<Rightarrow> string option \<Rightarrow> int \<Rightarrow> (wire_response \<times> goerror option) \<times> trips \<Rightarrow> bool" where
  "write_exchange method baseURL endpoint body maximum x = (case x of ((wire, err), ts) \<Rightarrow>
     (ts = [] \<and> wire = noWire \<and> (\<exists>k e. err = Some (PatroniError k method endpoint DeliveryNotSent 0 e)))
     \<or> (\<exists>q b e. ts = [(q, b, Inl e)] \<and> request_for method baseURL endpoint [] body q \<and> wire = noWire
          \<and> err = Some (PatroniError PatTransport method endpoint (if b then DeliveryMaybeSent else DeliveryNotSent) 0 (Some e)))
     \<or> (\<exists>q b a. ts = [(q, b, Inr a)] \<and> request_for method baseURL endpoint [] body q
          \<and> (wire, err) = readAnswer maximum method endpoint a))"

lemma authorize_keeps:
  assumes "header_only (clAuthorizer cl)" "authorize cl (newRequest cl method url body) w = (Inr q, w')"
  shows "hrMethod q = method \<and> hrURL q = url \<and> hrBody q = body"
proof (cases "clAuthorizer cl")
  case None
  with assms(2) show ?thesis by (auto simp: authorize_def newRequest_def)
next
  case (Some g)
  with assms(2) have "g (newRequest cl method url body) w = (Inr q, w')" by (simp add: authorize_def)
  with assms(1) Some have "hrMethod q = hrMethod (newRequest cl method url body) \<and> hrURL q = hrURL (newRequest cl method url body)
      \<and> hrBody q = hrBody (newRequest cl method url body)"
    unfolding header_only_def by blast
  then show ?thesis by (simp add: newRequest_def)
qed

text \<open>An exchange fails before anything is sent, or it is what \<open>clientDo\<close> does with the request asked for.\<close>

lemma exchange_cases:
  assumes "header_only (clAuthorizer cl)" "execute (Some cl) ctx method baseURL endpoint query body w = (x, w')"
  obtains (unsent) k e where "x = ((noWire, Some (PatroniError k method endpoint DeliveryNotSent 0 e)), [])"
  | (sent) q w1 r ts w2 where "request_for method baseURL endpoint query body q"
      "clientDo (hcHops (clHTTP cl)) (clHTTP cl) [] q w1 = ((r, ts), w2)"
      "x = (case r of
          Inl e \<Rightarrow> ((noWire, Some (PatroniError PatTransport method endpoint
                     (if list_ex (fst \<circ> snd) ts then DeliveryMaybeSent else DeliveryNotSent) 0 (Some e))), ts)
        | Inr a \<Rightarrow> (readAnswer (clMaxResponseBytes cl) method endpoint a, ts))"
proof (cases "ctx \<and> (\<exists>url q w1. joinEndpoint baseURL endpoint query = Inr url \<and> urlParse url \<noteq> None
    \<and> authorize cl (newRequest cl method url body) w = (Inr q, w1))")
  case False
  with assms(2) show ?thesis
    by (auto simp: execute_def Let_def intro: unsent split: if_splits sum.splits prod.splits)
next
  case True
  then obtain url q w1 where url: "joinEndpoint baseURL endpoint query = Inr url" "urlParse url \<noteq> None"
    and q: "authorize cl (newRequest cl method url body) w = (Inr q, w1)" and ctx by blast
  obtain r ts w2 where d: "clientDo (hcHops (clHTTP cl)) (clHTTP cl) [] q w1 = ((r, ts), w2)" by (metis prod.collapse)
  have req: "request_for method baseURL endpoint query body q"
    using authorize_keeps [OF assms(1) q] url by (simp add: request_for_def)
  have "x = (case r of
      Inl e \<Rightarrow> ((noWire, Some (PatroniError PatTransport method endpoint
                 (if list_ex (fst \<circ> snd) ts then DeliveryMaybeSent else DeliveryNotSent) 0 (Some e))), ts)
    | Inr a \<Rightarrow> (readAnswer (clMaxResponseBytes cl) method endpoint a, ts))"
    using assms(2) \<open>ctx\<close> url q d by (auto simp: execute_def Let_def split: sum.splits)
  with req d show ?thesis by (rule sent)
qed

lemma execute_write:
  assumes "made_by original cl" "\<not> readMethod method"
    and "execute (Some cl) ctx method baseURL endpoint [] body w = (x, w')"
  shows "write_exchange method baseURL endpoint body (clMaxResponseBytes cl) x"
proof (cases rule: exchange_cases [OF _ assms(3)])
  case (3 q w1 r ts w2)
  have "(ts = [] \<and> (\<exists>e. r = Inl e)) \<or> (\<exists>b. ts = [(q, b, r)])"
    by (rule clientDo_write [OF _ _ 3(2)]) (use assms(1,2) 3(1) in \<open>auto simp: made_by_def request_for_def\<close>)
  then show ?thesis
  proof (elim disjE conjE exE)
    fix b assume "ts = [(q, b, r)]"
    then show ?thesis using 3(1,3) by (cases r; cases b) (simp_all add: write_exchange_def split_beta, blast+)
  qed (simp add: 3(3) write_exchange_def)
qed (use assms(1) in \<open>simp_all add: made_by_def write_exchange_def\<close>)


section \<open>Answers of writes\<close>

text \<open>Base, method, endpoint and body of a call.\<close>

fun restParts :: "rest_call \<Rightarrow> string \<times> string \<times> string \<times> string option" where
  "restParts (PostFailover url p) = (url, ''POST'', ''/failover'', Some (Marshal (failoverRequest p)))"
| "restParts (PostSwitchover url p) = (url, ''POST'', ''/switchover'', Some (Marshal (failoverRequest p)))"
| "restParts (PostReload url) = (url, ''POST'', ''/reload'', None)"
| "restParts (PostRestart url p) = (url, ''POST'', ''/restart'', Some (Marshal (restartRequest p)))"
| "restParts (DeleteRestart url) = (url, ''DELETE'', ''/restart'', None)"
| "restParts (DeleteSwitchover url) = (url, ''DELETE'', ''/switchover'', None)"
| "restParts (PostReinitialize url force fromLeader) =
     (url, ''POST'', ''/reinitialize'', Some (Marshal (reinitializeRequest force fromLeader)))"
| "restParts (PatchConfig url cfg) = (url, ''PATCH'', ''/config'', Some (Marshal (configPayload cfg)))"
| "restParts (GetPatroni url) = (url, ''GET'', ''/patroni'', None)"

text \<open>What the response and the error of a write tell about its round trips.\<close>

definition write_answer :: "rest_call \<Rightarrow> (rest_response \<times> goerror option) \<times> trips \<Rightarrow> bool" where
  "write_answer c x = (case x of ((r, err), ts) \<Rightarrow> (case restParts c of (url, method, endpoint, body) \<Rightarrow>
     (ts = [] \<and> respStatus r = 0 \<and> (\<exists>k e. err = Some (PatroniError k method endpoint DeliveryNotSent 0 e)))
     \<or> (\<exists>q b e. ts = [(q, b, Inl e)] \<and> request_for method url endpoint [] body q \<and> respStatus r = 0
          \<and> err = Some (PatroniError PatTransport method endpoint (if b then DeliveryMaybeSent else DeliveryNotSent) 0 (Some e)))
     \<or> (\<exists>q b a. ts = [(q, b, Inr a)] \<and> request_for method url endpoint [] body q \<and> respStatus r = haStatus a
          \<and> (err = None \<or> (\<exists>k e. err = Some (PatroniError k method endpoint DeliveryResponseReceived (haStatus a) e))))))"

text \<open>A view of an exchange that keeps status and error, or reports what is wrong with the body.\<close>

definition status_view :: "string \<Rightarrow> string \<Rightarrow> (wire_response \<Rightarrow> goerror option \<Rightarrow> rest_response \<times> goerror option) \<Rightarrow> bool" where
  "status_view method endpoint f = (\<forall>wire err. respStatus (fst (f wire err)) = wrStatus wire
     \<and> (snd (f wire err) = err \<or> (err = None
          \<and> (\<exists>k e. snd (f wire err) = Some (PatroniError k method endpoint DeliveryResponseReceived (wrStatus wire) e)))))"

lemma write_exchange_answer:
  assumes "write_exchange method url endpoint body maximum ((wire, err), ts)" "0 < maximum"
    and "restParts c = (url, method, endpoint, body)" "status_view method endpoint f"
  shows "write_answer c (f wire err, ts)"
proof -
  obtain r err' where f: "f wire err = (r, err')" by (cases "f wire err")
  with assms(4) have "respStatus (fst (f wire err)) = wrStatus wire \<and> (snd (f wire err) = err \<or> (err = None
      \<and> (\<exists>k e. snd (f wire err) = Some (PatroniError k method endpoint DeliveryResponseReceived (wrStatus wire) e))))"
    unfolding status_view_def by blast
  then have r: "respStatus r = wrStatus wire" and e: "err' = err \<or> (err = None
      \<and> (\<exists>k e. err' = Some (PatroniError k method endpoint DeliveryResponseReceived (wrStatus wire) e)))"
    by (simp_all add: f)
  from assms(1) consider
      k e where "ts = []" "wire = noWire" "err = Some (PatroniError k method endpoint DeliveryNotSent 0 e)"
    | q b e where "ts = [(q, b, Inl e)]" "request_for method url endpoint [] body q" "wire = noWire"
        "err = Some (PatroniError PatTransport method endpoint (if b then DeliveryMaybeSent else DeliveryNotSent) 0 (Some e))"
    | q b a where "ts = [(q, b, Inr a)]" "request_for method url endpoint [] body q"
        "readAnswer maximum method endpoint a = (wire, err)"
    unfolding write_exchange_def prod.case by metis
  then have "write_answer c ((r, err'), ts)"
  proof cases
    case 1
    with r e show ?thesis by (simp add: write_answer_def assms(3) noWire_def)
  next
    case 2
    with r e show ?thesis by (simp add: write_answer_def assms(3) noWire_def)
  next
    case 3
    from readAnswer_kept [OF 3(3) assms(2)] have "wrStatus wire = haStatus a"
      "err = None \<or> (\<exists>k e. err = Some (PatroniError k method endpoint DeliveryResponseReceived (haStatus a) e))" by blast+
    with 3(1,2) r e show ?thesis by (auto simp: write_answer_def assms(3))
  qed
  then show ?thesis by (simp add: f)
qed

text \<open>The views of the endpoints.\<close>

lemma status_view_text: "status_view method endpoint (\<lambda>wire err. (textView (textResponse wire), err))"
  by (simp add: status_view_def textView_def textResponse_def rawResponse_def)

lemma jsonResponse_status:
  "jsonResponse fit wire method endpoint decode = (r, err) \<Longrightarrow> rpStatus r = wrStatus wire
    \<and> (err = None \<or> (\<exists>k e. err = Some (PatroniError k method endpoint DeliveryResponseReceived (wrStatus wire) e)))"
  by (auto simp: jsonResponse_def rawResponse_def Let_def split: if_splits option.splits)

lemma status_view_json:
  "status_view method endpoint (\<lambda>wire err. case (case err of
       Some e \<Rightarrow> (rawResponse JNull wire, Some e)
     | None \<Rightarrow> jsonResponse fit wire method endpoint (g wire)) of (r, err) \<Rightarrow> (plainView r, err))"
  unfolding status_view_def
  by (auto simp: plainView_def rawResponse_def dest: jsonResponse_status split: option.splits prod.splits)

text \<open>Every write of the interface is such an exchange.\<close>

lemma exchanged_answer:
  assumes "made_by original cl" "\<not> readMethod method" "restParts c = (url, method, endpoint, body)"
    and "status_view method endpoint (\<lambda>wire err. case f wire err of (r, err) \<Rightarrow> (g r, err))"
    and "viewed g (exchanged (execute (Some cl) True method url endpoint [] body w) f) = (x, w')"
  shows "write_answer c x"
proof -
  obtain wire err ts w1 where e: "execute (Some cl) True method url endpoint [] body w = (((wire, err), ts), w1)"
    by (metis prod.collapse)
  from assms(5) have x: "x = ((case f wire err of (r, err) \<Rightarrow> (g r, err)), ts)"
    by (simp add: e viewed_def exchanged_def split: prod.splits)
  from execute_write [OF assms(1,2) e] have "write_exchange method url endpoint body (clMaxResponseBytes cl) ((wire, err), ts)" .
  from write_exchange_answer [OF this _ assms(3,4)] assms(1) show ?thesis by (simp add: x made_by_def)
qed

lemma sendForText_answer:
  assumes "made_by original cl" "\<not> readMethod method" "restParts c = (url, method, endpoint, body)"
    and "viewed textView (sendForText (Some cl) True method url endpoint body w) = (x, w')"
  shows "write_answer c x"
  using exchanged_answer [OF assms(1-3), where g = textView and f = "\<lambda>wire err. (textResponse wire, err)"] status_view_text assms(4)
  by (simp add: sendForText_def)

lemma sendJSONForJSON_answer:
  assumes "made_by original cl" "\<not> readMethod method" "restParts c = (url, method, endpoint, Some (Marshal v))"
    and "viewed plainView (sendJSONForJSON fit (Some cl) True method url endpoint v b w) = (x, w')"
  shows "write_answer c x"
  using exchanged_answer [OF assms(1-3) status_view_json] assms(4) by (simp add: sendJSONForJSON_def)

lemma restExchange_answer:
  assumes "made_by original cl" "rest_write c" "restExchange cl c w = (x, w')"
  shows "write_answer c x"
proof -
  note unfolds = restPostFailover_def restPostSwitchover_def restPostReload_def restPostRestart_def restDeleteRestart_def
    restDeleteSwitchover_def restPostReinitialize_def restPatchConfig_def sendJSONForText_def
  from assms(2,3) show ?thesis
    by (cases c; simp add: unfolds)
       ((erule sendForText_answer [OF assms(1), rotated 2] | erule sendJSONForJSON_answer [OF assms(1), rotated 2]);
         (simp add: readMethod_def)?)+
qed


section \<open>Properties\<close>

text \<open>C15: Answers about delivery are honest. A client made by \<open>NewClient\<close> whose authorizer only adds to the header makes at
  most one round trip for a write, with the method, the URL, and the body of that write; a redirect is never followed. The control
  operations take the answer as proof that nothing happened unaccounted for exactly if no round trip was made, or it failed before
  the request was written, or it brought an answer with a status; and a status in the response is the status of that answer.\<close>

theorem rest_answers_honest:
  assumes "NewClient d options = Inr cl" "header_only (coAuthorizer options)"
    and "rest_write c" "restExchange cl c w = (((r, err), ts), w')"
  shows "length ts \<le> 1
    \<and> (\<forall>(q, t) \<in> set ts. case restParts c of (url, method, endpoint, body) \<Rightarrow> request_for method url endpoint [] body q)
    \<and> (definite (EvRest c r err) \<longleftrightarrow>
        (\<forall>(q, wrote, a) \<in> set ts. case a of Inl _ \<Rightarrow> \<not> wrote | Inr ans \<Rightarrow> haStatus ans \<noteq> 0))
    \<and> (respStatus r \<noteq> 0 \<longrightarrow> (\<exists>q b a. ts = [(q, b, Inr a)] \<and> haStatus a = respStatus r))"
proof -
  note made = NewClient_made [OF assms(1,2)]
  obtain url meth endpoint body where c: "restParts c = (url, meth, endpoint, body)" by (metis prod.collapse)
  have sends: "patroniSendState (Some (PatroniError k m ep dl st e)) 0 =
      (case dl of DeliveryNotSent \<Rightarrow> SendNotSent | DeliveryResponseReceived \<Rightarrow> SendAccepted | _ \<Rightarrow> SendMaybeSent)"
    "patroniSendState None 0 = SendMaybeSent" for k m ep dl st e
    by (auto simp: patroniSendState_def asPatroniError_def errors_chain_def split: delivery.splits)
  from restExchange_answer [OF made assms(3,4)] show ?thesis
    unfolding write_answer_def c prod.case using assms(3) by (auto simp: sends)
qed

text \<open>C21: Requests and responses are bounded. Whatever is configured, the limits of a new client are positive, and no more of a
  body than the limit is kept; a body is never cut silently: without an error the text is the whole body of the last answer. A write
  makes at most one round trip; any request makes at most ten, unless a given HTTP client has a redirect policy of its own, and
  never more than the timeout admits.\<close>

theorem rest_bounded:
  assumes "NewClient d options = Inr cl" "header_only (coAuthorizer options)"
    and "execute (Some cl) ctx method baseURL endpoint query body w = (((wire, err), ts), w')"
  shows "0 < clMaxResponseBytes cl \<and> 0 < clTimeout cl \<and> int (length (wrRaw wire)) \<le> clMaxResponseBytes cl
    \<and> (err = None \<longrightarrow> (\<exists>q b a. ts \<noteq> [] \<and> last ts = (q, b, Inr a) \<and> wrStatus wire = haStatus a \<and> wrRaw wire = haBody a))
    \<and> (\<not> readMethod method \<longrightarrow> length ts \<le> 1)
    \<and> (hcCheckRedirect (case coHTTPClient options of None \<Rightarrow> d | Some c \<Rightarrow> c) = None \<longrightarrow> length ts \<le> 10)
    \<and> length ts \<le> hcHops (clHTTP cl)"
proof -
  note made = NewClient_made [OF assms(1,2)]
  then have pos: "0 < clMaxResponseBytes cl" "0 < clTimeout cl" and hd: "header_only (clAuthorizer cl)"
    and pol: "hcCheckRedirect (clHTTP cl) = Some (clientRedirect (hcCheckRedirect (case coHTTPClient options of None \<Rightarrow> d | Some c \<Rightarrow> c)))"
    by (simp_all add: made_by_def)
  show ?thesis
  proof (cases rule: exchange_cases [OF hd assms(3)])
    case (1 k e)
    with pos show ?thesis by (simp add: noWire_def)
  next
    case (2 q w1 r ts' w2)
    then have ts: "ts' = ts" by (auto split: sum.splits)
    note run = 2(2) [unfolded ts]
    have hops: "length ts \<le> hcHops (clHTTP cl)" and lst: "\<And>a. r = Inr a \<Longrightarrow> \<exists>q b. ts \<noteq> [] \<and> last ts = (q, b, Inr a)"
      using clientDo_answer [OF run] by blast+
    have once: "length ts \<le> 1" if "\<not> readMethod method"
      using clientDo_write [OF pol _ run] that 2(1) by (auto simp: request_for_def)
    have ten: "length ts \<le> 10" if "hcCheckRedirect (case coHTTPClient options of None \<Rightarrow> d | Some c \<Rightarrow> c) = None"
      using clientDo_ten [OF pol [unfolded that], of "[]", OF _ run] by simp
    show ?thesis
    proof (cases r)
      case (Inl e)
      with 2(3) pos hops once ten show ?thesis by (simp add: noWire_def)
    next
      case (Inr a)
      with 2(3) have "readAnswer (clMaxResponseBytes cl) method endpoint a = (wire, err)" by simp
      from readAnswer_kept [OF this pos(1)] pos hops once ten lst [OF Inr] show ?thesis by auto
    qed
  qed
qed


text \<open>A client whose transport writes the request and then loses the connection.\<close>

definition lost_trip :: "http_request \<Rightarrow> unit \<Rightarrow> trip \<times> unit" where
  "lost_trip q w = ((True, Inl ContextDeadlineExceeded), w)"

definition example_http :: "unit http_client" where
  "example_http = \<lparr>hcTransport = lost_trip, hcCheckRedirect = None, hcHops = 3\<rparr>"

definition example_options :: "unit client_options" where
  "example_options = \<lparr>coHTTPClient = None, coTransport = None, coAuthorizer = Some (BasicAuth ''u'' ''p''), coTimeout = 0,
     coMaxResponseBytes = 0, coUserAgent = []\<rparr>"

definition example_rest :: "unit rest_client" where
  "example_rest = (case NewClient example_http example_options of Inr cl \<Rightarrow> cl | Inl _ \<Rightarrow> undefined)"

lemma example_rest_new: "NewClient example_http example_options = Inr example_rest"
  by (simp add: example_rest_def NewClient_def example_options_def Let_def)

lemma example_rest_header: "header_only (coAuthorizer example_options)"
  by (simp add: example_options_def)

text \<open>Such a write is not settled.\<close>

theorem rest_answers_honest_witness:
  "case restExchange example_rest (PostReload ''http://pg-1:8008'') () of (((r, err), ts), w') \<Rightarrow>
     length ts = 1 \<and> \<not> definite (EvRest (PostReload ''http://pg-1:8008'') r err)"
proof -
  obtain r err ts w' where x: "restExchange example_rest (PostReload ''http://pg-1:8008'') () = (((r, err), ts), w')"
    by (metis prod.collapse)
  have "(case restExchange example_rest (PostReload ''http://pg-1:8008'') () of ((_, ts), _) \<Rightarrow>
      length ts = 1 \<and> list_all (\<lambda>(q, wrote, a). wrote \<and> isl a) ts)" by code_simp
  then have ts: "length ts = 1" "list_all (\<lambda>(q, wrote, a). wrote \<and> isl a) ts" unfolding x by auto
  then obtain q e where "ts = [(q, True, Inl e)]" by (cases ts) (auto simp: isl_def)
  with rest_answers_honest [OF example_rest_new example_rest_header _ x]
  have "\<not> definite (EvRest (PostReload ''http://pg-1:8008'') r err)" by simp
  with ts(1) show ?thesis unfolding x by simp
qed

theorem rest_bounded_witness:
  "(case execute (Some example_rest) True ''POST'' ''http://pg-1:8008'' ''/reload'' [] None () of (((wire, err), ts), w') \<Rightarrow>
     int (length (wrRaw wire)) \<le> clMaxResponseBytes example_rest \<and> length ts \<le> 1)"
proof -
  obtain wire err ts w' where x: "execute (Some example_rest) True ''POST'' ''http://pg-1:8008'' ''/reload'' [] None ()
      = (((wire, err), ts), w')"
    by (metis prod.collapse)
  have "\<not> readMethod ''POST''" by (simp add: readMethod_def)
  with rest_bounded [OF example_rest_new example_rest_header x] show ?thesis by (simp add: x)
qed

end
