(* ===== verification/Etcd_Store.thy ===== *)
theory Etcd_Store
  imports Dcs_Decode Cluster_View
begin

text \<open>
  The etcd driver: \<^verbatim>\<open>src/dcs/etcd3/store.go\<close>, \<^verbatim>\<open>txn.go\<close> and \<^verbatim>\<open>entry.go\<close>.

  The etcd client library is a parameter: it takes a request and answers with an error or a response, and it classifies its errors.
  Beside its result, every operation gives the requests it made with their answers. A context is a function on the outside world, as
  in the control operations; deadlines act inside the client.
\<close>

section \<open>The client library\<close>

record etcd_kv =
  kvKey :: string
  kvCreateRevision :: int
  kvModRevision :: int
  kvVersion :: int
  kvLease :: int
  kvValue :: string

text \<open>Operations on a key or on all keys with a prefix; a get may be limited, a put gives the previous value, a delete does so on
  demand.\<close>

datatype etcd_op =
    OpGet string bool "int option"
  | OpPut string string
  | OpDelete string bool bool

text \<open>A request: an operation, or the transaction that runs the first operation if the modification revision of a key is the given
  number and the second one otherwise.\<close>

datatype etcd_request =
    Single etcd_op
  | IfModRevision string int etcd_op etcd_op

datatype etcd_answer =
    RangeAnswer "etcd_kv list" bool
  | PutAnswer "etcd_kv option"
  | DeleteAnswer int "etcd_kv list"

record etcd_response =
  erRevision :: int
  erSucceeded :: bool
  erAnswers :: "etcd_answer list"

record 'w etcd =
  etCall :: "etcd_request \<Rightarrow> 'w \<Rightarrow> (goerror + etcd_response) \<times> 'w"
  etAuthError :: "goerror \<Rightarrow> bool"
  etErrorCode :: "goerror \<Rightarrow> nat option"
  etStatusCode :: "goerror \<Rightarrow> nat"

type_synonym etcd_calls = "(etcd_request \<times> (goerror + etcd_response)) list"


section \<open>The store\<close>

record 'w etcd_store =
  stClient :: "'w etcd option"
  stRequestTimeout :: int
  stMaxDiscoveryKeys :: int

record store_options =
  soEndpoints :: "string list"
  soDialTimeout :: int
  soRequestTimeout :: int
  soMaxDiscoveryKeys :: int

text \<open>5 and 10 seconds in nanoseconds.\<close>

definition defaultDialTimeout :: int where "defaultDialTimeout = 5000000000"
definition defaultRequestTimeout :: int where "defaultRequestTimeout = 10000000000"
definition defaultMaxDiscoveryKeys :: int where "defaultMaxDiscoveryKeys = 100000"

definition dcsNewError :: "dcs_kind \<Rightarrow> string \<Rightarrow> string \<Rightarrow> goerror \<Rightarrow> goerror" where
  "dcsNewError kind operation key cause = DCSError kind operation key DeliveryUnknown (Some cause)"

definition dcsNewWriteError :: "dcs_kind \<Rightarrow> string \<Rightarrow> string \<Rightarrow> delivery \<Rightarrow> goerror \<Rightarrow> goerror" where
  "dcsNewWriteError kind operation key delivery cause = DCSError kind operation key delivery (Some cause)"

text \<open>The two codes are \<open>codes.Unauthenticated\<close> and \<open>codes.PermissionDenied\<close>.\<close>

definition contextErrorKind :: "'w etcd \<Rightarrow> goerror \<Rightarrow> dcs_kind" where
  "contextErrorKind et err =
     (if isError (Some err) ContextCanceled then DcsCanceled
      else if isError (Some err) ContextDeadlineExceeded then DcsDeadline
      else if etAuthError et err then DcsAuthentication
      else if etErrorCode et err \<in> {Some 16, Some 7} then DcsAuthentication
      else if etStatusCode et err \<in> {16, 7} then DcsAuthentication
      else DcsTransport)"

definition validateEndpoint :: "string \<Rightarrow> plain_error option" where
  "validateEndpoint endpoint =
     (if CHR ''@'' \<in> set endpoint then Some (ErrNew ''endpoint userinfo is not accepted'')
      else if Contains endpoint ''://''
        \<and> (case urlParse endpoint of
             None \<Rightarrow> True
           | Some parsed \<Rightarrow> uHost parsed = [] \<or> uUser parsed \<noteq> None \<or> uScheme parsed \<noteq> ''http'' \<and> uScheme parsed \<noteq> ''https'')
      then Some (ErrNew ''endpoint must be an http(s) URL without userinfo'')
      else None)"

definition NewFromClient :: "'w etcd option \<Rightarrow> store_options \<Rightarrow> 'w etcd_store" where
  "NewFromClient client options =
     \<lparr>stClient = client,
      stRequestTimeout = (if soRequestTimeout options \<le> 0 then defaultRequestTimeout else soRequestTimeout options),
      stMaxDiscoveryKeys = (if soMaxDiscoveryKeys options \<le> 0 then defaultMaxDiscoveryKeys else soMaxDiscoveryKeys options)\<rparr>"

text \<open>\<open>New\<close>; the library connects, given the endpoints and the dial timeout, with \<open>connect\<close>.\<close>

definition NewStore ::
  "(string list \<Rightarrow> int \<Rightarrow> 'w \<Rightarrow> (dcs_kind \<times> goerror + 'w etcd) \<times> 'w) \<Rightarrow> 'w goctx \<Rightarrow> store_options \<Rightarrow> 'w
   \<Rightarrow> (goerror + 'w etcd_store) \<times> 'w" where
  "NewStore connect ctx options w =
     (let refuse = (\<lambda>key e. Inl (dcsNewError DcsConfiguration ''connect'' key e)) in
      case ctx of
        None \<Rightarrow> (refuse [] (errorsNew ''context is nil''), w)
      | Some look \<Rightarrow>
         (case look w of
            (Some e, w) \<Rightarrow> (Inl e, w)
          | (None, w) \<Rightarrow>
             (if soEndpoints options = [] then (refuse ''endpoints'' (errorsNew ''no endpoints''), w)
              else (case List.map_filter validateEndpoint (soEndpoints options) of
                 e # _ \<Rightarrow> (refuse ''endpoints'' (Plain e), w)
               | [] \<Rightarrow>
                  (case connect (soEndpoints options)
                      (if soDialTimeout options \<le> 0 then defaultDialTimeout else soDialTimeout options) w of
                     (Inl (kind, e), w) \<Rightarrow> (Inl (dcsNewError kind ''connect'' [] e), w)
                   | (Inr client, w) \<Rightarrow> (Inr (NewFromClient (Some client) options), w))))))"

text \<open>\<open>operationContext\<close> gives the client to call.\<close>

definition operationContext ::
  "'w etcd_store option \<Rightarrow> 'w goctx \<Rightarrow> string \<Rightarrow> string \<Rightarrow> 'w \<Rightarrow> (goerror + 'w etcd) \<times> 'w" where
  "operationContext store ctx operation key w =
     (case Option.bind store stClient of
        None \<Rightarrow> (Inl (dcsNewError DcsConfiguration operation key (errorsNew ''store is nil'')), w)
      | Some et \<Rightarrow>
         (case ctx of
            None \<Rightarrow> (Inl (dcsNewError DcsConfiguration operation key (errorsNew ''context is nil'')), w)
          | Some look \<Rightarrow>
             (case look w of
                (Some e, w) \<Rightarrow> (Inl (dcsNewError (contextErrorKind et e) operation key e), w)
              | (None, w) \<Rightarrow> (Inr et, w))))"

definition readError :: "'w etcd \<Rightarrow> string \<Rightarrow> string \<Rightarrow> goerror \<Rightarrow> goerror" where
  "readError et operation key err = dcsNewError (contextErrorKind et err) operation key err"

definition writeNotSentError :: "string \<Rightarrow> string \<Rightarrow> goerror \<Rightarrow> goerror" where
  "writeNotSentError operation key err =
     dcsNewWriteError (case asDCSError (Some err) of Some (kind, _) \<Rightarrow> kind | None \<Rightarrow> DcsConfiguration) operation key DeliveryNotSent err"

definition writeMaybeSentError :: "'w etcd \<Rightarrow> string \<Rightarrow> string \<Rightarrow> goerror \<Rightarrow> goerror" where
  "writeMaybeSentError et operation key err = dcsNewWriteError (contextErrorKind et err) operation key DeliveryMaybeSent err"


section \<open>Entries\<close>

definition entryFromKV :: "string \<Rightarrow> etcd_kv \<Rightarrow> dcs_entry" where
  "entryFromKV pfx kv =
     (let relative = (if pfx = [] then [] else TrimPrefix (TrimPrefix (kvKey kv) (TrimRight pfx ''/'')) ''/'') in
      \<lparr>eKey = kvKey kv, eRelativePath = relative, eKind = ClassifyRelativePath relative,
       eCreateRevision = kvCreateRevision kv, eModRevision = kvModRevision kv, eVersion = kvVersion kv,
       eLease = kvLease kv, eValue = kvValue kv\<rparr>)"

definition entriesFromKVs :: "string \<Rightarrow> etcd_kv list \<Rightarrow> dcs_entry list" where
  "entriesFromKVs pfx kvs = SortEntries (map (entryFromKV pfx) kvs)"

definition clusterPrefixForKey :: "string \<Rightarrow> string" where
  "clusterPrefixForKey key =
     (if HasSuffix key ''/config'' then TrimSuffix key ''/config''
      else if HasSuffix key ''/failover'' then TrimSuffix key ''/failover''
      else [])"

text \<open>The key values and the \<open>More\<close> flag of a get, the previous value of a put, and what a delete removed.\<close>

definition rangeOf :: "etcd_response \<Rightarrow> etcd_kv list \<times> bool" where
  "rangeOf r = (case erAnswers r of RangeAnswer kvs m # _ \<Rightarrow> (kvs, m) | _ \<Rightarrow> ([], False))"

definition putPrevious :: "etcd_response \<Rightarrow> etcd_kv option" where
  "putPrevious r = (case erAnswers r of PutAnswer kv # _ \<Rightarrow> kv | _ \<Rightarrow> None)"

definition deletedOf :: "etcd_response \<Rightarrow> int \<times> etcd_kv list" where
  "deletedOf r = (case erAnswers r of DeleteAnswer n kvs # _ \<Rightarrow> (n, kvs) | _ \<Rightarrow> (0, []))"

definition firstOf :: "'a list \<Rightarrow> 'a option" where
  "firstOf xs = (case xs of [] \<Rightarrow> None | x # _ \<Rightarrow> Some x)"


section \<open>Reading\<close>

definition etcdSnapshot ::
  "'w etcd_store option \<Rightarrow> 'w goctx \<Rightarrow> target \<Rightarrow> 'w \<Rightarrow> ((goerror + snapshot) \<times> etcd_calls) \<times> 'w" where
  "etcdSnapshot store ctx t w =
     (case ClusterPrefix t of
        Inl e \<Rightarrow> ((Inl (dcsNewError DcsConfiguration ''snapshot'' [] e), []), w)
      | Inr pfx \<Rightarrow>
         (let keyPrefix = pfx @ ''/''; q = Single (OpGet keyPrefix True None) in
          case operationContext store ctx ''snapshot'' keyPrefix w of
            (Inl e, w) \<Rightarrow> ((Inl e, []), w)
          | (Inr et, w) \<Rightarrow>
             (case etCall et q w of
                (Inl e, w) \<Rightarrow> ((Inl (readError et ''snapshot'' keyPrefix e), [(q, Inl e)]), w)
              | (Inr r, w) \<Rightarrow>
                 ((Inr (BuildSnapshot t pfx (erRevision r) (entriesFromKVs pfx (fst (rangeOf r)))), [(q, Inr r)]), w))))"

definition etcdDiscover ::
  "'w etcd_store option \<Rightarrow> 'w goctx \<Rightarrow> string \<Rightarrow> string \<Rightarrow> 'w \<Rightarrow> ((goerror + discovered_cluster list) \<times> etcd_calls) \<times> 'w" where
  "etcdDiscover store ctx contextName namespace w =
     (let pfx = NamespacePrefix namespace;
          maximum = (case store of None \<Rightarrow> 0 | Some st \<Rightarrow> stMaxDiscoveryKeys st);
          q = Single (OpGet pfx True (Some (int64 (maximum + 1)))) in
      case operationContext store ctx ''discover'' pfx w of
        (Inl e, w) \<Rightarrow> ((Inl e, []), w)
      | (Inr et, w) \<Rightarrow>
         (case etCall et q w of
            (Inl e, w) \<Rightarrow> ((Inl (readError et ''discover'' pfx e), [(q, Inl e)]), w)
          | (Inr r, w) \<Rightarrow>
             (if snd (rangeOf r) \<or> int (length (fst (rangeOf r))) > maximum
              then ((Inl (dcsNewError DcsLimit ''discover'' pfx
                      (Plain (ErrFmt ''namespace contains more than %d keys'' [AInt maximum] []))), [(q, Inr r)]), w)
              else ((Inr (DiscoverFromEntries contextName namespace (erRevision r) (entriesFromKVs [] (fst (rangeOf r)))),
                     [(q, Inr r)]), w))))"


section \<open>Writing\<close>

definition noResult :: write_result where
  "noResult = \<lparr>wrApplied = False, wrRevision = 0, wrPrevious = None, wrCurrent = None\<rparr>"

text \<open>A write of one key: what a single request or a transaction on the expected revision returns. \<open>success\<close> and \<open>previous\<close> read
  the response of the write.\<close>

definition keyEntry :: "string \<Rightarrow> etcd_kv \<Rightarrow> dcs_entry" where
  "keyEntry key = entryFromKV (clusterPrefixForKey key)"

definition refusedResult :: "string \<Rightarrow> int \<Rightarrow> etcd_response \<Rightarrow> write_result \<times> goerror option" where
  "refusedResult key expected r =
     (let current = map_option (keyEntry key) (firstOf (fst (rangeOf r)));
          observed = (case current of None \<Rightarrow> 0 | Some e \<Rightarrow> eModRevision e) in
      (\<lparr>wrApplied = False, wrRevision = erRevision r, wrPrevious = None, wrCurrent = current\<rparr>,
       Some (ConflictError key expected observed)))"

definition put ::
  "'w etcd_store option \<Rightarrow> 'w goctx \<Rightarrow> string \<Rightarrow> string \<Rightarrow> string \<Rightarrow> int option \<Rightarrow> 'w
   \<Rightarrow> ((write_result \<times> goerror option) \<times> etcd_calls) \<times> 'w" where
  "put store ctx operation key text expected w =
     (case operationContext store ctx operation key w of
        (Inl e, w) \<Rightarrow> (((noResult, Some (writeNotSentError operation key e)), []), w)
      | (Inr et, w) \<Rightarrow>
         (case expected of
            None \<Rightarrow>
              (let q = Single (OpPut key text) in
               case etCall et q w of
                 (Inl e, w) \<Rightarrow> (((noResult, Some (writeMaybeSentError et operation key e)), [(q, Inl e)]), w)
               | (Inr r, w) \<Rightarrow>
                   (((\<lparr>wrApplied = True, wrRevision = erRevision r, wrPrevious = map_option (keyEntry key) (putPrevious r),
                       wrCurrent = None\<rparr>, None), [(q, Inr r)]), w))
          | Some rv \<Rightarrow>
              (let q = IfModRevision key rv (OpPut key text) (OpGet key False None) in
               case etCall et q w of
                 (Inl e, w) \<Rightarrow> (((noResult, Some (writeMaybeSentError et operation key e)), [(q, Inl e)]), w)
               | (Inr r, w) \<Rightarrow>
                   (if erSucceeded r
                    then (((\<lparr>wrApplied = True, wrRevision = erRevision r, wrPrevious = map_option (keyEntry key) (putPrevious r),
                            wrCurrent = None\<rparr>, None), [(q, Inr r)]), w)
                    else ((refusedResult key rv r, [(q, Inr r)]), w)))))"

definition CompareAndSwapConfig ::
  "'w etcd_store option \<Rightarrow> 'w goctx \<Rightarrow> target \<Rightarrow> string \<Rightarrow> int option \<Rightarrow> 'w
   \<Rightarrow> ((write_result \<times> goerror option) \<times> etcd_calls) \<times> 'w" where
  "CompareAndSwapConfig store ctx t text expected w =
     (case KeyPath t ''config'' of
        Inl e \<Rightarrow> (((noResult, Some (dcsNewWriteError DcsConfiguration ''config-cas'' [] DeliveryNotSent e)), []), w)
      | Inr key \<Rightarrow> put store ctx ''config-cas'' key text expected w)"

definition etcdWriteFailover ::
  "'w etcd_store option \<Rightarrow> 'w goctx \<Rightarrow> target \<Rightarrow> string \<Rightarrow> int option \<Rightarrow> 'w
   \<Rightarrow> ((write_result \<times> goerror option) \<times> etcd_calls) \<times> 'w" where
  "etcdWriteFailover store ctx t text expected w =
     (case KeyPath t ''failover'' of
        Inl e \<Rightarrow> (((noResult, Some (dcsNewWriteError DcsConfiguration ''failover-write'' [] DeliveryNotSent e)), []), w)
      | Inr key \<Rightarrow> put store ctx ''failover-write'' key text expected w)"

definition etcdDeleteFailover ::
  "'w etcd_store option \<Rightarrow> 'w goctx \<Rightarrow> target \<Rightarrow> int option \<Rightarrow> 'w
   \<Rightarrow> ((write_result \<times> goerror option) \<times> etcd_calls) \<times> 'w" where
  "etcdDeleteFailover store ctx t expected w =
     (case KeyPath t ''failover'' of
        Inl e \<Rightarrow> (((noResult, Some (dcsNewWriteError DcsConfiguration ''failover-delete'' [] DeliveryNotSent e)), []), w)
      | Inr key \<Rightarrow>
         (case operationContext store ctx ''failover-delete'' key w of
            (Inl e, w) \<Rightarrow> (((noResult, Some (writeNotSentError ''failover-delete'' key e)), []), w)
          | (Inr et, w) \<Rightarrow>
             (case expected of
                None \<Rightarrow>
                  (let q = Single (OpDelete key False True) in
                   case etCall et q w of
                     (Inl e, w) \<Rightarrow> (((noResult, Some (writeMaybeSentError et ''failover-delete'' key e)), [(q, Inl e)]), w)
                   | (Inr r, w) \<Rightarrow>
                       (((\<lparr>wrApplied = (fst (deletedOf r) > 0), wrRevision = erRevision r,
                           wrPrevious = map_option (keyEntry key) (firstOf (snd (deletedOf r))), wrCurrent = None\<rparr>, None),
                         [(q, Inr r)]), w))
              | Some rv \<Rightarrow>
                  (let q = IfModRevision key rv (OpDelete key False True) (OpGet key False None) in
                   case etCall et q w of
                     (Inl e, w) \<Rightarrow> (((noResult, Some (writeMaybeSentError et ''failover-delete'' key e)), [(q, Inl e)]), w)
                   | (Inr r, w) \<Rightarrow>
                       (if erSucceeded r
                        then (((\<lparr>wrApplied = True, wrRevision = erRevision r,
                                wrPrevious = map_option (keyEntry key) (firstOf (snd (deletedOf r))), wrCurrent = None\<rparr>, None),
                              [(q, Inr r)]), w)
                        else ((refusedResult key rv r, [(q, Inr r)]), w))))))"

definition etcdDeleteCluster ::
  "'w etcd_store option \<Rightarrow> 'w goctx \<Rightarrow> target \<Rightarrow> 'w \<Rightarrow> ((remove_result \<times> goerror option) \<times> etcd_calls) \<times> 'w" where
  "etcdDeleteCluster store ctx t w =
     (let none = \<lparr>rmDeleted = 0, rmRevision = 0\<rparr> in
      case ClusterPrefix t of
        Inl e \<Rightarrow> (((none, Some (dcsNewWriteError DcsConfiguration ''remove-cluster'' [] DeliveryNotSent e)), []), w)
      | Inr pfx \<Rightarrow>
         (let key = pfx @ ''/''; q = Single (OpDelete key True False) in
          case operationContext store ctx ''remove-cluster'' key w of
            (Inl e, w) \<Rightarrow> (((none, Some (writeNotSentError ''remove-cluster'' key e)), []), w)
          | (Inr et, w) \<Rightarrow>
             (case etCall et q w of
                (Inl e, w) \<Rightarrow> (((none, Some (writeMaybeSentError et ''remove-cluster'' key e)), [(q, Inl e)]), w)
              | (Inr r, w) \<Rightarrow>
                  (((\<lparr>rmDeleted = fst (deletedOf r), rmRevision = erRevision r\<rparr>, None), [(q, Inr r)]), w))))"


section \<open>The capabilities of a control service\<close>

definition forget :: "('a \<times> etcd_calls) \<times> 'w \<Rightarrow> 'a \<times> 'w" where
  "forget x = (case x of ((a, _), w) \<Rightarrow> (a, w))"

fun etcdFailoverCall ::
  "'w etcd_store option \<Rightarrow> 'w goctx \<Rightarrow> failover_call \<Rightarrow> 'w \<Rightarrow> ((write_result \<times> goerror option) \<times> etcd_calls) \<times> 'w" where
  "etcdFailoverCall store ctx (WriteFailover t text expected) w = etcdWriteFailover store ctx t text expected w"
| "etcdFailoverCall store ctx (DeleteFailover t expected) w = etcdDeleteFailover store ctx t expected w"

end
