(* ===== verification/Etcd_Spec.thy ===== *)
theory Etcd_Spec
  imports Etcd_Store Control_Base Dcs_Decode_Spec
begin

text \<open>
  What the etcd driver guarantees the control operations. First, without any assumption about etcd's answers: how a write is
  reported accounts for the one request that was made. Then, for a server that keeps keys with revisions as etcd documents it, and
  however other clients write in between: a compare-and-swap takes effect atomically, a removal takes exactly the keys of the
  cluster, and what is read is complete.
\<close>

section \<open>Reports of writes\<close>

text \<open>Errors of the client library and of contexts are not errors of this package.\<close>

definition foreign :: "goerror \<Rightarrow> bool" where
  "foreign e = (\<forall>x \<in> set (error_chain e). conflict_of x = None)"

definition foreign_errors :: "'w etcd_store option \<Rightarrow> 'w goctx \<Rightarrow> bool" where
  "foreign_errors store ctx =
     ((\<forall>et q w e w'. Option.bind store stClient = Some et \<and> etCall et q w = (Inl e, w') \<longrightarrow> foreign e)
      \<and> (\<forall>look w e w'. ctx = Some look \<and> look w = (Some e, w') \<longrightarrow> foreign e))"

lemma foreign_plain [simp]: "foreign (Plain e)" "foreign (Errorf f args [Plain e])"
  by (simp_all add: foreign_def)

lemma foreign_wrap [simp]: "foreign (dcsNewError k op key e) \<longleftrightarrow> foreign e" "foreign (dcsNewWriteError k op key dl e) \<longleftrightarrow> foreign e"
  by (simp_all add: foreign_def dcsNewError_def dcsNewWriteError_def)

lemma foreign_conflict: "foreign e \<Longrightarrow> asConflictError (Some e) = None"
proof -
  have "first_some f xs = None" if "\<forall>x \<in> set xs. f x = None" for f :: "goerror \<Rightarrow> 'b option" and xs
    using that by (induction xs) auto
  then show "foreign e \<Longrightarrow> asConflictError (Some e) = None"
    by (simp add: foreign_def asConflictError_def errors_chain_def)
qed

lemma operationContext_ok:
  assumes "foreign_errors store ctx" "operationContext store ctx operation key w = (Inl e, w')"
  shows "foreign e"
  using assms unfolding operationContext_def foreign_errors_def
  by (auto split: option.splits prod.splits) blast

lemma operationContext_client:
  "operationContext store ctx operation key w = (Inr et, w') \<Longrightarrow> Option.bind store stClient = Some et"
  by (auto simp: operationContext_def split: option.splits prod.splits)

text \<open>The world in which the request of an operation is sent: after the look at its context.\<close>

definition atCall :: "'w goctx \<Rightarrow> 'w \<Rightarrow> 'w" where
  "atCall ctx w = (case ctx of None \<Rightarrow> w | Some look \<Rightarrow> snd (look w))"

lemma operationContext_world: "operationContext store ctx operation key w = (Inr et, w') \<Longrightarrow> w' = atCall ctx w"
  by (auto simp: operationContext_def atCall_def split: option.splits prod.splits)

lemma KeyPath_foreign: "KeyPath t relative = Inl e \<Longrightarrow> foreign e" "ClusterPrefix t = Inl e \<Longrightarrow> foreign e"
  by (auto simp: KeyPath_def ClusterPrefix_def Let_def split: option.splits sum.splits if_splits)

text \<open>A request that etcd refused, and how an event accounts for the requests made.\<close>

fun refused :: "etcd_request \<times> (goerror + etcd_response) \<Rightarrow> bool" where
  "refused (IfModRevision key rv a b, Inr r) = (\<not> erSucceeded r)"
| "refused _ = False"

text \<open>The request of a write: a single one, or conditional on the expected revision of the key.\<close>

definition conditional :: "string \<Rightarrow> int option \<Rightarrow> etcd_op \<Rightarrow> etcd_request" where
  "conditional key expected op =
     (case expected of None \<Rightarrow> Single op | Some rv \<Rightarrow> IfModRevision key rv op (OpGet key False None))"

fun write_request :: "event \<Rightarrow> goerror + etcd_request" where
  "write_request (EvConfigCAS t text rv _ _) = map_sum id (\<lambda>key. conditional key rv (OpPut key text)) (KeyPath t ''config'')"
| "write_request (EvFailover (WriteFailover t text rv) _ _) =
     map_sum id (\<lambda>key. conditional key rv (OpPut key text)) (KeyPath t ''failover'')"
| "write_request (EvFailover (DeleteFailover t rv) _ _) =
     map_sum id (\<lambda>key. conditional key rv (OpDelete key False True)) (KeyPath t ''failover'')"
| "write_request (EvDeleteCluster t _ _) = map_sum id (\<lambda>pfx. Single (OpDelete (pfx @ ''/'') True False)) (ClusterPrefix t)"
| "write_request _ = Inl (errorsNew [])"

definition accounted :: "event \<Rightarrow> goerror option \<Rightarrow> etcd_calls \<Rightarrow> bool" where
  "accounted ev err xs =
     (length xs \<le> 1 \<and> (\<forall>(q, a) \<in> set xs. write_request ev = Inr q) \<and> (definite ev \<longleftrightarrow> list_all refused xs)
      \<and> (err = None \<longleftrightarrow> (\<exists>q r. xs = [(q, Inr r)] \<and> \<not> refused (q, Inr r))))"

text \<open>The three ways a write of a key ends.\<close>

definition key_write :: "etcd_op \<Rightarrow> string \<Rightarrow> int option \<Rightarrow> (write_result \<times> goerror option) \<times> etcd_calls \<Rightarrow> bool" where
  "key_write op key expected x = (case x of ((r, err), xs) \<Rightarrow>
     (let q = conditional key expected op in
      (xs = [] \<and> r = noResult \<and> (\<exists>k operation key' c. err = Some (DCSError k operation key' DeliveryNotSent (Some c)) \<and> foreign c))
      \<or> (\<exists>e k operation. xs = [(q, Inl e)] \<and> r = noResult
           \<and> err = Some (DCSError k operation key DeliveryMaybeSent (Some e)) \<and> foreign e)
      \<or> (\<exists>rsp. xs = [(q, Inr rsp)] \<and> wrRevision r = erRevision rsp
           \<and> (if expected = None \<or> erSucceeded rsp then err = None \<and> wrCurrent r = None
              else (r, err) = refusedResult key (the expected) rsp))))"

lemma put_key_write:
  assumes "foreign_errors store ctx" "put store ctx operation key text expected w = (x, w')"
  shows "key_write (OpPut key text) key expected x"
proof (cases "operationContext store ctx operation key w")
  case (Pair c w1)
  show ?thesis
  proof (cases c)
    case (Inl e)
    with assms(2) Pair operationContext_ok [OF assms(1)] show ?thesis
      by (auto simp: put_def key_write_def writeNotSentError_def dcsNewWriteError_def)
  next
    case (Inr et)
    have et: "Option.bind store stClient = Some et" by (rule operationContext_client [OF Pair [unfolded Inr]])
    have "foreign e" if "etCall et q v = (Inl e, v')" for q v e v' using assms(1) et that unfolding foreign_errors_def by blast
    with assms(2) Pair Inr show ?thesis
      by (auto simp: put_def key_write_def conditional_def writeMaybeSentError_def dcsNewWriteError_def refusedResult_def Let_def
          split: option.splits sum.splits prod.splits if_splits)
  qed
qed

lemma delete_key_write:
  assumes "foreign_errors store ctx" "KeyPath t ''failover'' = Inr key" "etcdDeleteFailover store ctx t expected w = (x, w')"
  shows "key_write (OpDelete key False True) key expected x"
proof (cases "operationContext store ctx ''failover-delete'' key w")
  case (Pair c w1)
  show ?thesis
  proof (cases c)
    case (Inl e)
    with assms(2,3) Pair operationContext_ok [OF assms(1)] show ?thesis
      by (auto simp: etcdDeleteFailover_def key_write_def writeNotSentError_def dcsNewWriteError_def)
  next
    case (Inr et)
    have et: "Option.bind store stClient = Some et" by (rule operationContext_client [OF Pair [unfolded Inr]])
    have "foreign e" if "etCall et q v = (Inl e, v')" for q v e v' using assms(1) et that unfolding foreign_errors_def by blast
    with assms(2,3) Pair Inr show ?thesis
      by (auto simp: etcdDeleteFailover_def key_write_def conditional_def writeMaybeSentError_def dcsNewWriteError_def refusedResult_def Let_def
          split: option.splits sum.splits prod.splits if_splits)
  qed
qed

lemma dcs_sends:
  "dcsSendState (Some (DCSError k op key dl c)) a =
     (case dl of DeliveryNotSent \<Rightarrow> SendNotSent | DeliveryMaybeSent \<Rightarrow> SendMaybeSent | DeliveryResponseReceived \<Rightarrow> SendAccepted
      | DeliveryUnknown \<Rightarrow> if asConflictError (Some (DCSError k op key dl c)) \<noteq> None then SendNotSent else SendMaybeSent)"
  "foreign c' \<Longrightarrow> asConflictError (Some (DCSError k op key dl (Some c'))) = None"
  "dcsSendState None a \<noteq> SendNotSent"
proof -
  show "dcsSendState (Some (DCSError k op key dl c)) a =
     (case dl of DeliveryNotSent \<Rightarrow> SendNotSent | DeliveryMaybeSent \<Rightarrow> SendMaybeSent | DeliveryResponseReceived \<Rightarrow> SendAccepted
      | DeliveryUnknown \<Rightarrow> if asConflictError (Some (DCSError k op key dl c)) \<noteq> None then SendNotSent else SendMaybeSent)"
    by (auto simp: dcsSendState_def asDCSError_def errors_chain_def split: delivery.splits)
  show "foreign c' \<Longrightarrow> asConflictError (Some (DCSError k op key dl (Some c'))) = None"
    using foreign_wrap(2) [of k op key dl c'] by (intro foreign_conflict) (simp add: dcsNewWriteError_def)
  show "dcsSendState None a \<noteq> SendNotSent"
    by (simp add: dcsSendState_def asDCSError_def asConflictError_def errors_chain_def)
qed

lemma key_write_accounted:
  assumes "key_write op key expected ((r, err), xs)"
    and "definite ev \<longleftrightarrow> asConflictError err \<noteq> None \<or> dcsSendState err (wrApplied r) = SendNotSent"
    and "write_request ev = Inr (conditional key expected op)"
  shows "accounted ev err xs"
proof -
  have none: "asConflictError None = None" by (simp add: asConflictError_def errors_chain_def)
  have conflict: "asConflictError (Some (ConflictError k e ob)) = Some (k, e, ob)" for k e ob
    by (simp add: asConflictError_def errors_chain_def)
  show ?thesis
    using assms(1) unfolding key_write_def accounted_def assms(2,3)
    by (cases expected) (auto simp: Let_def conditional_def dcs_sends none conflict refusedResult_def split: if_splits)
qed

lemma unsent: "dcsSendState (Some (dcsNewWriteError k op key DeliveryNotSent c)) a = SendNotSent"
  by (simp add: dcsNewWriteError_def dcs_sends)

text \<open>C16: Writes to etcd are accounted for. Whatever etcd answers, a write of the configuration, a write or deletion of the
  failover key and a removal make at most one request, the one for the key or the cluster of the target, conditional on the
  expected revision. The control operations take the report as proof that nothing was changed exactly if no request was made or
  etcd refused the transaction, and it carries no error exactly if etcd confirmed the write. Errors of etcd and of contexts are
  assumed to be none of this package's own.\<close>

theorem etcd_answers_honest:
  assumes "foreign_errors store ctx"
  shows "(case CompareAndSwapConfig store ctx t v rv w of
        (((r, err), xs), w') \<Rightarrow> accounted (EvConfigCAS t v rv r err) err xs)
    \<and> (case etcdFailoverCall store ctx c w of (((r, err), xs), w') \<Rightarrow> accounted (EvFailover c r err) err xs)
    \<and> (case etcdDeleteCluster store ctx t w of (((r, err), xs), w') \<Rightarrow> accounted (EvDeleteCluster t r err) err xs)"
proof (intro conjI)
  show "case CompareAndSwapConfig store ctx t v rv w of (((r, err), xs), w') \<Rightarrow> accounted (EvConfigCAS t v rv r err) err xs"
  proof (cases "KeyPath t ''config''")
    case (Inl e)
    then show ?thesis by (auto simp: CompareAndSwapConfig_def accounted_def unsent)
  next
    case (Inr key)
    obtain r err xs w' where x: "put store ctx ''config-cas'' key v rv w = (((r, err), xs), w')" by (metis prod.collapse)
    from key_write_accounted [OF put_key_write [OF assms x]] Inr show ?thesis
      by (simp add: CompareAndSwapConfig_def x)
  qed
  show "case etcdFailoverCall store ctx c w of (((r, err), xs), w') \<Rightarrow> accounted (EvFailover c r err) err xs"
  proof (cases c)
    case (WriteFailover u m n)
    show ?thesis
    proof (cases "KeyPath u ''failover''")
      case (Inl e)
      then show ?thesis by (auto simp: WriteFailover etcdWriteFailover_def accounted_def unsent)
    next
      case (Inr key)
      obtain r err xs w' where x: "put store ctx ''failover-write'' key m n w = (((r, err), xs), w')" by (metis prod.collapse)
      from key_write_accounted [OF put_key_write [OF assms x]] Inr show ?thesis
        by (simp add: WriteFailover etcdWriteFailover_def x)
    qed
  next
    case (DeleteFailover u n)
    show ?thesis
    proof (cases "KeyPath u ''failover''")
      case (Inl e)
      then show ?thesis by (auto simp: DeleteFailover etcdDeleteFailover_def accounted_def unsent)
    next
      case (Inr key)
      obtain r err xs w' where x: "etcdDeleteFailover store ctx u n w = (((r, err), xs), w')" by (metis prod.collapse)
      from key_write_accounted [OF delete_key_write [OF assms Inr x]] Inr show ?thesis
        by (simp add: DeleteFailover x)
    qed
  qed
  show "case etcdDeleteCluster store ctx t w of (((r, err), xs), w') \<Rightarrow> accounted (EvDeleteCluster t r err) err xs"
    by (auto simp: etcdDeleteCluster_def Let_def accounted_def writeNotSentError_def writeMaybeSentError_def dcsNewWriteError_def
        asDCSError_def errors_chain_def split: sum.splits prod.splits)
qed

end
