(* ===== verification/Etcd_Server.thy ===== *)
theory Etcd_Server
  imports Etcd_Spec
begin

text \<open>
  A server as etcd documents it: keys in order, each with the revisions of its creation and last change; every change has a new
  revision, and a transaction compares and acts at once. The theorems are about any client library that answers like this server.
  Other clients may act at any time: what the server holds when a request arrives is a function \<open>arrival\<close> of the world in which
  the request is sent, and need not be what it held after the request before; \<open>held\<close> is what it holds when the request has been
  served. A request that ends in an error was served or was not.
\<close>

section \<open>The reference server\<close>

record etcd_db =
  dbRevision :: int
  dbKeys :: "etcd_kv list"

definition db_ok :: "etcd_db \<Rightarrow> bool" where
  "db_ok d = (sorted (map kvKey (dbKeys d)) \<and> distinct (map kvKey (dbKeys d))
     \<and> (\<forall>kv \<in> set (dbKeys d). 0 < kvModRevision kv \<and> kvModRevision kv \<le> dbRevision d) \<and> 0 < dbRevision d)"

definition dbMap :: "etcd_db \<Rightarrow> string \<Rightarrow> etcd_kv option" where
  "dbMap d = map_of (map (\<lambda>kv. (kvKey kv, kv)) (dbKeys d))"

definition modRevision :: "etcd_db \<Rightarrow> string \<Rightarrow> int" where
  "modRevision d key = (case dbMap d key of None \<Rightarrow> 0 | Some kv \<Rightarrow> kvModRevision kv)"

text \<open>The value after a put at the next revision.\<close>

definition putKV :: "etcd_db \<Rightarrow> string \<Rightarrow> string \<Rightarrow> etcd_kv" where
  "putKV d key text =
     \<lparr>kvKey = key, kvCreateRevision = (case dbMap d key of None \<Rightarrow> dbRevision d + 1 | Some kv \<Rightarrow> kvCreateRevision kv),
      kvModRevision = dbRevision d + 1, kvVersion = (case dbMap d key of None \<Rightarrow> 1 | Some kv \<Rightarrow> kvVersion kv + 1),
      kvLease = 0, kvValue = text\<rparr>"

definition hits :: "string \<Rightarrow> bool \<Rightarrow> etcd_kv \<Rightarrow> bool" where
  "hits key pfx kv = (if pfx then HasPrefix (kvKey kv) key else kvKey kv = key)"

fun runOp :: "etcd_op \<Rightarrow> etcd_db \<Rightarrow> etcd_answer \<times> etcd_db" where
  "runOp (OpGet key pfx limit) d =
     (let found = filter (hits key pfx) (dbKeys d) in
      (case limit of
         None \<Rightarrow> RangeAnswer found False
       | Some n \<Rightarrow> if n \<le> 0 then RangeAnswer found False
           else RangeAnswer (take (nat n) found) (length found > nat n), d))"
| "runOp (OpPut key text) d =
     (PutAnswer (dbMap d key),
      \<lparr>dbRevision = dbRevision d + 1,
       dbKeys = insort_key kvKey (putKV d key text) (filter (\<lambda>kv. kvKey kv \<noteq> key) (dbKeys d))\<rparr>)"
| "runOp (OpDelete key pfx prev) d =
     (let gone = filter (hits key pfx) (dbKeys d) in
      (DeleteAnswer (int (length gone)) (if prev then gone else []),
       if gone = [] then d else \<lparr>dbRevision = dbRevision d + 1, dbKeys = filter (\<lambda>kv. \<not> hits key pfx kv) (dbKeys d)\<rparr>))"

definition served :: "bool \<Rightarrow> etcd_answer \<times> etcd_db \<Rightarrow> etcd_response \<times> etcd_db" where
  "served success x = (\<lparr>erRevision = dbRevision (snd x), erSucceeded = success, erAnswers = [fst x]\<rparr>, snd x)"

fun serve :: "etcd_request \<Rightarrow> etcd_db \<Rightarrow> etcd_response \<times> etcd_db" where
  "serve (Single op) d = served False (runOp op d)"
| "serve (IfModRevision key rv a b) d =
     (if modRevision d key = rv then served True (runOp a d) else served False (runOp b d))"

text \<open>A client library that answers like the server.\<close>

definition serves :: "'w etcd_store \<Rightarrow> ('w \<Rightarrow> etcd_db) \<Rightarrow> ('w \<Rightarrow> etcd_db) \<Rightarrow> bool" where
  "serves st arrival held = (\<forall>et q w. stClient st = Some et \<longrightarrow>
     (case etCall et q w of
        (Inr r, w') \<Rightarrow> db_ok (arrival w) \<and> serve q (arrival w) = (r, held w')
      | (Inl e, w') \<Rightarrow> held w' = arrival w \<or> held w' = snd (serve q (arrival w))))"

lemma serves_answer:
  assumes "serves st arrival held" "stClient st = Some et" "etCall et q w = (Inr r, w')"
  shows "db_ok (arrival w) \<and> serve q (arrival w) = (r, held w')"
  using assms(1) [unfolded serves_def, rule_format, OF assms(2), where q = q and w = w] assms(3) by simp

lemma serves_error:
  assumes "serves st arrival held" "stClient st = Some et" "etCall et q w = (Inl e, w')"
  shows "held w' = arrival w \<or> held w' = snd (serve q (arrival w))"
  using assms(1) [unfolded serves_def, rule_format, OF assms(2), where q = q and w = w] assms(3) by simp


section \<open>Lookups\<close>

lemma dbMap_insort:
  "dbMap \<lparr>dbRevision = n, dbKeys = insort_key kvKey kv (filter (\<lambda>x. kvKey x \<noteq> kvKey kv) xs)\<rparr>
     = (map_of (map (\<lambda>kv. (kvKey kv, kv)) xs))(kvKey kv \<mapsto> kv)"
proof -
  have "map_of (map (\<lambda>kv. (kvKey kv, kv)) (insort_key kvKey kv ys)) = (map_of (map (\<lambda>kv. (kvKey kv, kv)) ys))(kvKey kv \<mapsto> kv)"
    if "kvKey kv \<notin> kvKey ` set ys" for ys
    using that by (induction ys) (auto simp: fun_upd_twist)
  moreover have "map_of (map (\<lambda>kv. (kvKey kv, kv)) (filter (\<lambda>x. kvKey x \<noteq> k) xs)) = (map_of (map (\<lambda>kv. (kvKey kv, kv)) xs))(k := None)" for k
    by (induction xs) (auto simp: fun_upd_twist fun_eq_iff)
  moreover have "kvKey kv \<notin> kvKey ` set (filter (\<lambda>x. kvKey x \<noteq> kvKey kv) xs)" by auto
  ultimately show ?thesis by (simp only: dbMap_def etcd_db.simps fun_upd_upd not_False_eq_True)
qed

lemma dbMap_put: "dbMap (snd (runOp (OpPut key text) d)) = (dbMap d)(key \<mapsto> putKV d key text)"
  using dbMap_insort [of _ "putKV d key text" "dbKeys d"] by (simp add: putKV_def dbMap_def)

lemma dbMap_filter:
  assumes "\<And>kv. P kv = Q (kvKey kv)"
  shows "dbMap \<lparr>dbRevision = n, dbKeys = filter P xs\<rparr> = (\<lambda>k. if Q k then map_of (map (\<lambda>kv. (kvKey kv, kv)) xs) k else None)"
  unfolding dbMap_def by (induction xs) (auto simp: assms fun_eq_iff)

lemma dbMap_delete:
  "dbMap (snd (runOp (OpDelete key pfx prev) d)) = (\<lambda>k. if (if pfx then HasPrefix k key else k = key) then None else dbMap d k)"
proof (cases "filter (hits key pfx) (dbKeys d) = []")
  case True
  then have "dbMap d k = None" if "if pfx then HasPrefix k key else k = key" for k
    using that by (auto simp: dbMap_def map_of_eq_None_iff filter_empty_conv hits_def split: if_splits)
  with True show ?thesis by (auto simp: fun_eq_iff)
next
  case False
  then show ?thesis
    using dbMap_filter [of "\<lambda>kv. \<not> hits key pfx kv" "\<lambda>k. \<not> (if pfx then HasPrefix k key else k = key)"]
    by (simp add: hits_def Let_def dbMap_def fun_eq_iff)
qed

lemma get_one:
  assumes "db_ok d"
  shows "filter (hits key False) (dbKeys d) = (case dbMap d key of None \<Rightarrow> [] | Some kv \<Rightarrow> [kv])"
proof -
  have "filter (hits key False) xs = (case map_of (map (\<lambda>kv. (kvKey kv, kv)) xs) key of None \<Rightarrow> [] | Some kv \<Rightarrow> [kv])"
    if "distinct (map kvKey xs)" for xs
    using that by (induction xs) (force simp: hits_def dest: map_of_SomeD split: option.splits)+
  with assms show ?thesis by (simp add: dbMap_def db_ok_def)
qed


section \<open>The server keeps its order\<close>

lemma runOp_ok: "db_ok d \<Longrightarrow> db_ok (snd (runOp op d))"
proof (cases op)
  case (OpPut key v)
  assume d: "db_ok d"
  let ?rest = "filter (\<lambda>kv. kvKey kv \<noteq> key) (dbKeys d)"
  have "sorted (map kvKey ?rest)" "distinct (map kvKey ?rest)"
    using d by (auto simp: db_ok_def distinct_map_filter intro: sorted_filter)
  with d show ?thesis
    by (auto simp: OpPut db_ok_def sorted_insort_key distinct_insort_key set_insort_key putKV_def)
next
  case (OpDelete key pfx prev)
  assume "db_ok d"
  then show ?thesis
    by (auto simp: OpDelete db_ok_def Let_def distinct_map_filter intro!: sorted_filter; force)
qed (simp add: Let_def split: option.split)

lemma serve_ok: "db_ok d \<Longrightarrow> db_ok (snd (serve q d))"
  by (cases q) (auto simp: served_def intro: runOp_ok)


section \<open>Writes\<close>

text \<open>A compare-and-swap of a key, between what the server held when the request arrived and what it held when it was served.
  Without an error the key had the expected revision, and it and nothing else was changed; a conflict reports the revision and the
  value of the key, which is not the expected one, and nothing was changed; after any other error the swap was not sent, not
  done, or done as it should.\<close>

definition swapped :: "string \<Rightarrow> int \<Rightarrow> (etcd_db \<Rightarrow> etcd_kv option) \<Rightarrow> etcd_db \<Rightarrow> etcd_db \<Rightarrow> bool" where
  "swapped key rv new before after = (modRevision before key = rv \<and> dbMap after = (dbMap before)(key := new before))"

definition atomic_swap ::
  "string \<Rightarrow> int \<Rightarrow> (etcd_db \<Rightarrow> etcd_kv option) \<Rightarrow> write_result \<Rightarrow> goerror option \<Rightarrow> etcd_calls \<Rightarrow> etcd_db \<Rightarrow> etcd_db \<Rightarrow> bool" where
  "atomic_swap key rv new r err xs before after =
     (case err of
        None \<Rightarrow> swapped key rv new before after \<and> wrApplied r \<and> wrRevision r = dbRevision after
          \<and> map_option eValue (wrPrevious r) = map_option kvValue (dbMap before key)
      | Some (ConflictError k ex seen) \<Rightarrow> after = before \<and> k = key \<and> ex = rv
          \<and> seen = modRevision before key \<and> seen \<noteq> rv \<and> \<not> wrApplied r
          \<and> map_option eValue (wrCurrent r) = map_option kvValue (dbMap before key)
      | Some _ \<Rightarrow> xs = [] \<or> after = before \<or> swapped key rv new before after)"

lemma entry_sel [simp]:
  "eValue (entryFromKV pfx kv) = kvValue kv" "eKey (entryFromKV pfx kv) = kvKey kv" "eModRevision (entryFromKV pfx kv) = kvModRevision kv"
  by (simp_all add: entryFromKV_def Let_def)

lemma keyEntry_sel [simp]: "eValue (keyEntry key kv) = kvValue kv" "eModRevision (keyEntry key kv) = kvModRevision kv"
  by (simp_all add: keyEntry_def)

lemma map_option_sel: "map_option eValue (map_option (keyEntry key) x) = map_option kvValue x"
  by (cases x) simp_all

lemma refused_swap:
  assumes "db_ok d" "modRevision d key \<noteq> rv" "r = fst (served False (runOp (OpGet key False None) d))"
    and "(wr, err) = refusedResult key rv r"
  shows "atomic_swap key rv new wr err xs d d"
proof -
  have rg: "fst (rangeOf r) = (case dbMap d key of None \<Rightarrow> [] | Some kv \<Rightarrow> [kv])"
    using get_one [OF assms(1), of key] assms(3) by (simp add: served_def rangeOf_def)
  show ?thesis
    using assms(1,2,4) unfolding refusedResult_def rg atomic_swap_def
    by (cases "dbMap d key") (auto simp: firstOf_def modRevision_def Let_def)
qed

text \<open>The transaction, whatever became of it.\<close>

lemma serve_cases:
  assumes "serves st arrival held" "stClient st = Some et" "etCall et (IfModRevision key rv a b) w = (x, w')"
    and "\<And>d. snd (runOp b d) = d"
  obtains (unclear) e where "x = Inl e" "held w' = arrival w \<or> modRevision (arrival w) key = rv \<and> held w' = snd (runOp a (arrival w))"
  | (done') r where "x = Inr r" "db_ok (arrival w)" "modRevision (arrival w) key = rv" "erSucceeded r"
      "r = fst (served True (runOp a (arrival w)))" "held w' = snd (runOp a (arrival w))"
  | (refusal) r where "x = Inr r" "db_ok (arrival w)" "modRevision (arrival w) key \<noteq> rv" "\<not> erSucceeded r"
      "r = fst (served False (runOp b (arrival w)))" "held w' = arrival w"
proof (cases x)
  case (Inl e)
  with serves_error [OF assms(1,2)] assms(3) have "held w' = arrival w \<or> held w' = snd (serve (IfModRevision key rv a b) (arrival w))"
    by blast
  with assms(4) have "held w' = arrival w \<or> modRevision (arrival w) key = rv \<and> held w' = snd (runOp a (arrival w))"
    by (auto simp: served_def split: if_splits)
  with Inl unclear show ?thesis by blast
next
  case (Inr r)
  with serves_answer [OF assms(1,2)] assms(3) have "db_ok (arrival w)" "serve (IfModRevision key rv a b) (arrival w) = (r, held w')"
    by blast+
  note r = this
  show ?thesis
  proof (cases "modRevision (arrival w) key = rv")
    case True
    with r(2) show ?thesis by (intro done' [OF Inr r(1) True]) (auto simp: served_def)
  next
    case False
    with r(2) assms(4) [of "arrival w"] show ?thesis by (intro refusal [OF Inr r(1) False]) (auto simp: served_def)
  qed
qed

lemma get_keeps: "snd (runOp (OpGet key pfx limit) d) = d"
  by (simp add: Let_def)

lemma unsent_swap: "atomic_swap key rv new r (Some (DCSError k op ky dl c)) [] before after"
  by (simp add: atomic_swap_def)

lemma unclear_swap:
  "after = before \<or> swapped key rv new before after \<Longrightarrow> atomic_swap key rv new r (Some (DCSError k op ky dl c)) xs before after"
  by (auto simp: atomic_swap_def)

lemmas write_errors = writeNotSentError_def writeMaybeSentError_def dcsNewWriteError_def

lemma put_swap:
  assumes "serves st arrival held" "put (Some st) ctx operation key v (Some rv) w = (((r, err), xs), w')"
  shows "atomic_swap key rv (\<lambda>d. Some (putKV d key v)) r err xs (arrival (atCall ctx w)) (held w')"
proof (cases "operationContext (Some st) ctx operation key w")
  case (Pair c w1)
  show ?thesis
  proof (cases c)
    case (Inl e)
    with Pair assms(2) show ?thesis by (auto simp: put_def write_errors unsent_swap)
  next
    case (Inr et)
    note c = Pair [unfolded Inr]
    have et: "stClient st = Some et" using operationContext_client [OF c] by simp
    let ?q = "IfModRevision key rv (OpPut key v) (OpGet key False None)"
    obtain x w2 where q: "etCall et ?q (atCall ctx w) = (x, w2)" by (cases "etCall et ?q (atCall ctx w)")
    have w2: "w' = w2" using assms(2) c q by (auto simp: put_def operationContext_world [OF c] Let_def split: sum.splits if_splits)
    have map: "dbMap (snd (runOp (OpPut key v) d)) = (dbMap d)(key := Some (putKV d key v))" for d by (rule dbMap_put)
    show ?thesis
    proof (cases rule: serve_cases [OF assms(1) et q get_keeps])
      case (1 e)
      with assms(2) c q show ?thesis unfolding operationContext_world [OF c]
        by (auto simp: put_def w2 write_errors swapped_def map simp del: runOp.simps intro!: unclear_swap)
    next
      case (2 rsp)
      with assms(2) c q show ?thesis unfolding operationContext_world [OF c]
        by (auto simp: put_def w2 atomic_swap_def swapped_def map [simplified] putPrevious_def served_def map_option_sel)
    next
      case (3 rsp)
      with assms(2) c q have "(r, err) = refusedResult key rv (fst (served False (runOp (OpGet key False None) (arrival (atCall ctx w)))))"
        unfolding operationContext_world [OF c] by (auto simp: put_def simp del: runOp.simps)
      then show ?thesis using refused_swap [OF 3(2,3) refl] 3(6) w2 by simp
    qed
  qed
qed

lemma delete_swap:
  assumes "serves st arrival held" "KeyPath t ''failover'' = Inr key"
    and "etcdDeleteFailover (Some st) ctx t (Some rv) w = (((r, err), xs), w')"
  shows "atomic_swap key rv (\<lambda>d. None) r err xs (arrival (atCall ctx w)) (held w')"
proof (cases "operationContext (Some st) ctx ''failover-delete'' key w")
  case (Pair c w1)
  show ?thesis
  proof (cases c)
    case (Inl e)
    with Pair assms(2,3) show ?thesis by (auto simp: etcdDeleteFailover_def write_errors unsent_swap)
  next
    case (Inr et)
    note c = Pair [unfolded Inr]
    have et: "stClient st = Some et" using operationContext_client [OF c] by simp
    let ?q = "IfModRevision key rv (OpDelete key False True) (OpGet key False None)"
    obtain x w2 where q: "etCall et ?q (atCall ctx w) = (x, w2)" by (cases "etCall et ?q (atCall ctx w)")
    have w2: "w' = w2" using assms(2,3) c q
      by (auto simp: etcdDeleteFailover_def operationContext_world [OF c] Let_def split: sum.splits if_splits)
    have map: "dbMap (snd (runOp (OpDelete key False True) d)) = (dbMap d)(key := None)" for d
      using dbMap_delete [of key False True d] by (auto simp: fun_eq_iff simp del: runOp.simps)
    show ?thesis
    proof (cases rule: serve_cases [OF assms(1) et q get_keeps])
      case (1 e)
      with assms(2,3) c q show ?thesis unfolding operationContext_world [OF c]
        by (auto simp: etcdDeleteFailover_def w2 write_errors swapped_def map simp del: runOp.simps intro!: unclear_swap)
    next
      case (2 rsp)
      have "firstOf (snd (deletedOf rsp)) = dbMap (arrival (atCall ctx w)) key"
        using 2(5) get_one [OF 2(2), of key]
        by (auto simp: served_def deletedOf_def firstOf_def Let_def split: option.splits)
      then show ?thesis using assms(2,3) c q 2 unfolding operationContext_world [OF c]
        by (auto simp: etcdDeleteFailover_def w2 atomic_swap_def swapped_def map map_option_sel simp del: runOp.simps)
           (auto simp: served_def)
    next
      case (3 rsp)
      with assms(2,3) c q have "(r, err) = refusedResult key rv (fst (served False (runOp (OpGet key False None) (arrival (atCall ctx w)))))"
        unfolding operationContext_world [OF c] by (auto simp: etcdDeleteFailover_def simp del: runOp.simps)
      then show ?thesis using refused_swap [OF 3(2,3) refl] 3(6) w2 by simp
    qed
  qed
qed

text \<open>C17: Compare-and-swap is atomic. Against a server that keeps revisions as etcd documents it, a write of the configuration or of
  the failover key, or a deletion of the failover key, with an expected revision and without an error took effect on what the
  server held when the one request arrived: there the key had this revision, and it and nothing else was changed; the result
  carries the new revision and the value before. A conflict means that the key had another revision then, the one
  reported, that its value was the one reported, and that the server still holds what it held: nothing was changed. After any
  other error nothing was sent, nothing was changed, or the key had the expected revision and it and nothing else was
  changed. Other clients may write at any time before the request arrives.\<close>

theorem etcd_writes_atomic:
  assumes "serves st arrival held"
  shows "(case CompareAndSwapConfig (Some st) ctx t v (Some rv) w of (((r, err), xs), w') \<Rightarrow>
      \<forall>key. KeyPath t ''config'' = Inr key \<longrightarrow>
        atomic_swap key rv (\<lambda>d. Some (putKV d key v)) r err xs (arrival (atCall ctx w)) (held w'))
    \<and> (case etcdFailoverCall (Some st) ctx (WriteFailover t v (Some rv)) w of (((r, err), xs), w') \<Rightarrow>
      \<forall>key. KeyPath t ''failover'' = Inr key \<longrightarrow>
        atomic_swap key rv (\<lambda>d. Some (putKV d key v)) r err xs (arrival (atCall ctx w)) (held w'))
    \<and> (case etcdFailoverCall (Some st) ctx (DeleteFailover t (Some rv)) w of (((r, err), xs), w') \<Rightarrow>
      \<forall>key. KeyPath t ''failover'' = Inr key \<longrightarrow>
        atomic_swap key rv (\<lambda>d. None) r err xs (arrival (atCall ctx w)) (held w'))"
  using put_swap [OF assms] delete_swap [OF assms]
  by (auto simp: CompareAndSwapConfig_def etcdWriteFailover_def split: prod.splits)

text \<open>The server itself as the outside world, with what other clients do before each request arrives, and whether the
  answer to it is lost; an inconsistent state answers nothing.\<close>

record etcd_world =
  ewHeld :: etcd_db
  ewOthers :: "etcd_request list list"
  ewLost :: "bool list"

definition ewArrival :: "etcd_world \<Rightarrow> etcd_db" where
  "ewArrival w = fold (\<lambda>q d. snd (serve q d)) (case ewOthers w of [] \<Rightarrow> [] | qs # _ \<Rightarrow> qs) (ewHeld w)"

definition example_call :: "etcd_request \<Rightarrow> etcd_world \<Rightarrow> (goerror + etcd_response) \<times> etcd_world" where
  "example_call q w =
     (if db_ok (ewArrival w)
      then case serve q (ewArrival w) of (r, d) \<Rightarrow>
        (if ewLost w \<noteq> [] \<and> hd (ewLost w) then Inl ContextDeadlineExceeded else Inr r,
         \<lparr>ewHeld = d, ewOthers = tl (ewOthers w), ewLost = tl (ewLost w)\<rparr>)
      else (Inl ContextDeadlineExceeded, w\<lparr>ewHeld := ewArrival w\<rparr>))"

definition example_etcd :: "etcd_world etcd" where
  "example_etcd = \<lparr>etCall = example_call, etAuthError = (\<lambda>_. False), etErrorCode = (\<lambda>_. None), etStatusCode = (\<lambda>_. 2)\<rparr>"

definition example_store :: "etcd_world etcd_store" where
  "example_store = NewFromClient (Some example_etcd)
     \<lparr>soEndpoints = [], soDialTimeout = 0, soRequestTimeout = 0, soMaxDiscoveryKeys = 0\<rparr>"

lemma example_serves: "serves example_store ewArrival ewHeld"
  unfolding serves_def example_store_def NewFromClient_def example_etcd_def example_call_def
  by (auto split: prod.splits)

definition example_db :: etcd_db where
  "example_db = \<lparr>dbRevision = 9, dbKeys =
     [\<lparr>kvKey = ''/service/pg/config'', kvCreateRevision = 3, kvModRevision = 7, kvVersion = 2, kvLease = 0, kvValue = ''{}''\<rparr>,
      \<lparr>kvKey = ''/service/pg/leader'', kvCreateRevision = 4, kvModRevision = 4, kvVersion = 1, kvLease = 5, kvValue = ''pg-1''\<rparr>]\<rparr>"

text \<open>Nobody else acts; another client changes the configuration first; the answer is lost.\<close>

definition example_alone :: etcd_world where
  "example_alone = \<lparr>ewHeld = example_db, ewOthers = [], ewLost = []\<rparr>"

definition example_rival :: etcd_world where
  "example_rival = \<lparr>ewHeld = example_db, ewOthers = [[Single (OpPut ''/service/pg/config'' ''y'')]], ewLost = []\<rparr>"

definition example_lost :: etcd_world where
  "example_lost = \<lparr>ewHeld = example_db, ewOthers = [], ewLost = [True]\<rparr>"

definition example_pg :: target where
  "example_pg = \<lparr>tContext = ''default'', tNamespace = ''/service'', tScope = ''pg'', tGroup = None, tMember = []\<rparr>"

abbreviation "never_canceled \<equiv> Some (\<lambda>d. (None, d))"

definition example_swap :: "etcd_world \<Rightarrow> ((write_result \<times> goerror option) \<times> etcd_calls) \<times> etcd_world" where
  "example_swap = CompareAndSwapConfig (Some example_store) never_canceled example_pg ''x'' (Some 7)"

lemma example_swaps:
  "case example_swap example_alone of (((r, err), xs), w') \<Rightarrow> err = None"
  "case example_swap example_rival of (((r, err), xs), w') \<Rightarrow> err = Some (ConflictError ''/service/pg/config'' 7 10)"
  "case example_swap example_lost of (((r, err), xs), w') \<Rightarrow> err \<noteq> None \<and> modRevision (ewHeld w') ''/service/pg/config'' = 10"
  "KeyPath example_pg ''config'' = Inr ''/service/pg/config''"
  by code_simp+

theorem etcd_writes_atomic_witness:
  "(case example_swap example_alone of (((r, err), xs), w') \<Rightarrow>
     swapped ''/service/pg/config'' 7 (\<lambda>d. Some (putKV d ''/service/pg/config'' ''x'')) example_db (ewHeld w'))
   \<and> (case example_swap example_rival of (((r, err), xs), w') \<Rightarrow> \<not> wrApplied r \<and> ewHeld w' = ewArrival example_rival)"
proof -
  have at: "atCall never_canceled w = w" for w :: etcd_world by (simp add: atCall_def)
  have "ewArrival example_alone = example_db" by (simp add: ewArrival_def example_alone_def)
  with etcd_writes_atomic [OF example_serves, where ctx = never_canceled and t = example_pg and v = "''x''" and rv = 7, THEN conjunct1]
    example_swaps
  show ?thesis unfolding example_swap_def at by (fastforce simp: atomic_swap_def split: prod.splits)
qed

theorem etcd_answers_honest_witness:
  "(case CompareAndSwapConfig (Some example_store) never_canceled example_pg ''x'' (Some 6) example_alone of (((r, err), xs), w') \<Rightarrow>
     definite (EvConfigCAS example_pg ''x'' (Some 6) r err) \<and> length xs = 1)"
proof -
  have f: "foreign_errors (Some example_store) never_canceled"
    by (auto simp: foreign_errors_def example_store_def NewFromClient_def example_etcd_def example_call_def foreign_def
        split: if_splits prod.splits)
  obtain r err xs w' where x: "CompareAndSwapConfig (Some example_store) never_canceled example_pg ''x'' (Some 6) example_alone
      = (((r, err), xs), w')" by (metis prod.collapse)
  have "(case CompareAndSwapConfig (Some example_store) never_canceled example_pg ''x'' (Some 6) example_alone of
      ((_, xs), _) \<Rightarrow> list_all refused xs \<and> length xs = 1)" by code_simp
  with etcd_answers_honest [OF f, where t = example_pg and v = "''x''" and rv = "Some 6" and w = example_alone, THEN conjunct1]
  show ?thesis unfolding x accounted_def by simp
qed


section \<open>Reading and removing\<close>

definition under :: "string \<Rightarrow> etcd_db \<Rightarrow> etcd_kv list" where
  "under pfx d = filter (\<lambda>kv. HasPrefix (kvKey kv) pfx) (dbKeys d)"

lemma get_under: "filter (hits pfx True) (dbKeys d) = under pfx d"
  by (simp add: under_def hits_def [abs_def])

lemma serve_get:
  assumes "serves st arrival held" "stClient st = Some et" "etCall et (Single (OpGet pfx True limit)) w = (Inr r, w')"
  shows "db_ok (arrival w) \<and> held w' = arrival w \<and> erRevision r = dbRevision (arrival w)
    \<and> (\<not> snd (rangeOf r) \<longrightarrow> fst (rangeOf r) = under pfx (arrival w))"
  using serves_answer [OF assms]
  by (auto simp: served_def rangeOf_def Let_def get_under not_less split: option.splits if_splits)

lemma get_all: "serves st arrival held \<Longrightarrow> stClient st = Some et \<Longrightarrow> etCall et (Single (OpGet pfx True None)) w = (Inr r, w') \<Longrightarrow> \<not> snd (rangeOf r)"
  by (drule (2) serves_answer) (auto simp: served_def rangeOf_def Let_def)

lemma under_sorted: "db_ok d \<Longrightarrow> sorted (map kvKey (under pfx d))"
  by (simp add: db_ok_def under_def sorted_filter)

lemma entries_in_order:
  assumes "sorted (map kvKey kvs)"
  shows "entriesFromKVs pfx kvs = map (entryFromKV pfx) kvs"
    and "snEntries (BuildSnapshot t pfx rv (map (entryFromKV pfx) kvs)) = map (classifiedEntry pfx \<circ> entryFromKV pfx) kvs"
proof -
  have "eKey (classifiedEntry pfx e) = eKey e" for e by (simp add: classifiedEntry_def Let_def)
  then show "entriesFromKVs pfx kvs = map (entryFromKV pfx) kvs"
    "snEntries (BuildSnapshot t pfx rv (map (entryFromKV pfx) kvs)) = map (classifiedEntry pfx \<circ> entryFromKV pfx) kvs"
    using assms by (simp_all add: entriesFromKVs_def SortEntries_def sort_key_id_if_sorted comp_def)
qed

text \<open>What of an entry comes from etcd.\<close>

definition entryFacts :: "dcs_entry \<Rightarrow> string \<times> string \<times> int \<times> int" where
  "entryFacts e = (eKey e, eValue e, eModRevision e, eLease e)"

definition kvFacts :: "etcd_kv \<Rightarrow> string \<times> string \<times> int \<times> int" where
  "kvFacts kv = (kvKey kv, kvValue kv, kvModRevision kv, kvLease kv)"

lemma classified_facts: "entryFacts (classifiedEntry pfx (entryFromKV pfx kv)) = kvFacts kv"
  by (simp add: entryFacts_def kvFacts_def classifiedEntry_def entryFromKV_def Let_def)

text \<open>The keys of a prefix, as the server held them when the request arrived.\<close>

definition snapshot_of :: "target \<Rightarrow> etcd_db \<Rightarrow> snapshot \<Rightarrow> bool" where
  "snapshot_of t d sn =
     (\<exists>pfx. ClusterPrefix t = Inr pfx \<and> snRevision sn = dbRevision d \<and> snTarget sn = Normalize t
        \<and> map entryFacts (snEntries sn) = map kvFacts (under (pfx @ ''/'') d))"

definition discovery_of :: "int \<Rightarrow> string \<Rightarrow> string \<Rightarrow> etcd_db \<Rightarrow> discovered_cluster list \<Rightarrow> bool" where
  "discovery_of maximum name namespace d cs =
     (int (length (under (NamespacePrefix namespace) d)) \<le> maximum
        \<and> cs = DiscoverFromEntries name namespace (dbRevision d) (map (entryFromKV []) (under (NamespacePrefix namespace) d)))"

definition emptied :: "string \<Rightarrow> etcd_db \<Rightarrow> etcd_db \<Rightarrow> bool" where
  "emptied pfx before after = (dbMap after = (\<lambda>k. if HasPrefix k pfx then None else dbMap before k))"

definition removal_of :: "target \<Rightarrow> etcd_db \<Rightarrow> etcd_db \<Rightarrow> remove_result \<Rightarrow> bool" where
  "removal_of t before after r =
     (\<exists>pfx. ClusterPrefix t = Inr pfx \<and> emptied (pfx @ ''/'') before after
        \<and> rmDeleted r = int (length (under (pfx @ ''/'') before)) \<and> rmRevision r = dbRevision after)"

lemma snapshot_complete:
  assumes "serves st arrival held" "etcdSnapshot (Some st) ctx t w = ((Inr sn, xs), w')"
  shows "held w' = arrival (atCall ctx w) \<and> snapshot_of t (arrival (atCall ctx w)) sn"
proof -
  from assms(2) obtain pfx et w1 r where p: "ClusterPrefix t = Inr pfx"
    and c: "operationContext (Some st) ctx ''snapshot'' (pfx @ ''/'') w = (Inr et, w1)"
    and q: "etCall et (Single (OpGet (pfx @ ''/'') True None)) w1 = (Inr r, w')"
    and sn: "sn = BuildSnapshot t pfx (erRevision r) (entriesFromKVs pfx (fst (rangeOf r)))"
    by (auto simp: etcdSnapshot_def Let_def split: sum.splits prod.splits)
  let ?d = "arrival (atCall ctx w)"
  have st: "stClient st = Some et" using operationContext_client [OF c] by simp
  from serve_get [OF assms(1) st q] get_all [OF assms(1) st q]
  have g: "db_ok ?d" "held w' = ?d" "erRevision r = dbRevision ?d" "fst (rangeOf r) = under (pfx @ ''/'') ?d"
    by (simp_all add: operationContext_world [OF c])
  note ordered = entries_in_order [OF under_sorted [OF g(1)]]
  have "map entryFacts (snEntries sn) = map kvFacts (under (pfx @ ''/'') ?d)"
    by (simp only: sn g(4) ordered map_map comp_def classified_facts)
  with p g(2,3) show ?thesis by (auto simp: sn snapshot_of_def)
qed

lemma discover_complete:
  assumes "serves st arrival held" "etcdDiscover (Some st) ctx name namespace w = ((Inr cs, xs), w')"
  shows "held w' = arrival (atCall ctx w) \<and> discovery_of (stMaxDiscoveryKeys st) name namespace (arrival (atCall ctx w)) cs"
proof -
  from assms(2) obtain et w1 r where
    c: "operationContext (Some st) ctx ''discover'' (NamespacePrefix namespace) w = (Inr et, w1)"
    and q: "etCall et (Single (OpGet (NamespacePrefix namespace) True (Some (int64 (stMaxDiscoveryKeys st + 1))))) w1 = (Inr r, w')"
    and few: "\<not> snd (rangeOf r)" "int (length (fst (rangeOf r))) \<le> stMaxDiscoveryKeys st"
    and cs: "cs = DiscoverFromEntries name namespace (erRevision r) (entriesFromKVs [] (fst (rangeOf r)))"
    by (auto simp: etcdDiscover_def Let_def not_less split: sum.splits prod.splits if_splits)
  let ?d = "arrival (atCall ctx w)"
  have st: "stClient st = Some et" using operationContext_client [OF c] by simp
  from serve_get [OF assms(1) st q] few(1)
  have g: "db_ok ?d" "held w' = ?d" "erRevision r = dbRevision ?d" "fst (rangeOf r) = under (NamespacePrefix namespace) ?d"
    by (simp_all add: operationContext_world [OF c])
  with few(2) show ?thesis by (simp only: discovery_of_def cs entries_in_order(1) [OF under_sorted [OF g(1)]] g(2-4))
qed

lemma removal_exact:
  assumes "serves st arrival held" "etcdDeleteCluster (Some st) ctx t w = (((r, None), xs), w')"
  shows "removal_of t (arrival (atCall ctx w)) (held w') r"
proof -
  from assms(2) obtain pfx et w1 rsp where p: "ClusterPrefix t = Inr pfx"
    and c: "operationContext (Some st) ctx ''remove-cluster'' (pfx @ ''/'') w = (Inr et, w1)"
    and q: "etCall et (Single (OpDelete (pfx @ ''/'') True False)) w1 = (Inr rsp, w')"
    and r: "r = \<lparr>rmDeleted = fst (deletedOf rsp), rmRevision = erRevision rsp\<rparr>"
    by (auto simp: etcdDeleteCluster_def Let_def split: sum.splits prod.splits)
  let ?d = "arrival (atCall ctx w)"
  have st: "stClient st = Some et" using operationContext_client [OF c] by simp
  have "serve (Single (OpDelete (pfx @ ''/'') True False)) ?d = (rsp, held w')"
    using serves_answer [OF assms(1) st q] operationContext_world [OF c] by simp
  then have "held w' = snd (runOp (OpDelete (pfx @ ''/'') True False) ?d)"
    "erRevision rsp = dbRevision (held w')" "fst (deletedOf rsp) = int (length (under (pfx @ ''/'') ?d))"
    by (auto simp: served_def deletedOf_def Let_def get_under)
  with p r show ?thesis using dbMap_delete [of "pfx @ ''/''" True False ?d] by (auto simp: removal_of_def emptied_def)
qed

lemma removal_failed:
  assumes "serves st arrival held" "etcdDeleteCluster (Some st) ctx t w = (((r, Some e), xs), w')" "xs \<noteq> []"
  shows "held w' = arrival (atCall ctx w) \<or> (\<exists>pfx. ClusterPrefix t = Inr pfx \<and> emptied (pfx @ ''/'') (arrival (atCall ctx w)) (held w'))"
proof -
  from assms(2,3) obtain pfx et w1 f where p: "ClusterPrefix t = Inr pfx"
    and c: "operationContext (Some st) ctx ''remove-cluster'' (pfx @ ''/'') w = (Inr et, w1)"
    and q: "etCall et (Single (OpDelete (pfx @ ''/'') True False)) w1 = (Inl f, w')"
    by (auto simp: etcdDeleteCluster_def Let_def split: sum.splits prod.splits)
  have st: "stClient st = Some et" using operationContext_client [OF c] by simp
  from serves_error [OF assms(1) st q] p show ?thesis
    using dbMap_delete [of "pfx @ ''/''" True False "arrival (atCall ctx w)"]
    by (auto simp: operationContext_world [OF c] emptied_def served_def simp del: runOp.simps)
qed

text \<open>C18: Reading is complete and removing is exact, with respect to what the server held when the one request arrived. Against a
  server that keeps keys as etcd documents it, a snapshot shows all keys below the prefix of the cluster, in order, with their values,
  revisions and leases at one revision, and nothing else. A discovery sees all keys of the namespace at one revision, at most as
  many as configured, or fails; it is never cut off. Both leave the server as it was. A removal that reports no
  error removed all keys below the prefix of the cluster, with its final slash, counted exactly those, and changed no other key,
  so that a cluster whose name only begins with the same letters stays; after an error nothing was sent, nothing was changed, or the
  same keys were removed and no others.\<close>

theorem etcd_reads_complete:
  assumes "serves st arrival held"
  shows "(case etcdSnapshot (Some st) ctx t w of ((result, xs), w') \<Rightarrow>
      \<forall>sn. result = Inr sn \<longrightarrow> held w' = arrival (atCall ctx w) \<and> snapshot_of t (arrival (atCall ctx w)) sn)
    \<and> (case etcdDiscover (Some st) ctx name namespace w of ((result, xs), w') \<Rightarrow>
      \<forall>cs. result = Inr cs \<longrightarrow> held w' = arrival (atCall ctx w)
        \<and> discovery_of (stMaxDiscoveryKeys st) name namespace (arrival (atCall ctx w)) cs)
    \<and> (case etcdDeleteCluster (Some st) ctx t w of (((r, err), xs), w') \<Rightarrow>
      if err = None then removal_of t (arrival (atCall ctx w)) (held w') r
      else xs = [] \<or> held w' = arrival (atCall ctx w)
        \<or> (\<exists>pfx. ClusterPrefix t = Inr pfx \<and> emptied (pfx @ ''/'') (arrival (atCall ctx w)) (held w')))"
proof (intro conjI)
  obtain r err xs w' where x: "etcdDeleteCluster (Some st) ctx t w = (((r, err), xs), w')" by (metis prod.collapse)
  show "case etcdDeleteCluster (Some st) ctx t w of (((r, err), xs), w') \<Rightarrow>
      if err = None then removal_of t (arrival (atCall ctx w)) (held w') r
      else xs = [] \<or> held w' = arrival (atCall ctx w)
        \<or> (\<exists>pfx. ClusterPrefix t = Inr pfx \<and> emptied (pfx @ ''/'') (arrival (atCall ctx w)) (held w'))"
    using removal_exact [OF assms, of ctx t w r xs w'] removal_failed [OF assms, of ctx t w r _ xs w'] x
    by (cases err) auto
qed (use snapshot_complete [OF assms] discover_complete [OF assms] in \<open>auto split: prod.splits\<close>)

text \<open>A cluster \<open>p\<close> beside \<open>pg\<close>: removing it leaves \<open>pg\<close>, also when another client writes to \<open>p\<close> first.\<close>

definition example_remove :: "string \<Rightarrow> etcd_world \<Rightarrow> ((remove_result \<times> goerror option) \<times> etcd_calls) \<times> etcd_world" where
  "example_remove scope = etcdDeleteCluster (Some example_store) never_canceled (example_pg\<lparr>tScope := scope\<rparr>)"

definition example_joined :: etcd_world where
  "example_joined = \<lparr>ewHeld = example_db, ewOthers = [[Single (OpPut ''/service/p/leader'' ''q'')]], ewLost = []\<rparr>"

theorem etcd_reads_complete_witness:
  "case example_remove ''p'' example_joined of (((r, err), xs), w') \<Rightarrow> err = None \<and> rmDeleted r = 1
     \<and> dbMap (ewHeld w') ''/service/pg/leader'' = dbMap (ewArrival example_joined) ''/service/pg/leader''
     \<and> dbMap (ewHeld w') ''/service/p/leader'' = None"
proof -
  have at: "atCall never_canceled w = w" for w :: etcd_world by (simp add: atCall_def)
  obtain r err xs w' where x: "example_remove ''p'' example_joined = (((r, err), xs), w')" by (metis prod.collapse)
  have "case example_remove ''p'' example_joined of (((r, err), xs), w') \<Rightarrow> err = None \<and> rmDeleted r = 1" by code_simp
  then have e: "err = None" "rmDeleted r = 1" unfolding x by simp_all
  moreover have "ClusterPrefix (example_pg\<lparr>tScope := ''p''\<rparr>) = Inr ''/service/p''" "HasPrefix ''/service/p/leader'' ''/service/p/''"
    "\<not> HasPrefix ''/service/pg/leader'' ''/service/p/''" by code_simp+
  moreover have "removal_of (example_pg\<lparr>tScope := ''p''\<rparr>) (ewArrival example_joined) (ewHeld w') r"
    using etcd_reads_complete [OF example_serves, where ctx = never_canceled and t = "example_pg\<lparr>tScope := ''p''\<rparr>" and w = example_joined,
        THEN conjunct2, THEN conjunct2] e(1) x
    unfolding example_remove_def at by simp
  ultimately show ?thesis unfolding x by (auto simp: removal_of_def emptied_def)
qed

end
