(* ===== verification/Configuration.thy ===== *)
theory Configuration
  imports Go_Url "HOL-Library.AList" "HOL-Library.Word"
begin

text \<open>
  The data of package \<open>config\<close> (\<^verbatim>\<open>src/config/config.go\<close>, \<open>errors.go\<close>, \<open>secret.go\<close>) and what the package uses of
  \<open>net\<close> and \<open>net/url\<close>.

  A value a YAML document decodes to is one of the Go types \<open>nil\<close>, \<open>bool\<close>, \<open>int\<close>, \<open>int64\<close>, \<open>uint64\<close>, \<open>string\<close>,
  \<open>[]any\<close>, \<open>map[string]any\<close>, or of a type the package passes on unseen (\<open>float64\<close>, \<open>time.Time\<close>, maps with other keys),
  written as its text; \<open>[]string\<close> may stand in a map an embedding program builds.  Integers have their 64 bits.  A Go map
  is an association list with distinct keys, and ranging over it takes the list's order.
\<close>

section \<open>Values and maps\<close>

datatype cval = CNull | CBool bool | CInt "64 word" | CInt64 "64 word" | CUint64 "64 word" | CStr string
  | CList "cval list" | CStrs "string list" | CMap "(string \<times> cval) list" | COther string

type_synonym cmap = "(string \<times> cval) list"

text \<open>A key that is absent or null: \<open>value, present := m[key]; !present || value == nil\<close>.\<close>

definition setValue :: "cmap \<Rightarrow> string \<Rightarrow> cval option" where
  "setValue m k = (case map_of m k of None \<Rightarrow> None | Some v \<Rightarrow> if v = CNull then None else Some v)"

text \<open>The maps of a value, at any depth, have distinct keys.\<close>

fun wf_cval :: "cval \<Rightarrow> bool" where
  "wf_cval (CMap m) = (distinct (map fst m) \<and> (\<forall>kv \<in> set m. wf_cval (snd kv)))"
| "wf_cval (CList vs) = (\<forall>v \<in> set vs. wf_cval v)"
| "wf_cval v = True"

abbreviation wf_cmap :: "cmap \<Rightarrow> bool" where
  "wf_cmap m \<equiv> wf_cval (CMap m)"


section \<open>Layers, sources, warnings\<close>

datatype config_layer = LayerDefault | LayerFile | LayerContext | LayerEnvironment | LayerFlag

fun layer_text :: "config_layer \<Rightarrow> string" where
  "layer_text LayerDefault = ''default''"
| "layer_text LayerFile = ''file''"
| "layer_text LayerContext = ''context''"
| "layer_text LayerEnvironment = ''environment''"
| "layer_text LayerFlag = ''flag''"

record config_source =
  csLayer :: config_layer
  csName :: string

type_synonym config_sources = "(string \<times> config_source) list"

datatype warning_code = WarningSchemeLessDCSURL | WarningInsecureRESTTLS

record config_warning =
  cwCode :: warning_code
  cwField :: string
  cwMessage :: string

text \<open>\<open>Environment.Lookup\<close>.\<close>

type_synonym environment = "string \<Rightarrow> string option"

record config_overrides =
  ovContext :: "string option"
  ovDCSURL :: "string option"
  ovNamespace :: "string option"
  ovScope :: "string option"
  ovGroup :: "64 word option"
  ovInsecure :: "bool option"

record resolve_request =
  rrContext :: string
  rrEnvironment :: "environment option"
  rrOverrides :: config_overrides


section \<open>Secrets\<close>

definition Redacted :: string where
  "Redacted = ''[REDACTED]''"

datatype secret = Secret (Reveal: string)

definition IsSet :: "secret \<Rightarrow> bool" where
  "IsSet s = (Reveal s \<noteq> [])"

definition SecretString :: "secret \<Rightarrow> string" where
  "SecretString s = (if \<not> IsSet s then [] else Redacted)"


section \<open>The projections\<close>

datatype locator_kind = LocatorNone | LocatorURL | LocatorProxy | LocatorSRV | LocatorHosts | LocatorHost

record tls_config =
  tcCAFile :: string
  tcCertFile :: string
  tcKeyFile :: string
  tcKeyPassword :: secret

record etcd3_config =
  ecConfigured :: bool
  ecLocator :: locator_kind
  ecEndpoints :: "string list"
  ecURL :: string
  ecProxy :: string
  ecSRV :: string
  ecProtocol :: string
  ecTLS :: tls_config
  ecUsername :: string
  ecPassword :: secret

record rest_config =
  rcInsecure :: bool
  rcCAFile :: string
  rcCertFile :: string
  rcKeyFile :: string
  rcKeyPassword :: secret
  rcUsername :: string
  rcPassword :: secret

text \<open>Durations are in nanoseconds, as in Go.\<close>

record network_config =
  ncDNSLookupTimeout :: int
  ncDCSDialTimeout :: int
  ncDCSRequestTimeout :: int
  ncPatroniTimeout :: int
  ncPostgresTimeout :: int
  ncPostgresCloseTimeout :: int

text \<open>\<open>Document\<close>, without the retained YAML node; \<open>CNull\<close> is the nil \<open>network\<close>.\<close>

record config_document =
  dcRoot :: cmap
  dcContexts :: "(string \<times> cmap) list"
  dcNetwork :: cval
  dcExtensionName :: string
  dcDefaultContext :: string
  dcSourceName :: string

record config_resolved =
  rvContext :: string
  rvNamespace :: string
  rvScope :: string
  rvCitus :: bool
  rvGroup :: "int option"
  rvEtcd3 :: etcd3_config
  rvREST :: rest_config
  rvNetwork :: network_config
  rvWarnings :: "config_warning list"
  rvEffective :: cmap
  rvSources :: config_sources

definition extensionField :: "config_document option \<Rightarrow> string \<Rightarrow> string" where
  "extensionField document suf =
     (let name = (case document of Some d \<Rightarrow> if dcExtensionName d \<noteq> [] then dcExtensionName d else ''go_patroni''
                  | None \<Rightarrow> ''go_patroni'')
      in if suf = [] then name else name @ ''.'' @ suf)"

definition DefaultContextName :: "config_document option \<Rightarrow> string" where
  "DefaultContextName document =
     (case document of None \<Rightarrow> ''default'' | Some d \<Rightarrow> if dcDefaultContext d = [] then ''default'' else dcDefaultContext d)"

definition ContextNames :: "config_document option \<Rightarrow> string list option" where
  "ContextNames document = map_option (\<lambda>d. sort (remdups (''default'' # map fst (dcContexts d)))) document"

definition SourceOf :: "config_resolved \<Rightarrow> string \<Rightarrow> config_source option" where
  "SourceOf resolved path = map_of (rvSources resolved) path"


section \<open>Errors\<close>

datatype config_error_kind = ErrorSyntax | ErrorMultipleDocuments | ErrorRootType | ErrorContext | ErrorUnsupported
  | ErrorNotFound | ErrorProjection

text \<open>Of the cause of an error only its presence is kept.\<close>

record config_error =
  ceKind :: config_error_kind
  ceField :: string
  ceSource :: string
  ceMessage :: string
  ceCaused :: bool

definition cfgError :: "config_error_kind \<Rightarrow> string \<Rightarrow> string \<Rightarrow> string \<Rightarrow> bool \<Rightarrow> config_error" where
  "cfgError kind field source message cause =
     \<lparr>ceKind = kind, ceField = field, ceSource = source, ceMessage = message, ceCaused = cause\<rparr>"

definition configErrorText :: "config_error option \<Rightarrow> string" where
  "configErrorText e =
     (case e of None \<Rightarrow> []
      | Some err \<Rightarrow>
         (let start = ''configuration'' @ (if ceSource err \<noteq> [] then '' '' @ ceSource err else [])
                @ (if ceField err \<noteq> [] then '' field '' @ ceField err else [])
          in if ceMessage err = [] then start else start @ '': '' @ ceMessage err))"

text \<open>\<open>if err != nil { return err }\<close>, then the rest.\<close>

definition andThen :: "'e + 'a \<Rightarrow> ('a \<Rightarrow> 'e + 'b) \<Rightarrow> 'e + 'b" where
  "andThen x f = (case x of Inl e \<Rightarrow> Inl e | Inr v \<Rightarrow> f v)"

lemma andThen_Inr_iff: "andThen x f = Inr y \<longleftrightarrow> (\<exists>v. x = Inr v \<and> f v = Inr y)"
  by (simp add: andThen_def split: sum.splits)

lemma andThen_Inl_iff: "andThen x f = Inl e \<longleftrightarrow> x = Inl e \<or> (\<exists>v. x = Inr v \<and> f v = Inl e)"
  by (auto simp: andThen_def split: sum.splits)


section \<open>Hosts and ports\<close>

text \<open>\<open>net.SplitHostPort\<close>, of whose errors the package only asks whether there is one.\<close>

definition SplitHostPort :: "string \<Rightarrow> (string \<times> string) option" where
  "SplitHostPort hostport =
     (case CutLast (CHR '':'') hostport of
        None \<Rightarrow> None
      | Some (front, port) \<Rightarrow>
          if HasPrefix hostport ''['' then
            (let host = takeWhile (\<lambda>c. c \<noteq> CHR '']'') hostport
             in if length host + 1 \<noteq> length front \<or> CHR '']'' \<notin> set hostport then None
                else if CHR ''['' \<in> set (drop 1 hostport) then None
                else if CHR '']'' \<in> set (drop (length host + 1) hostport) then None
                else Some (drop 1 host, port))
          else if CHR '':'' \<in> set front then None
          else if CHR ''['' \<in> set hostport \<or> CHR '']'' \<in> set hostport then None
          else Some (front, port))"

definition JoinHostPort :: "string \<Rightarrow> string \<Rightarrow> string" where
  "JoinHostPort host port =
     (if CHR '':'' \<in> set host then ''['' @ host @ '']:'' @ port else host @ '':'' @ port)"

text \<open>\<open>URL.Hostname\<close> and \<open>URL.Port\<close>.\<close>

definition splitURLHost :: "string \<Rightarrow> string \<times> string" where
  "splitURLHost hostPort =
     (let (host, port) = (case CutLast (CHR '':'') hostPort of
            Some (front, p) \<Rightarrow> if validOptionalPort ('':'' @ p) then (front, p) else (hostPort, [])
          | None \<Rightarrow> (hostPort, []))
      in (if HasPrefix host ''['' \<and> HasSuffix host '']'' then butlast (drop 1 host) else host, port))"

definition Hostname :: "gourl \<Rightarrow> string" where
  "Hostname u = fst (splitURLHost (uHost u))"

definition PortOf :: "gourl \<Rightarrow> string" where
  "PortOf u = snd (splitURLHost (uHost u))"

end
