(* ===== verification/Configuration_Merge.thy ===== *)
theory Configuration_Merge
  imports Configuration
begin

text \<open>
  \<^verbatim>\<open>src/config/merge.go\<close>: deep merge of the layers of a configuration, with the source of every leaf.  Copying a value
  (\<open>cloneMap\<close>, \<open>cloneValue\<close>) is the identity on HOL values; what the code updates in place is returned.
\<close>

record resolution_layer =
  rlValues :: cmap
  rlSource :: config_source

definition clearSourcePrefix :: "config_sources \<Rightarrow> string \<Rightarrow> config_sources" where
  "clearSourcePrefix sources path =
     filter (\<lambda>(existing, _). \<not> (existing = path \<or> HasPrefix existing (path @ ''.''))) sources"

function assignSources :: "cval \<Rightarrow> string \<Rightarrow> config_sources \<Rightarrow> config_source \<Rightarrow> config_sources"
  and assignMembers :: "cmap \<Rightarrow> string \<Rightarrow> config_sources \<Rightarrow> config_source \<Rightarrow> config_sources" where
  "assignSources v path sources source =
     (case v of
        CMap object \<Rightarrow> if object \<noteq> [] then assignMembers object path sources source else AList.update path source sources
      | _ \<Rightarrow> AList.update path source sources)"
| "assignMembers [] path sources source = sources"
| "assignMembers ((key, nested) # object) path sources source =
     assignMembers object path (assignSources nested (path @ ''.'' @ key) sources source) source"
  by pat_completeness auto
termination
  by (relation "measure (\<lambda>x. case x of Inl (v, _) \<Rightarrow> 2 * size v | Inr (m, _) \<Rightarrow> 2 * size (CMap m) - 1)") auto

text \<open>Ranging over the overlay; \<open>destination\<close> and \<open>sources\<close> are updated key by key.\<close>

function applyMap :: "cmap \<Rightarrow> cmap \<Rightarrow> string \<Rightarrow> config_sources \<Rightarrow> config_source \<Rightarrow> cmap \<times> config_sources" where
  "applyMap destination [] pfx sources source = (destination, sources)"
| "applyMap destination ((key, v) # overlay) pfx sources source =
     (let path = (if pfx \<noteq> [] then pfx @ ''.'' @ key else key)
      in case (v, map_of destination key) of
           (CMap overlayMap, Some (CMap destinationMap)) \<Rightarrow>
             (let sources1 = (if overlayMap = [] then AList.update path source (clearSourcePrefix sources path) else sources);
                  (nested, sources2) = applyMap destinationMap overlayMap path sources1 source
              in applyMap (AList.update key (CMap nested) destination) overlay pfx sources2 source)
         | _ \<Rightarrow>
             applyMap (AList.update key v destination) overlay pfx
               (assignSources v path (clearSourcePrefix sources path) source) source)"
  by pat_completeness auto
termination
  by (relation "measure (\<lambda>(_, overlay, _). size (CMap overlay))") auto

declare assignSources.simps(1) [simp del]

definition applyLayer :: "cmap \<Rightarrow> config_sources \<Rightarrow> resolution_layer \<Rightarrow> cmap \<times> config_sources" where
  "applyLayer destination sources layer = applyMap destination (rlValues layer) [] sources (rlSource layer)"

definition replaceTopLevel :: "cmap \<times> config_sources \<Rightarrow> string \<Rightarrow> cval \<Rightarrow> config_source \<Rightarrow> cmap \<times> config_sources" where
  "replaceTopLevel es key v source =
     (AList.update key v (fst es), assignSources v key (clearSourcePrefix (snd es) key) source)"

definition deleteTopLevel :: "string \<Rightarrow> cmap \<times> config_sources \<Rightarrow> cmap \<times> config_sources" where
  "deleteTopLevel key es = (AList.delete key (fst es), clearSourcePrefix (snd es) key)"


section \<open>Redaction by key\<close>

text \<open>
  \<open>strings.ToLower\<close> as far as ASCII letters in the result are concerned: besides the capital letters, only U+0130 and
  U+212A have one as their lower case.
\<close>

fun lowerText :: "string \<Rightarrow> string" where
  "lowerText [] = []"
| "lowerText (c # cs) =
     (if HasPrefix (c # cs) [char_of (0xC4 :: nat), char_of (0xB0 :: nat)] then CHR ''i'' # lowerText (drop 1 cs)
      else if HasPrefix (c # cs) [char_of (0xE2 :: nat), char_of (0x84 :: nat), char_of (0xAA :: nat)]
      then CHR ''k'' # lowerText (drop 2 cs)
      else lower_char c # lowerText cs)"

definition isSecretKey :: "string \<Rightarrow> bool" where
  "isSecretKey key =
     (let normalized = lowerText (ReplaceAllChar key (CHR ''-'') (CHR ''_''))
      in Contains normalized ''password'' \<or> Contains normalized ''passwd'' \<or> normalized = ''pwd''
         \<or> Contains normalized ''token'' \<or> Contains normalized ''secret''
         \<or> Contains normalized ''credential'' \<or> normalized = ''auth'' \<or> normalized = ''authorization''
         \<or> Contains normalized ''api_key'' \<or> Contains normalized ''access_key''
         \<or> Contains normalized ''private_key'' \<or> Contains normalized ''session_key''
         \<or> normalized = ''cookie'' \<or> normalized = ''set_cookie'')"

fun redactMap :: "cmap \<Rightarrow> cmap" and redactList :: "cval list \<Rightarrow> cval list"
  and redactMember :: "string \<Rightarrow> cval \<Rightarrow> cval" and redactItem :: "cval \<Rightarrow> cval" where
  "redactMap [] = []"
| "redactMap ((key, v) # input) = (key, redactMember key v) # redactMap input"
| "redactMember key v =
     (if isSecretKey key then (if v = CNull then v else CStr Redacted) else redactItem v)"
| "redactItem (CMap nested) = CMap (redactMap nested)"
| "redactItem (CList nested) = CList (redactList nested)"
| "redactItem v = v"
| "redactList [] = []"
| "redactList (v # input) = redactItem v # redactList input"

definition RedactMap :: "cmap \<Rightarrow> cmap" where
  "RedactMap input = redactMap input"

end
