(* ===== verification/Configuration_Merge_Spec.thy ===== *)
theory Configuration_Merge_Spec
  imports Configuration_Merge
begin

text \<open>
  What merging means: a configuration is the function from paths to its leaves and their sources, and of the layers
  applied to it the latest one that has a say about a path decides it.
\<close>

section \<open>Paths and leaves\<close>

definition plain_key :: "string \<Rightarrow> bool" where
  "plain_key k = (k \<noteq> [] \<and> CHR ''.'' \<notin> set k)"

abbreviation plain_path :: "string list \<Rightarrow> bool" where
  "plain_path p \<equiv> \<forall>k \<in> set p. plain_key k"

definition dotted :: "string list \<Rightarrow> string" where
  "dotted p = Join ''.'' p"

text \<open>A mapping with plain, distinct keys and no empty mapping below it.\<close>

fun regular :: "cval \<Rightarrow> bool" where
  "regular (CMap m) = (m \<noteq> [] \<and> distinct (map fst m) \<and> (\<forall>kv \<in> set m. plain_key (fst kv) \<and> regular (snd kv)))"
| "regular v = True"

definition regular_map :: "cmap \<Rightarrow> bool" where
  "regular_map m = (distinct (map fst m) \<and> (\<forall>kv \<in> set m. plain_key (fst kv) \<and> regular (snd kv)))"

text \<open>The leaf of a value at a path: what is not a mapping, or an empty one.\<close>

fun leaf :: "cval \<Rightarrow> string list \<Rightarrow> cval option" where
  "leaf (CMap m) (k # p) = (case map_of m k of None \<Rightarrow> None | Some v \<Rightarrow> leaf v p)"
| "leaf v (k # p) = None"
| "leaf (CMap m) [] = (if m = [] then Some (CMap []) else None)"
| "leaf v [] = Some v"

text \<open>A value has a say about a path that is above or below one of its leaves, or a leaf.\<close>

fun covers :: "cval \<Rightarrow> string list \<Rightarrow> bool" where
  "covers (CMap m) (k # p) = (case map_of m k of None \<Rightarrow> False | Some v \<Rightarrow> covers v p)"
| "covers v p = True"

definition is_map :: "cval \<Rightarrow> bool" where
  "is_map v = (case v of CMap _ \<Rightarrow> True | _ \<Rightarrow> False)"

lemma is_mapE: "is_map v \<Longrightarrow> (\<And>m. v = CMap m \<Longrightarrow> thesis) \<Longrightarrow> thesis"
  by (cases v) (simp_all add: is_map_def)

lemma is_map_CMap [simp]: "is_map (CMap m)"
  by (simp add: is_map_def)

lemma leaf_scalar: "\<not> is_map v \<Longrightarrow> leaf v p = (if p = [] then Some v else None)"
  by (cases v; cases p) (simp_all add: is_map_def)

lemma covers_scalar: "\<not> is_map v \<Longrightarrow> covers v p"
  by (cases v; cases p) (simp_all add: is_map_def)

lemma regular_scalar: "\<not> is_map v \<Longrightarrow> regular v"
  by (cases v) (simp_all add: is_map_def)

lemma assign_scalar: "\<not> is_map v \<Longrightarrow> assignSources v path sources s = AList.update path s sources"
  by (cases v) (simp_all add: is_map_def assignSources.simps)

lemma leaf_covers: "leaf v p = Some x \<Longrightarrow> covers v p"
  by (induction v p rule: covers.induct) (auto split: option.splits)

lemma regular_CMap [simp]: "regular (CMap m) \<longleftrightarrow> m \<noteq> [] \<and> regular_map m"
  by (simp add: regular_map_def)

declare regular.simps(1) [simp del]

lemma regular_map_Nil [simp]: "regular_map []"
  by (simp add: regular_map_def)

lemma regular_map_Cons [simp]:
  "regular_map ((k, v) # m) \<longleftrightarrow> map_of m k = None \<and> plain_key k \<and> regular v \<and> regular_map m"
  by (auto simp: regular_map_def map_of_eq_None_iff)

lemma regular_map_of: "regular_map m \<Longrightarrow> map_of m k = Some v \<Longrightarrow> plain_key k \<and> regular v"
  by (auto simp: regular_map_def dest!: map_of_SomeD)

lemma set_update: "kv \<in> set (AList.update k v m) \<Longrightarrow> kv = (k, v) \<or> kv \<in> set m"
  by (induction m) (auto split: if_splits)

lemma regular_update: "regular_map m \<Longrightarrow> plain_key k \<Longrightarrow> regular v \<Longrightarrow> regular_map (AList.update k v m)"
  using distinct_update [of m k v] by (fastforce simp: regular_map_def dest: set_update)

lemma regular_delete: "regular_map m \<Longrightarrow> regular_map (AList.delete k m)"
  using distinct_delete [of m k] by (auto simp: regular_map_def AList.delete_eq)

lemma regular_leaf_plain: "regular_map m \<Longrightarrow> leaf (CMap m) p \<noteq> None \<Longrightarrow> plain_path p"
proof (induction p arbitrary: m)
  case (Cons k p)
  then obtain v where v: "map_of m k = Some v" "leaf v p \<noteq> None" by (auto split: option.splits)
  with Cons.prems have reg: "plain_key k" "regular v" by (auto dest: regular_map_of)
  have "plain_path p"
  proof (cases v)
    case (CMap n)
    with v reg Cons.IH [of n] show ?thesis by simp
  qed (use v in \<open>cases p; simp\<close>)+
  with reg show ?case by simp
qed simp


section \<open>Dotted paths\<close>

lemma plain_path_no_dot: "plain_path p \<Longrightarrow> \<forall>k \<in> set p. CHR ''.'' \<notin> set k"
  by (simp add: plain_key_def)

lemma dotted_inj: "plain_path p \<Longrightarrow> plain_path q \<Longrightarrow> p \<noteq> [] \<Longrightarrow> q \<noteq> [] \<Longrightarrow> dotted p = dotted q \<longleftrightarrow> p = q"
  unfolding dotted_def using Split_Join [OF _ plain_path_no_dot] by metis

lemma dotted_Nil_iff: "plain_path p \<Longrightarrow> dotted p = [] \<longleftrightarrow> p = []"
  by (cases p; cases "tl p") (auto simp: dotted_def plain_key_def)

lemma dotted_snoc: "plain_path p \<Longrightarrow> dotted (p @ [k]) = (if p = [] then k else dotted p @ ''.'' @ k)"
  by (cases "p = []") (simp_all add: dotted_def Join_snoc)

lemma dotted_append: "p \<noteq> [] \<Longrightarrow> q \<noteq> [] \<Longrightarrow> dotted (p @ q) = dotted p @ ''.'' @ dotted q"
proof (induction p rule: list_nonempty_induct)
  case (single k)
  then show ?case by (cases q) (simp_all add: dotted_def)
next
  case (cons k p)
  then show ?case by (cases p) (simp_all add: dotted_def)
qed

text \<open>Clearing below a dotted path clears exactly the paths below.\<close>

lemma dotted_prefix:
  assumes "plain_path p" "plain_path q" "p \<noteq> []" "q \<noteq> []"
  shows "dotted p = dotted q \<or> HasPrefix (dotted p) (dotted q @ ''.'') \<longleftrightarrow> prefix q p"
proof
  assume "prefix q p"
  then obtain r where r: "p = q @ r" by (auto elim: prefixE)
  show "dotted p = dotted q \<or> HasPrefix (dotted p) (dotted q @ ''.'')"
  proof (cases "r = []")
    case False
    then have "dotted p = (dotted q @ ''.'') @ dotted r" using r assms(4) by (simp add: dotted_append)
    then show ?thesis by (metis HasPrefix_append)
  qed (simp add: r)
next
  assume "dotted p = dotted q \<or> HasPrefix (dotted p) (dotted q @ ''.'')"
  then show "prefix q p"
  proof
    assume "HasPrefix (dotted p) (dotted q @ ''.'')"
    then obtain r where r: "dotted p = dotted q @ ''.'' @ r" by (auto simp: HasPrefix_iff_prefix elim: prefixE)
    have "Split (CHR ''.'') (dotted q @ CHR ''.'' # r) = q @ Split (CHR ''.'') r"
      using assms(4,2)
    proof (induction q rule: list_nonempty_induct)
      case (single k)
      then show ?case by (simp add: dotted_def Split_append_sep plain_key_def)
    next
      case (cons k q)
      then have "dotted (k # q) = k @ ''.'' @ dotted q" by (cases q) (simp_all add: dotted_def)
      then show ?case using cons by (simp add: Split_append_sep plain_key_def)
    qed
    moreover have "Split (CHR ''.'') (dotted p) = p"
      unfolding dotted_def by (rule Split_Join [OF assms(3) plain_path_no_dot [OF assms(1)]])
    ultimately show ?thesis using r by (metis append_Cons append_Nil prefixI)
  qed (use assms dotted_inj in \<open>metis prefix_order.refl\<close>)
qed


section \<open>Sources\<close>

text \<open>The recorded sources are read by path; every key of theirs is the dotted form of a plain path.\<close>

definition sourced :: "config_sources \<Rightarrow> string list \<Rightarrow> config_source option" where
  "sourced sources p = map_of sources (dotted p)"

definition proper_sources :: "config_sources \<Rightarrow> bool" where
  "proper_sources sources \<longleftrightarrow> (\<forall>k \<in> fst ` set sources. \<exists>p. p \<noteq> [] \<and> plain_path p \<and> k = dotted p)"

lemma proper_update: "proper_sources sources \<Longrightarrow> plain_path p \<Longrightarrow> p \<noteq> [] \<Longrightarrow> proper_sources (AList.update (dotted p) s sources)"
  unfolding proper_sources_def dom_update by auto

lemma proper_clear: "proper_sources sources \<Longrightarrow> proper_sources (clearSourcePrefix sources k)"
  unfolding proper_sources_def clearSourcePrefix_def by auto

lemma sourced_update:
  "plain_path p \<Longrightarrow> p \<noteq> [] \<Longrightarrow> plain_path q \<Longrightarrow> q \<noteq> [] \<Longrightarrow>
   sourced (AList.update (dotted q) s sources) p = (if p = q then Some s else sourced sources p)"
  by (simp add: sourced_def update_conv' dotted_inj)

lemma map_of_filter_key: "map_of (filter (\<lambda>(k, _). P k) m) x = (if P x then map_of m x else None)"
  by (induction m) auto

lemma sourced_clear:
  assumes "plain_path p" "p \<noteq> []" "plain_path q" "q \<noteq> []"
  shows "sourced (clearSourcePrefix sources (dotted q)) p = (if prefix q p then None else sourced sources p)"
  unfolding sourced_def clearSourcePrefix_def map_of_filter_key using dotted_prefix [OF assms(1,3,2,4)] by auto

text \<open>Assigning the sources of a value marks its leaves.\<close>

lemma assign_sourced:
  "regular v \<Longrightarrow> plain_path q \<Longrightarrow> q \<noteq> [] \<Longrightarrow> plain_path p \<Longrightarrow> p \<noteq> [] \<Longrightarrow>
   sourced (assignSources v (dotted q) sources s) p = (if \<exists>r. p = q @ r \<and> leaf v r \<noteq> None then Some s else sourced sources p)"
  "regular_map m \<Longrightarrow> plain_path q \<Longrightarrow> q \<noteq> [] \<Longrightarrow> plain_path p \<Longrightarrow> p \<noteq> [] \<Longrightarrow>
   sourced (assignMembers m (dotted q) sources s) p =
     (if \<exists>r. r \<noteq> [] \<and> p = q @ r \<and> leaf (CMap m) r \<noteq> None then Some s else sourced sources p)"
proof (induction v "dotted q" sources s and m "dotted q" sources s arbitrary: q and q rule: assignSources_assignMembers.induct)
  case (1 v sources s)
  show ?case
  proof (cases "is_map v")
    case True
    then obtain m where v: "v = CMap m" by (rule is_mapE)
    with 1 have m: "m \<noteq> []" "regular_map m" by simp_all
    then have "(\<exists>r. p = q @ r \<and> leaf v r \<noteq> None) \<longleftrightarrow> (\<exists>r. r \<noteq> [] \<and> p = q @ r \<and> leaf (CMap m) r \<noteq> None)"
      using v leaf.simps(11) [of m] by metis
    with 1 v m show ?thesis by (subst assignSources.simps) simp
  qed (use 1 in \<open>auto simp: assign_scalar leaf_scalar sourced_update\<close>)
next
  case (2 sources s)
  then show ?case by (auto simp: neq_Nil_conv)
next
  case (3 key nested object sources s)
  have key: "dotted q @ ''.'' @ key = dotted (q @ [key])" using 3 by (simp add: dotted_snoc)
  have first: "sourced (assignSources nested (dotted q @ ''.'' @ key) sources s) p =
      (if \<exists>r. p = (q @ [key]) @ r \<and> leaf nested r \<noteq> None then Some s else sourced sources p)"
    unfolding key by (rule 3(1) [OF key]) (use 3(3-) in auto)
  have rest: "sourced (assignMembers object (dotted q) (assignSources nested (dotted q @ ''.'' @ key) sources s) s) p =
      (if \<exists>r. r \<noteq> [] \<and> p = q @ r \<and> leaf (CMap object) r \<noteq> None then Some s
       else sourced (assignSources nested (dotted q @ ''.'' @ key) sources s) p)"
    by (rule 3(2) [OF refl]) (use 3(3-) in auto)
  have "(\<exists>r. r \<noteq> [] \<and> p = q @ r \<and> leaf (CMap ((key, nested) # object)) r \<noteq> None) \<longleftrightarrow>
      (\<exists>r. r \<noteq> [] \<and> p = q @ r \<and> leaf (CMap object) r \<noteq> None) \<or> (\<exists>r. p = (q @ [key]) @ r \<and> leaf nested r \<noteq> None)"
    using 3(3) by (auto simp: neq_Nil_conv split: if_splits)
  then show ?case unfolding assignMembers.simps rest first by auto
qed

lemma assign_proper:
  "proper_sources sources \<Longrightarrow> regular v \<Longrightarrow> plain_path q \<Longrightarrow> q \<noteq> [] \<Longrightarrow> proper_sources (assignSources v (dotted q) sources s)"
  "proper_sources sources \<Longrightarrow> regular_map m \<Longrightarrow> plain_path q \<Longrightarrow> q \<noteq> [] \<Longrightarrow> proper_sources (assignMembers m (dotted q) sources s)"
proof (induction v "dotted q" sources s and m "dotted q" sources s arbitrary: q and q rule: assignSources_assignMembers.induct)
  case (1 v sources s)
  then show ?case by (subst assignSources.simps) (cases v, auto intro: proper_update)
next
  case (3 key nested object sources s)
  then have "dotted q @ ''.'' @ key = dotted (q @ [key])" by (simp add: dotted_snoc)
  with 3(1) [OF this] 3(2) [OF refl] 3(3-) show ?case by simp
qed simp


section \<open>Merging one mapping into another\<close>

text \<open>What is known of a mapping below the path \<open>q\<close> and of the sources: the leaves are exactly what has a source.\<close>

definition attributed :: "string list \<Rightarrow> cmap \<Rightarrow> config_sources \<Rightarrow> bool" where
  "attributed q m sources \<longleftrightarrow>
     regular_map m \<and> (\<forall>p. p \<noteq> [] \<longrightarrow> plain_path p \<longrightarrow> (sourced sources (q @ p) \<noteq> None \<longleftrightarrow> leaf (CMap m) p \<noteq> None))"

definition merged :: "cmap \<Rightarrow> 'a option \<Rightarrow> 'a option \<Rightarrow> string list \<Rightarrow> 'a option" where
  "merged overlay new old p = (if new \<noteq> None then new else if covers (CMap overlay) p then None else old)"

text \<open>The effect of merging \<open>overlay\<close> below \<open>q\<close>.\<close>

definition merge_effect :: "string list \<Rightarrow> cmap \<Rightarrow> cmap \<Rightarrow> config_sources \<Rightarrow> config_source \<Rightarrow> cmap \<times> config_sources \<Rightarrow> bool" where
  "merge_effect q destination overlay sources s es \<longleftrightarrow>
     regular_map (fst es) \<and> (proper_sources sources \<longrightarrow> proper_sources (snd es))
     \<and> (\<forall>p. p \<noteq> [] \<longrightarrow> leaf (CMap (fst es)) p = merged overlay (leaf (CMap overlay) p) (leaf (CMap destination) p) p)
     \<and> (\<forall>p. p \<noteq> [] \<longrightarrow> plain_path p \<longrightarrow> sourced (snd es) (q @ p) =
          merged overlay (map_option (\<lambda>_. s) (leaf (CMap overlay) p)) (sourced sources (q @ p)) p)
     \<and> (\<forall>p. p \<noteq> [] \<longrightarrow> plain_path p \<longrightarrow> \<not> strict_prefix q p \<longrightarrow> sourced (snd es) p = sourced sources p)"

lemma merge_attributed:
  "merge_effect q destination overlay sources s es \<Longrightarrow> attributed q destination sources \<Longrightarrow> attributed q (fst es) (snd es)"
  unfolding merge_effect_def attributed_def merged_def by auto

text \<open>One key of the overlay is merged, then the others.\<close>

lemma merge_step:
  assumes rest0: "attributed q (AList.update key w destination) sources1 \<Longrightarrow>
      merge_effect q (AList.update key w destination) overlay sources1 s es"
    and attr: "attributed q destination sources"
    and w: "regular w" "plain_key key" "regular_map destination" "plain_path q" "map_of overlay key = None"
    and proper: "proper_sources sources \<Longrightarrow> proper_sources sources1"
    and leaves: "\<And>p. leaf w p = (if leaf v p \<noteq> None then leaf v p else if covers v p then None
        else case map_of destination key of None \<Rightarrow> None | Some d \<Rightarrow> leaf d p)"
    and srcs: "\<And>p. plain_path p \<Longrightarrow> sourced sources1 (q @ key # p) = (if leaf v p \<noteq> None then Some s
        else if covers v p then None else sourced sources (q @ key # p))"
    and others: "\<And>p. p \<noteq> [] \<Longrightarrow> plain_path p \<Longrightarrow> \<not> prefix (q @ [key]) p \<Longrightarrow> sourced sources1 p = sourced sources p"
  shows "merge_effect q destination ((key, v) # overlay) sources s es"
proof -
  have other: "sourced sources1 (q @ k # p) = sourced sources (q @ k # p)" if "k \<noteq> key" "plain_path (k # p)" for k p
    using others [of "q @ k # p"] that w(4) by auto
  have "sourced sources1 (q @ p) \<noteq> None \<longleftrightarrow> leaf (CMap (AList.update key w destination)) p \<noteq> None"
    if p: "p \<noteq> []" and plain: "plain_path p" for p
  proof -
    obtain k p' where kp: "p = k # p'" using p by (auto simp: neq_Nil_conv)
    have old: "sourced sources (q @ p) \<noteq> None \<longleftrightarrow> leaf (CMap destination) p \<noteq> None"
      using attr p plain by (simp add: attributed_def del: not_None_eq)
    show ?thesis
      using old other [of k p'] srcs [of p'] leaves [of p'] plain
      by (cases "k = key") (simp_all add: kp update_conv' del: not_None_eq)
  qed
  then have "attributed q (AList.update key w destination) sources1"
    using regular_update [OF w(3,2,1)] unfolding attributed_def by blast
  note r = rest0 [OF this, unfolded merge_effect_def]
  show ?thesis
  unfolding merge_effect_def
proof (intro conjI allI impI)
  show "regular_map (fst es)" using r by blast
  show "proper_sources sources \<Longrightarrow> proper_sources (snd es)" using r proper by blast
  fix p :: "string list" assume "p \<noteq> []"
  then obtain k p' where p: "p = k # p'" by (auto simp: neq_Nil_conv)
  have here: "leaf (CMap (fst es)) p = merged overlay (leaf (CMap overlay) p) (leaf (CMap (AList.update key w destination)) p) p"
    using r \<open>p \<noteq> []\<close> by blast
  show "leaf (CMap (fst es)) p = merged ((key, v) # overlay) (leaf (CMap ((key, v) # overlay)) p) (leaf (CMap destination) p) p"
  proof (cases "k = key")
    case True
    with here p w(5) leaves [of p'] show ?thesis by (simp add: merged_def update_conv' del: not_None_eq)
  next
    case False
    with here p show ?thesis by (simp add: merged_def update_conv' del: not_None_eq)
  qed
  {
    assume plain: "plain_path p"
    have "sourced (snd es) (q @ p) = merged overlay (map_option (\<lambda>_. s) (leaf (CMap overlay) p)) (sourced sources1 (q @ p)) p"
      using r \<open>p \<noteq> []\<close> plain by blast
    moreover have "k \<noteq> key \<Longrightarrow> sourced sources1 (q @ p) = sourced sources (q @ p)"
      using other [of k p'] plain p by simp
    ultimately show "sourced (snd es) (q @ p) = merged ((key, v) # overlay)
        (map_option (\<lambda>_. s) (leaf (CMap ((key, v) # overlay)) p)) (sourced sources (q @ p)) p"
      using p w(5) srcs [of p'] plain by (cases "k = key"; cases "leaf v p'") (simp_all add: merged_def del: not_None_eq)
  }
  assume "plain_path p" "\<not> strict_prefix q p"
  moreover have "\<not> prefix (q @ [key]) p" using \<open>\<not> strict_prefix q p\<close> by (auto elim!: prefixE simp: strict_prefix_def)
  ultimately show "sourced (snd es) p = sourced sources p" using r others \<open>p \<noteq> []\<close> by metis
qed
qed

lemma regular_has_leaf: "regular v \<Longrightarrow> \<exists>p. leaf v p \<noteq> None"
proof (induction v)
  case (CMap m)
  then obtain k v m' where m: "m = (k, v) # m'" by (cases m) auto
  with CMap.prems CMap.IH [of "(k, v)" v] obtain p where "leaf v p \<noteq> None" by auto
  then show ?case using m by (intro exI [of _ "k # p"]) simp
qed (auto intro: exI [of _ "[]"])

lemma applyMap_maps:
  "om \<noteq> [] \<Longrightarrow> map_of destination key = Some (CMap dm) \<Longrightarrow>
   applyMap destination ((key, CMap om) # overlay) pfx sources s =
     (let es = applyMap dm om (if pfx \<noteq> [] then pfx @ ''.'' @ key else key) sources s
      in applyMap (AList.update key (CMap (fst es)) destination) overlay pfx (snd es) s)"
  by (simp add: Let_def split_beta)

lemma applyMap_other:
  assumes "\<not> (is_map v \<and> (\<exists>dm. map_of destination key = Some (CMap dm)))"
  shows "applyMap destination ((key, v) # overlay) pfx sources s =
     (let path = (if pfx \<noteq> [] then pfx @ ''.'' @ key else key)
      in applyMap (AList.update key v destination) overlay pfx (assignSources v path (clearSourcePrefix sources path) s) s)"
  using assms by (auto simp: is_map_def Let_def split: cval.splits option.splits)

lemma merge_effect_nil: "regular_map destination \<Longrightarrow> merge_effect q destination [] sources s (destination, sources)"
proof -
  have "covers (CMap []) p \<longleftrightarrow> p = []" "p \<noteq> [] \<Longrightarrow> leaf (CMap []) p = None" for p by (cases p; simp)+
  then show "regular_map destination \<Longrightarrow> ?thesis" by (simp add: merge_effect_def merged_def)
qed

lemma applyMap_effect:
  "attributed q destination sources \<Longrightarrow> regular_map overlay \<Longrightarrow> plain_path q \<Longrightarrow>
   merge_effect q destination overlay sources s (applyMap destination overlay (dotted q) sources s)"
proof (induction overlay arbitrary: q destination sources rule: measure_induct_rule [where f = "\<lambda>m. size (CMap m)"])
  case (less overlay0)
  show ?case
  proof (cases overlay0)
    case Nil
    with less.prems show ?thesis by (simp add: merge_effect_nil attributed_def)
  next
    case (Cons kv overlay)
    obtain key v where kv: "kv = (key, v)" by fastforce
    have reg: "regular_map destination" "plain_key key" "regular v" "map_of overlay key = None" "regular_map overlay"
      using less.prems Cons kv by (simp_all add: attributed_def)
    have path: "(if dotted q \<noteq> [] then dotted q @ ''.'' @ key else key) = dotted (q @ [key])"
      using less.prems by (auto simp: dotted_snoc dotted_Nil_iff)
    have qkey: "plain_path (q @ [key])" "q @ [key] \<noteq> []" using less.prems reg by simp_all
    have attr: "sourced sources (q @ key # p) \<noteq> None \<longleftrightarrow> leaf (CMap destination) (key # p) \<noteq> None" if "plain_path p" for p
      using less.prems(1) that reg(2) by (simp add: attributed_def del: not_None_eq leaf.simps)
    have rest: "merge_effect q d overlay s1 s (applyMap d overlay (dotted q) s1 s)" if "attributed q d s1" for d s1
      using that less.prems reg by (intro less.IH) (simp_all add: Cons kv)
    show ?thesis
    proof (cases "is_map v \<and> (\<exists>dm. map_of destination key = Some (CMap dm))")
      case True
      then obtain om dm where maps: "v = CMap om" "map_of destination key = Some (CMap dm)" by (auto elim: is_mapE)
      have om: "om \<noteq> []" "regular_map om" and dm: "dm \<noteq> []" "regular_map dm"
        using reg maps regular_map_of [OF reg(1) maps(2)] by simp_all
      define es where "es = applyMap dm om (dotted (q @ [key])) sources s"
      have sub: "merge_effect (q @ [key]) dm om sources s es"
        unfolding es_def using attr dm(2) maps qkey om(2)
        by (intro less.IH) (simp_all add: Cons kv attributed_def del: not_None_eq)
      note sub = sub [unfolded merge_effect_def]
      obtain p where "leaf (CMap om) p \<noteq> None" using reg(3) maps(1) regular_has_leaf by blast
      moreover from this have "p \<noteq> []" using om(1) by auto
      ultimately have "leaf (CMap (fst es)) p \<noteq> None" "p \<noteq> []" using sub by (simp_all add: merged_def)
      then have nested: "regular (CMap (fst es))" using sub by (cases p) auto
      show ?thesis unfolding Cons kv maps(1) applyMap_maps [OF om(1) maps(2)] path Let_def es_def [symmetric]
      proof (rule merge_step [OF rest less.prems(1) nested reg(2,1) less.prems(3) reg(4)])
        show "proper_sources sources \<Longrightarrow> proper_sources (snd es)" using sub by blast
        show "leaf (CMap (fst es)) p = (if leaf (CMap om) p \<noteq> None then leaf (CMap om) p else if covers (CMap om) p then None
            else case map_of destination key of None \<Rightarrow> None | Some d \<Rightarrow> leaf d p)" for p
          using sub nested om(1) maps(2) by (cases "p = []") (simp_all add: merged_def)
        show "sourced (snd es) (q @ key # p) = (if leaf (CMap om) p \<noteq> None then Some s
            else if covers (CMap om) p then None else sourced sources (q @ key # p))" if plain: "plain_path p" for p
        proof (cases "p = []")
          case True
          have "sourced (snd es) (q @ [key]) = sourced sources (q @ [key])" using sub qkey by blast
          then show ?thesis using True attr [of "[]"] maps dm(1) om(1) by simp
        next
          case False
          then have "sourced (snd es) ((q @ [key]) @ p) =
              merged om (map_option (\<lambda>_. s) (leaf (CMap om) p)) (sourced sources ((q @ [key]) @ p)) p"
            using sub plain by blast
          then show ?thesis by (cases "leaf (CMap om) p") (simp_all add: merged_def)
        qed
        show "sourced (snd es) p = sourced sources p" if "p \<noteq> []" "plain_path p" "\<not> prefix (q @ [key]) p" for p
          using sub that by (metis strict_prefix_def)
      qed
    next
      case False
      have same: "leaf v p = (if leaf v p \<noteq> None then leaf v p else if covers v p then None
          else case map_of destination key of None \<Rightarrow> None | Some d \<Rightarrow> leaf d p)" for p
      proof (cases "is_map v")
        case True
        then obtain m where "v = CMap m" by (rule is_mapE)
        with False True have "\<And>d. map_of destination key = Some d \<Longrightarrow> \<not> is_map d" by (auto elim: is_mapE)
        with \<open>v = CMap m\<close> show ?thesis by (cases p) (auto simp: leaf_scalar split: option.splits)
      qed (simp add: covers_scalar)
      let ?s1 = "assignSources v (dotted (q @ [key])) (clearSourcePrefix sources (dotted (q @ [key]))) s"
      have assigned: "sourced ?s1 p = (if \<exists>r. p = (q @ [key]) @ r \<and> leaf v r \<noteq> None then Some s
          else if prefix (q @ [key]) p then None else sourced sources p)" if "p \<noteq> []" "plain_path p" for p
        unfolding assign_sourced(1) [OF reg(3) qkey that(2,1)] sourced_clear [OF that(2,1) qkey] by (rule refl)
      show ?thesis unfolding Cons kv applyMap_other [OF False] path Let_def
      proof (rule merge_step [OF rest less.prems(1) reg(3,2,1) less.prems(3) reg(4)])
        show "proper_sources sources \<Longrightarrow> proper_sources ?s1"
          by (rule assign_proper(1) [OF proper_clear reg(3) qkey])
        show "sourced ?s1 (q @ key # p) = (if leaf v p \<noteq> None then Some s
            else if covers v p then None else sourced sources (q @ key # p))" if plain: "plain_path p" for p
        proof -
          have "plain_path (q @ key # p)" using plain qkey by auto
          have "leaf v p = None \<Longrightarrow> \<not> covers v p \<Longrightarrow> sourced sources (q @ key # p) = None"
            using attr [OF plain] same [of p] by simp
          moreover have "sourced ?s1 (q @ key # p) = (if leaf v p \<noteq> None then Some s else None)"
            using assigned [of "q @ key # p"] \<open>plain_path (q @ key # p)\<close> by auto
          ultimately show ?thesis by simp
        qed
        show "sourced ?s1 p = sourced sources p" if "p \<noteq> []" "plain_path p" "\<not> prefix (q @ [key]) p" for p
          using assigned [OF that(1,2)] that(3) by auto
      qed (assumption | rule same)+
    qed
  qed
qed


section \<open>Edits and who decides\<close>

text \<open>What \<open>Resolve\<close> does to the configuration it builds: merge a layer, put a value at the top, drop a section.\<close>

datatype edit = Merge resolution_layer | Put string cval config_source | Drop string

definition performEdit :: "edit \<Rightarrow> cmap \<times> config_sources \<Rightarrow> cmap \<times> config_sources" where
  "performEdit e es = (case e of
     Merge layer \<Rightarrow> applyLayer (fst es) (snd es) layer
   | Put key v source \<Rightarrow> replaceTopLevel es key v source
   | Drop key \<Rightarrow> deleteTopLevel key es)"

definition regular_edit :: "edit \<Rightarrow> bool" where
  "regular_edit e = (case e of Merge layer \<Rightarrow> regular_map (rlValues layer) | Put key v _ \<Rightarrow> plain_key key \<and> regular v
     | Drop key \<Rightarrow> plain_key key)"

text \<open>Whether an edit has a say about a path, and the leaf it puts there.\<close>

definition says :: "edit \<Rightarrow> string list \<Rightarrow> bool" where
  "says e p = (case e of Merge layer \<Rightarrow> covers (CMap (rlValues layer)) p | Put key _ _ \<Rightarrow> hd p = key | Drop key \<Rightarrow> hd p = key)"

definition gives :: "edit \<Rightarrow> string list \<Rightarrow> (cval \<times> config_source) option" where
  "gives e p = (case e of
     Merge layer \<Rightarrow> map_option (\<lambda>v. (v, rlSource layer)) (leaf (CMap (rlValues layer)) p)
   | Put key v source \<Rightarrow> map_option (\<lambda>x. (x, source)) (leaf v (tl p))
   | Drop key \<Rightarrow> None)"

text \<open>The latest edit that has a say decides; the edits are given from the latest to the first.\<close>

fun decide :: "edit list \<Rightarrow> string list \<Rightarrow> (cval \<times> config_source) option" where
  "decide [] p = None"
| "decide (e # earlier) p = (if says e p then gives e p else decide earlier p)"

text \<open>The leaf at a path with its source.\<close>

definition leafWithSource :: "cmap \<times> config_sources \<Rightarrow> string list \<Rightarrow> (cval \<times> config_source) option" where
  "leafWithSource es p = (case (leaf (CMap (fst es)) p, sourced (snd es) p) of (Some v, Some s) \<Rightarrow> Some (v, s) | _ \<Rightarrow> None)"

definition settled :: "cmap \<times> config_sources \<Rightarrow> bool" where
  "settled es \<longleftrightarrow> attributed [] (fst es) (snd es) \<and> proper_sources (snd es)"

lemma settledI:
  assumes "regular_map (fst es)" "proper_sources (snd es)"
    and "\<And>p. p \<noteq> [] \<Longrightarrow> plain_path p \<Longrightarrow> sourced (snd es) p \<noteq> None \<longleftrightarrow> leaf (CMap (fst es)) p \<noteq> None"
  shows "settled es"
  using assms by (simp add: settled_def attributed_def del: not_None_eq)

lemma settledD:
  assumes "settled es"
  shows "regular_map (fst es)" "proper_sources (snd es)"
    "p \<noteq> [] \<Longrightarrow> plain_path p \<Longrightarrow> sourced (snd es) p \<noteq> None \<longleftrightarrow> leaf (CMap (fst es)) p \<noteq> None"
  using assms by (simp_all add: settled_def attributed_def del: not_None_eq)

lemma leaf_Cons_path: "leaf (CMap m) (k # p) = (case map_of m k of None \<Rightarrow> None | Some v \<Rightarrow> leaf v p)"
  by simp

lemma top_edit:
  assumes "settled es" "plain_key key" "regular_map m" "proper_sources sources"
    and "\<And>k p. leaf (CMap m) (k # p) = (if k = key then x p else leaf (CMap (fst es)) (k # p))"
    and "\<And>k p. plain_path (k # p) \<Longrightarrow> sourced sources (k # p) =
      (if k = key then map_option (\<lambda>_. s) (x p) else sourced (snd es) (k # p))"
  shows "settled (m, sources) \<and> (\<forall>p. p \<noteq> [] \<longrightarrow> plain_path p \<longrightarrow>
    leafWithSource (m, sources) p = (if hd p = key then map_option (\<lambda>v. (v, s)) (x (tl p)) else leafWithSource es p))"
proof (intro conjI allI impI)
  show "settled (m, sources)"
  proof (rule settledI)
    fix p :: "string list" assume "p \<noteq> []" "plain_path p"
    then show "sourced (snd (m, sources)) p \<noteq> None \<longleftrightarrow> leaf (CMap (fst (m, sources))) p \<noteq> None"
      using settledD(3) [OF assms(1), of p] by (cases p) (simp_all add: assms(5,6) del: not_None_eq leaf.simps)
  qed (use assms in simp_all)
  fix p :: "string list" assume "p \<noteq> []" "plain_path p"
  then show "leafWithSource (m, sources) p = (if hd p = key then map_option (\<lambda>v. (v, s)) (x (tl p)) else leafWithSource es p)"
    by (cases p; cases "x (tl p)") (simp_all add: leafWithSource_def assms(5,6) del: leaf.simps)
qed

lemma performEdit_settled:
  assumes "regular_edit e" "settled es"
  shows "settled (performEdit e es) \<and> (\<forall>p. p \<noteq> [] \<longrightarrow> plain_path p \<longrightarrow>
    leafWithSource (performEdit e es) p = (if says e p then gives e p else leafWithSource es p))"
proof (cases e)
  case (Merge layer)
  have "merge_effect [] (fst es) (rlValues layer) (snd es) (rlSource layer) (performEdit e es)"
    using applyMap_effect [of "[]" "fst es" "snd es" "rlValues layer" "rlSource layer"] assms
    by (simp add: Merge performEdit_def applyLayer_def settled_def regular_edit_def dotted_def)
  note effect = this
  have "settled (performEdit e es)"
    using merge_attributed [OF effect] effect assms(2) by (simp add: settled_def merge_effect_def)
  moreover have "leafWithSource (performEdit e es) p = (if says e p then gives e p else leafWithSource es p)" if "p \<noteq> []" "plain_path p" for p
  proof -
    have "leaf (CMap (fst (performEdit e es))) p = merged (rlValues layer) (leaf (CMap (rlValues layer)) p) (leaf (CMap (fst es)) p) p"
      "sourced (snd (performEdit e es)) p = merged (rlValues layer)
         (map_option (\<lambda>_. rlSource layer) (leaf (CMap (rlValues layer)) p)) (sourced (snd es) p) p"
      using effect that unfolding merge_effect_def by (blast, metis append_Nil)
    then show ?thesis using leaf_covers [of "CMap (rlValues layer)" p]
      by (cases "leaf (CMap (rlValues layer)) p") (auto simp: leafWithSource_def says_def gives_def Merge merged_def)
  qed
  ultimately show ?thesis by blast
next
  case (Put key v source)
  with assms have reg: "plain_key key" "regular v" by (simp_all add: regular_edit_def)
  note es = settledD [OF assms(2)]
  have key: "plain_path [key]" "[key] \<noteq> []" "dotted [key] = key" using reg by (simp_all add: dotted_def)
  let ?s1 = "assignSources v key (clearSourcePrefix (snd es) key) source"
  have "settled (AList.update key v (fst es), ?s1) \<and> (\<forall>p. p \<noteq> [] \<longrightarrow> plain_path p \<longrightarrow>
      leafWithSource (AList.update key v (fst es), ?s1) p = (if hd p = key then map_option (\<lambda>v. (v, source)) (leaf v (tl p)) else leafWithSource es p))"
  proof (rule top_edit [OF assms(2) reg(1) regular_update [OF es(1) reg]])
    show "proper_sources ?s1"
      using assign_proper(1) [OF proper_clear [OF es(2)] reg(2) key(1,2)] by (simp only: key(3))
    show "leaf (CMap (AList.update key v (fst es))) (k # p) = (if k = key then leaf v p else leaf (CMap (fst es)) (k # p))" for k p
      by (simp add: update_conv')
    show "sourced ?s1 (k # p) = (if k = key then map_option (\<lambda>_. source) (leaf v p) else sourced (snd es) (k # p))"
      if plain: "plain_path (k # p)" for k p
      using assign_sourced(1) [OF reg(2) key(1,2) plain, of "clearSourcePrefix (snd es) key" source]
        sourced_clear [OF plain _ key(1,2), of "snd es"]
      by (cases "leaf v p") (auto simp: key(3))
  qed
  then show ?thesis by (simp add: Put performEdit_def replaceTopLevel_def says_def gives_def)
next
  case (Drop key)
  with assms have reg: "plain_key key" by (simp add: regular_edit_def)
  note es = settledD [OF assms(2)]
  have key: "plain_path [key]" "[key] \<noteq> []" "dotted [key] = key" using reg by (simp_all add: dotted_def)
  have "settled (AList.delete key (fst es), clearSourcePrefix (snd es) key) \<and> (\<forall>p. p \<noteq> [] \<longrightarrow> plain_path p \<longrightarrow>
      leafWithSource (AList.delete key (fst es), clearSourcePrefix (snd es) key) p =
        (if hd p = key then map_option (\<lambda>v. (v, undefined)) None else leafWithSource es p))"
  proof (rule top_edit [OF assms(2) reg regular_delete [OF es(1)] proper_clear [OF es(2)]])
    show "leaf (CMap (AList.delete key (fst es))) (k # p) = (if k = key then None else leaf (CMap (fst es)) (k # p))" for k p
      by (simp add: delete_conv')
    show "sourced (clearSourcePrefix (snd es) key) (k # p) =
        (if k = key then map_option (\<lambda>_. undefined) None else sourced (snd es) (k # p))" if plain: "plain_path (k # p)" for k p
      using sourced_clear [OF plain _ key(1,2), of "snd es"] by (auto simp: key(3))
  qed
  then show ?thesis by (simp add: Drop performEdit_def deleteTopLevel_def says_def gives_def)
qed

lemma settled_Nil: "settled ([], [])"
  by (rule settledI) (auto simp: proper_sources_def sourced_def neq_Nil_conv)

lemma edits_decided:
  assumes "\<forall>e \<in> set edits. regular_edit e"
  shows "settled (fold performEdit edits ([], [])) \<and> (\<forall>p. p \<noteq> [] \<longrightarrow> plain_path p \<longrightarrow>
    leafWithSource (fold performEdit edits ([], [])) p = decide (rev edits) p)"
  using assms
proof (induction edits rule: rev_induct)
  case Nil
  then show ?case by (auto simp: settled_Nil leafWithSource_def sourced_def neq_Nil_conv)
next
  case (snoc e edits)
  then have "settled (fold performEdit edits ([], []))" "regular_edit e" by simp_all
  from performEdit_settled [OF this(2,1)] snoc show ?case by simp
qed

end
