(* ===== verification/Configuration_Project.thy ===== *)
theory Configuration_Project
  imports Configuration_Merge
begin

text \<open>
  \<^verbatim>\<open>src/config/project.go\<close>, \<open>network.go\<close>, \<open>validate.go\<close>: from the merged layers to the typed configuration, and what an
  operation requires of it.  \<open>time.ParseDuration\<close>, which computes with floating point, is an argument.
\<close>

section \<open>Fields\<close>

definition normalizeNamespace :: "string \<Rightarrow> string" where
  "normalizeNamespace v =
     (let parts = filter (\<lambda>p. p \<noteq> []) (map TrimSpace (Fields (CHR ''/'') (TrimSpace v)))
      in if parts = [] then ''/service'' else ''/'' @ Join ''/'' parts)"

definition sourceDescription :: "config_sources \<Rightarrow> string \<Rightarrow> string" where
  "sourceDescription sources field =
     (case map_of sources field of
        Some source \<Rightarrow> layer_text (csLayer source) @ '':'' @ csName source
      | None \<Rightarrow> ''unknown'')"

definition projectionError :: "string \<Rightarrow> config_sources \<Rightarrow> string \<Rightarrow> config_error" where
  "projectionError field sources message = cfgError ErrorProjection field (sourceDescription sources field) message False"

definition optionalMap :: "cmap \<Rightarrow> string \<Rightarrow> config_sources \<Rightarrow> config_error + (cmap \<times> bool)" where
  "optionalMap object key sources =
     (case setValue object key of
        None \<Rightarrow> Inr ([], False)
      | Some (CMap mapping) \<Rightarrow> Inr (mapping, True)
      | Some _ \<Rightarrow> Inl (projectionError key sources ''must be a mapping''))"

definition optionalString :: "cmap \<Rightarrow> string \<Rightarrow> string \<Rightarrow> config_sources \<Rightarrow> config_error + string" where
  "optionalString object key path sources =
     (case setValue object key of
        None \<Rightarrow> Inr []
      | Some (CStr t) \<Rightarrow> Inr t
      | Some _ \<Rightarrow> Inl (projectionError path sources ''must be a string''))"

text \<open>\<open>integer\<close>: conversions between 64-bit integers are the identity on the bits, so every integer type is accepted.\<close>

definition cfgInteger :: "cval \<Rightarrow> int option" where
  "cfgInteger v = (case v of CInt n \<Rightarrow> Some (sint n) | CInt64 n \<Rightarrow> Some (sint n) | CUint64 n \<Rightarrow> Some (sint n) | _ \<Rightarrow> None)"

fun firstString :: "config_sources \<Rightarrow> (cmap \<times> string \<times> string) list \<Rightarrow> config_error + string" where
  "firstString sources [] = Inr []"
| "firstString sources ((object, key, path) # rest) =
     (case setValue object key of
        None \<Rightarrow> firstString sources rest
      | Some (CStr t) \<Rightarrow> if t = [] then firstString sources rest else Inr t
      | Some _ \<Rightarrow> Inl (projectionError path sources ''must be a string''))"

fun authText :: "config_sources \<Rightarrow> (cmap \<times> string \<times> string) list \<Rightarrow> config_error + (string \<times> string) option" where
  "authText sources [] = Inr None"
| "authText sources ((object, key, path) # rest) =
     (case setValue object key of
        None \<Rightarrow> authText sources rest
      | Some (CStr t) \<Rightarrow>
          if t = [] then authText sources rest
          else if CHR '':'' \<in> set t then Inr (Some (Cut (CHR '':'') t))
          else Inl (projectionError path sources ''must be username:password'')
      | Some _ \<Rightarrow> Inl (projectionError path sources ''must be username:password''))"

fun authMapping :: "config_sources \<Rightarrow> (cmap \<times> string \<times> string) list \<Rightarrow> config_error + string \<times> string" where
  "authMapping sources [] = Inr ([], [])"
| "authMapping sources ((object, key, path) # rest) =
     (case setValue object key of
        None \<Rightarrow> authMapping sources rest
      | Some (CMap authentication) \<Rightarrow>
          andThen (optionalString authentication ''username'' (path @ ''.username'') sources) (\<lambda>username.
          andThen (optionalString authentication ''password'' (path @ ''.password'') sources) (\<lambda>password.
            if username \<noteq> [] \<or> password \<noteq> [] then Inr (username, password) else authMapping sources rest))
      | Some _ \<Rightarrow> Inl (projectionError path sources ''must be a mapping''))"

definition firstAuthentication :: "cmap \<Rightarrow> cmap \<Rightarrow> config_sources \<Rightarrow> config_error + string \<times> string" where
  "firstAuthentication ctl restapi sources =
     andThen (authText sources [(ctl, ''auth'', ''ctl.auth''), (restapi, ''auth'', ''restapi.auth'')])
       (\<lambda>found. case found of
          Some userAndPassword \<Rightarrow> Inr userAndPassword
        | None \<Rightarrow> authMapping sources [(ctl, ''authentication'', ''ctl.authentication''),
            (restapi, ''authentication'', ''restapi.authentication'')])"


section \<open>Endpoints\<close>

text \<open>The errors of these functions reach nobody but as their presence.\<close>

definition validatePort :: "string \<Rightarrow> bool" where
  "validatePort v = (case ParseInt v of None \<Rightarrow> False | Some port \<Rightarrow> 1 \<le> port \<and> port \<le> 65535)"

definition normalizePlainEndpoint :: "string \<Rightarrow> string option" where
  "normalizePlainEndpoint endpoint =
     (case SplitHostPort endpoint of
        Some (host, port) \<Rightarrow> if host = [] \<or> port = [] \<or> \<not> validatePort port then None else Some endpoint
      | None \<Rightarrow>
          if count_list endpoint (CHR '':'') > 1 then Some (JoinHostPort (Trim endpoint ''[]'') ''2379'')
          else if CHR '':'' \<in> set endpoint then
            (let (host, port) = Cut (CHR '':'') endpoint
             in if host = [] \<or> port = [] \<or> \<not> validatePort port then None else Some endpoint)
          else Some (endpoint @ '':2379''))"

definition normalizeEndpoint :: "string \<Rightarrow> string option" where
  "normalizeEndpoint endpoint =
     (if Contains endpoint ''://'' then
        (case urlParse endpoint of
           None \<Rightarrow> None
         | Some parsed \<Rightarrow>
             if Hostname parsed = [] \<or> uUser parsed \<noteq> None then None else normalizePlainEndpoint (uHost parsed))
      else normalizePlainEndpoint endpoint)"

fun endpointTexts :: "cval list \<Rightarrow> string list option" where
  "endpointTexts [] = Some []"
| "endpointTexts (v # vs) =
     (case v of CStr t \<Rightarrow> map_option (Cons t) (endpointTexts vs) | _ \<Rightarrow> None)"

fun normalizeEndpoints :: "string list \<Rightarrow> string list option" where
  "normalizeEndpoints [] = Some []"
| "normalizeEndpoints (e # es) =
     (let endpoint = TrimSpace e
      in if endpoint = [] then normalizeEndpoints es
         else (case normalizeEndpoint endpoint of
                 None \<Rightarrow> None
               | Some normalized \<Rightarrow> map_option (Cons normalized) (normalizeEndpoints es)))"

definition endpointList :: "cval \<Rightarrow> string list option" where
  "endpointList v =
     (case (case v of CStr t \<Rightarrow> Some (Split (CHR '','') t) | CList items \<Rightarrow> endpointTexts items
              | CStrs ts \<Rightarrow> Some ts | _ \<Rightarrow> None) of
        None \<Rightarrow> None
      | Some raw \<Rightarrow> normalizeEndpoints raw)"

definition rejectURLUserinfo :: "string \<Rightarrow> string option" where
  "rejectURLUserinfo v =
     (if \<not> Contains v ''://'' then None
      else (case urlParse v of
              None \<Rightarrow> Some ''must be a valid URL''
            | Some parsed \<Rightarrow>
                if uUser parsed \<noteq> None
                then Some ''userinfo credentials are not accepted; use protected username/password fields'' else None))"


section \<open>etcd\<close>

definition emptyEtcd3 :: etcd3_config where
  "emptyEtcd3 = \<lparr>ecConfigured = False, ecLocator = LocatorNone, ecEndpoints = [], ecURL = [], ecProxy = [], ecSRV = [],
     ecProtocol = ''http'', ecTLS = \<lparr>tcCAFile = [], tcCertFile = [], tcKeyFile = [], tcKeyPassword = Secret []\<rparr>,
     ecUsername = [], ecPassword = Secret []\<rparr>"

text \<open>The first of \<open>url\<close>, \<open>proxy\<close>, \<open>srv\<close> that is set.\<close>

fun textLocator :: "config_sources \<Rightarrow> cmap \<Rightarrow> (string \<times> locator_kind) list \<Rightarrow> etcd3_config \<Rightarrow> config_error + etcd3_config"
where
  "textLocator sources etcd [] out = Inr out"
| "textLocator sources etcd ((name, kind) # rest) out =
     (case setValue etcd name of
        None \<Rightarrow> textLocator sources etcd rest out
      | Some (CStr t) \<Rightarrow>
          if TrimSpace t = [] then Inl (projectionError (''etcd3.'' @ name) sources ''must be a non-empty string'')
          else (let out1 = out\<lparr>ecConfigured := True, ecLocator := kind\<rparr>
                in case kind of
                     LocatorURL \<Rightarrow> (case rejectURLUserinfo t of
                         Some e \<Rightarrow> Inl (projectionError ''etcd3.url'' sources e) | None \<Rightarrow> Inr (out1\<lparr>ecURL := t\<rparr>))
                   | LocatorProxy \<Rightarrow> (case rejectURLUserinfo t of
                         Some e \<Rightarrow> Inl (projectionError ''etcd3.proxy'' sources e) | None \<Rightarrow> Inr (out1\<lparr>ecProxy := t\<rparr>))
                   | LocatorSRV \<Rightarrow> Inr (out1\<lparr>ecSRV := t\<rparr>)
                   | _ \<Rightarrow> Inr out1)
      | Some _ \<Rightarrow> Inl (projectionError (''etcd3.'' @ name) sources ''must be a non-empty string''))"

text \<open>Else the first of \<open>hosts\<close>, \<open>host\<close> that is set.\<close>

fun listLocator :: "config_sources \<Rightarrow> cmap \<Rightarrow> (string \<times> locator_kind) list \<Rightarrow> etcd3_config \<Rightarrow> config_error + etcd3_config"
where
  "listLocator sources etcd [] out = Inr out"
| "listLocator sources etcd ((name, kind) # rest) out =
     (case setValue etcd name of
        None \<Rightarrow> listLocator sources etcd rest out
      | Some v \<Rightarrow>
          (case endpointList v of
             Some (e # es) \<Rightarrow> Inr (out\<lparr>ecConfigured := True, ecLocator := kind, ecEndpoints := e # es\<rparr>)
           | _ \<Rightarrow> Inl (projectionError (''etcd3.'' @ name) sources ''must contain one or more host endpoints'')))"

definition etcdProtocol :: "cmap \<Rightarrow> config_sources \<Rightarrow> config_error + string \<times> config_sources" where
  "etcdProtocol etcd sources =
     (case setValue etcd ''protocol'' of
        None \<Rightarrow> Inr (''http'', AList.update ''etcd3.protocol'' \<lparr>csLayer = LayerDefault, csName = ''Patroni default''\<rparr> sources)
      | Some (CStr protocol) \<Rightarrow>
          if protocol \<noteq> ''http'' \<and> protocol \<noteq> ''https''
          then Inl (projectionError ''etcd3.protocol'' sources ''must be http or https'') else Inr (protocol, sources)
      | Some _ \<Rightarrow> Inl (projectionError ''etcd3.protocol'' sources ''must be http or https''))"

definition etcdCredentials :: "cmap \<Rightarrow> config_sources \<Rightarrow> etcd3_config \<Rightarrow> config_error + etcd3_config" where
  "etcdCredentials etcd sources out =
     andThen (optionalString etcd ''cacert'' ''etcd3.cacert'' sources) (\<lambda>ca.
     andThen (optionalString etcd ''cert'' ''etcd3.cert'' sources) (\<lambda>cert.
     andThen (optionalString etcd ''key'' ''etcd3.key'' sources) (\<lambda>key.
     andThen (optionalString etcd ''key_password'' ''etcd3.key_password'' sources) (\<lambda>keyPassword.
     andThen (optionalString etcd ''username'' ''etcd3.username'' sources) (\<lambda>username.
     andThen (optionalString etcd ''password'' ''etcd3.password'' sources) (\<lambda>password.
       Inr (out\<lparr>ecTLS := \<lparr>tcCAFile = ca, tcCertFile = cert, tcKeyFile = key, tcKeyPassword = Secret keyPassword\<rparr>,
                ecUsername := username, ecPassword := Secret password\<rparr>)))))))"

text \<open>The sources are returned because the default protocol is entered into them.\<close>

definition projectEtcd3 :: "cmap \<Rightarrow> config_sources \<Rightarrow> config_error + etcd3_config \<times> config_sources" where
  "projectEtcd3 effective sources =
     andThen (optionalMap effective ''etcd3'' sources) (\<lambda>(etcd, ok).
       if \<not> ok then Inr (emptyEtcd3, sources)
       else andThen (etcdProtocol etcd sources) (\<lambda>(protocol, sources1).
            andThen (textLocator sources1 etcd
              [(''url'', LocatorURL), (''proxy'', LocatorProxy), (''srv'', LocatorSRV)] (emptyEtcd3\<lparr>ecProtocol := protocol\<rparr>)) (\<lambda>out.
            andThen (if ecConfigured out then Inr out
                     else listLocator sources1 etcd [(''hosts'', LocatorHosts), (''host'', LocatorHost)] out) (\<lambda>out1.
            andThen (etcdCredentials etcd sources1 out1) (\<lambda>out2. Inr (out2, sources1))))))"


section \<open>REST\<close>

definition projectREST :: "cmap \<Rightarrow> config_sources \<Rightarrow> config_error + rest_config" where
  "projectREST effective sources =
     andThen (optionalMap effective ''ctl'' sources) (\<lambda>(ctl, _).
     andThen (optionalMap effective ''restapi'' sources) (\<lambda>(restapi, _).
     andThen (case setValue ctl ''insecure'' of
                None \<Rightarrow> Inr False
              | Some (CBool b) \<Rightarrow> Inr b
              | Some _ \<Rightarrow> Inl (projectionError ''ctl.insecure'' sources ''must be a boolean'')) (\<lambda>insecure.
     andThen (firstString sources [(ctl, ''cacert'', ''ctl.cacert''), (restapi, ''cafile'', ''restapi.cafile'')]) (\<lambda>ca.
     andThen (firstString sources [(ctl, ''certfile'', ''ctl.certfile''), (restapi, ''certfile'', ''restapi.certfile'')]) (\<lambda>cert.
     andThen (firstString sources [(ctl, ''keyfile'', ''ctl.keyfile''), (restapi, ''keyfile'', ''restapi.keyfile'')]) (\<lambda>key.
     andThen (firstString sources [(ctl, ''keyfile_password'', ''ctl.keyfile_password''),
         (restapi, ''keyfile_password'', ''restapi.keyfile_password'')]) (\<lambda>keyPassword.
     andThen (firstAuthentication ctl restapi sources) (\<lambda>(username, password).
       Inr \<lparr>rcInsecure = insecure, rcCAFile = ca, rcCertFile = cert, rcKeyFile = key, rcKeyPassword = Secret keyPassword,
            rcUsername = username, rcPassword = Secret password\<rparr>))))))))"


section \<open>Network\<close>

definition second :: int where "second = 1000000000"

definition defaultNetwork :: network_config where
  "defaultNetwork = \<lparr>ncDNSLookupTimeout = 5 * second, ncDCSDialTimeout = 5 * second, ncDCSRequestTimeout = 10 * second,
     ncPatroniTimeout = 10 * second, ncPostgresTimeout = 30 * second, ncPostgresCloseTimeout = 5 * second\<rparr>"

definition networkError :: "config_document \<Rightarrow> string \<Rightarrow> string \<Rightarrow> config_error" where
  "networkError document field message = cfgError ErrorProjection field (dcSourceName document) message False"

definition networkFields :: "(string \<times> (int \<Rightarrow> network_config \<Rightarrow> network_config)) list" where
  "networkFields =
     [(''dns_timeout'', \<lambda>d n. n\<lparr>ncDNSLookupTimeout := d\<rparr>), (''dcs_dial_timeout'', \<lambda>d n. n\<lparr>ncDCSDialTimeout := d\<rparr>),
      (''dcs_request_timeout'', \<lambda>d n. n\<lparr>ncDCSRequestTimeout := d\<rparr>), (''patroni_timeout'', \<lambda>d n. n\<lparr>ncPatroniTimeout := d\<rparr>),
      (''postgres_timeout'', \<lambda>d n. n\<lparr>ncPostgresTimeout := d\<rparr>),
      (''postgres_close_timeout'', \<lambda>d n. n\<lparr>ncPostgresCloseTimeout := d\<rparr>)]"

fun projectNetwork :: "(string \<Rightarrow> int option) \<Rightarrow> config_document \<Rightarrow> cmap
    \<Rightarrow> (string \<times> (int \<Rightarrow> network_config \<Rightarrow> network_config)) list \<Rightarrow> network_config \<Rightarrow> config_error + network_config" where
  "projectNetwork parseDuration document network [] projected = Inr projected"
| "projectNetwork parseDuration document network ((key, assign) # rest) projected =
     (let bad = Inl (networkError document (extensionField (Some document) (''network.'' @ key)) ''must be a positive Go duration'')
      in case setValue network key of
           None \<Rightarrow> projectNetwork parseDuration document network rest projected
         | Some (CStr t) \<Rightarrow>
             if TrimSpace t = [] then bad
             else (case parseDuration (TrimSpace t) of
                     None \<Rightarrow> bad
                   | Some duration \<Rightarrow>
                       if duration \<le> 0 then bad
                       else projectNetwork parseDuration document network rest (assign duration projected))
         | Some _ \<Rightarrow> bad)"

definition NetworkConfig :: "(string \<Rightarrow> int option) \<Rightarrow> config_document option \<Rightarrow> config_error + network_config" where
  "NetworkConfig parseDuration document =
     (case document of
        None \<Rightarrow> Inl (cfgError ErrorProjection ''go_patroni.network'' [] ''document is nil'' False)
      | Some d \<Rightarrow>
          (case dcNetwork d of
             CNull \<Rightarrow> Inr defaultNetwork
           | CMap network \<Rightarrow> projectNetwork parseDuration d network networkFields defaultNetwork
           | _ \<Rightarrow> Inl (networkError d (extensionField document ''network'') ''must be a mapping'')))"


section \<open>The projection\<close>

text \<open>The sources of the result are copied before \<open>projectEtcd3\<close> enters the default protocol.\<close>

definition projectConfig :: "string \<Rightarrow> cmap \<Rightarrow> config_sources \<Rightarrow> config_error + config_resolved" where
  "projectConfig contextName effective sources =
     andThen (case setValue effective ''namespace'' of
                None \<Rightarrow> Inr ''/service''
              | Some (CStr namespace) \<Rightarrow> Inr (normalizeNamespace namespace)
              | Some _ \<Rightarrow> Inl (projectionError ''namespace'' sources ''must be a string'')) (\<lambda>namespace.
     andThen (case setValue effective ''scope'' of
                None \<Rightarrow> Inr []
              | Some (CStr scope) \<Rightarrow> Inr (TrimSpace scope)
              | Some _ \<Rightarrow> Inl (projectionError ''scope'' sources ''must be a string'')) (\<lambda>scope.
     andThen (optionalMap effective ''citus'' sources) (\<lambda>(citus, isCitus).
     andThen (if \<not> isCitus then Inr None
              else (case setValue citus ''group'' of
                      None \<Rightarrow> Inr None
                    | Some v \<Rightarrow> (case cfgInteger v of
                         Some number \<Rightarrow>
                           if number < 0 then Inl (projectionError ''citus.group'' sources ''must be a non-negative integer'')
                           else Inr (Some number)
                       | None \<Rightarrow> Inl (projectionError ''citus.group'' sources ''must be a non-negative integer'')))) (\<lambda>number.
     andThen (projectEtcd3 effective sources) (\<lambda>(etcd, sources1).
     andThen (projectREST effective sources1) (\<lambda>rest.
       Inr \<lparr>rvContext = contextName, rvNamespace = namespace, rvScope = scope, rvCitus = isCitus, rvGroup = number,
            rvEtcd3 = etcd, rvREST = rest, rvNetwork = \<lparr>ncDNSLookupTimeout = 0, ncDCSDialTimeout = 0, ncDCSRequestTimeout = 0,
              ncPatroniTimeout = 0, ncPostgresTimeout = 0, ncPostgresCloseTimeout = 0\<rparr>,
            rvWarnings = [], rvEffective = effective, rvSources = sources\<rparr>))))))"


section \<open>What an operation requires\<close>

datatype config_operation = OperationLocalVersion | OperationInspect | OperationDiscover | OperationClusterRead
  | OperationRESTWrite | OperationQuery | OperationOther string

record validation_error =
  veOperation :: config_operation
  veField :: string
  veSource :: "config_source option"
  veReason :: string

definition requires :: "config_operation \<Rightarrow> (bool \<times> bool) option" where
  "requires operation =
     (case operation of
        OperationDiscover \<Rightarrow> Some (True, False)
      | OperationClusterRead \<Rightarrow> Some (True, True)
      | OperationRESTWrite \<Rightarrow> Some (True, True)
      | OperationQuery \<Rightarrow> Some (True, True)
      | OperationOther _ \<Rightarrow> None
      | _ \<Rightarrow> Some (False, False))"

definition resolved_Validate :: "config_resolved \<Rightarrow> config_operation \<Rightarrow> string \<Rightarrow> validation_error option" where
  "resolved_Validate resolved operation explicitScope =
     (case requires operation of
        None \<Rightarrow> Some \<lparr>veOperation = operation, veField = ''operation'', veSource = None, veReason = ''unknown operation contract''\<rparr>
      | Some (needDCS, needScope) \<Rightarrow>
          if needDCS \<and> \<not> ecConfigured (rvEtcd3 resolved)
          then Some \<lparr>veOperation = operation, veField = ''etcd3'', veSource = SourceOf resolved ''etcd3'',
            veReason = ''an etcd3 url, proxy, srv, hosts, or host locator is required; other DCS backends are unsupported''\<rparr>
          else if needScope \<and> TrimSpace explicitScope = [] \<and> TrimSpace (rvScope resolved) = []
          then Some \<lparr>veOperation = operation, veField = ''scope'', veSource = SourceOf resolved ''scope'',
            veReason = ''configure scope or provide an explicit cluster target''\<rparr>
          else None)"

end
