(* ===== verification/Configuration_Resolve.thy ===== *)
theory Configuration_Resolve
  imports Configuration_Project
begin

text \<open>
  \<^verbatim>\<open>src/config/load.go\<close> and \<open>resolve.go\<close>: from a YAML text to a document, and from a document, the environment and the flags to
  the layers that apply and their merge.

  The YAML library is a parameter: \<open>ylDocuments\<close> gives the results of decoding the documents of a text one after the other,
  ending at the end of the text, \<open>ylDecode\<close> the map of a mapping node, if it can be decoded.  The file system and the process
  environment are parameters too.
\<close>

section \<open>Loading\<close>

datatype yaml_kind = DocumentNode | SequenceNode | MappingNode | ScalarNode | AliasNode

datatype yaml_node = YNode (ynKind: yaml_kind) (ynTag: string) (ynValue: string) (ynContent: "yaml_node list")

datatype yaml_result = YFail | YDoc yaml_node

record yaml_library =
  ylDocuments :: "string \<Rightarrow> yaml_result list"
  ylDecode :: "yaml_node \<Rightarrow> cmap option"

definition emptyDocumentNode :: yaml_node where
  "emptyDocumentNode = YNode DocumentNode [] [] [YNode MappingNode ''!!map'' [] []]"

text \<open>The contexts of the extension, in the order they are ranged over.\<close>

fun contextMaps :: "config_document \<Rightarrow> cmap \<Rightarrow> config_error + (string \<times> cmap) list" where
  "contextMaps document [] = Inr []"
| "contextMaps document ((name, rawContext) # contexts) =
     (case rawContext of
        CMap contextMap \<Rightarrow> andThen (contextMaps document contexts) (\<lambda>rest. Inr ((name, contextMap) # rest))
      | _ \<Rightarrow> Inl (cfgError ErrorProjection (extensionField (Some document) (''contexts.'' @ name)) (dcSourceName document)
                  ''must be a mapping'' False))"

definition extractSDKConfig :: "config_document \<Rightarrow> config_error + config_document" where
  "extractSDKConfig document0 =
     (let public = setValue (dcRoot document0) ''go_patroni''; legacy = setValue (dcRoot document0) ''boar'';
          fromLegacy = (public = None \<and> map_of (dcRoot document0) ''boar'' \<noteq> None);
          name = (if fromLegacy then ''boar'' else ''go_patroni'');
          document = document0\<lparr>dcExtensionName := name\<rparr>;
          fail = (\<lambda>field message. Inl (cfgError ErrorProjection field (dcSourceName document) message False));
          stripped = (\<lambda>d. d\<lparr>dcRoot := AList.delete ''boar'' (AList.delete ''go_patroni'' (dcRoot d))\<rparr>)
      in if public \<noteq> None \<and> legacy \<noteq> None
         then Inl (cfgError ErrorProjection ''go_patroni'' (dcSourceName document0)
                ''cannot be combined with the legacy boar extension'' False)
         else (case (if fromLegacy then legacy else public) of
           None \<Rightarrow> Inr (stripped document)
         | Some (CMap extension) \<Rightarrow>
             andThen (case setValue extension ''default_context'' of
                        None \<Rightarrow> Inr document
                      | Some (CStr n) \<Rightarrow>
                          if n = [] then fail (extensionField (Some document) ''default_context'') ''must be a non-empty string''
                          else Inr (document\<lparr>dcDefaultContext := n\<rparr>)
                      | Some _ \<Rightarrow> fail (extensionField (Some document) ''default_context'') ''must be a non-empty string'') (\<lambda>d1.
             andThen (case setValue extension ''contexts'' of
                        None \<Rightarrow> Inr d1
                      | Some (CMap contexts) \<Rightarrow> andThen (contextMaps d1 contexts) (\<lambda>cs. Inr (d1\<lparr>dcContexts := cs\<rparr>))
                      | Some _ \<Rightarrow> fail (extensionField (Some d1) ''contexts'') ''must be a mapping'') (\<lambda>d2.
               Inr (stripped (case map_of extension ''network'' of Some v \<Rightarrow> d2\<lparr>dcNetwork := v\<rparr> | None \<Rightarrow> d2))))
         | Some _ \<Rightarrow> fail name ''must be a mapping''))"

definition ParseDocument :: "yaml_library \<Rightarrow> string \<Rightarrow> string \<Rightarrow> config_error + config_document" where
  "ParseDocument yaml data sourceName =
     (let fail = (\<lambda>kind message cause. Inl (cfgError kind [] sourceName message cause));
          project = (\<lambda>rootNode.
            if ynKind rootNode \<noteq> MappingNode then fail ErrorRootType ''root must be a YAML mapping'' False
            else (case ylDecode yaml rootNode of
                    None \<Rightarrow> fail ErrorProjection ''root mapping cannot be projected'' True
                  | Some root \<Rightarrow> extractSDKConfig \<lparr>dcRoot = root, dcContexts = [], dcNetwork = CNull,
                      dcExtensionName = ''go_patroni'', dcDefaultContext = ''default'', dcSourceName = sourceName\<rparr>));
          single = (\<lambda>raw.
            if ynKind raw \<noteq> DocumentNode \<or> length (ynContent raw) \<noteq> 1
            then fail ErrorRootType ''root must be one YAML mapping document'' False
            else (let rootNode = hd (ynContent raw)
                  in project (if ynKind rootNode = ScalarNode \<and> ynTag rootNode = ''!!null''
                              then hd (ynContent emptyDocumentNode) else rootNode)))
      in case ylDocuments yaml data of
           [] \<Rightarrow> single emptyDocumentNode
         | [YDoc raw] \<Rightarrow> single raw
         | YDoc raw # YDoc _ # _ \<Rightarrow> fail ErrorMultipleDocuments ''multiple YAML documents are not supported'' False
         | YDoc raw # YFail # _ \<Rightarrow> fail ErrorSyntax ''invalid trailing YAML'' True
         | YFail # _ \<Rightarrow> fail ErrorSyntax ''invalid YAML'' True)"

text \<open>
  \<open>Load\<close>.  The context's error comes back as it is.  \<open>readFile\<close> tells a missing file (\<open>Inl True\<close>) from another failure;
  \<open>defaultPath\<close> is \<open>DefaultConfigPath\<close>, which depends on the operating system.
\<close>

record load_request =
  ldPath :: string
  ldEnvironment :: "environment option"

datatype load_error = Canceled plain_error | LoadFailed config_error

definition LoadDocument :: "yaml_library \<Rightarrow> ('w \<Rightarrow> plain_error option \<times> 'w) \<Rightarrow> (string \<Rightarrow> 'w \<Rightarrow> (bool + string) \<times> 'w)
    \<Rightarrow> string option \<Rightarrow> environment \<Rightarrow> load_request \<Rightarrow> 'w \<Rightarrow> (load_error + config_document) \<times> 'w" where
  "LoadDocument yaml ctxErr readFile defaultPath osEnvironment request w =
     (case ctxErr w of
        (Some e, w1) \<Rightarrow> (Inl (Canceled e), w1)
      | (None, w1) \<Rightarrow>
          (let environment = (case ldEnvironment request of None \<Rightarrow> osEnvironment | Some env \<Rightarrow> env);
               chosen = (if ldPath request \<noteq> [] then ldPath request
                         else (case environment ''PATRONICTL_CONFIG_FILE'' of Some selected \<Rightarrow> selected | None \<Rightarrow> []));
               explicit = (chosen \<noteq> []);
               parsed = (\<lambda>data path. case ParseDocument yaml data path of Inl e \<Rightarrow> Inl (LoadFailed e) | Inr d \<Rightarrow> Inr d)
           in case (if explicit then Some chosen else defaultPath) of
                None \<Rightarrow> (Inl (LoadFailed (cfgError ErrorNotFound ''PATRONICTL_CONFIG_FILE'' ''default''
                          ''cannot determine default patronictl config path'' True)), w1)
              | Some path \<Rightarrow>
                  (case readFile path w1 of
                     (Inl missing, w2) \<Rightarrow>
                       if missing \<and> \<not> explicit then (parsed [] path, w2)
                       else (Inl (LoadFailed (cfgError ErrorNotFound ''PATRONICTL_CONFIG_FILE'' path
                               ''configuration file is not readable'' True)), w2)
                   | (Inr data, w2) \<Rightarrow>
                       (case ctxErr w2 of
                          (Some e, w3) \<Rightarrow> (Inl (Canceled e), w3)
                        | (None, w3) \<Rightarrow> (parsed data path, w3)))))"


section \<open>Contexts\<close>

definition withoutExtends :: "cmap \<Rightarrow> cmap" where
  "withoutExtends input = AList.delete ''extends'' input"

definition contextError :: "config_document \<Rightarrow> string \<Rightarrow> string \<Rightarrow> config_error" where
  "contextError document suf message =
     cfgError ErrorContext (extensionField (Some document) (''contexts.'' @ suf)) (dcSourceName document) message False"

text \<open>The name a context extends, as \<open>contextLayers\<close> reads it.\<close>

definition parentName :: "cmap \<Rightarrow> unit + string option" where
  "parentName contextMap =
     (case setValue contextMap ''extends'' of
        None \<Rightarrow> Inr None
      | Some (CStr parent) \<Rightarrow> if TrimSpace parent = [] then Inl () else Inr (Some (TrimSpace parent))
      | Some _ \<Rightarrow> Inl ())"

definition defaultLayers :: "config_document \<Rightarrow> config_error + resolution_layer list" where
  "defaultLayers document =
     (let file = \<lparr>rlValues = dcRoot document, rlSource = \<lparr>csLayer = LayerFile, csName = dcSourceName document\<rparr>\<rparr>
      in case map_of (dcContexts document) ''default'' of
           None \<Rightarrow> Inr [file]
         | Some overlay \<Rightarrow>
             if setValue overlay ''extends'' \<noteq> None
             then Inl (contextError document ''default.extends'' ''default context cannot extend another context'')
             else Inr [file, \<lparr>rlValues = withoutExtends overlay, rlSource = \<lparr>csLayer = LayerContext, csName = ''default''\<rparr>\<rparr>])"

text \<open>The recursion ends because a name enters the stack only when it is a context that is not on it.\<close>

function contextLayers :: "config_document \<Rightarrow> string \<Rightarrow> string list \<Rightarrow> config_error + resolution_layer list" where
  "contextLayers document name stack =
     (if name \<in> set stack then Inl (contextError document (name @ ''.extends'') ''context inheritance cycle'')
      else if name = ''default'' then defaultLayers document
      else (case map_of (dcContexts document) name of
              None \<Rightarrow> Inl (contextError document name ''named context does not exist'')
            | Some contextMap \<Rightarrow>
                (let own = \<lparr>rlValues = withoutExtends contextMap, rlSource = \<lparr>csLayer = LayerContext, csName = name\<rparr>\<rparr>
                 in case parentName contextMap of
                      Inl _ \<Rightarrow> Inl (contextError document (name @ ''.extends'') ''must be a non-empty context name'')
                    | Inr None \<Rightarrow> Inr [own]
                    | Inr (Some parent) \<Rightarrow>
                        (case contextLayers document parent (stack @ [name]) of
                           Inl e \<Rightarrow> Inl e
                         | Inr parentLayers \<Rightarrow> Inr (parentLayers @ [own])))))"
  by pat_completeness auto

termination
proof (relation "measure (\<lambda>(document, name, stack). card (fst ` set (dcContexts document) - set stack))", simp, clarsimp)
  fix document :: config_document and name :: string and stack contextMap
  assume "name \<notin> set stack" "map_of (dcContexts document) name = Some contextMap"
  then have "name \<in> fst ` set (dcContexts document) - set stack" by (force dest: map_of_SomeD)
  then show "card (fst ` set (dcContexts document) - insert name (set stack)) < card (fst ` set (dcContexts document) - set stack)"
    by (intro psubset_card_mono) auto
qed

declare contextLayers.simps [simp del]


section \<open>The DCS locator of the environment and of a flag\<close>

definition patroniDCSSections :: "string list" where
  "patroniDCSSections = [''etcd'', ''etcd3'', ''consul'', ''zookeeper'', ''exhibitor'', ''kubernetes'', ''raft'']"

text \<open>The locator: the endpoint, the namespace (empty when it has none) and whether the scheme is missing.\<close>

definition dcsLocator :: "string \<Rightarrow> string \<Rightarrow> config_error + string \<times> string \<times> bool" where
  "dcsLocator v sourceName =
     (let raw = TrimSpace v;
          fail = (\<lambda>kind message cause. Inl (cfgError kind ''DCS_URL'' sourceName message cause))
      in if raw = [] then fail ErrorProjection ''must not be empty'' False
         else (let schemeLess = (\<not> Contains raw ''://'')
               in case urlParse (if schemeLess then ''etcd3://'' @ raw else raw) of
                    None \<Rightarrow> fail ErrorProjection ''cannot parse DCS locator'' True
                  | Some parsed \<Rightarrow>
                      if uScheme parsed \<noteq> ''etcd3'' then fail ErrorUnsupported ''only etcd3:// is supported'' False
                      else if uUser parsed \<noteq> None
                      then fail ErrorProjection ''userinfo credentials are not accepted; use protected config fields'' False
                      else if Hostname parsed = [] then fail ErrorProjection ''etcd3 host is required'' False
                      else (let port = (if PortOf parsed = [] then ''2379'' else PortOf parsed);
                                endpoint = (if Contains (Hostname parsed) '':'' then JoinHostPort (Hostname parsed) port
                                            else Hostname parsed @ '':'' @ port)
                            in Inr (endpoint, Trim (uPath parsed) ''/'', schemeLess))))"

definition schemeLessWarning :: config_warning where
  "schemeLessWarning = \<lparr>cwCode = WarningSchemeLessDCSURL, cwField = ''DCS_URL'',
     cwMessage = ''scheme-less DCS_URL is interpreted as etcd3 for compatibility''\<rparr>"

definition applyDCSURL :: "cmap \<times> config_sources \<Rightarrow> string \<Rightarrow> config_source
    \<Rightarrow> config_error + (cmap \<times> config_sources) \<times> config_warning option" where
  "applyDCSURL es v source =
     andThen (dcsLocator v (csName source)) (\<lambda>(endpoint, namespace, schemeLess).
       let es1 = fold deleteTopLevel patroniDCSSections es;
           es2 = replaceTopLevel es1 ''etcd3'' (CMap [(''host'', CStr endpoint), (''protocol'', CStr ''http'')]) source;
           es3 = (if namespace \<noteq> [] then replaceTopLevel es2 ''namespace'' (CStr namespace) source else es2)
       in Inr (es3, if schemeLess then Some schemeLessWarning else None))"


section \<open>Resolving\<close>

definition contextSelection :: "config_document option \<Rightarrow> environment \<Rightarrow> resolve_request \<Rightarrow> string" where
  "contextSelection document environment request =
     (let nonBlank = (\<lambda>t. if TrimSpace t \<noteq> [] then Some (TrimSpace t) else None);
          override = (case ovContext (rrOverrides request) of None \<Rightarrow> None | Some c \<Rightarrow> nonBlank c);
          selected = (\<lambda>key. case environment key of None \<Rightarrow> None | Some c \<Rightarrow> nonBlank c)
      in case override of
           Some c \<Rightarrow> c
         | None \<Rightarrow> (case nonBlank (rrContext request) of
             Some c \<Rightarrow> c
           | None \<Rightarrow> (case selected ''GO_PATRONI_CONTEXT'' of
               Some c \<Rightarrow> c
             | None \<Rightarrow> (case selected ''BOAR_CONTEXT'' of
                 Some c \<Rightarrow> c
               | None \<Rightarrow> DefaultContextName document))))"

text \<open>The DCS locators: of the environment when it is not blank, then of the flag.\<close>

definition applyLocators :: "environment \<Rightarrow> config_overrides \<Rightarrow> cmap \<times> config_sources
    \<Rightarrow> config_error + (cmap \<times> config_sources) \<times> config_warning list" where
  "applyLocators environment overrides es =
     andThen (case environment ''DCS_URL'' of
                None \<Rightarrow> Inr (es, None)
              | Some v \<Rightarrow> if TrimSpace v = [] then Inr (es, None)
                          else applyDCSURL es v \<lparr>csLayer = LayerEnvironment, csName = ''DCS_URL''\<rparr>) (\<lambda>(es1, warning1).
     andThen (case ovDCSURL overrides of
                None \<Rightarrow> Inr (es1, None)
              | Some v \<Rightarrow> applyDCSURL es1 v \<lparr>csLayer = LayerFlag, csName = ''--dcs-url''\<rparr>) (\<lambda>(es2, warning2).
       Inr (es2, (case warning1 of None \<Rightarrow> [] | Some x \<Rightarrow> [x]) @ (case warning2 of None \<Rightarrow> [] | Some x \<Rightarrow> [x]))))"

definition flagSource :: "string \<Rightarrow> config_source" where
  "flagSource name = \<lparr>csLayer = LayerFlag, csName = name\<rparr>"

definition applyFlags :: "config_overrides \<Rightarrow> cmap \<times> config_sources \<Rightarrow> cmap \<times> config_sources" where
  "applyFlags overrides es0 =
     (let es1 = (case ovNamespace overrides of None \<Rightarrow> es0
                 | Some v \<Rightarrow> replaceTopLevel es0 ''namespace'' (CStr v) (flagSource ''--namespace''));
          es2 = (case ovScope overrides of None \<Rightarrow> es1
                 | Some v \<Rightarrow> replaceTopLevel es1 ''scope'' (CStr v) (flagSource ''--scope''));
          es3 = (case ovGroup overrides of None \<Rightarrow> es2
                 | Some v \<Rightarrow> applyLayer (fst es2) (snd es2)
                     \<lparr>rlValues = [(''citus'', CMap [(''group'', CInt v)])], rlSource = flagSource ''--group''\<rparr>)
      in case ovInsecure overrides of None \<Rightarrow> es3
         | Some v \<Rightarrow> applyLayer (fst es3) (snd es3)
             \<lparr>rlValues = [(''ctl'', CMap [(''insecure'', CBool v)])], rlSource = flagSource ''--insecure''\<rparr>)"

definition defaultLayer :: resolution_layer where
  "defaultLayer = \<lparr>rlValues = [(''namespace'', CStr ''service'')],
     rlSource = \<lparr>csLayer = LayerDefault, csName = ''Patroni default''\<rparr>\<rparr>"

definition insecureWarning :: config_warning where
  "insecureWarning = \<lparr>cwCode = WarningInsecureRESTTLS, cwField = ''ctl.insecure'',
     cwMessage = ''Patroni REST TLS certificate verification is disabled; use only in an explicitly isolated environment''\<rparr>"

definition ResolveDocument :: "(string \<Rightarrow> int option) \<Rightarrow> environment \<Rightarrow> config_document option \<Rightarrow> resolve_request
    \<Rightarrow> config_error + config_resolved" where
  "ResolveDocument parseDuration osEnvironment document request =
     (case document of
        None \<Rightarrow> Inl (cfgError ErrorProjection [] [] ''document is nil'' False)
      | Some d \<Rightarrow>
         (let environment = (case rrEnvironment request of None \<Rightarrow> osEnvironment | Some env \<Rightarrow> env);
              contextName = contextSelection document environment request
          in andThen (contextLayers d contextName []) (\<lambda>layers.
             let es = fold (\<lambda>layer es. applyLayer (fst es) (snd es) layer) (defaultLayer # layers) ([], [])
             in andThen (applyLocators environment (rrOverrides request) es) (\<lambda>(es1, warnings).
                let es2 = applyFlags (rrOverrides request) es1
                in andThen (projectConfig contextName (fst es2) (snd es2)) (\<lambda>resolved.
                   andThen (NetworkConfig parseDuration document) (\<lambda>network.
                     Inr (resolved\<lparr>rvNetwork := network,
                       rvWarnings := warnings @ (if rcInsecure (rvREST resolved) then [insecureWarning] else [])\<rparr>)))))))"

end
