(* ===== verification/Configuration_Spec.thy ===== *)
theory Configuration_Spec
  imports Configuration_Merge_Spec Configuration_Resolve
begin

text \<open>
  What resolving a configuration means: which contexts contribute, and that of everything that contributes the latest
  decides each leaf, and is named as its source.
\<close>

section \<open>Inheritance between contexts\<close>

definition extends :: "config_document \<Rightarrow> string \<Rightarrow> string \<Rightarrow> bool" where
  "extends d name parent \<longleftrightarrow>
     name \<noteq> ''default'' \<and> (\<exists>cm. map_of (dcContexts d) name = Some cm \<and> parentName cm = Inr (Some parent))"

text \<open>The contexts that contribute to one, from the root of the inheritance to itself.\<close>

inductive lineage :: "config_document \<Rightarrow> string \<Rightarrow> string list \<Rightarrow> bool" for d where
  default: "defaultLayers d = Inr layers \<Longrightarrow> lineage d ''default'' [''default'']"
| root: "name \<noteq> ''default'' \<Longrightarrow> map_of (dcContexts d) name = Some cm \<Longrightarrow> parentName cm = Inr None \<Longrightarrow> lineage d name [name]"
| child: "extends d name parent \<Longrightarrow> lineage d parent ns \<Longrightarrow> lineage d name (ns @ [name])"

inductive_cases lineageE: "lineage d name ns"

definition own_layers :: "config_document \<Rightarrow> string \<Rightarrow> resolution_layer list" where
  "own_layers d name =
     (if name = ''default'' then (case defaultLayers d of Inr layers \<Rightarrow> layers | Inl _ \<Rightarrow> [])
      else (case map_of (dcContexts d) name of
              Some cm \<Rightarrow> [\<lparr>rlValues = withoutExtends cm, rlSource = \<lparr>csLayer = LayerContext, csName = name\<rparr>\<rparr>]
            | None \<Rightarrow> []))"

lemma own_layers_default [simp]: "defaultLayers d = Inr layers \<Longrightarrow> own_layers d ''default'' = layers"
  by (simp add: own_layers_def)

lemma own_layers_context: "name \<noteq> ''default'' \<Longrightarrow> map_of (dcContexts d) name = Some cm \<Longrightarrow>
    own_layers d name = [\<lparr>rlValues = withoutExtends cm, rlSource = \<lparr>csLayer = LayerContext, csName = name\<rparr>\<rparr>]"
  by (simp add: own_layers_def)

lemma defaultLayers_error:
  "defaultLayers d = Inl e \<Longrightarrow> ceKind e = ErrorContext \<and> ceMessage e = ''default context cannot extend another context''"
  by (auto simp: defaultLayers_def Let_def contextError_def cfgError_def split: option.splits if_splits)

lemma lineage_unique: "lineage d name ns \<Longrightarrow> lineage d name ms \<Longrightarrow> ms = ns"
proof (induction name ns arbitrary: ms rule: lineage.induct)
  case (default layers)
  from default.prems show ?case by (rule lineageE) (simp_all add: extends_def)
next
  case (root name cm)
  from root.prems show ?case by (rule lineageE) (use root.hyps in \<open>simp_all add: extends_def\<close>)
next
  case (child name parent ns)
  from child.prems show ?case
  proof (rule lineageE)
    fix parent' ns' assume "ms = ns' @ [name]" "extends d name parent'" "lineage d parent' ns'"
    moreover from this child.hyps(1) have "parent' = parent" by (auto simp: extends_def)
    ultimately show "ms = ns @ [name]" using child.IH by simp
  qed (use child.hyps(1) in \<open>simp_all add: extends_def\<close>)
qed

lemma lineage_last: "lineage d name ns \<Longrightarrow> ns \<noteq> [] \<and> last ns = name"
  by (induction rule: lineage.induct) simp_all

lemma lineage_part: "lineage d name ns \<Longrightarrow> x \<in> set ns \<Longrightarrow> \<exists>ms rest. ns = ms @ rest \<and> lineage d x ms"
proof (induction rule: lineage.induct)
  case (child name parent ns)
  then show ?case
  proof (cases "x = name")
    case True
    with lineage.child [OF child.hyps] show ?thesis by (metis append_Nil2)
  next
    case False
    with child.prems obtain ms rest where "ns = ms @ rest" "lineage d x ms" using child.IH by auto
    then show ?thesis by (metis append_assoc)
  qed
qed (use lineage.default lineage.root in \<open>metis append_Nil2 empty_iff empty_set set_ConsD\<close>)+

lemma lineage_distinct: "lineage d name ns \<Longrightarrow> distinct ns"
proof (induction rule: lineage.induct)
  case (child name parent ns)
  have "name \<notin> set ns"
  proof
    assume "name \<in> set ns"
    then obtain ms rest where "ns = ms @ rest" "lineage d name ms" using lineage_part [OF child.hyps(2)] by blast
    with lineage_unique [OF lineage.child [OF child.hyps]] show False by fastforce
  qed
  with child show ?case by simp
qed simp_all

lemma contextLayers_lineage:
  "contextLayers d name stack = Inr layers \<Longrightarrow>
   \<exists>ns. lineage d name ns \<and> set ns \<inter> set stack = {} \<and> layers = concat (map (own_layers d) ns)"
proof (induction d name stack arbitrary: layers rule: contextLayers.induct)
  case (1 d name stack)
  show ?case
  proof (cases "name = ''default''")
    case True
    with 1(2) show ?thesis
      by (subst (asm) contextLayers.simps)
        (auto split: if_splits intro!: exI [of _ "[''default'']"] lineage.default)
  next
    case False
    with 1(2) obtain cm where cm: "map_of (dcContexts d) name = Some cm" "name \<notin> set stack"
      by (subst (asm) contextLayers.simps) (auto split: if_splits option.splits)
    show ?thesis
    proof (cases "parentName cm")
      case (Inr parent)
      show ?thesis
      proof (cases parent)
        case None
        with 1(2) cm False Inr show ?thesis
          by (subst (asm) contextLayers.simps)
            (auto intro!: exI [of _ "[name]"] lineage.root simp: own_layers_context)
      next
        case (Some p)
        then obtain ps where ps: "contextLayers d p (stack @ [name]) = Inr ps"
          "layers = ps @ [\<lparr>rlValues = withoutExtends cm, rlSource = \<lparr>csLayer = LayerContext, csName = name\<rparr>\<rparr>]"
          using 1(2) cm False Inr by (subst (asm) contextLayers.simps) (auto simp: Let_def split: sum.splits)
        from 1(1) [OF cm(2) False cm(1) refl Inr Some this(1)] obtain ns
          where ns: "lineage d p ns" "set ns \<inter> set (stack @ [name]) = {}" "ps = concat (map (own_layers d) ns)" by blast
        with ps cm False Inr Some show ?thesis
          by (intro exI [of _ "ns @ [name]"]) (auto intro!: lineage.child simp: extends_def own_layers_context)
      qed
    qed (use 1(2) cm False in \<open>(subst (asm) contextLayers.simps, simp)\<close>)
  qed
qed

lemma lineage_contextLayers:
  "lineage d name ns \<Longrightarrow> set ns \<inter> set stack = {} \<Longrightarrow> contextLayers d name stack = Inr (concat (map (own_layers d) ns))"
proof (induction arbitrary: stack rule: lineage.induct)
  case (default layers)
  then show ?case by (subst contextLayers.simps) simp
next
  case (root name cm)
  then show ?case by (subst contextLayers.simps) (simp add: own_layers_context)
next
  case (child name parent ns)
  have "name \<notin> set ns" using lineage_distinct [OF lineage.child [OF child.hyps]] by simp
  with child.IH [of "stack @ [name]"] child.hyps child.prems show ?case
    by (subst contextLayers.simps) (auto simp: extends_def own_layers_context Let_def)
qed

text \<open>Why a context cannot be resolved: the chain of parents ends badly, or never.\<close>

definition broken :: "config_document \<Rightarrow> string \<Rightarrow> string \<Rightarrow> bool" where
  "broken d name message \<longleftrightarrow>
     (if name = ''default'' then message = ''default context cannot extend another context'' \<and> (\<exists>e. defaultLayers d = Inl e)
      else (case map_of (dcContexts d) name of
              None \<Rightarrow> message = ''named context does not exist''
            | Some cm \<Rightarrow> message = ''must be a non-empty context name'' \<and> parentName cm = Inl ()))
     \<or> message = ''context inheritance cycle'' \<and> (extends d)\<^sup>+\<^sup>+ name name"

lemma contextLayers_broken:
  "contextLayers d name stack = Inl e \<Longrightarrow> \<forall>x \<in> set stack. (extends d)\<^sup>+\<^sup>+ x name \<Longrightarrow>
   ceKind e = ErrorContext \<and> (\<exists>x. (extends d)\<^sup>*\<^sup>* name x \<and> broken d x (ceMessage e))"
proof (induction d name stack rule: contextLayers.induct)
  case (1 d name stack)
  have here: "broken d name (ceMessage e) \<Longrightarrow> \<exists>x. (extends d)\<^sup>*\<^sup>* name x \<and> broken d x (ceMessage e)" by blast
  consider (cycle) "name \<in> set stack" | (default) "name \<notin> set stack" "name = ''default''"
    | (absent) "name \<notin> set stack" "name \<noteq> ''default''" "map_of (dcContexts d) name = None"
    | (present) cm where "name \<notin> set stack" "name \<noteq> ''default''" "map_of (dcContexts d) name = Some cm"
    by fastforce
  then show ?case
  proof cases
    case cycle
    with 1(2,3) show ?thesis
      by (intro conjI here) (auto simp: contextError_def cfgError_def broken_def contextLayers.simps [of d name stack])
  next
    case default
    with 1(2) have "defaultLayers d = Inl e" by (simp add: contextLayers.simps [of d "''default''"])
    with default show ?thesis using defaultLayers_error [of d e]
      by (intro conjI here) (auto simp: broken_def)
  next
    case absent
    with 1(2) show ?thesis
      by (intro conjI here) (auto simp: contextError_def cfgError_def broken_def contextLayers.simps [of d name stack])
  next
    case present
    show ?thesis
    proof (cases "parentName cm")
      case (Inl u)
      with present 1(2) show ?thesis
        by (intro conjI here) (auto simp: contextError_def cfgError_def broken_def contextLayers.simps [of d name stack])
    next
      case (Inr parent)
      then obtain p where p: "parent = Some p" "contextLayers d p (stack @ [name]) = Inl e"
        using present 1(2) by (auto simp: contextLayers.simps [of d name stack] Let_def split: option.splits sum.splits)
      have ext: "extends d name p" using present Inr p by (simp add: extends_def)
      then have "\<forall>x \<in> set (stack @ [name]). (extends d)\<^sup>+\<^sup>+ x p" using 1(3) by (auto intro: tranclp.trancl_into_trancl)
      with 1(1) [OF present(1,2,3) refl Inr p] have
        "ceKind e = ErrorContext \<and> (\<exists>x. (extends d)\<^sup>*\<^sup>* p x \<and> broken d x (ceMessage e))" by blast
      with ext show ?thesis by (meson converse_rtranclp_into_rtranclp)
    qed
  qed
qed

text \<open>C38: Contexts are inherited without cycles. The layers of a context are those of its lineage, from the root of the inheritance
  down to the context itself, each context once: the root is the default context, which stands for the file and its own overlay,
  or a context that extends nothing, and every other is the one that extends the context before it. There are layers exactly if
  there is such a lineage. An error is a context error and names what is wrong with a context that is
  reached by extending: it does not exist, it names no proper parent, the default context extends another one, or it extends
  itself in a circle.\<close>

theorem contexts_inherited:
  "(contextLayers d name [] = Inr layers \<longleftrightarrow> (\<exists>ns. lineage d name ns \<and> layers = concat (map (own_layers d) ns)))
   \<and> (lineage d name ns \<longrightarrow> distinct ns \<and> last ns = name)
   \<and> (contextLayers d name [] = Inl e \<longrightarrow>
        ceKind e = ErrorContext \<and> (\<exists>x. (extends d)\<^sup>*\<^sup>* name x \<and> broken d x (ceMessage e)))"
  using contextLayers_lineage [of d name "[]" layers] lineage_contextLayers [of d name _ "[]"]
    contextLayers_broken [of d name "[]" e] lineage_distinct lineage_last
  by auto


section \<open>The layers that decide\<close>

definition regular_document :: "config_document \<Rightarrow> bool" where
  "regular_document d \<longleftrightarrow> regular_map (dcRoot d) \<and> (\<forall>nc \<in> set (dcContexts d). regular_map (snd nc))"

definition locator_edits :: "string \<Rightarrow> config_source \<Rightarrow> edit list" where
  "locator_edits v source =
     (case dcsLocator v (csName source) of
        Inl _ \<Rightarrow> []
      | Inr (endpoint, namespace, _) \<Rightarrow>
          map Drop patroniDCSSections
          @ [Put ''etcd3'' (CMap [(''host'', CStr endpoint), (''protocol'', CStr ''http'')]) source]
          @ (if namespace \<noteq> [] then [Put ''namespace'' (CStr namespace) source] else []))"

text \<open>From the earliest to the latest: the default, the lineage of the context, the environment, the flags.\<close>

definition environment_edits :: "environment \<Rightarrow> edit list" where
  "environment_edits env = (case env ''DCS_URL'' of None \<Rightarrow> []
     | Some v \<Rightarrow> if TrimSpace v = [] then [] else locator_edits v \<lparr>csLayer = LayerEnvironment, csName = ''DCS_URL''\<rparr>)"

definition url_flag_edits :: "config_overrides \<Rightarrow> edit list" where
  "url_flag_edits ov = (case ovDCSURL ov of None \<Rightarrow> [] | Some v \<Rightarrow> locator_edits v (flagSource ''--dcs-url''))"

definition flag_edits :: "config_overrides \<Rightarrow> edit list" where
  "flag_edits ov =
     url_flag_edits ov
     @ (case ovNamespace ov of None \<Rightarrow> [] | Some v \<Rightarrow> [Put ''namespace'' (CStr v) (flagSource ''--namespace'')])
     @ (case ovScope ov of None \<Rightarrow> [] | Some v \<Rightarrow> [Put ''scope'' (CStr v) (flagSource ''--scope'')])
     @ (case ovGroup ov of None \<Rightarrow> []
        | Some v \<Rightarrow> [Merge \<lparr>rlValues = [(''citus'', CMap [(''group'', CInt v)])], rlSource = flagSource ''--group''\<rparr>])
     @ (case ovInsecure ov of None \<Rightarrow> []
        | Some v \<Rightarrow> [Merge \<lparr>rlValues = [(''ctl'', CMap [(''insecure'', CBool v)])], rlSource = flagSource ''--insecure''\<rparr>])"

definition resolution_edits :: "resolution_layer list \<Rightarrow> environment \<Rightarrow> config_overrides \<Rightarrow> edit list" where
  "resolution_edits layers env ov = map Merge (defaultLayer # layers) @ environment_edits env @ flag_edits ov"

lemma plain_sections [simp]: "plain_key ''namespace''" "plain_key ''scope''" "plain_key ''etcd3''" "plain_key ''citus''"
  "plain_key ''ctl''" "plain_key ''host''" "plain_key ''protocol''" "plain_key ''group''" "plain_key ''insecure''"
  by (simp_all add: plain_key_def)

lemma locator_edits_regular: "e \<in> set (locator_edits v s) \<Longrightarrow> regular_edit e"
  by (auto simp: locator_edits_def regular_edit_def patroniDCSSections_def plain_key_def split: sum.splits prod.splits if_splits)

lemma flag_edits_regular: "e \<in> set (flag_edits ov) \<Longrightarrow> regular_edit e"
  by (auto simp: flag_edits_def url_flag_edits_def regular_edit_def split: option.splits dest: locator_edits_regular)

lemma environment_edits_regular: "e \<in> set (environment_edits env) \<Longrightarrow> regular_edit e"
  by (auto simp: environment_edits_def split: option.splits if_splits dest: locator_edits_regular)

lemma own_layers_regular: "regular_document d \<Longrightarrow> layer \<in> set (own_layers d name) \<Longrightarrow> regular_map (rlValues layer)"
  unfolding own_layers_def defaultLayers_def regular_document_def withoutExtends_def Let_def
  by (auto split: if_splits option.splits intro!: regular_delete dest!: map_of_SomeD map_of_SomeD [OF sym])

lemma layers_regular:
  assumes "regular_document d" "contextLayers d name [] = Inr layers" "layer \<in> set layers"
  shows "regular_map (rlValues layer)"
  using contextLayers_lineage [OF assms(2)] assms(3) own_layers_regular [OF assms(1)] by auto

lemma applyDCSURL_edits:
  "applyDCSURL es v source = Inr (es1, warning) \<Longrightarrow> es1 = fold performEdit (locator_edits v source) es"
  by (auto simp: applyDCSURL_def andThen_Inr_iff Let_def locator_edits_def performEdit_def patroniDCSSections_def)

lemma applyLocators_edits:
  assumes "applyLocators env ov es = Inr (es2, warnings)"
  shows "es2 = fold performEdit (url_flag_edits ov) (fold performEdit (environment_edits env) es)"
proof -
  from assms obtain es1 w1 w2 where
    first: "(case env ''DCS_URL'' of None \<Rightarrow> Inr (es, None) | Some v \<Rightarrow> if TrimSpace v = [] then Inr (es, None)
        else applyDCSURL es v \<lparr>csLayer = LayerEnvironment, csName = ''DCS_URL''\<rparr>) = Inr (es1, w1)" and
    then_: "(case ovDCSURL ov of None \<Rightarrow> Inr (es1, None)
        | Some v \<Rightarrow> applyDCSURL es1 v \<lparr>csLayer = LayerFlag, csName = ''--dcs-url''\<rparr>) = Inr (es2, w2)"
    unfolding applyLocators_def by (auto simp: andThen_Inr_iff)
  have "es1 = fold performEdit (environment_edits env) es"
    using first by (cases "env ''DCS_URL''") (auto simp: environment_edits_def dest: applyDCSURL_edits split: if_splits)
  moreover have "es2 = fold performEdit (url_flag_edits ov) es1"
    using then_ by (cases "ovDCSURL ov") (auto simp: url_flag_edits_def flagSource_def dest: applyDCSURL_edits)
  ultimately show ?thesis by simp
qed

lemma applyFlags_edits:
  "fold performEdit (flag_edits ov) es = applyFlags ov
     (fold performEdit (url_flag_edits ov) es)"
  unfolding flag_edits_def fold_append o_apply applyFlags_def Let_def
  by (cases "ovNamespace ov"; cases "ovScope ov"; cases "ovGroup ov"; cases "ovInsecure ov") (simp_all add: performEdit_def)

text \<open>Resolving is performing the edits and projecting the outcome.\<close>

lemma resolve_edits:
  assumes "ResolveDocument pd osEnv (Some d) rq = Inr r"
  obtains env layers where "env = (case rrEnvironment rq of None \<Rightarrow> osEnv | Some e \<Rightarrow> e)"
    "contextLayers d (rvContext r) [] = Inr layers" "rvContext r = contextSelection (Some d) env rq"
    "(rvEffective r, rvSources r) = fold performEdit (resolution_edits layers env (rrOverrides rq)) ([], [])"
    "\<exists>r0. projectConfig (rvContext r) (rvEffective r) (rvSources r) = Inr r0 \<and> rvNamespace r = rvNamespace r0
       \<and> rvScope r = rvScope r0 \<and> rvREST r = rvREST r0"
    "rcInsecure (rvREST r) \<longrightarrow> insecureWarning \<in> set (rvWarnings r)"
proof -
  define env where "env = (case rrEnvironment rq of None \<Rightarrow> osEnv | Some e \<Rightarrow> e)"
  define name where "name = contextSelection (Some d) env rq"
  from assms obtain layers es1 warnings r0 network where run: "contextLayers d name [] = Inr layers"
    "applyLocators env (rrOverrides rq)
       (fold (\<lambda>layer es. applyLayer (fst es) (snd es) layer) (defaultLayer # layers) ([], [])) = Inr (es1, warnings)"
    "projectConfig name (fst (applyFlags (rrOverrides rq) es1)) (snd (applyFlags (rrOverrides rq) es1)) = Inr r0"
    "r = r0\<lparr>rvNetwork := network, rvWarnings := warnings @ (if rcInsecure (rvREST r0) then [insecureWarning] else [])\<rparr>"
    unfolding ResolveDocument_def option.case Let_def env_def [symmetric] name_def [symmetric] by (auto simp: andThen_Inr_iff)
  have r0: "rvContext r0 = name" "rvEffective r0 = fst (applyFlags (rrOverrides rq) es1)"
    "rvSources r0 = snd (applyFlags (rrOverrides rq) es1)"
    using run(3) by (auto simp: projectConfig_def andThen_Inr_iff)
  have merges: "fold (\<lambda>layer es. applyLayer (fst es) (snd es) layer) ls es = fold performEdit (map Merge ls) es" for ls es
    by (induction ls arbitrary: es) (simp_all add: performEdit_def)
  have "fold performEdit (resolution_edits layers env (rrOverrides rq)) ([], []) = applyFlags (rrOverrides rq) es1"
    using applyLocators_edits [OF run(2)] unfolding resolution_edits_def fold_append o_apply merges applyFlags_edits
    by (simp only: fold_append o_apply)
  with run r0 show thesis by (intro that [OF env_def]) (auto simp: name_def)
qed

text \<open>The leaf at a path of a resolved configuration, with its source.\<close>

definition resolvedLeaf :: "config_resolved \<Rightarrow> string list \<Rightarrow> (cval \<times> config_source) option" where
  "resolvedLeaf r p = leafWithSource (rvEffective r, rvSources r) p"

text \<open>The configuration with its fields: what the layers decide.\<close>

definition decided_fields :: "config_resolved \<Rightarrow> bool" where
  "decided_fields r \<longleftrightarrow>
     rvScope r = (case resolvedLeaf r [''scope''] of Some (CStr t, _) \<Rightarrow> TrimSpace t | _ \<Rightarrow> [])
     \<and> rvNamespace r = (case resolvedLeaf r [''namespace''] of Some (CStr t, _) \<Rightarrow> normalizeNamespace t | _ \<Rightarrow> ''/service'')
     \<and> (rcInsecure (rvREST r) \<longrightarrow>
          (\<exists>s. resolvedLeaf r [''ctl'', ''insecure''] = Some (CBool True, s)) \<and> insecureWarning \<in> set (rvWarnings r))"

lemma view_leaf: "settled es \<Longrightarrow> p \<noteq> [] \<Longrightarrow> plain_path p \<Longrightarrow> leaf (CMap (fst es)) p = Some v \<Longrightarrow> \<exists>s. leafWithSource es p = Some (v, s)"
  using settledD(3) [of es p] by (auto simp: leafWithSource_def)

lemma view_top:
  assumes "settled (m, sources)" "plain_key k"
  shows "setValue m k = Some (CStr t) \<Longrightarrow> \<exists>s. leafWithSource (m, sources) [k] = Some (CStr t, s)"
    "setValue m k = None \<Longrightarrow> leafWithSource (m, sources) [k] = None \<or> (\<exists>s. leafWithSource (m, sources) [k] = Some (CNull, s))"
  using view_leaf [OF assms(1), of "[k]"] assms(2)
  by (auto simp: setValue_def leafWithSource_def split: option.splits if_splits)

lemma project_fields:
  assumes "settled (m, sources)" "projectConfig name m sources = Inr r"
  shows "rvScope r = (case leafWithSource (m, sources) [''scope''] of Some (CStr t, _) \<Rightarrow> TrimSpace t | _ \<Rightarrow> [])"
    "rvNamespace r = (case leafWithSource (m, sources) [''namespace''] of Some (CStr t, _) \<Rightarrow> normalizeNamespace t | _ \<Rightarrow> ''/service'')"
    "rcInsecure (rvREST r) \<Longrightarrow> \<exists>s. leafWithSource (m, sources) [''ctl'', ''insecure''] = Some (CBool True, s)"
proof -
  from assms(2) obtain namespace scope rest sources1 where p: "rvScope r = scope" "rvNamespace r = namespace" "rvREST r = rest"
    "(case setValue m ''namespace'' of None \<Rightarrow> Inr ''/service''
      | Some (CStr n) \<Rightarrow> Inr (normalizeNamespace n)
      | Some _ \<Rightarrow> Inl (projectionError ''namespace'' sources ''must be a string'')) = Inr namespace"
    "(case setValue m ''scope'' of None \<Rightarrow> Inr []
      | Some (CStr n) \<Rightarrow> Inr (TrimSpace n)
      | Some _ \<Rightarrow> Inl (projectionError ''scope'' sources ''must be a string'')) = Inr scope"
    "projectREST m sources1 = Inr rest"
    unfolding projectConfig_def by (auto simp: andThen_Inr_iff)
  show "rvScope r = (case leafWithSource (m, sources) [''scope''] of Some (CStr t, _) \<Rightarrow> TrimSpace t | _ \<Rightarrow> [])"
    using p(1,5) view_top [OF assms(1), of "''scope''"] by (fastforce split: option.splits cval.splits)
  show "rvNamespace r = (case leafWithSource (m, sources) [''namespace''] of Some (CStr t, _) \<Rightarrow> normalizeNamespace t | _ \<Rightarrow> ''/service'')"
    using p(2,4) view_top [OF assms(1), of "''namespace''"] by (fastforce split: option.splits cval.splits)
  assume "rcInsecure (rvREST r)"
  from p(6) obtain ctl ok insecure where parts: "optionalMap m ''ctl'' sources1 = Inr (ctl, ok)" "rcInsecure rest = insecure"
    "(case setValue ctl ''insecure'' of None \<Rightarrow> Inr False | Some (CBool b) \<Rightarrow> Inr b
      | Some _ \<Rightarrow> Inl (projectionError ''ctl.insecure'' sources1 ''must be a boolean'')) = Inr insecure"
    unfolding projectREST_def by (auto simp: andThen_Inr_iff)
  have "setValue ctl ''insecure'' = Some (CBool True)"
    using parts(2,3) p(3) \<open>rcInsecure (rvREST r)\<close> by (auto split: option.splits cval.splits)
  moreover from this have "setValue m ''ctl'' = Some (CMap ctl)"
    using parts(1) by (auto simp: optionalMap_def setValue_def split: option.splits cval.splits)
  ultimately have "setValue m ''ctl'' = Some (CMap ctl)" "setValue ctl ''insecure'' = Some (CBool True)" by blast+
  then have "leaf (CMap m) [''ctl'', ''insecure''] = Some (CBool True)" by (auto simp: setValue_def split: option.splits if_splits)
  then show "\<exists>s. leafWithSource (m, sources) [''ctl'', ''insecure''] = Some (CBool True, s)"
    using view_leaf [OF assms(1), of "[''ctl'', ''insecure'']"] by simp
qed

text \<open>C39: The last layer that speaks decides, and is named. For a document whose keys are proper (not empty, without a
  dot, once per mapping, no empty mapping inside), a resolved configuration has the selected context, and
  at every path its value and its named source are those of the latest of the default, the layers of the context, the locator
  and the flags that says anything about the path; a locator from the environment or a flag replaces the sections of all
  DCS kinds as a whole. A path has a source exactly if it has a value, nothing else has a source, and scope and namespace are
  those decided values, trimmed and normalized; verification of REST certificates is off only where the decided value says so,
  and then there is a warning.\<close>

theorem resolution_layered:
  assumes "regular_document d" "ResolveDocument pd osEnv (Some d) rq = Inr r"
  shows "\<exists>env layers. env = (case rrEnvironment rq of None \<Rightarrow> osEnv | Some e \<Rightarrow> e)
    \<and> rvContext r = contextSelection (Some d) env rq \<and> contextLayers d (rvContext r) [] = Inr layers
    \<and> (\<forall>p. p \<noteq> [] \<longrightarrow> plain_path p \<longrightarrow>
         resolvedLeaf r p = decide (rev (resolution_edits layers env (rrOverrides rq))) p
         \<and> (SourceOf r (dotted p) \<noteq> None \<longleftrightarrow> leaf (CMap (rvEffective r)) p \<noteq> None))
    \<and> (\<forall>k. SourceOf r k \<noteq> None \<longrightarrow> (\<exists>p. p \<noteq> [] \<and> plain_path p \<and> k = dotted p))
    \<and> decided_fields r"
  using resolve_edits [OF assms(2)]
proof cases
  case (1 env layers)
  have "\<forall>e \<in> set (resolution_edits layers env (rrOverrides rq)). regular_edit e"
    using layers_regular [OF assms(1) 1(2)] environment_edits_regular flag_edits_regular
    by (auto simp: resolution_edits_def regular_edit_def defaultLayer_def)
  from edits_decided [OF this] have settling: "settled (rvEffective r, rvSources r)"
    "p \<noteq> [] \<Longrightarrow> plain_path p \<Longrightarrow> resolvedLeaf r p = decide (rev (resolution_edits layers env (rrOverrides rq))) p" for p
    unfolding 1(4) [symmetric] resolvedLeaf_def by blast+
  moreover have "SourceOf r k \<noteq> None \<Longrightarrow> \<exists>p. p \<noteq> [] \<and> plain_path p \<and> k = dotted p" for k
    using settledD(2) [OF settling(1)] by (force simp: proper_sources_def SourceOf_def dest: map_of_SomeD)
  moreover have "decided_fields r"
    using 1(5,6) project_fields [OF settling(1)] unfolding decided_fields_def resolvedLeaf_def by metis
  ultimately show ?thesis using 1(1-3) settledD(3) [OF settling(1)]
    by (intro exI [of _ env] exI [of _ layers]) (auto simp: sourced_def SourceOf_def)
qed


section \<open>A configuration\<close>

definition demoDocument :: config_document where
  "demoDocument = \<lparr>dcRoot = [(''scope'', CStr ''demo''), (''namespace'', CStr ''db''),
       (''etcd3'', CMap [(''hosts'', CList [CStr ''10.0.0.1'', CStr ''10.0.0.2:2379'']), (''username'', CStr ''root'')])],
     dcContexts = [(''prod'', [(''extends'', CStr '' default ''), (''scope'', CStr ''prod'')]),
       (''lab'', [(''extends'', CStr ''prod''), (''ctl'', CMap [(''insecure'', CBool True)])]),
       (''a'', [(''extends'', CStr ''b'')]), (''b'', [(''extends'', CStr ''a'')])],
     dcNetwork = CNull, dcExtensionName = ''go_patroni'', dcDefaultContext = ''default'', dcSourceName = ''patroni.yml''\<rparr>"

definition demoResolve :: "string \<Rightarrow> config_error + config_resolved" where
  "demoResolve name = ResolveDocument (\<lambda>_. None) (\<lambda>_. None) (Some demoDocument)
     \<lparr>rrContext = name, rrEnvironment = Some (map_of [(''DCS_URL'', ''10.9.9.9'')]),
       rrOverrides = \<lparr>ovContext = None, ovDCSURL = None, ovNamespace = Some ''/x/y/'', ovScope = None, ovGroup = Some 2, ovInsecure = None\<rparr>\<rparr>"

definition demoResolved :: config_resolved where
  "demoResolved = (case demoResolve ''lab'' of Inr r \<Rightarrow> r | Inl _ \<Rightarrow> undefined)"

lemma demo_regular: "regular_document demoDocument"
  by (simp add: regular_document_def demoDocument_def regular_map_def plain_key_def)

lemma demo_resolves: "demoResolve ''lab'' = Inr demoResolved"
proof -
  have "\<not> isl (demoResolve ''lab'')" by code_simp
  then show ?thesis unfolding demoResolved_def by (cases "demoResolve ''lab''") simp_all
qed

theorem resolution_layered_witness:
  "decided_fields demoResolved \<and> rvScope demoResolved = ''prod'' \<and> rvNamespace demoResolved = ''/x/y''
   \<and> resolvedLeaf demoResolved [''etcd3'', ''host''] = Some (CStr ''10.9.9.9:2379'', \<lparr>csLayer = LayerEnvironment, csName = ''DCS_URL''\<rparr>)
   \<and> resolvedLeaf demoResolved [''etcd3'', ''username''] = None"
proof -
  have "rvScope demoResolved = ''prod''" "rvNamespace demoResolved = ''/x/y''"
    "resolvedLeaf demoResolved [''etcd3'', ''host''] = Some (CStr ''10.9.9.9:2379'', \<lparr>csLayer = LayerEnvironment, csName = ''DCS_URL''\<rparr>)"
    "resolvedLeaf demoResolved [''etcd3'', ''username''] = None"
    by code_simp+
  then show ?thesis using resolution_layered [OF demo_regular demo_resolves [unfolded demoResolve_def]] by blast
qed

theorem contexts_inherited_witness:
  "(\<exists>ns. lineage demoDocument ''lab'' ns \<and> distinct ns)
   \<and> (\<exists>e x. contextLayers demoDocument ''a'' [] = Inl e \<and> (extends demoDocument)\<^sup>*\<^sup>* ''a'' x \<and> broken demoDocument x (ceMessage e))"
proof
  have "\<not> isl (contextLayers demoDocument ''lab'' [])" by code_simp
  then obtain layers where "contextLayers demoDocument ''lab'' [] = Inr layers"
    by (cases "contextLayers demoDocument ''lab'' []") auto
  then show "\<exists>ns. lineage demoDocument ''lab'' ns \<and> distinct ns" using contexts_inherited by metis
  have "isl (contextLayers demoDocument ''a'' [])" by code_simp
  then obtain e where "contextLayers demoDocument ''a'' [] = Inl e"
    by (cases "contextLayers demoDocument ''a'' []") auto
  then show "\<exists>e x. contextLayers demoDocument ''a'' [] = Inl e \<and> (extends demoDocument)\<^sup>*\<^sup>* ''a'' x \<and> broken demoDocument x (ceMessage e)"
    using contexts_inherited by metis
qed


section \<open>Where the sources are lost\<close>

text \<open>
  Without the regularity of the document sources and leaves part: an empty mapping in a layer leaves the values below it in force and
  takes their sources away.
\<close>

lemma empty_mapping_loses_sources:
  defines "start \<equiv> applyLayer [] [] \<lparr>rlValues = [(''ctl'', CMap [(''insecure'', CBool True)])],
      rlSource = \<lparr>csLayer = LayerFile, csName = ''f''\<rparr>\<rparr>"
  shows "applyLayer (fst start) (snd start) \<lparr>rlValues = [(''ctl'', CMap [])], rlSource = \<lparr>csLayer = LayerContext, csName = ''c''\<rparr>\<rparr> =
    ([(''ctl'', CMap [(''insecure'', CBool True)])], [(''ctl'', \<lparr>csLayer = LayerContext, csName = ''c''\<rparr>)])"
  unfolding start_def by code_simp

text \<open>The default of \<open>etcd3.protocol\<close> is entered into a map nobody reads any more: the result does not name its source.\<close>

lemma default_protocol_without_source:
  "case ResolveDocument (\<lambda>_. None) (\<lambda>_. None) (Some demoDocument)
       \<lparr>rrContext = [], rrEnvironment = None, rrOverrides = \<lparr>ovContext = None, ovDCSURL = None, ovNamespace = None,
          ovScope = None, ovGroup = None, ovInsecure = None\<rparr>\<rparr> of
     Inl _ \<Rightarrow> False
   | Inr r \<Rightarrow> ecProtocol (rvEtcd3 r) = ''http'' \<and> SourceOf r ''etcd3.protocol'' = None
       \<and> SourceOf r ''etcd3.hosts'' \<noteq> None"
  by code_simp

end
