(* ===== verification/Go_Regexp.thy ===== *)
theory Go_Regexp
  imports Go_Strings
begin

text \<open>
  The regular expressions of \<open>regexp\<close>, as far as the source uses them: leftmost-first matching as a list of all matches in
  order of preference.  A text is a sequence of bytes; the classes used either are ASCII or contain every character outside
  ASCII, so matching byte by byte gives the matches of Go, which reads characters.
\<close>

section \<open>Expressions\<close>

text \<open>A class is a predicate on bytes and the encodings of its members outside ASCII.\<close>

datatype rx = RxEmpty | RxClass "char \<Rightarrow> bool" "string list" | RxSeq rx rx | RxAlt rx rx
  | RxStar bool rx | RxLineStart | RxLineEnd | RxWordBoundary

fun rxSeq :: "rx list \<Rightarrow> rx" where
  "rxSeq [] = RxEmpty"
| "rxSeq [r] = r"
| "rxSeq (r # rs) = RxSeq r (rxSeq rs)"

fun rxAlt :: "rx list \<Rightarrow> rx" where
  "rxAlt [] = RxClass (\<lambda>_. False) []"
| "rxAlt [r] = r"
| "rxAlt (r # rs) = RxAlt r (rxAlt rs)"

definition rxPlus :: "rx \<Rightarrow> rx" where
  "rxPlus r = RxSeq r (RxStar True r)"

definition rxMany :: "rx \<Rightarrow> rx" where
  "rxMany r = RxStar True r"

definition rxOptional :: "rx \<Rightarrow> rx" where
  "rxOptional r = RxAlt r RxEmpty"

text \<open>A literal under \<open>(?i)\<close>: U+017F folds to s, U+212A to k.\<close>

definition long_s :: string where "long_s = [char_of (0xC5 :: nat), char_of (0xBF :: nat)]"

definition kelvin :: string where "kelvin = [char_of (0xE2 :: nat), char_of (0x84 :: nat), char_of (0xAA :: nat)]"

definition rxFold :: "char \<Rightarrow> rx" where
  "rxFold c = RxClass (\<lambda>d. lower_char d = lower_char c)
     (if lower_char c = CHR ''s'' then [long_s] else if lower_char c = CHR ''k'' then [kelvin] else [])"

definition rxText :: "string \<Rightarrow> rx" where
  "rxText s = rxSeq (map rxFold s)"

definition rxExact :: "string \<Rightarrow> rx" where
  "rxExact s = rxSeq (map (\<lambda>c. RxClass (\<lambda>d. d = c) []) s)"

definition rxOf :: "string \<Rightarrow> rx" where
  "rxOf cs = RxClass (\<lambda>c. c \<in> set cs) []"

definition rxNot :: "string \<Rightarrow> rx" where
  "rxNot cs = RxClass (\<lambda>c. c \<notin> set cs) []"

text \<open>The class \<open>\s\<close>.\<close>

definition rx_blank :: string where
  "rx_blank = map (\<lambda>n. char_of (n :: nat)) [9, 10, 12, 13, 32]"

definition newline :: char where "newline = char_of (10 :: nat)"

definition rxSpaces :: rx where "rxSpaces = rxMany (rxOf rx_blank)"

definition word_char :: "char \<Rightarrow> bool" where
  "word_char c = (is_alnum c \<or> c = CHR ''_'')"


section \<open>Matching\<close>

text \<open>
  All matches at the beginning of a text, the preferred first: the byte before the rest and the rest.  \<open>before\<close> is the byte
  before the text.
\<close>

definition wordBefore :: "char option \<Rightarrow> bool" where
  "wordBefore b = (case b of None \<Rightarrow> False | Some c \<Rightarrow> word_char c)"

function rxMatch :: "rx \<Rightarrow> char option \<Rightarrow> string \<Rightarrow> (char option \<times> string) list" where
  "rxMatch RxEmpty b s = [(b, s)]"
| "rxMatch (RxClass P ms) b s =
     (case s of c # cs \<Rightarrow> if P c then [(Some c, cs)] else [] | [] \<Rightarrow> [])
     @ concat (map (\<lambda>m. if m \<noteq> [] \<and> HasPrefix s m then [(Some (last m), drop (length m) s)] else []) ms)"
| "rxMatch (RxSeq p q) b s =
     concat (map (\<lambda>(b', t). if length t \<le> length s then rxMatch q b' t else []) (rxMatch p b s))"
| "rxMatch (RxAlt p q) b s = rxMatch p b s @ rxMatch q b s"
| "rxMatch (RxStar greedy p) b s =
     (let longer = concat (map (\<lambda>(b', t). if length t < length s then rxMatch (RxStar greedy p) b' t else []) (rxMatch p b s))
      in if greedy then longer @ [(b, s)] else (b, s) # longer)"
| "rxMatch RxLineStart b s = (if b = None \<or> b = Some newline then [(b, s)] else [])"
| "rxMatch RxLineEnd b s = (if s = [] \<or> hd s = newline then [(b, s)] else [])"
| "rxMatch RxWordBoundary b s =
     (if wordBefore b \<noteq> (s \<noteq> [] \<and> word_char (hd s)) then [(b, s)] else [])"
  by pat_completeness auto
termination
  by (relation "measures [\<lambda>(_, _, s). length s, \<lambda>(r, _, _). size r]") auto

declare rxMatch.simps(5) [simp del]

text \<open>An expression in three parts: what stands before the replaced part, the part, what follows it.\<close>

record rx_pattern =
  rpBefore :: rx
  rpReplaced :: rx
  rpAfter :: rx

text \<open>The preferred match at the beginning of a text: the rests after the three parts.\<close>

definition rxFirst :: "rx_pattern \<Rightarrow> char option \<Rightarrow> string \<Rightarrow> (string \<times> string \<times> char option \<times> string) option" where
  "rxFirst p b s =
     (case concat (map (\<lambda>(b1, s1). concat (map (\<lambda>(b2, s2). map (\<lambda>(b3, s3). (s1, s2, b3, s3)) (rxMatch (rpAfter p) b2 s2))
                 (rxMatch (rpReplaced p) b1 s1)))
             (rxMatch (rpBefore p) b s)) of
        [] \<Rightarrow> None
      | m # _ \<Rightarrow> Some m)"

text \<open>
  \<open>ReplaceAllString\<close> and \<open>ReplaceAllStringFunc\<close> for an expression that matches no empty text: \<open>f\<close> gets the three parts of
  the leftmost match, and the search goes on behind it.
\<close>

function rxReplaceAll :: "rx_pattern \<Rightarrow> (string \<Rightarrow> string \<Rightarrow> string \<Rightarrow> string) \<Rightarrow> char option \<Rightarrow> string \<Rightarrow> string" where
  "rxReplaceAll p f b s =
     (case rxFirst p b s of
        Some (s1, s2, b3, s3) \<Rightarrow>
          if length s3 < length s then
            f (take (length s - length s1) s) (take (length s1 - length s2) s1) (take (length s2 - length s3) s2)
              @ rxReplaceAll p f b3 s3
          else (case s of [] \<Rightarrow> [] | c # cs \<Rightarrow> c # rxReplaceAll p f (Some c) cs)
      | None \<Rightarrow> (case s of [] \<Rightarrow> [] | c # cs \<Rightarrow> c # rxReplaceAll p f (Some c) cs))"
  by pat_completeness auto
termination
  by (relation "measure (\<lambda>(_, _, _, s). length s)") auto

declare rxReplaceAll.simps [simp del]


section \<open>What a match is\<close>

lemma rxMatch_suffix: "(b', t) \<in> set (rxMatch r b s) \<Longrightarrow> suffix t s"
proof (induction r b s arbitrary: b' t rule: rxMatch.induct)
  case (2 P ms b s)
  then show ?case by (auto simp: suffix_drop split: list.splits if_splits intro: suffix_ConsI)
next
  case (3 p q b s)
  from 3(3) obtain b1 t1 where m: "(b1, t1) \<in> set (rxMatch p b s)" "length t1 \<le> length s" "(b', t) \<in> set (rxMatch q b1 t1)"
    by (fastforce split: if_splits)
  from 3(1) [OF m(1)] 3(2) [OF m(1) refl m(2,3)] show ?case by (rule suffix_order.trans [rotated])
next
  case (5 g p b s)
  from 5(3) consider "t = s" | (more) b1 t1 where "(b1, t1) \<in> set (rxMatch p b s)" "length t1 < length s"
      "(b', t) \<in> set (rxMatch (RxStar g p) b1 t1)"
  proof -
    have "(b', t) = (b, s) \<or> (b', t) \<in> set (concat (map (\<lambda>(b', t). if length t < length s
        then rxMatch (RxStar g p) b' t else []) (rxMatch p b s)))"
      using 5(3) unfolding rxMatch.simps(5) [of g p b s] Let_def by (auto simp del: set_concat set_map split: if_splits)
    then show thesis using that by (auto split: if_splits)
  qed
  then show ?case
  proof cases
    case (more b1 t1)
    from 5(1) [OF more(1)] 5(2) [OF more(1) refl more(2,3)] show ?thesis by (rule suffix_order.trans [rotated])
  qed simp
qed (auto split: if_splits)

lemma rxFirst_parts:
  assumes "rxFirst p b s = Some (s1, s2, b3, s3)"
  shows "s = take (length s - length s1) s @ take (length s1 - length s2) s1 @ take (length s2 - length s3) s2 @ s3"
proof -
  have cut: "suffix t u \<Longrightarrow> take (length u - length t) u @ t = u" for t u :: string
    by (auto elim!: suffixE)
  have "(s1, s2, b3, s3) \<in> set (concat (map (\<lambda>(b1, s1). concat (map (\<lambda>(b2, s2). map (\<lambda>(b3, s3). (s1, s2, b3, s3))
      (rxMatch (rpAfter p) b2 s2)) (rxMatch (rpReplaced p) b1 s1))) (rxMatch (rpBefore p) b s)))"
    using assms by (auto simp: rxFirst_def simp del: set_concat split: list.splits)
  then obtain b1 b2 where "(b1, s1) \<in> set (rxMatch (rpBefore p) b s)" "(b2, s2) \<in> set (rxMatch (rpReplaced p) b1 s1)"
    "(b3, s3) \<in> set (rxMatch (rpAfter p) b2 s2)"
    by auto
  then have "suffix s1 s" "suffix s2 s1" "suffix s3 s2" by (auto dest: rxMatch_suffix)
  then show ?thesis using cut by metis
qed

end
