(* ===== verification/Secret_Redaction.thy ===== *)
theory Secret_Redaction
  imports Configuration Go_Regexp
begin

text \<open>
  \<^verbatim>\<open>src/internal/secret/value.go\<close>: the sanitizer of diagnostics, and what it guarantees: no known secret survives it.
\<close>

section \<open>The patterns\<close>

definition rxJoined :: "string \<Rightarrow> string \<Rightarrow> rx" where
  "rxJoined a b = rxSeq [rxText a, rxOptional (rxOf ''_-''), rxText b]"

definition single_quote :: char where "single_quote = char_of (39 :: nat)"
definition double_quote :: char where "double_quote = char_of (34 :: nat)"

definition rxQuoted :: "char \<Rightarrow> rx" where
  "rxQuoted q = rxSeq [rxOf [q], rxMany (rxNot [q]), rxOf [q]]"

definition line_breaks :: string where "line_breaks = [char_of (13 :: nat), char_of (10 :: nat)]"

definition authorizationPattern :: rx_pattern where
  "authorizationPattern = \<lparr>
     rpBefore = rxSeq [rxOptional (rxText ''proxy-''), rxText ''authorization'', rxSpaces, rxText '':'', rxSpaces,
       rxAlt [rxText ''bearer'', rxText ''basic''], rxPlus (rxOf rx_blank)],
     rpReplaced = rxPlus (rxNot (rx_blank @ '',;'')), rpAfter = RxEmpty\<rparr>"

definition cookieHeaderPattern :: rx_pattern where
  "cookieHeaderPattern = \<lparr>
     rpBefore = rxSeq [rxAlt [rxText ''set-cookie'', rxText ''cookie''], rxSpaces, rxText '':'', rxSpaces],
     rpReplaced = rxPlus (rxNot line_breaks), rpAfter = RxEmpty\<rparr>"

definition uriPasswordPattern :: rx_pattern where
  "uriPasswordPattern = \<lparr>
     rpBefore = rxSeq [RxClass (\<lambda>c. is_alnum c \<and> \<not> is_digit c) [long_s, kelvin],
       rxMany (RxClass (\<lambda>c. is_alnum c \<or> c \<in> set ''+.-'') [long_s, kelvin]), rxText ''://'',
       rxPlus (rxNot (rx_blank @ ''/:@'')), rxText '':''],
     rpReplaced = rxPlus (rxNot (rx_blank @ ''@/'')), rpAfter = rxText ''@''\<rparr>"

definition dsnPasswordPattern :: rx_pattern where
  "dsnPasswordPattern = \<lparr>
     rpBefore = rxSeq [RxWordBoundary, rxText ''password'', rxSpaces, rxText ''='', rxSpaces],
     rpReplaced = rxAlt [rxQuoted single_quote, rxQuoted double_quote, rxPlus (rxNot (rx_blank @ '';''))], rpAfter = RxEmpty\<rparr>"

definition keyValueSecretPattern :: rx_pattern where
  "keyValueSecretPattern = \<lparr>
     rpBefore = rxSeq [RxWordBoundary,
       rxAlt [rxText ''password'', rxText ''passwd'', rxText ''pwd'', rxText ''token'', rxJoined ''access'' ''token'',
         rxJoined ''refresh'' ''token'', rxText ''secret'', rxJoined ''api'' ''key'', rxJoined ''access'' ''key'',
         rxJoined ''client'' ''secret'', rxJoined ''session'' ''key''], rxSpaces, rxText ''='', rxSpaces],
     rpReplaced = rxAlt [rxQuoted single_quote, rxQuoted double_quote, rxPlus (rxNot (rx_blank @ '',;&''))], rpAfter = RxEmpty\<rparr>"

definition secretKeys :: rx where
  "secretKeys = rxAlt [rxText ''password'', rxText ''passwd'', rxText ''pwd'', rxText ''token'', rxJoined ''access'' ''token'',
     rxJoined ''refresh'' ''token'', rxText ''secret'', rxText ''authorization'', rxText ''cookie'', rxJoined ''api'' ''key'',
     rxJoined ''access'' ''key'', rxJoined ''client'' ''secret'', rxJoined ''session'' ''key'', rxJoined ''private'' ''key'']"

definition yamlSecretPattern :: rx_pattern where
  "yamlSecretPattern = \<lparr>
     rpBefore = rxSeq [RxLineStart, rxSpaces, secretKeys, rxSpaces, rxText '':'', rxSpaces],
     rpReplaced = rxMany (rxNot [newline]), rpAfter = RxLineEnd\<rparr>"

definition jsonSecretPattern :: rx_pattern where
  "jsonSecretPattern = \<lparr>
     rpBefore = rxSeq [rxOf [double_quote], secretKeys, rxOf [double_quote], rxSpaces, rxText '':'', rxSpaces, rxOf [double_quote]],
     rpReplaced = rxMany (rxNot [double_quote]), rpAfter = rxOf [double_quote]\<rparr>"

definition privateKeyPattern :: rx_pattern where
  "privateKeyPattern = \<lparr>
     rpBefore = RxEmpty,
     rpReplaced = rxSeq [rxExact ''-----BEGIN '', rxMany (rxNot (line_breaks @ ''-'')), rxExact ''PRIVATE KEY-----'',
       RxStar False (RxClass (\<lambda>_. True) []),
       rxExact ''-----END '', rxMany (rxNot (line_breaks @ ''-'')), rxExact ''PRIVATE KEY-----''],
     rpAfter = RxEmpty\<rparr>"


section \<open>Redacting a text\<close>

text \<open>The replacement \<open>${1}[REDACTED]${3}\<close> and the function given to \<open>ReplaceAllStringFunc\<close>.\<close>

definition redactMiddle :: "string \<Rightarrow> string \<Rightarrow> string \<Rightarrow> string" where
  "redactMiddle p m a = p @ Redacted @ a"

definition redactLine :: "string \<Rightarrow> string \<Rightarrow> string \<Rightarrow> string" where
  "redactLine p m a =
     (let line = p @ m @ a; rest = dropWhile (\<lambda>c. c \<noteq> CHR '':'') line
      in if rest = [] then line
         else (let v = TrimSpace (drop 1 rest)
               in if v = [] \<or> v = ''null'' \<or> v = ''~'' then line
                  else takeWhile (\<lambda>c. c \<noteq> CHR '':'') line @ '':'' @ '' '' @ Redacted))"

definition redactPatterns :: "string \<Rightarrow> string" where
  "redactPatterns t0 =
     (let t1 = rxReplaceAll authorizationPattern redactMiddle None t0;
          t2 = rxReplaceAll cookieHeaderPattern redactMiddle None t1;
          t3 = rxReplaceAll uriPasswordPattern redactMiddle None t2;
          t4 = rxReplaceAll dsnPasswordPattern redactMiddle None t3;
          t5 = rxReplaceAll keyValueSecretPattern redactMiddle None t4;
          t6 = rxReplaceAll yamlSecretPattern redactLine None t5;
          t7 = rxReplaceAll jsonSecretPattern redactMiddle None t6
      in rxReplaceAll privateKeyPattern redactMiddle None t7)"

definition knownTexts :: "secret list \<Rightarrow> string list" where
  "knownTexts known = sort_key (\<lambda>v. - int (length v)) (map Reveal (filter IsSet known))"

definition Redact :: "string \<Rightarrow> secret list \<Rightarrow> string" where
  "Redact t known = redactPatterns (fold (\<lambda>v t. ReplaceAll t v Redacted) (knownTexts known) t)"


section \<open>Cutting out pieces\<close>

text \<open>
  A text is a splicing of another if it is that text with some pieces replaced by markers.  The two markers are
  \<open>[REDACTED]\<close> and the same behind a blank.
\<close>

definition marker :: "string \<Rightarrow> bool" where
  "marker m \<longleftrightarrow> m = Redacted \<or> m = '' '' @ Redacted"

inductive spliced :: "string \<Rightarrow> string \<Rightarrow> bool" where
  whole: "spliced s s"
| cut: "marker m \<Longrightarrow> spliced y out \<Longrightarrow> spliced (x @ w @ y) (x @ m @ out)"

lemma spliced_append: "spliced s out \<Longrightarrow> spliced (x @ s) (x @ out)"
proof (induction rule: spliced.induct)
  case (cut m y out x' w)
  from spliced.cut [OF cut.hyps, of "x @ x'" w] show ?case by simp
qed (rule spliced.whole)

lemma spliced_Cons: "spliced s out \<Longrightarrow> spliced (c # s) (c # out)"
  using spliced_append [of s out "[c]"] by simp

lemma ReplaceAll_cases:
  obtains (empty) "s = []" "ReplaceAll s v q = []"
  | (hit) rest where "v \<noteq> []" "s = v @ rest" "ReplaceAll s v q = q @ ReplaceAll rest v q"
  | (miss) c rest where "s = c # rest" "v = [] \<or> \<not> prefix v s" "ReplaceAll s v q = c # ReplaceAll rest v q"
proof (cases "s = []")
  case True
  then have "ReplaceAll s v q = []" by (subst ReplaceAll.simps) simp
  with True show thesis by (rule empty)
next
  case False
  show thesis
  proof (cases "v \<noteq> [] \<and> HasPrefix s v")
    case True
    then have "s = v @ drop (length v) s" by (metis HasPrefix_def append_take_drop_id)
    moreover have "ReplaceAll s v q = q @ ReplaceAll (drop (length v) s) v q" using True False by (subst ReplaceAll.simps) simp
    ultimately show thesis using True by (intro hit) auto
  next
    case ne: False
    then have "ReplaceAll s v q = hd s # ReplaceAll (tl s) v q" using False by (subst ReplaceAll.simps) auto
    moreover have "s = hd s # tl s" using False by simp
    moreover have "v = [] \<or> \<not> prefix v s" using ne by (simp add: HasPrefix_iff_prefix)
    ultimately show thesis using miss by blast
  qed
qed

lemma spliced_ReplaceAll: "spliced s (ReplaceAll s v Redacted)"
proof (induction s rule: length_induct)
  case (1 s)
  show ?case
  proof (cases s v Redacted rule: ReplaceAll_cases)
    case empty
    then show ?thesis by (simp add: spliced.whole)
  next
    case (hit rest)
    with 1 have "spliced rest (ReplaceAll rest v Redacted)" by simp
    from spliced.cut [OF _ this, of Redacted "[]" v] hit show ?thesis by (simp add: marker_def)
  next
    case (miss c rest)
    with 1 have "spliced rest (ReplaceAll rest v Redacted)" by simp
    with miss show ?thesis by (simp add: spliced_Cons)
  qed
qed

lemma spliced_redactMiddle: "spliced rest out \<Longrightarrow> spliced (p @ m @ a @ rest) (redactMiddle p m a @ out)"
  using spliced.cut [OF _ spliced_append [of rest out a], of Redacted p m] by (simp add: redactMiddle_def marker_def)

lemma spliced_redactLine: "spliced rest out \<Longrightarrow> spliced (p @ m @ a @ rest) (redactLine p m a @ out)"
proof -
  assume rest: "spliced rest out"
  let ?line = "p @ m @ a"
  let ?tail = "dropWhile (\<lambda>c. c \<noteq> CHR '':'') ?line"
  show ?thesis
  proof (cases "redactLine p m a = ?line")
    case True
    then show ?thesis using spliced_append [OF rest, of ?line] by simp
  next
    case False
    then have tail: "?tail \<noteq> []" and line: "redactLine p m a = takeWhile (\<lambda>c. c \<noteq> CHR '':'') ?line @ '':'' @ '' '' @ Redacted"
      by (auto simp: redactLine_def Let_def split: if_splits)
    have "hd ?tail = CHR '':''" using hd_dropWhile [OF tail] by blast
    then have "?line = takeWhile (\<lambda>c. c \<noteq> CHR '':'') ?line @ '':'' @ drop 1 ?tail"
      using tail by (metis append_Cons append_Nil drop0 drop_Suc One_nat_def list.collapse takeWhile_dropWhile_id)
    with line obtain x y where xy: "?line = x @ '':'' @ y" "redactLine p m a = x @ '':'' @ '' '' @ Redacted" by blast
    then have "p @ m @ a @ rest = (x @ '':'') @ y @ rest" by (metis append.assoc)
    moreover have "redactLine p m a @ out = (x @ '':'') @ ('' '' @ Redacted) @ out" by (simp add: xy(2))
    moreover have "marker ('' '' @ Redacted)" by (simp add: marker_def)
    ultimately show ?thesis using spliced.cut [OF _ rest] by metis
  qed
qed

lemma spliced_rxReplaceAll:
  assumes f: "\<And>p m a rest out. spliced rest out \<Longrightarrow> spliced (p @ m @ a @ rest) (f p m a @ out)"
  shows "spliced s (rxReplaceAll pat f b s)"
proof (induction s arbitrary: b rule: length_induct)
  case (1 s)
  have step: "spliced s (case s of [] \<Rightarrow> [] | c # cs \<Rightarrow> c # rxReplaceAll pat f (Some c) cs)"
    using 1 by (cases s) (auto intro: spliced_Cons spliced.whole)
  show ?case
  proof (cases "rxFirst pat b s")
    case (Some r)
    obtain s1 s2 b3 s3 where r: "r = (s1, s2, b3, s3)" by (metis prod.collapse)
    show ?thesis
    proof (cases "length s3 < length s")
      case True
      with 1 have "spliced s3 (rxReplaceAll pat f b3 s3)" by blast
      from f [OF this, of "take (length s - length s1) s" "take (length s1 - length s2) s1" "take (length s2 - length s3) s2"]
      show ?thesis using Some r True rxFirst_parts [of pat b s s1 s2 b3 s3] rxReplaceAll.simps [of pat f b s] by simp
    qed (use Some r step rxReplaceAll.simps [of pat f b s] in simp)
  qed (use step rxReplaceAll.simps [of pat f b s] in simp)
qed


section \<open>What splicing preserves\<close>

text \<open>
  A text is apart from a marker if neither contains the other and no end of the one begins the other.  Then an occurrence
  of it never touches a marker.
\<close>

definition apart :: "string \<Rightarrow> string \<Rightarrow> bool" where
  "apart v m \<longleftrightarrow> v \<noteq> [] \<and> \<not> Contains m v \<and> \<not> Contains v m
     \<and> (\<forall>u \<in> set (suffixes v). u \<noteq> [] \<longrightarrow> \<not> prefix u m) \<and> (\<forall>u \<in> set (prefixes v). u \<noteq> [] \<longrightarrow> \<not> suffix u m)"

definition distinguishable :: "string \<Rightarrow> bool" where
  "distinguishable v \<longleftrightarrow> apart v Redacted \<and> apart v ('' '' @ Redacted)"

lemma Contains_sublist: "Contains s p \<longleftrightarrow> sublist p s"
proof (induction s)
  case (Cons x xs)
  then show ?case by (simp add: HasPrefix_iff_prefix sublist_Cons_right)
qed simp

lemma distinguishable_apart: "distinguishable v \<Longrightarrow> marker m \<Longrightarrow> apart v m"
  by (auto simp: distinguishable_def marker_def)

lemma marker_nonempty: "marker m \<Longrightarrow> m \<noteq> []"
  by (auto simp: marker_def Redacted_def)

lemma apart_prefix:
  assumes "apart v m" "prefix v (x @ m @ y)"
  shows "prefix v x"
proof (rule ccontr)
  assume "\<not> prefix v x"
  with assms(2) obtain u where u: "v = x @ u" "prefix u (m @ y)" "u \<noteq> []"
    by (auto simp: prefix_append)
  then consider "prefix u m" | "prefix m u" by (meson prefixI prefix_same_cases)
  then show False
  proof cases
    case 1
    with u assms(1) show False by (auto simp: apart_def suffix_def)
  next
    case 2
    then have "sublist m v" using u(1) by (auto simp: sublist_def prefix_def)
    with assms(1) show False by (simp add: apart_def Contains_sublist)
  qed
qed

lemma apart_sublist:
  assumes "apart v m" "m \<noteq> []" "sublist v (x @ m @ y)"
  shows "sublist v x \<or> sublist v y"
  using assms(3)
proof (induction x)
  case Nil
  then obtain a b where "m @ y = a @ v @ b" by (auto simp: sublist_def)
  then obtain c where c: "m = a @ c \<and> c @ y = v @ b \<or> m @ c = a \<and> y = c @ v @ b"
    unfolding append_eq_append_conv2 by blast
  show ?case
  proof (cases "c = [] \<or> m @ c = a \<and> y = c @ v @ b")
    case False
    with c have m: "m = a @ c" "c \<noteq> []" and "c @ y = v @ b" by auto
    then obtain w where "c = v @ w \<or> c @ w = v" unfolding append_eq_append_conv2 by blast
    then show ?thesis
    proof
      assume "c = v @ w"
      with m have "sublist v m" by (auto simp: sublist_def)
      with assms(1) show ?thesis by (simp add: apart_def Contains_sublist)
    next
      assume "c @ w = v"
      then have "prefix c v" "suffix c m" using m by (auto simp: suffix_def)
      with m assms(1) show ?thesis by (auto simp: apart_def)
    qed
  qed (use c in \<open>auto intro: prefix_imp_sublist sublist_appendI\<close>)
next
  case (Cons c x)
  then consider "prefix v ((c # x) @ m @ y)" | "sublist v (x @ m @ y)" by (auto simp: sublist_Cons_right)
  then show ?case
  proof cases
    case 1
    with apart_prefix [OF assms(1)] show ?thesis using prefix_imp_sublist by blast
  qed (use Cons.IH in \<open>auto simp: sublist_Cons_right\<close>)
qed

lemma spliced_prefix: "spliced s out \<Longrightarrow> distinguishable v \<Longrightarrow> prefix v out \<Longrightarrow> prefix v s"
proof (induction rule: spliced.induct)
  case (cut m y out x w)
  then have "prefix v x" using apart_prefix distinguishable_apart by blast
  then show ?case by (simp add: prefix_prefix)
qed simp

lemma spliced_hides: "spliced s out \<Longrightarrow> distinguishable v \<Longrightarrow> sublist v out \<Longrightarrow> sublist v s"
proof (induction rule: spliced.induct)
  case (cut m y out x w)
  then have "sublist v x \<or> sublist v out" using apart_sublist distinguishable_apart marker_nonempty by blast
  with cut.IH cut.prems(1) have "sublist v x \<or> sublist v y" by blast
  then show ?case by (auto simp: sublist_def) (metis append.assoc)+
qed simp

lemma ReplaceAll_hides: "distinguishable v \<Longrightarrow> \<not> sublist v (ReplaceAll s v Redacted)"
proof (induction s rule: length_induct)
  case (1 s)
  have v: "apart v Redacted" "v \<noteq> []" using 1(2) by (auto simp: distinguishable_def apart_def)
  show ?case
  proof (cases s v Redacted rule: ReplaceAll_cases)
    case (hit rest)
    with 1 v have "\<not> sublist v (ReplaceAll rest v Redacted)" by simp
    with apart_sublist [OF v(1), of "[]" "ReplaceAll rest v Redacted"] hit v(2) show ?thesis
      by (auto simp: Redacted_def)
  next
    case (miss c rest)
    then have "\<not> prefix v (c # ReplaceAll rest v Redacted)"
      using spliced_prefix [OF spliced_Cons [OF spliced_ReplaceAll [of rest v]] 1(2), of c] v(2) by auto
    with miss 1 show ?thesis by (simp add: sublist_Cons_right)
  qed (use v in simp)
qed

lemma middle_hides: "distinguishable v \<Longrightarrow> sublist v (rxReplaceAll p redactMiddle b s) \<Longrightarrow> sublist v s"
  by (rule spliced_hides [OF spliced_rxReplaceAll [OF spliced_redactMiddle]])

lemma line_hides: "distinguishable v \<Longrightarrow> sublist v (rxReplaceAll p redactLine b s) \<Longrightarrow> sublist v s"
  by (rule spliced_hides [OF spliced_rxReplaceAll [OF spliced_redactLine]])

lemma redactPatterns_hides: "distinguishable v \<Longrightarrow> sublist v (redactPatterns t) \<Longrightarrow> sublist v t"
proof -
  assume d: "distinguishable v" and "sublist v (redactPatterns t)"
  then show "sublist v t" unfolding redactPatterns_def Let_def by (auto dest!: middle_hides [OF d] line_hides [OF d])
qed

text \<open>No known secret survives.\<close>

lemma Redact_hides:
  assumes "s \<in> set known" "IsSet s" "distinguishable (Reveal s)"
  shows "\<not> Contains (Redact t known) (Reveal s)"
proof -
  have "v \<in> set vs \<Longrightarrow> distinguishable v \<Longrightarrow> \<not> sublist v (fold (\<lambda>v t. ReplaceAll t v Redacted) vs t)" for v vs
  proof (induction vs rule: rev_induct)
    case (snoc u vs)
    let ?t = "fold (\<lambda>v t. ReplaceAll t v Redacted) vs t"
    have "\<not> sublist v (ReplaceAll ?t u Redacted)"
    proof (cases "v = u")
      case True
      with snoc.prems(2) show ?thesis using ReplaceAll_hides by simp
    next
      case False
      with snoc have "\<not> sublist v ?t" by simp
      with snoc.prems(2) show ?thesis using spliced_hides [OF spliced_ReplaceAll] by blast
    qed
    then show ?case by simp
  qed simp
  moreover have "Reveal s \<in> set (knownTexts known)" using assms by (simp add: knownTexts_def)
  ultimately show ?thesis using redactPatterns_hides assms(3) unfolding Redact_def Contains_sublist by blast
qed

lemma Redact_Redacted: "\<forall>s \<in> set known. IsSet s \<longrightarrow> distinguishable (Reveal s) \<Longrightarrow> Redact Redacted known = Redacted"
proof -
  assume d: "\<forall>s \<in> set known. IsSet s \<longrightarrow> distinguishable (Reveal s)"
  have absent: "\<not> sublist v s \<Longrightarrow> ReplaceAll s v Redacted = s" for v s
  proof (induction s rule: length_induct)
    case (1 s)
    then show ?case by (cases s v Redacted rule: ReplaceAll_cases) (auto simp: sublist_Cons_right)
  qed
  have "fold (\<lambda>v t. ReplaceAll t v Redacted) vs Redacted = Redacted" if "\<forall>v \<in> set vs. distinguishable v" for vs
    using that by (induction vs) (simp_all add: absent distinguishable_def apart_def Contains_sublist)
  moreover have "\<forall>v \<in> set (knownTexts known). distinguishable v" using d by (auto simp: knownTexts_def)
  moreover have "redactPatterns Redacted = Redacted" by code_simp
  ultimately show ?thesis by (simp add: Redact_def)
qed

end
