(* ===== verification/Configuration_Redaction.thy ===== *)
theory Configuration_Redaction
  imports Configuration_Merge Secret_Redaction
begin

text \<open>
  The redacted view of a resolved configuration (\<open>Effective\<close> of \<^verbatim>\<open>src/config/merge.go\<close>) and what it leaves out: the values of
  keys that name a secret, and the secrets of the configuration wherever else they stand.
\<close>

definition knownSecretValues :: "config_resolved \<Rightarrow> secret list" where
  "knownSecretValues r =
     [ecPassword (rvEtcd3 r), tcKeyPassword (ecTLS (rvEtcd3 r)), rcPassword (rvREST r), rcKeyPassword (rvREST r)]"

fun redactTextValues :: "secret list \<Rightarrow> cval \<Rightarrow> cval" where
  "redactTextValues known (CStr t) = CStr (Redact t known)"
| "redactTextValues known (CMap m) = CMap (map (\<lambda>(k, v). (k, redactTextValues known v)) m)"
| "redactTextValues known (CList vs) = CList (map (redactTextValues known) vs)"
| "redactTextValues known (CStrs ts) = CStrs (map (\<lambda>t. Redact t known) ts)"
| "redactTextValues known v = v"

definition Effective :: "config_resolved \<Rightarrow> cmap" where
  "Effective r =
     (case redactTextValues (knownSecretValues r) (CMap (redactMap (rvEffective r))) of CMap m \<Rightarrow> m | _ \<Rightarrow> [])"

text \<open>A value that shows neither a secret-shaped key's value nor a given text.\<close>

fun discloses_nothing :: "string list \<Rightarrow> cval \<Rightarrow> bool" where
  "discloses_nothing hidden (CStr t) = (\<forall>v \<in> set hidden. \<not> Contains t v)"
| "discloses_nothing hidden (CMap m) =
     (\<forall>kv \<in> set m. (isSecretKey (fst kv) \<longrightarrow> snd kv = CNull \<or> snd kv = CStr Redacted) \<and> discloses_nothing hidden (snd kv))"
| "discloses_nothing hidden (CList vs) = (\<forall>v \<in> set vs. discloses_nothing hidden v)"
| "discloses_nothing hidden (CStrs ts) = (\<forall>t \<in> set ts. \<forall>v \<in> set hidden. \<not> Contains t v)"
| "discloses_nothing hidden v = True"

text \<open>Everything but texts and the values of secret-shaped keys is shown as it is, in its place.\<close>

fun same_shape :: "cval \<Rightarrow> cval \<Rightarrow> bool" where
  "same_shape (CMap m) (CMap n) =
     list_all2 (\<lambda>x y. fst x = fst y \<and> (isSecretKey (fst x) \<or> same_shape (snd x) (snd y))) m n"
| "same_shape (CList vs) (CList ws) = list_all2 same_shape vs ws"
| "same_shape (CStr s) (CStr t) = True"
| "same_shape (CStrs ss) (CStrs ts) = (length ss = length ts)"
| "same_shape v w = (v = w)"

definition distinguishable_secrets :: "secret list \<Rightarrow> bool" where
  "distinguishable_secrets known \<longleftrightarrow> (\<forall>s \<in> set known. IsSet s \<longrightarrow> distinguishable (Reveal s))"

definition secretTexts :: "secret list \<Rightarrow> string list" where
  "secretTexts known = map Reveal (filter IsSet known)"

lemma redactMap_map: "redactMap m = map (\<lambda>(k, v). (k, redactMember k v)) m"
  by (induction m) auto

lemma redactList_map: "redactList vs = map redactItem vs"
  by (induction vs) auto

lemma redactItem_simps: "redactItem (CMap m) = CMap (redactMap m)" "redactItem (CList vs) = CList (redactList vs)"
  by simp_all

lemma Redact_shows_nothing:
  "distinguishable_secrets known \<Longrightarrow> v \<in> set (secretTexts known) \<Longrightarrow> \<not> Contains (Redact t known) v"
  by (auto simp: distinguishable_secrets_def secretTexts_def Redact_hides)

lemma redacted_discloses_nothing:
  assumes "distinguishable_secrets known"
  shows "discloses_nothing (secretTexts known) (redactTextValues known (redactItem v))"
proof (induction v rule: cval.induct)
  case (CMap m)
  have "discloses_nothing (secretTexts known) (redactTextValues known (redactMember k w))
      \<and> (isSecretKey k \<longrightarrow> redactTextValues known (redactMember k w) \<in> {CNull, CStr Redacted})" if "(k, w) \<in> set m" for k w
    using CMap [OF that] Redact_Redacted [OF assms [unfolded distinguishable_secrets_def]]
      Redact_shows_nothing [OF assms, of _ Redacted] by auto
  then show ?case by (fastforce simp: redactMap_map simp del: redactMember.simps)
qed (auto simp: redactList_map Redact_shows_nothing [OF assms])

lemma redacted_same_shape: "same_shape v (redactTextValues known (redactItem v))"
proof (induction v rule: cval.induct)
  case (CMap m)
  then show ?case by (auto simp: redactMap_map list_all2_conv_all_nth split_beta) (metis nth_mem prod.collapse snds.intros)
next
  case (CList vs)
  then show ?case by (auto simp: redactList_map list_all2_conv_all_nth)
qed simp_all

lemma Effective_value: "CMap (Effective r) = redactTextValues (knownSecretValues r) (redactItem (CMap (rvEffective r)))"
  by (simp add: Effective_def)

lemma Effective_safe:
  "distinguishable_secrets (knownSecretValues r) \<Longrightarrow>
     discloses_nothing (secretTexts (knownSecretValues r)) (CMap (Effective r))"
  "same_shape (CMap (rvEffective r)) (CMap (Effective r))"
  unfolding Effective_value by (rule redacted_discloses_nothing redacted_same_shape | assumption)+

text \<open>
  The sanitizer takes more than the secret: when nothing follows the colon on the line of a secret-shaped name, the expression
  goes on to the next line, which is lost.
\<close>

lemma redaction_takes_next_line:
  "Redact (''password:'' @ [newline] @ ''user: bob'' @ [newline] @ ''port: 5432'') [] =
     ''password: [REDACTED]'' @ [newline] @ ''port: 5432''"
  by code_simp

end
