(* ===== verification/Inspect.thy ===== *)
theory Inspect
  imports Configuration_Redaction Configuration_Resolve Reads_Spec "HOL-Library.Multiset"
begin

text \<open>
  \<^verbatim>\<open>src/control/inspect.go\<close>: the local diagnostic of a configuration, and the service that offers nothing but it.
\<close>

section \<open>The service\<close>

text \<open>The snapshot reader without capabilities. It gets the context of the call that reads.\<close>

definition configurationSnapshot :: "'w goctx \<Rightarrow> target \<Rightarrow> 'w \<Rightarrow> (goerror + snapshot) \<times> 'w" where
  "configurationSnapshot ctx t w =
     (let fail = (\<lambda>kind cause. Inl (DCSError kind ''snapshot'' [] DeliveryUnknown (Some cause)))
      in case ctx of
           None \<Rightarrow> (fail DcsConfiguration (errorsNew ''context is required''), w)
         | Some look \<Rightarrow>
             (case look w of
                (Some e, w1) \<Rightarrow> (fail DcsCanceled e, w1)
              | (None, w1) \<Rightarrow> (fail DcsConfiguration (errorsNew ''configuration-only service has no DCS capability''), w1)))"

definition NewConfigurationService :: "'w goruntime \<Rightarrow> 'w goctx \<Rightarrow> ('w \<Rightarrow> gotime \<times> 'w) option \<Rightarrow> ('w \<Rightarrow> string \<times> 'w) option
    \<Rightarrow> ('w, goerror + 'w service) prog" where
  "NewConfigurationService rt ctx clock newOperationID =
     NewService rt \<lparr>optSnapshots = Some (configurationSnapshot ctx), optDiscovery = None, optPatroni = None, optConfig = None,
       optFailover = None, optRemover = None, optClock = clock, optNewOperationID = newOperationID, optProductVersion = [],
       optRandomIndex = None, optWait = None, optVerificationAttempts = 0, optSupportedRange = None, optStandbyAttempts = 0,
       optStandbyInterval = 0\<rparr>"


section \<open>The inspection\<close>













section \<open>What it shows\<close>







section \<open>An inspection\<close>




end
