(* ===== verification/Spec2Isabelle.thy ===== *)
theory Spec2Isabelle
  imports Transition_Spec Member_Ops_Spec Pause_Spec Flush_Spec Single_Write_Properties Cluster_View_Spec Reads_Spec
    Dcs_Decode_Spec Rest_Client_Spec Etcd_Server Configuration_Spec Inspect
begin

text \<open>
  A verification development for go-patroni, a Go library and command line tool that operates
  Patroni clusters: it reads cluster state from etcd and issues operations over Patroni's REST API,
  falling back to compare-and-swap writes in etcd where patronictl does.

  The program.  Package \<open>model\<close> holds resource identities and versions.  Package \<open>dcs\<close> (with
  \<open>dcs/etcd3\<close>) reads and decodes the keys of a cluster into a snapshot and writes single keys.  The
  root package is the REST client with its catalogue of endpoints and features.  Package \<open>control\<close> is the
  heart: a \<open>Service\<close> prepares a \<open>Plan\<close> from fresh snapshots, executes it after revalidation, and
  returns a \<open>Result\<close> whose outcome SUCCEEDED, FAILED or UNKNOWN must be backed by evidence.  Its
  contract is that an ambiguous write is never reported as a failure.  Package \<open>config\<close> reads a configuration
  document, merges its contexts and remembers where every value came from; \<open>internal/secret\<close> keeps credentials out of
  what is printed.  The command line (\<open>cli\<close>) and the packages that open connections only call these.

  Effects.  Everything outside the program is a type \<open>'w\<close>: a capability (snapshot reader,
  discoverer, REST client, the DCS writers, clock, context, random source, wait) is a function on it, so
  its answers are arbitrary and may change with every call.  A program is a state monad over a
  \<open>world\<close> that also records the calls with their answers as a list of \<open>event\<close>s;
  \<open>valid es m Q\<close> says that every run of \<open>m\<close> behind the events \<open>es\<close> ends with a result and events that
  satisfy \<open>Q\<close>.  All programs here are total functions: the loops of the code are bounded by
  \<open>verificationAttempts\<close> or by the length of a list and are recursive on that bound, so no fuel
  is needed.

  The theories.
  \<^item> \<^theory_text>\<open>Go_Strings\<close>, \<^theory_text>\<open>Go_Json\<close>, \<^theory_text>\<open>Go_Time\<close>, \<^theory_text>\<open>Go_Url\<close>: the parts of Go's standard library the source uses
    (\<open>strings\<close>, \<open>strconv\<close>, \<open>encoding/json\<close> values, \<open>time\<close>, \<open>net/url\<close>), and \<open>patroniBaseURL\<close>.
  \<^item> \<^theory_text>\<open>Target\<close> (\<open>model/target.go\<close>): targets, normalisation, validation, canonical identities, their
    parser; identities round trip and are injective.
  \<^item> \<^theory_text>\<open>Version\<close> (\<open>model/version.go\<close>): versions, SemVer precedence as a locale \<open>comparison\<close>, ranges.
  \<^item> \<^theory_text>\<open>Catalog\<close> (\<open>catalog.go\<close>): features, health aliases, the endpoint catalogue by version.
  \<^item> \<^theory_text>\<open>Dcs_Types\<close> (\<open>dcs/types.go\<close>, \<open>dcs/errors.go\<close>), \<^theory_text>\<open>Control_Types\<close> (\<open>control/errors.go\<close>, \<open>result.go\<close>,
    \<open>plan.go\<close>), \<^theory_text>\<open>Write_Types\<close> (\<open>control/write_types.go\<close>, \<open>read_types.go\<close>): the data and its validation.
  \<^item> \<^theory_text>\<open>Effects\<close>, \<^theory_text>\<open>Control_Base\<close> (\<open>control/service.go\<close>, \<open>version_gate.go\<close>, parts of \<open>read.go\<close> and
    \<open>reload.go\<close>): capabilities and events, service construction, operation IDs, evidence, failed
    results, error classification; the vocabulary of traces and the locale \<open>readback\<close>, the contract of a
    verification loop.
  \<^item> \<^theory_text>\<open>Transition\<close>, \<^theory_text>\<open>Transition_Spec\<close> (\<open>control/failover.go\<close>): failover and switchover with the legacy
    endpoint, the DCS fallback and its verification.
  \<^item> \<^theory_text>\<open>Batch\<close>, \<^theory_text>\<open>Batch_Spec\<close> (\<open>control/citus.go\<close> and the shared parts of \<open>reload.go\<close>, \<open>read.go\<close>,
    \<open>discover.go\<close>), \<^theory_text>\<open>Group_Reads\<close>: reading one or all Citus groups, each discovered group once, resolving planned members, aborting on a changed
    target set, aggregating outcomes; the locales \<open>classifier\<close> and \<open>member_step\<close>.
  \<^item> \<^theory_text>\<open>Member_Ops\<close>, \<^theory_text>\<open>Reinitialize\<close>, \<^theory_text>\<open>Member_Ops_Spec\<close> (\<open>control/reload.go\<close>, \<open>restart.go\<close>,
    \<open>reinitialize.go\<close>): the three member-wise operations and their properties.
  \<^item> \<^theory_text>\<open>Verify_Loop\<close>: the verification loop that flush and pause write out one by one, as a combinator, and its
    contract, the locale \<open>verification\<close>; \<^theory_text>\<open>Leader_First\<close>: asking members one after another until one
    answers, the locale \<open>leader_first\<close>, which flushing a switchover and pausing both interpret.
  \<^item> \<^theory_text>\<open>Pause\<close>, \<^theory_text>\<open>Pause_Spec\<close> (\<open>control/pause.go\<close>): pause and resume; the outcome as a verdict on the trace.
  \<^item> \<^theory_text>\<open>Flush\<close>, \<^theory_text>\<open>Flush_Run\<close>, \<^theory_text>\<open>Flush_Spec\<close> (\<open>control/flush.go\<close>): flushing scheduled restarts and a scheduled
    switchover with its compare-and-delete of the failover key.
  \<^item> \<^theory_text>\<open>Go_Json_Spec\<close>: what the JSON model is checked against: reading the text of a value gives the value back, so
    equal texts are equal values. \<^theory_text>\<open>Config_Edit\<close>, \<^theory_text>\<open>Config_Edit_Spec\<close> (first half of \<open>control/edit_config.go\<close>): previews of
    configuration edits, on JSON objects read as Go maps; they do not depend on the order of the keys.
  \<^item> \<^theory_text>\<open>Plan_Tokens\<close> (\<open>planToken\<close> of \<open>service.go\<close>): the tokens that bind a plan to its request. The keyed hash is the
    parameter \<open>rtHMAC\<close>; that its text has 64 digits is the hypothesis \<open>tokens_ok\<close>. \<^theory_text>\<open>Edit_Config\<close> (second half of
    \<open>control/edit_config.go\<close>), \<^theory_text>\<open>Remove\<close> (\<open>control/remove.go\<close>), \<^theory_text>\<open>Standby_Cluster\<close> (\<open>control/standby_cluster.go\<close>): the
    operations that write once.
  \<^item> \<^theory_text>\<open>Single_Write\<close>: their shape as a locale: read, decide, look at the context, write, read back; its interpretations
    and what is special to each are \<^theory_text>\<open>Edit_Config_Spec\<close>, \<^theory_text>\<open>Remove_Spec\<close>, \<^theory_text>\<open>Standby_Cluster_Spec\<close>; their properties,
    \<^theory_text>\<open>Single_Write_Properties\<close>.
  \<^item> \<^theory_text>\<open>Cluster_View\<close>, \<^theory_text>\<open>Cluster_View_Spec\<close> (\<open>model/cluster.go\<close>, \<open>model/state.go\<close> and the projections of \<open>control/read.go\<close>): what
    operators see of a snapshot, with the replication positions as 64-bit integers that wrap around; the topology is a forest that
    shows every member once. \<^theory_text>\<open>Reads\<close>, \<^theory_text>\<open>Reads_Spec\<close> (\<open>control/read.go\<close>, \<open>control/discover.go\<close>): the operations that only
    read, and what their results show.
  \<^item> \<^theory_text>\<open>Go_Decode\<close>: how \<open>encoding/json\<close> stores a value in a Go variable of a given type, shared by the decoders.
    \<^theory_text>\<open>Dcs_Decode\<close>, \<^theory_text>\<open>Dcs_Decode_Spec\<close> (\<open>dcs/decode.go\<close>): from the keys and values of a cluster to its snapshot and to the
    inventory of clusters; what the operations write is what the decoder reads back.
  \<^item> \<^theory_text>\<open>Rest_Client\<close>, \<^theory_text>\<open>Rest_Endpoints\<close>, \<^theory_text>\<open>Rest_Client_Spec\<close> (\<open>client.go\<close>, \<open>endpoints.go\<close>, \<open>types.go\<close>): building a request,
    following redirects of reads only, the limits on bodies, decoding the answers. One HTTP exchange is the parameter
    \<open>hcTransport\<close>; the number of exchanges a redirected read may take is \<open>hcHops\<close>, the limit of \<open>net/http\<close>.
  \<^item> \<^theory_text>\<open>Etcd_Store\<close>, \<^theory_text>\<open>Etcd_Spec\<close> (\<open>dcs/etcd3/store.go\<close>, \<open>txn.go\<close>, \<open>entry.go\<close>): the etcd driver over its client library, whose
    answer to a request is the parameter \<open>etCall\<close>. \<^theory_text>\<open>Etcd_Server\<close>: a key-value store with revisions as the documented reference
    for such answers, which other clients change between the requests and whose answers can be lost; against it, every write
    of the driver is atomic and every read is complete, both on the state the server holds when the request arrives.
  \<^item> \<^theory_text>\<open>Configuration\<close>, \<^theory_text>\<open>Configuration_Merge\<close>, \<^theory_text>\<open>Configuration_Project\<close>, \<^theory_text>\<open>Configuration_Resolve\<close> (\<open>config/config.go\<close>,
    \<open>load.go\<close>, \<open>merge.go\<close>, \<open>network.go\<close>, \<open>project.go\<close>, \<open>resolve.go\<close>, \<open>validate.go\<close>): documents as trees of values, contexts that
    extend each other, the merge of their layers with the source of every path, locators and flags, and what is projected
    from the result. \<^theory_text>\<open>Configuration_Merge_Spec\<close>, \<^theory_text>\<open>Configuration_Spec\<close>: a merge seen path by path, so that
    the value in force and its source are those of the latest layer that speaks about the path.
  \<^item> \<^theory_text>\<open>Go_Regexp\<close>, \<^theory_text>\<open>Secret_Redaction\<close>, \<^theory_text>\<open>Configuration_Redaction\<close>, \<^theory_text>\<open>Inspect\<close> (\<open>internal/secret/value.go\<close>, the redaction of
    \<open>config/merge.go\<close>, \<open>control/inspect.go\<close>): leftmost-first matching of regular expressions, the sanitizer, and what the
    diagnostic of a configuration shows and what it does not.
  \<^item> \<^theory_text>\<open>Example_Service\<close>: a scripted two-member cluster on which the witnesses run the operations.

  Where a Go function mixes several steps, its model is split into definitions named after the
  step, in the order of the code.  Go maps that are only searched become association lists or
  list searches that return what the map lookup returns; \<open>sort.Slice\<close> is a stable sort, which
  differs from Go only on elements with equal keys. Where Go distinguishes a nil slice or map from an empty one,
  nil is \<open>None\<close>. Configuration values are JSON values with their numbers as text, as the decoder of the source
  builds them.

  Not modelled, with the reasons in the manifest: \<open>net/http\<close> below one exchange, the etcd client library and its watch stream,
  TLS, the command line and its rendering, the PostgreSQL query paths. Of package \<open>config\<close> the YAML library, the file system,
  the default path, the process environment and \<open>time.ParseDuration\<close> are parameters, and the retained YAML node with
  \<open>EffectiveYAML\<close> is not modelled. Of an error of the JSON decoder
  only its presence is modelled.
  Functions of the standard library that compute with floating point or randomness are parameters
  (\<open>goruntime\<close>).
\<close>


section \<open>Verifications that give up\<close>

text \<open>What a verification that failed has tried: every reading, or all up to a canceled wait.\<close>

definition tried :: "'w service \<Rightarrow> (snapshot \<Rightarrow> bool) \<Rightarrow> event list \<Rightarrow> bool" where
  "tried svc good ds =
     (\<not> list_ex (exhibits good) ds
      \<and> (length (filter is_reading ds) = nat (svcVerificationAttempts svc)
         \<or> (\<exists>d c. ds \<noteq> [] \<and> last ds = EvWait d (Some c))))"

text \<open>C35: A verification does not give up early. When reading back after a pause, a flush of restarts or
  a flush of a switchover ends without confirmation, no reading showed the wanted state, and either all
  \<open>verificationAttempts\<close> readings were made or the context was canceled during a wait.\<close>

theorem verifications_persist:
  "valid [] (verifyPauseState svc pi planned) (\<lambda>(ok, _) ds. ok \<or> tried svc (pauseConverged pi planned) ds)
   \<and> valid [] (verifyRestartFlush svc t name) (\<lambda>(ok, _) ds. ok \<or> tried svc (restartFlushed name) ds)
   \<and> valid [] (verifySwitchoverFlush svc t) (\<lambda>(ok, _) ds. ok \<or> tried svc (\<lambda>sn. \<not> switchoverScheduled sn) ds)"
  unfolding tried_def
  by (intro conjI pause_reading.gives_up restart_flush_reading.gives_up switchover_flush_reading.gives_up)


section \<open>Properties across the operations\<close>

text \<open>C26: Plans are honest. Preparing a reload, restart, reinitialization, pause, resume or flush issues
  nothing but snapshot reads and discoveries. When it succeeds, the plan is valid and passes the plan check of the
  execution for the same request; its targets are members of the snapshots read that the request selects, and its Citus groups
  are theirs; a pause or resume was made from a snapshot that is not in the wanted state and whose member set the execution
  would find unchanged; a flush of a switchover would proceed on the same snapshot exactly if a switchover is scheduled
  there.\<close>

theorem prepared_plans_accepted:
  "valid [] (PrepareReload svc ctx rl)
     (prepared (normalizedWriteRole (rlRole rl)) (fst (snd (normalizeReloadRequest rl))) (reload_accepts rl))
   \<and> valid [] (PrepareRestart svc ctx rs)
     (prepared (normalizedWriteRole (rsRole rs)) (fst (snd (normalizeRestartRequest (svcRuntime svc) rs)))
        (restart_accepts (svcRuntime svc) rs))
   \<and> valid [] (PrepareReinitialize svc ctx ri)
     (prepared RoleReplica (fst (snd (normalizeReinitializeRequest ri))) (reinit_accepts ri))
   \<and> valid [] (PreparePause svc ctx pa) (pause_prepared svc (fst (normalizePauseRequest ''pause'' True pa)))
   \<and> valid [] (PrepareResume svc ctx pa) (pause_prepared svc (fst (normalizePauseRequest ''resume'' False pa)))
   \<and> valid [] (PrepareFlush svc ctx fl) (flush_prepared fl)"
  using batch_plans_roundtrip [of svc ctx rl rs ri] pause_plans_roundtrip [of svc ctx pa] flush_plans_roundtrip [of svc ctx fl]
  by blast

text \<open>C27: Executions are bounded, whatever the services answer. A failover or switchover makes at most three writes and
  \<open>9 + 2 * verificationAttempts\<close> calls in all; an edit of the configuration and a removal make at most one write and
  \<open>3 * verificationAttempts + 5\<close> calls in all; a change of the cluster role makes at most one write, and its calls are
  the readings before the decision, at most one or, for a Citus cluster, one discovery and at most one snapshot for each cluster
  that it found, followed by at most \<open>3 * standbyAttempts + 4\<close> calls, the readings of the verification included.\<close>

theorem executions_bounded:
  "valid [] (executeTransition svc ctx intent requestError p)
     (\<lambda>r es. length es \<le> 9 + 2 * nat (svcVerificationAttempts svc) \<and> length (filter is_write es) \<le> 3)
   \<and> valid [] (ExecuteEditConfig svc ctx erq p) (\<lambda>r es. length (filter is_write es) \<le> 1
       \<and> length es \<le> 3 * nat (svcVerificationAttempts svc) + 5)
   \<and> valid [] (ExecuteRemove svc ctx rrq c p) (\<lambda>r es. length (filter is_write es) \<le> 1
       \<and> length es \<le> 3 * nat (svcVerificationAttempts svc) + 5)
   \<and> valid [] (ExecuteDemoteCluster svc ctx drq p) (\<lambda>r es. length (filter is_write es) \<le> 1
       \<and> (\<exists>reads ds. es = reads @ ds \<and> few_reads reads \<and> length ds \<le> 3 * nat (svcStandbyAttempts svc) + 4))
   \<and> valid [] (ExecutePromoteCluster svc ctx prq p) (\<lambda>r es. length (filter is_write es) \<le> 1
       \<and> (\<exists>reads ds. es = reads @ ds \<and> few_reads reads \<and> length ds \<le> 3 * nat (svcStandbyAttempts svc) + 4))"
  using transition_bounded [of svc ctx intent requestError p] single_writes_bounded [of svc ctx erq p rrq c drq prq]
  by blast

text \<open>C25: Results are well formed. With a clock that shows no zero time and requests for valid targets, the result of preparing
  or executing a failover or switchover, and of executing a reload, restart or reinitialization, passes \<open>Result.Validate\<close>: it has an
  operation ID, authoritative evidence, and an error exactly when it did not succeed, in category UNKNOWN exactly when the outcome
  is unknown; each member result passes \<open>MemberWriteResult.Validate\<close>. The results of pause, resume, flush, edit-config, remove,
  demote and promote pass \<open>Result.Validate\<close> as well, and so does their data: that of a pause or resume passes
  \<open>PauseData.Validate\<close> when no revision is negative, in every case but one: an execution that had nothing to change, waited, and
  could not verify the members. The data of the other operations is the zero data of an early failure or passes the \<open>Validate\<close>
  method of its type when no reading reports a negative revision, no deletion a negative count and no answer a negative
  status.\<close>

theorem results_valid:
  assumes "clock_ok svc" and "target_ok (Normalize (foTarget rq))" and "target_ok (Normalize (swTarget sq))"
    and "target_ok (Normalize (rlTarget rl))" and "target_ok (Normalize (rsTarget rs))" and "target_ok (Normalize (riTarget ri))"
    and "target_ok (Normalize (pqTarget pa))" and "target_ok (Normalize (fqTarget fl))" and "target_ok (Normalize t)"
  shows "valid [] (PrepareFailover svc ctx rq) (\<lambda>r es. result_Validate r = None)
    \<and> valid [] (ExecuteFailover svc ctx rq p) (\<lambda>r es. result_Validate r = None)
    \<and> valid [] (PrepareSwitchover svc ctx sq) (\<lambda>r es. result_Validate r = None)
    \<and> valid [] (ExecuteSwitchover svc ctx sq p) (\<lambda>r es. result_Validate r = None)
    \<and> valid [] (ExecuteReload svc ctx rl p) (\<lambda>r es. batch_valid r)
    \<and> valid [] (ExecuteRestart svc ctx rs p) (\<lambda>r es. batch_valid r)
    \<and> valid [] (ExecuteReinitialize svc ctx ri p) (\<lambda>r es. batch_valid r)
    \<and> valid [] (ExecutePause svc ctx pa p) pause_valid \<and> valid [] (ExecuteResume svc ctx pa p) pause_valid
    \<and> valid [] (ExecuteFlush svc ctx fl p) flush_valid
    \<and> valid [] (ExecuteEditConfig svc ctx (erq\<lparr>eqTarget := t\<rparr>) p) edit_valid
    \<and> valid [] (ExecuteRemove svc ctx (rrq\<lparr>rqTarget := t\<rparr>) c p) remove_valid
    \<and> valid [] (ExecuteDemoteCluster svc ctx (drq\<lparr>dmTarget := t\<rparr>) p) standby_valid
    \<and> valid [] (ExecutePromoteCluster svc ctx (prq\<lparr>pmTarget := t\<rparr>) p) standby_valid"
  using transition_results_valid [OF assms(1-3)] batch_results_valid [OF assms(1,4-6)]
    pause_results_valid [OF assms(1,7)] flush_results_valid [OF assms(1,8)] single_write_results_valid [OF assms(1,9)]
  by blast

theorem results_valid_witness:
  "result_Validate (fst (demoRun (ExecuteFailover (demoService demoSteady restFailed casApplied) demoCtx demoFailover Transition_Spec.demoPlan))) = None
   \<and> batch_valid (fst (demoRun (ExecuteReinitialize (demoService demoRead (restStatus 200) casApplied) demoCtx demoReinit demoReinitPlan)))
   \<and> pause_valid (fst demoPauseRun) (snd demoPauseRun)
   \<and> flush_valid (fst (demoFlushRun (restStatus 503))) (snd (demoFlushRun (restStatus 503)))
   \<and> edit_valid (fst editRun) (snd editRun) \<and> remove_valid (fst removeRun) (snd removeRun)
   \<and> standby_valid (fst demoteRun) (snd demoteRun)"
proof -
  have t: "target_ok (Normalize (foTarget demoFailover))" "target_ok (Normalize (swTarget demoSwitchover))"
    "target_ok (Normalize (rlTarget demoReload))" "target_ok (Normalize (rsTarget demoRestart))"
    "target_ok (Normalize (riTarget demoReinit))" "target_ok (Normalize (pqTarget (demoPause False)))"
    "target_ok (Normalize (fqTarget demoFlush))" "target_ok (Normalize demoTarget)" by code_simp+
  have u: "editRequest\<lparr>eqTarget := demoTarget\<rparr> = editRequest" "removeDemo\<lparr>rqTarget := demoTarget\<rparr> = removeDemo"
    "demoteDemo\<lparr>dmTarget := demoTarget\<rparr> = demoteDemo"
    by (simp_all add: editRequest_def removeDemo_def demoteDemo_def)
  note v = results_valid [OF demo_clock t]
  have "valid [] (ExecuteFailover (demoService demoSteady restFailed casApplied) demoCtx demoFailover Transition_Spec.demoPlan)
      (\<lambda>r es. result_Validate r = None)"
    "valid [] (ExecuteReinitialize (demoService demoRead (restStatus 200) casApplied) demoCtx demoReinit demoReinitPlan) (\<lambda>r es. batch_valid r)"
    "valid [] (ExecutePause (demoService demoPauseRead restAmbiguous casApplied) demoCtx (demoPause False) (demoPausePlan False)) pause_valid"
    using v by blast+
  moreover have "valid [] (ExecuteFlush (demoFlushService (restStatus 503)) demoCtx demoFlush demoFlushPlan) flush_valid"
    unfolding demoFlushService_def using v by blast
  moreover note single = results_valid [OF demo_writer_ok(1) t]
  have "valid [] (ExecuteEditConfig (demoWriter editReads) demoCtx (editRequest\<lparr>eqTarget := demoTarget\<rparr>) editPlan) edit_valid"
    "valid [] (ExecuteRemove (demoWriter removeReads) demoCtx (removeDemo\<lparr>rqTarget := demoTarget\<rparr>) removeConfirmed removeDemoPlan) remove_valid"
    "valid [] (ExecuteDemoteCluster (demoWriter standbyReads) demoCtx (demoteDemo\<lparr>dmTarget := demoTarget\<rparr>) demotePlan) standby_valid"
    using single by blast+
  ultimately show ?thesis
    unfolding u demoPauseRun_def demoFlushRun_def editRun_def removeRun_def demoteRun_def
    by (blast dest: valid_demoRun)
qed


end
